(* ===== verification/Prelude.thy ===== *)
theory Prelude
  imports Main "HOL-Library.AList" "HOL-Library.Sublist" "HOL-Library.Multiset"
begin

text \<open>Shared vocabulary of the development: the JavaScript notions that the TypeScript sources use
  everywhere (strings and their methods, \<open>Map\<close> with insertion order, decimal conversion of
  integers), the collections of rewrite rules the component theories extend, and the list lemmas
  that several of them need.

  A JavaScript string is a \<^typ>\<open>string\<close>: a list of code units below 256.  A JavaScript \<open>Map\<close> is an
  association list in insertion order: \<^const>\<open>map_of\<close> reads it, \<^const>\<open>AList.update\<close> keeps the
  position of an existing key and appends a new one, \<^const>\<open>AList.delete\<close> removes a key, which are
  exactly \<open>get\<close>, \<open>set\<close> and \<open>delete\<close>.\<close>

named_theorems wp_simps "weakest precondition of the program combinators"
named_theorems db_simps "behaviour of the repository operations"
named_theorems sig_simps "behaviour of abort signals and deadlines"

type_synonym ('k, 'v) jsmap = "('k \<times> 'v) list"

abbreviation js_get :: "('k, 'v) jsmap \<Rightarrow> 'k \<Rightarrow> 'v option" where
  "js_get m k \<equiv> map_of m k"

abbreviation js_set :: "'k \<Rightarrow> 'v \<Rightarrow> ('k, 'v) jsmap \<Rightarrow> ('k, 'v) jsmap" where
  "js_set k v m \<equiv> AList.update k v m"

abbreviation js_delete :: "'k \<Rightarrow> ('k, 'v) jsmap \<Rightarrow> ('k, 'v) jsmap" where
  "js_delete k m \<equiv> AList.delete k m"

abbreviation js_has :: "('k, 'v) jsmap \<Rightarrow> 'k \<Rightarrow> bool" where
  "js_has m k \<equiv> map_of m k \<noteq> None"

section \<open>Strings\<close>

definition startsWith :: "string \<Rightarrow> string \<Rightarrow> bool" where
  "startsWith p s = (take (length p) s = p)"

fun indexOf :: "char \<Rightarrow> string \<Rightarrow> nat option" where
  "indexOf c [] = None"
| "indexOf c (x # xs) = (if x = c then Some 0 else map_option Suc (indexOf c xs))"

text \<open>\<open>s.split(c)\<close> for a one-character separator: always at least one piece.\<close>

fun splitOn :: "char \<Rightarrow> string \<Rightarrow> string list" where
  "splitOn c [] = [[]]"
| "splitOn c (x # xs) = (if x = c then [] # splitOn c xs
     else (case splitOn c xs of [] \<Rightarrow> [[x]] | p # ps \<Rightarrow> (x # p) # ps))"

fun joinWith :: "string \<Rightarrow> string list \<Rightarrow> string" where
  "joinWith sep [] = []"
| "joinWith sep [x] = x"
| "joinWith sep (x # y # ys) = x @ sep @ joinWith sep (y # ys)"

text \<open>\<open>Buffer.byteLength(s, 'utf-8')\<close>: code units below 128 take one byte, those from 128 to 255 two.\<close>

definition byteLength :: "string \<Rightarrow> nat" where
  "byteLength s = sum_list (map (\<lambda>c. if of_char c < (128 :: nat) then 1 else 2) s)"

definition isDigit :: "char \<Rightarrow> bool" where
  "isDigit c = (48 \<le> (of_char c :: nat) \<and> (of_char c :: nat) \<le> 57)"

definition digitVal :: "char \<Rightarrow> nat" where
  "digitVal c = of_char c - 48"

definition toLowerChar :: "char \<Rightarrow> char" where
  "toLowerChar c = (let n = (of_char c :: nat) in if 65 \<le> n \<and> n \<le> 90 then char_of (n + 32) else c)"

definition toLowerCase :: "string \<Rightarrow> string" where
  "toLowerCase s = map toLowerChar s"

definition isSpace :: "char \<Rightarrow> bool" where
  "isSpace c = (let n = (of_char c :: nat) in n = 32 \<or> (9 \<le> n \<and> n \<le> 13) \<or> n = 160)"

definition trim :: "string \<Rightarrow> string" where
  "trim s = rev (dropWhile isSpace (rev (dropWhile isSpace s)))"

section \<open>Decimal conversion\<close>

definition digitChar :: "nat \<Rightarrow> char" where
  "digitChar d = char_of (48 + d)"

fun natToString :: "nat \<Rightarrow> string" where
  "natToString n = (if n < 10 then [digitChar n] else natToString (n div 10) @ [digitChar (n mod 10)])"

declare natToString.simps [simp del]

definition intToString :: "int \<Rightarrow> string" where
  "intToString i = (if i < 0 then CHR ''-'' # natToString (nat (- i)) else natToString (nat i))"

definition digitsVal :: "string \<Rightarrow> nat" where
  "digitsVal s = fold (\<lambda>c n. n * 10 + digitVal c) s 0"

text \<open>\<open>Number.parseInt(s, 10)\<close> on an optional sign followed by a digit prefix; no digits give
  \<open>NaN\<close> (\<^const>\<open>None\<close>).\<close>

definition parseInt :: "string \<Rightarrow> int option" where
  "parseInt s = (let t = dropWhile isSpace s;
       (neg, u) = (case t of c # cs \<Rightarrow> if c = CHR ''-'' then (True, cs)
                                        else if c = CHR ''+'' then (False, cs) else (False, t)
                           | [] \<Rightarrow> (False, []));
       ds = takeWhile isDigit u
     in if ds = [] then None
        else Some (if neg then - int (digitsVal ds) else int (digitsVal ds)))"

section \<open>Lemmas on lists and strings\<close>

lemma isDigit_digitChar [simp]: "d < 10 \<Longrightarrow> isDigit (digitChar d)"
  by (simp add: isDigit_def digitChar_def)

lemma digitVal_digitChar [simp]: "d < 10 \<Longrightarrow> digitVal (digitChar d) = d"
  by (simp add: digitVal_def digitChar_def)

lemma natToString_digits: "c \<in> set (natToString n) \<Longrightarrow> isDigit c"
proof (induction n rule: natToString.induct)
  case (1 n)
  then show ?case by (subst (asm) (2) natToString.simps) (auto split: if_splits)
qed

lemma natToString_ne [simp]: "natToString n \<noteq> []"
  by (subst natToString.simps) simp

lemma digitsVal_append: "digitsVal (xs @ [c]) = digitsVal xs * 10 + digitVal c"
  by (simp add: digitsVal_def)

lemma digitsVal_natToString [simp]: "digitsVal (natToString n) = n"
proof (induction n rule: natToString.induct)
  case (1 n)
  then show ?case
    by (subst natToString.simps) (auto simp: digitsVal_append, simp add: digitsVal_def)
qed

lemma natToString_inject [simp]: "natToString m = natToString n \<longleftrightarrow> m = n"
  by (metis digitsVal_natToString)

lemma startsWith_append [simp]: "startsWith p (p @ s)"
  by (simp add: startsWith_def)

lemma startsWith_iff: "startsWith p s \<longleftrightarrow> (\<exists>t. s = p @ t)"
  by (metis startsWith_def startsWith_append append_take_drop_id)

lemma splitOn_ne [simp]: "splitOn c s \<noteq> []"
  by (induction s) (auto split: list.splits)

lemma splitOn_no_sep: "c \<notin> set s \<Longrightarrow> splitOn c s = [s]"
  by (induction s) auto

lemma splitOn_append_sep: "splitOn c (xs @ c # ys) = splitOn c xs @ splitOn c ys"
  by (induction xs) (auto split: list.splits)

lemma joinWith_splitOn: "joinWith [c] (splitOn c s) = s"
proof (induction s)
  case (Cons x xs)
  then show ?case by (cases "splitOn c xs"; cases "tl (splitOn c xs)") auto
qed simp

lemma takeWhile_app_all: "(\<And>x. x \<in> set xs \<Longrightarrow> P x) \<Longrightarrow> takeWhile P (xs @ ys) = xs @ takeWhile P ys"
  by simp

lemma dropWhile_app_all: "(\<And>x. x \<in> set xs \<Longrightarrow> P x) \<Longrightarrow> dropWhile P (xs @ ys) = dropWhile P ys"
  by simp

lemma map_of_filter_key: "map_of (filter (\<lambda>p. fst p \<noteq> k) xs) k' = (if k' = k then None else map_of xs k')"
  by (induction xs) auto

lemma filter_map_id: "(\<And>x. x \<in> set xs \<Longrightarrow> P x \<Longrightarrow> f x = x) \<Longrightarrow> map (\<lambda>x. if P x then f x else x) xs = xs"
  by (induction xs) auto

lemma length_AList_update: "length (AList.update k v m) = (if k \<in> fst ` set m then length m else Suc (length m))"
  by (induction m) auto

lemma length_AList_delete_le: "length (AList.delete k m) \<le> length m"
  by (simp add: AList.delete_eq)

end
