(* ===== verification/Json.thy ===== *)
theory Json
  imports Prelude
begin

text \<open>JSON values with \<open>JSON.stringify\<close> and \<open>JSON.parse\<close> of ECMAScript, which the runtime uses for
  tool arguments, tool results and the persisted content of assistant and tool messages.

  Numbers are integers (a literal with a fraction or an exponent is outside the model and rejected),
  strings hold code units below 256 (an escape above \<open>\u00ff\<close> is outside the model).  An object is the
  association list of its own properties in insertion order; parsing a repeated key keeps the last
  value, as \<open>JSON.parse\<close> does.  The parser is fuelled by the length of its input, which
  \<open>parse_stringify\<close> shows to be enough for everything \<open>stringify\<close> prints.\<close>

datatype json = JNull | JBool bool | JNum int | JStr string | JArr "json list" | JObj "(string \<times> json) list"

section \<open>Printing\<close>

definition hexDigit :: "nat \<Rightarrow> char" where
  "hexDigit n = char_of (if n < 10 then 48 + n else 87 + n)"

definition escChar :: "char \<Rightarrow> string" where
  "escChar c = (let n = (of_char c :: nat) in
     if n = 34 then [CHR 0x5C, CHR 0x22]
     else if n = 92 then [CHR 0x5C, CHR 0x5C]
     else if n = 8 then [CHR 0x5C, CHR ''b'']
     else if n = 9 then [CHR 0x5C, CHR ''t'']
     else if n = 10 then [CHR 0x5C, CHR ''n'']
     else if n = 12 then [CHR 0x5C, CHR ''f'']
     else if n = 13 then [CHR 0x5C, CHR ''r'']
     else if n < 32 then [CHR 0x5C, CHR ''u'', CHR ''0'', CHR ''0'', hexDigit (n div 16), hexDigit (n mod 16)]
     else [c])"

definition strLit :: "string \<Rightarrow> string" where
  "strLit s = CHR 0x22 # concat (map escChar s) @ [CHR 0x22]"

fun stringify :: "json \<Rightarrow> string" where
  "stringify JNull = ''null''"
| "stringify (JBool b) = (if b then ''true'' else ''false'')"
| "stringify (JNum i) = intToString i"
| "stringify (JStr s) = strLit s"
| "stringify (JArr vs) = ''['' @ joinWith '','' (map stringify vs) @ '']''"
| "stringify (JObj ps) = ''{'' @ joinWith '','' (map (\<lambda>(k, v). strLit k @ '':'' @ stringify v) ps) @ ''}''"

section \<open>Parsing\<close>

definition isJsonWs :: "char \<Rightarrow> bool" where
  "isJsonWs c = (let n = (of_char c :: nat) in n = 32 \<or> n = 9 \<or> n = 10 \<or> n = 13)"

abbreviation skipWs :: "string \<Rightarrow> string" where
  "skipWs \<equiv> dropWhile isJsonWs"

definition hexVal :: "char \<Rightarrow> nat option" where
  "hexVal c = (let n = (of_char c :: nat) in
     if 48 \<le> n \<and> n \<le> 57 then Some (n - 48)
     else if 97 \<le> n \<and> n \<le> 102 then Some (n - 87)
     else if 65 \<le> n \<and> n \<le> 70 then Some (n - 55) else None)"

definition unescape :: "char \<Rightarrow> char option" where
  "unescape c = (if c = CHR 0x22 then Some (CHR 0x22) else if c = CHR 0x5C then Some (CHR 0x5C)
     else if c = CHR ''/'' then Some (CHR ''/'') else if c = CHR ''b'' then Some (CHR 0x08)
     else if c = CHR ''t'' then Some (CHR 0x09) else if c = CHR ''n'' then Some (CHR 0x0A)
     else if c = CHR ''f'' then Some (CHR 0x0C) else if c = CHR ''r'' then Some (CHR 0x0D) else None)"

fun hex4 :: "string \<Rightarrow> (char \<times> string) option" where
  "hex4 (a # b # c # d # r) = (case (hexVal a, hexVal b, hexVal c, hexVal d) of
      (Some 0, Some 0, Some x, Some y) \<Rightarrow> Some (char_of (16 * x + y), r) | _ \<Rightarrow> None)"
| "hex4 _ = None"

lemma hex4_length: "hex4 s = Some (c, r) \<Longrightarrow> length r < length s"
  by (induction s rule: hex4.induct) (auto split: option.splits nat.splits)

text \<open>The body of a string literal, after its opening quote.\<close>

function p_str :: "string \<Rightarrow> (string \<times> string) option" where
  "p_str [] = None"
| "p_str (c # cs) = (if c = CHR 0x22 then Some ([], cs)
     else if c = CHR 0x5C then (case cs of [] \<Rightarrow> None
       | e # es \<Rightarrow> if e = CHR ''u''
           then (case hex4 es of None \<Rightarrow> None
                 | Some (x, r) \<Rightarrow> map_option (\<lambda>(s, t). (x # s, t)) (p_str r))
           else (case unescape e of None \<Rightarrow> None
                 | Some x \<Rightarrow> map_option (\<lambda>(s, t). (x # s, t)) (p_str es)))
     else if (of_char c :: nat) < 32 then None
     else map_option (\<lambda>(s, t). (c # s, t)) (p_str cs))"
  by pat_completeness auto
termination
  by (relation "measure length") (auto dest: hex4_length)

definition p_nat :: "string \<Rightarrow> (nat \<times> string) option" where
  "p_nat s = (let ds = takeWhile isDigit s; r = dropWhile isDigit s in
     if ds = [] \<or> (hd ds = CHR ''0'' \<and> tl ds \<noteq> [])
        \<or> (r \<noteq> [] \<and> hd r \<in> {CHR ''.'', CHR ''e'', CHR ''E''}) then None
     else Some (digitsVal ds, r))"

definition p_num :: "string \<Rightarrow> (json \<times> string) option" where
  "p_num s = (case s of c # cs \<Rightarrow> if c = CHR ''-'' then map_option (\<lambda>(n, r). (JNum (- int n), r)) (p_nat cs)
       else map_option (\<lambda>(n, r). (JNum (int n), r)) (p_nat s) | [] \<Rightarrow> None)"

definition p_lit :: "string \<Rightarrow> json \<Rightarrow> string \<Rightarrow> (json \<times> string) option" where
  "p_lit w v s = (if startsWith w s then Some (v, drop (length w) s) else None)"

definition mkObj :: "(string \<times> json) list \<Rightarrow> json" where
  "mkObj ps = JObj (fold (\<lambda>(k, v) m. js_set k v m) ps [])"

fun p_val :: "nat \<Rightarrow> string \<Rightarrow> (json \<times> string) option"
and p_elems :: "nat \<Rightarrow> string \<Rightarrow> (json list \<times> string) option"
and p_members :: "nat \<Rightarrow> string \<Rightarrow> ((string \<times> json) list \<times> string) option" where
  "p_val 0 s = None"
| "p_val (Suc n) s = (case skipWs s of [] \<Rightarrow> None
     | c # cs \<Rightarrow>
       if c = CHR 0x22 then map_option (\<lambda>(t, r). (JStr t, r)) (p_str cs)
       else if c = CHR ''['' then
         (if startsWith '']'' (skipWs cs) then Some (JArr [], tl (skipWs cs))
          else map_option (\<lambda>(vs, r). (JArr vs, r)) (p_elems n cs))
       else if c = CHR ''{'' then
         (if startsWith ''}'' (skipWs cs) then Some (JObj [], tl (skipWs cs))
          else map_option (\<lambda>(ps, r). (mkObj ps, r)) (p_members n cs))
       else if c = CHR ''n'' then p_lit ''null'' JNull (c # cs)
       else if c = CHR ''t'' then p_lit ''true'' (JBool True) (c # cs)
       else if c = CHR ''f'' then p_lit ''false'' (JBool False) (c # cs)
       else p_num (c # cs))"
| "p_elems 0 s = None"
| "p_elems (Suc n) s = (case p_val n s of None \<Rightarrow> None
     | Some (v, r) \<Rightarrow> (case skipWs r of [] \<Rightarrow> None
         | c # r' \<Rightarrow> if c = CHR '']'' then Some ([v], r')
             else if c = CHR '','' then map_option (\<lambda>(vs, t). (v # vs, t)) (p_elems n r')
             else None))"
| "p_members 0 s = None"
| "p_members (Suc n) s = (case skipWs s of [] \<Rightarrow> None
     | q # r0 \<Rightarrow> if q \<noteq> CHR 0x22 then None else (case p_str r0 of None \<Rightarrow> None
         | Some (k, r1) \<Rightarrow> (case skipWs r1 of [] \<Rightarrow> None
             | col # r2 \<Rightarrow> if col \<noteq> CHR '':'' then None else (case p_val n r2 of None \<Rightarrow> None
                 | Some (v, r3) \<Rightarrow> (case skipWs r3 of [] \<Rightarrow> None
                     | c # r4 \<Rightarrow> if c = CHR ''}'' then Some ([(k, v)], r4)
                         else if c = CHR '','' then map_option (\<lambda>(ps, t). ((k, v) # ps, t)) (p_members n r4)
                         else None)))))"

definition parse :: "string \<Rightarrow> json option" where
  "parse s = (case p_val (Suc (length s)) s of
      Some (v, r) \<Rightarrow> if skipWs r = [] then Some v else None | None \<Rightarrow> None)"

text \<open>Objects with distinct property names, at every depth: what a JavaScript value is.\<close>

fun wf_json :: "json \<Rightarrow> bool" where
  "wf_json (JArr vs) = (\<forall>v \<in> set vs. wf_json v)"
| "wf_json (JObj ps) = (distinct (map fst ps) \<and> (\<forall>p \<in> set ps. wf_json (snd p)))"
| "wf_json _ = True"

text \<open>Property access, \<open>'k' in o\<close> and \<open>o.k\<close> on a parsed value; \<^const>\<open>None\<close> is \<open>undefined\<close>.\<close>

fun getProp :: "string \<Rightarrow> json \<Rightarrow> json option" where
  "getProp k (JObj ps) = map_of ps k"
| "getProp k _ = None"

text \<open>An object literal whose \<open>undefined\<close> properties \<open>JSON.stringify\<close> omits.\<close>

definition objOf :: "(string \<times> json option) list \<Rightarrow> json" where
  "objOf ps = JObj (concat (map (\<lambda>(k, v). case v of None \<Rightarrow> [] | Some x \<Rightarrow> [(k, x)]) ps))"

section \<open>The round trip\<close>

lemma hex_hexDigit: "n < 16 \<Longrightarrow> hexVal (hexDigit n) = Some n"
  by (simp add: hexVal_def hexDigit_def)

lemma of_char_lt [simp]: "(of_char (c :: char) :: nat) < 256"
  using of_char_mod_256 [of c] by (metis mod_less_divisor zero_less_numeral)

lemma char_eq_nat: "(c :: char) = d \<longleftrightarrow> (of_char c :: nat) = of_char d"
  by simp

lemma p_str_esc: "p_str (escChar c @ r) = map_option (\<lambda>(s, t). (c # s, t)) (p_str r)"
proof -
  consider "(of_char c :: nat) \<in> {34, 92, 8, 9, 10, 12, 13}"
    | "(of_char c :: nat) < 32" "(of_char c :: nat) \<notin> {34, 92, 8, 9, 10, 12, 13}"
    | "32 \<le> (of_char c :: nat)" "(of_char c :: nat) \<notin> {34, 92, 8, 9, 10, 12, 13}"
    by linarith
  then show ?thesis
  proof cases
    case 1
    then have "c = CHR 0x22 \<or> c = CHR 0x5C \<or> c = CHR 0x08 \<or> c = CHR 0x09 \<or> c = CHR 0x0A \<or> c = CHR 0x0C \<or> c = CHR 0x0D"
      unfolding char_eq_nat by auto
    then show ?thesis by (auto simp: escChar_def unescape_def)
  next
    case 2
    let ?n = "of_char c :: nat"
    have "hexVal (hexDigit (?n div 16)) = Some (?n div 16)" "hexVal (hexDigit (?n mod 16)) = Some (?n mod 16)"
      using 2 by (auto intro: hex_hexDigit)
    moreover have "hexVal (CHR ''0'') = Some 0" by (simp add: hexVal_def)
    ultimately have "hex4 (CHR ''0'' # CHR ''0'' # hexDigit (?n div 16) # hexDigit (?n mod 16) # r) = Some (c, r)"
      by simp
    then show ?thesis using 2 by (simp add: escChar_def Let_def)
  next
    case 3
    then have "c \<noteq> CHR 0x22" "c \<noteq> CHR 0x5C" by auto
    then show ?thesis using 3 by (simp add: escChar_def Let_def)
  qed
qed

lemma p_str_body: "p_str (concat (map escChar s) @ CHR 0x22 # r) = Some (s, r)"
  by (induction s) (auto simp: p_str_esc)

lemma digit_not_ws: "isDigit c \<Longrightarrow> \<not> isJsonWs c"
  by (auto simp: isDigit_def isJsonWs_def)

lemma natToString_head: "\<exists>c cs. natToString n = c # cs \<and> isDigit c \<and> (c = CHR ''0'' \<longrightarrow> cs = [])"
proof (induction n rule: natToString.induct)
  case (1 n)
  show ?case
  proof (cases "n < 10")
    case True
    then show ?thesis by (subst natToString.simps) auto
  next
    case False
    then obtain c cs where c: "natToString (n div 10) = c # cs" "isDigit c" "c = CHR ''0'' \<longrightarrow> cs = []"
      using 1 by auto
    have "c \<noteq> CHR ''0''"
    proof
      assume "c = CHR ''0''"
      then have "n div 10 = digitsVal ''0''" using c by (metis digitsVal_natToString)
      then show False using False by (simp add: digitsVal_def digitVal_def)
    qed
    then show ?thesis using c False by (subst natToString.simps) auto
  qed
qed

definition numEnd :: "string \<Rightarrow> bool" where
  "numEnd r = (r = [] \<or> (\<not> isDigit (hd r) \<and> hd r \<notin> {CHR ''.'', CHR ''e'', CHR ''E''}))"

lemma p_nat_natToString: "numEnd r \<Longrightarrow> p_nat (natToString n @ r) = Some (n, r)"
proof -
  assume r: "numEnd r"
  obtain c cs where c: "natToString n = c # cs" "isDigit c" "c = CHR ''0'' \<longrightarrow> cs = []"
    using natToString_head by blast
  have "takeWhile isDigit (natToString n @ r) = natToString n" "dropWhile isDigit (natToString n @ r) = r"
    using r by (cases r; auto simp: numEnd_def natToString_digits takeWhile_app_all dropWhile_app_all)+
  moreover have "hd (natToString n) = CHR ''0'' \<longrightarrow> tl (natToString n) = []" using c by simp
  ultimately show ?thesis using r by (auto simp: p_nat_def Let_def numEnd_def)
qed

lemma minus_not_digit: "\<not> isDigit (CHR ''-'')"
  by (simp add: isDigit_def)

lemma p_num_int: "numEnd r \<Longrightarrow> p_num (intToString i @ r) = Some (JNum i, r)"
proof -
  assume r: "numEnd r"
  obtain c cs where c: "natToString (nat i) = c # cs" "isDigit c" using natToString_head by blast
  then have "c \<noteq> CHR ''-''" using minus_not_digit by auto
  then show ?thesis using r c p_nat_natToString [OF r, of "nat i"] p_nat_natToString [OF r, of "nat (- i)"]
    by (cases "i < 0") (simp_all add: p_num_def intToString_def)
qed

fun cost :: "json \<Rightarrow> nat" and costs :: "json list \<Rightarrow> nat" and costp :: "(string \<times> json) list \<Rightarrow> nat" where
  "cost (JArr vs) = Suc (costs vs)"
| "cost (JObj ps) = Suc (costp ps)"
| "cost _ = 1"
| "costs [] = 0"
| "costs (v # vs) = Suc (max (cost v) (costs vs))"
| "costp [] = 0"
| "costp (p # ps) = Suc (max (cost (snd p)) (costp ps))"

lemma intToString_cons: "\<exists>c cs. intToString i = c # cs \<and> (isDigit c \<or> c = CHR ''-'')"
proof (cases "i < 0")
  case False
  then show ?thesis using natToString_head [of "nat i"] by (auto simp: intToString_def)
qed (simp add: intToString_def)

lemma intToString_length: "Suc 0 \<le> length (intToString i)"
  using intToString_cons [of i] by auto

lemma stringify_cons: "\<exists>c cs. stringify v = c # cs \<and> \<not> isJsonWs c \<and> c \<noteq> CHR '']'' \<and> c \<noteq> CHR ''}''"
proof (cases v)
  case (JNum i)
  then show ?thesis using intToString_cons [of i] by (auto simp: isDigit_def isJsonWs_def)
qed (auto simp: strLit_def isJsonWs_def)

lemma intToString_branch:
  assumes "intToString i = c # cs"
  shows "c \<noteq> CHR 0x22" "c \<noteq> CHR ''[''" "c \<noteq> CHR ''{''" "c \<noteq> CHR ''n''" "c \<noteq> CHR ''t''" "c \<noteq> CHR ''f''" "\<not> isJsonWs c"
  using intToString_cons [of i] assms by (auto simp: isDigit_def isJsonWs_def)

lemma fold_set_distinct:
  "distinct (map fst (m @ ps)) \<Longrightarrow> fold (\<lambda>(k, v) m. js_set k v m) ps m = m @ ps"
proof (induction ps arbitrary: m)
  case (Cons p ps)
  have "AList.update (fst p) (snd p) m = m @ [p]" if "fst p \<notin> fst ` set m" for m
    using that by (induction m) auto
  then show ?case using Cons by (auto simp: case_prod_beta)
qed simp

lemma mkObj_distinct: "distinct (map fst ps) \<Longrightarrow> mkObj ps = JObj ps"
  by (simp add: mkObj_def fold_set_distinct)

lemma p_val_scalar:
  assumes "numEnd r" "\<And>vs. v \<noteq> JArr vs" "\<And>ps. v \<noteq> JObj ps"
  shows "p_val (Suc n) (stringify v @ r) = Some (v, r)"
proof (cases v)
  case (JNum i)
  then obtain c cs where c: "intToString i = c # cs" using intToString_cons by blast
  show ?thesis using JNum c p_num_int [OF assms(1), of i] intToString_branch [OF c] by simp
next
  case (JStr s)
  then show ?thesis by (simp add: strLit_def isJsonWs_def p_str_body)
qed (use assms in \<open>auto simp: isJsonWs_def p_lit_def startsWith_def\<close>)

lemma numEnd_delim [simp]: "numEnd (CHR '','' # r)" "numEnd (CHR '']'' # r)" "numEnd (CHR ''}'' # r)"
  by (auto simp: numEnd_def isDigit_def)

lemma ws_delim [simp]: "\<not> isJsonWs (CHR '','')" "\<not> isJsonWs (CHR '']'')" "\<not> isJsonWs (CHR ''}'')"
  "\<not> isJsonWs (CHR ''['')" "\<not> isJsonWs (CHR ''{'')" "\<not> isJsonWs (CHR '':'')" "\<not> isJsonWs (CHR 0x22)"
  by (auto simp: isJsonWs_def)

abbreviation memberText :: "string \<times> json \<Rightarrow> string" where
  "memberText \<equiv> \<lambda>(k, v). strLit k @ '':'' @ stringify v"

lemma joinWith_Cons: "joinWith sep (x # xs) = x @ (if xs = [] then [] else sep @ joinWith sep xs)"
  by (cases xs) auto

lemma p_val_stringify:
  "cost v \<le> n \<Longrightarrow> wf_json v \<Longrightarrow> numEnd r \<Longrightarrow> p_val n (stringify v @ r) = Some (v, r)"
  and p_elems_stringify:
  "costs vs \<le> n \<Longrightarrow> vs \<noteq> [] \<Longrightarrow> \<forall>v \<in> set vs. wf_json v \<Longrightarrow>
     p_elems n (joinWith '','' (map stringify vs) @ '']'' @ r) = Some (vs, r)"
  and p_members_stringify:
  "costp ps \<le> n \<Longrightarrow> ps \<noteq> [] \<Longrightarrow> \<forall>p \<in> set ps. wf_json (snd p) \<Longrightarrow>
     p_members n (joinWith '','' (map memberText ps) @ ''}'' @ r) = Some (ps, r)"
proof (induction v and vs and ps arbitrary: n r and n r and n r rule: cost_costs_costp.induct)
  case (1 vs)
  then obtain m where n: "n = Suc m" by (cases n) auto
  show ?case
  proof (cases vs)
    case (Cons v ws)
    obtain c cs where c: "stringify v = c # cs" "\<not> isJsonWs c" "c \<noteq> CHR '']''" using stringify_cons by blast
    show ?thesis using 1(1) [of m r] 1(2-) n Cons c by (auto simp: startsWith_def joinWith_Cons)
  qed (simp add: n startsWith_def)
next
  case (2 ps)
  then obtain m where n: "n = Suc m" by (cases n) auto
  show ?case
  proof (cases ps)
    case (Cons p qs)
    have "p_members m (joinWith '','' (map memberText ps) @ ''}'' @ r) = Some (ps, r)"
      using 2 Cons n by simp
    moreover have "\<not> startsWith ''}'' (skipWs (joinWith '','' (map memberText ps) @ ''}'' @ r))"
      using Cons by (cases p) (simp add: startsWith_def joinWith_Cons strLit_def)
    ultimately show ?thesis using n 2 by (simp add: mkObj_distinct)
  qed (simp add: n startsWith_def)
next
  case (5 v vs)
  then obtain m where n: "n = Suc m" by (cases n) auto
  show ?case using 5 n by (cases vs) (auto simp: joinWith_Cons)
next
  case (7 p ps)
  then obtain m where n: "n = Suc m" by (cases n) auto
  obtain k v where p: "p = (k, v)" by (cases p)
  show ?case using 7 n p by (cases ps) (auto simp: joinWith_Cons strLit_def p_str_body)
qed (auto intro!: p_val_scalar simp del: stringify.simps p_val.simps dest!: Suc_le_D)

lemma cost_length:
  "cost v \<le> length (stringify v)"
  "costs vs \<le> Suc (length (joinWith '','' (map stringify vs)))"
  "costp ps \<le> Suc (length (joinWith '','' (map memberText ps)))"
proof (induction v and vs and ps rule: cost_costs_costp.induct)
qed (auto simp: strLit_def joinWith_Cons intToString_length split: prod.splits)

text \<open>Whatever \<open>JSON.stringify\<close> prints, \<open>JSON.parse\<close> reads back.\<close>

lemma parse_stringify: "wf_json v \<Longrightarrow> parse (stringify v) = Some v"
  using p_val_stringify [of v "Suc (length (stringify v))" "[]"] cost_length(1) [of v]
  by (simp add: parse_def numEnd_def del: p_val.simps)

text \<open>The contract its clients use: a printer and a parser with the parser a left inverse on
  well-formed values.\<close>

locale json_codec =
  fixes enc :: "json \<Rightarrow> string" and dec :: "string \<Rightarrow> json option"
  assumes dec_enc: "wf_json v \<Longrightarrow> dec (enc v) = Some v"
begin

lemma enc_inj: "wf_json v \<Longrightarrow> wf_json w \<Longrightarrow> enc v = enc w \<longleftrightarrow> v = w"
  by (metis dec_enc option.inject)

end

interpretation js: json_codec stringify parse
  by unfold_locales (rule parse_stringify)

end
