(* ===== verification/Shared_Types.thy ===== *)
theory Shared_Types
  imports Complex_Main Json
begin

text \<open>The package \<open>shared\<close>: error codes and \<open>SwiftAgentError\<close>, identifiers with their prefixes, the
  records and status enumerations of the persisted entities, the \<open>ChatEvent\<close> union that streams to
  clients, the runner wire protocol, and protocol version negotiation.  \<open>nanoid\<close> is a third-party
  package: the generators take the sequence of its draws as a parameter, and the theorems that need
  fresh identifiers assume that the draws are pairwise different.\<close>

section \<open>Errors\<close>

datatype SwiftAgentErrorCode = VALIDATION | NOT_FOUND | CONFLICT | RATE_LIMIT | PROVIDER_ERROR
  | UNAUTHORIZED | FORBIDDEN | INTERNAL | TIMEOUT | CONNECTION_ERROR | INCOMPATIBLE_VERSION

definition codeName :: "SwiftAgentErrorCode \<Rightarrow> string" where
  "codeName c = (case c of VALIDATION \<Rightarrow> ''VALIDATION'' | NOT_FOUND \<Rightarrow> ''NOT_FOUND'' | CONFLICT \<Rightarrow> ''CONFLICT''
     | RATE_LIMIT \<Rightarrow> ''RATE_LIMIT'' | PROVIDER_ERROR \<Rightarrow> ''PROVIDER_ERROR'' | UNAUTHORIZED \<Rightarrow> ''UNAUTHORIZED''
     | FORBIDDEN \<Rightarrow> ''FORBIDDEN'' | INTERNAL \<Rightarrow> ''INTERNAL'' | TIMEOUT \<Rightarrow> ''TIMEOUT''
     | CONNECTION_ERROR \<Rightarrow> ''CONNECTION_ERROR'' | INCOMPATIBLE_VERSION \<Rightarrow> ''INCOMPATIBLE_VERSION'')"

definition CODE_TO_STATUS :: "SwiftAgentErrorCode \<Rightarrow> nat" where
  "CODE_TO_STATUS c = (case c of VALIDATION \<Rightarrow> 400 | NOT_FOUND \<Rightarrow> 404 | CONFLICT \<Rightarrow> 409
     | RATE_LIMIT \<Rightarrow> 429 | PROVIDER_ERROR \<Rightarrow> 502 | UNAUTHORIZED \<Rightarrow> 401 | FORBIDDEN \<Rightarrow> 403
     | INTERNAL \<Rightarrow> 500 | TIMEOUT \<Rightarrow> 504 | CONNECTION_ERROR \<Rightarrow> 503 | INCOMPATIBLE_VERSION \<Rightarrow> 409)"

datatype DeadlineScope = ScopeModel | ScopeTool | ScopeTotal

text \<open>What the database refuses: the constraints of the schema, or the connection.\<close>

datatype db_violation = UniqueViolation string | ForeignKeyViolation string | NotNullViolation string | Unavailable

text \<open>The values the code throws.  \<open>SwiftErr\<close> is a \<open>SwiftAgentError\<close>, \<open>TimeoutErr\<close> its subclass
  \<open>RunTimeoutError\<close>, \<open>AbortErr\<close> the \<open>DOMException\<close> of an abort without a reason, \<open>DbErr\<close> a rejected
  query, \<open>PlainErr\<close> an \<open>Error\<close> with its message.\<close>

datatype js_error = SwiftErr SwiftAgentErrorCode string | TimeoutErr DeadlineScope nat | AbortErr
  | DbErr db_violation | PlainErr string

fun scopeName :: "DeadlineScope \<Rightarrow> string" where
  "scopeName ScopeModel = ''model''" | "scopeName ScopeTool = ''tool''" | "scopeName ScopeTotal = ''total''"

text \<open>\<open>asError(e).message\<close>; the wording of database errors is the driver's, hence a parameter.\<close>

fun errMessage :: "(db_violation \<Rightarrow> string) \<Rightarrow> js_error \<Rightarrow> string" where
  "errMessage dbm (SwiftErr c m) = m"
| "errMessage dbm (TimeoutErr sc ms) = ''Run exceeded the '' @ scopeName sc @ '' deadline of '' @ natToString ms @ ''ms''"
| "errMessage dbm AbortErr = ''This operation was aborted''"
| "errMessage dbm (DbErr v) = dbm v"
| "errMessage dbm (PlainErr m) = m"

text \<open>\<open>error instanceof SwiftAgentError ? error.code : 'INTERNAL'\<close>.\<close>

fun errCode :: "js_error \<Rightarrow> string" where
  "errCode (SwiftErr c m) = codeName c"
| "errCode (TimeoutErr sc ms) = codeName TIMEOUT"
| "errCode _ = ''INTERNAL''"

section \<open>Identifiers\<close>

definition PREFIX_SESSION :: string where "PREFIX_SESSION = ''ses_''"
definition PREFIX_MESSAGE :: string where "PREFIX_MESSAGE = ''msg_''"
definition PREFIX_RUN :: string where "PREFIX_RUN = ''run_''"
definition PREFIX_TOOL_CALL :: string where "PREFIX_TOOL_CALL = ''tc_''"
definition PREFIX_AGENT :: string where "PREFIX_AGENT = ''agt_''"
definition PREFIX_WORKSPACE :: string where "PREFIX_WORKSPACE = ''ws_''"
definition PREFIX_API_KEY :: string where "PREFIX_API_KEY = ''ak_''"
definition PREFIX_TRACE :: string where "PREFIX_TRACE = ''tr_''"
definition PREFIX_SPAN :: string where "PREFIX_SPAN = ''sp_''"
definition PREFIX_USER :: string where "PREFIX_USER = ''usr_''"

text \<open>The \<open>n\<close>-th draw of \<open>nanoid(21)\<close> is the parameter \<open>nano n\<close>.\<close>

definition prefixedId :: "(nat \<Rightarrow> string) \<Rightarrow> string \<Rightarrow> nat \<Rightarrow> string" where
  "prefixedId nano pre n = pre @ nano n"

definition generateSessionId :: "(nat \<Rightarrow> string) \<Rightarrow> nat \<Rightarrow> string" where
  "generateSessionId nano n = prefixedId nano PREFIX_SESSION n"
definition generateMessageId :: "(nat \<Rightarrow> string) \<Rightarrow> nat \<Rightarrow> string" where
  "generateMessageId nano n = prefixedId nano PREFIX_MESSAGE n"
definition generateRunId :: "(nat \<Rightarrow> string) \<Rightarrow> nat \<Rightarrow> string" where
  "generateRunId nano n = prefixedId nano PREFIX_RUN n"
definition generateToolCallId :: "(nat \<Rightarrow> string) \<Rightarrow> nat \<Rightarrow> string" where
  "generateToolCallId nano n = prefixedId nano PREFIX_TOOL_CALL n"
definition generateAgentId :: "(nat \<Rightarrow> string) \<Rightarrow> nat \<Rightarrow> string" where
  "generateAgentId nano n = prefixedId nano PREFIX_AGENT n"
definition generateTraceId :: "(nat \<Rightarrow> string) \<Rightarrow> nat \<Rightarrow> string" where
  "generateTraceId nano n = prefixedId nano PREFIX_TRACE n"
definition generateSpanId :: "(nat \<Rightarrow> string) \<Rightarrow> nat \<Rightarrow> string" where
  "generateSpanId nano n = prefixedId nano PREFIX_SPAN n"

definition parsePrefix :: "string \<Rightarrow> string option" where
  "parsePrefix ident = (case indexOf (CHR ''_'') ident of None \<Rightarrow> None | Some i \<Rightarrow> Some (take (i + 1) ident))"

lemmas prefix_defs = PREFIX_SESSION_def PREFIX_MESSAGE_def PREFIX_RUN_def PREFIX_TOOL_CALL_def
  PREFIX_AGENT_def PREFIX_WORKSPACE_def PREFIX_API_KEY_def PREFIX_TRACE_def PREFIX_SPAN_def PREFIX_USER_def

lemmas generate_defs = generateSessionId_def generateMessageId_def generateRunId_def
  generateToolCallId_def generateAgentId_def generateTraceId_def generateSpanId_def prefixedId_def

lemma generateMessageId_inj: "inj nano \<Longrightarrow> generateMessageId nano m = generateMessageId nano n \<longleftrightarrow> m = n"
  by (auto simp: generate_defs dest: injD)

lemma generateToolCallId_inj: "inj nano \<Longrightarrow> generateToolCallId nano m = generateToolCallId nano n \<longleftrightarrow> m = n"
  by (auto simp: generate_defs dest: injD)

lemma generateRunId_inj: "inj nano \<Longrightarrow> generateRunId nano m = generateRunId nano n \<longleftrightarrow> m = n"
  by (auto simp: generate_defs dest: injD)

lemma parsePrefix_prefixedId:
  "indexOf (CHR ''_'') p = Some (length p - 1) \<Longrightarrow> p \<noteq> [] \<Longrightarrow> parsePrefix (prefixedId nano p n) = Some p"
proof -
  have ix: "indexOf c p = Some i \<Longrightarrow> indexOf c (p @ q) = Some i" for c i q
    by (induction p arbitrary: i) (auto split: if_splits)
  assume "indexOf (CHR ''_'') p = Some (length p - 1)" "p \<noteq> []"
  then show ?thesis by (simp add: parsePrefix_def prefixedId_def ix)
qed

section \<open>Entities\<close>

datatype RunStatus = Running | Completed | Failed | Cancelled | TimedOut
datatype ToolCallStatus = TcStarted | TcCompleted | TcFailed
datatype SessionStatus = Active | Closed
datatype MessageRole = System | User | Assistant | Tool
datatype MemoryStrategy = LastN | Summary

record TokenUsage =
  inputTokens :: nat
  outputTokens :: nat
  totalTokens :: nat

record ModelConfig =
  model :: string
  temperature :: "rat option"
  maxTokens :: "nat option"

record MemoryConfig =
  strategy :: MemoryStrategy
  maxMessages :: "nat option"

record ToolDefinition =
  td_name :: string
  td_description :: string
  td_inputSchema :: json

record AgentRecord =
  ag_agentId :: string
  ag_workspaceId :: string
  ag_name :: string
  ag_modelConfig :: ModelConfig
  ag_systemPrompt :: string
  ag_memoryConfig :: MemoryConfig
  ag_tools :: "ToolDefinition list"
  ag_toolRunnerUrl :: "string option"
  ag_createdAt :: nat
  ag_updatedAt :: nat

record SessionRecord =
  se_sessionId :: string
  se_agentId :: string
  se_userId :: "string option"
  se_status :: SessionStatus
  se_metadata :: "(string \<times> json) list"
  se_createdAt :: nat
  se_updatedAt :: nat

record RunRecord =
  ru_runId :: string
  ru_sessionId :: string
  ru_status :: RunStatus
  ru_model :: string
  ru_tokenUsage :: "TokenUsage option"
  ru_createdAt :: nat
  ru_updatedAt :: nat

record MessageRecord =
  me_messageId :: string
  me_sessionId :: string
  me_runId :: "string option"
  me_role :: MessageRole
  me_content :: string
  me_createdAt :: nat

record ToolCallRecord =
  tc_callId :: string
  tc_runId :: string
  tc_toolName :: string
  tc_input :: json
  tc_output :: "json option"
  tc_status :: ToolCallStatus
  tc_createdAt :: nat
  tc_updatedAt :: nat

section \<open>The event stream\<close>

datatype ChatEvent =
    MessageStarted (ev_messageId: string) (ev_runId: string) (ev_sessionId: string)
  | Token (ev_runId: string) (ev_sessionId: string) (ev_messageId: string) (ev_text: string)
  | ToolCallStarted (ev_callId: string) (ev_runId: string) (ev_sessionId: string) (ev_toolName: string)
  | ToolCallCompleted (ev_callId: string) (ev_runId: string) (ev_sessionId: string) (ev_toolName: string)
      (ev_status: ToolCallStatus)
  | MessageCompleted (ev_messageId: string) (ev_runId: string) (ev_sessionId: string)
  | RunFailed (ev_runId: string) (ev_sessionId: string) (ev_code: string) (ev_message: string)
      (ev_cause: "js_error option")

definition isTerminal :: "ChatEvent \<Rightarrow> bool" where
  "isTerminal e = (case e of MessageCompleted _ _ _ \<Rightarrow> True | RunFailed _ _ _ _ _ \<Rightarrow> True | _ \<Rightarrow> False)"

section \<open>Protocol versions\<close>

definition API_PROTOCOL_VERSION :: string where "API_PROTOCOL_VERSION = ''1''"
definition SDK_MIN_SERVER_PROTOCOL :: string where "SDK_MIN_SERVER_PROTOCOL = ''1''"
definition RUNNER_PROTOCOL_VERSION :: string where "RUNNER_PROTOCOL_VERSION = ''1''"
definition RUNNER_MAX_INPUT_BYTES :: nat where "RUNNER_MAX_INPUT_BYTES = 256 * 1024"
definition RUNNER_MAX_OUTPUT_BYTES :: nat where "RUNNER_MAX_OUTPUT_BYTES = 1024 * 1024"
definition RUNNER_MAX_ERROR_BYTES :: nat where "RUNNER_MAX_ERROR_BYTES = 8 * 1024"

text \<open>Comparisons with \<open>NaN\<close> (\<^const>\<open>None\<close>) are false.\<close>

definition numLess :: "int option \<Rightarrow> int option \<Rightarrow> bool" where
  "numLess a b = (case (a, b) of (Some x, Some y) \<Rightarrow> x < y | _ \<Rightarrow> False)"

definition assertProtocolCompatible :: "string option \<Rightarrow> string \<Rightarrow> string \<Rightarrow> js_error option" where
  "assertProtocolCompatible remote minV curV = (case remote of None \<Rightarrow> None
     | Some r \<Rightarrow> if r = [] then None
        else if parseInt r = None then Some (SwiftErr INCOMPATIBLE_VERSION
          (''Server advertised an unparseable protocol version \"'' @ r @ ''\". Expected an integer major (this SDK speaks ''
            @ curV @ ''). Upgrade @swiftagent/sdk or the server.''))
        else if numLess (parseInt r) (parseInt minV) then Some (SwiftErr INCOMPATIBLE_VERSION
          (''Server protocol '' @ r @ '' is older than this SDK supports (minimum '' @ minV @ '', current '' @ curV
            @ ''). Upgrade the Swift Agent server.''))
        else if numLess (parseInt curV) (parseInt r) then Some (SwiftErr INCOMPATIBLE_VERSION
          (''Server protocol '' @ r @ '' is newer than this SDK understands (this SDK speaks '' @ curV
            @ ''). Upgrade @swiftagent/sdk.''))
        else None)"

definition clampTtl :: "int \<Rightarrow> int \<Rightarrow> int \<Rightarrow> int" where
  "clampTtl ttl lo hi = max lo (min hi ttl)"

section \<open>The runner wire protocol\<close>

text \<open>A zod object schema in \<open>strict\<close> mode: exactly these keys, each optional or required, each value
  accepted by its schema.\<close>

definition strictObj :: "(string \<times> bool \<times> (json \<Rightarrow> bool)) list \<Rightarrow> json \<Rightarrow> bool" where
  "strictObj fs j = (case j of JObj ps \<Rightarrow>
       list_all (\<lambda>(k, _). k \<in> fst ` set fs) ps \<and>
       list_all (\<lambda>(k, req, ok). case map_of ps k of None \<Rightarrow> \<not> req | Some v \<Rightarrow> ok v) fs
     | _ \<Rightarrow> False)"

definition zString :: "json \<Rightarrow> bool" where
  "zString j = (case j of JStr _ \<Rightarrow> True | _ \<Rightarrow> False)"
definition zStartsWith :: "string \<Rightarrow> json \<Rightarrow> bool" where
  "zStartsWith p j = (case j of JStr s \<Rightarrow> startsWith p s | _ \<Rightarrow> False)"
definition zMin1 :: "json \<Rightarrow> bool" where
  "zMin1 j = (case j of JStr s \<Rightarrow> s \<noteq> [] | _ \<Rightarrow> False)"
definition zLiteral :: "string \<Rightarrow> json \<Rightarrow> bool" where
  "zLiteral l j = (j = JStr l)"
definition zRecord :: "json \<Rightarrow> bool" where
  "zRecord j = (case j of JObj _ \<Rightarrow> True | _ \<Rightarrow> False)"
definition zUnknown :: "json \<Rightarrow> bool" where
  "zUnknown j = True"

definition RunnerRequestContextSchema :: "json \<Rightarrow> bool" where
  "RunnerRequestContextSchema = strictObj
     [(''sessionId'', True, zStartsWith ''ses_''), (''agentId'', True, zStartsWith ''agt_''),
      (''runId'', True, zStartsWith ''run_''), (''callId'', True, zStartsWith ''tc_''),
      (''userId'', False, zString), (''metadata'', False, zRecord)]"

definition RunnerRequestSchema :: "json \<Rightarrow> bool" where
  "RunnerRequestSchema = strictObj
     [(''version'', True, zLiteral RUNNER_PROTOCOL_VERSION), (''idempotencyKey'', True, zMin1),
      (''input'', False, zUnknown), (''context'', True, RunnerRequestContextSchema)]"

definition RunnerSuccessResponseSchema :: "json \<Rightarrow> bool" where
  "RunnerSuccessResponseSchema = strictObj
     [(''version'', True, zLiteral RUNNER_PROTOCOL_VERSION), (''result'', False, zUnknown)]"

text \<open>The inner \<open>error\<close> object is not strict: unknown keys are stripped.\<close>

definition runnerErrorBody :: "json \<Rightarrow> bool" where
  "runnerErrorBody j = (case j of JObj ps \<Rightarrow>
      (case map_of ps ''code'' of Some v \<Rightarrow> zString v | None \<Rightarrow> False) \<and>
      (case map_of ps ''message'' of Some v \<Rightarrow> zString v | None \<Rightarrow> False) | _ \<Rightarrow> False)"

definition RunnerErrorResponseSchema :: "json \<Rightarrow> bool" where
  "RunnerErrorResponseSchema = strictObj
     [(''version'', True, zLiteral RUNNER_PROTOCOL_VERSION), (''error'', True, runnerErrorBody)]"

section \<open>Facts\<close>

lemma codeName_inj: "codeName c = codeName d \<longleftrightarrow> c = d"
  by (cases c; cases d; simp add: codeName_def)

lemma assertProtocolCompatible_iff:
  "assertProtocolCompatible remote SDK_MIN_SERVER_PROTOCOL API_PROTOCOL_VERSION = None \<longleftrightarrow>
     (case remote of None \<Rightarrow> True | Some r \<Rightarrow> r = [] \<or> parseInt r = Some 1)"
proof -
  have one: "parseInt ''1'' = Some 1"
    by (simp add: parseInt_def isSpace_def isDigit_def digitsVal_def digitVal_def)
  show ?thesis
    by (auto simp: assertProtocolCompatible_def SDK_MIN_SERVER_PROTOCOL_def API_PROTOCOL_VERSION_def
        one numLess_def split: option.splits)
qed

lemma clampTtl_bounds: "lo \<le> hi \<Longrightarrow> lo \<le> clampTtl t lo hi \<and> clampTtl t lo hi \<le> hi"
  by (auto simp: clampTtl_def)

end
