(* ===== verification/Database.thy ===== *)
theory Database
  imports Shared_Types
begin

text \<open>The package \<open>db\<close>: the tables as lists of rows in insertion order, with the primary keys, unique
  indexes, foreign keys and NOT NULL columns of \<open>schema/*.ts\<close>, and one definition per repository
  operation.  An operation returns the rejected query or its result with the new database.  The
  argument \<open>now\<close> is the database clock, which \<open>defaultNow()\<close> and \<open>new Date()\<close> read.

  The updates of \<open>run-repo\<close>, \<open>tool-call-repo\<close> and \<open>playground-spend-repo\<close> that are guarded by a live
  status share one contract, the locale \<open>guarded_transitions\<close>: the first write to reach a row decides
  it and no later write changes it.\<close>

record db =
  db_workspaces :: "string list"
  db_agents :: "AgentRecord list"
  db_sessions :: "SessionRecord list"
  db_runs :: "RunRecord list"
  db_messages :: "MessageRecord list"
  db_toolCalls :: "ToolCallRecord list"

definition emptyDb :: db where
  "emptyDb = \<lparr>db_workspaces = [], db_agents = [], db_sessions = [], db_runs = [], db_messages = [], db_toolCalls = []\<rparr>"

type_synonym 'a query = "db \<Rightarrow> js_error + 'a \<times> db"

section \<open>SQL statements\<close>

definition updateWhere :: "('r \<Rightarrow> bool) \<Rightarrow> ('r \<Rightarrow> 'r) \<Rightarrow> 'r list \<Rightarrow> 'r list" where
  "updateWhere p f rows = map (\<lambda>r. if p r then f r else r) rows"

definition returning :: "('r \<Rightarrow> bool) \<Rightarrow> ('r \<Rightarrow> 'r) \<Rightarrow> 'r list \<Rightarrow> 'r list" where
  "returning p f rows = map f (filter p rows)"

definition firstRow :: "'r list \<Rightarrow> 'r option" where
  "firstRow rows = (case rows of [] \<Rightarrow> None | r # _ \<Rightarrow> Some r)"

definition selectOne :: "('r \<Rightarrow> bool) \<Rightarrow> 'r list \<Rightarrow> 'r option" where
  "selectOne p rows = firstRow (filter p rows)"

definition orderDesc :: "('r \<Rightarrow> nat) \<Rightarrow> 'r list \<Rightarrow> 'r list" where
  "orderDesc k rows = rev (sort_key k rows)"

section \<open>Runs\<close>

definition runs_create :: "nat \<Rightarrow> string \<Rightarrow> string \<Rightarrow> string \<Rightarrow> RunRecord query" where
  "runs_create now runId sessionId mdl d =
     (if runId \<in> ru_runId ` set (db_runs d) then Inl (DbErr (UniqueViolation ''runs_pkey''))
      else if sessionId \<notin> se_sessionId ` set (db_sessions d) then Inl (DbErr (ForeignKeyViolation ''runs_session_id''))
      else let r = \<lparr>ru_runId = runId, ru_sessionId = sessionId, ru_status = Running, ru_model = mdl,
                    ru_tokenUsage = None, ru_createdAt = now, ru_updatedAt = now\<rparr>
           in Inr (r, d\<lparr>db_runs := db_runs d @ [r]\<rparr>))"

definition runs_getById :: "string \<Rightarrow> RunRecord option query" where
  "runs_getById runId d = Inr (selectOne (\<lambda>r. ru_runId r = runId) (db_runs d), d)"

definition runs_updateStatus :: "nat \<Rightarrow> string \<Rightarrow> RunStatus \<Rightarrow> RunRecord option query" where
  "runs_updateStatus now runId st d =
     (let p = (\<lambda>r. ru_runId r = runId); f = (\<lambda>r. r\<lparr>ru_status := st, ru_updatedAt := now\<rparr>)
      in Inr (firstRow (returning p f (db_runs d)), d\<lparr>db_runs := updateWhere p f (db_runs d)\<rparr>))"

text \<open>The four terminal writes, each \<open>WHERE run_id = ? AND status = 'running'\<close>.\<close>

datatype runSet = SetCompleted TokenUsage | SetFailed | SetCancelled | SetTimedOut

fun runSetStatus :: "runSet \<Rightarrow> RunStatus" where
  "runSetStatus (SetCompleted u) = Completed"
| "runSetStatus SetFailed = Failed"
| "runSetStatus SetCancelled = Cancelled"
| "runSetStatus SetTimedOut = TimedOut"

definition runSetRow :: "nat \<Rightarrow> runSet \<Rightarrow> RunRecord \<Rightarrow> RunRecord" where
  "runSetRow now w r = (let r' = r\<lparr>ru_status := runSetStatus w, ru_updatedAt := now\<rparr> in
     case w of SetCompleted u \<Rightarrow> r'\<lparr>ru_tokenUsage := Some u\<rparr> | _ \<Rightarrow> r')"

definition runLive :: "string \<Rightarrow> RunRecord \<Rightarrow> bool" where
  "runLive runId r = (ru_runId r = runId \<and> ru_status r = Running)"

definition runs_terminal :: "nat \<Rightarrow> runSet \<Rightarrow> string \<Rightarrow> RunRecord option query" where
  "runs_terminal now w runId d = Inr (firstRow (returning (runLive runId) (runSetRow now w) (db_runs d)),
     d\<lparr>db_runs := updateWhere (runLive runId) (runSetRow now w) (db_runs d)\<rparr>)"

definition runs_complete :: "nat \<Rightarrow> string \<Rightarrow> TokenUsage \<Rightarrow> RunRecord option query" where
  "runs_complete now runId u = runs_terminal now (SetCompleted u) runId"

definition runs_fail :: "nat \<Rightarrow> string \<Rightarrow> RunRecord option query" where
  "runs_fail now runId = runs_terminal now SetFailed runId"

definition runs_cancel :: "nat \<Rightarrow> string \<Rightarrow> RunRecord option query" where
  "runs_cancel now runId = runs_terminal now SetCancelled runId"

definition runs_timeout :: "nat \<Rightarrow> string \<Rightarrow> RunRecord option query" where
  "runs_timeout now runId = runs_terminal now SetTimedOut runId"

definition runs_listBySession :: "string \<Rightarrow> RunRecord list query" where
  "runs_listBySession sessionId d =
     Inr (orderDesc ru_createdAt (filter (\<lambda>r. ru_sessionId r = sessionId) (db_runs d)), d)"

section \<open>Tool calls\<close>

text \<open>\<open>input\<close> is NOT NULL without a default: an \<open>undefined\<close> or \<open>null\<close> argument is refused.\<close>

definition toolCalls_create :: "nat \<Rightarrow> string \<Rightarrow> string \<Rightarrow> string \<Rightarrow> json option \<Rightarrow> ToolCallRecord query" where
  "toolCalls_create now callId runId toolName inp d =
     (case inp of None \<Rightarrow> Inl (DbErr (NotNullViolation ''tool_calls.input''))
      | Some v \<Rightarrow>
        if v = JNull then Inl (DbErr (NotNullViolation ''tool_calls.input''))
        else if callId \<in> tc_callId ` set (db_toolCalls d) then Inl (DbErr (UniqueViolation ''tool_calls_pkey''))
        else if runId \<notin> ru_runId ` set (db_runs d) then Inl (DbErr (ForeignKeyViolation ''tool_calls_run_id''))
        else let r = \<lparr>tc_callId = callId, tc_runId = runId, tc_toolName = toolName, tc_input = v,
                      tc_output = None, tc_status = TcStarted, tc_createdAt = now, tc_updatedAt = now\<rparr>
             in Inr (r, d\<lparr>db_toolCalls := db_toolCalls d @ [r]\<rparr>))"

text \<open>\<open>set({ output, status })\<close> leaves the column alone when \<open>output\<close> is \<open>undefined\<close>.\<close>

datatype tcSet = SetResult "json option" ToolCallStatus | SetTcFailed

definition tcSetRow :: "nat \<Rightarrow> tcSet \<Rightarrow> ToolCallRecord \<Rightarrow> ToolCallRecord" where
  "tcSetRow now w r = (case w of
      SetResult out st \<Rightarrow> (let r' = r\<lparr>tc_status := st, tc_updatedAt := now\<rparr> in
          case out of None \<Rightarrow> r' | Some v \<Rightarrow> r'\<lparr>tc_output := (if v = JNull then None else Some v)\<rparr>)
    | SetTcFailed \<Rightarrow> r\<lparr>tc_status := TcFailed, tc_updatedAt := now\<rparr>)"

definition tcLive :: "string \<Rightarrow> ToolCallRecord \<Rightarrow> bool" where
  "tcLive callId r = (tc_callId r = callId \<and> tc_status r = TcStarted)"

definition toolCalls_write :: "nat \<Rightarrow> tcSet \<Rightarrow> string \<Rightarrow> ToolCallRecord option query" where
  "toolCalls_write now w callId d = Inr (firstRow (returning (tcLive callId) (tcSetRow now w) (db_toolCalls d)),
     d\<lparr>db_toolCalls := updateWhere (tcLive callId) (tcSetRow now w) (db_toolCalls d)\<rparr>)"

definition toolCalls_updateResult :: "nat \<Rightarrow> string \<Rightarrow> json option \<Rightarrow> ToolCallStatus \<Rightarrow> ToolCallRecord option query" where
  "toolCalls_updateResult now callId out st = toolCalls_write now (SetResult out st) callId"

definition toolCalls_fail :: "nat \<Rightarrow> string \<Rightarrow> ToolCallRecord option query" where
  "toolCalls_fail now callId = toolCalls_write now SetTcFailed callId"

definition toolCalls_listByRun :: "string \<Rightarrow> ToolCallRecord list query" where
  "toolCalls_listByRun runId d =
     Inr (sort_key tc_createdAt (filter (\<lambda>r. tc_runId r = runId) (db_toolCalls d)), d)"

section \<open>Messages\<close>

definition messages_create ::
  "nat \<Rightarrow> string \<Rightarrow> string \<Rightarrow> string option \<Rightarrow> MessageRole \<Rightarrow> string \<Rightarrow> MessageRecord query" where
  "messages_create now messageId sessionId runId role content d =
     (if messageId \<in> me_messageId ` set (db_messages d) then Inl (DbErr (UniqueViolation ''messages_pkey''))
      else if sessionId \<notin> se_sessionId ` set (db_sessions d) then Inl (DbErr (ForeignKeyViolation ''messages_session_id''))
      else if (case runId of None \<Rightarrow> False | Some r \<Rightarrow> r \<notin> ru_runId ` set (db_runs d))
        then Inl (DbErr (ForeignKeyViolation ''messages_run_id''))
      else let m = \<lparr>me_messageId = messageId, me_sessionId = sessionId, me_runId = runId, me_role = role,
                    me_content = content, me_createdAt = now\<rparr>
           in Inr (m, d\<lparr>db_messages := db_messages d @ [m]\<rparr>))"

text \<open>One multi-row INSERT: all rows or none.\<close>

fun messages_createBatch ::
  "nat \<Rightarrow> (string \<times> string \<times> string option \<times> MessageRole \<times> string) list \<Rightarrow> MessageRecord list query" where
  "messages_createBatch now [] d = Inr ([], d)"
| "messages_createBatch now ((mi, si, ri, ro, co) # rs) d =
     (case messages_create now mi si ri ro co d of Inl e \<Rightarrow> Inl e
      | Inr (m, d') \<Rightarrow> (case messages_createBatch now rs d' of Inl e \<Rightarrow> Inl e
          | Inr (ms, d'') \<Rightarrow> Inr (m # ms, d'')))"

definition messages_listBySession :: "string \<Rightarrow> MessageRecord list query" where
  "messages_listBySession sessionId d =
     Inr (sort_key me_createdAt (filter (\<lambda>m. me_sessionId m = sessionId) (db_messages d)), d)"

definition messages_listByRun :: "string \<Rightarrow> MessageRecord list query" where
  "messages_listByRun runId d =
     Inr (sort_key me_createdAt (filter (\<lambda>m. me_runId m = Some runId) (db_messages d)), d)"

definition messages_getLastN :: "string \<Rightarrow> nat \<Rightarrow> MessageRecord list query" where
  "messages_getLastN sessionId n d =
     Inr (rev (take n (orderDesc me_createdAt (filter (\<lambda>m. me_sessionId m = sessionId) (db_messages d)))), d)"

section \<open>Sessions and agents\<close>

definition sessions_create ::
  "nat \<Rightarrow> string \<Rightarrow> string \<Rightarrow> string option \<Rightarrow> (string \<times> json) list option \<Rightarrow> SessionRecord query" where
  "sessions_create now sessionId agentId userId metadata d =
     (if sessionId \<in> se_sessionId ` set (db_sessions d) then Inl (DbErr (UniqueViolation ''sessions_pkey''))
      else if agentId \<notin> ag_agentId ` set (db_agents d) then Inl (DbErr (ForeignKeyViolation ''sessions_agent_id''))
      else let r = \<lparr>se_sessionId = sessionId, se_agentId = agentId, se_userId = userId, se_status = Active,
                    se_metadata = (case metadata of None \<Rightarrow> [] | Some m \<Rightarrow> m), se_createdAt = now, se_updatedAt = now\<rparr>
           in Inr (r, d\<lparr>db_sessions := db_sessions d @ [r]\<rparr>))"

definition sessions_getById :: "string \<Rightarrow> SessionRecord option query" where
  "sessions_getById sessionId d = Inr (selectOne (\<lambda>r. se_sessionId r = sessionId) (db_sessions d), d)"

definition sessions_updateStatus :: "nat \<Rightarrow> string \<Rightarrow> SessionStatus \<Rightarrow> SessionRecord option query" where
  "sessions_updateStatus now sessionId st d =
     (let p = (\<lambda>r. se_sessionId r = sessionId); f = (\<lambda>r. r\<lparr>se_status := st, se_updatedAt := now\<rparr>)
      in Inr (firstRow (returning p f (db_sessions d)), d\<lparr>db_sessions := updateWhere p f (db_sessions d)\<rparr>))"

definition sessions_page :: "(SessionRecord \<Rightarrow> bool) \<Rightarrow> nat option \<Rightarrow> nat option \<Rightarrow> SessionRecord list query" where
  "sessions_page p lmt off d =
     (let l = (case lmt of None \<Rightarrow> 50 | Some n \<Rightarrow> n); k = (case off of None \<Rightarrow> 0 | Some n \<Rightarrow> n)
      in Inr (take l (drop k (orderDesc se_createdAt (filter p (db_sessions d)))), d))"

definition sessions_listByAgent :: "string \<Rightarrow> nat option \<Rightarrow> nat option \<Rightarrow> SessionRecord list query" where
  "sessions_listByAgent agentId = sessions_page (\<lambda>r. se_agentId r = agentId)"

definition sessions_listByUser :: "string \<Rightarrow> nat option \<Rightarrow> nat option \<Rightarrow> SessionRecord list query" where
  "sessions_listByUser userId = sessions_page (\<lambda>r. se_userId r = Some userId)"

definition agents_create ::
  "nat \<Rightarrow> string \<Rightarrow> string \<Rightarrow> string \<Rightarrow> ModelConfig \<Rightarrow> string \<Rightarrow> MemoryConfig \<Rightarrow> ToolDefinition list option
    \<Rightarrow> string option \<Rightarrow> AgentRecord query" where
  "agents_create now agentId workspaceId name mc prompt mem tools url d =
     (if agentId \<in> ag_agentId ` set (db_agents d) then Inl (DbErr (UniqueViolation ''agents_pkey''))
      else if (workspaceId, name) \<in> (\<lambda>a. (ag_workspaceId a, ag_name a)) ` set (db_agents d)
        then Inl (DbErr (UniqueViolation ''agents_workspace_id_name_idx''))
      else if workspaceId \<notin> set (db_workspaces d) then Inl (DbErr (ForeignKeyViolation ''agents_workspace_id''))
      else let a = \<lparr>ag_agentId = agentId, ag_workspaceId = workspaceId, ag_name = name, ag_modelConfig = mc,
                    ag_systemPrompt = prompt, ag_memoryConfig = mem,
                    ag_tools = (case tools of None \<Rightarrow> [] | Some ts \<Rightarrow> ts), ag_toolRunnerUrl = url,
                    ag_createdAt = now, ag_updatedAt = now\<rparr>
           in Inr (a, d\<lparr>db_agents := db_agents d @ [a]\<rparr>))"

definition agents_getById :: "string \<Rightarrow> AgentRecord option query" where
  "agents_getById agentId d = Inr (selectOne (\<lambda>a. ag_agentId a = agentId) (db_agents d), d)"

definition agents_getByWorkspaceId :: "string \<Rightarrow> AgentRecord list query" where
  "agents_getByWorkspaceId workspaceId d = Inr (filter (\<lambda>a. ag_workspaceId a = workspaceId) (db_agents d), d)"

definition agents_getByName :: "string \<Rightarrow> string \<Rightarrow> AgentRecord option query" where
  "agents_getByName workspaceId name d =
     Inr (selectOne (\<lambda>a. ag_workspaceId a = workspaceId \<and> ag_name a = name) (db_agents d), d)"

text \<open>The \<open>Partial\<close> argument of \<open>update\<close>: an absent field is not written.\<close>

record AgentUpdates =
  up_name :: "string option"
  up_modelConfig :: "ModelConfig option"
  up_systemPrompt :: "string option"
  up_memoryConfig :: "MemoryConfig option"
  up_tools :: "ToolDefinition list option"
  up_toolRunnerUrl :: "string option option"

definition agentUpdateRow :: "nat \<Rightarrow> AgentUpdates \<Rightarrow> AgentRecord \<Rightarrow> AgentRecord" where
  "agentUpdateRow now u a = a\<lparr>
     ag_name := (case up_name u of None \<Rightarrow> ag_name a | Some x \<Rightarrow> x),
     ag_modelConfig := (case up_modelConfig u of None \<Rightarrow> ag_modelConfig a | Some x \<Rightarrow> x),
     ag_systemPrompt := (case up_systemPrompt u of None \<Rightarrow> ag_systemPrompt a | Some x \<Rightarrow> x),
     ag_memoryConfig := (case up_memoryConfig u of None \<Rightarrow> ag_memoryConfig a | Some x \<Rightarrow> x),
     ag_tools := (case up_tools u of None \<Rightarrow> ag_tools a | Some x \<Rightarrow> x),
     ag_toolRunnerUrl := (case up_toolRunnerUrl u of None \<Rightarrow> ag_toolRunnerUrl a | Some x \<Rightarrow> x),
     ag_updatedAt := now\<rparr>"

definition agents_update :: "nat \<Rightarrow> string \<Rightarrow> AgentUpdates \<Rightarrow> AgentRecord option query" where
  "agents_update now agentId u d =
     (let p = (\<lambda>a. ag_agentId a = agentId); f = agentUpdateRow now u; rows = updateWhere p f (db_agents d)
      in if distinct (map (\<lambda>a. (ag_workspaceId a, ag_name a)) rows)
         then Inr (firstRow (returning p f (db_agents d)), d\<lparr>db_agents := rows\<rparr>)
         else Inl (DbErr (UniqueViolation ''agents_workspace_id_name_idx'')))"

section \<open>The schema invariant\<close>

text \<open>Primary keys and unique indexes are unique and every foreign key resolves.\<close>

definition dbOk :: "db \<Rightarrow> bool" where
  "dbOk d = (distinct (map ag_agentId (db_agents d)) \<and>
     distinct (map (\<lambda>a. (ag_workspaceId a, ag_name a)) (db_agents d)) \<and>
     distinct (map se_sessionId (db_sessions d)) \<and> distinct (map ru_runId (db_runs d)) \<and>
     distinct (map me_messageId (db_messages d)) \<and> distinct (map tc_callId (db_toolCalls d)) \<and>
     ag_workspaceId ` set (db_agents d) \<subseteq> set (db_workspaces d) \<and>
     se_agentId ` set (db_sessions d) \<subseteq> ag_agentId ` set (db_agents d) \<and>
     ru_sessionId ` set (db_runs d) \<subseteq> se_sessionId ` set (db_sessions d) \<and>
     me_sessionId ` set (db_messages d) \<subseteq> se_sessionId ` set (db_sessions d) \<and>
     (\<forall>m \<in> set (db_messages d). \<forall>r. me_runId m = Some r \<longrightarrow> r \<in> ru_runId ` set (db_runs d)) \<and>
     tc_runId ` set (db_toolCalls d) \<subseteq> ru_runId ` set (db_runs d))"

section \<open>Guarded transitions\<close>

lemma map_updateWhere: "(\<And>r. p r \<Longrightarrow> g (f r) = g r) \<Longrightarrow> map g (updateWhere p f rows) = map g rows"
  by (simp add: updateWhere_def)

lemma filter_updateWhere: "(\<And>r. r \<in> set rows \<Longrightarrow> p r \<Longrightarrow> \<not> P r \<and> \<not> P (f r)) \<Longrightarrow> filter P (updateWhere p f rows) = filter P rows"
  by (induction rows) (auto simp: updateWhere_def)

lemma length_updateWhere [simp]: "length (updateWhere p f rows) = length rows"
  by (simp add: updateWhere_def)

lemma nth_updateWhere: "i < length rows \<Longrightarrow> updateWhere p f rows ! i = (if p (rows ! i) then f (rows ! i) else rows ! i)"
  by (simp add: updateWhere_def)

lemma updateWhere_none: "(\<And>r. r \<in> set rows \<Longrightarrow> \<not> p r) \<Longrightarrow> updateWhere p f rows = rows"
  by (induction rows) (auto simp: updateWhere_def)

locale guarded_transitions =
  fixes live :: "'r \<Rightarrow> bool" and sel :: "'w \<Rightarrow> 'r \<Rightarrow> bool" and eff :: "'w \<Rightarrow> 'r \<Rightarrow> 'r"
    and final :: "'w \<Rightarrow> bool"
  assumes sel_live: "sel w r \<Longrightarrow> live r"
    and eff_dead: "final w \<Longrightarrow> \<not> live (eff w r)"
begin

definition perform :: "'w \<Rightarrow> 'r list \<Rightarrow> 'r list" where
  "perform w rows = updateWhere (sel w) (eff w) rows"

definition writes :: "'w list \<Rightarrow> 'r list \<Rightarrow> 'r list" where
  "writes ws rows = fold perform ws rows"

lemma writes_length [simp]: "length (writes ws rows) = length rows"
  by (induction ws arbitrary: rows) (auto simp: writes_def perform_def)

lemma writes_dead: "i < length rows \<Longrightarrow> \<not> live (rows ! i) \<Longrightarrow> writes ws rows ! i = rows ! i"
proof (induction ws arbitrary: rows)
  case (Cons w ws)
  then have "perform w rows ! i = rows ! i" by (auto simp: perform_def nth_updateWhere dest: sel_live)
  then show ?case using Cons by (simp add: writes_def perform_def)
qed (simp add: writes_def)

lemma first_write_wins:
  "i < length rows \<Longrightarrow> sel w (rows ! i) \<Longrightarrow> final w \<Longrightarrow> writes (w # ws) rows ! i = eff w (rows ! i)"
  using writes_dead [of i "perform w rows" ws] by (simp add: writes_def perform_def nth_updateWhere eff_dead)

lemma write_twice:
  assumes weaker: "\<And>r. sel w' r \<Longrightarrow> sel w r" and f: "final w"
  shows "perform w' (perform w rows) = perform w rows"
proof -
  have "\<not> sel w' r" if r: "r \<in> set (perform w rows)" for r
  proof
    assume "sel w' r"
    then have "live r" "sel w r" using sel_live weaker by auto
    then show False using r f eff_dead by (auto simp: perform_def updateWhere_def)
  qed
  then show ?thesis by (subst perform_def) (rule updateWhere_none)
qed

end

interpretation runT: guarded_transitions "\<lambda>r. ru_status r = Running" "\<lambda>(now, w, k). runLive k"
    "\<lambda>(now, w, k). runSetRow now w" "\<lambda>_. True"
proof (unfold_locales, goal_cases)
  case (2 w r)
  then show ?case by (cases w; cases "fst (snd w)") (auto simp: runSetRow_def Let_def)
qed (auto simp: runLive_def)

interpretation tcT: guarded_transitions "\<lambda>r. tc_status r = TcStarted" "\<lambda>(now, w, k). tcLive k"
    "\<lambda>(now, w, k). tcSetRow now w" "\<lambda>(now, w, k). case w of SetResult v st \<Rightarrow> st \<noteq> TcStarted | SetTcFailed \<Rightarrow> True"
proof (unfold_locales, goal_cases)
  case (2 w r)
  then show ?case by (cases w; cases "fst (snd w)") (auto simp: tcSetRow_def Let_def split: option.splits)
qed (auto simp: tcLive_def)

section \<open>Behaviour of the repositories\<close>

lemma runSetRow_simps [simp]:
  "ru_runId (runSetRow now w r) = ru_runId r" "ru_sessionId (runSetRow now w r) = ru_sessionId r"
  "ru_status (runSetRow now w r) = runSetStatus w" "ru_model (runSetRow now w r) = ru_model r"
  by (auto simp: runSetRow_def Let_def split: runSet.splits)

lemma runSetStatus_not_running [simp]: "runSetStatus w \<noteq> Running"
  by (cases w) auto

lemma tcSetRow_simps [simp]:
  "tc_callId (tcSetRow now w r) = tc_callId r" "tc_runId (tcSetRow now w r) = tc_runId r"
  "tc_toolName (tcSetRow now w r) = tc_toolName r" "tc_input (tcSetRow now w r) = tc_input r"
  by (auto simp: tcSetRow_def Let_def split: tcSet.splits option.splits)

lemma tcSetRow_status: "tc_status (tcSetRow now w r) = (case w of SetResult v st \<Rightarrow> st | SetTcFailed \<Rightarrow> TcFailed)"
  by (auto simp: tcSetRow_def Let_def split: tcSet.splits option.splits)

lemma runs_terminal_run:
  "db_runs (snd (projr (runs_terminal now w k d))) = runT.perform (now, w, k) (db_runs d)"
  by (simp add: runs_terminal_def runT.perform_def)

lemma image_of_map: "map g xs = map g ys \<Longrightarrow> g ` set xs = g ` set ys"
  by (metis list.set_map)

lemma dbOk_runs: "dbOk d \<Longrightarrow> map ru_runId rows = map ru_runId (db_runs d) \<Longrightarrow>
    map ru_sessionId rows = map ru_sessionId (db_runs d) \<Longrightarrow> dbOk (d\<lparr>db_runs := rows\<rparr>)"
  using image_of_map [of ru_runId rows "db_runs d"] image_of_map [of ru_sessionId rows "db_runs d"]
  by (simp add: dbOk_def)

lemma dbOk_toolCalls: "dbOk d \<Longrightarrow> map tc_callId rows = map tc_callId (db_toolCalls d) \<Longrightarrow>
    map tc_runId rows = map tc_runId (db_toolCalls d) \<Longrightarrow> dbOk (d\<lparr>db_toolCalls := rows\<rparr>)"
  using image_of_map [of tc_runId rows "db_toolCalls d"] by (simp add: dbOk_def)

lemma dbOk_sessions: "dbOk d \<Longrightarrow> map se_sessionId rows = map se_sessionId (db_sessions d) \<Longrightarrow>
    map se_agentId rows = map se_agentId (db_sessions d) \<Longrightarrow> dbOk (d\<lparr>db_sessions := rows\<rparr>)"
  using image_of_map [of se_sessionId rows "db_sessions d"] image_of_map [of se_agentId rows "db_sessions d"]
  by (simp add: dbOk_def)

lemma dbOk_agents: "dbOk d \<Longrightarrow> map ag_agentId rows = map ag_agentId (db_agents d) \<Longrightarrow>
    map ag_workspaceId rows = map ag_workspaceId (db_agents d) \<Longrightarrow>
    distinct (map (\<lambda>a. (ag_workspaceId a, ag_name a)) rows) \<Longrightarrow> dbOk (d\<lparr>db_agents := rows\<rparr>)"
  using image_of_map [of ag_agentId rows "db_agents d"] image_of_map [of ag_workspaceId rows "db_agents d"]
  by (simp add: dbOk_def)

lemma dbOk_addRun: "dbOk d \<Longrightarrow> ru_runId r \<notin> ru_runId ` set (db_runs d) \<Longrightarrow>
    ru_sessionId r \<in> se_sessionId ` set (db_sessions d) \<Longrightarrow> dbOk (d\<lparr>db_runs := db_runs d @ [r]\<rparr>)"
  by (simp add: dbOk_def subset_insertI2)

lemma dbOk_addToolCall: "dbOk d \<Longrightarrow> tc_callId r \<notin> tc_callId ` set (db_toolCalls d) \<Longrightarrow>
    tc_runId r \<in> ru_runId ` set (db_runs d) \<Longrightarrow> dbOk (d\<lparr>db_toolCalls := db_toolCalls d @ [r]\<rparr>)"
  by (simp add: dbOk_def)

lemma dbOk_addMessage: "dbOk d \<Longrightarrow> me_messageId m \<notin> me_messageId ` set (db_messages d) \<Longrightarrow>
    me_sessionId m \<in> se_sessionId ` set (db_sessions d) \<Longrightarrow>
    (case me_runId m of None \<Rightarrow> True | Some k \<Rightarrow> k \<in> ru_runId ` set (db_runs d)) \<Longrightarrow>
    dbOk (d\<lparr>db_messages := db_messages d @ [m]\<rparr>)"
  by (simp add: dbOk_def split: option.splits)

lemma dbOk_addSession: "dbOk d \<Longrightarrow> se_sessionId r \<notin> se_sessionId ` set (db_sessions d) \<Longrightarrow>
    se_agentId r \<in> ag_agentId ` set (db_agents d) \<Longrightarrow> dbOk (d\<lparr>db_sessions := db_sessions d @ [r]\<rparr>)"
  by (simp add: dbOk_def subset_insertI2)

lemma dbOk_addAgent: "dbOk d \<Longrightarrow> ag_agentId a \<notin> ag_agentId ` set (db_agents d) \<Longrightarrow>
    (ag_workspaceId a, ag_name a) \<notin> (\<lambda>a. (ag_workspaceId a, ag_name a)) ` set (db_agents d) \<Longrightarrow>
    ag_workspaceId a \<in> set (db_workspaces d) \<Longrightarrow> dbOk (d\<lparr>db_agents := db_agents d @ [a]\<rparr>)"
  by (simp add: dbOk_def subset_insertI2)

lemma dbOk_emptyDb: "dbOk emptyDb"
  by (simp add: dbOk_def emptyDb_def)

lemma runs_create_dbOk: "dbOk d \<Longrightarrow> runs_create now k s m d = Inr (r, d') \<Longrightarrow> dbOk d'"
  by (simp add: runs_create_def Let_def split: if_splits option.splits) (auto intro!: dbOk_addRun)

lemma runs_terminal_dbOk: "dbOk d \<Longrightarrow> runs_terminal now w k d = Inr (r, d') \<Longrightarrow> dbOk d'"
  by (auto simp: runs_terminal_def Let_def split: if_splits intro!: dbOk_runs map_updateWhere)

lemma runs_updateStatus_dbOk: "dbOk d \<Longrightarrow> runs_updateStatus now k st d = Inr (r, d') \<Longrightarrow> dbOk d'"
  by (auto simp: runs_updateStatus_def Let_def split: if_splits intro!: dbOk_runs map_updateWhere)

lemma toolCalls_create_dbOk: "dbOk d \<Longrightarrow> toolCalls_create now c k t i d = Inr (r, d') \<Longrightarrow> dbOk d'"
  by (simp add: toolCalls_create_def Let_def split: if_splits option.splits) (auto intro!: dbOk_addToolCall)

lemma toolCalls_write_dbOk: "dbOk d \<Longrightarrow> toolCalls_write now w k d = Inr (r, d') \<Longrightarrow> dbOk d'"
  by (auto simp: toolCalls_write_def Let_def split: if_splits intro!: dbOk_toolCalls map_updateWhere)

lemma messages_create_dbOk: "dbOk d \<Longrightarrow> messages_create now m s k ro c d = Inr (r, d') \<Longrightarrow> dbOk d'"
  by (simp add: messages_create_def Let_def split: if_splits option.splits) (auto intro!: dbOk_addMessage)

lemma messages_createBatch_dbOk: "messages_createBatch now rs d = Inr (ms, d') \<Longrightarrow> dbOk d \<Longrightarrow> dbOk d'"
proof (induction rs arbitrary: d ms)
  case (Cons m rs)
  obtain mi si ri ro co where m: "m = (mi, si, ri, ro, co)" by (cases m) auto
  obtain x d1 ms1 where 1: "messages_create now mi si ri ro co d = Inr (x, d1)"
      "messages_createBatch now rs d1 = Inr (ms1, d')"
    using Cons.prems m by (auto split: sum.splits)
  from messages_create_dbOk [OF Cons.prems(2) 1(1)] Cons.IH [OF 1(2)] show ?case by blast
qed simp

lemma sessions_create_dbOk: "dbOk d \<Longrightarrow> sessions_create now s a u m d = Inr (r, d') \<Longrightarrow> dbOk d'"
  by (simp add: sessions_create_def Let_def split: if_splits option.splits) (auto intro!: dbOk_addSession)

lemma sessions_updateStatus_dbOk: "dbOk d \<Longrightarrow> sessions_updateStatus now s st d = Inr (r, d') \<Longrightarrow> dbOk d'"
  by (auto simp: sessions_updateStatus_def Let_def split: if_splits intro!: dbOk_sessions map_updateWhere)

lemma agents_create_dbOk: "dbOk d \<Longrightarrow> agents_create now a w n mc p mem ts u d = Inr (r, d') \<Longrightarrow> dbOk d'"
  by (simp add: agents_create_def Let_def split: if_splits option.splits) (auto intro!: dbOk_addAgent)

lemma agentUpdateRow_keys [simp]: "ag_agentId (agentUpdateRow now u a) = ag_agentId a"
  "ag_workspaceId (agentUpdateRow now u a) = ag_workspaceId a"
  by (simp_all add: agentUpdateRow_def)

lemma agents_update_dbOk: "dbOk d \<Longrightarrow> agents_update now k u d = Inr (r, d') \<Longrightarrow> dbOk d'"
  by (auto simp: agents_update_def Let_def split: if_splits intro!: dbOk_agents map_updateWhere)

lemmas repo_dbOk = runs_create_dbOk runs_terminal_dbOk runs_updateStatus_dbOk toolCalls_create_dbOk
  toolCalls_write_dbOk messages_create_dbOk messages_createBatch_dbOk sessions_create_dbOk
  sessions_updateStatus_dbOk agents_create_dbOk agents_update_dbOk

lemma getLastN_is_suffix:
  "messages_getLastN s n d = Inr (ms, d') \<Longrightarrow> messages_listBySession s d = Inr (hist, d'') \<Longrightarrow>
     ms = drop (length hist - n) hist"
  by (auto simp: messages_getLastN_def messages_listBySession_def orderDesc_def take_rev)

end
