(* ===== verification/Deadlines.thy ===== *)
theory Deadlines
  imports Shared_Types
begin

text \<open>\<open>runtime/src/deadlines.ts\<close>: abort signals and deadlines in a timed model.

  An \<open>AbortSignal\<close> is the list of its sources, each the time at which it fires and the reason it
  aborts with; a source that never fires is absent.  \<open>AbortSignal.any\<close> appends the sources.  At time
  \<open>t\<close> the signal is aborted when some source has fired, and its \<open>reason\<close> is that of the earliest one:
  the first abort sets the reason and later ones are ignored.  A controller armed at \<open>now\<close> fires at
  \<open>now\<close> plus the delay of its timer; the timers of Node take a delay above $2^{31}-1$ as 1.\<close>

type_synonym abort_signal = "(nat \<times> js_error) list"

definition neverAborts :: abort_signal where
  "neverAborts = []"

definition signalAny :: "abort_signal list \<Rightarrow> abort_signal" where
  "signalAny sigs = concat sigs"

definition aborted :: "abort_signal \<Rightarrow> nat \<Rightarrow> bool" where
  "aborted sig t = list_ex (\<lambda>s. fst s \<le> t) sig"

fun earliest :: "(nat \<times> js_error) list \<Rightarrow> (nat \<times> js_error) option" where
  "earliest [] = None"
| "earliest (s # ss) = (case earliest ss of None \<Rightarrow> Some s | Some s' \<Rightarrow> if fst s \<le> fst s' then Some s else Some s')"

definition signalReason :: "abort_signal \<Rightarrow> nat \<Rightarrow> js_error option" where
  "signalReason sig t = map_option snd (earliest (filter (\<lambda>s. fst s \<le> t) sig))"

definition timerDelay :: "nat \<Rightarrow> nat" where
  "timerDelay ms = (if ms > 2147483647 then 1 else ms)"

definition armController :: "DeadlineScope \<Rightarrow> int option \<Rightarrow> nat \<Rightarrow> abort_signal" where
  "armController scope timeoutMs now = (case timeoutMs of None \<Rightarrow> neverAborts
     | Some ms \<Rightarrow> if ms \<le> 0 then neverAborts else [(now + timerDelay (nat ms), TimeoutErr scope (nat ms))])"

definition createDeadlineController :: "int option \<Rightarrow> nat \<Rightarrow> abort_signal" where
  "createDeadlineController totalRunMs now = armController ScopeTotal totalRunMs now"

definition deriveCallDeadline :: "abort_signal \<Rightarrow> DeadlineScope \<Rightarrow> int option \<Rightarrow> nat \<Rightarrow> abort_signal" where
  "deriveCallDeadline base scope timeoutMs now = (case timeoutMs of None \<Rightarrow> base
     | Some ms \<Rightarrow> if ms \<le> 0 then base else signalAny [base, armController scope timeoutMs now])"

fun isTimeoutErr :: "js_error \<Rightarrow> bool" where
  "isTimeoutErr (TimeoutErr sc ms) = True"
| "isTimeoutErr _ = False"

definition timeoutReason :: "abort_signal \<Rightarrow> nat \<Rightarrow> js_error option" where
  "timeoutReason sig t = (case signalReason sig t of None \<Rightarrow> None | Some e \<Rightarrow> if isTimeoutErr e then Some e else None)"

section \<open>Facts\<close>

lemma earliest_None [simp]: "earliest ss = None \<longleftrightarrow> ss = []"
  by (cases ss) (auto split: option.splits)

lemma earliest_min: "earliest ss = Some s \<Longrightarrow> s \<in> set ss \<and> (\<forall>s' \<in> set ss. fst s \<le> fst s')"
  by (induction ss arbitrary: s) (force split: option.splits if_splits)+

lemma earliest_mem: "earliest ss = Some s \<Longrightarrow> s \<in> set ss"
  using earliest_min by blast

lemma earliest_filter: "earliest ss = Some s \<Longrightarrow> P s \<Longrightarrow> earliest (filter P ss) = Some s"
proof (induction ss arbitrary: s)
  case (Cons a ss)
  show ?case
  proof (cases "earliest ss")
    case None
    then show ?thesis using Cons by auto
  next
    case (Some b)
    then show ?thesis
    proof (cases "fst a \<le> fst b")
      case True
      then have s: "s = a" using Cons Some by auto
      have "fst a \<le> fst c" if "earliest (filter P ss) = Some c" for c
        using earliest_mem [OF that] earliest_min [OF Some] True by fastforce
      then show ?thesis using s Cons.prems by (auto split: option.splits)
    next
      case False
      then show ?thesis using Cons Some by auto
    qed
  qed
qed simp

lemma aborted_iff_reason [sig_simps]: "aborted sig t \<longleftrightarrow> signalReason sig t \<noteq> None"
  by (auto simp: aborted_def signalReason_def list_ex_iff filter_empty_conv)

lemma aborted_mono: "aborted sig t \<Longrightarrow> t \<le> t' \<Longrightarrow> aborted sig t'"
  by (auto simp: aborted_def list_ex_iff intro: order_trans)

text \<open>The reason a signal aborts with is decided by the first source and never changes.\<close>

lemma signalReason_stable:
  assumes "signalReason sig t = Some e" "t \<le> t'"
  shows "signalReason sig t' = Some e"
proof -
  let ?f = "\<lambda>t. filter (\<lambda>s. fst s \<le> t) sig"
  obtain s where s: "earliest (?f t) = Some s" "snd s = e"
    using assms by (auto simp: signalReason_def)
  have st: "s \<in> set (?f t)" using earliest_mem s by blast
  then have "s \<in> set (?f t')" using assms(2) by auto
  then have "?f t' \<noteq> []" by (metis empty_iff empty_set)
  then obtain s' where s': "earliest (?f t') = Some s'" by (cases "earliest (?f t')") auto
  have "s \<in> set (?f t')" using st assms(2) by auto
  then have "fst s' \<le> fst s" using earliest_min [OF s'] by blast
  then have "fst s' \<le> t" using st by auto
  moreover have "filter (\<lambda>s. fst s \<le> t) (?f t') = ?f t" using assms(2) by (auto intro: filter_cong)
  ultimately have "earliest (?f t) = Some s'" using earliest_filter [OF s', of "\<lambda>s. fst s \<le> t"] by simp
  then show ?thesis using s s' by (simp add: signalReason_def)
qed

lemma earliest_append: "earliest (xs @ ys) = (case earliest xs of None \<Rightarrow> earliest ys
    | Some s \<Rightarrow> (case earliest ys of None \<Rightarrow> Some s | Some s' \<Rightarrow> if fst s \<le> fst s' then Some s else Some s'))"
proof (induction xs)
  case (Cons a xs)
  then show ?case by (cases "earliest xs"; cases "earliest ys") auto
qed (simp split: option.splits)

lemma signalReason_mem: "signalReason sig t = Some e \<Longrightarrow> \<exists>w. (w, e) \<in> set sig \<and> w \<le> t"
  by (auto simp: signalReason_def dest!: earliest_mem)

lemma aborted_any [sig_simps]: "aborted (signalAny [a, b]) t \<longleftrightarrow> aborted a t \<or> aborted b t"
  by (auto simp: aborted_def signalAny_def)

lemma aborted_never [simp]: "\<not> aborted neverAborts t" "signalReason neverAborts t = None" "timeoutReason neverAborts t = None"
  by (auto simp: aborted_def neverAborts_def signalReason_def timeoutReason_def)

lemma aborted_derive: "aborted base t \<Longrightarrow> aborted (deriveCallDeadline base sc ms now) t"
  by (auto simp: deriveCallDeadline_def sig_simps simp del: aborted_iff_reason split: option.splits)

text \<open>A base signal that has aborted before the call starts keeps its reason in the merged signal.\<close>

lemma signalReason_derive:
  assumes "signalReason base now = Some e" and that: "now \<le> t"
  shows "signalReason (deriveCallDeadline base sc ms now) t = signalReason base t"
proof -
  obtain s where s: "earliest (filter (\<lambda>s. fst s \<le> t) base) = Some s"
    using signalReason_stable [OF assms] by (auto simp: signalReason_def)
  obtain w where "(w, e) \<in> set base" "w \<le> now" using signalReason_mem [OF assms(1)] by auto
  then have "fst s \<le> now" using earliest_min [OF s] that by force
  then show ?thesis using s
    by (auto simp: deriveCallDeadline_def armController_def signalAny_def signalReason_def
        neverAborts_def earliest_append prod_eq_iff split: option.splits)
qed

lemma timeoutReason_isTimeout: "timeoutReason sig t = Some e \<Longrightarrow> isTimeoutErr e"
  by (auto simp: timeoutReason_def split: option.splits if_splits)

lemma timeoutReason_reason: "timeoutReason sig t = Some e \<Longrightarrow> signalReason sig t = Some e"
  by (auto simp: timeoutReason_def split: option.splits if_splits)

lemma timeoutReason_stable: "timeoutReason sig t = Some e \<Longrightarrow> t \<le> t' \<Longrightarrow> timeoutReason sig t' = Some e"
  by (auto simp: timeoutReason_def dest: signalReason_stable split: option.splits if_splits)

text \<open>A cancellation that fires strictly before every deadline is what the signal reports for ever.\<close>

lemma cancel_before_deadline:
  assumes "\<forall>s \<in> set dl. tc < fst s" "tc \<le> t"
  shows "signalReason (signalAny [[(tc, AbortErr)], dl]) t = Some AbortErr"
proof -
  have "signalReason (signalAny [[(tc, AbortErr)], dl]) tc = Some AbortErr"
    using assms(1) by (simp add: signalReason_def signalAny_def filter_False Ball_def not_le)
  then show ?thesis using assms(2) by (rule signalReason_stable)
qed

end
