(* ===== verification/Tools.thy ===== *)
theory Tools
  imports Database Deadlines
begin

text \<open>Tool calls on the runtime's side: \<open>tool-mapping.ts\<close> and \<open>tool-validation.ts\<close> (the allowlist and
  the schema check every model-emitted call passes), \<open>tool-executor.ts\<close> and \<open>tool-executor-local.ts\<close>
  (the executor interface and the in-process executor with its race of handler, timer and abort), and
  \<open>tool-executor-resolver.ts\<close> with \<open>tool-executor-factory.ts\<close> (which executor serves which agent).

  Ajv is a parameter: \<open>compile\<close> maps a schema to a compile error or to a validator, and a validator
  maps the arguments (\<^const>\<open>None\<close> is \<open>undefined\<close>) to its errors, \<^const>\<open>None\<close> when they are valid.\<close>

section \<open>Schemas and validation\<close>

record AjvError =
  ae_instancePath :: string
  ae_message :: "string option"

type_synonym validator = "json option \<Rightarrow> AjvError list option"
type_synonym ajv = "json \<Rightarrow> string + validator"

record ToolSchema =
  ts_name :: string
  ts_description :: string
  ts_parameters :: json

record ToolIndexEntry =
  ti_def :: ToolDefinition
  ti_validate :: validator

definition makeSchemaErrorValidator :: "string \<Rightarrow> string \<Rightarrow> validator" where
  "makeSchemaErrorValidator toolName reason = (\<lambda>_. Some [\<lparr>ae_instancePath = [],
     ae_message = Some (''tool \"'' @ toolName @ ''\" has an invalid input schema: '' @ reason)\<rparr>])"

definition toModelToolSchemas :: "ToolDefinition list \<Rightarrow> ToolSchema list" where
  "toModelToolSchemas tools = map (\<lambda>t. \<lparr>ts_name = td_name t, ts_description = td_description t,
     ts_parameters = td_inputSchema t\<rparr>) tools"

definition compileEntry :: "ajv \<Rightarrow> ToolDefinition \<Rightarrow> ToolIndexEntry" where
  "compileEntry ajv d = \<lparr>ti_def = d, ti_validate = (case ajv (td_inputSchema d) of
      Inl reason \<Rightarrow> makeSchemaErrorValidator (td_name d) reason | Inr v \<Rightarrow> v)\<rparr>"

definition buildToolIndex :: "ajv \<Rightarrow> ToolDefinition list \<Rightarrow> (string, ToolIndexEntry) jsmap" where
  "buildToolIndex ajv tools = fold (\<lambda>d m. js_set (td_name d) (compileEntry ajv d) m) tools []"

definition formatAjvErrors :: "string \<Rightarrow> AjvError list \<Rightarrow> string" where
  "formatAjvErrors toolName errs = (if errs = []
     then ''Arguments for tool \"'' @ toolName @ ''\" failed schema validation.''
     else ''Arguments for tool \"'' @ toolName @ ''\" failed schema validation: '' @
       joinWith ''; '' (map (\<lambda>e. trim ((if ae_instancePath e \<noteq> [] then ae_instancePath e else ''(root)'') @ '' '' @
         (case ae_message e of None \<Rightarrow> ''is invalid'' | Some m \<Rightarrow> m))) errs))"

datatype ToolValidationResult = ValidOk | ValidErr (vcode: string) (vmessage: string)

definition validateToolCall ::
  "(string, ToolIndexEntry) jsmap \<Rightarrow> string \<Rightarrow> json option \<Rightarrow> ToolValidationResult" where
  "validateToolCall index toolName args = (case js_get index toolName of
      None \<Rightarrow> ValidErr ''UNKNOWN_TOOL'' (''Tool \"'' @ toolName @ ''\" is not registered for this agent.'')
    | Some entry \<Rightarrow> (case ti_validate entry args of
        Some errs \<Rightarrow> ValidErr ''INVALID_ARGUMENTS'' (formatAjvErrors toolName errs)
      | None \<Rightarrow> ValidOk))"

section \<open>Executors\<close>

datatype ToolCallResult = ResOk "json option" | ResErr string

record ToolCallContext =
  tcx_sessionId :: string
  tcx_runId :: string
  tcx_userId :: "string option"
  tcx_metadata :: "(string \<times> json) list option"

record ToolCall =
  tl_toolName :: string
  tl_callId :: string
  tl_arguments :: "json option"

text \<open>A handler, called at some time, settles after a delay (\<^const>\<open>None\<close>: never) with a value or a
  thrown error.\<close>

type_synonym ToolHandler = "json option \<Rightarrow> ToolCallContext \<Rightarrow> nat \<Rightarrow> nat option \<times> (js_error + json option)"

record LocalToolExecutor =
  lx_handlers :: "(string, ToolHandler) jsmap"
  lx_timeoutMs :: nat

definition DEFAULT_TIMEOUT_MS :: nat where "DEFAULT_TIMEOUT_MS = 30000"

definition newLocalToolExecutor :: "nat option \<Rightarrow> LocalToolExecutor" where
  "newLocalToolExecutor timeoutMs = \<lparr>lx_handlers = [],
     lx_timeoutMs = (case timeoutMs of None \<Rightarrow> DEFAULT_TIMEOUT_MS | Some t \<Rightarrow> t)\<rparr>"

definition registerTool :: "string \<Rightarrow> ToolHandler \<Rightarrow> LocalToolExecutor \<Rightarrow> js_error + LocalToolExecutor" where
  "registerTool name h lx = (if js_has (lx_handlers lx) name
     then Inl (PlainErr (''Tool already registered: '' @ name))
     else Inr (lx\<lparr>lx_handlers := js_set name h (lx_handlers lx)\<rparr>))"

text \<open>When an unaborted signal aborts after \<open>now\<close>.\<close>

definition abortTime :: "abort_signal \<Rightarrow> nat option" where
  "abortTime sig = map_option fst (earliest sig)"

text \<open>\<open>Promise.race\<close>: the earliest to settle, the first in the array on a tie.  Each contestant is the
  time at which it settles, if it does, with its outcome.\<close>

fun race :: "(nat option \<times> 'a) list \<Rightarrow> (nat \<times> 'a) option" where
  "race [] = None"
| "race ((t, x) # rs) = (case t of None \<Rightarrow> race rs
     | Some a \<Rightarrow> (case race rs of None \<Rightarrow> Some (a, x) | Some (b, y) \<Rightarrow> if a \<le> b then Some (a, x) else Some (b, y)))"

datatype raced = Handled "js_error + json option" | TimeoutSentinel | AbortSentinel

definition localExecute ::
  "(db_violation \<Rightarrow> string) \<Rightarrow> LocalToolExecutor \<Rightarrow> ToolCall \<Rightarrow> ToolCallContext \<Rightarrow> abort_signal \<Rightarrow> nat
    \<Rightarrow> nat \<times> ToolCallResult" where
  "localExecute dbm lx call ctx sig now =
     (if aborted sig now then (now, ResErr ''Aborted'')
      else case js_get (lx_handlers lx) (tl_toolName call) of
        None \<Rightarrow> (now, ResErr (''Unknown tool: '' @ tl_toolName call))
      | Some h \<Rightarrow> (let (d, r) = h (tl_arguments call) ctx now in
          case race [(map_option (\<lambda>x. now + x) d, Handled r), (Some (now + timerDelay (lx_timeoutMs lx)), TimeoutSentinel),
                     (abortTime sig, AbortSentinel)] of
            None \<Rightarrow> (now, ResErr [])
          | Some (t, Handled (Inr v)) \<Rightarrow> (t, ResOk v)
          | Some (t, Handled (Inl e)) \<Rightarrow> (t, ResErr (errMessage dbm e))
          | Some (t, TimeoutSentinel) \<Rightarrow>
              (t, ResErr (''Tool execution timed out after '' @ natToString (lx_timeoutMs lx) @ ''ms''))
          | Some (t, AbortSentinel) \<Rightarrow> (t, ResErr ''Aborted'')))"

section \<open>The resolver\<close>

text \<open>What a resolved executor is: the in-process one, or a remote one bound to one URL and one agent.\<close>

datatype executor = LocalExec LocalToolExecutor | RemoteExec (rx_url: string) (rx_agentId: string)

type_synonym resolver_cache = "(string, executor) jsmap"

definition createToolExecutor :: "AgentRecord \<Rightarrow> executor" where
  "createToolExecutor agent = (case ag_toolRunnerUrl agent of
      Some url \<Rightarrow> if url \<noteq> [] then RemoteExec url (ag_agentId agent) else LocalExec (newLocalToolExecutor None)
    | None \<Rightarrow> LocalExec (newLocalToolExecutor None))"

definition cacheKey :: "AgentRecord \<Rightarrow> string" where
  "cacheKey agent = ag_agentId agent @ '':'' @ (case ag_toolRunnerUrl agent of None \<Rightarrow> ''local'' | Some u \<Rightarrow> u)"

definition hasRunnerUrl :: "AgentRecord \<Rightarrow> bool" where
  "hasRunnerUrl agent = (case ag_toolRunnerUrl agent of None \<Rightarrow> False | Some u \<Rightarrow> u \<noteq> [])"

text \<open>\<open>registerLocalTools\<close> returns the executor with the handlers it registered and their number.\<close>

type_synonym registrar = "AgentRecord \<Rightarrow> LocalToolExecutor \<Rightarrow> nat \<times> LocalToolExecutor"

definition resolveExecutor ::
  "registrar option \<Rightarrow> AgentRecord \<Rightarrow> resolver_cache \<Rightarrow> (js_error + executor) \<times> resolver_cache" where
  "resolveExecutor reg agent cache =
     (let key = cacheKey agent;
          failOrNoop = (if ag_tools agent \<noteq> []
            then (Inl (SwiftErr VALIDATION (''No execution configuration for agent '' @ ag_agentId agent)), cache)
            else (let noop = LocalExec (newLocalToolExecutor None) in (Inr noop, js_set key noop cache)))
      in case js_get cache key of
        Some x \<Rightarrow> (Inr x, cache)
      | None \<Rightarrow>
          if hasRunnerUrl agent
          then (let x = createToolExecutor agent in (Inr x, js_set key x cache))
          else (case reg of
              None \<Rightarrow> failOrNoop
            | Some f \<Rightarrow> (let (n, lx) = f agent (newLocalToolExecutor None) in
                if n > 0 then (Inr (LocalExec lx), js_set key (LocalExec lx) cache) else failOrNoop)))"

section \<open>Lemmas\<close>

lemma buildToolIndex_get:
  "js_get (buildToolIndex ajv tools) k =
     map_option (compileEntry ajv) (find (\<lambda>d. td_name d = k) (rev tools))"
proof -
  have "js_get (fold (\<lambda>d m. js_set (td_name d) (compileEntry ajv d) m) tools m) k =
     (case find (\<lambda>d. td_name d = k) (rev tools) of None \<Rightarrow> js_get m k | Some d \<Rightarrow> Some (compileEntry ajv d))" for m
  proof (induction tools rule: rev_induct)
    case (snoc d ts)
    then show ?case by (auto simp: update_conv')
  qed simp
  then show ?thesis by (simp add: buildToolIndex_def split: option.splits)
qed

text \<open>A call is accepted exactly when a tool of that name is registered, its schema (that of the last
  definition of the name) compiles, and the arguments satisfy it.\<close>

lemma validateToolCall_ok_iff:
  "validateToolCall (buildToolIndex ajv tools) name args = ValidOk \<longleftrightarrow>
     (\<exists>d v. find (\<lambda>d. td_name d = name) (rev tools) = Some d \<and> ajv (td_inputSchema d) = Inr v \<and> v args = None)"
  by (auto simp: validateToolCall_def buildToolIndex_get compileEntry_def makeSchemaErrorValidator_def
      split: option.splits sum.splits)

lemma race_some: "(Some a, x) \<in> set rs \<Longrightarrow> race rs \<noteq> None"
  by (induction rs) (auto split: option.splits)

lemma race_min: "race rs = Some (t, x) \<Longrightarrow> (Some t, x) \<in> set rs \<and> (\<forall>r \<in> set rs. \<forall>a. fst r = Some a \<longrightarrow> t \<le> a)"
proof (induction rs arbitrary: t x)
  case (Cons r rs)
  obtain u y where r: "r = (u, y)" by (cases r)
  show ?case
  proof (cases "race rs")
    case None
    then have "fst q \<noteq> Some a" if "q \<in> set rs" for q a using race_some [of a "snd q" rs] that by (cases q) auto
    then show ?thesis using Cons.prems None r by (cases u) auto
  next
    case (Some p)
    obtain b z where p: "p = (b, z)" by (cases p)
    have ih: "(Some b, z) \<in> set rs" "\<forall>r \<in> set rs. \<forall>a. fst r = Some a \<longrightarrow> b \<le> a" using Cons.IH Some p by auto
    show ?thesis
    proof (cases u)
      case None
      then show ?thesis using Cons.prems Some r p ih by auto
    next
      case (Some a)
      then show ?thesis using Cons.prems \<open>race rs = Some p\<close> r p ih
        by (cases "a \<le> b") (auto intro: order_trans)
    qed
  qed
qed simp

lemma localExecute_bounded:
  "localExecute dbm lx call ctx sig now = (t, r) \<Longrightarrow> t \<le> now + timerDelay (lx_timeoutMs lx)"
  by (auto simp: localExecute_def Let_def split: if_splits option.splits prod.splits raced.splits sum.splits
      dest!: race_min)

section \<open>The resolver binds executors to agents\<close>

definition boundTo :: "string \<Rightarrow> executor \<Rightarrow> bool" where
  "boundTo k x = (case x of LocalExec _ \<Rightarrow> True
     | RemoteExec url ag \<Rightarrow> k = ag @ '':'' @ url \<and> url \<noteq> ''local'' \<and> CHR '':'' \<notin> set ag)"

definition cacheOk :: "resolver_cache \<Rightarrow> bool" where
  "cacheOk cache = (\<forall>k x. js_get cache k = Some x \<longrightarrow> boundTo k x)"

text \<open>Agent ids are a prefix and a nanoid, without a colon; a runner URL is a URL.\<close>

definition agentOk :: "AgentRecord \<Rightarrow> bool" where
  "agentOk agent = (CHR '':'' \<notin> set (ag_agentId agent) \<and> ag_toolRunnerUrl agent \<noteq> Some ''local'')"

lemma cacheOk_empty [simp]: "cacheOk []"
  by (simp add: cacheOk_def)

lemma cacheOk_set: "cacheOk cache \<Longrightarrow> boundTo k x \<Longrightarrow> cacheOk (js_set k x cache)"
  by (simp add: cacheOk_def update_conv')

lemma boundTo_local [simp]: "boundTo k (LocalExec lx)"
  by (simp add: boundTo_def)

lemma boundTo_created: "agentOk agent \<Longrightarrow> hasRunnerUrl agent \<Longrightarrow> boundTo (cacheKey agent) (createToolExecutor agent)"
  by (auto simp: agentOk_def hasRunnerUrl_def boundTo_def cacheKey_def createToolExecutor_def split: option.splits)

lemma resolveExecutor_cases:
  assumes "resolveExecutor reg agent cache = (r, cache')"
  obtains (cached) x where "js_get cache (cacheKey agent) = Some x" "r = Inr x" "cache' = cache"
  | (remote) "js_get cache (cacheKey agent) = None" "hasRunnerUrl agent" "r = Inr (createToolExecutor agent)"
      "cache' = js_set (cacheKey agent) (createToolExecutor agent) cache"
  | (local) lx where "js_get cache (cacheKey agent) = None" "\<not> hasRunnerUrl agent" "r = Inr (LocalExec lx)"
      "cache' = js_set (cacheKey agent) (LocalExec lx) cache"
  | (fails) e where "js_get cache (cacheKey agent) = None" "\<not> hasRunnerUrl agent" "ag_tools agent \<noteq> []"
      "r = Inl e" "cache' = cache"
  using assms by (auto simp: resolveExecutor_def Let_def split: option.splits if_splits prod.splits)

lemma resolveExecutor_cacheOk:
  "cacheOk cache \<Longrightarrow> agentOk agent \<Longrightarrow> resolveExecutor reg agent cache = (r, cache') \<Longrightarrow> cacheOk cache'"
  by (erule resolveExecutor_cases) (auto intro: cacheOk_set boundTo_created)

lemma sep_inj: "c \<notin> set a \<Longrightarrow> c \<notin> set b \<Longrightarrow> a @ c # x = b @ c # y \<longleftrightarrow> a = b \<and> x = y"
proof (induction a arbitrary: b)
  case Nil
  then show ?case by (cases b) auto
next
  case (Cons h t)
  then show ?case by (cases b) auto
qed

lemma boundTo_key:
  assumes "boundTo (cacheKey agent) (RemoteExec url ag)" "agentOk agent"
  shows "ag = ag_agentId agent \<and> ag_toolRunnerUrl agent = Some url"
proof -
  have "ag @ CHR '':'' # url = ag_agentId agent @ CHR '':'' # (case ag_toolRunnerUrl agent of None \<Rightarrow> ''local'' | Some u \<Rightarrow> u)"
    using assms(1) by (simp add: boundTo_def cacheKey_def)
  then have "ag = ag_agentId agent \<and> url = (case ag_toolRunnerUrl agent of None \<Rightarrow> ''local'' | Some u \<Rightarrow> u)"
    using assms by (subst (asm) sep_inj) (auto simp: boundTo_def agentOk_def)
  then show ?thesis using assms by (auto simp: boundTo_def split: option.splits)
qed

lemma resolveExecutor_bound:
  assumes "cacheOk cache" "agentOk agent" "resolveExecutor reg agent cache = (Inr (RemoteExec url ag), cache')"
  shows "ag = ag_agentId agent \<and> ag_toolRunnerUrl agent = Some url"
proof (rule boundTo_key [OF _ assms(2)])
  show "boundTo (cacheKey agent) (RemoteExec url ag)"
    using assms(3)
    by (cases rule: resolveExecutor_cases)
      (use assms in \<open>auto simp: cacheOk_def dest: boundTo_created\<close>)
qed

end
