(* ===== verification/Models.thy ===== *)
theory Models
  imports Tools
begin

text \<open>The package \<open>models\<close>: the provider-neutral message, request and chunk types, model strings and
  the provider registry, error normalisation, and the three hosted providers with the two
  deterministic ones.  The vendor SDKs are third-party: a provider is modelled from the list of the
  SDK's stream events (and the error that ends it, if any) to the chunks it yields.\<close>

section \<open>JavaScript values\<close>

text \<open>\<open>a ?? b\<close>, where \<^const>\<open>None\<close> is \<open>undefined\<close>; and truthiness.\<close>

definition nullish :: "json option \<Rightarrow> json option \<Rightarrow> json option" where
  "nullish a b = (case a of None \<Rightarrow> b | Some v \<Rightarrow> if v = JNull then b else a)"

fun truthy :: "json \<Rightarrow> bool" where
  "truthy JNull = False"
| "truthy (JBool b) = b"
| "truthy (JNum i) = (i \<noteq> 0)"
| "truthy (JStr s) = (s \<noteq> [])"
| "truthy _ = True"

section \<open>Messages, requests and chunks\<close>

text \<open>The types say \<open>string\<close> where history is parsed from persisted JSON; the fields hold whatever
  value the JSON carries.\<close>

record ToolCallMessage =
  tcm_callId :: json
  tcm_toolName :: json
  tcm_arguments :: "json option"

record ModelMessage =
  mm_role :: MessageRole
  mm_content :: json
  mm_toolCallId :: "json option"
  mm_toolName :: "json option"
  mm_toolCalls :: "ToolCallMessage list option"

definition plainMessage :: "MessageRole \<Rightarrow> json \<Rightarrow> ModelMessage" where
  "plainMessage role content = \<lparr>mm_role = role, mm_content = content, mm_toolCallId = None,
     mm_toolName = None, mm_toolCalls = None\<rparr>"

record ModelRequest =
  mr_model :: string
  mr_messages :: "ModelMessage list"
  mr_tools :: "ToolSchema list option"
  mr_temperature :: "rat option"
  mr_maxTokens :: "nat option"

record ChunkUsage =
  cu_inputTokens :: "nat option"
  cu_outputTokens :: "nat option"
  cu_totalTokens :: "nat option"

definition noUsage :: ChunkUsage where
  "noUsage = \<lparr>cu_inputTokens = None, cu_outputTokens = None, cu_totalTokens = None\<rparr>"

datatype ModelStreamChunk = TokenChunk (ck_text: string)
  | ToolCallChunk (ck_toolName: string) (ck_callId: string) (ck_arguments: "json option")
  | FinishChunk (ck_finishReason: string) (ck_usage: ChunkUsage)

record ProviderConfig =
  pc_apiKey :: string
  pc_baseUrl :: "string option"
  pc_defaultModel :: "string option"
  pc_timeout :: "int option"

section \<open>Model errors\<close>

record ModelError =
  er_message :: string
  er_provider :: string
  er_statusCode :: "int option"
  er_retryable :: bool

definition modelError :: "string \<Rightarrow> string \<Rightarrow> ModelError" where
  "modelError msg p = \<lparr>er_message = msg, er_provider = p, er_statusCode = None, er_retryable = False\<rparr>"

text \<open>What an SDK throws: a \<open>ModelError\<close> already, or some value with its \<open>status\<close> and \<open>statusCode\<close>
  properties when they are numbers, and its message.\<close>

datatype thrown = ThrownModel ModelError | ThrownOther "int option" "int option" string

definition RETRYABLE_STATUS_CODES :: "int list" where
  "RETRYABLE_STATUS_CODES = [429, 500, 502, 503, 504]"

definition normalizeError :: "thrown \<Rightarrow> string \<Rightarrow> ModelError" where
  "normalizeError e p = (case e of ThrownModel m \<Rightarrow> m
     | ThrownOther st sc msg \<Rightarrow>
        (let code = (case st of Some n \<Rightarrow> Some n | None \<Rightarrow> sc)
         in \<lparr>er_message = msg, er_provider = p, er_statusCode = code,
             er_retryable = (case code of None \<Rightarrow> False | Some n \<Rightarrow> n \<in> set RETRYABLE_STATUS_CODES)\<rparr>))"

definition wrapAnthropicError :: "thrown \<Rightarrow> ModelError" where
  "wrapAnthropicError e = (let err = normalizeError e ''anthropic'' in
     if er_statusCode err = Some 529 \<and> \<not> er_retryable err
     then \<lparr>er_message = er_message err, er_provider = ''anthropic'', er_statusCode = Some 529, er_retryable = True\<rparr>
     else err)"

section \<open>Model strings and the registry\<close>

definition PROVIDER_ALIASES :: "(string \<times> string) list" where
  "PROVIDER_ALIASES = [(''openai'', ''openai''), (''anthropic'', ''anthropic''), (''google'', ''google''),
     (''gemini'', ''google''), (''claude'', ''anthropic''), (''gpt'', ''openai'')]"

definition parseModelString :: "string \<Rightarrow> ModelError + string \<times> string" where
  "parseModelString m = (if m = [] then Inl (modelError ''Model string must not be empty'' ''unknown'')
     else case indexOf (CHR ''/'') m of
       None \<Rightarrow> Inl (modelError (''Invalid model string \"'' @ m @ ''\": expected format \"provider/model-name\"'') ''unknown'')
     | Some i \<Rightarrow> (let raw = take i m; name = drop (i + 1) m in
         if raw = [] then Inl (modelError (''Invalid model string \"'' @ m @ ''\": provider segment is empty'') ''unknown'')
         else if name = [] then Inl (modelError (''Invalid model string \"'' @ m @ ''\": model segment is empty'') ''unknown'')
         else Inr (case map_of PROVIDER_ALIASES raw of Some p \<Rightarrow> p | None \<Rightarrow> raw, name)))"

definition formatModelString :: "string \<Rightarrow> string \<Rightarrow> string" where
  "formatModelString p m = p @ ''/'' @ m"

definition PROVIDER_KEY_MAP :: "(string \<times> string) list" where
  "PROVIDER_KEY_MAP = [(''openai'', ''OPENAI_API_KEY''), (''anthropic'', ''ANTHROPIC_API_KEY''), (''google'', ''GOOGLE_API_KEY'')]"

record 'p ProviderRegistry =
  pr_factories :: "(string, ProviderConfig \<Rightarrow> 'p) jsmap"
  pr_configs :: "(string, ProviderConfig) jsmap"
  pr_instances :: "(string, 'p) jsmap"

definition registry_register ::
  "string \<Rightarrow> (ProviderConfig \<Rightarrow> 'p) \<Rightarrow> ProviderConfig option \<Rightarrow> 'p ProviderRegistry \<Rightarrow> 'p ProviderRegistry" where
  "registry_register pid f cfg r = \<lparr>pr_factories = js_set pid f (pr_factories r),
     pr_configs = (case cfg of None \<Rightarrow> pr_configs r | Some c \<Rightarrow> js_set pid c (pr_configs r)),
     pr_instances = js_delete pid (pr_instances r)\<rparr>"

definition resolveConfig :: "(string \<Rightarrow> string option) \<Rightarrow> string \<Rightarrow> 'p ProviderRegistry \<Rightarrow> ModelError + ProviderConfig" where
  "resolveConfig env pid r = (case js_get (pr_configs r) pid of Some c \<Rightarrow> Inr c
     | None \<Rightarrow> (case map_of PROVIDER_KEY_MAP pid of
         None \<Rightarrow> Inl (modelError (''No config or known env var for provider \"'' @ pid @
           ''\". Register with an explicit config or add a mapping to PROVIDER_KEY_MAP.'') pid)
       | Some var \<Rightarrow> (case env var of
           None \<Rightarrow> Inl (modelError (''Missing API key for provider \"'' @ pid @ ''\": set the '' @ var @ '' environment variable'') pid)
         | Some k \<Rightarrow> if k = [] then Inl (modelError (''Missing API key for provider \"'' @ pid @ ''\": set the '' @ var @ '' environment variable'') pid)
             else Inr \<lparr>pc_apiKey = k, pc_baseUrl = None, pc_defaultModel = None, pc_timeout = None\<rparr>)))"

definition getProvider ::
  "(string \<Rightarrow> string option) \<Rightarrow> string \<Rightarrow> 'p ProviderRegistry \<Rightarrow> (ModelError + 'p) \<times> 'p ProviderRegistry" where
  "getProvider env pid r = (case js_get (pr_instances r) pid of Some p \<Rightarrow> (Inr p, r)
     | None \<Rightarrow> (case js_get (pr_factories r) pid of
         None \<Rightarrow> (Inl (modelError (''No provider registered for \"'' @ pid @ ''\"'') pid), r)
       | Some f \<Rightarrow> (case resolveConfig env pid r of Inl e \<Rightarrow> (Inl e, r)
           | Inr c \<Rightarrow> (Inr (f c), r\<lparr>pr_instances := js_set pid (f c) (pr_instances r)\<rparr>))))"

definition resolveForModel ::
  "(string \<Rightarrow> string option) \<Rightarrow> string \<Rightarrow> 'p ProviderRegistry \<Rightarrow> (ModelError + 'p \<times> string) \<times> 'p ProviderRegistry" where
  "resolveForModel env m r = (case parseModelString m of Inl e \<Rightarrow> (Inl e, r)
     | Inr (p, name) \<Rightarrow> (case getProvider env p r of (Inl e, r') \<Rightarrow> (Inl e, r') | (Inr x, r') \<Rightarrow> (Inr (x, name), r')))"

definition mergeSignals :: "abort_signal option \<Rightarrow> int option \<Rightarrow> nat \<Rightarrow> js_error \<Rightarrow> abort_signal" where
  "mergeSignals userSignal timeoutMs now timeoutErr =
     (let sigs = (case userSignal of None \<Rightarrow> [] | Some s \<Rightarrow> [s]) @
                 (case timeoutMs of None \<Rightarrow> [] | Some ms \<Rightarrow> if ms > 0 then [[(now + timerDelay (nat ms), timeoutErr)]] else [])
      in signalAny sigs)"

section \<open>The echo and fixture providers\<close>

definition lastUserContent :: "ModelMessage list \<Rightarrow> json" where
  "lastUserContent ms = (case find (\<lambda>m. mm_role m = User) (rev ms) of Some m \<Rightarrow> mm_content m | None \<Rightarrow> JStr ''echo'')"

text \<open>(The ellipsis of the fixture's first token is written as three dots.)  \<open>split(/(s+)/)\<close> without the empty pieces: maximal runs of spaces and of other characters.\<close>

fun runsOf :: "(char \<Rightarrow> bool) \<Rightarrow> string \<Rightarrow> string list" where
  "runsOf p [] = []"
| "runsOf p (c # cs) = (case runsOf p cs of [] \<Rightarrow> [[c]]
     | r # rs \<Rightarrow> if p (hd r) = p c then (c # r) # rs else [c] # r # rs)"

definition tokenize :: "string \<Rightarrow> string list" where
  "tokenize s = (let ts = runsOf isSpace s in if ts = [] then [''echo''] else ts)"

definition echoGenerate :: "string \<Rightarrow> ModelStreamChunk list" where
  "echoGenerate s = (let ts = tokenize s in map TokenChunk ts @
     [FinishChunk ''stop'' \<lparr>cu_inputTokens = Some 0, cu_outputTokens = Some (length ts), cu_totalTokens = Some (length ts)\<rparr>])"

definition FINAL_TURN_TOKENS :: "string list" where
  "FINAL_TURN_TOKENS = [''The '', ''local_echo '', ''tool '', ''responded '', ''successfully.'']"

definition fixtureGenerate :: "ModelMessage list \<Rightarrow> ModelStreamChunk list" where
  "fixtureGenerate ms = (if filter (\<lambda>m. mm_role m = Tool) ms = []
     then [TokenChunk ''Calling local_echo... '',
           ToolCallChunk ''local_echo'' ''fixture_call_1''
             (Some (JObj [(''message'', JStr ''hello from the local fixture''), (''shout'', JBool False)])),
           FinishChunk ''tool_calls'' \<lparr>cu_inputTokens = Some 0, cu_outputTokens = Some 1, cu_totalTokens = Some 1\<rparr>]
     else map TokenChunk FINAL_TURN_TOKENS @
          [FinishChunk ''stop'' \<lparr>cu_inputTokens = Some 0, cu_outputTokens = Some (length FINAL_TURN_TOKENS),
             cu_totalTokens = Some (length FINAL_TURN_TOKENS)\<rparr>])"

section \<open>OpenAI\<close>

record OpenAIDelta =
  od_index :: nat
  od_id :: "string option"
  od_name :: "string option"
  od_arguments :: "string option"

record OpenAIEvent =
  oe_hasChoice :: bool
  oe_content :: "string option"
  oe_toolCalls :: "OpenAIDelta list"
  oe_finishReason :: "string option"
  oe_usage :: "ChunkUsage option"

record PartialToolCall =
  pt_id :: string
  pt_name :: string
  pt_arguments :: string

record OpenAIState =
  os_accum :: "(nat, PartialToolCall) jsmap"
  os_finishReason :: string
  os_usage :: ChunkUsage

definition nonEmpty :: "string option \<Rightarrow> string option" where
  "nonEmpty s = (case s of None \<Rightarrow> None | Some t \<Rightarrow> if t = [] then None else Some t)"

definition openaiDelta :: "OpenAIDelta \<Rightarrow> (nat, PartialToolCall) jsmap \<Rightarrow> (nat, PartialToolCall) jsmap" where
  "openaiDelta d m = (let acc = (case js_get m (od_index d) of Some a \<Rightarrow> a | None \<Rightarrow> \<lparr>pt_id = [], pt_name = [], pt_arguments = []\<rparr>)
     in js_set (od_index d)
          \<lparr>pt_id = (case nonEmpty (od_id d) of Some i \<Rightarrow> i | None \<Rightarrow> pt_id acc),
           pt_name = (case nonEmpty (od_name d) of Some n \<Rightarrow> n | None \<Rightarrow> pt_name acc),
           pt_arguments = pt_arguments acc @ (case od_arguments d of Some a \<Rightarrow> a | None \<Rightarrow> [])\<rparr> m)"

definition openaiEvent :: "OpenAIEvent \<Rightarrow> OpenAIState \<Rightarrow> ModelStreamChunk list \<times> OpenAIState" where
  "openaiEvent e s =
     (let toks = (if oe_hasChoice e then (case nonEmpty (oe_content e) of Some t \<Rightarrow> [TokenChunk t] | None \<Rightarrow> []) else []);
          acc = (if oe_hasChoice e then fold openaiDelta (oe_toolCalls e) (os_accum s) else os_accum s);
          fr = (if oe_hasChoice e then (case nonEmpty (oe_finishReason e) of Some f \<Rightarrow> f | None \<Rightarrow> os_finishReason s) else os_finishReason s);
          us = (case oe_usage e of Some u \<Rightarrow> u | None \<Rightarrow> os_usage s)
      in (toks, \<lparr>os_accum = acc, os_finishReason = fr, os_usage = us\<rparr>))"

definition parseArgs :: "string \<Rightarrow> json" where
  "parseArgs raw = (case parse (if raw = [] then ''{}'' else raw) of Some v \<Rightarrow> v | None \<Rightarrow> JStr raw)"

definition openaiFlush :: "OpenAIState \<Rightarrow> ModelStreamChunk list" where
  "openaiFlush s = map (\<lambda>(i, tc). ToolCallChunk (pt_name tc) (pt_id tc) (Some (parseArgs (pt_arguments tc))))
       (sort_key fst (os_accum s)) @ [FinishChunk (os_finishReason s) (os_usage s)]"

fun openaiRun :: "OpenAIEvent list \<Rightarrow> thrown option \<Rightarrow> OpenAIState \<Rightarrow> ModelStreamChunk list \<times> ModelError option" where
  "openaiRun [] (Some e) s = ([], Some (normalizeError e ''openai''))"
| "openaiRun [] None s = (openaiFlush s, None)"
| "openaiRun (e # es) end s = (case openaiEvent e s of (cs, s') \<Rightarrow> (case openaiRun es end s' of (ds, r) \<Rightarrow> (cs @ ds, r)))"

definition openaiGenerate :: "OpenAIEvent list \<Rightarrow> thrown option \<Rightarrow> ModelStreamChunk list \<times> ModelError option" where
  "openaiGenerate es end = openaiRun es end \<lparr>os_accum = [], os_finishReason = ''stop'', os_usage = noUsage\<rparr>"

text \<open>The wire form of the history.\<close>

definition toOpenAIMessage :: "ModelMessage \<Rightarrow> json" where
  "toOpenAIMessage m = (case mm_role m of
      System \<Rightarrow> JObj [(''role'', JStr ''system''), (''content'', mm_content m)]
    | User \<Rightarrow> JObj [(''role'', JStr ''user''), (''content'', mm_content m)]
    | Assistant \<Rightarrow> objOf [(''role'', Some (JStr ''assistant'')),
         (''content'', Some (if truthy (mm_content m) then mm_content m else JNull)),
         (''tool_calls'', (case mm_toolCalls m of None \<Rightarrow> None
            | Some tcs \<Rightarrow> if tcs = [] then None else Some (JArr (map (\<lambda>tc. JObj
                [(''id'', tcm_callId tc), (''type'', JStr ''function''),
                 (''function'', objOf [(''name'', Some (tcm_toolName tc)),
                    (''arguments'', (case tcm_arguments tc of None \<Rightarrow> None
                        | Some (JStr s) \<Rightarrow> Some (JStr s) | Some v \<Rightarrow> Some (JStr (stringify v))))])]) tcs))))]
    | Tool \<Rightarrow> JObj [(''role'', JStr ''tool''),
         (''tool_call_id'', the (nullish (mm_toolCallId m) (Some (JStr [])))), (''content'', mm_content m)])"

section \<open>Anthropic\<close>

datatype AnthropicEvent = MessageStart "nat option" | BlockStartToolUse nat string string | BlockStartOther nat
  | TextDelta nat string | InputJsonDelta nat string | OtherDelta nat | BlockStop nat
  | MessageDelta "string option" "nat option" | OtherEvent

record ToolCallBuffer =
  tb_callId :: string
  tb_toolName :: string
  tb_jsonParts :: "string list"

record AnthropicState =
  as_inputTokens :: "nat option"
  as_buffers :: "(nat, ToolCallBuffer) jsmap"

definition anthropicEvent :: "AnthropicEvent \<Rightarrow> AnthropicState \<Rightarrow> ModelStreamChunk list \<times> AnthropicState" where
  "anthropicEvent e s = (case e of
      MessageStart n \<Rightarrow> ([], s\<lparr>as_inputTokens := n\<rparr>)
    | BlockStartToolUse i ident name \<Rightarrow>
        ([], s\<lparr>as_buffers := js_set i \<lparr>tb_callId = ident, tb_toolName = name, tb_jsonParts = []\<rparr> (as_buffers s)\<rparr>)
    | TextDelta i t \<Rightarrow> ([TokenChunk t], s)
    | InputJsonDelta i p \<Rightarrow> (case js_get (as_buffers s) i of None \<Rightarrow> ([], s)
        | Some b \<Rightarrow> ([], s\<lparr>as_buffers := js_set i (b\<lparr>tb_jsonParts := tb_jsonParts b @ [p]\<rparr>) (as_buffers s)\<rparr>))
    | BlockStop i \<Rightarrow> (case js_get (as_buffers s) i of None \<Rightarrow> ([], s)
        | Some b \<Rightarrow> ([ToolCallChunk (tb_toolName b) (tb_callId b) (Some (parseArgs (concat (tb_jsonParts b))))],
                     s\<lparr>as_buffers := js_delete i (as_buffers s)\<rparr>))
    | MessageDelta sr out \<Rightarrow>
        ([FinishChunk (case sr of Some r \<Rightarrow> r | None \<Rightarrow> ''end_turn'')
           \<lparr>cu_inputTokens = as_inputTokens s, cu_outputTokens = out,
            cu_totalTokens = (case (as_inputTokens s, out) of (Some a, Some b) \<Rightarrow> Some (a + b) | _ \<Rightarrow> None)\<rparr>], s)
    | _ \<Rightarrow> ([], s))"

fun anthropicRun :: "AnthropicEvent list \<Rightarrow> thrown option \<Rightarrow> AnthropicState \<Rightarrow> ModelStreamChunk list \<times> ModelError option" where
  "anthropicRun [] end s = ([], map_option wrapAnthropicError end)"
| "anthropicRun (e # es) end s = (case anthropicEvent e s of (cs, s') \<Rightarrow>
     (case anthropicRun es end s' of (ds, r) \<Rightarrow> (cs @ ds, r)))"

definition anthropicGenerate :: "AnthropicEvent list \<Rightarrow> thrown option \<Rightarrow> ModelStreamChunk list \<times> ModelError option" where
  "anthropicGenerate es end = anthropicRun es end \<lparr>as_inputTokens = None, as_buffers = []\<rparr>"

definition mapAnthropicMessage :: "ModelMessage \<Rightarrow> json" where
  "mapAnthropicMessage m = (if mm_role m = Tool
     then JObj [(''role'', JStr ''user''), (''content'', JArr [JObj [(''type'', JStr ''tool_result''),
            (''tool_use_id'', the (nullish (mm_toolCallId m) (Some (JStr [])))), (''content'', mm_content m)]])]
     else (case (mm_role m, mm_toolCalls m) of
         (Assistant, Some (tc # tcs)) \<Rightarrow> JObj [(''role'', JStr ''assistant''), (''content'', JArr (
             (if truthy (mm_content m) then [JObj [(''type'', JStr ''text''), (''text'', mm_content m)]] else []) @
             map (\<lambda>c. objOf [(''type'', Some (JStr ''tool_use'')), (''id'', Some (tcm_callId c)),
                (''name'', Some (tcm_toolName c)), (''input'', tcm_arguments c)]) (tc # tcs)))]
       | _ \<Rightarrow> JObj [(''role'', JStr (if mm_role m = User then ''user'' else if mm_role m = Assistant then ''assistant'' else ''system'')),
              (''content'', mm_content m)]))"

section \<open>Google\<close>

record GooglePart =
  gp_text :: "string option"
  gp_functionCall :: "(string \<times> json option) option"

record GoogleEvent =
  ge_hasCandidate :: bool
  ge_parts :: "GooglePart list"
  ge_finishReason :: "string option"
  ge_usage :: "ChunkUsage option"

definition FINISH_REASON_MAP :: "(string \<times> string) list" where
  "FINISH_REASON_MAP = [(''STOP'', ''stop''), (''MAX_TOKENS'', ''max_tokens''), (''SAFETY'', ''safety''),
     (''RECITATION'', ''recitation''), (''OTHER'', ''other'')]"

definition mapFinishReason :: "string option \<Rightarrow> string" where
  "mapFinishReason raw = (case nonEmpty raw of None \<Rightarrow> ''stop''
     | Some r \<Rightarrow> (case map_of FINISH_REASON_MAP r of Some f \<Rightarrow> f | None \<Rightarrow> toLowerCase r))"

text \<open>\<open>ids\<close> are the ids synthesised for the function calls, in order; \<open>abortedAt k\<close> tells whether the
  merged signal has aborted when the \<open>k\<close>-th event arrives: the loop then \<open>break\<close>s and the stream ends
  with a normal \<open>finish\<close> chunk.\<close>

definition googleParts :: "(nat \<Rightarrow> string) \<Rightarrow> GooglePart list \<Rightarrow> nat \<Rightarrow> ModelStreamChunk list \<times> nat" where
  "googleParts ids ps n = fold (\<lambda>p (cs, k).
      let ts = (case nonEmpty (gp_text p) of Some t \<Rightarrow> [TokenChunk t] | None \<Rightarrow> []) in
      case gp_functionCall p of None \<Rightarrow> (cs @ ts, k)
      | Some (name, args) \<Rightarrow> (cs @ ts @ [ToolCallChunk name (ids k) (nullish args (Some (JObj [])))], Suc k)) ps ([], n)"

fun googleRun :: "(nat \<Rightarrow> string) \<Rightarrow> (nat \<Rightarrow> bool) \<Rightarrow> GoogleEvent list \<Rightarrow> thrown option \<Rightarrow> nat \<Rightarrow> nat \<Rightarrow> string
    \<Rightarrow> ChunkUsage \<Rightarrow> ModelStreamChunk list \<times> ModelError option" where
  "googleRun ids ab [] end k n fr us = (case end of Some e \<Rightarrow> ([], Some (normalizeError e ''google''))
     | None \<Rightarrow> ([FinishChunk fr us], None))"
| "googleRun ids ab (e # es) end k n fr us = (if ab k then ([FinishChunk fr us], None)
     else (let (cs, n') = (if ge_hasCandidate e then googleParts ids (ge_parts e) n else ([], n));
               fr' = (if ge_hasCandidate e then (case nonEmpty (ge_finishReason e) of Some f \<Rightarrow> mapFinishReason (Some f) | None \<Rightarrow> fr) else fr);
               us' = (case ge_usage e of Some u \<Rightarrow> u | None \<Rightarrow> us)
           in case googleRun ids ab es end (Suc k) n' fr' us' of (ds, r) \<Rightarrow> (cs @ ds, r)))"

definition googleGenerate :: "(nat \<Rightarrow> string) \<Rightarrow> (nat \<Rightarrow> bool) \<Rightarrow> GoogleEvent list \<Rightarrow> thrown option
    \<Rightarrow> ModelStreamChunk list \<times> ModelError option" where
  "googleGenerate ids ab es end = googleRun ids ab es end 0 0 ''stop'' noUsage"

definition toGoogleContent :: "ModelMessage \<Rightarrow> json list" where
  "toGoogleContent m = (case mm_role m of
      System \<Rightarrow> []
    | User \<Rightarrow> [JObj [(''role'', JStr ''user''), (''parts'', JArr [JObj [(''text'', mm_content m)]])]]
    | Assistant \<Rightarrow> [JObj [(''role'', JStr ''model''), (''parts'', JArr (
          (if truthy (mm_content m) then [JObj [(''text'', mm_content m)]] else []) @
          map (\<lambda>c. JObj [(''functionCall'', JObj [(''name'', tcm_toolName c),
             (''args'', (case tcm_arguments c of Some (JObj ps) \<Rightarrow> JObj ps | Some (JArr vs) \<Rightarrow> JArr vs | _ \<Rightarrow> JObj []))])])
            (case mm_toolCalls m of None \<Rightarrow> [] | Some tcs \<Rightarrow> tcs)))]]
    | Tool \<Rightarrow> [JObj [(''role'', JStr ''function''), (''parts'', JArr [JObj [(''functionResponse'', JObj
          [(''name'', the (nullish (mm_toolName m) (nullish (mm_toolCallId m) (Some (JStr []))))),
           (''response'', (case mm_content m of JStr s \<Rightarrow> (case parse s of Some v \<Rightarrow> v | None \<Rightarrow> JObj [(''result'', JStr s)])
                           | v \<Rightarrow> v))])]])]])"

section \<open>Facts\<close>

lemma indexOf_append: "c \<notin> set p \<Longrightarrow> indexOf c (p @ c # q) = Some (length p)"
  by (induction p) auto

lemma parse_format: "CHR ''/'' \<notin> set p \<Longrightarrow> p \<noteq> [] \<Longrightarrow> m \<noteq> [] \<Longrightarrow>
    parseModelString (formatModelString p m) = Inr (case map_of PROVIDER_ALIASES p of Some q \<Rightarrow> q | None \<Rightarrow> p, m)"
  by (simp add: parseModelString_def formatModelString_def indexOf_append)

lemma concat_runsOf: "concat (runsOf p s) = s"
  by (induction s) (auto split: list.splits)

lemma tokenize_concat: "s \<noteq> [] \<Longrightarrow> concat (tokenize s) = s"
  using concat_runsOf [of isSpace s] by (auto simp: tokenize_def Let_def)

lemma getProvider_cached:
  "getProvider env pid r = (Inr x, r') \<Longrightarrow> getProvider env pid r' = (Inr x, r')"
proof (cases "js_get (pr_instances r) pid")
  case None
  assume g: "getProvider env pid r = (Inr x, r')"
  obtain f c where "js_get (pr_factories r) pid = Some f" "resolveConfig env pid r = Inr c"
    using g None by (auto simp: getProvider_def split: option.splits sum.splits)
  then show ?thesis using g None by (auto simp: getProvider_def update_conv')
qed (auto simp: getProvider_def)

definition isFinish :: "ModelStreamChunk \<Rightarrow> bool" where
  "isFinish c = (case c of FinishChunk _ _ \<Rightarrow> True | _ \<Rightarrow> False)"

lemma openaiEvent_noFinish: "openaiEvent e s = (cs, s') \<Longrightarrow> c \<in> set cs \<Longrightarrow> \<not> isFinish c"
  by (auto simp: openaiEvent_def Let_def isFinish_def split: if_splits option.splits)

text \<open>A stream that ends without an error carries exactly one \<open>finish\<close> chunk, its last.\<close>

lemma openaiRun_finish: "openaiRun es end s = (cs, None) \<Longrightarrow>
    \<exists>ds fr u. cs = ds @ [FinishChunk fr u] \<and> (\<forall>d \<in> set ds. \<not> isFinish d)"
proof (induction es "end" s arbitrary: cs rule: openaiRun.induct)
  case (2 s)
  then show ?case by (auto simp: openaiFlush_def isFinish_def)
next
  case (3 e es "end" s)
  obtain c0 s' where 0: "openaiEvent e s = (c0, s')" by (cases "openaiEvent e s")
  obtain c1 where 1: "openaiRun es end s' = (c1, None)" "cs = c0 @ c1" using 3(2) 0 by (auto split: prod.splits)
  from 3(1) [OF 0 [symmetric] 1(1)] obtain ds fr u
    where "c1 = ds @ [FinishChunk fr u]" "\<forall>d \<in> set ds. \<not> isFinish d" by blast
  then show ?case using 1(2) openaiEvent_noFinish [OF 0] by (intro exI [of _ "c0 @ ds"]) auto
qed simp

lemma openaiGenerate_finish: "openaiGenerate es end = (cs, None) \<Longrightarrow>
    \<exists>ds fr u. cs = ds @ [FinishChunk fr u] \<and> (\<forall>d \<in> set ds. \<not> isFinish d)"
  unfolding openaiGenerate_def by (rule openaiRun_finish)

end
