(* ===== verification/Context_Builder.thy ===== *)
theory Context_Builder
  imports Models
begin

text \<open>\<open>context-builder.ts\<close> and \<open>memory/*.ts\<close>: from the persisted history of a session to the messages
  a model call sends.  The loop persists tool rounds as JSON; the properties say that what it writes
  is read back with the provider's own call ids and tool names.\<close>

section \<open>Memory strategies\<close>

text \<open>\<open>xs.slice(-n)\<close>: for \<open>n = 0\<close> it is \<open>xs.slice(0)\<close>, the whole list.\<close>

definition sliceLast :: "nat \<Rightarrow> 'a list \<Rightarrow> 'a list" where
  "sliceLast n xs = (if n = 0 then xs else drop (length xs - n) xs)"

definition lastNTrim :: "nat \<Rightarrow> MessageRecord list \<Rightarrow> MessageRecord list" where
  "lastNTrim n ms = (let nonSystem = filter (\<lambda>m. me_role m \<noteq> System) ms
     in if length nonSystem \<le> n then nonSystem else sliceLast n nonSystem)"

definition summaryTrim :: "MessageRecord list \<Rightarrow> MessageRecord list" where
  "summaryTrim ms = ms"

datatype memoryImpl = LastNImpl nat | SummaryImpl

definition createMemoryStrategy :: "MemoryStrategy \<Rightarrow> nat option \<Rightarrow> memoryImpl" where
  "createMemoryStrategy name lastN = (case name of
      LastN \<Rightarrow> LastNImpl (case lastN of None \<Rightarrow> 50 | Some n \<Rightarrow> n) | Summary \<Rightarrow> SummaryImpl)"

fun trimHistory :: "memoryImpl \<Rightarrow> MessageRecord list \<Rightarrow> MessageRecord list" where
  "trimHistory (LastNImpl n) ms = lastNTrim n ms"
| "trimHistory SummaryImpl ms = summaryTrim ms"

section \<open>What the loop persists\<close>

record PreparedCall =
  pd_swiftCallId :: string
  pd_providerCallId :: string
  pd_toolName :: string
  pd_arguments :: "json option"

definition persistedCall :: "PreparedCall \<Rightarrow> json" where
  "persistedCall p = objOf [(''swiftCallId'', Some (JStr (pd_swiftCallId p))),
     (''providerCallId'', Some (JStr (pd_providerCallId p))), (''toolName'', Some (JStr (pd_toolName p))),
     (''arguments'', pd_arguments p)]"

definition assistantContent :: "string \<Rightarrow> PreparedCall list \<Rightarrow> string" where
  "assistantContent txt calls = stringify (JObj [(''text'', JStr txt), (''toolCalls'', JArr (map persistedCall calls))])"

text \<open>\<open>ToolMessageContent\<close>; the result is \<open>undefined\<close> when the executor returned no output.\<close>

definition toolContent :: "PreparedCall \<Rightarrow> string option \<Rightarrow> string" where
  "toolContent p res = stringify (objOf [(''swiftCallId'', Some (JStr (pd_swiftCallId p))),
     (''providerCallId'', Some (JStr (pd_providerCallId p))), (''toolName'', Some (JStr (pd_toolName p))),
     (''result'', map_option JStr res)])"

section \<open>The builder\<close>

type_synonym legacyNames = "(json, json) jsmap"

text \<open>One entry of \<open>toolCalls\<close>.  Reading a property of \<open>null\<close> throws: \<^const>\<open>None\<close>.\<close>

definition mapCall :: "json \<Rightarrow> legacyNames \<Rightarrow> (ToolCallMessage \<times> legacyNames) option" where
  "mapCall tc names = (if tc = JNull then None
     else (let callId = the (nullish (nullish (getProp ''providerCallId'' tc) (getProp ''callId'' tc)) (Some (JStr [])));
               toolName = the (nullish (getProp ''toolName'' tc) (Some (JStr [])));
               names' = (if truthy callId \<and> truthy toolName then js_set callId toolName names else names)
           in Some (\<lparr>tcm_callId = callId, tcm_toolName = toolName, tcm_arguments = getProp ''arguments'' tc\<rparr>, names')))"

text \<open>The calls of one message: the entries before one that throws have already been recorded.\<close>

fun mapCalls :: "json list \<Rightarrow> legacyNames \<Rightarrow> ToolCallMessage list option \<times> legacyNames" where
  "mapCalls [] names = (Some [], names)"
| "mapCalls (tc # tcs) names = (case mapCall tc names of None \<Rightarrow> (None, names)
     | Some (c, names1) \<Rightarrow> (case mapCalls tcs names1 of (cs, names2) \<Rightarrow> (map_option ((#) c) cs, names2)))"

definition toolCallsEnvelope :: "string \<Rightarrow> (json \<times> json list) option" where
  "toolCallsEnvelope content = (case parse content of None \<Rightarrow> None
     | Some v \<Rightarrow> (case (getProp ''text'' v, getProp ''toolCalls'' v) of
         (Some t, Some (JArr tcs)) \<Rightarrow> Some (t, tcs) | _ \<Rightarrow> None))"

definition mapAssistantMessage :: "MessageRecord \<Rightarrow> legacyNames \<Rightarrow> ModelMessage \<times> legacyNames" where
  "mapAssistantMessage m names = (case toolCallsEnvelope (me_content m) of
      Some (t, tcs) \<Rightarrow> (case mapCalls tcs names of
          (Some cs, names') \<Rightarrow> (\<lparr>mm_role = Assistant, mm_content = t, mm_toolCallId = None, mm_toolName = None,
                                mm_toolCalls = Some cs\<rparr>, names')
        | (None, names') \<Rightarrow> (plainMessage Assistant (JStr (me_content m)), names'))
    | None \<Rightarrow> (plainMessage Assistant (JStr (me_content m)), names))"

definition findToolName :: "json option \<Rightarrow> legacyNames \<Rightarrow> json option" where
  "findToolName pid names = (case pid of None \<Rightarrow> None | Some k \<Rightarrow> js_get names k)"

definition mapToolMessage :: "MessageRecord \<Rightarrow> legacyNames \<Rightarrow> ModelMessage" where
  "mapToolMessage m names = (case parse (me_content m) of
      Some (JObj ps) \<Rightarrow> (let v = JObj ps in
        case getProp ''result'' v of
          None \<Rightarrow> plainMessage Tool (JStr (me_content m))
        | Some r \<Rightarrow> if getProp ''providerCallId'' v = None \<and> getProp ''toolCallId'' v = None
            then plainMessage Tool (JStr (me_content m))
            else (let pid = nullish (getProp ''providerCallId'' v) (getProp ''toolCallId'' v)
                  in \<lparr>mm_role = Tool, mm_content = r, mm_toolCallId = pid,
                      mm_toolName = nullish (getProp ''toolName'' v) (findToolName pid names), mm_toolCalls = None\<rparr>))
    | _ \<Rightarrow> plainMessage Tool (JStr (me_content m)))"

fun mapHistory :: "MessageRecord list \<Rightarrow> legacyNames \<Rightarrow> ModelMessage list" where
  "mapHistory [] names = []"
| "mapHistory (m # ms) names = (case me_role m of
      System \<Rightarrow> mapHistory ms names
    | User \<Rightarrow> plainMessage User (JStr (me_content m)) # mapHistory ms names
    | Assistant \<Rightarrow> (case mapAssistantMessage m names of (x, names') \<Rightarrow> x # mapHistory ms names')
    | Tool \<Rightarrow> mapToolMessage m names # mapHistory ms names)"

definition buildContext :: "AgentRecord \<Rightarrow> memoryImpl \<Rightarrow> MessageRecord list \<Rightarrow> ModelMessage list" where
  "buildContext agent mem history =
     (if ag_systemPrompt agent \<noteq> [] then [plainMessage System (JStr (ag_systemPrompt agent))] else []) @
     mapHistory (trimHistory mem history) []"

section \<open>Facts\<close>

lemma lastNTrim_length: "0 < n \<Longrightarrow> length (lastNTrim n ms) \<le> n"
  by (auto simp: lastNTrim_def sliceLast_def Let_def)

lemma lastNTrim_suffix: "suffix (lastNTrim n ms) (filter (\<lambda>m. me_role m \<noteq> System) ms)"
  by (auto simp: lastNTrim_def sliceLast_def Let_def suffix_drop)

lemma wf_persistedCall: "(\<And>v. pd_arguments p = Some v \<Longrightarrow> wf_json v) \<Longrightarrow> wf_json (persistedCall p)"
  by (auto simp: persistedCall_def objOf_def split: option.splits)

definition argsWf :: "PreparedCall \<Rightarrow> bool" where
  "argsWf p = (case pd_arguments p of None \<Rightarrow> True | Some v \<Rightarrow> wf_json v)"

definition providerCall :: "PreparedCall \<Rightarrow> ToolCallMessage" where
  "providerCall p = \<lparr>tcm_callId = JStr (pd_providerCallId p), tcm_toolName = JStr (pd_toolName p),
     tcm_arguments = pd_arguments p\<rparr>"

lemma mapCall_persisted:
  "\<exists>names'. mapCall (persistedCall p) names = Some (providerCall p, names')"
  by (auto simp: mapCall_def persistedCall_def objOf_def providerCall_def nullish_def Let_def split: option.splits)

lemma mapCalls_persisted: "\<exists>names'. mapCalls (map persistedCall ps) names = (Some (map providerCall ps), names')"
proof (induction ps arbitrary: names)
  case (Cons p ps)
  obtain n1 where 1: "mapCall (persistedCall p) names = Some (providerCall p, n1)" using mapCall_persisted by blast
  obtain n2 where "mapCalls (map persistedCall ps) n1 = (Some (map providerCall ps), n2)" using Cons by blast
  then show ?case using 1 by simp
qed simp

lemma toolCallsEnvelope_persisted:
  assumes "\<forall>p \<in> set ps. argsWf p"
  shows "toolCallsEnvelope (assistantContent txt ps) = Some (JStr txt, map persistedCall ps)"
proof -
  have "wf_json (JObj [(''text'', JStr txt), (''toolCalls'', JArr (map persistedCall ps))])"
    using assms by (auto simp: argsWf_def intro!: wf_persistedCall split: option.splits)
  then show ?thesis by (simp add: toolCallsEnvelope_def assistantContent_def js.dec_enc del: stringify.simps)
qed

text \<open>The assistant message of a tool round comes back with its text and, for every call, the
  provider's id, the tool name and the arguments.\<close>

lemma mapAssistantMessage_persisted:
  assumes "me_content m = assistantContent txt ps" "\<forall>p \<in> set ps. argsWf p"
  shows "fst (mapAssistantMessage m names) = \<lparr>mm_role = Assistant, mm_content = JStr txt, mm_toolCallId = None,
     mm_toolName = None, mm_toolCalls = Some (map providerCall ps)\<rparr>"
  using toolCallsEnvelope_persisted [OF assms(2), of "txt"] mapCalls_persisted [of ps names] assms(1)
  by (auto simp: mapAssistantMessage_def split: prod.splits)

lemma mapToolMessage_persisted:
  assumes "me_content m = toolContent p (Some res)"
  shows "mapToolMessage m names = \<lparr>mm_role = Tool, mm_content = JStr res, mm_toolCallId = Some (JStr (pd_providerCallId p)),
     mm_toolName = Some (JStr (pd_toolName p)), mm_toolCalls = None\<rparr>"
proof -
  let ?o = "JObj [(''swiftCallId'', JStr (pd_swiftCallId p)), (''providerCallId'', JStr (pd_providerCallId p)),
     (''toolName'', JStr (pd_toolName p)), (''result'', JStr res)]"
  have "wf_json ?o" by simp
  then have "parse (me_content m) = Some ?o"
    using assms by (simp add: toolContent_def objOf_def js.dec_enc del: stringify.simps)
  then show ?thesis by (simp add: mapToolMessage_def nullish_def Let_def)
qed

end
