(* ===== verification/Effects.thy ===== *)
theory Effects
  imports Shared_Types
begin

text \<open>Asynchronous TypeScript functions as state transformers: a program maps a state to an outcome
  and a new state.  The outcome is a value, a thrown error, or \<open>Torn\<close>: the consumer of an async
  generator called \<open>return()\<close> at a \<open>yield\<close>, which runs the \<open>finally\<close> blocks and skips the \<open>catch\<close>
  blocks on its way out.

  \<open>wp\<close> is the weakest precondition of a program for a postcondition on outcome and state; its rewrite
  rules, in \<open>wp_simps\<close>, carry the component proofs.\<close>

datatype 'a outcome = Val 'a | Throw js_error | Torn

type_synonym ('s, 'a) prog = "'s \<Rightarrow> 'a outcome \<times> 's"

definition ret :: "'a \<Rightarrow> ('s, 'a) prog" where
  "ret x = (\<lambda>s. (Val x, s))"

definition throw :: "js_error \<Rightarrow> ('s, 'a) prog" where
  "throw e = (\<lambda>s. (Throw e, s))"

definition mbind :: "('s, 'a) prog \<Rightarrow> ('a \<Rightarrow> ('s, 'b) prog) \<Rightarrow> ('s, 'b) prog" where
  "mbind m f = (\<lambda>s. case m s of (Val x, s') \<Rightarrow> f x s' | (Throw e, s') \<Rightarrow> (Throw e, s') | (Torn, s') \<Rightarrow> (Torn, s'))"

definition mthen :: "('s, 'a) prog \<Rightarrow> ('s, 'b) prog \<Rightarrow> ('s, 'b) prog" where
  "mthen m k = mbind m (\<lambda>_. k)"

definition gets :: "('s \<Rightarrow> 'a) \<Rightarrow> ('s, 'a) prog" where
  "gets f = (\<lambda>s. (Val (f s), s))"

definition modify :: "('s \<Rightarrow> 's) \<Rightarrow> ('s, unit) prog" where
  "modify f = (\<lambda>s. (Val (), f s))"

definition tryCatch :: "('s, 'a) prog \<Rightarrow> (js_error \<Rightarrow> ('s, 'a) prog) \<Rightarrow> ('s, 'a) prog" where
  "tryCatch m h = (\<lambda>s. case m s of (Throw e, s') \<Rightarrow> h e s' | r \<Rightarrow> r)"

text \<open>The \<open>finally\<close> block runs on every outcome; an abrupt end of its own replaces the outcome.\<close>

definition tryFinally :: "('s, 'a) prog \<Rightarrow> ('s, unit) prog \<Rightarrow> ('s, 'a) prog" where
  "tryFinally m fin = (\<lambda>s. case m s of (r, s') \<Rightarrow>
     (case fin s' of (Val _, s'') \<Rightarrow> (r, s'') | (Throw e, s'') \<Rightarrow> (Throw e, s'') | (Torn, s'') \<Rightarrow> (Torn, s'')))"

definition whenM :: "bool \<Rightarrow> ('s, unit) prog \<Rightarrow> ('s, unit) prog" where
  "whenM b m = (if b then m else ret ())"

primrec forEach :: "('x \<Rightarrow> ('s, unit) prog) \<Rightarrow> 'x list \<Rightarrow> ('s, unit) prog" where
  "forEach f [] = ret ()"
| "forEach f (x # xs) = mthen (f x) (forEach f xs)"

text \<open>\<open>await safe(fn)\<close>: a rejection is swallowed.\<close>

definition safe :: "('s, 'a) prog \<Rightarrow> ('s, unit) prog" where
  "safe m = tryCatch (mthen m (ret ())) (\<lambda>_. ret ())"

section \<open>Weakest preconditions\<close>

definition wp :: "('s, 'a) prog \<Rightarrow> ('a outcome \<Rightarrow> 's \<Rightarrow> bool) \<Rightarrow> 's \<Rightarrow> bool" where
  "wp m Q s = (case m s of (r, s') \<Rightarrow> Q r s')"

lemma wp_ret [wp_simps]: "wp (ret x) Q s = Q (Val x) s"
  by (simp add: wp_def ret_def)

lemma wp_throw [wp_simps]: "wp (throw e) Q s = Q (Throw e) s"
  by (simp add: wp_def throw_def)

lemma wp_mbind [wp_simps]:
  "wp (mbind m f) Q s = wp m (\<lambda>r s'. case r of Val x \<Rightarrow> wp (f x) Q s' | Throw e \<Rightarrow> Q (Throw e) s' | Torn \<Rightarrow> Q Torn s') s"
  by (auto simp: wp_def mbind_def split: prod.splits outcome.splits)

lemma wp_mthen [wp_simps]:
  "wp (mthen m k) Q s = wp m (\<lambda>r s'. case r of Val x \<Rightarrow> wp k Q s' | Throw e \<Rightarrow> Q (Throw e) s' | Torn \<Rightarrow> Q Torn s') s"
  by (simp add: mthen_def wp_mbind)

lemma wp_gets [wp_simps]: "wp (gets f) Q s = Q (Val (f s)) s"
  by (simp add: wp_def gets_def)

lemma wp_modify [wp_simps]: "wp (modify f) Q s = Q (Val ()) (f s)"
  by (simp add: wp_def modify_def)

lemma wp_tryCatch [wp_simps]:
  "wp (tryCatch m h) Q s = wp m (\<lambda>r s'. case r of Val x \<Rightarrow> Q (Val x) s' | Throw e \<Rightarrow> wp (h e) Q s' | Torn \<Rightarrow> Q Torn s') s"
  by (auto simp: wp_def tryCatch_def split: prod.splits outcome.splits)

lemma wp_tryFinally [wp_simps]:
  "wp (tryFinally m fin) Q s = wp m (\<lambda>r s'. wp fin (\<lambda>q s''. case q of Val _ \<Rightarrow> Q r s'' | Throw e \<Rightarrow> Q (Throw e) s''
     | Torn \<Rightarrow> Q Torn s'') s') s"
  by (auto simp: wp_def tryFinally_def split: prod.splits outcome.splits)

lemma wp_whenM [wp_simps]: "wp (whenM b m) Q s = (if b then wp m Q s else Q (Val ()) s)"
  by (simp add: whenM_def wp_ret)

lemma wp_safe [wp_simps]:
  "wp (safe m) Q s = wp m (\<lambda>r s'. case r of Torn \<Rightarrow> Q Torn s' | _ \<Rightarrow> Q (Val ()) s') s"
  by (auto simp: wp_def safe_def tryCatch_def mthen_def mbind_def ret_def split: prod.splits outcome.splits)

lemma wp_if [wp_simps]: "wp (if b then m else n) Q s = (if b then wp m Q s else wp n Q s)"
  by simp

lemma wp_mono: "wp m P s \<Longrightarrow> (\<And>r s'. P r s' \<Longrightarrow> Q r s') \<Longrightarrow> wp m Q s"
  by (auto simp: wp_def)

lemma wp_conj: "wp m P s \<Longrightarrow> wp m Q s \<Longrightarrow> wp m (\<lambda>r s'. P r s' \<and> Q r s') s"
  by (auto simp: wp_def)

lemma wp_True [simp]: "wp m (\<lambda>_ _. True) s"
  by (simp add: wp_def split: prod.splits)

lemma wpD: "wp m Q s \<Longrightarrow> m s = (r, s') \<Longrightarrow> Q r s'"
  by (simp add: wp_def)

lemma wpI: "(\<And>r s'. m s = (r, s') \<Longrightarrow> Q r s') \<Longrightarrow> wp m Q s"
  by (auto simp: wp_def split: prod.splits)

text \<open>A relation between the states before and after that every step keeps, whatever the outcome:
  the shape of most invariants below.\<close>

definition keeps :: "('s \<Rightarrow> 's \<Rightarrow> bool) \<Rightarrow> ('s, 'a) prog \<Rightarrow> bool" where
  "keeps R m = (\<forall>s. R s (snd (m s)))"

locale state_relation =
  fixes R :: "'s \<Rightarrow> 's \<Rightarrow> bool"
  assumes refl: "R s s" and trans: "R s t \<Longrightarrow> R t u \<Longrightarrow> R s u"
begin

lemma keeps_ret [intro!]: "keeps R (ret x)" and keeps_throw [intro!]: "keeps R (throw e)"
  and keeps_gets [intro!]: "keeps R (gets f)"
  by (auto simp: keeps_def ret_def throw_def gets_def refl)

lemma keeps_modify: "(\<And>s. R s (f s)) \<Longrightarrow> keeps R (modify f)"
  by (auto simp: keeps_def modify_def)

lemma keeps_mbind [intro!]: "keeps R m \<Longrightarrow> (\<And>x. keeps R (f x)) \<Longrightarrow> keeps R (mbind m f)"
  by (auto simp: keeps_def mbind_def split: prod.splits outcome.splits) (metis snd_conv trans)+

lemma keeps_mthen [intro!]: "keeps R m \<Longrightarrow> keeps R k \<Longrightarrow> keeps R (mthen m k)"
  unfolding mthen_def by blast

lemma keeps_tryCatch [intro!]: "keeps R m \<Longrightarrow> (\<And>e. keeps R (h e)) \<Longrightarrow> keeps R (tryCatch m h)"
  by (auto simp: keeps_def tryCatch_def split: prod.splits outcome.splits) (metis snd_conv trans)+

lemma keeps_tryFinally [intro!]: "keeps R m \<Longrightarrow> keeps R fin \<Longrightarrow> keeps R (tryFinally m fin)"
  by (auto simp: keeps_def tryFinally_def split: prod.splits outcome.splits) (metis snd_conv trans)+

lemma keeps_whenM [intro!]: "keeps R m \<Longrightarrow> keeps R (whenM b m)"
  by (auto simp: whenM_def)

lemma keeps_safe [intro!]: "keeps R m \<Longrightarrow> keeps R (safe m)"
  unfolding safe_def by blast

lemma keeps_forEach [intro!]: "(\<And>x. keeps R (f x)) \<Longrightarrow> keeps R (forEach f xs)"
  by (induction xs) auto

lemma keepsD: "keeps R m \<Longrightarrow> m s = (r, s') \<Longrightarrow> R s s'"
  by (metis keeps_def snd_conv)

end

end
