(* ===== verification/Agent_Loop.thy ===== *)
theory Agent_Loop
  imports Context_Builder Effects
begin

text \<open>\<open>runtime/src/loop.ts\<close>: the async generator \<open>runAgentLoop\<close> as a state transformer.

  The environment holds what the code cannot control and what it is given: how long each await takes
  (\<open>le_dur\<close>, indexed by the number of the await), which queries fail before or after taking effect
  (\<open>le_fault\<close>), what each provider stream yields (\<open>le_gen\<close>: the pulls of one model call, each evaluated
  at the time it settles), what the executor answers (\<open>le_exec\<close>), when the run's abort signal fires,
  at which event the consumer stops, and the draws of \<open>nanoid\<close>.  Theorems quantify over all of them,
  hence over every schedule of cancellations, deadlines, faults and provider behaviour in which every
  await settles and every provider stream is finite.  The clock moves only at awaits: JavaScript runs
  to completion between them.

  The state holds the clock, the database, the events yielded so far, what was sent to providers and
  executors, the trace operations, and the local variables of the generator.\<close>

section \<open>Environment and state\<close>

datatype db_fault = NoFault | FailsBefore | FailsAfter

datatype pulled = Chunk ModelStreamChunk | StreamDone | StreamFails js_error

type_synonym pull = "nat \<Rightarrow> pulled"

record AgentEngineOptions =
  op_maxToolIterations :: "nat option"
  op_toolTimeoutMs :: "int option"
  op_modelTimeoutMs :: "int option"
  op_totalRunMs :: "int option"
  op_memoryStrategy :: "MemoryStrategy option"
  op_lastN :: "nat option"

definition DEFAULT_MAX_TOOL_ITERATIONS :: nat where "DEFAULT_MAX_TOOL_ITERATIONS = 10"
definition DEFAULT_LAST_N :: nat where "DEFAULT_LAST_N = 50"

record loop_env =
  le_sessionId :: string
  le_runId :: string
  le_agent :: AgentRecord
  le_signal :: abort_signal
  le_userContent :: string
  le_options :: AgentEngineOptions
  le_prepared :: "string option"
  le_nano :: "nat \<Rightarrow> string"
  le_dur :: "nat \<Rightarrow> nat"
  le_fault :: "nat \<Rightarrow> db_fault"
  le_stop :: "nat \<Rightarrow> bool"
  le_getenv :: "string \<Rightarrow> string option"
  le_gen :: "string \<Rightarrow> nat \<Rightarrow> ModelRequest \<Rightarrow> abort_signal \<Rightarrow> pull list"
  le_exec :: "nat \<Rightarrow> ToolCall \<Rightarrow> ToolCallContext \<Rightarrow> abort_signal \<Rightarrow> nat \<Rightarrow> nat \<Rightarrow> js_error + ToolCallResult"
  le_ajv :: ajv
  le_dbm :: "db_violation \<Rightarrow> string"
  le_finish :: "js_error option"

datatype span_op = StartModelCall string | EndModelCall bool | ModelUsage nat nat
  | StartToolCall string string | EndToolCall string bool | TraceFinish bool "js_error option" | TraceWarning string

record loop_state =
  ls_tick :: nat
  ls_clk :: nat
  ls_ids :: nat
  ls_db :: db
  ls_events :: "ChatEvent list"
  ls_requests :: "ModelRequest list"
  ls_execs :: "ToolCall list"
  ls_registry :: "string ProviderRegistry"
  ls_trace :: "span_op list"
  ls_open :: "string list"
  ls_deadlineHit :: "js_error option"
  ls_traceStatus :: bool
  ls_traceError :: "js_error option"
  ls_iter :: nat
  ls_text :: string
  ls_usage :: ChunkUsage
  ls_chunks :: "(string \<times> string \<times> json option) list"

definition initState :: "nat \<Rightarrow> nat \<Rightarrow> db \<Rightarrow> string ProviderRegistry \<Rightarrow> loop_state" where
  "initState clk ids d reg = \<lparr>ls_tick = 0, ls_clk = clk, ls_ids = ids, ls_db = d, ls_events = [], ls_requests = [],
     ls_execs = [], ls_registry = reg, ls_trace = [], ls_open = [], ls_deadlineHit = None, ls_traceStatus = True,
     ls_traceError = None, ls_iter = 0, ls_text = [], ls_usage = noUsage, ls_chunks = []\<rparr>"

type_synonym 'a loopM = "(loop_state, 'a) prog"

section \<open>Awaits, queries and yields\<close>

definition advance :: "loop_env \<Rightarrow> loop_state \<Rightarrow> loop_state" where
  "advance env s = s\<lparr>ls_tick := Suc (ls_tick s), ls_clk := ls_clk s + le_dur env (ls_tick s)\<rparr>"

definition dbq :: "loop_env \<Rightarrow> (nat \<Rightarrow> 'a query) \<Rightarrow> 'a loopM" where
  "dbq env q = (\<lambda>s. let s1 = advance env s; f = le_fault env (ls_tick s) in
     if f = FailsBefore then (Throw (DbErr Unavailable), s1)
     else case q (ls_clk s1) (ls_db s) of
        Inl e \<Rightarrow> (Throw e, s1)
      | Inr (x, d) \<Rightarrow> (if f = FailsAfter then Throw (DbErr Unavailable) else Val x, s1\<lparr>ls_db := d\<rparr>))"

definition emit :: "loop_env \<Rightarrow> ChatEvent \<Rightarrow> unit loopM" where
  "emit env e = (\<lambda>s. (if le_stop env (length (ls_events s)) then Torn else Val (),
      advance env (s\<lparr>ls_events := ls_events s @ [e]\<rparr>)))"

definition newId :: "loop_env \<Rightarrow> ((nat \<Rightarrow> string) \<Rightarrow> nat \<Rightarrow> string) \<Rightarrow> string loopM" where
  "newId env gen = (\<lambda>s. (Val (gen (le_nano env) (ls_ids s)), s\<lparr>ls_ids := Suc (ls_ids s)\<rparr>))"

definition spanOp :: "span_op \<Rightarrow> unit loopM" where
  "spanOp x = modify (\<lambda>s. s\<lparr>ls_trace := ls_trace s @ [x]\<rparr>)"

definition throwIfAborted :: "loop_env \<Rightarrow> unit loopM" where
  "throwIfAborted env = mbind (gets ls_clk) (\<lambda>t. case signalReason (le_signal env) t of
      Some e \<Rightarrow> throw e | None \<Rightarrow> ret ())"

section \<open>The model call\<close>

definition handleChunk :: "loop_env \<Rightarrow> string \<Rightarrow> ModelStreamChunk \<Rightarrow> unit loopM" where
  "handleChunk env assistantMessageId c = (case c of
      TokenChunk t \<Rightarrow> mthen (modify (\<lambda>s. s\<lparr>ls_text := ls_text s @ t\<rparr>))
        (emit env (Token (le_runId env) (le_sessionId env) assistantMessageId t))
    | ToolCallChunk name cid args \<Rightarrow> modify (\<lambda>s. s\<lparr>ls_chunks := ls_chunks s @ [(name, cid, args)]\<rparr>)
    | FinishChunk fr u \<Rightarrow> modify (\<lambda>s. s\<lparr>ls_usage := u\<rparr>))"

primrec consumeStream :: "loop_env \<Rightarrow> string \<Rightarrow> pull list \<Rightarrow> unit loopM" where
  "consumeStream env mid [] = ret ()"
| "consumeStream env mid (p # ps) = mthen (modify (advance env)) (mbind (gets ls_clk) (\<lambda>t. case p t of
      StreamDone \<Rightarrow> ret ()
    | StreamFails e \<Rightarrow> throw e
    | Chunk c \<Rightarrow> mthen (throwIfAborted env) (mthen (handleChunk env mid c) (consumeStream env mid ps))))"

definition orZero :: "nat option \<Rightarrow> nat" where
  "orZero x = (case x of None \<Rightarrow> 0 | Some n \<Rightarrow> n)"

definition modelRequest :: "loop_env \<Rightarrow> string \<Rightarrow> ModelMessage list \<Rightarrow> ModelRequest" where
  "modelRequest env modelId context =
     (let schemas = toModelToolSchemas (ag_tools (le_agent env)); mc = ag_modelConfig (le_agent env)
      in \<lparr>mr_model = modelId, mr_messages = context,
          mr_tools = (if length schemas > 0 then Some schemas else None),
          mr_temperature = temperature mc, mr_maxTokens = maxTokens mc\<rparr>)"

definition modelCall :: "loop_env \<Rightarrow> string \<Rightarrow> string \<Rightarrow> string \<Rightarrow> ModelMessage list \<Rightarrow> unit loopM" where
  "modelCall env mid provider modelId context =
     mbind (gets (\<lambda>s. deriveCallDeadline (le_signal env) ScopeModel (op_modelTimeoutMs (le_options env)) (ls_clk s)))
     (\<lambda>deadline. mthen (spanOp (StartModelCall modelId))
       (tryCatch
         (mbind (gets (\<lambda>s. length (ls_requests s)))
           (\<lambda>n. let req = modelRequest env modelId context in
             mthen (modify (\<lambda>s. s\<lparr>ls_requests := ls_requests s @ [req]\<rparr>))
             (mthen (consumeStream env mid (le_gen env provider n req deadline))
             (mbind (gets ls_usage) (\<lambda>u.
                mthen (spanOp (ModelUsage (orZero (cu_inputTokens u)) (orZero (cu_outputTokens u))))
                      (spanOp (EndModelCall True)))))))
         (\<lambda>err. mthen (spanOp (EndModelCall False))
            (mbind (gets (\<lambda>s. timeoutReason deadline (ls_clk s))) (\<lambda>fired.
               mthen (whenM (fired \<noteq> None) (modify (\<lambda>s. s\<lparr>ls_deadlineHit := fired\<rparr>))) (throw err))))))"

section \<open>One tool call\<close>

definition toolIndex :: "loop_env \<Rightarrow> (string, ToolIndexEntry) jsmap" where
  "toolIndex env = buildToolIndex (le_ajv env) (ag_tools (le_agent env))"

definition createToolCall :: "loop_env \<Rightarrow> PreparedCall \<Rightarrow> unit loopM" where
  "createToolCall env p = mthen
     (dbq env (\<lambda>now. toolCalls_create now (pd_swiftCallId p) (le_runId env) (pd_toolName p) (pd_arguments p)))
     (modify (\<lambda>s. s\<lparr>ls_open := (if pd_swiftCallId p \<in> set (ls_open s) then ls_open s else ls_open s @ [pd_swiftCallId p])\<rparr>))"

definition closeToolCall :: "PreparedCall \<Rightarrow> unit loopM" where
  "closeToolCall p = modify (\<lambda>s. s\<lparr>ls_open := filter (\<lambda>c. c \<noteq> pd_swiftCallId p) (ls_open s)\<rparr>)"

definition rejectCall :: "loop_env \<Rightarrow> PreparedCall \<Rightarrow> string \<Rightarrow> string \<Rightarrow> (ToolCallStatus \<times> string option) loopM" where
  "rejectCall env p code msg = (let resultText = ''Tool call rejected ('' @ code @ ''): '' @ msg in
     mthen (dbq env (\<lambda>now. toolCalls_updateResult now (pd_swiftCallId p) (Some (JStr resultText)) TcFailed))
     (mthen (closeToolCall p) (ret (TcFailed, Some resultText))))"

definition callExecutor :: "loop_env \<Rightarrow> PreparedCall \<Rightarrow> abort_signal \<Rightarrow> ToolCallResult loopM" where
  "callExecutor env p sig =
     (let call = \<lparr>tl_toolName = pd_toolName p, tl_callId = pd_swiftCallId p, tl_arguments = pd_arguments p\<rparr>;
          ctx = \<lparr>tcx_sessionId = le_sessionId env, tcx_runId = le_runId env, tcx_userId = None, tcx_metadata = None\<rparr>
      in tryCatch
        (mbind (gets ls_clk) (\<lambda>t0. mbind (gets (\<lambda>s. length (ls_execs s))) (\<lambda>n.
           mthen (modify (\<lambda>s. s\<lparr>ls_execs := ls_execs s @ [call]\<rparr>))
           (mthen (modify (advance env))
           (mbind (gets ls_clk) (\<lambda>t1. case le_exec env n call ctx sig t0 t1 of
               Inl e \<Rightarrow> throw e | Inr r \<Rightarrow> ret r))))))
        (\<lambda>err. ret (ResErr (errMessage (le_dbm env) err))))"

definition executeCall :: "loop_env \<Rightarrow> PreparedCall \<Rightarrow> (ToolCallStatus \<times> string option) loopM" where
  "executeCall env p =
     mbind (gets (\<lambda>s. deriveCallDeadline (le_signal env) ScopeTool (op_toolTimeoutMs (le_options env)) (ls_clk s)))
     (\<lambda>deadline. mthen (spanOp (StartToolCall (pd_toolName p) (pd_swiftCallId p)))
       (mbind (callExecutor env p deadline) (\<lambda>result.
          mbind (gets (\<lambda>s. timeoutReason deadline (ls_clk s))) (\<lambda>toolFired.
            mbind (case result of
                ResOk out \<Rightarrow> mthen (dbq env (\<lambda>now. toolCalls_updateResult now (pd_swiftCallId p) out TcCompleted))
                   (mthen (spanOp (EndToolCall (pd_swiftCallId p) True)) (ret (TcCompleted, map_option stringify out)))
              | ResErr e \<Rightarrow> mthen (dbq env (\<lambda>now. toolCalls_updateResult now (pd_swiftCallId p) (Some (JStr e)) TcFailed))
                   (mthen (spanOp (EndToolCall (pd_swiftCallId p) False)) (ret (TcFailed, Some e))))
            (\<lambda>res. mthen (closeToolCall p)
               (mthen (whenM (toolFired \<noteq> None) (modify (\<lambda>s. s\<lparr>ls_deadlineHit := toolFired\<rparr>))) (ret res)))))))"

definition createMessage :: "loop_env \<Rightarrow> string \<Rightarrow> MessageRole \<Rightarrow> string \<Rightarrow> unit loopM" where
  "createMessage env mid role content = mthen
     (dbq env (\<lambda>now. messages_create now mid (le_sessionId env) (Some (le_runId env)) role content)) (ret ())"

definition processCall :: "loop_env \<Rightarrow> PreparedCall \<Rightarrow> unit loopM" where
  "processCall env p =
     mthen (emit env (ToolCallStarted (pd_swiftCallId p) (le_runId env) (le_sessionId env) (pd_toolName p)))
     (mthen (createToolCall env p)
     (mbind (case validateToolCall (toolIndex env) (pd_toolName p) (pd_arguments p) of
          ValidErr code msg \<Rightarrow> rejectCall env p code msg
        | ValidOk \<Rightarrow> executeCall env p)
     (\<lambda>(status, resultText).
        mthen (emit env (ToolCallCompleted (pd_swiftCallId p) (le_runId env) (le_sessionId env) (pd_toolName p) status))
        (mbind (newId env generateMessageId) (\<lambda>mid.
          mthen (createMessage env mid Tool (toolContent p resultText))
          (mbind (gets ls_deadlineHit) (\<lambda>hit. case hit of Some e \<Rightarrow> throw e | None \<Rightarrow> ret ())))))))"

section \<open>One model round\<close>

text \<open>\<open>toolCallChunks.map(...)\<close>: one fresh id per assembled call.\<close>

primrec prepareCalls :: "loop_env \<Rightarrow> (string \<times> string \<times> json option) list \<Rightarrow> PreparedCall list loopM" where
  "prepareCalls env [] = ret []"
| "prepareCalls env (c # cs) = mbind (newId env generateToolCallId) (\<lambda>i.
     mbind (prepareCalls env cs) (\<lambda>ps. ret (\<lparr>pd_swiftCallId = i, pd_providerCallId = fst (snd c), pd_toolName = fst c,
       pd_arguments = snd (snd c)\<rparr> # ps)))"

definition toolRound :: "loop_env \<Rightarrow> unit loopM" where
  "toolRound env = mbind (gets ls_chunks) (\<lambda>chunks. mbind (prepareCalls env chunks) (\<lambda>calls.
     mbind (newId env generateMessageId) (\<lambda>mid. mbind (gets ls_text) (\<lambda>t.
       mthen (createMessage env mid Assistant (assistantContent t calls))
       (mthen (modify (\<lambda>s. s\<lparr>ls_text := []\<rparr>)) (forEach (processCall env) calls))))))"

definition memoryOf :: "loop_env \<Rightarrow> memoryImpl" where
  "memoryOf env = (let mc = ag_memoryConfig (le_agent env); opts = le_options env in
     createMemoryStrategy (case op_memoryStrategy opts of Some m \<Rightarrow> m | None \<Rightarrow> strategy mc)
       (Some (case op_lastN opts of Some n \<Rightarrow> n
              | None \<Rightarrow> (case maxMessages mc of Some n \<Rightarrow> n | None \<Rightarrow> DEFAULT_LAST_N))))"

definition resolveModel :: "loop_env \<Rightarrow> (string \<times> string) loopM" where
  "resolveModel env = (\<lambda>s. case resolveForModel (le_getenv env) (model (ag_modelConfig (le_agent env))) (ls_registry s) of
      (Inl e, reg) \<Rightarrow> (Throw (PlainErr (er_message e)), s\<lparr>ls_registry := reg\<rparr>)
    | (Inr x, reg) \<Rightarrow> (Val x, s\<lparr>ls_registry := reg\<rparr>))"

text \<open>One pass of the \<open>while\<close> body; the result tells whether it \<open>continue\<close>s.\<close>

definition modelRound :: "loop_env \<Rightarrow> string \<Rightarrow> bool loopM" where
  "modelRound env mid =
     mthen (throwIfAborted env)
     (mbind (dbq env (\<lambda>now. messages_listBySession (le_sessionId env))) (\<lambda>history.
       let context = buildContext (le_agent env) (memoryOf env) history in
       mbind (resolveModel env) (\<lambda>(provider, modelId).
         mthen (modify (\<lambda>s. s\<lparr>ls_chunks := []\<rparr>))
         (mthen (modelCall env mid provider modelId context)
         (mbind (gets ls_chunks) (\<lambda>chunks.
            if chunks \<noteq> [] then mthen (toolRound env) (mthen (modify (\<lambda>s. s\<lparr>ls_iter := Suc (ls_iter s)\<rparr>)) (ret True))
            else ret False))))))"

definition maxIterations :: "loop_env \<Rightarrow> nat" where
  "maxIterations env = (case op_maxToolIterations (le_options env) of Some n \<Rightarrow> n | None \<Rightarrow> DEFAULT_MAX_TOOL_ITERATIONS)"

text \<open>\<open>while (ctx.iterationCount < maxToolIterations)\<close>: \<open>k\<close> is the number of rounds left, which the
  caller sets to \<open>maxToolIterations - iterationCount\<close>; only a round that continues counts one.\<close>

primrec modelRounds :: "loop_env \<Rightarrow> string \<Rightarrow> nat \<Rightarrow> unit loopM" where
  "modelRounds env mid 0 = ret ()"
| "modelRounds env mid (Suc k) = mbind (modelRound env mid) (\<lambda>continue. if continue then modelRounds env mid k else ret ())"

section \<open>The generator\<close>

definition startRun :: "loop_env \<Rightarrow> string \<Rightarrow> unit loopM" where
  "startRun env messageId =
     mthen (whenM (le_prepared env = None) (createMessage env messageId User (le_userContent env)))
     (mthen (emit env (MessageStarted messageId (le_runId env) (le_sessionId env)))
     (whenM (le_prepared env = None) (mthen (dbq env (\<lambda>now. runs_create now (le_runId env) (le_sessionId env)
        (model (ag_modelConfig (le_agent env))))) (ret ()))))"

definition persistText :: "loop_env \<Rightarrow> string \<Rightarrow> unit loopM" where
  "persistText env mid = mbind (gets ls_text) (\<lambda>t. whenM (t \<noteq> []) (createMessage env mid Assistant t))"

definition finishMaxIterations :: "loop_env \<Rightarrow> string \<Rightarrow> unit loopM" where
  "finishMaxIterations env mid =
     mthen (persistText env mid)
     (mthen (modify (\<lambda>s. s\<lparr>ls_traceStatus := False\<rparr>))
     (mthen (dbq env (\<lambda>now. runs_fail now (le_runId env)))
     (emit env (RunFailed (le_runId env) (le_sessionId env) ''MAX_ITERATIONS''
        (''Run exceeded maximum tool iterations ('' @ natToString (maxIterations env) @ '')'') None))))"

definition finishCompleted :: "loop_env \<Rightarrow> string \<Rightarrow> unit loopM" where
  "finishCompleted env mid =
     mthen (persistText env mid)
     (mbind (gets ls_usage) (\<lambda>u.
       mthen (dbq env (\<lambda>now. runs_complete now (le_runId env)
          \<lparr>inputTokens = orZero (cu_inputTokens u), outputTokens = orZero (cu_outputTokens u), totalTokens = orZero (cu_totalTokens u)\<rparr>))
       (emit env (MessageCompleted mid (le_runId env) (le_sessionId env)))))"

definition finishRun :: "loop_env \<Rightarrow> string \<Rightarrow> unit loopM" where
  "finishRun env mid = mbind (gets ls_iter) (\<lambda>i.
     if i \<ge> maxIterations env then finishMaxIterations env mid else finishCompleted env mid)"

definition tryBody :: "loop_env \<Rightarrow> string \<Rightarrow> unit loopM" where
  "tryBody env messageId = mthen (startRun env messageId)
     (mbind (newId env generateMessageId) (\<lambda>mid.
       mbind (gets ls_iter) (\<lambda>i. mthen (modelRounds env mid (maxIterations env - i)) (finishRun env mid))))"

datatype terminalCause = CauseTimeout | CauseCancel | CauseFailure

definition classifyTerminal :: "loop_env \<Rightarrow> loop_state \<Rightarrow> terminalCause" where
  "classifyTerminal env s = (if ls_deadlineHit s \<noteq> None \<or> timeoutReason (le_signal env) (ls_clk s) \<noteq> None then CauseTimeout
     else if aborted (le_signal env) (ls_clk s) then CauseCancel else CauseFailure)"

definition onError :: "loop_env \<Rightarrow> js_error \<Rightarrow> unit loopM" where
  "onError env err =
     mthen (modify (\<lambda>s. s\<lparr>ls_traceStatus := False, ls_traceError := Some err\<rparr>))
     (mbind (gets (\<lambda>s. (classifyTerminal env s, case ls_deadlineHit s of Some e \<Rightarrow> Some e
          | None \<Rightarrow> timeoutReason (le_signal env) (ls_clk s)))) (\<lambda>(cause, fired).
       let failed = (\<lambda>code msg. emit env (RunFailed (le_runId env) (le_sessionId env) code msg (Some err))) in
       case cause of
         CauseTimeout \<Rightarrow> mthen (safe (dbq env (\<lambda>now. runs_timeout now (le_runId env))))
           (failed ''TIMED_OUT'' (case fired of Some e \<Rightarrow> errMessage (le_dbm env) e | None \<Rightarrow> ''Run timed out''))
       | CauseCancel \<Rightarrow> mthen (safe (dbq env (\<lambda>now. runs_cancel now (le_runId env))))
           (failed ''CANCELLED'' ''Run was cancelled'')
       | CauseFailure \<Rightarrow> mthen (safe (dbq env (\<lambda>now. runs_fail now (le_runId env))))
           (failed (errCode err) (errMessage (le_dbm env) err))))"

definition finalizer :: "loop_env \<Rightarrow> unit loopM" where
  "finalizer env =
     mbind (gets ls_open) (\<lambda>open_calls.
       mthen (forEach (\<lambda>c. safe (dbq env (\<lambda>now. toolCalls_fail now c))) open_calls)
       (mbind (gets (\<lambda>s. (ls_traceStatus s, ls_traceError s))) (\<lambda>(st, er).
          mthen (modify (advance env))
          (mthen (spanOp (TraceFinish st er))
          (case le_finish env of None \<Rightarrow> ret ()
           | Some e \<Rightarrow> spanOp (TraceWarning (errMessage (le_dbm env) e)))))))"

definition runAgentLoop :: "loop_env \<Rightarrow> unit loopM" where
  "runAgentLoop env =
     mbind (case le_prepared env of Some m \<Rightarrow> ret m | None \<Rightarrow> newId env generateMessageId) (\<lambda>messageId.
       tryFinally (tryCatch (tryBody env messageId) (onError env)) (finalizer env))"

end
