(* ===== verification/Loop_Props.thy ===== *)
theory Loop_Props
  imports Agent_Loop
begin

text \<open>Properties of the agent loop.

  Most of them are relations between states that every step keeps.  The locales below carry such a
  relation through the generator once: \<open>call_quiet\<close> through one tool call, \<open>loop_quiet\<close> up to the tool rounds,
  \<open>loop_rounds\<close> through the model rounds, \<open>loop_whole\<close> through the terminal writes.  They are
  interpreted on the model for each relation; \<open>call_relation\<close>, \<open>loop_relation\<close> and \<open>loop_db_relation\<close> give them from the
  primitive state changes and from a relation on databases.\<close>

section \<open>Relations kept by the generator\<close>

definition validCall :: "loop_env \<Rightarrow> string \<Rightarrow> json option \<Rightarrow> bool" where
  "validCall env name args = (validateToolCall (toolIndex env) name args = ValidOk)"

locale call_quiet = state_relation R for R :: "loop_state \<Rightarrow> loop_state \<Rightarrow> bool" +
  fixes env :: loop_env and P :: "ChatEvent \<Rightarrow> bool"
  assumes R_advance: "R s (advance env s)"
    and R_event: "P e \<Longrightarrow> R s (s\<lparr>ls_events := ls_events s @ [e]\<rparr>)"
    and R_ids: "R s (s\<lparr>ls_ids := i\<rparr>)"
    and K_create: "keeps R (createToolCall env p)"
    and K_reject: "keeps R (rejectCall env p code msg)"
    and K_execute: "validCall env (pd_toolName p) (pd_arguments p) \<Longrightarrow> keeps R (executeCall env p)"
    and K_message: "keeps R (createMessage env m ro co)"
begin

lemma k_advance [intro!]: "keeps R (modify (advance env))"
  by (rule keeps_modify) (rule R_advance)

lemma k_emit: "P e \<Longrightarrow> keeps R (emit env e)"
  using trans [OF R_event R_advance] by (auto simp: keeps_def emit_def)

lemma k_newId [intro!]: "keeps R (newId env g)"
  by (auto simp: keeps_def newId_def R_ids)

lemma k_outcome: "keeps R (case validateToolCall (toolIndex env) (pd_toolName p) (pd_arguments p) of
    ValidErr code msg \<Rightarrow> rejectCall env p code msg | ValidOk \<Rightarrow> executeCall env p)"
  using K_reject K_execute by (auto simp: validCall_def split: ToolValidationResult.splits)

lemma k_processCall:
  assumes "\<And>c n. P (ToolCallStarted c (le_runId env) (le_sessionId env) n)"
    "\<And>c n st. P (ToolCallCompleted c (le_runId env) (le_sessionId env) n st)"
  shows "keeps R (processCall env p)"
  unfolding processCall_def
  by (auto intro!: keeps_mthen keeps_mbind k_outcome K_create K_message k_emit assms split: option.splits)

end

locale loop_quiet = call_quiet +
  assumes R_text: "R s (s\<lparr>ls_text := t\<rparr>)"
    and R_usage: "R s (s\<lparr>ls_usage := u\<rparr>)"
    and R_chunks: "R s (s\<lparr>ls_chunks := c\<rparr>)"
    and R_registry: "R s (s\<lparr>ls_registry := reg\<rparr>)"
    and K_run: "le_prepared env = None \<Longrightarrow>
        keeps R (dbq env (\<lambda>now. runs_create now (le_runId env) (le_sessionId env) mo))"
begin

lemma k_throwIfAborted [intro!]: "keeps R (throwIfAborted env)"
  unfolding throwIfAborted_def by (auto split: option.splits)

lemma k_read: "(\<And>now s. \<exists>x. q now s = Inr (x, s)) \<Longrightarrow> keeps R (dbq env q)"
proof (unfold keeps_def, intro allI)
  fix s
  assume q: "\<And>now s. \<exists>x. q now s = Inr (x, s)"
  obtain x where "q (ls_clk (advance env s)) (ls_db s) = Inr (x, ls_db s)" using q by blast
  then show "R s (snd (dbq env q s))" using R_advance [of s] by (auto simp: dbq_def Let_def advance_def)
qed

lemma k_handleChunk: "(\<And>t. P (Token (le_runId env) (le_sessionId env) m t)) \<Longrightarrow> keeps R (handleChunk env m c)"
  unfolding handleChunk_def by (cases c) (auto intro!: keeps_modify R_text R_chunks R_usage k_emit)

lemma k_consumeStream: "(\<And>t. P (Token (le_runId env) (le_sessionId env) m t)) \<Longrightarrow> keeps R (consumeStream env m ps)"
  by (induction ps) (auto intro!: k_handleChunk split: pulled.splits)

lemma k_prepareCalls [intro!]: "keeps R (prepareCalls env cs)"
  by (induction cs) auto

lemma k_resolveModel [intro!]: "keeps R (resolveModel env)"
  by (auto simp: keeps_def resolveModel_def R_registry split: prod.splits sum.splits)

lemma k_toolRound:
  assumes "\<And>c n. P (ToolCallStarted c (le_runId env) (le_sessionId env) n)"
    "\<And>c n st. P (ToolCallCompleted c (le_runId env) (le_sessionId env) n st)"
  shows "keeps R (toolRound env)"
  unfolding toolRound_def by (auto intro!: keeps_modify R_text K_message k_processCall assms)

lemma k_startRun: "(\<And>m. P (MessageStarted m (le_runId env) (le_sessionId env))) \<Longrightarrow> keeps R (startRun env m)"
  unfolding startRun_def
  by (cases "le_prepared env") (auto simp: whenM_def intro!: K_message k_emit K_run)

lemma k_persistText [intro!]: "keeps R (persistText env m)"
  unfolding persistText_def by (auto intro!: K_message)

end

text \<open>The rounds of a run whose tokens carry one message id.\<close>

locale loop_stream = loop_quiet +
  fixes mid :: string
  assumes R_request: "R s (s\<lparr>ls_requests := rs\<rparr>)"
    and R_trace: "R s (s\<lparr>ls_trace := tr\<rparr>)"
    and R_hit: "R s (s\<lparr>ls_deadlineHit := h\<rparr>)"
    and R_iter: "R s (s\<lparr>ls_iter := j\<rparr>)"
    and P_token: "P (Token (le_runId env) (le_sessionId env) mid t)"
    and P_started: "P (ToolCallStarted c (le_runId env) (le_sessionId env) n)"
    and P_completed: "P (ToolCallCompleted c (le_runId env) (le_sessionId env) n st)"
begin

lemma k_spanOp [intro!]: "keeps R (spanOp x)"
  unfolding spanOp_def by (intro keeps_modify R_trace)

lemma k_modelCall [intro!]: "keeps R (modelCall env mid p i c)"
  unfolding modelCall_def Let_def
  by (auto intro!: keeps_modify R_request R_hit k_consumeStream P_token)

lemma k_modelRound [intro!]: "keeps R (modelRound env mid)"
  unfolding modelRound_def Let_def
  by (auto intro!: keeps_mthen keeps_mbind keeps_modify R_chunks R_iter k_read k_toolRound P_started P_completed
      simp: messages_listBySession_def)

lemma k_modelRounds [intro!]: "keeps R (modelRounds env mid k)"
  by (induction k) auto

end

locale loop_rounds = loop_quiet +
  assumes R_request: "R s (s\<lparr>ls_requests := rs\<rparr>)"
    and R_trace: "R s (s\<lparr>ls_trace := tr\<rparr>)"
    and R_hit: "R s (s\<lparr>ls_deadlineHit := h\<rparr>)"
    and R_iter: "R s (s\<lparr>ls_iter := j\<rparr>)"
    and P_quiet: "\<not> isTerminal e \<Longrightarrow> P e"

sublocale loop_rounds \<subseteq> stream: loop_stream R env P mid for mid
  by unfold_locales (auto intro: R_request R_trace R_hit R_iter P_quiet simp: isTerminal_def)

context loop_rounds
begin

lemma k_start [intro!]: "keeps R (startRun env m)"
  by (rule k_startRun) (auto intro!: P_quiet simp: isTerminal_def)

end

locale loop_whole = loop_rounds +
  assumes P_all: "P e"
    and R_error: "R s (s\<lparr>ls_traceStatus := b, ls_traceError := er\<rparr>)"
    and R_status: "R s (s\<lparr>ls_traceStatus := b\<rparr>)"
    and K_terminal: "keeps R (dbq env (\<lambda>now. runs_terminal now w (le_runId env)))"
begin

lemma k_runWrites [intro!]: "keeps R (dbq env (\<lambda>now. runs_fail now (le_runId env)))"
  "keeps R (dbq env (\<lambda>now. runs_complete now (le_runId env) v))"
  "keeps R (dbq env (\<lambda>now. runs_cancel now (le_runId env)))"
  "keeps R (dbq env (\<lambda>now. runs_timeout now (le_runId env)))"
  using K_terminal by (auto simp: runs_fail_def runs_complete_def runs_cancel_def runs_timeout_def)

lemma k_finishRun [intro!]: "keeps R (finishRun env m)"
  unfolding finishRun_def finishMaxIterations_def finishCompleted_def
  by (auto intro!: keeps_modify R_status k_emit P_all)

lemma k_onError [intro!]: "keeps R (onError env e)"
  unfolding onError_def Let_def
  by (auto intro!: keeps_modify R_error k_emit P_all split: prod.splits terminalCause.splits)

lemma k_tryBody [intro!]: "keeps R (tryBody env m)"
  unfolding tryBody_def by auto

lemma k_runAgentLoop: "keeps R (finalizer env) \<Longrightarrow> keeps R (runAgentLoop env)"
  unfolding runAgentLoop_def by (auto split: option.splits)

end

section \<open>From primitive state changes\<close>

locale call_relation = state_relation R for R :: "loop_state \<Rightarrow> loop_state \<Rightarrow> bool" +
  fixes env :: loop_env and P :: "ChatEvent \<Rightarrow> bool"
  assumes Q_advance: "R s (advance env s)"
    and Q_event: "P e \<Longrightarrow> R s (s\<lparr>ls_events := ls_events s @ [e]\<rparr>)"
    and Q_ids: "R s (s\<lparr>ls_ids := i\<rparr>)"
    and Q_trace: "R s (s\<lparr>ls_trace := tr\<rparr>)"
    and Q_hit: "R s (s\<lparr>ls_deadlineHit := h\<rparr>)"
    and Q_open: "R s (s\<lparr>ls_open := os\<rparr>)"
    and Q_exec: "validCall env (tl_toolName tcl) (tl_arguments tcl) \<Longrightarrow> R s (s\<lparr>ls_execs := ls_execs s @ [tcl]\<rparr>)"
    and Q_message: "messages_create now m (le_sessionId env) (Some (le_runId env)) ro co (ls_db s) = Inr (x1, d) \<Longrightarrow>
        R s (s\<lparr>ls_db := d\<rparr>)"
    and Q_toolCreate: "toolCalls_create now k (le_runId env) tn ar (ls_db s) = Inr (x4, d) \<Longrightarrow> R s (s\<lparr>ls_db := d\<rparr>)"
    and Q_toolWrite: "toolCalls_write now v k (ls_db s) = Inr (x5, d) \<Longrightarrow> R s (s\<lparr>ls_db := d\<rparr>)"
begin

lemma q_dbq: "(\<And>now s x d. q now (ls_db s) = Inr (x, d) \<Longrightarrow> R s (s\<lparr>ls_db := d\<rparr>)) \<Longrightarrow> keeps R (dbq env q)"
proof (unfold keeps_def, intro allI)
  fix s
  assume q: "\<And>now s x d. q now (ls_db s) = Inr (x, d) \<Longrightarrow> R s (s\<lparr>ls_db := d\<rparr>)"
  show "R s (snd (dbq env q s))"
    using Q_advance [of s] q [of _ "advance env s"] trans
    by (auto simp: dbq_def Let_def advance_def split: sum.splits)
qed

lemma q_spanOp [intro!]: "keeps R (spanOp x)"
  unfolding spanOp_def by (intro keeps_modify Q_trace)

lemma q_createToolCall [intro!]: "keeps R (createToolCall env p)"
  unfolding createToolCall_def by (auto intro!: q_dbq keeps_modify Q_open intro: Q_toolCreate)

lemma q_closeToolCall [intro!]: "keeps R (closeToolCall p)"
  unfolding closeToolCall_def by (intro keeps_modify Q_open)

lemma q_updateResult [intro!]: "keeps R (dbq env (\<lambda>now. toolCalls_updateResult now k out st))"
  by (rule q_dbq) (auto simp: toolCalls_updateResult_def intro: Q_toolWrite)

lemma q_rejectCall [intro!]: "keeps R (rejectCall env p code msg)"
  unfolding rejectCall_def Let_def by auto

lemma q_callExecutor: "validCall env (pd_toolName p) (pd_arguments p) \<Longrightarrow> keeps R (callExecutor env p sig)"
  unfolding callExecutor_def Let_def
  by (auto intro!: keeps_modify [OF Q_exec] keeps_modify [OF Q_advance] split: sum.splits)

lemma q_executeCall: "validCall env (pd_toolName p) (pd_arguments p) \<Longrightarrow> keeps R (executeCall env p)"
  unfolding executeCall_def by (auto intro!: q_callExecutor keeps_modify Q_hit split: ToolCallResult.splits)

lemma q_createMessage [intro!]: "keeps R (createMessage env m ro co)"
  unfolding createMessage_def by (auto intro!: q_dbq intro: Q_message)

lemma q_finalizer: "keeps R (finalizer env)"
  unfolding finalizer_def
  by (auto intro!: q_dbq keeps_modify [OF Q_advance] simp: toolCalls_fail_def split: option.splits prod.splits intro: Q_toolWrite)

end

sublocale call_relation \<subseteq> call_quiet R env P
  by unfold_locales (auto intro: Q_advance Q_event Q_ids q_executeCall)

locale loop_relation = call_relation +
  assumes Q_text: "R s (s\<lparr>ls_text := t\<rparr>)"
    and Q_usage: "R s (s\<lparr>ls_usage := u\<rparr>)"
    and Q_chunks: "R s (s\<lparr>ls_chunks := c\<rparr>)"
    and Q_registry: "R s (s\<lparr>ls_registry := reg\<rparr>)"
    and Q_runCreate: "le_prepared env = None \<Longrightarrow> runs_create now (le_runId env) (le_sessionId env) mo (ls_db s) = Inr (x2, d) \<Longrightarrow>
        R s (s\<lparr>ls_db := d\<rparr>)"

sublocale loop_relation \<subseteq> loop_quiet R env P
  by unfold_locales (auto intro: Q_text Q_usage Q_chunks Q_registry q_dbq Q_runCreate)

text \<open>Relations on the database alone.\<close>

locale loop_db_relation =
  fixes D :: "db \<Rightarrow> db \<Rightarrow> bool" and env :: loop_env
  assumes D_refl: "D d d" and D_trans: "D d e \<Longrightarrow> D e f \<Longrightarrow> D d f"
    and D_message: "messages_create now m (le_sessionId env) (Some (le_runId env)) ro co d = Inr (x1, d') \<Longrightarrow> D d d'"
    and D_runCreate: "le_prepared env = None \<Longrightarrow> runs_create now (le_runId env) (le_sessionId env) mo d = Inr (x2, d') \<Longrightarrow> D d d'"
    and D_run: "runs_terminal now w (le_runId env) d = Inr (x3, d') \<Longrightarrow> D d d'"
    and D_toolCreate: "toolCalls_create now k (le_runId env) tn ar d = Inr (x4, d') \<Longrightarrow> D d d'"
    and D_toolWrite: "toolCalls_write now v k d = Inr (x5, d') \<Longrightarrow> D d d'"

sublocale loop_db_relation \<subseteq> loop_relation "\<lambda>s t. D (ls_db s) (ls_db t)" env "\<lambda>_. True"
  by unfold_locales (auto simp: advance_def intro: D_refl D_trans D_message D_runCreate D_toolCreate D_toolWrite)

sublocale loop_db_relation \<subseteq> loop_whole "\<lambda>s t. D (ls_db s) (ls_db t)" env "\<lambda>_. True"
  by unfold_locales (auto intro!: q_dbq intro: D_refl D_run)

context loop_db_relation
begin

lemma run_related: "runAgentLoop env s = (r, s') \<Longrightarrow> D (ls_db s) (ls_db s')"
  using keepsD [OF k_runAgentLoop [OF q_finalizer]] by blast

end

section \<open>What the loop does to the database\<close>

interpretation okI: loop_db_relation "\<lambda>d d'. dbOk d \<longrightarrow> dbOk d'" env for env :: loop_env
  by unfold_locales (blast intro: repo_dbOk)+

text \<open>A finalised run or tool call is never written again.\<close>

definition keepsFinal :: "db \<Rightarrow> db \<Rightarrow> bool" where
  "keepsFinal d d' = ((\<forall>r \<in> set (db_runs d). ru_status r \<noteq> Running \<longrightarrow> r \<in> set (db_runs d')) \<and>
     (\<forall>c \<in> set (db_toolCalls d). tc_status c \<noteq> TcStarted \<longrightarrow> c \<in> set (db_toolCalls d')))"

lemma updateWhere_keep: "r \<in> set rows \<Longrightarrow> \<not> p r \<Longrightarrow> r \<in> set (updateWhere p f rows)"
  by (force simp: updateWhere_def)

lemma final_message: "messages_create now m si ri ro co d = Inr (x1, d') \<Longrightarrow> keepsFinal d d'"
  by (auto simp: keepsFinal_def messages_create_def Let_def split: if_splits)

lemma final_runCreate: "runs_create now k si mo d = Inr (x2, d') \<Longrightarrow> keepsFinal d d'"
  by (auto simp: keepsFinal_def runs_create_def Let_def split: if_splits)

lemma final_run: "runs_terminal now w k d = Inr (x3, d') \<Longrightarrow> keepsFinal d d'"
  by (auto simp: keepsFinal_def runs_terminal_def runLive_def intro!: updateWhere_keep)

lemma final_toolCreate: "toolCalls_create now k ri tn ar d = Inr (x4, d') \<Longrightarrow> keepsFinal d d'"
  by (auto simp: keepsFinal_def toolCalls_create_def Let_def split: if_splits option.splits)

lemma final_toolWrite: "toolCalls_write now v k d = Inr (x5, d') \<Longrightarrow> keepsFinal d d'"
  by (auto simp: keepsFinal_def toolCalls_write_def tcLive_def intro!: updateWhere_keep)

lemma keepsFinal_refl: "keepsFinal d d" and keepsFinal_trans: "keepsFinal d e \<Longrightarrow> keepsFinal e f \<Longrightarrow> keepsFinal d f"
  by (simp_all add: keepsFinal_def)

interpretation finalI: loop_db_relation keepsFinal env for env :: loop_env
  by unfold_locales (rule keepsFinal_refl, erule (1) keepsFinal_trans,
    (erule final_message final_runCreate final_run final_toolCreate final_toolWrite)+)

text \<open>The rows of other runs and sessions are out of its reach: the tables of agents, sessions and other
  runs are unchanged, and messages are only appended, to the run's own session.\<close>

definition ownWrites :: "loop_env \<Rightarrow> db \<Rightarrow> db \<Rightarrow> bool" where
  "ownWrites env d d' = (db_workspaces d' = db_workspaces d \<and> db_agents d' = db_agents d \<and> db_sessions d' = db_sessions d \<and>
     filter (\<lambda>r. ru_runId r \<noteq> le_runId env) (db_runs d') = filter (\<lambda>r. ru_runId r \<noteq> le_runId env) (db_runs d) \<and>
     (\<exists>ms. db_messages d' = db_messages d @ ms \<and>
        (\<forall>m \<in> set ms. me_sessionId m = le_sessionId env \<and> me_runId m = Some (le_runId env))))"

lemma ownWrites_refl: "ownWrites env d d"
  by (simp add: ownWrites_def)

lemma ownWrites_trans: "ownWrites env d e \<Longrightarrow> ownWrites env e f \<Longrightarrow> ownWrites env d f"
proof -
  assume a: "ownWrites env d e" "ownWrites env e f"
  obtain ms ns where m: "db_messages e = db_messages d @ ms" "db_messages f = db_messages e @ ns"
      "\<forall>m \<in> set ms. me_sessionId m = le_sessionId env \<and> me_runId m = Some (le_runId env)"
      "\<forall>m \<in> set ns. me_sessionId m = le_sessionId env \<and> me_runId m = Some (le_runId env)"
    using a unfolding ownWrites_def by metis
  then have "db_messages f = db_messages d @ (ms @ ns)" by simp
  then show ?thesis using a m(3,4) unfolding ownWrites_def by (metis Un_iff set_append)
qed

lemma own_message: "messages_create now m (le_sessionId env) (Some (le_runId env)) ro co d = Inr (x1, d') \<Longrightarrow> ownWrites env d d'"
  by (simp add: messages_create_def Let_def split: if_splits) (auto simp: ownWrites_def)

lemma own_runCreate: "runs_create now (le_runId env) (le_sessionId env) mo d = Inr (x2, d') \<Longrightarrow> ownWrites env d d'"
  by (simp add: runs_create_def Let_def split: if_splits) (auto simp: ownWrites_def)

lemma own_run: "runs_terminal now w (le_runId env) d = Inr (x3, d') \<Longrightarrow> ownWrites env d d'"
  by (auto simp: ownWrites_def runs_terminal_def runLive_def intro!: filter_updateWhere)

lemma own_toolCreate: "toolCalls_create now k (le_runId env) tn ar d = Inr (x4, d') \<Longrightarrow> ownWrites env d d'"
  by (simp add: toolCalls_create_def Let_def split: if_splits option.splits) (auto simp: ownWrites_def)

lemma own_toolWrite: "toolCalls_write now v k d = Inr (x5, d') \<Longrightarrow> ownWrites env d d'"
  by (auto simp: ownWrites_def toolCalls_write_def)

interpretation ownI: loop_db_relation "ownWrites env" env for env :: loop_env
  by unfold_locales (rule ownWrites_refl, erule (1) ownWrites_trans,
    (erule own_message own_runCreate own_run own_toolCreate own_toolWrite)+)

section \<open>Executors see only validated calls\<close>

definition execsOk :: "loop_env \<Rightarrow> loop_state \<Rightarrow> bool" where
  "execsOk env s = (\<forall>c \<in> set (ls_execs s). validCall env (tl_toolName c) (tl_arguments c))"

lemma execsOk_cong: "ls_execs t = ls_execs s \<Longrightarrow> execsOk env s \<longrightarrow> execsOk env t"
  by (simp add: execsOk_def)

interpretation execI: loop_relation "\<lambda>s t. execsOk env s \<longrightarrow> execsOk env t" env "\<lambda>_. True" for env :: loop_env
proof (unfold_locales, goal_cases)
  case (9 tcl s)
  then show ?case by (simp add: execsOk_def)
qed (simp_all add: execsOk_cong advance_def)

interpretation execI: loop_whole "\<lambda>s t. execsOk env s \<longrightarrow> execsOk env t" env "\<lambda>_. True" for env :: loop_env
proof (unfold_locales, goal_cases)
  case (9 w)
  show ?case by (rule execI.q_dbq) (simp add: execsOk_cong)
qed (simp_all add: execsOk_cong)

lemma loop_execsOk: "runAgentLoop env s = (r, s') \<Longrightarrow> execsOk env s \<Longrightarrow> execsOk env s'"
  using execI.keepsD [OF execI.k_runAgentLoop [OF execI.q_finalizer]] by blast

end
