(* ===== verification/Loop_Events.thy ===== *)
theory Loop_Events
  imports Loop_Props
begin

text \<open>The event stream of a run: one terminal event, at the end; tool events in pairs; the bound on
  model rounds; what is written when the run ends.\<close>

lemma wp_of_keeps: "keeps R m \<Longrightarrow> (\<And>r s'. R s s' \<Longrightarrow> Q r s') \<Longrightarrow> wp m Q s"
  by (cases "m s") (force simp: wp_def keeps_def dest: spec [of _ s])

lemma wp_emit [wp_simps]: "wp (emit env e) Q s =
    Q (if le_stop env (length (ls_events s)) then Torn else Val ()) (advance env (s\<lparr>ls_events := ls_events s @ [e]\<rparr>))"
  by (simp add: wp_def emit_def)

lemma wp_newId [wp_simps]: "wp (newId env g) Q s = Q (Val (g (le_nano env) (ls_ids s))) (s\<lparr>ls_ids := Suc (ls_ids s)\<rparr>)"
  by (simp add: wp_def newId_def)

lemma advance_simps [simp]: "ls_events (advance env s) = ls_events s" "ls_db (advance env s) = ls_db s"
  "ls_open (advance env s) = ls_open s" "ls_requests (advance env s) = ls_requests s"
  "ls_execs (advance env s) = ls_execs s" "ls_deadlineHit (advance env s) = ls_deadlineHit s"
  "ls_text (advance env s) = ls_text s" "ls_chunks (advance env s) = ls_chunks s"
  "ls_iter (advance env s) = ls_iter s" "ls_usage (advance env s) = ls_usage s"
  by (simp_all add: advance_def)

section \<open>Exactly one terminal event\<close>

definition noTerm :: "ChatEvent list \<Rightarrow> bool" where
  "noTerm es = (\<forall>e \<in> set es. \<not> isTerminal e)"

lemma noTerm_simps [simp]: "noTerm []" "noTerm (es @ [e]) \<longleftrightarrow> noTerm es \<and> \<not> isTerminal e"
  by (auto simp: noTerm_def)

definition termLast :: "ChatEvent list \<Rightarrow> bool" where
  "termLast es = (\<exists>fs e. es = fs @ [e] \<and> noTerm fs \<and> isTerminal e)"

lemma termLast_snoc [simp]: "noTerm es \<Longrightarrow> isTerminal e \<Longrightarrow> termLast (es @ [e])"
  by (auto simp: termLast_def)

lemma isTerminal_simps [simp]: "isTerminal (RunFailed a b c d x)" "isTerminal (MessageCompleted a b c)"
  "\<not> isTerminal (MessageStarted a b c)" "\<not> isTerminal (Token a b c d)" "\<not> isTerminal (ToolCallStarted a b c d)"
  "\<not> isTerminal (ToolCallCompleted a b c d st)"
  by (auto simp: isTerminal_def)

interpretation quietI: loop_relation "\<lambda>s t. noTerm (ls_events s) \<longrightarrow> noTerm (ls_events t)" env "\<lambda>e. \<not> isTerminal e"
  for env :: loop_env
  by unfold_locales simp_all

interpretation quietI: loop_rounds "\<lambda>s t. noTerm (ls_events s) \<longrightarrow> noTerm (ls_events t)" env "\<lambda>e. \<not> isTerminal e"
  for env :: loop_env
  by unfold_locales simp_all

interpretation evI: loop_relation "\<lambda>s t. ls_events t = ls_events s" env "\<lambda>_. False" for env :: loop_env
  by unfold_locales auto

lemma ev_dbq: "keeps (\<lambda>s t. ls_events t = ls_events s) (dbq env q)"
  by (rule evI.q_dbq) simp

text \<open>Programs that yield nothing.\<close>

definition silent :: "(loop_state, 'a) prog \<Rightarrow> bool" where
  "silent m = (\<forall>s. fst (m s) \<noteq> Torn \<and> ls_events (snd (m s)) = ls_events s)"

lemma silent_dbq [intro!]: "silent (dbq env q)"
  by (auto simp: silent_def dbq_def Let_def split: sum.splits)

lemma silent_ret [intro!]: "silent (ret x)" and silent_gets [intro!]: "silent (gets f)" and silent_throw [intro!]: "silent (throw e)"
  by (auto simp: silent_def ret_def gets_def throw_def)

lemma silent_mbind [intro!]: "silent m \<Longrightarrow> (\<And>x. silent (f x)) \<Longrightarrow> silent (mbind m f)"
  unfolding silent_def mbind_def
  by (auto split: prod.splits outcome.splits) (metis fst_conv snd_conv)+

lemma silent_mthen [intro!]: "silent m \<Longrightarrow> silent k \<Longrightarrow> silent (mthen m k)"
  unfolding mthen_def by blast

lemma silent_whenM [intro!]: "silent m \<Longrightarrow> silent (whenM b m)"
  by (auto simp: whenM_def)

lemma silent_createMessage [intro!]: "silent (createMessage env m ro co)"
  unfolding createMessage_def by blast

lemma silent_persistText [intro!]: "silent (persistText env m)"
  unfolding persistText_def by blast

lemma wp_silent: "silent m \<Longrightarrow> (\<And>r s'. r \<noteq> Torn \<Longrightarrow> ls_events s' = ls_events s \<Longrightarrow> Q r s') \<Longrightarrow> wp m Q s"
  by (cases "m s") (force simp: wp_def silent_def dest: spec [of _ s])

definition endOk :: "'a outcome \<Rightarrow> loop_state \<Rightarrow> bool" where
  "endOk r s = (case r of Throw _ \<Rightarrow> noTerm (ls_events s) | _ \<Rightarrow> termLast (ls_events s))"

lemma finishRun_terminal: "noTerm (ls_events s) \<Longrightarrow> wp (finishRun env m) endOk s"
  unfolding finishRun_def finishMaxIterations_def finishCompleted_def
  by (auto simp: wp_simps endOk_def split: outcome.splits
      intro!: wp_silent [OF silent_persistText] wp_silent [OF silent_dbq])

lemma onError_terminal: "noTerm (ls_events s) \<Longrightarrow> wp (onError env e) (\<lambda>r s'. (\<forall>x. r \<noteq> Throw x) \<and> termLast (ls_events s')) s"
  unfolding onError_def Let_def
  by (auto simp: wp_simps split: outcome.splits prod.splits terminalCause.splits
      intro!: wp_silent [OF silent_dbq])

definition bodyOk :: "'a outcome \<Rightarrow> loop_state \<Rightarrow> bool" where
  "bodyOk r s = (case r of Val _ \<Rightarrow> termLast (ls_events s) | Throw _ \<Rightarrow> noTerm (ls_events s)
     | Torn \<Rightarrow> noTerm (ls_events s) \<or> termLast (ls_events s))"

lemma bodyOk_simps: "bodyOk (Val x) s = termLast (ls_events s)" "bodyOk (Throw e) s = noTerm (ls_events s)"
  "bodyOk Torn s = (noTerm (ls_events s) \<or> termLast (ls_events s))"
  by (simp_all add: bodyOk_def)

lemma tryBody_terminal: "noTerm (ls_events s) \<Longrightarrow> wp (tryBody env m) bodyOk s"
proof -
  assume s: "noTerm (ls_events s)"
  have fin: "wp (finishRun env mid) bodyOk t" if "noTerm (ls_events t)" for t mid
    using finishRun_terminal [OF that] by (rule wp_mono) (auto simp: endOk_def bodyOk_def split: outcome.splits)
  show ?thesis
    unfolding tryBody_def using s
    by (auto simp: wp_simps bodyOk_simps split: outcome.splits intro!: wp_of_keeps [OF quietI.k_start]
        wp_of_keeps [OF quietI.k_newId] wp_of_keeps [OF quietI.stream.k_modelRounds] fin)
qed

lemma silent_safe [intro!]: "silent m \<Longrightarrow> silent (safe m)"
  by (auto simp: silent_def safe_def tryCatch_def mthen_def mbind_def ret_def split: prod.splits outcome.splits)
     (metis fst_conv snd_conv)+

lemma silent_forEach [intro!]: "(\<And>x. silent (f x)) \<Longrightarrow> silent (forEach f xs)"
  by (induction xs) auto

lemma silent_modify: "(\<And>s. ls_events (f s) = ls_events s) \<Longrightarrow> silent (modify f)"
  by (simp add: silent_def modify_def)

lemma silent_spanOp [intro!]: "silent (spanOp x)" and silent_advance [intro!]: "silent (modify (advance env))"
  and silent_newId [intro!]: "silent (newId env g)"
  unfolding spanOp_def by (rule silent_modify, simp)+ (simp add: newId_def silent_def)

text \<open>The \<open>finally\<close> block neither throws nor yields.\<close>

definition quietEnd :: "loop_state \<Rightarrow> unit outcome \<Rightarrow> loop_state \<Rightarrow> bool" where
  "quietEnd s r s' = (r = Val () \<and> ls_events s' = ls_events s)"

lemma quietEnd_Val: "quietEnd s (Val ()) s' \<longleftrightarrow> ls_events s' = ls_events s" "\<not> quietEnd s (Throw e) s'" "\<not> quietEnd s Torn s'"
  by (simp_all add: quietEnd_def)

lemma forEach_safe_quiet: "ls_events t = ls_events s \<Longrightarrow> wp (forEach (\<lambda>c. safe (dbq env (g c))) cs) (quietEnd s) t"
  by (induction cs arbitrary: t) (auto simp: wp_simps quietEnd_Val split: outcome.splits intro!: wp_silent [OF silent_dbq])

lemma quietEndD: "quietEnd s r s' \<Longrightarrow> r = Val () \<and> ls_events s' = ls_events s"
  by (simp add: quietEnd_def)

lemma finalizer_quiet: "wp (finalizer env) (quietEnd s) s"
proof -
  have rest: "wp (mthen (modify (advance env)) (mthen (spanOp (TraceFinish st er))
          (case le_finish env of None \<Rightarrow> ret () | Some e \<Rightarrow> spanOp (TraceWarning (errMessage (le_dbm env) e))))) (quietEnd s) t"
    if "ls_events t = ls_events s" for st er t
    using that by (simp add: wp_simps spanOp_def quietEnd_Val split: option.splits)
  show ?thesis
    unfolding finalizer_def wp_mbind [of "gets _"] wp_gets wp_mthen [of "forEach _ _"] outcome.case
    by (rule wp_mono [OF forEach_safe_quiet [OF refl]]) (auto dest!: quietEndD intro!: rest split: outcome.splits)
qed

text \<open>A run that is not torn down returns normally, and its last event is its only terminal one.\<close>

definition loopEnd :: "unit outcome \<Rightarrow> loop_state \<Rightarrow> bool" where
  "loopEnd r s = ((r = Val () \<and> termLast (ls_events s)) \<or>
     (r = Torn \<and> (noTerm (ls_events s) \<or> termLast (ls_events s))))"

lemma loopEnd_simps: "loopEnd (Val u) s \<longleftrightarrow> termLast (ls_events s)" "\<not> loopEnd (Throw e) s"
  "loopEnd Torn s \<longleftrightarrow> noTerm (ls_events s) \<or> termLast (ls_events s)"
  by (simp_all add: loopEnd_def)

lemma loop_one_terminal:
  assumes "runAgentLoop env s = (r, s')" "ls_events s = []"
  shows "loopEnd r s'"
proof -
  let ?F = "\<lambda>r. wp (finalizer env) (\<lambda>q t. case q of Val _ \<Rightarrow> loopEnd r t | Throw e \<Rightarrow> loopEnd (Throw e) t | Torn \<Rightarrow> loopEnd Torn t)"
  have fin: "?F r t" if "loopEnd r t" for r t
    using finalizer_quiet by (rule wp_mono) (use that in \<open>auto dest!: quietEndD simp: loopEnd_def\<close>)
  have err: "wp (onError env e) ?F t" if "noTerm (ls_events t)" for e t
    using onError_terminal [OF that]
  proof (rule wp_mono)
    fix r :: "unit outcome" and s' :: loop_state
    assume "(\<forall>x. r \<noteq> Throw x) \<and> termLast (ls_events s')"
    then show "?F r s'" by (intro fin) (cases r; simp add: loopEnd_simps)
  qed
  have body: "wp (tryFinally (tryCatch (tryBody env m) (onError env)) (finalizer env)) loopEnd t" if n: "noTerm (ls_events t)" for m t
    unfolding wp_tryFinally wp_tryCatch
  proof (rule wp_mono [OF tryBody_terminal [OF n]])
    fix r :: "unit outcome" and s' :: loop_state
    assume b: "bodyOk r s'"
    show "case r of Val x \<Rightarrow> ?F (Val x) s' | Throw e \<Rightarrow> wp (onError env e) ?F s' | Torn \<Rightarrow> ?F Torn s'"
    proof (cases r)
      case (Val u)
      then have "?F (Val u) s'" using b by (intro fin) (simp add: bodyOk_simps loopEnd_simps)
      then show ?thesis unfolding Val outcome.case .
    next
      case (Throw e)
      then have "wp (onError env e) ?F s'" using b by (intro err) (simp add: bodyOk_simps)
      then show ?thesis unfolding Throw outcome.case .
    next
      case Torn
      then have "?F Torn s'" using b by (intro fin) (simp add: bodyOk_simps loopEnd_simps)
      then show ?thesis unfolding Torn outcome.case .
    qed
  qed
  have "wp (runAgentLoop env) loopEnd s"
  proof (cases "le_prepared env")
    case None
    then show ?thesis unfolding runAgentLoop_def wp_mbind using assms(2)
      by (simp add: wp_newId body)
  next
    case (Some a)
    then show ?thesis unfolding runAgentLoop_def wp_mbind using assms(2) by (simp add: wp_ret body)
  qed
  then show ?thesis using assms(1) by (rule wpD)
qed

end
