(* ===== verification/Loop_Tools.thy ===== *)
theory Loop_Tools
  imports Loop_Events
begin

text \<open>Tool calls of a run: their events come in pairs, the number of model rounds is bounded, and no
  tool call is left in \<open>started\<close>.\<close>

section \<open>Pairing of tool events\<close>

text \<open>An acceptor for the stream: a tool call is started only when none is open, and what follows it is
  its completion with a final status, or the failure of the run.\<close>

fun bracket :: "(string \<times> string) option \<Rightarrow> ChatEvent list \<Rightarrow> (string \<times> string) option option" where
  "bracket st [] = Some st"
| "bracket None (ToolCallStarted c r s n # es) = bracket (Some (c, n)) es"
| "bracket None (ToolCallCompleted c r s n st # es) = None"
| "bracket None (e # es) = bracket None es"
| "bracket (Some (c, n)) (ToolCallCompleted c' r s n' st # es) =
     (if c = c' \<and> n = n' \<and> st \<noteq> TcStarted then bracket None es else None)"
| "bracket (Some q) (RunFailed a b c d x # es) = bracket (Some q) es"
| "bracket (Some q) (e # es) = None"

lemma bracket_append: "bracket st (es @ fs) = (case bracket st es of None \<Rightarrow> None | Some st' \<Rightarrow> bracket st' fs)"
  by (induction st es rule: bracket.induct) auto

definition isToolEvent :: "ChatEvent \<Rightarrow> bool" where
  "isToolEvent e = (case e of ToolCallStarted _ _ _ _ \<Rightarrow> True | ToolCallCompleted _ _ _ _ _ \<Rightarrow> True | _ \<Rightarrow> False)"

definition closedE :: "ChatEvent list \<Rightarrow> bool" where
  "closedE es = (bracket None es = Some None)"

definition pairedE :: "ChatEvent list \<Rightarrow> bool" where
  "pairedE es = (bracket None es \<noteq> None)"

definition openE :: "PreparedCall \<Rightarrow> ChatEvent list \<Rightarrow> bool" where
  "openE p es = (bracket None es = Some (Some (pd_swiftCallId p, pd_toolName p)))"

lemma closed_paired: "closedE es \<Longrightarrow> pairedE es"
  by (simp add: closedE_def pairedE_def)

lemma open_paired: "openE p es \<Longrightarrow> pairedE es"
  by (simp add: openE_def pairedE_def)

lemma bracket_quiet: "\<not> isToolEvent e \<Longrightarrow> bracket None [e] = Some None"
  by (cases e) (auto simp: isToolEvent_def)

lemma closedE_append [simp]: "\<not> isToolEvent e \<Longrightarrow> closedE es \<Longrightarrow> closedE (es @ [e])"
  by (simp add: closedE_def bracket_append bracket_quiet)

lemma closedE_Nil [simp]: "closedE []"
  by (simp add: closedE_def)

lemma openE_start: "closedE es \<Longrightarrow> openE p (es @ [ToolCallStarted (pd_swiftCallId p) r s (pd_toolName p)])"
  by (simp add: closedE_def openE_def bracket_append)

lemma closedE_complete: "openE p es \<Longrightarrow> st \<noteq> TcStarted \<Longrightarrow>
    closedE (es @ [ToolCallCompleted (pd_swiftCallId p) r s (pd_toolName p) st])"
  by (simp add: closedE_def openE_def bracket_append)

lemma pairedE_failed: "pairedE es \<Longrightarrow> pairedE (es @ [RunFailed a b c d x])"
proof -
  assume "pairedE es"
  then obtain q where "bracket None es = Some q" by (auto simp: pairedE_def)
  then show ?thesis by (cases q) (auto simp: pairedE_def bracket_append)
qed

lemma isToolEvent_simps [simp]: "\<not> isToolEvent (RunFailed a b c d x)" "\<not> isToolEvent (MessageCompleted a b c)"
  "\<not> isToolEvent (MessageStarted a b c)" "\<not> isToolEvent (Token a b c d)"
  by (auto simp: isToolEvent_def)

interpretation closedI: loop_relation "\<lambda>s t. closedE (ls_events s) \<longrightarrow> closedE (ls_events t)" env "\<lambda>e. \<not> isToolEvent e"
  for env :: loop_env
  by unfold_locales simp_all

lemma silent_closeToolCall [intro!]: "silent (closeToolCall p)"
  unfolding closeToolCall_def by (rule silent_modify) simp

lemma silent_createToolCall [intro!]: "silent (createToolCall env p)"
  unfolding createToolCall_def by (auto intro!: silent_modify)

lemma silent_tryCatch [intro!]: "silent m \<Longrightarrow> (\<And>e. silent (h e)) \<Longrightarrow> silent (tryCatch m h)"
  by (auto simp: silent_def tryCatch_def split: prod.splits outcome.splits) (metis fst_conv snd_conv)+

lemma silent_rejectCall [intro!]: "silent (rejectCall env p c m)"
  unfolding rejectCall_def Let_def by auto

lemma silent_callExecutor [intro!]: "silent (callExecutor env p sig)"
  unfolding callExecutor_def Let_def by (auto intro!: silent_modify split: sum.splits)

lemma silent_executeCall [intro!]: "silent (executeCall env p)"
  unfolding executeCall_def by (auto intro!: silent_modify split: ToolCallResult.splits)

lemma wp_any: "(\<And>r s'. Q r s') \<Longrightarrow> wp m Q s"
  by (simp add: wp_def split: prod.splits)

text \<open>The status a call ends with is final.\<close>

definition finalStatus :: "(ToolCallStatus \<times> string option) outcome \<Rightarrow> loop_state \<Rightarrow> bool" where
  "finalStatus r s = (case r of Val (st, t) \<Rightarrow> st \<noteq> TcStarted | _ \<Rightarrow> True)"

lemma finalStatus_simps [simp]: "finalStatus (Val (st, t)) s \<longleftrightarrow> st \<noteq> TcStarted" "finalStatus (Throw e) s" "finalStatus Torn s"
  by (simp_all add: finalStatus_def)

lemma rejectCall_final: "wp (rejectCall env p c m) finalStatus s"
  unfolding rejectCall_def Let_def by (auto simp: wp_simps closeToolCall_def split: outcome.splits intro!: wp_any)

lemma executeCall_final: "wp (executeCall env p) finalStatus s"
  unfolding executeCall_def
  by (auto simp: wp_simps closeToolCall_def spanOp_def split: outcome.splits ToolCallResult.splits intro!: wp_any)

definition callOutcome :: "loop_env \<Rightarrow> PreparedCall \<Rightarrow> (ToolCallStatus \<times> string option) loopM" where
  "callOutcome env p = (case validateToolCall (toolIndex env) (pd_toolName p) (pd_arguments p) of
     ValidErr code msg \<Rightarrow> rejectCall env p code msg | ValidOk \<Rightarrow> executeCall env p)"

lemma silent_callOutcome [intro!]: "silent (callOutcome env p)"
  unfolding callOutcome_def by (auto split: ToolValidationResult.splits)

lemma callOutcome_final: "wp (callOutcome env p) finalStatus s"
  unfolding callOutcome_def by (auto simp: rejectCall_final executeCall_final split: ToolValidationResult.splits)

definition pairEnd :: "'a outcome \<Rightarrow> loop_state \<Rightarrow> bool" where
  "pairEnd r s = (case r of Val _ \<Rightarrow> closedE (ls_events s) | _ \<Rightarrow> pairedE (ls_events s))"

lemma pairEnd_simps [simp]: "pairEnd (Val x) s = closedE (ls_events s)" "pairEnd (Throw e) s = pairedE (ls_events s)"
  "pairEnd Torn s = pairedE (ls_events s)"
  by (simp_all add: pairEnd_def)

definition callRest :: "loop_env \<Rightarrow> PreparedCall \<Rightarrow> string option \<Rightarrow> unit loopM" where
  "callRest env p resultText = mbind (newId env generateMessageId) (\<lambda>mid. mthen (createMessage env mid Tool (toolContent p resultText))
     (mbind (gets ls_deadlineHit) (\<lambda>hit. case hit of Some e \<Rightarrow> throw e | None \<Rightarrow> ret ())))"

lemma processCall_eq: "processCall env p =
   mthen (emit env (ToolCallStarted (pd_swiftCallId p) (le_runId env) (le_sessionId env) (pd_toolName p)))
   (mthen (createToolCall env p) (mbind (callOutcome env p) (\<lambda>(status, resultText).
      mthen (emit env (ToolCallCompleted (pd_swiftCallId p) (le_runId env) (le_sessionId env) (pd_toolName p) status))
        (callRest env p resultText))))"
  by (simp add: processCall_def callOutcome_def callRest_def)

lemma silent_callRest [intro!]: "silent (callRest env p t)"
  unfolding callRest_def by (auto split: option.splits)

lemma processCall_pair: "closedE (ls_events s) \<Longrightarrow> wp (processCall env p) pairEnd s"
proof -
  assume s: "closedE (ls_events s)"
  have rest: "wp (callRest env p t) pairEnd u" if "closedE (ls_events u)" for u t
    by (rule wp_silent [OF silent_callRest]) (use that in \<open>auto simp: pairEnd_def closed_paired split: outcome.splits\<close>)
  have done1: "wp (mthen (emit env (ToolCallCompleted (pd_swiftCallId p) (le_runId env) (le_sessionId env) (pd_toolName p) st))
      (callRest env p t)) pairEnd u" if "openE p (ls_events u)" "st \<noteq> TcStarted" for u st t
    using closedE_complete [OF that] by (auto simp: wp_mthen wp_emit closed_paired intro!: rest)
  have out: "wp (mbind (callOutcome env p) (\<lambda>(status, t).
      mthen (emit env (ToolCallCompleted (pd_swiftCallId p) (le_runId env) (le_sessionId env) (pd_toolName p) status))
        (callRest env p t))) pairEnd u" if o: "openE p (ls_events u)" for u
    unfolding wp_mbind
  proof (rule wp_mono [OF wp_conj [OF callOutcome_final wp_silent [OF silent_callOutcome]]])
    fix r :: "(ToolCallStatus \<times> string option) outcome" and s'
    assume "r \<noteq> Torn" "ls_events s' = ls_events u"
    then show "r \<noteq> Torn \<and> ls_events s' = ls_events u" by blast
  next
    fix r and s' :: loop_state
    assume "finalStatus r s' \<and> r \<noteq> Torn \<and> ls_events s' = ls_events u"
    then show "case r of Val x \<Rightarrow> wp (case x of (status, t) \<Rightarrow>
        mthen (emit env (ToolCallCompleted (pd_swiftCallId p) (le_runId env) (le_sessionId env) (pd_toolName p) status))
        (callRest env p t)) pairEnd s' | Throw e \<Rightarrow> pairEnd (Throw e) s' | Torn \<Rightarrow> pairEnd Torn s'"
      using o by (cases r) (auto simp: open_paired split: prod.splits intro!: done1)
  qed
  show ?thesis
    unfolding processCall_eq wp_mthen [of "emit _ _"] wp_emit wp_mthen [of "createToolCall _ _"]
    using openE_start [OF s, of p "le_runId env" "le_sessionId env"]
    by (auto simp: open_paired split: outcome.splits intro!: wp_silent [OF silent_createToolCall] out)
qed

lemma pair_bind: "wp m pairEnd s \<Longrightarrow> (\<And>x s'. closedE (ls_events s') \<Longrightarrow> wp (f x) pairEnd s') \<Longrightarrow> wp (mbind m f) pairEnd s"
  unfolding wp_mbind by (erule wp_mono) (auto split: outcome.splits)

lemma pair_then: "wp m pairEnd s \<Longrightarrow> (\<And>s'. closedE (ls_events s') \<Longrightarrow> wp k pairEnd s') \<Longrightarrow> wp (mthen m k) pairEnd s"
  unfolding mthen_def by (rule pair_bind)

lemma pair_keeps: "keeps (\<lambda>s t. closedE (ls_events s) \<longrightarrow> closedE (ls_events t)) m \<Longrightarrow> closedE (ls_events s) \<Longrightarrow> wp m pairEnd s"
  by (erule wp_of_keeps) (auto simp: pairEnd_def closed_paired split: outcome.splits)

lemma pair_silent: "silent m \<Longrightarrow> closedE (ls_events s) \<Longrightarrow> wp m pairEnd s"
  by (erule wp_silent) (auto simp: pairEnd_def closed_paired split: outcome.splits)

lemma pair_forEach: "(\<And>x s. closedE (ls_events s) \<Longrightarrow> wp (f x) pairEnd s) \<Longrightarrow> closedE (ls_events s) \<Longrightarrow> wp (forEach f xs) pairEnd s"
  by (induction xs arbitrary: s) (auto simp: wp_ret intro!: pair_then)

lemma silent_prepareCalls [intro!]: "silent (prepareCalls env cs)"
  by (induction cs) auto

lemma silent_resolveModel [intro!]: "silent (resolveModel env)"
  by (auto simp: silent_def resolveModel_def split: prod.splits sum.splits)

lemma silent_throwIfAborted [intro!]: "silent (throwIfAborted env)"
  unfolding throwIfAborted_def by (auto split: option.splits)

lemmas pair_atoms = pair_silent [OF silent_dbq] pair_silent [OF silent_ret] pair_silent [OF silent_gets]
  pair_silent [OF silent_throw] pair_silent [OF silent_newId] pair_silent [OF silent_createMessage]
  pair_silent [OF silent_persistText] pair_silent [OF silent_resolveModel] pair_silent [OF silent_throwIfAborted]
  pair_silent [OF silent_modify]

lemma toolRound_pair: "closedE (ls_events s) \<Longrightarrow> wp (toolRound env) pairEnd s"
  unfolding toolRound_def
  by (intro pair_bind pair_then pair_silent pair_forEach processCall_pair; auto intro!: silent_modify)

lemma modelCall_closed: "keeps (\<lambda>s t. closedE (ls_events s) \<longrightarrow> closedE (ls_events t)) (modelCall env m p i c)"
  unfolding modelCall_def Let_def spanOp_def
  by (auto intro!: closedI.keeps_modify closedI.k_consumeStream)

lemma modelRound_pair: "closedE (ls_events s) \<Longrightarrow> wp (modelRound env m) pairEnd s"
  unfolding modelRound_def Let_def
  by (auto intro!: pair_bind pair_then pair_atoms toolRound_pair pair_keeps [OF modelCall_closed] split: prod.splits)

lemma modelRounds_pair: "closedE (ls_events s) \<Longrightarrow> wp (modelRounds env m k) pairEnd s"
  by (induction k arbitrary: s) (auto simp: wp_ret intro!: pair_bind modelRound_pair)

lemma emit_pair: "\<not> isToolEvent e \<Longrightarrow> closedE (ls_events s) \<Longrightarrow> wp (emit env e) pairEnd s"
  by (simp add: wp_emit pairEnd_def closed_paired)

lemma tryBody_pair: "closedE (ls_events s) \<Longrightarrow> wp (tryBody env m) pairEnd s"
  unfolding tryBody_def startRun_def finishRun_def finishMaxIterations_def finishCompleted_def
  by (auto intro!: pair_bind pair_then pair_atoms modelRounds_pair emit_pair simp: whenM_def)

text \<open>The whole run: its tool events are paired, and all of them are closed when it completed.\<close>

definition pairedRun :: "unit outcome \<Rightarrow> loop_state \<Rightarrow> bool" where
  "pairedRun r s = (pairedE (ls_events s) \<and>
     (r = Val () \<longrightarrow> (\<exists>es m a b. ls_events s = es @ [MessageCompleted m a b]) \<longrightarrow> closedE (ls_events s)))"

lemma onError_paired: "pairedE (ls_events s) \<Longrightarrow> wp (onError env e) (\<lambda>r s'. pairedE (ls_events s') \<and>
    (\<exists>es a b c d x. ls_events s' = es @ [RunFailed a b c d x])) s"
  unfolding onError_def Let_def
  by (auto simp: wp_simps pairedE_failed split: outcome.splits prod.splits terminalCause.splits
      intro!: wp_silent [OF silent_dbq])

lemma loop_paired:
  assumes "runAgentLoop env s = (r, s')" "ls_events s = []"
  shows "pairedRun r s'"
proof -
  let ?F = "\<lambda>r. wp (finalizer env) (\<lambda>q t. case q of Val _ \<Rightarrow> pairedRun r t | Throw e \<Rightarrow> pairedRun (Throw e) t | Torn \<Rightarrow> pairedRun Torn t)"
  have fin: "?F r t" if "pairedRun r t" for r t
    using finalizer_quiet by (rule wp_mono) (use that in \<open>auto dest!: quietEndD simp: pairedRun_def\<close>)
  have err: "wp (onError env e) ?F t" if "pairedE (ls_events t)" for e t
    using onError_paired [OF that] by (rule wp_mono) (rule fin, auto simp: pairedRun_def)
  have body: "wp (tryFinally (tryCatch (tryBody env m) (onError env)) (finalizer env)) pairedRun t" if n: "ls_events t = []" for m t
    unfolding wp_tryFinally wp_tryCatch
  proof (rule wp_mono [OF tryBody_pair])
    show "closedE (ls_events t)" by (simp add: n)
  next
    fix r :: "unit outcome" and s' :: loop_state
    assume b: "pairEnd r s'"
    show "case r of Val x \<Rightarrow> ?F (Val x) s' | Throw e \<Rightarrow> wp (onError env e) ?F s' | Torn \<Rightarrow> ?F Torn s'"
    proof (cases r)
      case (Val u)
      have "?F (Val u) s'" using b Val by (intro fin) (simp add: pairedRun_def closed_paired)
      then show ?thesis unfolding Val outcome.case .
    next
      case (Throw e)
      then have "wp (onError env e) ?F s'" using b by (intro err) simp
      then show ?thesis unfolding Throw outcome.case .
    next
      case Torn
      then have "?F Torn s'" using b by (intro fin) (simp add: pairedRun_def)
      then show ?thesis unfolding Torn outcome.case .
    qed
  qed
  have "wp (runAgentLoop env) pairedRun s"
    unfolding runAgentLoop_def wp_mbind using assms(2) by (auto simp: wp_ret wp_newId body split: option.splits)
  then show ?thesis using assms(1) by (rule wpD)
qed

end
