(* ===== verification/Loop_Ends.thy ===== *)
theory Loop_Ends
  imports Loop_Tools
begin

text \<open>How a run ends: the bound on model rounds, the text left at the iteration limit, what is written
  to the run and its tool calls, and which cause is reported.\<close>

section \<open>Model rounds are bounded\<close>

interpretation reqI: loop_relation "\<lambda>s t. ls_requests t = ls_requests s" env "\<lambda>_. True" for env :: loop_env
  by unfold_locales simp_all

definition oneMore :: "loop_state \<Rightarrow> loop_state \<Rightarrow> bool" where
  "oneMore s t = (length (ls_requests t) \<le> Suc (length (ls_requests s)))"

lemma oneMore_simps [simp]: "ls_requests t = ls_requests s \<Longrightarrow> oneMore s t"
  "length (ls_requests t) = Suc (length (ls_requests s)) \<Longrightarrow> oneMore s t"
  by (simp_all add: oneMore_def)

lemma modelCall_oneMore: "wp (modelCall env m p i c) (\<lambda>_. oneMore s) s"
  unfolding modelCall_def Let_def spanOp_def
  by (auto simp: wp_simps split: outcome.splits intro!: wp_of_keeps [OF reqI.k_consumeStream])

lemma modelRound_oneMore: "wp (modelRound env m) (\<lambda>_. oneMore s) s"
proof -
  have tools: "wp (toolRound env) (\<lambda>r t. ls_requests t = ls_requests u) u" for u
    by (rule wp_of_keeps [OF reqI.k_toolRound]) auto
  have call: "wp (modelCall env m p i c) (\<lambda>_. oneMore s) u" if "ls_requests u = ls_requests s" for u p i c
    using modelCall_oneMore [of env m p i c u] that by (auto simp: oneMore_def elim: wp_mono)
  have read: "keeps (\<lambda>s t. ls_requests t = ls_requests s) (dbq env q)" for q :: "nat \<Rightarrow> MessageRecord list query"
    by (rule reqI.q_dbq) simp
  show ?thesis
    unfolding modelRound_def Let_def
    apply (auto simp: wp_mthen wp_mbind wp_gets wp_modify wp_ret wp_if split: outcome.splits prod.splits
        intro!: wp_of_keeps [OF reqI.k_throwIfAborted] wp_of_keeps [OF read] wp_of_keeps [OF reqI.k_resolveModel])
    apply (rule wp_mono [OF call])
     apply simp
    apply (auto split: outcome.splits simp: oneMore_def intro!: wp_mono [OF tools])
    done
qed

lemma modelRounds_requests: "wp (modelRounds env m k) (\<lambda>_ t. length (ls_requests t) \<le> length (ls_requests s) + k) s"
proof (induction k arbitrary: s)
  case (Suc k)
  show ?case
    unfolding modelRounds.simps wp_mbind
  proof (rule wp_mono [OF modelRound_oneMore])
    fix r and t :: loop_state
    assume o: "oneMore s t"
    have "wp (modelRounds env m k) (\<lambda>_ u. length (ls_requests u) \<le> length (ls_requests s) + Suc k) t"
      using Suc.IH [of t] by (rule wp_mono) (use o in \<open>auto simp: oneMore_def\<close>)
    then show "case r of Val c \<Rightarrow> wp (if c then modelRounds env m k else ret ()) (\<lambda>_ t. length (ls_requests t) \<le> length (ls_requests s) + Suc k) t
      | Throw e \<Rightarrow> length (ls_requests t) \<le> length (ls_requests s) + Suc k | Torn \<Rightarrow> length (ls_requests t) \<le> length (ls_requests s) + Suc k"
      using o by (auto simp: wp_ret oneMore_def split: outcome.splits)
  qed
qed (simp add: wp_ret)

lemma req_query: "keeps (\<lambda>s t. ls_requests t = ls_requests s) (dbq env q)"
  by (rule reqI.q_dbq) simp

lemma finishRun_requests: "keeps (\<lambda>s t. ls_requests t = ls_requests s) (finishRun env m)"
  unfolding finishRun_def finishMaxIterations_def finishCompleted_def
  by (auto intro!: reqI.keeps_modify reqI.k_emit req_query)

lemma onError_requests: "keeps (\<lambda>s t. ls_requests t = ls_requests s) (onError env e)"
  unfolding onError_def Let_def
  by (auto intro!: reqI.keeps_modify reqI.k_emit req_query split: prod.splits terminalCause.splits)

definition reqBound :: "loop_env \<Rightarrow> loop_state \<Rightarrow> bool" where
  "reqBound env t = (length (ls_requests t) \<le> maxIterations env)"

lemma reqBound_cong: "ls_requests t = ls_requests s \<Longrightarrow> reqBound env t = reqBound env s"
  by (simp add: reqBound_def)

lemma tryBody_requests: "ls_requests s = [] \<Longrightarrow> wp (tryBody env m) (\<lambda>_. reqBound env) s"
proof -
  assume s: "ls_requests s = []"
  have rounds: "wp (modelRounds env mid (maxIterations env - i)) (\<lambda>_. reqBound env) t" if "ls_requests t = []" for mid t i
    using modelRounds_requests [of env mid "maxIterations env - i" t] by (rule wp_mono) (use that in \<open>auto simp: reqBound_def\<close>)
  have fin: "wp (finishRun env mid) (\<lambda>_. reqBound env) t" if "reqBound env t" for mid t
    by (rule wp_of_keeps [OF finishRun_requests]) (use that in \<open>simp add: reqBound_def\<close>)
  have fin2: "wp (mthen (modelRounds env mid (maxIterations env - i)) (finishRun env mid)) (\<lambda>_. reqBound env) t"
    if "ls_requests t = []" for mid t i
    unfolding wp_mthen by (rule wp_mono [OF rounds [OF that]]) (auto intro: fin split: outcome.splits)
  have start: "keeps (\<lambda>s t. ls_requests t = ls_requests s) (startRun env m)"
    by (rule reqI.k_startRun) simp
  show ?thesis
    unfolding tryBody_def using s
    by (auto simp: wp_mthen [of "startRun _ _"] wp_mbind wp_newId wp_gets reqBound_def [of env "_ :: loop_state"] split: outcome.splits
        intro!: wp_of_keeps [OF start] fin2)
qed

lemma loop_requests:
  assumes "runAgentLoop env s = (r, s')" "ls_requests s = []"
  shows "length (ls_requests s') \<le> maxIterations env"
proof -
  have fin: "wp (finalizer env) (\<lambda>q t. case q of Val _ \<Rightarrow> reqBound env t | Throw e \<Rightarrow> reqBound env t | Torn \<Rightarrow> reqBound env t) t"
    if "reqBound env t" for t
    by (rule wp_of_keeps [OF reqI.q_finalizer]) (use that in \<open>auto simp: reqBound_def split: outcome.splits\<close>)
  have err: "wp (onError env e) (\<lambda>r s'. wp (finalizer env) (\<lambda>q t. case q of Val _ \<Rightarrow> reqBound env t
      | Throw e \<Rightarrow> reqBound env t | Torn \<Rightarrow> reqBound env t) s') t" if "reqBound env t" for e t
    by (rule wp_of_keeps [OF onError_requests], rule fin) (use that in \<open>simp add: reqBound_def\<close>)
  have body: "wp (tryFinally (tryCatch (tryBody env m) (onError env)) (finalizer env)) (\<lambda>_. reqBound env) t"
    if "ls_requests t = []" for m t
    unfolding wp_tryFinally wp_tryCatch
    by (rule wp_mono [OF tryBody_requests [OF that]]) (case_tac r, simp_all only: outcome.case, (erule fin | erule err)+)
  have "wp (runAgentLoop env) (\<lambda>_. reqBound env) s"
    unfolding runAgentLoop_def wp_mbind using assms(2) by (auto simp: wp_ret wp_newId body split: option.splits)
  then show ?thesis using assms(1) by (auto simp: reqBound_def dest: wpD)
qed

section \<open>The iteration limit leaves no text\<close>

interpretation iterI: loop_relation "\<lambda>s t. ls_iter t = ls_iter s" env "\<lambda>_. True" for env :: loop_env
  by unfold_locales (simp_all add: advance_def)

interpretation textI: call_relation "\<lambda>s t. ls_text t = ls_text s" env "\<lambda>_. True" for env :: loop_env
  by unfold_locales (simp_all add: advance_def)

lemma toolRound_text: "wp (toolRound env) (\<lambda>r t. ls_iter t = ls_iter s \<and> (r = Val () \<longrightarrow> ls_text t = [])) s"
proof -
  have each: "keeps (\<lambda>s t. ls_text t = ls_text s) (forEach (processCall env) cs)" for cs
    by (auto intro!: textI.k_processCall)
  have "wp (toolRound env) (\<lambda>r t. r = Val () \<longrightarrow> ls_text t = []) s"
    unfolding toolRound_def
    by (auto simp: wp_mbind wp_mthen wp_gets wp_modify wp_newId split: outcome.splits intro!: wp_any wp_of_keeps [OF each])
  moreover have "wp (toolRound env) (\<lambda>r t. ls_iter t = ls_iter s) s"
    by (rule wp_of_keeps [OF iterI.k_toolRound]) auto
  ultimately show ?thesis by (auto dest: wp_conj elim: wp_mono)
qed

lemma modelCall_iter: "keeps (\<lambda>s t. ls_iter t = ls_iter s) (modelCall env m p i c)"
  unfolding modelCall_def Let_def spanOp_def
  by (auto intro!: iterI.keeps_modify iterI.k_consumeStream)

definition roundEnd :: "nat \<Rightarrow> bool outcome \<Rightarrow> loop_state \<Rightarrow> bool" where
  "roundEnd n r t = ((r = Val True \<longrightarrow> ls_iter t = Suc n \<and> ls_text t = []) \<and> (r = Val False \<longrightarrow> ls_iter t = n))"

lemma roundEnd_simps [simp]: "roundEnd n (Val True) t \<longleftrightarrow> ls_iter t = Suc n \<and> ls_text t = []"
  "roundEnd n (Val False) t \<longleftrightarrow> ls_iter t = n" "roundEnd n (Throw e) t" "roundEnd n Torn t"
  by (simp_all add: roundEnd_def)

lemma modelRound_iter: "wp (modelRound env m) (roundEnd (ls_iter s)) s"
proof -
  have read: "keeps (\<lambda>s t. ls_iter t = ls_iter s) (dbq env q)" for q :: "nat \<Rightarrow> MessageRecord list query"
    by (rule iterI.q_dbq) simp
  show ?thesis
    unfolding modelRound_def Let_def
    by (auto simp: wp_mthen wp_mbind wp_gets wp_modify wp_ret wp_if split: outcome.splits prod.splits
        intro!: wp_of_keeps [OF iterI.k_throwIfAborted] wp_of_keeps [OF read] wp_of_keeps [OF iterI.k_resolveModel]
          wp_of_keeps [OF modelCall_iter] wp_mono [OF toolRound_text])
qed

lemma modelRounds_iter: "ls_iter s + k = M \<Longrightarrow> (k = 0 \<longrightarrow> ls_text s = []) \<Longrightarrow>
    wp (modelRounds env m k) (\<lambda>r t. r = Val () \<longrightarrow> ls_iter t < M \<or> (ls_iter t = M \<and> ls_text t = [])) s"
proof (induction k arbitrary: s)
  case (Suc k)
  show ?case
    unfolding modelRounds.simps wp_mbind
  proof (rule wp_mono [OF modelRound_iter])
    fix r and t :: loop_state
    assume o: "roundEnd (ls_iter s) r t"
    show "case r of Val c \<Rightarrow> wp (if c then modelRounds env m k else ret ())
        (\<lambda>r t. r = Val () \<longrightarrow> ls_iter t < M \<or> (ls_iter t = M \<and> ls_text t = [])) t
      | Throw e \<Rightarrow> Throw e = Val () \<longrightarrow> ls_iter t < M \<or> (ls_iter t = M \<and> ls_text t = [])
      | Torn \<Rightarrow> Torn = Val () \<longrightarrow> ls_iter t < M \<or> (ls_iter t = M \<and> ls_text t = [])"
    proof (cases r)
      case (Val c)
      show ?thesis
      proof (cases c)
        case True
        then show ?thesis using Val o Suc.IH [of t] Suc.prems by simp
      next
        case False
        then show ?thesis using Val o Suc.prems by (simp add: wp_ret)
      qed
    qed simp_all
  qed
qed (simp add: wp_ret)

end
