(* ===== verification/Loop_Status.thy ===== *)
theory Loop_Status
  imports Loop_Ends
begin

text \<open>What a run leaves in the database when no query fails: the status of its row agrees with the
  terminal event, and none of its tool calls is left in \<open>started\<close>.\<close>

definition noFaults :: "loop_env \<Rightarrow> bool" where
  "noFaults env = (\<forall>n. le_fault env n = NoFault)"

section \<open>Tool calls are closed\<close>

definition startedIds :: "loop_env \<Rightarrow> db \<Rightarrow> string set" where
  "startedIds env d = {tc_callId c | c. c \<in> set (db_toolCalls d) \<and> tc_runId c = le_runId env \<and> tc_status c = TcStarted}"

definition tracked :: "loop_env \<Rightarrow> loop_state \<Rightarrow> bool" where
  "tracked env s = (startedIds env (ls_db s) \<subseteq> set (ls_open s))"

lemma wp_dbq_nofault: "noFaults env \<Longrightarrow> wp (dbq env q) Q s =
    (case q (ls_clk (advance env s)) (ls_db s) of Inl e \<Rightarrow> Q (Throw e) (advance env s)
     | Inr (x, d) \<Rightarrow> Q (Val x) ((advance env s)\<lparr>ls_db := d\<rparr>))"
  by (simp add: wp_def dbq_def noFaults_def Let_def split: sum.splits prod.splits)

lemma startedIds_create:
  "toolCalls_create now k r tn a d = Inr (x, d') \<Longrightarrow> startedIds env d' \<subseteq> insert k (startedIds env d)"
  by (auto simp: toolCalls_create_def startedIds_def Let_def split: if_splits option.splits)

lemma startedIds_write:
  assumes "toolCalls_write now w k d = Inr (x, d')" "\<And>v. w \<noteq> SetResult v TcStarted"
  shows "startedIds env d' \<subseteq> startedIds env d - {k}"
proof
  fix i
  assume "i \<in> startedIds env d'"
  then obtain c where c: "c \<in> set (updateWhere (tcLive k) (tcSetRow now w) (db_toolCalls d))"
      "tc_callId c = i" "tc_runId c = le_runId env" "tc_status c = TcStarted"
    using assms(1) by (auto simp: toolCalls_write_def startedIds_def)
  have "tc_status (tcSetRow now w b) \<noteq> TcStarted" for b
    using assms(2) by (auto simp: tcSetRow_status split: tcSet.splits)
  then have "c \<in> set (db_toolCalls d)" "\<not> tcLive k c" using c(1,4) by (auto simp: updateWhere_def split: if_splits)
  then show "i \<in> startedIds env d - {k}" using c(2-4) by (auto simp: startedIds_def tcLive_def)
qed

lemma startedIds_cong: "db_toolCalls d' = db_toolCalls d \<Longrightarrow> startedIds env d' = startedIds env d"
  by (simp add: startedIds_def)

lemma tracked_cong: "db_toolCalls (ls_db t) = db_toolCalls (ls_db s) \<Longrightarrow> ls_open t = ls_open s \<Longrightarrow> tracked env s \<longrightarrow> tracked env t"
  by (simp add: tracked_def startedIds_cong [of "ls_db t" "ls_db s"])

lemma same_toolCalls:
  "messages_create now m si ri ro co d = Inr (x1, d') \<Longrightarrow> db_toolCalls d' = db_toolCalls d"
  "runs_create now k si mo d = Inr (x2, d') \<Longrightarrow> db_toolCalls d' = db_toolCalls d"
  "runs_terminal now w k d = Inr (x3, d') \<Longrightarrow> db_toolCalls d' = db_toolCalls d"
  by (auto simp: messages_create_def runs_create_def runs_terminal_def Let_def split: if_splits)

definition keepsTracked :: "loop_env \<Rightarrow> loop_state \<Rightarrow> loop_state \<Rightarrow> bool" where
  "keepsTracked env s t = (noFaults env \<longrightarrow> tracked env s \<longrightarrow> tracked env t)"

lemma keepsI: "(\<And>s. wp m (\<lambda>r t. R s t) s) \<Longrightarrow> keeps R m"
  unfolding keeps_def wp_def by (metis case_prod_beta)

definition closing :: "loop_env \<Rightarrow> string \<Rightarrow> string list \<Rightarrow> loop_state \<Rightarrow> bool" where
  "closing env k os t = (startedIds env (ls_db t) \<subseteq> set os - {k} \<and> ls_open t = os)"

lemma closing_tracked: "closing env k os t \<Longrightarrow> tracked env (t\<lparr>ls_open := filter (\<lambda>c. c \<noteq> k) (ls_open t)\<rparr>)"
  by (auto simp: closing_def tracked_def)

lemma closing_cong: "closing env k os s \<Longrightarrow> ls_db t = ls_db s \<Longrightarrow> ls_open t = ls_open s \<Longrightarrow> closing env k os t"
  by (simp add: closing_def)

lemma updateResult_closing:
  assumes "noFaults env" "tracked env s" "st \<noteq> TcStarted"
  shows "wp (dbq env (\<lambda>now. toolCalls_updateResult now k out st)) (\<lambda>r t. (\<exists>x. r = Val x) \<and> closing env k (ls_open s) t) s"
proof -
  obtain x d where x: "toolCalls_write (ls_clk (advance env s)) (SetResult out st) k (ls_db s) = Inr (x, d)"
    by (simp add: toolCalls_write_def)
  from startedIds_write [OF x, of env] assms(2,3) have "startedIds env d \<subseteq> set (ls_open s) - {k}"
    by (auto simp: tracked_def)
  then show ?thesis unfolding toolCalls_updateResult_def wp_dbq_nofault [OF assms(1)] x by (simp add: closing_def)
qed

definition closed1 :: "loop_env \<Rightarrow> string \<Rightarrow> string list \<Rightarrow> 'a outcome \<Rightarrow> loop_state \<Rightarrow> bool" where
  "closed1 env k os r t = ((\<exists>x. r = Val x) \<and> closing env k os t)"

lemma closed1_bind: "wp m (closed1 env k os) s \<Longrightarrow> (\<And>x t. closing env k os t \<Longrightarrow> wp (f x) Q t) \<Longrightarrow> wp (mbind m f) Q s"
  unfolding wp_mbind by (erule wp_mono) (auto simp: closed1_def)

lemma closed1_then: "wp m (closed1 env k os) s \<Longrightarrow> (\<And>t. closing env k os t \<Longrightarrow> wp f Q t) \<Longrightarrow> wp (mthen m f) Q s"
  unfolding mthen_def by (rule closed1_bind)

lemma closed1_span: "closing env k os s \<Longrightarrow> wp (mthen (spanOp x) (ret y)) (closed1 env k os) s"
  by (simp add: wp_mthen spanOp_def wp_modify wp_ret closed1_def closing_def)

lemma afterUpdate:
  assumes "noFaults env" "tracked env s" "st \<noteq> TcStarted"
    and "\<And>x t. closing env k (ls_open s) t \<Longrightarrow> Q (Val x) t"
  shows "wp (dbq env (\<lambda>now. toolCalls_updateResult now k out st)) Q s"
  by (rule wp_mono [OF updateResult_closing [OF assms(1-3)]]) (use assms(4) in blast)

lemma rejectCall_tracked: "keeps (keepsTracked env) (rejectCall env p c m)"
proof (rule keepsI, unfold keepsTracked_def, rule wpI, intro impI)
  fix s r t
  assume *: "rejectCall env p c m s = (r, t)" "noFaults env" "tracked env s"
  have "wp (rejectCall env p c m) (\<lambda>_. tracked env) s"
    unfolding rejectCall_def Let_def wp_mthen
    by (rule afterUpdate [OF *(2,3)]) (auto simp: wp_ret closeToolCall_def wp_modify dest: closing_tracked)
  then show "tracked env t" using * by (auto dest: wpD)
qed

lemma callExecutor_same: "wp (callExecutor env p sig) (\<lambda>r t. (\<exists>x. r = Val x) \<and> ls_db t = ls_db s \<and> ls_open t = ls_open s) s"
  unfolding callExecutor_def Let_def
  by (auto simp: wp_simps split: sum.splits)

text \<open>What follows the executor's answer.\<close>

lemma afterResult_tracked:
  assumes "noFaults env" "tracked env s"
  shows "wp (mbind (case result of
                ResOk out \<Rightarrow> mthen (dbq env (\<lambda>now. toolCalls_updateResult now (pd_swiftCallId p) out TcCompleted))
                   (mthen (spanOp (EndToolCall (pd_swiftCallId p) True)) (ret (TcCompleted, map_option stringify out)))
              | ResErr e \<Rightarrow> mthen (dbq env (\<lambda>now. toolCalls_updateResult now (pd_swiftCallId p) (Some (JStr e)) TcFailed))
                   (mthen (spanOp (EndToolCall (pd_swiftCallId p) False)) (ret (TcFailed, Some e))))
            (\<lambda>res. mthen (closeToolCall p)
               (mthen (whenM b (modify (\<lambda>s. s\<lparr>ls_deadlineHit := h\<rparr>))) (ret res)))) (\<lambda>_. tracked env) s"
proof -
  have fin: "wp (mthen (closeToolCall p) (mthen (whenM b (modify (\<lambda>s. s\<lparr>ls_deadlineHit := h\<rparr>))) (ret res))) (\<lambda>_. tracked env) t"
    if "closing env (pd_swiftCallId p) (ls_open s) t" for t and res :: "ToolCallStatus \<times> string option"
    using closing_tracked [OF that]
    by (auto simp: wp_mthen closeToolCall_def wp_modify wp_whenM wp_ret tracked_def)
  show ?thesis
    by (rule closed1_bind [OF _ fin], cases result)
      (auto intro!: closed1_then closed1_span updateResult_closing [OF assms, folded closed1_def])
qed

lemma executeCall_tracked: "keeps (keepsTracked env) (executeCall env p)"
proof (rule keepsI, unfold keepsTracked_def, rule wpI, intro impI)
  fix s r t
  assume *: "executeCall env p s = (r, t)" "noFaults env" "tracked env s"
  have tr: "tracked env u" if "ls_db u = ls_db s" "ls_open u = ls_open s" for u
    using that *(3) by (simp add: tracked_def)
  have "wp (executeCall env p) (\<lambda>_. tracked env) s"
    unfolding executeCall_def wp_mbind [of "gets _"] wp_gets outcome.case wp_mthen [of "spanOp _"] wp_mbind [of "callExecutor _ _ _"]
    by (simp add: spanOp_def wp_modify)
      (rule wp_mono [OF callExecutor_same], auto intro!: afterResult_tracked *(2) tr)
  then show "tracked env t" using * by (auto dest: wpD)
qed

lemma createToolCall_tracked: "keeps (keepsTracked env) (createToolCall env p)"
proof (rule keepsI, unfold keepsTracked_def, rule wpI, intro impI)
  fix s r t
  assume *: "createToolCall env p s = (r, t)" "noFaults env" "tracked env s"
  have "wp (createToolCall env p) (\<lambda>_. tracked env) s"
    unfolding createToolCall_def
    using *(3) by (auto simp: wp_mthen wp_dbq_nofault [OF *(2)] wp_modify tracked_def
        split: sum.splits outcome.splits dest!: startedIds_create [where env = env])
  then show "tracked env t" using * by (auto dest: wpD)
qed

lemma query_tracked: "(\<And>now d x d'. q now d = Inr (x, d') \<Longrightarrow> db_toolCalls d' = db_toolCalls d) \<Longrightarrow> keeps (keepsTracked env) (dbq env q)"
proof (rule keepsI, unfold keepsTracked_def, rule wpI, intro impI)
  fix s r t
  assume q: "\<And>now d x d'. q now d = Inr (x, d') \<Longrightarrow> db_toolCalls d' = db_toolCalls d"
    and *: "dbq env q s = (r, t)" "noFaults env" "tracked env s"
  have "wp (dbq env q) (\<lambda>_. tracked env) s"
    using *(3) by (auto simp: wp_dbq_nofault [OF *(2)] tracked_def startedIds_cong [OF q] split: sum.splits)
  then show "tracked env t" using * by (auto dest: wpD)
qed

lemma keepsTracked_same: "ls_db t = ls_db s \<Longrightarrow> ls_open t = ls_open s \<Longrightarrow> keepsTracked env s t"
  by (simp add: keepsTracked_def tracked_def)

lemma keepsTracked_trans: "keepsTracked env s t \<Longrightarrow> keepsTracked env t u \<Longrightarrow> keepsTracked env s u"
  by (simp add: keepsTracked_def)

interpretation trS: state_relation "keepsTracked env" for env :: loop_env
  by unfold_locales (auto intro: keepsTracked_same keepsTracked_trans)

lemma createMessage_tracked: "keeps (keepsTracked env) (createMessage env m ro co)"
  unfolding createMessage_def by (auto intro!: query_tracked dest: same_toolCalls)

lemma runQuery_tracked: "keeps (keepsTracked env) (dbq env (\<lambda>now. runs_create now k si mo))"
  "keeps (keepsTracked env) (dbq env (\<lambda>now. runs_terminal now w k))"
  by (auto intro!: query_tracked dest: same_toolCalls)

interpretation trackI: loop_whole "keepsTracked env" env "\<lambda>_. True" for env :: loop_env
  by unfold_locales
    (auto intro: keepsTracked_same createToolCall_tracked rejectCall_tracked executeCall_tracked createMessage_tracked runQuery_tracked)

definition fewer :: "loop_env \<Rightarrow> string set \<Rightarrow> unit outcome \<Rightarrow> loop_state \<Rightarrow> bool" where
  "fewer env A r t = (r = Val () \<and> startedIds env (ls_db t) \<subseteq> A)"

lemma failCalls_fewer: "noFaults env \<Longrightarrow> startedIds env (ls_db s) \<subseteq> A \<Longrightarrow>
    wp (forEach (\<lambda>c. safe (dbq env (\<lambda>now. toolCalls_fail now c))) cs) (fewer env (A - set cs)) s"
proof (induction cs arbitrary: s A)
  case (Cons c cs)
  let ?now = "ls_clk (advance env s)"
  obtain x d where x: "toolCalls_write ?now SetTcFailed c (ls_db s) = Inr (x, d)" by (simp add: toolCalls_write_def)
  have "startedIds env d \<subseteq> A - {c}" using startedIds_write [OF x, of env] Cons.prems(2) by auto
  then have "wp (forEach (\<lambda>c. safe (dbq env (\<lambda>now. toolCalls_fail now c))) cs) (fewer env (A - {c} - set cs)) ((advance env s)\<lparr>ls_db := d\<rparr>)"
    by (intro Cons.IH Cons.prems(1)) simp
  moreover have "A - {c} - set cs = A - set (c # cs)" by auto
  ultimately show ?case
    by (simp add: wp_mthen wp_safe wp_dbq_nofault [OF Cons.prems(1)] toolCalls_fail_def x)
qed (simp add: wp_ret fewer_def)

lemma finalizer_tracked:
  assumes "noFaults env" "tracked env s"
  shows "wp (finalizer env) (fewer env {}) s"
proof -
  have rest: "wp (mthen (modify (advance env)) (mthen (spanOp (TraceFinish st er))
          (case le_finish env of None \<Rightarrow> ret () | Some e \<Rightarrow> spanOp (TraceWarning (errMessage (le_dbm env) e))))) (fewer env {}) t"
    if "startedIds env (ls_db t) \<subseteq> {}" for st er t
    using that by (simp add: wp_simps spanOp_def fewer_def split: option.splits)
  have "set (ls_open s) - set (ls_open s) = {}" by simp
  then have *: "wp (forEach (\<lambda>c. safe (dbq env (\<lambda>now. toolCalls_fail now c))) (ls_open s)) (fewer env {}) s"
    using failCalls_fewer [OF assms(1), of s "set (ls_open s)" "ls_open s"] assms(2) by (simp add: tracked_def)
  show ?thesis
    unfolding finalizer_def wp_mbind [of "gets _"] wp_gets wp_mthen [of "forEach _ _"] outcome.case
    by (rule wp_mono [OF *]) (auto simp: fewer_def [of _ _ "_ :: unit outcome"] intro!: rest split: outcome.splits)
qed

lemma loop_none_started:
  assumes "runAgentLoop env s = (r, s')" "noFaults env" "tracked env s"
  shows "startedIds env (ls_db s') = {}"
proof -
  have pre: "tracked env t \<Longrightarrow> keeps (keepsTracked env) m \<Longrightarrow> m t = (q, u) \<Longrightarrow> tracked env u" for t q u and m :: "unit loopM"
    using assms(2) trS.keepsD [of env m t q u] by (simp add: keepsTracked_def)
  have tc: "keeps (keepsTracked env) (tryCatch (tryBody env m) (onError env))" for m by auto
  have body: "startedIds env (ls_db u) = {}"
    if "tryFinally (tryCatch (tryBody env m) (onError env)) (finalizer env) t = (q, u)" "tracked env t" for m t q u
  proof -
    obtain q1 t1 where 1: "tryCatch (tryBody env m) (onError env) t = (q1, t1)" by fastforce
    obtain q2 t2 where 2: "finalizer env t1 = (q2, t2)" by fastforce
    have "fewer env {} q2 t2" using wpD [OF finalizer_tracked [OF assms(2) pre [OF that(2) tc 1]] 2] .
    then show ?thesis using that(1) 1 2 by (auto simp: tryFinally_def fewer_def)
  qed
  show ?thesis
  proof (cases "le_prepared env")
    case None
    then show ?thesis using assms(1,3)
      by (intro body [of "generateMessageId (le_nano env) (ls_ids s)" "s\<lparr>ls_ids := Suc (ls_ids s)\<rparr>" r s'])
        (simp_all add: runAgentLoop_def mbind_def newId_def tracked_def)
  next
    case (Some m)
    then show ?thesis using assms(1,3)
      by (intro body [of m s r s']) (simp_all add: runAgentLoop_def mbind_def ret_def)
  qed
qed

section \<open>The run row agrees with the terminal event\<close>

definition runStatus :: "db \<Rightarrow> string \<Rightarrow> RunStatus \<Rightarrow> bool" where
  "runStatus d k st = (k \<in> ru_runId ` set (db_runs d) \<and> (\<forall>r \<in> set (db_runs d). ru_runId r = k \<longrightarrow> ru_status r = st))"

definition statusOf :: "ChatEvent \<Rightarrow> RunStatus" where
  "statusOf e = (case e of MessageCompleted _ _ _ \<Rightarrow> Completed
     | RunFailed _ _ code _ _ \<Rightarrow> if code = ''TIMED_OUT'' then TimedOut else if code = ''CANCELLED'' then Cancelled else Failed
     | _ \<Rightarrow> Running)"

lemma errCode_not [simp]: "errCode e \<noteq> ''TIMED_OUT''" "errCode e \<noteq> ''CANCELLED''"
  by (cases e; simp add: codeName_def split: SwiftAgentErrorCode.splits)+

lemma runStatus_terminal:
  assumes "runStatus d k Running" "runs_terminal now w k d = Inr (x, d')"
  shows "runStatus d' k (runSetStatus w)"
proof -
  have r: "db_runs d' = map (\<lambda>r. if runLive k r then runSetRow now w r else r) (db_runs d)"
    using assms(2) by (auto simp: runs_terminal_def updateWhere_def)
  have "ru_runId (if runLive k r then runSetRow now w r else r) = ru_runId r" for r
    by (cases w) simp_all
  then have k: "ru_runId ` set (db_runs d') = ru_runId ` set (db_runs d)" unfolding r by (simp only: list.set_map image_image)
  have "ru_status r = runSetStatus w" if "r \<in> set (db_runs d')" "ru_runId r = k" for r
  proof -
    from that(1) obtain b where b: "b \<in> set (db_runs d)" "r = (if runLive k b then runSetRow now w b else b)"
      unfolding r by auto
    then have "ru_runId b = k" using that(2) by (simp split: if_splits)
    then have "runLive k b" using assms(1) b(1) by (simp add: runStatus_def runLive_def)
    then show ?thesis using b(2) by simp
  qed
  then show ?thesis using assms(1) k by (simp add: runStatus_def)
qed

lemma runStatus_cong: "db_runs d' = db_runs d \<Longrightarrow> runStatus d' k st = runStatus d k st"
  by (simp add: runStatus_def)

text \<open>Up to its last step a prepared run does not write run rows.\<close>

definition sameRuns :: "loop_env \<Rightarrow> loop_state \<Rightarrow> loop_state \<Rightarrow> bool" where
  "sameRuns env s t = (le_prepared env \<noteq> None \<longrightarrow> db_runs (ls_db t) = db_runs (ls_db s))"

lemma sameRuns_db: "ls_db t = ls_db s \<Longrightarrow> sameRuns env s t"
  by (simp add: sameRuns_def)

lemma sameRuns_query: "messages_create now m si ri ro co d = Inr (x1, d') \<Longrightarrow> db_runs d' = db_runs d"
  "toolCalls_create now k rk tn ar d = Inr (x4, d') \<Longrightarrow> db_runs d' = db_runs d"
  "toolCalls_write now v k d = Inr (x5, d') \<Longrightarrow> db_runs d' = db_runs d"
  by (auto simp: messages_create_def toolCalls_create_def toolCalls_write_def Let_def split: if_splits option.splits)

interpretation runsI: loop_relation "sameRuns env" env "\<lambda>_. True" for env :: loop_env
  by unfold_locales (auto simp: sameRuns_def dest: sameRuns_query)

interpretation runsI: loop_rounds "sameRuns env" env "\<lambda>_. True" for env :: loop_env
  by unfold_locales (auto intro: sameRuns_db)

definition agrees :: "loop_env \<Rightarrow> loop_state \<Rightarrow> bool" where
  "agrees env t = (\<exists>es e. ls_events t = es @ [e] \<and> runStatus (ls_db t) (le_runId env) (statusOf e))"

lemma emit_agrees: "runStatus (ls_db s) (le_runId env) (statusOf e) \<Longrightarrow> agrees env (advance env (s\<lparr>ls_events := ls_events s @ [e]\<rparr>))"
  by (auto simp: agrees_def)

lemma wp_terminal:
  assumes "noFaults env" "runStatus (ls_db s) (le_runId env) Running"
    and "\<And>x t. runStatus (ls_db t) (le_runId env) (runSetStatus w) \<Longrightarrow> Q (Val x) t"
  shows "wp (dbq env (\<lambda>now. runs_terminal now w (le_runId env))) Q s"
proof -
  obtain x d where x: "runs_terminal (ls_clk (advance env s)) w (le_runId env) (ls_db s) = Inr (x, d)"
    by (simp add: runs_terminal_def)
  show ?thesis using runStatus_terminal [OF assms(2) x] assms(3) by (simp add: wp_dbq_nofault [OF assms(1)] x)
qed

definition finished :: "loop_env \<Rightarrow> unit outcome \<Rightarrow> loop_state \<Rightarrow> bool" where
  "finished env r t = (case r of Throw _ \<Rightarrow> runStatus (ls_db t) (le_runId env) Running | Torn \<Rightarrow> True | Val _ \<Rightarrow> agrees env t)"

lemma finished_simps [simp]: "finished env (Val u) t = agrees env t" "finished env (Throw e) t = runStatus (ls_db t) (le_runId env) Running"
  "finished env Torn t"
  by (simp_all add: finished_def)

lemma running_keeps: "keeps (sameRuns env) m \<Longrightarrow> le_prepared env \<noteq> None \<Longrightarrow> runStatus (ls_db s) (le_runId env) Running \<Longrightarrow>
    (\<And>r t. runStatus (ls_db t) (le_runId env) Running \<Longrightarrow> Q r t) \<Longrightarrow> wp m Q s"
  by (erule wp_of_keeps) (auto simp: sameRuns_def dest: runStatus_cong [of _ _ "le_runId env" Running])

lemma finishRun_agrees:
  assumes "noFaults env" "le_prepared env \<noteq> None" "runStatus (ls_db s) (le_runId env) Running"
  shows "wp (finishRun env m) (finished env) s"
proof -
  note persist = running_keeps [OF runsI.k_persistText assms(2)]
  show ?thesis
    unfolding finishRun_def finishMaxIterations_def finishCompleted_def
    by (auto simp: wp_mbind wp_mthen wp_gets wp_modify wp_emit runs_fail_def runs_complete_def assms(3)
        split: outcome.splits intro!: persist wp_terminal [OF assms(1)] emit_agrees simp: statusOf_def)
qed

lemma onError_agrees:
  assumes "noFaults env" "runStatus (ls_db s) (le_runId env) Running"
  shows "wp (onError env err) (\<lambda>r t. agrees env t) s"
  unfolding onError_def Let_def
  by (auto simp: wp_mbind wp_mthen wp_gets wp_modify wp_emit wp_safe runs_fail_def runs_cancel_def runs_timeout_def assms(2)
      split: outcome.splits prod.splits terminalCause.splits intro!: wp_terminal [OF assms(1)] emit_agrees simp: statusOf_def)

lemma tryBody_agrees:
  assumes "noFaults env" "le_prepared env \<noteq> None" "runStatus (ls_db s) (le_runId env) Running"
  shows "wp (tryBody env m) (finished env) s"
  unfolding tryBody_def
  by (auto simp: wp_mbind wp_mthen wp_gets wp_newId assms(3) split: outcome.splits
      intro!: running_keeps [OF runsI.k_start assms(2)] running_keeps [OF runsI.stream.k_modelRounds assms(2)]
        finishRun_agrees [OF assms(1,2)])

lemma loop_agrees:
  assumes "runAgentLoop env s = (r, s')" "noFaults env" "le_prepared env \<noteq> None"
    "runStatus (ls_db s) (le_runId env) Running" "r = Val ()"
  shows "agrees env s'"
proof -
  obtain m where m: "le_prepared env = Some m" using assms(3) by blast
  have fin: "wp (finalizer env) (\<lambda>q u. agrees env u) t" if "agrees env t" for t
  proof (rule wp_mono [OF wp_conj [OF finalizer_quiet wp_of_keeps [OF runsI.q_finalizer, of env t "\<lambda>_. sameRuns env t"]]])
    fix q and u :: loop_state
    assume "quietEnd t q u \<and> sameRuns env t u"
    then show "agrees env u" using that assms(3)
      by (auto simp: agrees_def sameRuns_def dest!: quietEndD cong: runStatus_cong)
  qed
  obtain q1 t1 where 1: "tryBody env m s = (q1, t1)" by fastforce
  have f: "finished env q1 t1" using wpD [OF tryBody_agrees [OF assms(2-4)] 1] .
  have main: "agrees env t2" if "tryCatch (tryBody env m) (onError env) s = (Val (), t2)" for t2
    using that f 1 wpD [OF onError_agrees [OF assms(2)]] by (cases q1) (auto simp: tryCatch_def)
  obtain q2 t2 where 2: "tryCatch (tryBody env m) (onError env) s = (q2, t2)" by fastforce
  obtain q3 t3 where 3: "finalizer env t2 = (q3, t3)" by fastforce
  have q3: "q3 = Val ()" using wpD [OF finalizer_quiet 3] by (auto dest: quietEndD)
  then have e: "q2 = Val ()" "s' = t3" using assms(1,5) m 2 3 by (auto simp: runAgentLoop_def mbind_def ret_def tryFinally_def)
  have "agrees env t2" using main 2 e(1) by simp
  from wpD [OF fin [OF this] 3] show ?thesis using e(2) by simp
qed

end
