(* ===== verification/Loop_Cause.thy ===== *)
theory Loop_Cause
  imports Loop_Status
begin

text \<open>Which cause a failed run reports: cancellation and the two kinds of deadline are told apart by the
  reason of the abort signal, and a run whose signal has already fired reaches no provider and no tool.\<close>

section \<open>The clock only moves forward\<close>

definition laterSame :: "loop_state \<Rightarrow> loop_state \<Rightarrow> bool" where
  "laterSame s t = (ls_clk s \<le> ls_clk t \<and> ls_deadlineHit t = ls_deadlineHit s \<and> ls_events t = ls_events s)"

lemma laterSame_refl: "laterSame s s" and laterSame_trans: "laterSame s t \<Longrightarrow> laterSame t u \<Longrightarrow> laterSame s u"
  by (simp_all add: laterSame_def)

interpretation laterI: state_relation laterSame
  by unfold_locales (rule laterSame_refl, erule (1) laterSame_trans)

lemma laterSame_advance: "laterSame s (advance env s)"
  by (simp add: laterSame_def advance_def)

lemma later_dbq: "keeps laterSame (dbq env q)"
  by (auto simp: keeps_def dbq_def Let_def laterSame_def advance_def split: sum.splits)

lemma later_finalizer: "keeps laterSame (finalizer env)"
  unfolding finalizer_def spanOp_def
  by (auto intro!: later_dbq laterI.keeps_modify laterSame_advance split: option.splits prod.splits simp: laterSame_def [of _ "_\<lparr>ls_trace := _\<rparr>"])

section \<open>What the terminal event says\<close>

definition causeOk :: "loop_env \<Rightarrow> ChatEvent \<Rightarrow> loop_state \<Rightarrow> bool" where
  "causeOk env e t = (case e of RunFailed _ _ code _ _ \<Rightarrow>
       if code = ''CANCELLED'' then ls_deadlineHit t = None \<and>
         (\<exists>er. signalReason (le_signal env) (ls_clk t) = Some er \<and> \<not> isTimeoutErr er)
       else if code = ''TIMED_OUT'' then \<not> (ls_deadlineHit t = None \<and> timeoutReason (le_signal env) (ls_clk t) = None)
       else True
     | _ \<Rightarrow> True)"

lemma causeOk_later: "causeOk env e s \<Longrightarrow> ls_clk s \<le> ls_clk t \<Longrightarrow> ls_deadlineHit t = ls_deadlineHit s \<Longrightarrow> causeOk env e t"
  by (auto simp: causeOk_def dest: signalReason_stable timeoutReason_stable split: ChatEvent.splits if_splits)

lemma causeOk_code: "c \<noteq> ''CANCELLED'' \<Longrightarrow> c \<noteq> ''TIMED_OUT'' \<Longrightarrow> causeOk env (RunFailed a b c d x) t"
  "causeOk env (MessageCompleted m a b) t"
  by (simp_all add: causeOk_def)

definition lastCause :: "loop_env \<Rightarrow> loop_state \<Rightarrow> bool" where
  "lastCause env t = (\<exists>es e. ls_events t = es @ [e] \<and> causeOk env e t)"

lemma lastCause_later: "lastCause env s \<Longrightarrow> laterSame s t \<Longrightarrow> lastCause env t"
  by (auto simp: lastCause_def laterSame_def dest: causeOk_later)

lemma emit_cause: "causeOk env e t \<Longrightarrow> wp (emit env e) (\<lambda>r u. lastCause env u) t"
  unfolding wp_emit lastCause_def
  by (intro exI [of _ "ls_events t"] exI [of _ e] conjI) (simp, erule causeOk_later, simp_all add: advance_def)

lemma record_cause: "causeOk env e s \<Longrightarrow> wp (mthen (safe (dbq env q)) (emit env e)) (\<lambda>r u. lastCause env u) s"
proof -
  assume c: "causeOk env e s"
  have l: "causeOk env e u" if "ls_clk s \<le> ls_clk u" "ls_deadlineHit u = ls_deadlineHit s" for u
    using causeOk_later [OF c that] .
  have q: "wp (safe (dbq env q)) (\<lambda>r u. r \<noteq> Torn \<and> (\<forall>er. r \<noteq> Throw er) \<and> causeOk env e u) s"
    unfolding wp_safe
    by (rule wpI) (auto simp: dbq_def Let_def advance_def split: outcome.splits sum.splits if_splits intro!: l)
  show ?thesis
    unfolding wp_mthen by (rule wp_mono [OF q]) (auto split: outcome.splits intro: emit_cause)
qed

lemma onError_cause: "wp (onError env err) (\<lambda>r u. lastCause env u) s"
proof -
  have code: "causeOk env (RunFailed a b (errCode err) d x) t" for a b d x t by (rule causeOk_code) simp_all
  show ?thesis
    unfolding onError_def Let_def wp_mthen [of "modify _"] wp_modify wp_mbind wp_gets outcome.case
    by (auto simp: classifyTerminal_def runs_fail_def runs_timeout_def runs_cancel_def
        split: terminalCause.splits option.splits if_splits intro!: record_cause code)
      (auto simp: causeOk_def sig_simps timeoutReason_def split: option.splits if_splits)
qed

definition causeEnd :: "loop_env \<Rightarrow> unit outcome \<Rightarrow> loop_state \<Rightarrow> bool" where
  "causeEnd env r t = (r = Val () \<longrightarrow> lastCause env t)"

lemma causeEnd_bind: "(\<And>x t. wp (f x) (causeEnd env) t) \<Longrightarrow> wp (mbind p f) (causeEnd env) s"
  unfolding wp_mbind by (rule wpI) (auto simp: causeEnd_def [of _ "Throw _"] causeEnd_def [of _ Torn] split: outcome.splits)

lemma causeEnd_then: "(\<And>t. wp k (causeEnd env) t) \<Longrightarrow> wp (mthen p k) (causeEnd env) s"
  unfolding mthen_def by (rule causeEnd_bind)

lemma causeEnd_emit: "(\<And>u. causeOk env e u) \<Longrightarrow> wp (emit env e) (causeEnd env) t"
  by (rule wp_mono [OF emit_cause]) (simp_all add: causeEnd_def)

lemma finishRun_cause: "wp (finishRun env m) (causeEnd env) s"
  unfolding finishRun_def finishMaxIterations_def finishCompleted_def
  by (intro causeEnd_bind) (auto simp: wp_if intro!: causeEnd_bind causeEnd_then causeEnd_emit causeOk_code)

lemma tryBody_cause: "wp (tryBody env m) (causeEnd env) s"
  unfolding tryBody_def by (intro causeEnd_bind causeEnd_then finishRun_cause)

lemma loop_cause: "causeEnd env (fst (runAgentLoop env s)) (snd (runAgentLoop env s))"
proof -
  have fin: "wp (finalizer env) (\<lambda>r t. laterSame u t \<and> r = Val ()) u" for u
    using wp_conj [OF wp_of_keeps [OF later_finalizer, where s = u and Q = "\<lambda>_ t. laterSame u t"] finalizer_quiet]
    by (rule wp_mono) (auto dest: quietEndD)
  have catch: "wp (tryCatch (tryBody env m) (onError env)) (causeEnd env) t" for m t
    unfolding wp_tryCatch
    by (rule wp_mono [OF tryBody_cause]) (auto simp: causeEnd_def intro: wp_mono [OF onError_cause] split: outcome.splits)
  have "wp (tryFinally (tryCatch (tryBody env m) (onError env)) (finalizer env)) (causeEnd env) t" for m t
    unfolding wp_tryFinally
    by (rule wp_mono [OF catch], rule wp_mono [OF fin]) (auto simp: causeEnd_def intro: lastCause_later)
  then have "wp (runAgentLoop env) (causeEnd env) s"
    unfolding runAgentLoop_def by (intro causeEnd_bind)
  then show ?thesis by (simp add: wp_def split: prod.splits)
qed

section \<open>A run whose signal has fired\<close>

text \<open>The model round starts with \<open>throwIfAborted\<close>: when the signal has already aborted, nothing is asked
  of a provider or of an executor.\<close>

definition untouched :: "loop_state \<Rightarrow> loop_state \<Rightarrow> bool" where
  "untouched s t = (ls_clk s \<le> ls_clk t \<and> ls_requests t = ls_requests s \<and> ls_execs t = ls_execs s)"

interpretation untI: state_relation untouched
  by unfold_locales (simp_all add: untouched_def)

lemma untouched_dbq: "keeps untouched (dbq env q)" and untouched_emit: "keeps untouched (emit env e)"
  by (auto simp: keeps_def dbq_def emit_def Let_def untouched_def advance_def split: sum.splits)

lemma untouched_steps: "keeps untouched (startRun env m)" "keeps untouched (finishRun env m)"
  "keeps untouched (onError env er)" "keeps untouched (finalizer env)" "keeps untouched (newId env g)"
  unfolding startRun_def finishRun_def finishMaxIterations_def finishCompleted_def onError_def finalizer_def
    persistText_def createMessage_def spanOp_def Let_def
  by (auto intro!: untI.keeps_modify untouched_dbq untouched_emit simp: untouched_def advance_def split: option.splits prod.splits terminalCause.splits) (auto simp: keeps_def newId_def untouched_def)

lemma modelRounds_untouched:
  assumes "aborted (le_signal env) (ls_clk s)"
  shows "wp (modelRounds env m k) (\<lambda>r t. untouched s t) s"
proof (cases k)
  case (Suc j)
  from assms obtain er where "signalReason (le_signal env) (ls_clk s) = Some er" by (auto simp: sig_simps)
  then show ?thesis unfolding Suc modelRounds.simps modelRound_def throwIfAborted_def
    by (simp add: wp_mbind wp_mthen wp_gets wp_throw untouched_def)
qed (simp add: wp_ret untouched_def)

lemma tryBody_untouched:
  assumes "aborted (le_signal env) (ls_clk s)"
  shows "wp (tryBody env m) (\<lambda>r t. untouched s t) s"
proof -
  have later: "aborted (le_signal env) (ls_clk t)" if "untouched s t" for t
    using assms that by (auto simp: untouched_def intro: aborted_mono)
  have rounds: "wp (modelRounds env mid k) (\<lambda>r u. untouched s u) t" if "untouched s t" for mid k t
    by (rule wp_mono [OF modelRounds_untouched [OF later [OF that]]]) (erule untI.trans [OF that])
  have fin: "wp (finishRun env mid) (\<lambda>r u. untouched s u) t" if "untouched s t" for mid t
    by (rule wp_of_keeps [OF untouched_steps(2)]) (erule untI.trans [OF that])
  have id: "wp (newId env g) (\<lambda>r u. r \<noteq> Torn \<and> untouched s u) t" if "untouched s t" for g t
    using that by (simp add: wp_newId untouched_def)
  show ?thesis
    unfolding tryBody_def
    by (subst wp_mthen, rule wp_of_keeps [OF untouched_steps(1)])
      (auto split: outcome.splits simp: wp_mbind wp_mthen wp_gets wp_newId untouched_def [of s]
        intro!: wp_mono [OF rounds] wp_mono [OF fin])
qed

lemma loop_untouched:
  assumes "aborted (le_signal env) (ls_clk s)" "runAgentLoop env s = (r, s')"
  shows "ls_requests s' = ls_requests s \<and> ls_execs s' = ls_execs s"
proof -
  have nx: "wp p (\<lambda>r u. untouched s u) t" if "untouched s t" "keeps untouched p" for p :: "unit loopM" and t
    by (rule wp_of_keeps [OF that(2)]) (erule untI.trans [OF that(1)])
  have body: "wp (tryFinally (tryCatch (tryBody env m) (onError env)) (finalizer env)) (\<lambda>r u. untouched s u) t"
    if "untouched s t" "aborted (le_signal env) (ls_clk t)" for m t
    unfolding wp_tryFinally wp_tryCatch
    by (rule wp_mono [OF tryBody_untouched [OF that(2)]])
      (auto dest: untI.trans [OF that(1)] split: outcome.splits intro!: nx wp_mono [OF nx] untouched_steps)
  have "wp (runAgentLoop env) (\<lambda>r u. untouched s u) s"
    unfolding runAgentLoop_def wp_mbind using assms(1)
    by (auto simp: wp_ret wp_newId untouched_def [of s s] untouched_def [of s "s\<lparr>ls_ids := i\<rparr>" for i] split: option.splits intro!: body)
  from wpD [OF this assms(2)] show ?thesis by (auto simp: untouched_def)
qed

end
