(* ===== verification/Loop_Example.thy ===== *)
theory Loop_Example
  imports Agent_Loop
begin

text \<open>A concrete run for the witnesses: an agent with one tool, a provider that calls the tool in every
  round or one that answers in text, and the ids of a counter.\<close>

definition exAgent :: AgentRecord where
  "exAgent = \<lparr>ag_agentId = ''ag'', ag_workspaceId = ''ws'', ag_name = ''n'',
     ag_modelConfig = \<lparr>model = ''echo/m'', temperature = None, maxTokens = None\<rparr>, ag_systemPrompt = [],
     ag_memoryConfig = \<lparr>strategy = LastN, maxMessages = None\<rparr>,
     ag_tools = [\<lparr>td_name = ''t'', td_description = [], td_inputSchema = JObj []\<rparr>],
     ag_toolRunnerUrl = None, ag_createdAt = 0, ag_updatedAt = 0\<rparr>"

definition exDb :: db where
  "exDb = \<lparr>db_workspaces = [''ws''], db_agents = [exAgent],
     db_sessions = [\<lparr>se_sessionId = ''se'', se_agentId = ''ag'', se_userId = None, se_status = Active, se_metadata = [],
        se_createdAt = 0, se_updatedAt = 0\<rparr>],
     db_runs = [\<lparr>ru_runId = ''ru'', ru_sessionId = ''se'', ru_status = Running, ru_model = ''echo/m'', ru_tokenUsage = None,
        ru_createdAt = 0, ru_updatedAt = 0\<rparr>],
     db_messages = [\<lparr>me_messageId = ''m'', me_sessionId = ''se'', me_runId = Some ''ru'', me_role = User, me_content = ''q'',
        me_createdAt = 0\<rparr>], db_toolCalls = []\<rparr>"

definition exRegistry :: "string ProviderRegistry" where
  "exRegistry = \<lparr>pr_factories = [], pr_configs = [], pr_instances = [(''echo'', ''echo'')]\<rparr>"

definition exOptions :: AgentEngineOptions where
  "exOptions = \<lparr>op_maxToolIterations = Some 2, op_toolTimeoutMs = None, op_modelTimeoutMs = None, op_totalRunMs = None,
     op_memoryStrategy = None, op_lastN = None\<rparr>"

definition exCalls :: "string \<Rightarrow> nat \<Rightarrow> ModelRequest \<Rightarrow> abort_signal \<Rightarrow> pull list" where
  "exCalls p n req sig = [\<lambda>_. Chunk (ToolCallChunk ''t'' ''c'' (Some (JObj []))), \<lambda>_. StreamDone]"

definition exAnswers :: "string \<Rightarrow> nat \<Rightarrow> ModelRequest \<Rightarrow> abort_signal \<Rightarrow> pull list" where
  "exAnswers p n req sig = [\<lambda>_. Chunk (TokenChunk ''hi''), \<lambda>_. StreamDone]"

type_synonym ex_gen = "string \<Rightarrow> nat \<Rightarrow> ModelRequest \<Rightarrow> abort_signal \<Rightarrow> pull list"

definition exEnv :: "ex_gen \<Rightarrow> abort_signal \<Rightarrow> loop_env" where
  "exEnv gen sig = \<lparr>le_sessionId = ''se'', le_runId = ''ru'', le_agent = exAgent, le_signal = sig, le_userContent = ''q'',
     le_options = exOptions, le_prepared = Some ''m'', le_nano = (\<lambda>n. replicate n (CHR ''x'')), le_dur = (\<lambda>_. 1),
     le_fault = (\<lambda>_. NoFault), le_stop = (\<lambda>_. False), le_getenv = (\<lambda>_. None), le_gen = gen,
     le_exec = (\<lambda>_ _ _ _ _ _. Inr (ResOk (Some (JNum 7)))), le_ajv = (\<lambda>_. Inr (\<lambda>_. None)), le_dbm = (\<lambda>_. ''db''),
     le_finish = None\<rparr>"

end
