(* ===== verification/Ssrf.thy ===== *)
theory Ssrf
  imports Shared_Types "HOL-Library.Word"
begin

text \<open>\<open>runtime/src/ssrf.ts\<close>: the guard on outbound runner URLs.  IPv4 addresses are 32-bit words,
  \<open>isIP\<close> of \<open>node:net\<close> is written out (dotted decimal without leading zeros; colon-separated groups of
  one to four hexadecimal digits, at most one \<open>::\<close>, an optional dotted tail and zone).  The WHATWG URL
  parser and the DNS resolver are parameters.\<close>

unbundle bit_operations_syntax

record OutboundUrlPolicy =
  requireHttps :: bool
  allowLoopback :: bool

section \<open>Textual addresses\<close>

definition isV4Seg :: "string \<Rightarrow> bool" where
  "isV4Seg s = (s \<noteq> [] \<and> list_all isDigit s \<and> length s \<le> 3 \<and> digitsVal s \<le> 255 \<and> (hd s = CHR ''0'' \<longrightarrow> length s = 1))"

definition isIPv4 :: "string \<Rightarrow> bool" where
  "isIPv4 s = (let ps = splitOn (CHR ''.'') s in length ps = 4 \<and> list_all isV4Seg ps)"

definition isHex :: "char \<Rightarrow> bool" where
  "isHex c = (hexVal c \<noteq> None)"

definition isV6Group :: "string \<Rightarrow> bool" where
  "isV6Group g = (1 \<le> length g \<and> length g \<le> 4 \<and> list_all isHex g)"

text \<open>The number of 16-bit groups a colon-separated piece stands for; a dotted tail counts for two.\<close>

fun v6PieceLen :: "string list \<Rightarrow> nat option" where
  "v6PieceLen [] = Some 0"
| "v6PieceLen [g] = (if isV6Group g then Some 1 else if isIPv4 g then Some 2 else None)"
| "v6PieceLen (g # gs) = (if isV6Group g then map_option Suc (v6PieceLen gs) else None)"

fun v6HeadLen :: "string list \<Rightarrow> nat option" where
  "v6HeadLen gs = (if list_all isV6Group gs then Some (length gs) else None)"

fun splitDouble :: "string \<Rightarrow> string \<times> string option" where
  "splitDouble [] = ([], None)"
| "splitDouble [c] = ([c], None)"
| "splitDouble (c # d # r) = (if c = CHR '':'' \<and> d = CHR '':'' then ([], Some r)
     else (case splitDouble (d # r) of (a, b) \<Rightarrow> (c # a, b)))"

definition groupsOf :: "string \<Rightarrow> string list" where
  "groupsOf s = (if s = [] then [] else splitOn (CHR '':'') s)"

definition isZoneChar :: "char \<Rightarrow> bool" where
  "isZoneChar c = (let n = (of_char c :: nat) in (48 \<le> n \<and> n \<le> 58) \<or> (65 \<le> n \<and> n \<le> 90) \<or> (97 \<le> n \<and> n \<le> 122) \<or> n = 45 \<or> n = 46)"

definition zoneOk :: "string \<Rightarrow> bool" where
  "zoneOk s = (case dropWhile (\<lambda>c. c \<noteq> CHR ''%'') s of [] \<Rightarrow> True | _ # z \<Rightarrow> z \<noteq> [] \<and> list_all isZoneChar z)"

definition isIPv6 :: "string \<Rightarrow> bool" where
  "isIPv6 s = (zoneOk s \<and> (case splitDouble (takeWhile (\<lambda>c. c \<noteq> CHR ''%'') s) of
      (a, None) \<Rightarrow> v6PieceLen (groupsOf a) = Some 8
    | (a, Some b) \<Rightarrow> (case (v6HeadLen (groupsOf a), v6PieceLen (groupsOf b)) of
          (Some m, Some n) \<Rightarrow> m + n \<le> 7 | _ \<Rightarrow> False)))"

definition isIP :: "string \<Rightarrow> nat" where
  "isIP s = (if isIPv4 s then 4 else if isIPv6 s then 6 else 0)"

section \<open>Classification\<close>

definition ipv4ToInt :: "string \<Rightarrow> 32 word option" where
  "ipv4ToInt ip = (let parts = splitOn (CHR ''.'') ip in
     if length parts \<noteq> 4 then None
     else if \<not> list_all (\<lambda>p. 1 \<le> length p \<and> length p \<le> 3 \<and> list_all isDigit p \<and> digitsVal p \<le> 255) parts then None
     else Some (word_of_nat (fold (\<lambda>p v. v * 256 + digitsVal p) parts 0)))"

definition isLoopbackV4 :: "32 word \<Rightarrow> bool" where
  "isLoopbackV4 n = (n AND 0xff000000 = 0x7f000000)"

definition inCidr :: "32 word \<Rightarrow> 32 word \<Rightarrow> 32 word \<Rightarrow> bool" where
  "inCidr n msk network = (n AND msk = network)"

definition isDisallowedV4 :: "32 word \<Rightarrow> bool" where
  "isDisallowedV4 n = (isLoopbackV4 n \<or> inCidr n 0xff000000 0x00000000 \<or> inCidr n 0xff000000 0x0a000000 \<or>
     inCidr n 0xfff00000 0xac100000 \<or> inCidr n 0xffff0000 0xc0a80000 \<or> inCidr n 0xffc00000 0x64400000 \<or>
     inCidr n 0xffff0000 0xa9fe0000)"

definition normalizeV6 :: "string \<Rightarrow> string" where
  "normalizeV6 ip = toLowerCase (case indexOf (CHR ''%'') ip of None \<Rightarrow> ip | Some i \<Rightarrow> take i ip)"

text \<open>The pattern \<open>^::ffff:(d{1,3}(.d{1,3}){3})$\<close>: the dotted tail it captures.\<close>

definition mappedV4 :: "string \<Rightarrow> string option" where
  "mappedV4 v6 = (if startsWith ''::ffff:'' v6 then
      (let t = drop 7 v6; ps = splitOn (CHR ''.'') t in
        if length ps = 4 \<and> list_all (\<lambda>p. 1 \<le> length p \<and> length p \<le> 3 \<and> list_all isDigit p) ps then Some t else None)
     else None)"

definition isDisallowedAddress :: "string \<Rightarrow> bool" where
  "isDisallowedAddress ip = (let kind = isIP ip in
     if kind = 4 then (case ipv4ToInt ip of None \<Rightarrow> True | Some n \<Rightarrow> isDisallowedV4 n)
     else if kind = 6 then (let v6 = normalizeV6 ip in
       if v6 = ''::1'' \<or> v6 = ''::'' then True
       else if startsWith ''fe8'' v6 \<or> startsWith ''fe9'' v6 \<or> startsWith ''fea'' v6 \<or> startsWith ''feb'' v6 then True
       else if startsWith ''fc'' v6 \<or> startsWith ''fd'' v6 then True
       else (case mappedV4 v6 of
           Some t \<Rightarrow> (case ipv4ToInt t of None \<Rightarrow> True | Some n \<Rightarrow> isDisallowedV4 n)
         | None \<Rightarrow> False))
     else True)"

definition isLoopbackAddress :: "string \<Rightarrow> bool" where
  "isLoopbackAddress ip = (let kind = isIP ip in
     if kind = 4 then (case ipv4ToInt ip of None \<Rightarrow> False | Some n \<Rightarrow> isLoopbackV4 n)
     else if kind = 6 then normalizeV6 ip = ''::1''
     else False)"

section \<open>Validation and pinning\<close>

record url =
  url_href :: string
  url_protocol :: string
  url_hostname :: string

definition unwrapHost :: "string \<Rightarrow> string" where
  "unwrapHost h = (let a = (if startsWith ''['' h then tl h else h)
     in if a \<noteq> [] \<and> last a = CHR '']'' then butlast a else a)"

definition blockedError :: "string \<Rightarrow> js_error" where
  "blockedError m = SwiftErr VALIDATION (''Disallowed runner target: '' @ m)"

fun checkAddresses :: "OutboundUrlPolicy \<Rightarrow> string \<Rightarrow> string list \<Rightarrow> js_error option" where
  "checkAddresses pol host [] = None"
| "checkAddresses pol host (a # as) =
     (if isDisallowedAddress a \<and> \<not> (allowLoopback pol \<and> isLoopbackAddress a)
      then Some (blockedError (host @ '' resolves to blocked address '' @ a))
      else checkAddresses pol host as)"

text \<open>\<open>parseUrl\<close> is \<open>new URL\<close> (\<^const>\<open>None\<close>: it throws), \<open>dns\<close> is \<open>dnsLookup(host, { all: true })\<close>
  (\<^const>\<open>None\<close>: it rejects).\<close>

definition resolveAllowedOutboundTarget ::
  "(string \<Rightarrow> url option) \<Rightarrow> (string \<Rightarrow> string list option) \<Rightarrow> string \<Rightarrow> OutboundUrlPolicy \<Rightarrow> js_error + url \<times> string" where
  "resolveAllowedOutboundTarget parseUrl dns rawUrl pol = (case parseUrl rawUrl of
      None \<Rightarrow> Inl (blockedError ''malformed URL'')
    | Some u \<Rightarrow>
        if requireHttps pol \<and> url_protocol u \<noteq> ''https:'' then
          Inl (blockedError (url_protocol u @ '' scheme requires https''))
        else if url_protocol u \<noteq> ''https:'' \<and> url_protocol u \<noteq> ''http:'' then
          Inl (blockedError (''unsupported scheme '' @ url_protocol u))
        else (let host = unwrapHost (url_hostname u);
                  addrs = (if isIP host \<noteq> 0 then Inr [host]
                    else (case dns host of
                        None \<Rightarrow> Inl (blockedError (''cannot resolve '' @ host))
                      | Some [] \<Rightarrow> Inl (blockedError (host @ '' resolved to no addresses''))
                      | Some as \<Rightarrow> Inr as))
              in case addrs of Inl e \<Rightarrow> Inl e
                 | Inr as \<Rightarrow> (case checkAddresses pol host as of Some e \<Rightarrow> Inl e
                     | None \<Rightarrow> Inr (u, hd as))))"

text \<open>The \<open>lookup\<close> of the pinned dispatcher: every name resolves to the pinned address.\<close>

definition pinnedLookup :: "string \<Rightarrow> string \<Rightarrow> (string \<times> nat) list" where
  "pinnedLookup pinnedIp hostname = [(pinnedIp, if isIP pinnedIp = 6 then 6 else 4)]"

section \<open>Lemmas\<close>

definition dotted :: "nat \<Rightarrow> nat \<Rightarrow> nat \<Rightarrow> nat \<Rightarrow> string" where
  "dotted a b c d = natToString a @ ''.'' @ natToString b @ ''.'' @ natToString c @ ''.'' @ natToString d"

lemma dot_not_digit: "CHR ''.'' \<notin> set (natToString n)"
  using natToString_digits [of "CHR ''.''" n] by (auto simp: isDigit_def)

lemma splitOn_dotted:
  "splitOn (CHR ''.'') (dotted a b c d) = [natToString a, natToString b, natToString c, natToString d]"
  by (simp add: dotted_def splitOn_append_sep splitOn_no_sep dot_not_digit)

lemma natToString_length: "n < 10 ^ Suc k \<Longrightarrow> length (natToString n) \<le> Suc k"
proof (induction k arbitrary: n)
  case (Suc k)
  then have "n div 10 < 10 ^ Suc k" by (simp add: less_mult_imp_div_less mult.commute)
  with Suc.IH have "length (natToString (n div 10)) \<le> Suc k" .
  then show ?case by (subst natToString.simps) auto
qed (subst natToString.simps, simp)

lemma natToString_byte:
  assumes "n \<le> 255"
  shows "isV4Seg (natToString n)"
proof -
  have "hd (natToString n) = CHR ''0'' \<longrightarrow> length (natToString n) = 1"
    using natToString_head [of n] by auto
  moreover have "length (natToString n) \<le> 3" using natToString_length [of n 2] assms by simp
  moreover have "list_all isDigit (natToString n)" using natToString_digits by (auto simp: list_all_iff)
  ultimately show ?thesis using assms by (simp add: isV4Seg_def)
qed

lemma isIP_dotted: "a \<le> 255 \<Longrightarrow> b \<le> 255 \<Longrightarrow> c \<le> 255 \<Longrightarrow> d \<le> 255 \<Longrightarrow> isIP (dotted a b c d) = 4"
  by (simp add: isIP_def isIPv4_def splitOn_dotted natToString_byte)

definition v4val :: "nat \<Rightarrow> nat \<Rightarrow> nat \<Rightarrow> nat \<Rightarrow> nat" where
  "v4val a b c d = ((a * 256 + b) * 256 + c) * 256 + d"

lemma ipv4ToInt_dotted:
  assumes "a \<le> 255" "b \<le> 255" "c \<le> 255" "d \<le> 255"
  shows "ipv4ToInt (dotted a b c d) = Some (word_of_nat (v4val a b c d))"
  using natToString_byte [OF assms(1)] natToString_byte [OF assms(2)] natToString_byte [OF assms(3)]
    natToString_byte [OF assms(4)]
  by (auto simp: ipv4ToInt_def splitOn_dotted Let_def isV4Seg_def v4val_def Suc_le_eq)

lemma and_not_mask_word: "(w :: 32 word) AND NOT (mask k) = push_bit k (drop_bit k w)"
  by (rule bit_word_eqI) (auto simp: bit_simps)

lemma unat_w32: "x < 2 ^ 32 \<Longrightarrow> unat (word_of_nat x :: 32 word) = x"
  by (simp add: unat_of_nat)

lemma and_high_mask:
  fixes w :: "32 word"
  assumes "k \<le> 32" "m < 2 ^ (32 - k)"
  shows "w AND NOT (mask k) = word_of_nat (m * 2 ^ k) \<longleftrightarrow> unat w div 2 ^ k = m"
proof -
  have lt: "unat w div 2 ^ k * 2 ^ k < 2 ^ 32"
    using unsigned_less [of w, where 'a = nat] by (simp add: le_less_trans [OF div_times_less_eq_dividend])
  have "m * 2 ^ k < 2 ^ (32 - k) * 2 ^ k" using assms(2) by simp
  then have lm: "m * 2 ^ k < 2 ^ 32" using assms(1) by (simp flip: power_add)
  have "unat (w AND NOT (mask k)) = take_bit 32 (push_bit k (unat (drop_bit k w)))"
    unfolding and_not_mask_word by (simp add: unsigned_push_bit_eq del: push_bit_of_nat)
  also have "unat (drop_bit k w) = unat w div 2 ^ k"
    using unsigned_less [of w, where 'a = nat]
    by (subst unsigned_drop_bit_eq) (simp add: drop_bit_eq_div take_bit_nat_eq_self)
  also have "take_bit 32 (push_bit k (unat w div 2 ^ k)) = unat w div 2 ^ k * 2 ^ k"
    using lt by (simp add: push_bit_eq_mult take_bit_nat_eq_self)
  finally have "unat (w AND NOT (mask k)) = unat w div 2 ^ k * 2 ^ k" .
  moreover have "unat (word_of_nat (m * 2 ^ k) :: 32 word) = m * 2 ^ k"
    using lm by (rule unat_w32)
  ultimately show ?thesis by (metis mult_right_cancel power_not_zero word_unat_eq_iff zero_neq_numeral)
qed

lemma masks:
  "(0xff000000 :: 32 word) = NOT (mask 24)" "(0xfff00000 :: 32 word) = NOT (mask 20)"
  "(0xffff0000 :: 32 word) = NOT (mask 16)" "(0xffc00000 :: 32 word) = NOT (mask 22)"
  by (simp_all add: mask_eq_exp_minus_1)

lemma v4val_lt: "a \<le> 255 \<Longrightarrow> b \<le> 255 \<Longrightarrow> c \<le> 255 \<Longrightarrow> d \<le> 255 \<Longrightarrow> v4val a b c d < 4294967296"
  by (simp add: v4val_def)

lemma v4val_div:
  assumes "b \<le> 255" "c \<le> 255" "d \<le> 255"
  shows "v4val a b c d div 2 ^ 24 = a" "v4val a b c d div 2 ^ 20 = a * 16 + b div 16"
    "v4val a b c d div 2 ^ 16 = a * 256 + b" "v4val a b c d div 2 ^ 22 = a * 4 + b div 64"
  using assms by (simp_all add: v4val_def)

text \<open>Membership of a dotted address in each blocked range, on its bytes.\<close>

lemma inCidr_bytes:
  assumes "k \<le> 32" "m < 2 ^ (32 - k)" "a \<le> 255" "b \<le> 255" "c \<le> 255" "d \<le> 255"
  shows "inCidr (word_of_nat (v4val a b c d)) (NOT (mask k)) (word_of_nat (m * 2 ^ k)) \<longleftrightarrow> v4val a b c d div 2 ^ k = m"
  using v4val_lt [OF assms(3-6)] unfolding inCidr_def
  by (subst and_high_mask [OF assms(1,2)]) (simp add: unat_of_nat)

lemma radix_eq:
  fixes q n :: nat
  assumes "q < n"
  shows "r < n \<Longrightarrow> a * n + q = p * n + r \<longleftrightarrow> a = p \<and> q = r"
proof -
  assume r: "r < n"
  have "(a * n + q) div n = a" "(a * n + q) mod n = q" "(p * n + r) div n = p" "(p * n + r) mod n = r"
    using assms r by simp_all
  then show ?thesis by metis
qed

lemma div_eq_1: "0 < n \<Longrightarrow> b div n = 1 \<longleftrightarrow> n \<le> b \<and> b < 2 * n" for b n :: nat
  using less_eq_div_iff_mult_less_eq [of n 1 b] div_less_iff_less_mult [of n b 2] by auto

lemma isDisallowedV4_bytes:
  assumes "a \<le> 255" "b \<le> 255" "c \<le> 255" "d \<le> 255"
  shows "isDisallowedV4 (word_of_nat (v4val a b c d)) \<longleftrightarrow>
     a = 0 \<or> a = 10 \<or> a = 127 \<or> (a = 100 \<and> 64 \<le> b \<and> b \<le> 127) \<or> (a = 169 \<and> b = 254) \<or>
     (a = 172 \<and> 16 \<le> b \<and> b \<le> 31) \<or> (a = 192 \<and> b = 168)"
proof -
  let ?w = "word_of_nat (v4val a b c d) :: 32 word"
  note r = inCidr_bytes [OF _ _ assms] and v = v4val_div [OF assms(2-4), of a]
  have 1: "isLoopbackV4 ?w \<longleftrightarrow> a = 127"
    using r [of 24 127] v(1) by (simp add: masks isLoopbackV4_def inCidr_def)
  have 2: "inCidr ?w 0xff000000 0 \<longleftrightarrow> a = 0" using r [of 24 0] v(1) by (simp add: masks)
  have 3: "inCidr ?w 0xff000000 0x0a000000 \<longleftrightarrow> a = 10" using r [of 24 10] v(1) by (simp add: masks)
  have 4: "inCidr ?w 0xfff00000 0xac100000 \<longleftrightarrow> a * 16 + b div 16 = 2753" using r [of 20 2753] v(2) by (simp add: masks)
  have 5: "inCidr ?w 0xffff0000 0xc0a80000 \<longleftrightarrow> a * 256 + b = 49320" using r [of 16 49320] v(3) by (simp add: masks)
  have 6: "inCidr ?w 0xffc00000 0x64400000 \<longleftrightarrow> a * 4 + b div 64 = 401" using r [of 22 401] v(4) by (simp add: masks)
  have 7: "inCidr ?w 0xffff0000 0xa9fe0000 \<longleftrightarrow> a * 256 + b = 43518" using r [of 16 43518] v(3) by (simp add: masks)
  have b: "b div 16 < 16" "b div 64 < 4" using assms(2) by simp_all
  have "a * 16 + b div 16 = 172 * 16 + 1 \<longleftrightarrow> a = 172 \<and> b div 16 = 1"
    "a * 4 + b div 64 = 100 * 4 + 1 \<longleftrightarrow> a = 100 \<and> b div 64 = 1"
    "a * 256 + b = 192 * 256 + 168 \<longleftrightarrow> a = 192 \<and> b = 168" "a * 256 + b = 169 * 256 + 254 \<longleftrightarrow> a = 169 \<and> b = 254"
    by (rule radix_eq; use b assms(2) in simp)+
  then have "a * 16 + b div 16 = 2753 \<longleftrightarrow> a = 172 \<and> b div 16 = 1" "a * 4 + b div 64 = 401 \<longleftrightarrow> a = 100 \<and> b div 64 = 1"
    "a * 256 + b = 49320 \<longleftrightarrow> a = 192 \<and> b = 168" "a * 256 + b = 43518 \<longleftrightarrow> a = 169 \<and> b = 254"
    by simp_all
  moreover have "b div 16 = 1 \<longleftrightarrow> 16 \<le> b \<and> b \<le> 31" "b div 64 = 1 \<longleftrightarrow> 64 \<le> b \<and> b \<le> 127"
    using div_eq_1 [of 16 b] div_eq_1 [of 64 b] by auto
  ultimately show ?thesis unfolding isDisallowedV4_def 1 2 3 4 5 6 7 by auto
qed

lemma isDisallowedAddress_dotted:
  assumes "a \<le> 255" "b \<le> 255" "c \<le> 255" "d \<le> 255"
  shows "isDisallowedAddress (dotted a b c d) = isDisallowedV4 (word_of_nat (v4val a b c d))"
  using isIP_dotted [OF assms] ipv4ToInt_dotted [OF assms] by (simp add: isDisallowedAddress_def)

lemma isDisallowedAddress_fails_closed: "isIP s = 0 \<Longrightarrow> isDisallowedAddress s"
  by (simp add: isDisallowedAddress_def)

lemma checkAddresses_None:
  "checkAddresses pol host as = None \<longleftrightarrow>
     (\<forall>a \<in> set as. \<not> isDisallowedAddress a \<or> (allowLoopback pol \<and> isLoopbackAddress a))"
  by (induction as) auto

lemma unwrapHost_literal: "unwrapHost (''['' @ h @ '']'') = h"
  by (simp add: unwrapHost_def startsWith_def)

lemma resolveAllowed_ok:
  assumes "resolveAllowedOutboundTarget parseUrl dns raw pol = Inr (u, ip)"
  shows "parseUrl raw = Some u" "url_protocol u \<in> {''https:'', ''http:''}" "requireHttps pol \<longrightarrow> url_protocol u = ''https:''"
    "\<not> isDisallowedAddress ip \<or> (allowLoopback pol \<and> isLoopbackAddress ip)"
    "(if isIP (unwrapHost (url_hostname u)) \<noteq> 0 then ip = unwrapHost (url_hostname u)
      else \<exists>as. dns (unwrapHost (url_hostname u)) = Some as \<and> ip \<in> set as \<and> (\<forall>a \<in> set as.
        \<not> isDisallowedAddress a \<or> (allowLoopback pol \<and> isLoopbackAddress a)))"
  using assms
  by (auto simp: resolveAllowedOutboundTarget_def Let_def checkAddresses_None split: option.splits if_splits list.splits sum.splits)

end
