(* ===== verification/Utf8.thy ===== *)
theory Utf8
  imports Prelude
begin

text \<open>The UTF-8 bytes of a string and back: \<open>Buffer.from(s, 'utf-8')\<close> and \<open>toString('utf-8')\<close>, for the
  code units below 256 the development's strings are made of.  Where the decoder would yield a code
  unit outside that range, above all the replacement character for a fragment, the model has
  \<open>?\<close>.\<close>

definition utf8Bytes :: "char \<Rightarrow> nat list" where
  "utf8Bytes c = (let n = of_char c in if n < 128 then [n] else [192 + n div 64, 128 + n mod 64])"

definition utf8Encode :: "string \<Rightarrow> nat list" where
  "utf8Encode s = concat (map utf8Bytes s)"

fun utf8Decode :: "nat list \<Rightarrow> string" where
  "utf8Decode [] = []"
| "utf8Decode [b] = [if b < 128 then char_of b else CHR ''?'']"
| "utf8Decode (b # c # bs) = (if b < 128 then char_of b # utf8Decode (c # bs)
     else if (b = 194 \<or> b = 195) \<and> 128 \<le> c \<and> c < 192 then char_of ((b - 192) * 64 + (c - 128)) # utf8Decode bs
     else CHR ''?'' # utf8Decode (c # bs))"

lemma utf8Encode_length: "length (utf8Encode s) = byteLength s"
  by (induction s) (auto simp: utf8Encode_def utf8Bytes_def byteLength_def Let_def)

lemma utf8Decode_ascii: "b < 128 \<Longrightarrow> utf8Decode (b # bs) = char_of b # utf8Decode bs"
  by (cases bs) auto

lemma of_char_256 [simp]: "(of_char c :: nat) < 256"
  using of_char_mod_256 [of c, where 'a = nat] by (metis mod_less_divisor zero_less_numeral)

lemma utf8Decode_bytes: "utf8Decode (utf8Bytes c @ bs) = c # utf8Decode bs"
proof (cases "of_char c < (128 :: nat)")
  case True
  then show ?thesis by (simp add: utf8Bytes_def Let_def utf8Decode_ascii)
next
  case False
  let ?n = "of_char c :: nat"
  have d: "?n div 64 = 2 \<or> ?n div 64 = 3" using False of_char_256 [of c] by linarith
  have "(192 + ?n div 64 - 192) * 64 + (128 + ?n mod 64 - 128) = ?n" by simp
  then show ?thesis using False d by (auto simp: utf8Bytes_def Let_def)
qed

lemma utf8_roundtrip: "utf8Decode (utf8Encode s) = s"
  by (induction s) (simp_all add: utf8Encode_def utf8Decode_bytes)

lemma utf8Encode_ascii: "list_all (\<lambda>c. (of_char c :: nat) < 128) s \<Longrightarrow> utf8Encode s = map of_char s"
  by (induction s) (auto simp: utf8Encode_def utf8Bytes_def Let_def)

lemma utf8Decode_map_ascii: "list_all (\<lambda>c. (of_char c :: nat) < 128) s \<Longrightarrow> utf8Decode (map of_char s) = s"
  using utf8_roundtrip [of s] by (simp add: utf8Encode_ascii)

end
