(* ===== verification/Remote_Executor.thy ===== *)
theory Remote_Executor
  imports Tools Ssrf Utf8
begin

text \<open>\<open>runtime/src/tool-executor-remote.ts\<close> and \<open>runner-credentials.ts\<close>: the HTTP executor of the remote
  tool-runner boundary, and the scoped token it sends.

  The network is a parameter: \<open>fetch n rq sig deadline now\<close> is what the \<open>n\<close>th request of a call leads to,
  sent at \<open>now\<close> with a signal that merges \<open>sig\<close> and a timeout at \<open>deadline\<close>: the time at which it settles and
  a rejection or a response.  A chunk of a body is a list of bytes.  The result
  of \<open>execute\<close> comes with the time it takes and the requests it sent.\<close>

section \<open>Requests\<close>

definition hexUpper :: "nat \<Rightarrow> char" where
  "hexUpper n = (if n < 10 then digitChar n else char_of (55 + n))"

definition isAlpha :: "char \<Rightarrow> bool" where
  "isAlpha c = (let n = of_char c :: nat in (65 \<le> n \<and> n \<le> 90) \<or> (97 \<le> n \<and> n \<le> 122))"

definition isUriUnreserved :: "char \<Rightarrow> bool" where
  "isUriUnreserved c = (isDigit c \<or> isAlpha c \<or> c \<in> set ''-_.!~*()'' \<or> c = CHR 0x27)"

definition encodeURIComponent :: "string \<Rightarrow> string" where
  "encodeURIComponent s = concat (map (\<lambda>c. if isUriUnreserved c then [c]
     else concat (map (\<lambda>b. [CHR ''%'', hexUpper (b div 16), hexUpper (b mod 16)]) (utf8Bytes c))) s)"

definition stripTrailingSlashes :: "string \<Rightarrow> string" where
  "stripTrailingSlashes s = rev (dropWhile (\<lambda>c. c = CHR ''/'') (rev s))"

datatype fetch_error = FReason js_error | FTimedOut | FSocket string "string option"

record http_request =
  hq_url :: url
  hq_pinnedIp :: string
  hq_token :: string
  hq_body :: string

record http_response =
  hr_status :: nat
  hr_body :: "nat list list option"
  hr_readError :: "fetch_error option"

type_synonym fetch_fn = "nat \<Rightarrow> http_request \<Rightarrow> abort_signal \<Rightarrow> nat \<Rightarrow> nat \<Rightarrow> nat \<times> (fetch_error + http_response)"

record RemoteToolExecutor =
  re_toolRunnerUrl :: string
  re_agentId :: string
  re_policy :: OutboundUrlPolicy
  re_timeoutMs :: nat
  re_maxRetries :: nat
  re_retryDelayMs :: nat

definition newRemoteToolExecutor ::
  "string \<Rightarrow> string \<Rightarrow> OutboundUrlPolicy \<Rightarrow> nat option \<Rightarrow> nat option \<Rightarrow> nat option \<Rightarrow> RemoteToolExecutor" where
  "newRemoteToolExecutor toolRunnerUrl agentId pol timeoutMs maxRetries retryDelayMs =
     \<lparr>re_toolRunnerUrl = stripTrailingSlashes toolRunnerUrl, re_agentId = agentId, re_policy = pol,
      re_timeoutMs = (case timeoutMs of None \<Rightarrow> 30000 | Some t \<Rightarrow> t),
      re_maxRetries = (case maxRetries of None \<Rightarrow> 1 | Some n \<Rightarrow> n),
      re_retryDelayMs = (case retryDelayMs of None \<Rightarrow> 1000 | Some t \<Rightarrow> t)\<rparr>"

definition runnerRequest :: "RemoteToolExecutor \<Rightarrow> ToolCall \<Rightarrow> ToolCallContext \<Rightarrow> json" where
  "runnerRequest x call ctx = objOf
     [(''version'', Some (JStr RUNNER_PROTOCOL_VERSION)), (''idempotencyKey'', Some (JStr (tl_callId call))),
      (''input'', tl_arguments call),
      (''context'', Some (objOf
         [(''sessionId'', Some (JStr (tcx_sessionId ctx))), (''agentId'', Some (JStr (re_agentId x))),
          (''runId'', Some (JStr (tcx_runId ctx))), (''callId'', Some (JStr (tl_callId call))),
          (''userId'', map_option JStr (tcx_userId ctx)), (''metadata'', map_option JObj (tcx_metadata ctx))]))]"

section \<open>Responses\<close>

text \<open>\<open>readBoundedText\<close>: the inner \<open>None\<close> is the \<open>null\<close> of an over-long body, which is noticed before any
  later read error.\<close>

fun readChunks :: "nat \<Rightarrow> nat list list \<Rightarrow> nat list \<Rightarrow> nat list option" where
  "readChunks maxBytes [] acc = Some acc"
| "readChunks maxBytes (c # cs) acc =
     (if length (acc @ c) > maxBytes then None else readChunks maxBytes cs (acc @ c))"

definition readBoundedText :: "http_response \<Rightarrow> nat \<Rightarrow> fetch_error + string option" where
  "readBoundedText r maxBytes = (case hr_body r of None \<Rightarrow> Inr (Some [])
     | Some cs \<Rightarrow> (case readChunks maxBytes cs [] of None \<Rightarrow> Inr None
         | Some t \<Rightarrow> (case hr_readError r of Some e \<Rightarrow> Inl e | None \<Rightarrow> Inr (Some (utf8Decode t)))))"

datatype interpreted = Done ToolCallResult | Retry string

definition errorMessage :: "json \<Rightarrow> string" where
  "errorMessage j = (case getProp ''error'' j of Some e \<Rightarrow> (case getProp ''message'' e of Some (JStr m) \<Rightarrow> m | _ \<Rightarrow> []) | None \<Rightarrow> [])"

definition interpretResponse :: "nat \<Rightarrow> string \<Rightarrow> interpreted" where
  "interpretResponse status text =
     (case (if length text > 0 then parse text else Some (JObj [])) of
        None \<Rightarrow> if status \<ge> 500 then Retry (''HTTP '' @ natToString status @ '': malformed response'')
                else Done (ResErr ''Invalid runner response'')
      | Some json \<Rightarrow>
          if status \<ge> 200 \<and> status < 300 then
            (if RunnerSuccessResponseSchema json then Done (ResOk (getProp ''result'' json))
             else if RunnerErrorResponseSchema json then Done (ResErr (errorMessage json))
             else Done (ResErr ''Invalid runner response''))
          else (let message = (if RunnerErrorResponseSchema json then errorMessage json
                  else ''Tool runner returned '' @ natToString status)
                in if status \<ge> 400 \<and> status < 500 then Done (ResErr message) else Retry message))"

fun isAbortError :: "fetch_error \<Rightarrow> bool" where
  "isAbortError (FReason AbortErr) = True"
| "isAbortError FTimedOut = True"
| "isAbortError _ = False"

fun messageOf :: "(db_violation \<Rightarrow> string) \<Rightarrow> fetch_error \<Rightarrow> string" where
  "messageOf dbm (FReason e) = errMessage dbm e"
| "messageOf dbm FTimedOut = ''The operation was aborted due to timeout''"
| "messageOf dbm (FSocket m cause) = (case cause of Some c \<Rightarrow> if c \<noteq> [] then c else m | None \<Rightarrow> m)"

section \<open>The attempts\<close>

definition attemptOutcome ::
  "(db_violation \<Rightarrow> string) \<Rightarrow> abort_signal \<Rightarrow> nat \<Rightarrow> fetch_error + http_response \<Rightarrow> interpreted" where
  "attemptOutcome dbm sig t r =
     (let failed = (\<lambda>e. if isAbortError e
            then (if aborted sig t then Done (ResErr ''Aborted'') else Retry ''Tool execution timed out'')
            else Retry (''Connection error: '' @ messageOf dbm e))
      in case r of Inl e \<Rightarrow> failed e
       | Inr resp \<Rightarrow> (case readBoundedText resp RUNNER_MAX_OUTPUT_BYTES of Inl e \<Rightarrow> failed e
           | Inr None \<Rightarrow> Done (ResErr ''Tool runner response exceeds limit'')
           | Inr (Some text) \<Rightarrow> interpretResponse (hr_status resp) text))"

text \<open>The \<open>for\<close> loop of \<open>sendWithRetries\<close>: \<open>k\<close> attempts are left after this one.\<close>

fun attempts :: "(db_violation \<Rightarrow> string) \<Rightarrow> fetch_fn \<Rightarrow> RemoteToolExecutor \<Rightarrow> http_request \<Rightarrow> abort_signal
    \<Rightarrow> nat \<Rightarrow> nat \<Rightarrow> nat \<Rightarrow> nat \<times> http_request list \<times> ToolCallResult" where
  "attempts dbm fetch x rq sig n k now =
     (case fetch n rq sig (now + re_timeoutMs x) now of (t, r) \<Rightarrow>
       (case attemptOutcome dbm sig t r of
          Done res \<Rightarrow> (t, [rq], res)
        | Retry lastError \<Rightarrow> (case k of
            0 \<Rightarrow> (t, [rq], ResErr (''Tool runner unreachable after '' @ natToString (Suc n) @ '' attempts: '' @ lastError))
          | Suc j \<Rightarrow> (let t' = t + re_retryDelayMs x in
              if aborted sig t' then (t', [rq], ResErr ''Aborted'')
              else (case attempts dbm fetch x rq sig (Suc n) j t' of (t'', rqs, res) \<Rightarrow> (t'', rq # rqs, res))))))"

declare attempts.simps [simp del]

definition sendWithRetries ::
  "(db_violation \<Rightarrow> string) \<Rightarrow> fetch_fn \<Rightarrow> RemoteToolExecutor \<Rightarrow> http_request \<Rightarrow> abort_signal \<Rightarrow> nat
    \<Rightarrow> nat \<times> http_request list \<times> ToolCallResult" where
  "sendWithRetries dbm fetch x rq sig now = attempts dbm fetch x rq sig 0 (re_maxRetries x) now"

text \<open>\<open>execute\<close>.  \<open>mint\<close> is the minter the resolver binds to the agent, at the time of the call.\<close>

type_synonym minter = "ToolCall \<Rightarrow> ToolCallContext \<Rightarrow> nat \<Rightarrow> js_error + string"

definition remoteExecute ::
  "(string \<Rightarrow> url option) \<Rightarrow> (string \<Rightarrow> string list option) \<Rightarrow> minter \<Rightarrow> (db_violation \<Rightarrow> string) \<Rightarrow> fetch_fn
    \<Rightarrow> RemoteToolExecutor \<Rightarrow> ToolCall \<Rightarrow> ToolCallContext \<Rightarrow> abort_signal \<Rightarrow> nat \<Rightarrow> nat \<times> http_request list \<times> ToolCallResult" where
  "remoteExecute parseUrl dns mint dbm fetch x call ctx sig now =
     (if aborted sig now then (now, [], ResErr ''Aborted'')
      else if byteLength (stringify (case tl_arguments call of None \<Rightarrow> JNull | Some a \<Rightarrow> a)) > RUNNER_MAX_INPUT_BYTES
        then (now, [], ResErr ''Tool input exceeds limit'')
      else (let body = stringify (runnerRequest x call ctx) in
        case resolveAllowedOutboundTarget parseUrl dns
               (re_toolRunnerUrl x @ ''/tools/'' @ encodeURIComponent (tl_toolName call)) (re_policy x) of
          Inl e \<Rightarrow> (now, [], ResErr (errMessage dbm e))
        | Inr (u, ip) \<Rightarrow> (case mint call ctx now of
            Inl e \<Rightarrow> (now, [], ResErr (''Failed to mint runner credentials: '' @ errMessage dbm e))
          | Inr token \<Rightarrow> sendWithRetries dbm fetch x
              \<lparr>hq_url = u, hq_pinnedIp = ip, hq_token = token, hq_body = body\<rparr> sig now)))"

section \<open>Scoped tokens\<close>

record RunnerTokenClaims =
  cl_aud :: string
  cl_workspaceId :: string
  cl_agentId :: string
  cl_runId :: string
  cl_callId :: string
  cl_idempotencyKey :: string
  cl_toolName :: string
  cl_exp :: nat

definition MAX_RUNNER_TOKEN_TTL_SECONDS :: int where "MAX_RUNNER_TOKEN_TTL_SECONDS = 120"
definition DEFAULT_RUNNER_TOKEN_TTL_SECONDS :: int where "DEFAULT_RUNNER_TOKEN_TTL_SECONDS = 60"

definition runnerTtl :: "int \<Rightarrow> nat" where
  "runnerTtl ttlSeconds = nat (min (max 1 ttlSeconds) MAX_RUNNER_TOKEN_TTL_SECONDS)"

text \<open>\<open>sign\<close> is jose's \<open>SignJWT\<close> with the private key: it is given the audience, the payload and the two
  times in seconds.\<close>

type_synonym signer = "string \<Rightarrow> (string \<times> json) list \<Rightarrow> nat \<Rightarrow> nat \<Rightarrow> string"

definition mintRunnerToken :: "signer \<Rightarrow> RunnerTokenClaims \<Rightarrow> int \<Rightarrow> nat \<Rightarrow> string" where
  "mintRunnerToken sign claims ttlSeconds nowSec = sign (cl_aud claims)
     [(''workspaceId'', JStr (cl_workspaceId claims)), (''agentId'', JStr (cl_agentId claims)),
      (''runId'', JStr (cl_runId claims)), (''callId'', JStr (cl_callId claims)),
      (''idempotencyKey'', JStr (cl_idempotencyKey claims)), (''toolName'', JStr (cl_toolName claims))]
     nowSec (nowSec + runnerTtl ttlSeconds)"

text \<open>The minter the server's container gives the resolver (\<open>apps/server/src/container.ts\<close>).\<close>

definition agentMinter :: "signer \<Rightarrow> AgentRecord \<Rightarrow> minter" where
  "agentMinter sign agent call ctx now = (case ag_toolRunnerUrl agent of
      Some aud \<Rightarrow> if aud \<noteq> [] then Inr (mintRunnerToken sign
          \<lparr>cl_aud = aud, cl_workspaceId = ag_workspaceId agent, cl_agentId = ag_agentId agent, cl_runId = tcx_runId ctx,
           cl_callId = tl_callId call, cl_idempotencyKey = tl_callId call, cl_toolName = tl_toolName call, cl_exp = 0\<rparr>
          DEFAULT_RUNNER_TOKEN_TTL_SECONDS (now div 1000))
        else Inl (PlainErr (''Agent '' @ ag_agentId agent @ '' has no tool runner URL to scope a token to''))
    | None \<Rightarrow> Inl (PlainErr (''Agent '' @ ag_agentId agent @ '' has no tool runner URL to scope a token to'')))"

section \<open>Lemmas\<close>

lemma runnerTtl_bounds: "1 \<le> runnerTtl t \<and> runnerTtl t \<le> 120"
  by (auto simp: runnerTtl_def MAX_RUNNER_TOKEN_TTL_SECONDS_def)

lemma readChunks_bound: "readChunks m cs acc = Some t \<Longrightarrow> length acc \<le> m \<Longrightarrow> length t \<le> m \<and> t = acc @ concat cs"
  by (induction m cs acc rule: readChunks.induct) (auto split: if_splits)

lemma attempts_count: "attempts dbm fetch x rq sig n k now = (t, rqs, res) \<Longrightarrow> length rqs \<le> Suc k \<and> (\<forall>r \<in> set rqs. r = rq)"
proof (induction k arbitrary: n now t rqs res)
  case 0
  then show ?case by (subst (asm) attempts.simps) (auto split: prod.splits interpreted.splits)
next
  case (Suc k)
  from Suc.prems show ?case
    by (subst (asm) attempts.simps) (auto simp: Let_def split: prod.splits interpreted.splits if_splits dest!: Suc.IH)
qed

text \<open>When every request settles by its deadline, so does the call.\<close>

definition fetchTimely :: "fetch_fn \<Rightarrow> bool" where
  "fetchTimely fetch = (\<forall>n rq sig dl now. now \<le> dl \<longrightarrow> now \<le> fst (fetch n rq sig dl now) \<and> fst (fetch n rq sig dl now) \<le> dl)"

lemma attempts_time: "fetchTimely fetch \<Longrightarrow> attempts dbm fetch x rq sig n k now = (t, rqs, res) \<Longrightarrow>
    t \<le> now + Suc k * re_timeoutMs x + k * re_retryDelayMs x"
proof (induction k arbitrary: n now t rqs res)
  case 0
  then show ?case
    by (subst (asm) attempts.simps) (auto simp: fetchTimely_def split: prod.splits interpreted.splits, (metis fst_conv le_add1)+)
next
  case (Suc k)
  obtain t1 r where f: "fetch n rq sig (now + re_timeoutMs x) now = (t1, r)" by fastforce
  have t1: "t1 \<le> now + re_timeoutMs x" using Suc.prems(1) f unfolding fetchTimely_def by (metis fst_conv le_add1)
  show ?case
  proof (cases "t \<le> t1 + re_retryDelayMs x")
    case True
    then show ?thesis using t1 by simp
  next
    case False
    then obtain rqs' where "attempts dbm fetch x rq sig (Suc n) k (t1 + re_retryDelayMs x) = (t, rqs', res)"
      using Suc.prems(2) f by (subst (asm) attempts.simps) (auto simp: Let_def split: prod.splits interpreted.splits if_splits)
    from Suc.IH [OF Suc.prems(1) this] show ?thesis using t1 by (simp add: algebra_simps)
  qed
qed

lemma remoteExecute_requests:
  assumes "remoteExecute parseUrl dns mint dbm fetch x call ctx sig now = (t, rqs, res)"
  shows "length rqs \<le> 1 + re_maxRetries x \<and> (\<forall>rq \<in> set rqs. hq_body rq = stringify (runnerRequest x call ctx) \<and>
     mint call ctx now = Inr (hq_token rq) \<and> (\<not> isDisallowedAddress (hq_pinnedIp rq) \<or>
       allowLoopback (re_policy x) \<and> isLoopbackAddress (hq_pinnedIp rq)))"
  using assms
  by (auto simp: remoteExecute_def Let_def sendWithRetries_def split: if_splits sum.splits option.splits prod.splits
      dest!: attempts_count resolveAllowed_ok(4))

end
