(* ===== verification/Idempotency.thy ===== *)
theory Idempotency
  imports Prelude
begin

text \<open>The \<open>IdempotencyCache\<close> of the SDK's tool runner (\<open>sdk/src/tool-runner.ts\<close>): a logical tool call
  executes at most once while its entry is in flight or fresh.

  An entry holds the number of the execution whose promise it shares and the time at which that promise
  settled.  The \<open>Map\<close> is an association list in insertion order: the head is the least recently used.
  \<open>ic_execs\<close> is the log of the executions started, each with its key and time; \<open>ic_settled\<close> when they settled.\<close>

record IdempotencyEntry =
  ie_exec :: nat
  ie_settledAt :: "nat option"

record IdempotencyCache =
  ic_entries :: "(string, IdempotencyEntry) jsmap"
  ic_execs :: "(string \<times> nat) list"
  ic_settled :: "(nat \<times> nat) list"
  ic_clock :: nat

definition newIdempotencyCache :: IdempotencyCache where
  "newIdempotencyCache = \<lparr>ic_entries = [], ic_execs = [], ic_settled = [], ic_clock = 0\<rparr>"

text \<open>\<open>settledAt === null || Date.now() - settledAt < ttlMs\<close>.\<close>

definition entryFresh :: "nat \<Rightarrow> nat \<Rightarrow> IdempotencyEntry \<Rightarrow> bool" where
  "entryFresh ttl now e = (case ie_settledAt e of None \<Rightarrow> True | Some t \<Rightarrow> now < t + ttl)"

definition evictIfNeeded :: "nat \<Rightarrow> (string, IdempotencyEntry) jsmap \<Rightarrow> (string, IdempotencyEntry) jsmap" where
  "evictIfNeeded maxEntries m = drop (length m - maxEntries) m"

text \<open>\<open>run\<close> returns the number of the execution whose outcome the caller awaits.\<close>

definition idemRun :: "nat \<Rightarrow> nat \<Rightarrow> nat \<Rightarrow> string \<Rightarrow> IdempotencyCache \<Rightarrow> nat \<times> IdempotencyCache" where
  "idemRun ttl maxEntries now key c =
     (let rest = js_delete key (ic_entries c);
          start = (length (ic_execs c), c\<lparr>ic_entries := evictIfNeeded maxEntries
               (js_set key \<lparr>ie_exec = length (ic_execs c), ie_settledAt = None\<rparr> rest),
             ic_execs := ic_execs c @ [(key, now)], ic_clock := now\<rparr>)
      in case js_get (ic_entries c) key of
           Some e \<Rightarrow> if entryFresh ttl now e
             then (ie_exec e, c\<lparr>ic_entries := js_set key e rest, ic_clock := now\<rparr>) else start
         | None \<Rightarrow> start)"

text \<open>The promise of execution \<open>i\<close> resolves at \<open>now\<close>: its entry object is stamped, if it is still there.\<close>

definition idemSettle :: "nat \<Rightarrow> nat \<Rightarrow> IdempotencyCache \<Rightarrow> IdempotencyCache" where
  "idemSettle i now c = c\<lparr>ic_entries := map (\<lambda>(k, e). (k, if ie_exec e = i then e\<lparr>ie_settledAt := Some now\<rparr> else e)) (ic_entries c),
     ic_settled := (i, now) # ic_settled c, ic_clock := now\<rparr>"

text \<open>Every interleaving of requests for keys of \<open>K\<close> and settlements.\<close>

inductive idemReach :: "string set \<Rightarrow> nat \<Rightarrow> nat \<Rightarrow> IdempotencyCache \<Rightarrow> bool" for K ttl maxEntries where
  start: "idemReach K ttl maxEntries newIdempotencyCache"
| request: "idemReach K ttl maxEntries c \<Longrightarrow> k \<in> K \<Longrightarrow> ic_clock c \<le> now \<Longrightarrow>
    idemReach K ttl maxEntries (snd (idemRun ttl maxEntries now k c))"
| settle: "idemReach K ttl maxEntries c \<Longrightarrow> i < length (ic_execs c) \<Longrightarrow> map_of (ic_settled c) i = None \<Longrightarrow> ic_clock c \<le> now \<Longrightarrow>
    idemReach K ttl maxEntries (idemSettle i now c)"

section \<open>At most once\<close>

lemma delete_notin: "k \<notin> fst ` set m \<Longrightarrow> AList.delete k m = m"
  by (induction m) auto

lemma update_snoc: "k \<notin> fst ` set m \<Longrightarrow> AList.update k v m = m @ [(k, v)]"
  by (induction m) auto

lemma idem_set: "js_set k e (js_delete k m) = js_delete k m @ [(k, e)]"
  by (rule update_snoc) (auto simp: AList.delete_eq)

lemma evict_id: "length m \<le> n \<Longrightarrow> evictIfNeeded n m = m"
  by (simp add: evictIfNeeded_def)

lemma evict_length: "length (evictIfNeeded n m) \<le> n"
  by (simp add: evictIfNeeded_def)

definition entryOk :: "IdempotencyCache \<Rightarrow> string \<Rightarrow> IdempotencyEntry \<Rightarrow> bool" where
  "entryOk c k e = (ie_exec e < length (ic_execs c) \<and> fst (ic_execs c ! ie_exec e) = k \<and>
     ie_settledAt e = map_of (ic_settled c) (ie_exec e) \<and>
     (\<forall>i < length (ic_execs c). fst (ic_execs c ! i) = k \<longrightarrow> i \<le> ie_exec e))"

definition spaced :: "nat \<Rightarrow> IdempotencyCache \<Rightarrow> bool" where
  "spaced ttl c = (\<forall>i j. i < j \<longrightarrow> j < length (ic_execs c) \<longrightarrow> fst (ic_execs c ! i) = fst (ic_execs c ! j) \<longrightarrow>
     (\<exists>t. map_of (ic_settled c) i = Some t \<and> t + ttl \<le> snd (ic_execs c ! j)))"

definition idemInv :: "string set \<Rightarrow> nat \<Rightarrow> IdempotencyCache \<Rightarrow> bool" where
  "idemInv K ttl c = (distinct (map fst (ic_entries c)) \<and> fst ` set (ic_entries c) \<subseteq> K \<and>
     (\<forall>(k, e) \<in> set (ic_entries c). entryOk c k e) \<and>
     (\<forall>(k, t) \<in> set (ic_execs c). t \<le> ic_clock c \<and> k \<in> fst ` set (ic_entries c)) \<and>
     (\<forall>(i, t) \<in> set (ic_settled c). i < length (ic_execs c)) \<and> spaced ttl c)"

lemma settled_none: "\<forall>(i, t) \<in> set (ic_settled c). i < n \<Longrightarrow> map_of (ic_settled c) n = None"
  by (force simp: map_of_eq_None_iff)

lemma start_inv:
  assumes inv: "idemInv K ttl c" and k: "k \<in> K" and now: "ic_clock c \<le> now"
    and old: "\<And>e. (k, e) \<in> set (ic_entries c) \<Longrightarrow> \<not> entryFresh ttl now e"
  shows "idemInv K ttl (c\<lparr>ic_entries := js_delete k (ic_entries c) @ [(k, \<lparr>ie_exec = length (ic_execs c), ie_settledAt = None\<rparr>)],
     ic_execs := ic_execs c @ [(k, now)], ic_clock := now\<rparr>)" (is "idemInv K ttl ?c")
proof -
  have ok: "entryOk c k' e" if "(k', e) \<in> set (ic_entries c)" for k' e
    using inv that by (auto simp: idemInv_def)
  have e1: "entryOk ?c k' e" if "(k', e) \<in> set (ic_entries c)" "k' \<noteq> k" for k' e
    using ok [OF that(1)] that(2) by (auto simp: entryOk_def nth_append less_Suc_eq)
  have e2: "entryOk ?c k \<lparr>ie_exec = length (ic_execs c), ie_settledAt = None\<rparr>"
    using inv settled_none [of c "length (ic_execs c)"] by (simp add: entryOk_def idemInv_def)
  have new: "\<exists>t. map_of (ic_settled c) i = Some t \<and> t + ttl \<le> now" if i: "i < length (ic_execs c)" "fst (ic_execs c ! i) = k" for i
  proof -
    have "ic_execs c ! i \<in> set (ic_execs c)" using i(1) by simp
    then have "k \<in> fst ` set (ic_entries c)" using inv i(2) unfolding idemInv_def by (metis (no_types, lifting) case_prodD prod.collapse)
    then obtain e where e: "(k, e) \<in> set (ic_entries c)" by auto
    note eo = ok [OF e, unfolded entryOk_def]
    obtain t where t: "ie_settledAt e = Some t" "t + ttl \<le> now" using old [OF e] by (auto simp: entryFresh_def split: option.splits)
    show ?thesis
    proof (cases "i = ie_exec e")
      case True
      then show ?thesis using t eo by auto
    next
      case False
      then have lt: "i < ie_exec e" using eo i by (metis le_neq_implies_less)
      have sp: "spaced ttl c" using inv by (simp add: idemInv_def)
      obtain u where u: "map_of (ic_settled c) i = Some u" "u + ttl \<le> snd (ic_execs c ! ie_exec e)"
        using sp lt eo i(2) unfolding spaced_def by metis
      have "ic_execs c ! ie_exec e \<in> set (ic_execs c)" using eo by simp
      then have "snd (ic_execs c ! ie_exec e) \<le> ic_clock c" using inv by (auto simp: idemInv_def)
      then show ?thesis using u now by auto
    qed
  qed
  have "spaced ttl ?c"
    unfolding spaced_def
  proof (intro allI impI)
    fix i j
    assume a: "i < j" "j < length (ic_execs ?c)" "fst (ic_execs ?c ! i) = fst (ic_execs ?c ! j)"
    show "\<exists>t. map_of (ic_settled ?c) i = Some t \<and> t + ttl \<le> snd (ic_execs ?c ! j)"
    proof (cases "j = length (ic_execs c)")
      case True
      then show ?thesis using new [of i] a by (simp add: nth_append)
    next
      case False
      then have "i < length (ic_execs c)" "j < length (ic_execs c)" using a by auto
      then show ?thesis using inv a by (simp add: idemInv_def spaced_def nth_append)
    qed
  qed
  moreover have "\<forall>(k', e) \<in> set (ic_entries ?c). entryOk ?c k' e"
    using e1 e2 by (auto simp: AList.delete_eq)
  moreover have "t \<le> now \<and> k' \<in> fst ` set (ic_entries ?c)" if "(k', t) \<in> set (ic_execs ?c)" for k' t
  proof (cases "k' = k")
    case False
    then have "(k', t) \<in> set (ic_execs c)" using that by auto
    then have "t \<le> ic_clock c" "k' \<in> fst ` set (ic_entries c)" using inv by (auto simp: idemInv_def)
    then show ?thesis using now False by (auto simp: AList.delete_eq)
  next
    case True
    then show ?thesis using that inv now by (auto simp: idemInv_def)
  qed
  moreover have "distinct (map fst (ic_entries ?c))" "fst ` set (ic_entries ?c) \<subseteq> K"
    using inv k unfolding idemInv_def by (auto simp: AList.delete_eq distinct_map_filter)
  moreover have "i < length (ic_execs ?c)" if "(i, t) \<in> set (ic_settled ?c)" for i t
    using inv that by (auto simp: idemInv_def)
  ultimately show ?thesis unfolding idemInv_def by auto
qed

lemma reuse_inv:
  assumes "idemInv K ttl c" "js_get (ic_entries c) k = Some e" "ic_clock c \<le> now"
  shows "idemInv K ttl (c\<lparr>ic_entries := js_delete k (ic_entries c) @ [(k, e)], ic_clock := now\<rparr>)" (is "idemInv K ttl ?c")
proof -
  have ke: "(k, e) \<in> set (ic_entries c)" using assms(2) by (rule map_of_SomeD)
  have d: "distinct (map fst (ic_entries c))" using assms(1) by (simp add: idemInv_def)
  have "(k', e') \<in> set (ic_entries ?c) \<longleftrightarrow> (k', e') \<in> set (ic_entries c)" for k' e'
    using ke d by (auto simp: AList.delete_eq eq_key_imp_eq_value)
  then have set_eq: "set (ic_entries ?c) = set (ic_entries c)" by auto
  have "distinct (map fst (ic_entries ?c))" using d by (auto simp: AList.delete_eq distinct_map_filter)
  moreover have "\<forall>(k', t) \<in> set (ic_execs ?c). t \<le> now \<and> k' \<in> fst ` set (ic_entries c)"
    using assms(1,3) unfolding idemInv_def by fastforce
  ultimately show ?thesis using assms(1) unfolding idemInv_def set_eq by (auto simp: entryOk_def spaced_def)
qed

lemma idemRun_inv:
  assumes inv: "idemInv K ttl c" and "k \<in> K" "ic_clock c \<le> now" "finite K" "card K \<le> maxEntries"
  shows "idemInv K ttl (snd (idemRun ttl maxEntries now k c))"
proof -
  let ?m = "js_delete k (ic_entries c) @ [(k, \<lparr>ie_exec = length (ic_execs c), ie_settledAt = None\<rparr>)]"
  have m: "distinct (map fst ?m)" "fst ` set ?m \<subseteq> K"
    using inv assms(2) unfolding idemInv_def by (auto simp: AList.delete_eq distinct_map_filter)
  have "length ?m = card (fst ` set ?m)" using m(1) by (metis distinct_card length_map list.set_map)
  also have "\<dots> \<le> maxEntries" using card_mono [OF assms(4) m(2)] assms(5) by simp
  finally have ev: "evictIfNeeded maxEntries ?m = ?m" by (rule evict_id)
  show ?thesis
  proof (cases "\<exists>e. js_get (ic_entries c) k = Some e \<and> entryFresh ttl now e")
    case True
    then obtain e where "js_get (ic_entries c) k = Some e" "entryFresh ttl now e" by blast
    then show ?thesis using reuse_inv [OF inv _ assms(3)] by (simp add: idemRun_def Let_def idem_set)
  next
    case False
    have "\<not> entryFresh ttl now e" if "(k, e) \<in> set (ic_entries c)" for e
      using False inv that by (auto simp: idemInv_def dest: map_of_is_SomeI)
    from start_inv [OF inv assms(2,3) this]
    have "idemInv K ttl (c\<lparr>ic_entries := ?m, ic_execs := ic_execs c @ [(k, now)], ic_clock := now\<rparr>)" by blast
    then show ?thesis using False by (auto simp: idemRun_def Let_def idem_set ev split: option.splits)
  qed
qed

lemma entryOk_settle: "entryOk c k e \<Longrightarrow>
    entryOk (idemSettle i now c) k (if ie_exec e = i then e\<lparr>ie_settledAt := Some now\<rparr> else e)"
  by (auto simp: entryOk_def idemSettle_def)

lemma settle_inv:
  assumes inv: "idemInv K ttl c" and i: "i < length (ic_execs c)" "map_of (ic_settled c) i = None" "ic_clock c \<le> now"
  shows "idemInv K ttl (idemSettle i now c)"
proof -
  let ?c = "idemSettle i now c"
  have "map fst (ic_entries ?c) = map fst (ic_entries c)" by (auto simp: idemSettle_def)
  moreover then have "fst ` set (ic_entries ?c) = fst ` set (ic_entries c)" by (metis list.set_map)
  moreover have "\<forall>(k, e) \<in> set (ic_entries ?c). entryOk ?c k e"
  proof -
    have "set (ic_entries ?c) = (\<lambda>(k, e). (k, if ie_exec e = i then e\<lparr>ie_settledAt := Some now\<rparr> else e)) ` set (ic_entries c)"
      by (simp add: idemSettle_def)
    then show ?thesis using inv entryOk_settle [of c] unfolding idemInv_def by auto
  qed
  moreover have "spaced ttl ?c" using inv i(2) unfolding idemInv_def spaced_def idemSettle_def by fastforce
  moreover have "t \<le> ic_clock ?c \<and> k' \<in> fst ` set (ic_entries c)" if "(k', t) \<in> set (ic_execs ?c)" for k' t
    using inv i(3) that by (auto simp: idemInv_def idemSettle_def)
  moreover have "j < length (ic_execs ?c)" if "(j, t) \<in> set (ic_settled ?c)" for j t
    using inv i(1) that by (auto simp: idemInv_def idemSettle_def)
  ultimately show ?thesis using inv unfolding idemInv_def by auto
qed

lemma idemReach_inv: "idemReach K ttl maxEntries c \<Longrightarrow> finite K \<Longrightarrow> card K \<le> maxEntries \<Longrightarrow> idemInv K ttl c"
  by (induction rule: idemReach.induct)
    (auto intro: idemRun_inv settle_inv, simp add: idemInv_def newIdempotencyCache_def spaced_def)

lemma idemReach_bounded: "idemReach K ttl maxEntries c \<Longrightarrow> length (ic_entries c) \<le> maxEntries"
proof (induction rule: idemReach.induct)
  case (request c k now)
  show ?case
  proof (cases "\<exists>e. js_get (ic_entries c) k = Some e \<and> entryFresh ttl now e")
    case True
    then obtain e where e: "js_get (ic_entries c) k = Some e" "entryFresh ttl now e" by blast
    have "(k, e) \<in> set (ic_entries c)" using e(1) by (rule map_of_SomeD)
    then have "length (js_delete k (ic_entries c)) < length (ic_entries c)"
      unfolding AList.delete_eq by (rule length_filter_less) simp
    then show ?thesis using e request.IH by (simp add: idemRun_def Let_def idem_set)
  next
    case False
    then have "ic_entries (snd (idemRun ttl maxEntries now k c)) = evictIfNeeded maxEntries
        (js_set k \<lparr>ie_exec = length (ic_execs c), ie_settledAt = None\<rparr> (js_delete k (ic_entries c)))"
      by (auto simp: idemRun_def Let_def split: option.splits)
    then show ?thesis by (simp only: evict_length)
  qed
qed (simp_all add: newIdempotencyCache_def idemSettle_def)

end
