(* ===== verification/Tool_Runner.thy ===== *)
theory Tool_Runner
  imports Remote_Executor Idempotency
begin

text \<open>\<open>sdk/src/tool-runner.ts\<close> and \<open>runner-token.ts\<close>: the customer's side of the remote tool boundary.  A
  request passes the checks of the handler in order (bearer token, request schema, token signature and
  audience, scope of the token, tool lookup, tool input schema) and is then executed under its
  idempotency key.

  jose's \<open>jwtVerify\<close> is a parameter: given the audience and the time it yields the payload or an error
  message.  The zod schemas of the tools and their error details are parameters too.\<close>

section \<open>Token verification\<close>

type_synonym jwt_verify = "string \<Rightarrow> string \<Rightarrow> nat \<Rightarrow> string + (string \<times> json) list"

record RunnerAuthConfig =
  au_expectedAudience :: string
  au_expectedWorkspaceId :: string

definition unauthorized :: "string \<Rightarrow> js_error" where
  "unauthorized detail = SwiftErr UNAUTHORIZED detail"

definition strClaim :: "json option \<Rightarrow> string" where
  "strClaim v = (case v of Some (JStr s) \<Rightarrow> s | _ \<Rightarrow> [])"

definition numClaim :: "json option \<Rightarrow> nat" where
  "numClaim v = (case v of Some (JNum i) \<Rightarrow> nat i | _ \<Rightarrow> 0)"

definition verifyRunnerToken :: "jwt_verify \<Rightarrow> string \<Rightarrow> RunnerAuthConfig \<Rightarrow> nat \<Rightarrow> js_error + RunnerTokenClaims" where
  "verifyRunnerToken jwtVerify token expected nowSec =
     (case jwtVerify token (au_expectedAudience expected) nowSec of
        Inl msg \<Rightarrow> Inl (unauthorized (''Runner token verification failed: '' @ msg))
      | Inr payload \<Rightarrow>
          if map_of payload ''workspaceId'' \<noteq> Some (JStr (au_expectedWorkspaceId expected))
          then Inl (unauthorized ''Runner token workspace mismatch'')
          else (let claims = \<lparr>cl_aud = au_expectedAudience expected,
                  cl_workspaceId = strClaim (map_of payload ''workspaceId''), cl_agentId = strClaim (map_of payload ''agentId''),
                  cl_runId = strClaim (map_of payload ''runId''), cl_callId = strClaim (map_of payload ''callId''),
                  cl_idempotencyKey = strClaim (map_of payload ''idempotencyKey''),
                  cl_toolName = strClaim (map_of payload ''toolName''), cl_exp = numClaim (map_of payload ''exp'')\<rparr>
            in if cl_workspaceId claims = [] \<or> cl_agentId claims = [] \<or> cl_runId claims = [] \<or> cl_callId claims = []
                 \<or> cl_idempotencyKey claims = [] \<or> cl_toolName claims = []
               then Inl (unauthorized ''Runner token missing required scope claims'') else Inr claims))"

section \<open>The handler\<close>

text \<open>A registered tool: its input schema, which yields the parsed data or the details of its errors, and
  its handler, which settles after a delay (\<^const>\<open>None\<close>: never) with a value or a throw, of an \<open>Error\<close>
  with its message or of anything else (\<^const>\<open>None\<close>).\<close>

record ToolContext =
  tx_sessionId :: string
  tx_agentId :: string
  tx_runId :: string
  tx_callId :: string
  tx_userId :: "string option"
  tx_metadata :: "(string \<times> json) list option"

record RunnerTool =
  rt_inputSchema :: "json option \<Rightarrow> json + json option"
  rt_execute :: "json option \<Rightarrow> ToolContext \<Rightarrow> nat \<Rightarrow> nat option \<times> (string option + json option)"

record runner_http_request =
  rh_toolName :: string
  rh_authorization :: "string option"
  rh_body :: "json option"

datatype HandlerOutcome = OutcomeOk "json option" | OutcomeErr nat string string

definition capError :: "string \<Rightarrow> string" where
  "capError message = (if byteLength message \<le> RUNNER_MAX_ERROR_BYTES then message
     else utf8Decode (take RUNNER_MAX_ERROR_BYTES (utf8Encode message)))"

definition runnerError :: "string \<Rightarrow> string \<Rightarrow> json option \<Rightarrow> json" where
  "runnerError code message details = JObj [(''version'', JStr RUNNER_PROTOCOL_VERSION),
     (''error'', objOf [(''code'', Some (JStr code)), (''message'', Some (JStr message)), (''details'', details)])]"

datatype admission = Refused nat json | Admitted RunnerTool "json option" ToolContext string

definition jsonString :: "json option \<Rightarrow> string" where
  "jsonString v = (case v of Some (JStr s) \<Rightarrow> s | _ \<Rightarrow> [])"

definition contextOf :: "json \<Rightarrow> ToolContext" where
  "contextOf c = \<lparr>tx_sessionId = jsonString (getProp ''sessionId'' c), tx_agentId = jsonString (getProp ''agentId'' c),
     tx_runId = jsonString (getProp ''runId'' c), tx_callId = jsonString (getProp ''callId'' c),
     tx_userId = (case getProp ''userId'' c of Some (JStr s) \<Rightarrow> Some s | _ \<Rightarrow> None),
     tx_metadata = (case getProp ''metadata'' c of Some (JObj ps) \<Rightarrow> Some ps | _ \<Rightarrow> None)\<rparr>"

definition bearerToken :: "string option \<Rightarrow> string option" where
  "bearerToken header = (case header of None \<Rightarrow> None
     | Some h \<Rightarrow> if h \<noteq> [] \<and> startsWith ''Bearer '' h then Some (drop 7 h) else None)"

definition wrongVersion :: "json option \<Rightarrow> bool" where
  "wrongVersion body = (case body of Some (JObj ps) \<Rightarrow> map_of ps ''version'' \<noteq> Some (JStr RUNNER_PROTOCOL_VERSION)
     | Some (JArr vs) \<Rightarrow> True | _ \<Rightarrow> False)"

definition scopeMatches :: "RunnerTokenClaims \<Rightarrow> ToolContext \<Rightarrow> string \<Rightarrow> string \<Rightarrow> bool" where
  "scopeMatches claims context toolName idempotencyKey =
     (cl_agentId claims = tx_agentId context \<and> cl_runId claims = tx_runId context \<and> cl_callId claims = tx_callId context \<and>
      cl_toolName claims = toolName \<and> cl_idempotencyKey claims = idempotencyKey)"

definition runnerAdmit :: "jwt_verify \<Rightarrow> (json option \<Rightarrow> json) \<Rightarrow> RunnerAuthConfig \<Rightarrow> (string, RunnerTool) jsmap
    \<Rightarrow> nat \<Rightarrow> runner_http_request \<Rightarrow> admission" where
  "runnerAdmit jwtVerify flatten auth registry nowSec req = (case bearerToken (rh_authorization req) of
      None \<Rightarrow> Refused 401 (runnerError ''UNAUTHORIZED'' ''Invalid or missing authorization'' None)
    | Some token \<Rightarrow>
      (if (case rh_body req of None \<Rightarrow> True | Some b \<Rightarrow> \<not> RunnerRequestSchema b)
       then Refused 400 (runnerError ''VALIDATION'' (if wrongVersion (rh_body req) then ''Unsupported runner protocol version''
              else ''Invalid request body'') (Some (flatten (rh_body req))))
       else (let body = the (rh_body req); context = contextOf (case getProp ''context'' body of Some c \<Rightarrow> c | None \<Rightarrow> JNull);
                 idempotencyKey = jsonString (getProp ''idempotencyKey'' body); input = getProp ''input'' body
         in case verifyRunnerToken jwtVerify token auth nowSec of
              Inl e \<Rightarrow> Refused 401 (runnerError ''UNAUTHORIZED'' (case e of SwiftErr c m \<Rightarrow> m | _ \<Rightarrow> ''Invalid or missing authorization'') None)
            | Inr claims \<Rightarrow>
              if \<not> scopeMatches claims context (rh_toolName req) idempotencyKey
              then Refused 401 (runnerError ''UNAUTHORIZED'' ''Runner token scope does not match request'' None)
              else (case js_get registry (rh_toolName req) of
                  None \<Rightarrow> Refused 404 (runnerError ''NOT_FOUND'' (''Tool \"'' @ rh_toolName req @ ''\" not found'') None)
                | Some tool \<Rightarrow> (case rt_inputSchema tool input of
                    Inl details \<Rightarrow> Refused 400 (runnerError ''VALIDATION''
                        (''Input validation failed for tool \"'' @ rh_toolName req @ ''\"'') (Some details))
                  | Inr dat \<Rightarrow> Admitted tool dat context idempotencyKey)))))"

definition executeTool :: "RunnerTool \<Rightarrow> json option \<Rightarrow> ToolContext \<Rightarrow> string \<Rightarrow> nat \<Rightarrow> nat \<Rightarrow> nat \<times> HandlerOutcome" where
  "executeTool tool inp ctx toolName toolTimeoutMs now =
     (let (d, r) = rt_execute tool inp ctx now;
          timeoutMsg = ''Tool \"'' @ toolName @ ''\" timed out after '' @ natToString toolTimeoutMs @ ''ms'' in
      case race [(map_option (\<lambda>x. now + x) d, Some r), (Some (now + timerDelay toolTimeoutMs), None)] of
        None \<Rightarrow> (now, OutcomeErr 500 [] [])
      | Some (t, None) \<Rightarrow> (t, OutcomeErr 504 ''TIMEOUT'' timeoutMsg)
      | Some (t, Some (Inr v)) \<Rightarrow> (t, OutcomeOk v)
      | Some (t, Some (Inl m)) \<Rightarrow> (t, OutcomeErr 500 ''EXECUTION_ERROR'' (case m of Some msg \<Rightarrow> msg | None \<Rightarrow> ''Unknown error'')))"

fun runnerReply :: "HandlerOutcome \<Rightarrow> nat \<times> json" where
  "runnerReply (OutcomeOk v) = (200, objOf [(''version'', Some (JStr RUNNER_PROTOCOL_VERSION)), (''result'', v)])"
| "runnerReply (OutcomeErr status code message) = (status, runnerError code (capError message) None)"

text \<open>One request against the runner: the reply, or the number of the execution whose outcome will be
  the reply, and the cache afterwards.\<close>

definition runnerHandle ::
  "jwt_verify \<Rightarrow> (json option \<Rightarrow> json) \<Rightarrow> RunnerAuthConfig \<Rightarrow> (string, RunnerTool) jsmap \<Rightarrow> nat \<Rightarrow> nat \<Rightarrow> nat
    \<Rightarrow> runner_http_request \<Rightarrow> IdempotencyCache \<Rightarrow> (nat \<times> json + nat) \<times> IdempotencyCache" where
  "runnerHandle jwtVerify flatten auth registry ttl maxEntries now req c =
     (case runnerAdmit jwtVerify flatten auth registry (now div 1000) req of
        Refused status body \<Rightarrow> (Inl (status, body), c)
      | Admitted tool dat context key \<Rightarrow> (case idemRun ttl maxEntries now key c of (i, c') \<Rightarrow> (Inr i, c')))"

section \<open>Lemmas\<close>

text \<open>The cap keeps a prefix of at most the bound; for messages in ASCII it is exactly that many bytes.  (A
  cut inside a longer character leaves a fragment, which decodes to the replacement character.)\<close>

lemma capError_ascii:
  assumes "list_all (\<lambda>c. (of_char c :: nat) < 128) m"
  shows "capError m = take RUNNER_MAX_ERROR_BYTES m"
proof -
  have "byteLength m = length m" using utf8Encode_length [of m] utf8Encode_ascii [OF assms] by simp
  moreover have "list_all (\<lambda>c. (of_char c :: nat) < 128) (take RUNNER_MAX_ERROR_BYTES m)"
    using assms by (auto simp: list_all_iff dest: in_set_takeD)
  ultimately show ?thesis
    by (simp add: capError_def utf8Encode_ascii [OF assms] take_map utf8Decode_map_ascii)
qed

lemma version_simp [simp]: "RUNNER_PROTOCOL_VERSION = ''1''"
  by (simp add: RUNNER_PROTOCOL_VERSION_def)

text \<open>What a runner replies, the executor reads back.\<close>

lemma interpret_ok: "(\<And>w. v = Some w \<Longrightarrow> wf_json w) \<Longrightarrow>
    interpretResponse 200 (stringify (snd (runnerReply (OutcomeOk v)))) = Done (ResOk v)"
proof -
  assume v: "\<And>w. v = Some w \<Longrightarrow> wf_json w"
  define j where "j = snd (runnerReply (OutcomeOk v))"
  have w: "wf_json j" using v by (cases v) (auto simp: objOf_def j_def)
  have "0 < length (stringify j)" by (simp add: objOf_def j_def)
  moreover have "RunnerSuccessResponseSchema j"
    by (cases v) (auto simp: RunnerSuccessResponseSchema_def strictObj_def objOf_def zLiteral_def zUnknown_def j_def)
  moreover have "getProp ''result'' j = v" by (cases v) (auto simp: objOf_def j_def)
  ultimately show ?thesis using js.dec_enc [OF w] unfolding j_def [symmetric] interpretResponse_def by simp
qed

lemma verify_workspace: "verifyRunnerToken jwtVerify token auth nowSec = Inr claims \<Longrightarrow>
    cl_workspaceId claims = au_expectedWorkspaceId auth"
  by (auto simp: verifyRunnerToken_def Let_def strClaim_def split: if_splits sum.splits)

text \<open>The request is well formed, its token verifies and its scope covers the request.\<close>

definition admitted :: "jwt_verify \<Rightarrow> RunnerAuthConfig \<Rightarrow> (string, RunnerTool) jsmap \<Rightarrow> nat \<Rightarrow> runner_http_request
    \<Rightarrow> RunnerTool \<Rightarrow> ToolContext \<Rightarrow> string \<Rightarrow> bool" where
  "admitted jwtVerify auth registry nowSec req tool ctx key = (\<exists>token claims body.
     bearerToken (rh_authorization req) = Some token \<and> rh_body req = Some body \<and> RunnerRequestSchema body \<and>
     verifyRunnerToken jwtVerify token auth nowSec = Inr claims \<and> scopeMatches claims ctx (rh_toolName req) key \<and>
     cl_workspaceId claims = au_expectedWorkspaceId auth \<and> js_get registry (rh_toolName req) = Some tool)"

lemma admit_scope:
  assumes "runnerAdmit jwtVerify flatten auth registry nowSec req = Admitted tool dat ctx key"
  shows "admitted jwtVerify auth registry nowSec req tool ctx key"
proof -
  obtain token where t: "bearerToken (rh_authorization req) = Some token"
    using assms by (simp add: runnerAdmit_def split: option.splits)
  obtain body where b: "rh_body req = Some body" "RunnerRequestSchema body"
    using assms t by (simp add: runnerAdmit_def split: option.splits if_splits)
  obtain claims where c: "verifyRunnerToken jwtVerify token auth nowSec = Inr claims"
    using assms t b by (simp add: runnerAdmit_def Let_def split: sum.splits)
  show ?thesis
    using assms t b c verify_workspace [OF c]
    by (auto simp: runnerAdmit_def admitted_def Let_def split: if_splits option.splits sum.splits)
qed

end
