(* ===== verification/Machine.thy ===== *)
theory Machine
  imports Prelude
begin

text \<open>A component whose methods run to completion between awaits is a machine: a step function over the
  calls it receives, run over a list of them in the order in which they take effect.  The contract of
  its state is an invariant that every step keeps; a second state function may only move along a
  reflexive and transitive relation (a counter that grows, a record that stays final).\<close>

definition runSteps :: "('e \<Rightarrow> 's \<Rightarrow> 's) \<Rightarrow> 'e list \<Rightarrow> 's \<Rightarrow> 's" where
  "runSteps step es s = fold step es s"

lemma runSteps_simps [simp]: "runSteps step [] s = s" "runSteps step (e # es) s = runSteps step es (step e s)"
  "runSteps step (es @ fs) s = runSteps step fs (runSteps step es s)"
  by (simp_all add: runSteps_def)

locale machine =
  fixes step :: "'e \<Rightarrow> 's \<Rightarrow> 's" and inv :: "'s \<Rightarrow> bool"
  assumes step_inv: "inv s \<Longrightarrow> inv (step e s)"
begin

lemma run_inv: "inv s \<Longrightarrow> inv (runSteps step es s)"
  by (induction es arbitrary: s) (simp_all add: step_inv)

end

text \<open>A machine whose states, as long as the invariant holds, move along a preorder.\<close>

locale monotone_machine = machine +
  fixes le :: "'s \<Rightarrow> 's \<Rightarrow> bool"
  assumes le_refl: "le s s" and le_trans: "le s t \<Longrightarrow> le t u \<Longrightarrow> le s u"
    and step_le: "inv s \<Longrightarrow> le s (step e s)"
begin

lemma run_le: "inv s \<Longrightarrow> le s (runSteps step es s)"
proof (induction es arbitrary: s)
  case (Cons e es)
  then show ?case using le_trans [OF step_le] step_inv by simp blast
qed (simp add: le_refl)

end

end
