(* ===== verification/Run_Service.thy ===== *)
theory Run_Service
  imports Machine Loop_Status Loop_Example
begin

text \<open>\<open>runtime/src/session-lock.ts\<close>, \<open>engine.ts\<close> and \<open>run-execution-service.ts\<close>: who may run, and the life
  of a run from \<open>start\<close> to the release of its lock.

  The service is a machine.  A call \<open>start\<close> is split at its awaits: \<open>StartRun\<close> (up to the first query),
  \<open>Prereqs\<close>, \<open>CreateRow\<close>, \<open>CreateMessage\<close>; then \<open>Work\<close> steps are the queries of the agent loop and
  \<open>DriveEnd\<close> is the \<open>finally\<close> block of \<open>drive\<close>.  Any interleaving of the steps of several runs and of
  \<open>requestCancel\<close> is a list of operations; one that does not fit the phase of its run changes nothing.
  The run id of a \<open>StartRun\<close> is the draw of \<open>generateRunId\<close>; a draw that collides with a known run is
  excluded (it changes nothing).\<close>

section \<open>Session lock\<close>

record LockEntry =
  lk_runId :: string
  lk_aborted :: bool

type_synonym SessionLock = "(string, LockEntry) jsmap"

definition lockAcquire :: "string \<Rightarrow> string \<Rightarrow> SessionLock \<Rightarrow> js_error + SessionLock" where
  "lockAcquire sessionId runId locks = (case js_get locks sessionId of
      Some existing \<Rightarrow> Inl (SwiftErr CONFLICT (''Session '' @ sessionId @ '' already has an active run: '' @ lk_runId existing))
    | None \<Rightarrow> Inr (js_set sessionId \<lparr>lk_runId = runId, lk_aborted = False\<rparr> locks))"

definition lockRelease :: "string \<Rightarrow> string \<Rightarrow> SessionLock \<Rightarrow> SessionLock" where
  "lockRelease sessionId runId locks = (case js_get locks sessionId of
      Some existing \<Rightarrow> if lk_runId existing = runId then js_delete sessionId locks else locks
    | None \<Rightarrow> locks)"

definition lockIsActive :: "string \<Rightarrow> SessionLock \<Rightarrow> bool" where
  "lockIsActive sessionId locks = js_has locks sessionId"

section \<open>Prerequisites of a run\<close>

text \<open>\<open>resolveRunPrereqs\<close>; the resolver is that of \<open>Tools\<close>, applied to its current cache.\<close>

definition sessionStatusName :: "SessionStatus \<Rightarrow> string" where
  "sessionStatusName st = (case st of Active \<Rightarrow> ''active'' | Closed \<Rightarrow> ''closed'')"

definition resolveRunPrereqs ::
  "registrar option \<Rightarrow> resolver_cache \<Rightarrow> db \<Rightarrow> string \<Rightarrow> js_error + AgentRecord \<times> executor" where
  "resolveRunPrereqs reg cache d sessionId =
     (case selectOne (\<lambda>r. se_sessionId r = sessionId) (db_sessions d) of
        None \<Rightarrow> Inl (SwiftErr NOT_FOUND (''Session '' @ sessionId @ '' not found''))
      | Some session \<Rightarrow>
          if se_status session \<noteq> Active
          then Inl (SwiftErr VALIDATION (''Session '' @ sessionId @ '' is '' @ sessionStatusName (se_status session) @ '', not active''))
          else (case selectOne (\<lambda>a. ag_agentId a = se_agentId session) (db_agents d) of
              None \<Rightarrow> Inl (SwiftErr NOT_FOUND (''Agent '' @ se_agentId session @ '' not found''))
            | Some agent \<Rightarrow> (case fst (resolveExecutor reg agent cache) of Inl e \<Rightarrow> Inl e | Inr x \<Rightarrow> Inr (agent, x))))"

text \<open>\<open>executePreparedRun\<close>: the loop's environment for a prepared run, with the signal of the caller merged
  with the total deadline.  \<open>AgentEngine.run\<close> passes its own signal and no prepared message.\<close>

definition preparedEnv :: "loop_env \<Rightarrow> string \<Rightarrow> string \<Rightarrow> string \<Rightarrow> string \<Rightarrow> AgentRecord \<Rightarrow> abort_signal \<Rightarrow> nat \<Rightarrow> loop_env" where
  "preparedEnv env runId sessionId userMessage userMessageId agent sig now = env\<lparr>le_runId := runId, le_sessionId := sessionId,
     le_userContent := userMessage, le_agent := agent, le_prepared := Some userMessageId,
     le_signal := signalAny [sig, createDeadlineController (op_totalRunMs (le_options env)) now]\<rparr>"

definition executePreparedRun ::
  "registrar option \<Rightarrow> resolver_cache \<Rightarrow> loop_env \<Rightarrow> string \<Rightarrow> string \<Rightarrow> string \<Rightarrow> string \<Rightarrow> abort_signal \<Rightarrow> unit loopM" where
  "executePreparedRun reg cache env runId sessionId userMessage userMessageId sig = (\<lambda>s.
     case resolveRunPrereqs reg cache (ls_db s) sessionId of
       Inl e \<Rightarrow> (Throw e, s)
     | Inr (agent, x) \<Rightarrow> runAgentLoop (preparedEnv env runId sessionId userMessage userMessageId agent sig (ls_clk s)) s)"

definition legacyEnv :: "loop_env \<Rightarrow> string \<Rightarrow> string \<Rightarrow> string \<Rightarrow> AgentRecord \<Rightarrow> abort_signal \<Rightarrow> loop_env" where
  "legacyEnv env runId sessionId userMessage agent sig = env\<lparr>le_runId := runId, le_sessionId := sessionId,
     le_userContent := userMessage, le_agent := agent, le_prepared := None, le_signal := sig\<rparr>"

text \<open>\<open>AgentEngine.run\<close>: lock, prerequisites, loop, release.\<close>

definition engineRun ::
  "registrar option \<Rightarrow> resolver_cache \<Rightarrow> loop_env \<Rightarrow> string \<Rightarrow> string \<Rightarrow> abort_signal \<Rightarrow> SessionLock \<Rightarrow> loop_state
    \<Rightarrow> (unit outcome \<times> loop_state) \<times> SessionLock" where
  "engineRun reg cache env sessionId userMessage sig locks s =
     (let runId = generateRunId (le_nano env) (ls_ids s); s1 = s\<lparr>ls_ids := Suc (ls_ids s)\<rparr> in
      case lockAcquire sessionId runId locks of
        Inl e \<Rightarrow> ((Throw e, s1), locks)
      | Inr locks1 \<Rightarrow>
          (let r = (case resolveRunPrereqs reg cache (ls_db s1) sessionId of
               Inl e \<Rightarrow> (Throw e, s1)
             | Inr (agent, x) \<Rightarrow> runAgentLoop (legacyEnv env runId sessionId userMessage agent sig) s1)
           in (r, lockRelease sessionId runId locks1)))"

section \<open>The service\<close>

datatype runPhase = Preparing | Prepared AgentRecord | RowCreated | Driving

record service =
  sv_locks :: SessionLock
  sv_activeRuns :: "(string, bool) jsmap"
  sv_cancelledRuns :: "string set"
  sv_runs :: "(string, string \<times> runPhase) jsmap"
  sv_db :: db

definition newService :: "db \<Rightarrow> service" where
  "newService d = \<lparr>sv_locks = [], sv_activeRuns = [], sv_cancelledRuns = {}, sv_runs = [], sv_db = d\<rparr>"

text \<open>The writes of the agent loop for its run.\<close>

datatype loopWrite = WriteMessage string MessageRole string | WriteToolCall string string "json option"
  | WriteResult tcSet string | WriteRun runSet

definition applyWrite :: "nat \<Rightarrow> string \<Rightarrow> string \<Rightarrow> loopWrite \<Rightarrow> db \<Rightarrow> db" where
  "applyWrite now runId sessionId w d = (case w of
      WriteMessage mid role content \<Rightarrow> (case messages_create now mid sessionId (Some runId) role content d of Inl e \<Rightarrow> d | Inr (x, d') \<Rightarrow> d')
    | WriteToolCall cid name arg \<Rightarrow> (case toolCalls_create now cid runId name arg d of Inl e \<Rightarrow> d | Inr (x, d') \<Rightarrow> d')
    | WriteResult v cid \<Rightarrow> (case toolCalls_write now v cid d of Inl e \<Rightarrow> d | Inr (x, d') \<Rightarrow> d')
    | WriteRun v \<Rightarrow> (case runs_terminal now v runId d of Inl e \<Rightarrow> d | Inr (x, d') \<Rightarrow> d'))"

text \<open>The \<open>catch\<close> of \<open>start\<close> and the last lines of \<open>drive\<close>.\<close>

definition freeRun :: "string \<Rightarrow> string \<Rightarrow> service \<Rightarrow> service" where
  "freeRun sessionId runId s = s\<lparr>sv_activeRuns := js_delete runId (sv_activeRuns s),
     sv_locks := lockRelease sessionId runId (sv_locks s), sv_runs := js_delete runId (sv_runs s)\<rparr>"

datatype serviceOp = StartRun string string
  | Prereqs string "registrar option" resolver_cache db_fault
  | CreateRow string nat db_fault
  | CreateMessage string string string nat db_fault
  | Work string nat loopWrite
  | DriveEnd string nat db_fault
  | RequestCancel string

definition setPhase :: "string \<Rightarrow> string \<Rightarrow> runPhase \<Rightarrow> service \<Rightarrow> service" where
  "setPhase runId sessionId ph s = s\<lparr>sv_runs := js_set runId (sessionId, ph) (sv_runs s)\<rparr>"

text \<open>A query of \<open>start\<close>: what it does to the database and whether the code sees it fail.\<close>

definition runQuery :: "db_fault \<Rightarrow> (js_error + 'a \<times> db) \<Rightarrow> db \<Rightarrow> bool \<times> db" where
  "runQuery f r d = (if f = FailsBefore then (False, d)
     else (case r of Inl e \<Rightarrow> (False, d) | Inr (x, d') \<Rightarrow> (f \<noteq> FailsAfter, d')))"

fun serviceStep :: "serviceOp \<Rightarrow> service \<Rightarrow> service" where
  "serviceStep (StartRun sessionId runId) s =
     (if js_has (sv_runs s) runId \<or> runId \<in> ru_runId ` set (db_runs (sv_db s)) then s
      else (case lockAcquire sessionId runId (sv_locks s) of Inl e \<Rightarrow> s
        | Inr locks \<Rightarrow> setPhase runId sessionId Preparing (s\<lparr>sv_locks := locks,
            sv_activeRuns := js_set runId False (sv_activeRuns s)\<rparr>)))"
| "serviceStep (Prereqs runId reg cache f) s = (case js_get (sv_runs s) runId of
      Some (sessionId, Preparing) \<Rightarrow>
        (if f \<noteq> NoFault then freeRun sessionId runId s
         else (case resolveRunPrereqs reg cache (sv_db s) sessionId of Inl e \<Rightarrow> freeRun sessionId runId s
           | Inr (agent, x) \<Rightarrow> setPhase runId sessionId (Prepared agent) s))
    | _ \<Rightarrow> s)"
| "serviceStep (CreateRow runId now f) s = (case js_get (sv_runs s) runId of
      Some (sessionId, Prepared agent) \<Rightarrow>
        (case runQuery f (runs_create now runId sessionId (model (ag_modelConfig agent)) (sv_db s)) (sv_db s) of (ok, d) \<Rightarrow>
          if ok then setPhase runId sessionId RowCreated (s\<lparr>sv_db := d\<rparr>) else freeRun sessionId runId (s\<lparr>sv_db := d\<rparr>))
    | _ \<Rightarrow> s)"
| "serviceStep (CreateMessage runId mid content now f) s = (case js_get (sv_runs s) runId of
      Some (sessionId, RowCreated) \<Rightarrow>
        (case runQuery f (messages_create now mid sessionId (Some runId) User content (sv_db s)) (sv_db s) of (ok, d) \<Rightarrow>
          if ok then setPhase runId sessionId Driving (s\<lparr>sv_db := d\<rparr>) else freeRun sessionId runId (s\<lparr>sv_db := d\<rparr>))
    | _ \<Rightarrow> s)"
| "serviceStep (Work runId now w) s = (case js_get (sv_runs s) runId of
      Some (sessionId, Driving) \<Rightarrow> s\<lparr>sv_db := applyWrite now runId sessionId w (sv_db s)\<rparr>
    | _ \<Rightarrow> s)"
| "serviceStep (DriveEnd runId now f) s = (case js_get (sv_runs s) runId of
      Some (sessionId, Driving) \<Rightarrow> freeRun sessionId runId
        (if runId \<in> sv_cancelledRuns s
         then s\<lparr>sv_db := snd (runQuery f (runs_cancel now runId (sv_db s)) (sv_db s)), sv_cancelledRuns := sv_cancelledRuns s - {runId}\<rparr>
         else s)
    | _ \<Rightarrow> s)"
| "serviceStep (RequestCancel runId) s = (case js_get (sv_activeRuns s) runId of None \<Rightarrow> s
    | Some ab \<Rightarrow> s\<lparr>sv_cancelledRuns := insert runId (sv_cancelledRuns s),
        sv_activeRuns := js_set runId True (sv_activeRuns s)\<rparr>)"

section \<open>One run per session\<close>

text \<open>A session is locked by run \<open>r\<close> exactly when \<open>r\<close> is a run of the service for that session, and the
  registry lists exactly the runs of the service.\<close>

definition lockAgree :: "SessionLock \<Rightarrow> (string, string \<times> runPhase) jsmap \<Rightarrow> bool" where
  "lockAgree locks runs = (\<forall>sid rid. (\<exists>k. js_get locks sid = Some k \<and> lk_runId k = rid) = (\<exists>ph. js_get runs rid = Some (sid, ph)))"

definition registryAgree :: "(string, bool) jsmap \<Rightarrow> (string, string \<times> runPhase) jsmap \<Rightarrow> bool" where
  "registryAgree active runs = (\<forall>rid. js_has active rid = js_has runs rid)"

definition serviceInv :: "service \<Rightarrow> bool" where
  "serviceInv s = (lockAgree (sv_locks s) (sv_runs s) \<and> registryAgree (sv_activeRuns s) (sv_runs s))"

lemma get_set [simp]: "map_of (AList.update k v m) j = (if j = k then Some v else map_of m j)"
  by (simp add: update_conv')

lemma get_delete [simp]: "map_of (AList.delete k m) j = (if j = k then None else map_of m j)"
  by (simp add: delete_conv')

lemma agree_lock: "lockAgree locks runs \<Longrightarrow> js_get runs rid = Some (sid, ph) \<Longrightarrow> \<exists>k. js_get locks sid = Some k \<and> lk_runId k = rid"
  unfolding lockAgree_def by blast

lemma agree_new:
  assumes "lockAgree locks runs" "js_get locks sid = None" "js_get runs rid = None"
  shows "lockAgree (js_set sid \<lparr>lk_runId = rid, lk_aborted = b\<rparr> locks) (js_set rid (sid, ph) runs)"
proof -
  have "js_get runs r \<noteq> Some (sid, p)" for r p using agree_lock [OF assms(1)] assms(2) by fastforce
  then show ?thesis using assms unfolding lockAgree_def by auto
qed

lemma agree_free:
  assumes "lockAgree locks runs" "js_get runs rid = Some (sid, ph)"
  shows "lockAgree (lockRelease sid rid locks) (js_delete rid runs)"
proof -
  obtain k where k: "js_get locks sid = Some k" "lk_runId k = rid" using agree_lock [OF assms] by blast
  have same: "rid' = rid" if "js_get runs rid' = Some (sid, ph')" for rid' ph'
    using agree_lock [OF assms(1) that] k by simp
  have eq: "(\<exists>k. js_get locks t = Some k \<and> lk_runId k = r) = (\<exists>ph. js_get runs r = Some (t, ph))" for t r
    using assms(1) unfolding lockAgree_def by blast
  have rel: "lockRelease sid rid locks = js_delete sid locks" using k by (simp add: lockRelease_def)
  show ?thesis
    unfolding lockAgree_def rel
  proof (intro allI)
    fix t r
    show "(\<exists>k. js_get (js_delete sid locks) t = Some k \<and> lk_runId k = r) = (\<exists>ph. js_get (js_delete rid runs) r = Some (t, ph))"
    proof (cases "t = sid")
      case True
      then show ?thesis using same [of r] by auto
    next
      case False
      then have "r = rid \<Longrightarrow> \<not> (\<exists>k. js_get locks t = Some k \<and> lk_runId k = r)" using eq [of t r] assms(2) by simp
      then show ?thesis using False eq [of t r] assms(2) by (cases "r = rid") simp_all
    qed
  qed
qed

lemma agree_phase: "lockAgree locks runs \<Longrightarrow> js_get runs rid = Some (sid, ph) \<Longrightarrow> lockAgree locks (js_set rid (sid, ph') runs)"
  unfolding lockAgree_def by auto

lemma registry_set: "registryAgree a r \<Longrightarrow> registryAgree (js_set k v a) (js_set k w r)"
  "registryAgree a r \<Longrightarrow> registryAgree (js_delete k a) (js_delete k r)"
  by (simp_all add: registryAgree_def)

lemma registry_phase: "registryAgree a r \<Longrightarrow> js_get r k = Some u \<Longrightarrow> registryAgree a (js_set k w r)"
  "registryAgree a r \<Longrightarrow> js_get a k = Some ab \<Longrightarrow> registryAgree (js_set k v a) r"
  by (auto simp: registryAgree_def)

lemma freeRun_simps [simp]:
  "js_get (sv_runs (freeRun sid rid s)) j = (if j = rid then None else js_get (sv_runs s) j)"
  "sv_db (freeRun sid rid s) = sv_db s" "sv_cancelledRuns (freeRun sid rid s) = sv_cancelledRuns s"
  by (simp_all add: freeRun_def)

lemma setPhase_simps [simp]:
  "js_get (sv_runs (setPhase rid sid ph s)) j = (if j = rid then Some (sid, ph) else js_get (sv_runs s) j)"
  "sv_db (setPhase rid sid ph s) = sv_db s" "sv_cancelledRuns (setPhase rid sid ph s) = sv_cancelledRuns s"
  by (simp_all add: setPhase_def)

lemma freeRun_inv: "serviceInv s \<Longrightarrow> js_get (sv_runs s) rid = Some (sid, ph) \<Longrightarrow> serviceInv (freeRun sid rid s)"
  unfolding serviceInv_def freeRun_def by (simp add: agree_free registry_set)

lemma setPhase_inv: "serviceInv s \<Longrightarrow> js_get (sv_runs s) rid = Some (sid, ph) \<Longrightarrow> serviceInv (setPhase rid sid ph' s)"
  unfolding serviceInv_def setPhase_def by (simp add: agree_phase registry_phase)

lemma serviceInv_db [simp]: "serviceInv (s\<lparr>sv_db := d\<rparr>) = serviceInv s"
  by (simp add: serviceInv_def)

lemma serviceInv_cancelled [simp]: "serviceInv (s\<lparr>sv_cancelledRuns := c\<rparr>) = serviceInv s"
  by (simp add: serviceInv_def)

lemma serviceStep_inv: "serviceInv s \<Longrightarrow> serviceInv (serviceStep op s)"
proof (induction op s rule: serviceStep.induct)
  case (1 sid rid s)
  show ?case
  proof (cases "js_get (sv_runs s) rid")
    case None
    then show ?thesis using 1
      by (simp add: lockAcquire_def setPhase_def serviceInv_def agree_new registry_set split: option.splits)
  next
    case (Some u)
    then show ?thesis using 1 by simp
  qed
next
  case (7 rid s)
  then show ?case by (auto simp: serviceInv_def split: option.splits intro: registry_phase)
qed (auto split: option.splits runPhase.splits sum.splits prod.splits intro: freeRun_inv setPhase_inv)

interpretation serviceM: machine serviceStep serviceInv
  by unfold_locales (rule serviceStep_inv)

lemma newService_inv: "serviceInv (newService d)"
  by (simp add: serviceInv_def newService_def lockAgree_def registryAgree_def)

lemma reached_inv: "serviceInv (runSteps serviceStep ops (newService d))"
  by (rule serviceM.run_inv [OF newService_inv])

lemma reached_lock: "js_get (sv_runs (runSteps serviceStep ops (newService d))) rid = Some (sid, ph) \<Longrightarrow>
    \<exists>k. js_get (sv_locks (runSteps serviceStep ops (newService d))) sid = Some k \<and> lk_runId k = rid"
  using reached_inv unfolding serviceInv_def by (blast intro: agree_lock)

text \<open>Property C11: at most one run per session is in progress, and a session is locked exactly while one is:
  whatever the interleaving of starts, failures, cancellations and ends of runs, no session is wedged.\<close>

theorem one_run_per_session:
  assumes "s = runSteps serviceStep ops (newService d)"
    and "js_get (sv_runs s) r1 = Some (sid, p1)" "js_get (sv_runs s) r2 = Some (sid, p2)"
  shows "r1 = r2 \<and> lockIsActive sid (sv_locks s) \<and> map_option lk_runId (js_get (sv_locks s) sid) = Some r1"
  using reached_lock [of ops d, folded assms(1), OF assms(2)] reached_lock [of ops d, folded assms(1), OF assms(3)]
  by (auto simp: lockIsActive_def)

text \<open>A start that reaches its drive, on the database of the example.\<close>

definition exRow :: "serviceOp list" where
  "exRow = [StartRun ''se'' ''r1'', Prereqs ''r1'' (Some (\<lambda>a lx. (1, lx))) [] NoFault, CreateRow ''r1'' 1 NoFault]"

definition exStart :: "serviceOp list" where
  "exStart = exRow @ [CreateMessage ''r1'' ''m1'' ''q'' 2 NoFault]"

lemmas service_ex = newService_def exDb_def exAgent_def lockAcquire_def lockRelease_def setPhase_def freeRun_def runQuery_def
  resolveRunPrereqs_def resolveExecutor_def hasRunnerUrl_def selectOne_def firstRow_def Let_def runs_create_def messages_create_def

lemma exRow_state: "sv_runs (runSteps serviceStep exRow (newService exDb)) = [(''r1'', ''se'', RowCreated)]"
  by (simp add: exRow_def service_ex)

lemma exRow_created: "js_get (sv_runs (runSteps serviceStep exRow (newService exDb))) ''r1'' = Some (''se'', RowCreated)"
  by (simp add: exRow_state)

lemma exStart_state: "sv_runs (runSteps serviceStep exStart (newService exDb)) = [(''r1'', ''se'', Driving)]"
  "sv_locks (runSteps serviceStep exStart (newService exDb)) = [(''se'', \<lparr>lk_runId = ''r1'', lk_aborted = False\<rparr>)]"
  "sv_activeRuns (runSteps serviceStep exStart (newService exDb)) = [(''r1'', False)]"
  "sv_cancelledRuns (runSteps serviceStep exStart (newService exDb)) = {}"
  by (simp_all add: exStart_def exRow_def service_ex)

lemma exStart_driving: "js_get (sv_runs (runSteps serviceStep exStart (newService exDb))) ''r1'' = Some (''se'', Driving)"
  "js_has (sv_activeRuns (runSteps serviceStep exStart (newService exDb))) ''r1''"
  by (simp_all add: exStart_state)

theorem one_run_per_session_witness:
  "lockIsActive ''se'' (sv_locks (runSteps serviceStep exStart (newService exDb)))"
  using one_run_per_session [OF refl exStart_driving(1) exStart_driving(1)] by blast

text \<open>Property C12: a session that no run is in progress on accepts a new run: its lock is free.\<close>

theorem idle_session_unlocked:
  assumes "s = runSteps serviceStep ops (newService d)" "sid \<notin> (\<lambda>(r, t, p). t) ` set (sv_runs s)"
  shows "lockAcquire sid rid (sv_locks s) = Inr (js_set sid \<lparr>lk_runId = rid, lk_aborted = False\<rparr> (sv_locks s))"
proof -
  have "js_get (sv_runs s) r \<noteq> Some (sid, p)" for r p
  proof
    assume "js_get (sv_runs s) r = Some (sid, p)"
    then have "(r, sid, p) \<in> set (sv_runs s)" by (rule map_of_SomeD)
    then show False using assms(2) by force
  qed
  then have "js_get (sv_locks s) sid = None"
    using reached_inv [of ops d, folded assms(1)] unfolding serviceInv_def lockAgree_def by (metis not_Some_eq)
  then show ?thesis by (simp add: lockAcquire_def)
qed

theorem idle_session_unlocked_witness:
  "lockAcquire ''se'' ''r2'' (sv_locks (runSteps serviceStep (exStart @ [DriveEnd ''r1'' 3 NoFault]) (newService exDb)))
     = Inr [(''se'', \<lparr>lk_runId = ''r2'', lk_aborted = False\<rparr>)]"
proof -
  have e: "sv_runs (runSteps serviceStep (exStart @ [DriveEnd ''r1'' 3 NoFault]) (newService exDb)) = []"
    "sv_locks (runSteps serviceStep (exStart @ [DriveEnd ''r1'' 3 NoFault]) (newService exDb)) = []"
    using exStart_state by (simp_all add: freeRun_def lockRelease_def)
  show ?thesis
    using idle_session_unlocked [of _ "exStart @ [DriveEnd ''r1'' 3 NoFault]" exDb "''se''" "''r2''", OF refl] unfolding e by simp
qed

section \<open>Cancellation\<close>








section \<open>Starts that fail half way\<close>

text \<open>A start whose user message cannot be written frees its session and its registry slot, but
  leaves the run row it has just created as it is: the row stays \<open>running\<close> although no run is in
  progress and nothing will ever finish it.\<close>

theorem failed_start_leaves_row:
  assumes "js_get (sv_runs s) rid = Some (sid, RowCreated)"
    and "t = serviceStep (CreateMessage rid mid content now FailsBefore) s"
  shows "js_get (sv_runs t) rid = None \<and> js_get (sv_activeRuns t) rid = None \<and> sv_db t = sv_db s"
  using assms by (simp add: runQuery_def freeRun_def)

theorem failed_start_leaves_row_witness:
  "js_get (sv_runs (serviceStep (CreateMessage ''r1'' ''m1'' ''q'' 2 FailsBefore)
     (runSteps serviceStep exRow (newService exDb)))) ''r1'' = None"
  using failed_start_leaves_row [OF exRow_created refl] by blast

section \<open>The engine's own entry point\<close>

text \<open>\<open>AgentEngine.run\<close> makes the loop write the user message, which refers to the run, before the run row.\<close>

definition blank :: "db \<Rightarrow> ChatEvent list \<Rightarrow> loop_state \<Rightarrow> bool" where
  "blank d es t = (ls_db t = d \<and> ls_requests t = [] \<and> ls_open t = [] \<and> ls_events t = es)"

lemma createMessage_fk:
  assumes "le_runId env \<notin> ru_runId ` set (db_runs d)" "blank d [] s"
  shows "wp (createMessage env m ro co) (\<lambda>r t. (\<exists>e. r = Throw e) \<and> blank d [] t) s"
proof -
  have "\<exists>e. \<forall>now. messages_create now m (le_sessionId env) (Some (le_runId env)) ro co d = Inl e"
    using assms(1) by (cases "m \<in> me_messageId ` set (db_messages d)"; cases "le_sessionId env \<in> se_sessionId ` set (db_sessions d)")
      (auto simp: messages_create_def)
  then obtain e where "messages_create now m (le_sessionId env) (Some (le_runId env)) ro co d = Inl e" for now by blast
  then show ?thesis
    using assms(2) unfolding createMessage_def
    by (auto simp: wp_def blank_def dbq_def mthen_def mbind_def Let_def advance_def)
qed

lemma terminal_blank:
  assumes "le_runId env \<notin> ru_runId ` set (db_runs d)" "blank d es s"
  shows "wp (safe (dbq env (\<lambda>now. runs_terminal now w (le_runId env)))) (\<lambda>r t. r = Val () \<and> blank d es t) s"
proof -
  have "updateWhere (runLive (le_runId env)) f (db_runs d) = db_runs d" for f
    by (rule updateWhere_none) (use assms(1) in \<open>force simp: runLive_def\<close>)
  then show ?thesis
    using assms(2) unfolding wp_safe
    by (auto simp: wp_def blank_def dbq_def Let_def advance_def runs_terminal_def)
qed

lemma record_blank:
  assumes "le_runId env \<notin> ru_runId ` set (db_runs d)" "blank d [] s" "isTerminal e"
  shows "wp (mthen (safe (dbq env (\<lambda>now. runs_terminal now w (le_runId env)))) (emit env e)) (\<lambda>r t. (\<forall>x. r \<noteq> Throw x) \<and> blank d [e] t) s"
  unfolding wp_mthen by (rule wp_mono [OF terminal_blank [OF assms(1,2)]]) (auto simp: wp_emit blank_def)

lemma isTerminal_RunFailed: "isTerminal (RunFailed i j c m x)"
  by (simp add: isTerminal_def)

lemma onError_blank:
  assumes "le_runId env \<notin> ru_runId ` set (db_runs d)" "blank d [] s"
  shows "wp (onError env err) (\<lambda>r t. (\<forall>x. r \<noteq> Throw x) \<and> (\<exists>e. isTerminal e \<and> blank d [e] t)) s"
proof -
  have b: "blank d [] (s\<lparr>ls_traceStatus := False, ls_traceError := Some err\<rparr>)" using assms(2) by (simp add: blank_def)
  have rec: "wp (mthen (safe (dbq env (\<lambda>now. runs_terminal now w (le_runId env)))) (emit env (RunFailed i j c m x)))
      (\<lambda>r t. (\<forall>x. r \<noteq> Throw x) \<and> (\<exists>e. isTerminal e \<and> blank d [e] t)) (s\<lparr>ls_traceStatus := False, ls_traceError := Some err\<rparr>)" for w i j c m x
    by (rule wp_mono [OF record_blank [OF assms(1) b]]) (simp_all, blast intro: isTerminal_RunFailed)
  show ?thesis
    unfolding onError_def Let_def wp_mthen [of "modify _"] wp_modify wp_mbind wp_gets outcome.case
    by (auto simp: runs_fail_def runs_cancel_def runs_timeout_def split: terminalCause.splits option.splits intro!: rec)
qed

lemma finalizer_blank: "blank d es s \<Longrightarrow> wp (finalizer env) (\<lambda>r t. r = Val () \<and> blank d es t) s"
  unfolding finalizer_def by (auto simp: wp_simps blank_def spanOp_def advance_def split: option.splits)

lemma legacy_fails:
  assumes "le_prepared env = None" "le_runId env \<notin> ru_runId ` set (db_runs d)"
  shows "case runAgentLoop env (initState clk ids d rg) of (r, s) \<Rightarrow>
     ls_db s = d \<and> ls_requests s = [] \<and> map isTerminal (ls_events s) = [True]"
proof -
  let ?Q = "\<lambda>r t. \<exists>e. isTerminal e \<and> blank d [e] t"
  have fin: "wp (finalizer env) (\<lambda>q u. case q of Val _ \<Rightarrow> ?Q r u | Throw x \<Rightarrow> ?Q (Throw x) u | Torn \<Rightarrow> ?Q Torn u) t"
    if "isTerminal e" "blank d [e] t" for e t and r :: "unit outcome"
    using finalizer_blank [OF that(2)] by (rule wp_mono) (use that in auto)
  have try1: "wp (tryBody env m) (\<lambda>r t. (\<exists>e. r = Throw e) \<and> blank d [] t) s" if "blank d [] s" for m s
    unfolding tryBody_def startRun_def wp_mthen wp_whenM if_P [OF assms(1)]
    by (rule wp_mono [OF createMessage_fk [OF assms(2) that]]) auto
  have err: "wp (tryCatch (tryBody env m) (onError env)) (\<lambda>r t. (\<forall>x. r \<noteq> Throw x) \<and> ?Q r t) s" if "blank d [] s" for m s
    unfolding wp_tryCatch by (rule wp_mono [OF try1 [OF that]]) (auto intro: onError_blank [OF assms(2)])
  have body: "wp (tryFinally (tryCatch (tryBody env m) (onError env)) (finalizer env)) ?Q s" if "blank d [] s" for m s
    unfolding wp_tryFinally by (rule wp_mono [OF err [OF that]]) (auto intro: fin)
  have "wp (runAgentLoop env) ?Q (initState clk ids d rg)"
    unfolding runAgentLoop_def wp_mbind using assms(1)
    by (simp add: wp_newId initState_def) (rule body, simp add: blank_def)
  then show ?thesis by (auto simp: wp_def blank_def split: prod.splits)
qed

text \<open>On a database that enforces its foreign keys the loop of \<open>AgentEngine.run\<close> never gets past
  its first query: for a run id that has no row yet nothing is persisted, no provider is asked, and the
  run only reports a failure.\<close>

theorem legacy_run_fails:
  assumes "runId \<notin> ru_runId ` set (db_runs d)"
  shows "case runAgentLoop (legacyEnv env runId sessionId userMessage agent sig) (initState clk ids d rg) of (r, s) \<Rightarrow>
     ls_db s = d \<and> ls_requests s = [] \<and> map isTerminal (ls_events s) = [True]"
  by (rule legacy_fails) (simp_all add: legacyEnv_def assms)

theorem legacy_run_fails_witness:
  "case runAgentLoop (legacyEnv (exEnv exAnswers []) ''r9'' ''se'' ''hello'' exAgent []) (initState 0 0 exDb exRegistry) of (r, s) \<Rightarrow>
     ls_db s = exDb \<and> ls_requests s = [] \<and> map isTerminal (ls_events s) = [True]"
  by (rule legacy_run_fails) (simp add: exDb_def)

end
