(* ===== verification/Mediator_Config.thy ===== *)
theory Mediator_Config
  imports Complex_Main Json
begin

text \<open>\<open>playground/backend/src/mediator/config.ts\<close>: the guardrail configuration from the environment, with the
  JavaScript number and date conversions that the mediator uses.  Prices are rationals: the rounding of
  the double arithmetic in the derived reservation is outside the model.\<close>

section \<open>Fallible straight-line code\<close>

definition tryE :: "'e + 'a \<Rightarrow> ('a \<Rightarrow> 'e + 'b) \<Rightarrow> 'e + 'b" where
  "tryE m f = (case m of Inl e \<Rightarrow> Inl e | Inr x \<Rightarrow> f x)"

lemma tryE_simps [simp]: "tryE (Inl e) f = Inl e" "tryE (Inr x) f = f x"
  by (simp_all add: tryE_def)

lemma tryE_Inr: "tryE m f = Inr y \<longleftrightarrow> (\<exists>x. m = Inr x \<and> f x = Inr y)"
  by (cases m) simp_all

section \<open>Numbers\<close>

text \<open>\<open>Number.parseFloat\<close>: optional sign, digits, optional fraction, optional exponent; \<^const>\<open>None\<close> is \<open>NaN\<close>
  (or an infinity, which the callers reject in the same way).\<close>

definition signOf :: "string \<Rightarrow> rat \<times> string" where
  "signOf s = (case s of c # cs \<Rightarrow> if c = CHR ''-'' then (- 1, cs) else if c = CHR ''+'' then (1, cs) else (1, s) | [] \<Rightarrow> (1, []))"

definition exponentOf :: "string \<Rightarrow> int" where
  "exponentOf s = (case s of c # cs \<Rightarrow>
      if c = CHR ''e'' \<or> c = CHR ''E''
      then (let (sg, ds) = signOf cs; ds' = takeWhile isDigit ds in
        if ds' = [] then 0 else if sg < 0 then - int (digitsVal ds') else int (digitsVal ds'))
      else 0 | [] \<Rightarrow> 0)"

definition pow10 :: "int \<Rightarrow> rat" where
  "pow10 e = (if 0 \<le> e then 10 ^ nat e else 1 / 10 ^ nat (- e))"

definition parseFloat :: "string \<Rightarrow> rat option" where
  "parseFloat s = (let (sg, u) = signOf (dropWhile isSpace s);
       whole = takeWhile isDigit u; r = dropWhile isDigit u;
       (frac, r') = (case r of c # cs \<Rightarrow> if c = CHR ''.'' then (takeWhile isDigit cs, dropWhile isDigit cs) else ([], r) | [] \<Rightarrow> ([], []))
     in if whole = [] \<and> frac = [] then None
        else Some (sg * (of_nat (digitsVal (whole @ frac)) / 10 ^ length frac) * pow10 (exponentOf r')))"

definition envInt :: "(string \<Rightarrow> string option) \<Rightarrow> string \<Rightarrow> int \<Rightarrow> string + int" where
  "envInt env key fallback = (case env key of None \<Rightarrow> Inr fallback
    | Some raw \<Rightarrow> if raw = [] then Inr fallback
        else (case parseInt raw of
            Some n \<Rightarrow> if n \<le> 0 then Inl (key @ '' must be a positive integer, got '' @ strLit raw) else Inr n
          | None \<Rightarrow> Inl (key @ '' must be a positive integer, got '' @ strLit raw)))"

definition envNum :: "(string \<Rightarrow> string option) \<Rightarrow> string \<Rightarrow> rat \<Rightarrow> string + rat" where
  "envNum env key fallback = (case env key of None \<Rightarrow> Inr fallback
    | Some raw \<Rightarrow> if raw = [] then Inr fallback
        else (case parseFloat raw of
            Some n \<Rightarrow> if n \<le> 0 then Inl (key @ '' must be a positive number, got '' @ strLit raw) else Inr n
          | None \<Rightarrow> Inl (key @ '' must be a positive number, got '' @ strLit raw)))"

record MediatorConfig =
  mc_sessionTtlMs :: int
  mc_ipMax :: int
  mc_ipWindowMs :: int
  mc_sessionMax :: int
  mc_sessionWindowMs :: int
  mc_messagesPerSession :: int
  mc_messageMaxChars :: int
  mc_tokensPerSession :: int
  mc_maxInputTokensPerRun :: int
  mc_maxOutputTokensPerRun :: int
  mc_inputPriceUsdPerMTok :: rat
  mc_outputPriceUsdPerMTok :: rat
  mc_reservationMicroUsd :: int
  mc_dailyCeilingMicroUsd :: int
  mc_alertThresholdFraction :: rat
  mc_sweepIntervalMs :: int
  mc_abandonedAfterMs :: int

definition loadMediatorConfig :: "(string \<Rightarrow> string option) \<Rightarrow> string + MediatorConfig" where
  "loadMediatorConfig env =
     tryE (envInt env ''PLAYGROUND_MAX_INPUT_TOKENS_PER_RUN'' 30000) (\<lambda>maxIn.
     tryE (envInt env ''PLAYGROUND_MAX_OUTPUT_TOKENS_PER_RUN'' 10240) (\<lambda>maxOut.
     tryE (envNum env ''PLAYGROUND_INPUT_PRICE_USD_PER_MTOK'' (4 / 5)) (\<lambda>inPrice.
     tryE (envNum env ''PLAYGROUND_OUTPUT_PRICE_USD_PER_MTOK'' 4) (\<lambda>outPrice.
     tryE (envInt env ''PLAYGROUND_RESERVATION_MICRO_USD'' \<lceil>of_int maxIn * inPrice + of_int maxOut * outPrice\<rceil>) (\<lambda>reservation.
     tryE (envNum env ''PLAYGROUND_ALERT_THRESHOLD_FRACTION'' (1 / 2)) (\<lambda>fraction.
     if fraction > 1 then Inl ''PLAYGROUND_ALERT_THRESHOLD_FRACTION must be <= 1'' else
     tryE (envInt env ''PLAYGROUND_SESSION_TTL_SECONDS'' 600) (\<lambda>ttl.
     tryE (envInt env ''PLAYGROUND_IP_MINTS_PER_WINDOW'' 10) (\<lambda>ipMax.
     tryE (envInt env ''PLAYGROUND_IP_WINDOW_SECONDS'' 3600) (\<lambda>ipWin.
     tryE (envInt env ''PLAYGROUND_SESSION_SENDS_PER_WINDOW'' 6) (\<lambda>seMax.
     tryE (envInt env ''PLAYGROUND_SESSION_WINDOW_SECONDS'' 60) (\<lambda>seWin.
     tryE (envInt env ''PLAYGROUND_MESSAGES_PER_SESSION'' 20) (\<lambda>msgs.
     tryE (envInt env ''PLAYGROUND_MESSAGE_MAX_CHARS'' 500) (\<lambda>chars.
     tryE (envInt env ''PLAYGROUND_TOKENS_PER_SESSION'' 8000) (\<lambda>toks.
     tryE (envInt env ''PLAYGROUND_DAILY_CEILING_MICRO_USD'' 5000000) (\<lambda>ceil.
     tryE (envInt env ''PLAYGROUND_SWEEP_INTERVAL_SECONDS'' 60) (\<lambda>sweep.
     tryE (envInt env ''PLAYGROUND_ABANDONED_AFTER_SECONDS'' 300) (\<lambda>aband.
       Inr \<lparr>mc_sessionTtlMs = ttl * 1000, mc_ipMax = ipMax, mc_ipWindowMs = ipWin * 1000, mc_sessionMax = seMax,
         mc_sessionWindowMs = seWin * 1000, mc_messagesPerSession = msgs, mc_messageMaxChars = chars,
         mc_tokensPerSession = toks, mc_maxInputTokensPerRun = maxIn, mc_maxOutputTokensPerRun = maxOut,
         mc_inputPriceUsdPerMTok = inPrice, mc_outputPriceUsdPerMTok = outPrice, mc_reservationMicroUsd = reservation,
         mc_dailyCeilingMicroUsd = ceil, mc_alertThresholdFraction = fraction, mc_sweepIntervalMs = sweep * 1000,
         mc_abandonedAfterMs = aband * 1000\<rparr>)))))))))))))))))"

section \<open>Facts\<close>

lemma envInt_pos: "envInt env key fallback = Inr n \<Longrightarrow> 0 < fallback \<Longrightarrow> 0 < n"
  by (auto simp: envInt_def split: option.splits if_splits)

lemma envNum_pos: "envNum env key fallback = Inr n \<Longrightarrow> 0 < fallback \<Longrightarrow> 0 < n"
  by (auto simp: envNum_def split: option.splits if_splits)

text \<open>A configuration that loads has only positive limits, in particular a positive reservation,
  and a threshold in \<open>(0, 1]\<close>; a variable that is set to anything else makes loading fail.\<close>

theorem config_positive:
  assumes "loadMediatorConfig env = Inr c"
  shows "0 < mc_reservationMicroUsd c \<and> 0 < mc_dailyCeilingMicroUsd c \<and> 0 < mc_messagesPerSession c \<and>
     0 < mc_messageMaxChars c \<and> 0 < mc_tokensPerSession c \<and> 0 < mc_sessionTtlMs c \<and> 0 < mc_ipMax c \<and> 0 < mc_sessionMax c \<and>
     0 < mc_ipWindowMs c \<and> 0 < mc_sessionWindowMs c \<and> 0 < mc_abandonedAfterMs c \<and>
     0 < mc_alertThresholdFraction c \<and> mc_alertThresholdFraction c \<le> 1"
proof -
  obtain ttl ipWin seWin sweep aband where l:
    "envInt env ''PLAYGROUND_MAX_INPUT_TOKENS_PER_RUN'' 30000 = Inr (mc_maxInputTokensPerRun c)"
    "envInt env ''PLAYGROUND_MAX_OUTPUT_TOKENS_PER_RUN'' 10240 = Inr (mc_maxOutputTokensPerRun c)"
    "envNum env ''PLAYGROUND_INPUT_PRICE_USD_PER_MTOK'' (4 / 5) = Inr (mc_inputPriceUsdPerMTok c)"
    "envNum env ''PLAYGROUND_OUTPUT_PRICE_USD_PER_MTOK'' 4 = Inr (mc_outputPriceUsdPerMTok c)"
    "envInt env ''PLAYGROUND_RESERVATION_MICRO_USD'' \<lceil>of_int (mc_maxInputTokensPerRun c) * mc_inputPriceUsdPerMTok c
       + of_int (mc_maxOutputTokensPerRun c) * mc_outputPriceUsdPerMTok c\<rceil> = Inr (mc_reservationMicroUsd c)"
    "envNum env ''PLAYGROUND_ALERT_THRESHOLD_FRACTION'' (1 / 2) = Inr (mc_alertThresholdFraction c)" "mc_alertThresholdFraction c \<le> 1"
    "envInt env ''PLAYGROUND_SESSION_TTL_SECONDS'' 600 = Inr ttl" "mc_sessionTtlMs c = ttl * 1000"
    "envInt env ''PLAYGROUND_IP_MINTS_PER_WINDOW'' 10 = Inr (mc_ipMax c)"
    "envInt env ''PLAYGROUND_IP_WINDOW_SECONDS'' 3600 = Inr ipWin" "mc_ipWindowMs c = ipWin * 1000"
    "envInt env ''PLAYGROUND_SESSION_SENDS_PER_WINDOW'' 6 = Inr (mc_sessionMax c)"
    "envInt env ''PLAYGROUND_SESSION_WINDOW_SECONDS'' 60 = Inr seWin" "mc_sessionWindowMs c = seWin * 1000"
    "envInt env ''PLAYGROUND_MESSAGES_PER_SESSION'' 20 = Inr (mc_messagesPerSession c)"
    "envInt env ''PLAYGROUND_MESSAGE_MAX_CHARS'' 500 = Inr (mc_messageMaxChars c)"
    "envInt env ''PLAYGROUND_TOKENS_PER_SESSION'' 8000 = Inr (mc_tokensPerSession c)"
    "envInt env ''PLAYGROUND_DAILY_CEILING_MICRO_USD'' 5000000 = Inr (mc_dailyCeilingMicroUsd c)"
    "envInt env ''PLAYGROUND_ABANDONED_AFTER_SECONDS'' 300 = Inr aband" "mc_abandonedAfterMs c = aband * 1000"
    using assms unfolding loadMediatorConfig_def by (auto simp: tryE_Inr split: if_splits)
  have "0 < rat_of_int (mc_maxInputTokensPerRun c) * mc_inputPriceUsdPerMTok c
      + rat_of_int (mc_maxOutputTokensPerRun c) * mc_outputPriceUsdPerMTok c"
    using envInt_pos [OF l(1)] envInt_pos [OF l(2)] envNum_pos [OF l(3)] envNum_pos [OF l(4)] by (simp add: add_pos_pos)
  then have r: "0 < mc_reservationMicroUsd c" using envInt_pos [OF l(5)] by simp
  show ?thesis
    using r l(7) envNum_pos [OF l(6)] envInt_pos [OF l(8)] envInt_pos [OF l(10)] envInt_pos [OF l(11)] envInt_pos [OF l(13)]
      envInt_pos [OF l(14)] envInt_pos [OF l(16)] envInt_pos [OF l(17)] envInt_pos [OF l(18)] envInt_pos [OF l(19)]
      envInt_pos [OF l(20)] by (simp add: l(9,12,15,21))
qed

theorem config_positive_witness:
  "case loadMediatorConfig (\<lambda>_. None) of Inr c \<Rightarrow> 0 < mc_reservationMicroUsd c | Inl _ \<Rightarrow> False"
proof -
  obtain c where "loadMediatorConfig (\<lambda>_. None) = Inr c"
    by (simp add: loadMediatorConfig_def envInt_def envNum_def)
  then show ?thesis using config_positive by fastforce
qed

lemma default_reservation: "map_sum id mc_reservationMicroUsd (loadMediatorConfig (\<lambda>_. None)) = Inr 64960"
  by (simp add: loadMediatorConfig_def envInt_def envNum_def)

end
