(* ===== verification/Rate_Limit.thy ===== *)
theory Rate_Limit
  imports Machine
begin

text \<open>\<open>playground/backend/src/mediator/rate-limit.ts\<close>: the sliding-window limiter.  Times are in
  milliseconds; \<open>hits\<close> maps a key to the times of its counted hits, oldest first.\<close>

record RateLimitVerdict =
  rv_allowed :: bool
  rv_retryAfterSeconds :: int

record LimiterOpts =
  lo_max :: nat
  lo_windowMs :: int

type_synonym Hits = "(string, int list) jsmap"

definition ceilDiv :: "int \<Rightarrow> int \<Rightarrow> int" where
  "ceilDiv x n = - ((- x) div n)"

definition timestampsOf :: "LimiterOpts \<Rightarrow> string \<Rightarrow> int \<Rightarrow> Hits \<Rightarrow> int list" where
  "timestampsOf opts key nowMs hits =
     filter (\<lambda>t. t > nowMs - lo_windowMs opts) (case js_get hits key of None \<Rightarrow> [] | Some ts \<Rightarrow> ts)"

definition limiterCheck :: "LimiterOpts \<Rightarrow> string \<Rightarrow> int \<Rightarrow> Hits \<Rightarrow> RateLimitVerdict \<times> Hits" where
  "limiterCheck opts key nowMs hits =
     (let timestamps = timestampsOf opts key nowMs hits in
      if length timestamps \<ge> lo_max opts
      then let oldest = (case timestamps of [] \<Rightarrow> nowMs | t # _ \<Rightarrow> t) in
        (\<lparr>rv_allowed = False, rv_retryAfterSeconds = max 1 (ceilDiv (oldest + lo_windowMs opts - nowMs) 1000)\<rparr>,
         js_set key timestamps hits)
      else (\<lparr>rv_allowed = True, rv_retryAfterSeconds = 0\<rparr>, js_set key (timestamps @ [nowMs]) hits))"

definition limiterForget :: "string \<Rightarrow> Hits \<Rightarrow> Hits" where
  "limiterForget key hits = js_delete key hits"

section \<open>The window is respected\<close>

text \<open>The calls of \<open>check\<close> for one key, at times that never go back, and the times that were allowed.\<close>

fun allowedTimes :: "LimiterOpts \<Rightarrow> string \<Rightarrow> int list \<Rightarrow> Hits \<Rightarrow> int list" where
  "allowedTimes opts key [] hits = []"
| "allowedTimes opts key (now # nows) hits = (case limiterCheck opts key now hits of
     (v, hits') \<Rightarrow> (if rv_allowed v then [now] else []) @ allowedTimes opts key nows hits')"

definition within :: "int \<Rightarrow> int \<Rightarrow> int list \<Rightarrow> nat" where
  "within lo hi ts = length (filter (\<lambda>t. lo < t \<and> t \<le> hi) ts)"

lemma within_append [simp]: "within lo hi (xs @ ys) = within lo hi xs + within lo hi ys"
  and within_Nil [simp]: "within lo hi [] = 0"
  by (simp_all add: within_def)

lemma within_outside: "\<forall>t \<in> set ts. hi < t \<Longrightarrow> within lo hi ts = 0"
  by (induction ts) (auto simp: within_def)

lemma within_le: "within lo hi ts \<le> length (filter (\<lambda>t. t > lo) ts)"
  unfolding within_def by (induction ts) auto

lemma allowedTimes_from: "sorted (now # nows) \<Longrightarrow> \<forall>t \<in> set (allowedTimes opts key nows hits). now \<le> t"
proof (induction nows arbitrary: now hits)
  case (Cons x xs)
  have "\<forall>t \<in> set (allowedTimes opts key xs h). x \<le> t" for h using Cons.IH Cons.prems by simp
  then show ?case using Cons.prems by (fastforce split: prod.splits)
qed simp

text \<open>\<open>tracks\<close>: the stored times of the key, cut to the window ending now, are the times allowed so far.\<close>

definition tracks :: "LimiterOpts \<Rightarrow> string \<Rightarrow> int \<Rightarrow> Hits \<Rightarrow> int list \<Rightarrow> bool" where
  "tracks opts key now hits past = (\<forall>n \<ge> now. timestampsOf opts key n hits = filter (\<lambda>t. t > n - lo_windowMs opts) past)"

lemma timestampsOf_set [simp]: "timestampsOf opts key n (js_set key ts hits) = filter (\<lambda>t. t > n - lo_windowMs opts) ts"
  by (simp add: timestampsOf_def update_conv')

lemma filter_window: "n \<ge> m \<Longrightarrow> filter (\<lambda>t. t > n - w) (filter (\<lambda>t. t > m - w) ts) = filter (\<lambda>t. t > n - (w :: int)) ts"
  by (induction ts) auto

lemma filter_both: "n \<ge> m \<Longrightarrow> filter (\<lambda>t. m - w < t \<and> n - w < t) ts = filter (\<lambda>t. n - (w :: int) < t) ts"
  by (rule filter_cong) auto

lemma length_filter_mono: "(\<And>t. P t \<Longrightarrow> Q t) \<Longrightarrow> length (filter P ts) \<le> length (filter Q ts)"
  by (induction ts) (auto simp: le_Suc_eq)

lemma tracks_check:
  assumes "tracks opts key now hits past" "now \<le> now'" "limiterCheck opts key now' hits = (v, hits')"
  shows "tracks opts key now' hits' (past @ (if rv_allowed v then [now'] else []))"
    and "rv_allowed v \<Longrightarrow> length (filter (\<lambda>t. t > now' - lo_windowMs opts) past) < lo_max opts"
proof -
  have e: "timestampsOf opts key now' hits = filter (\<lambda>t. t > now' - lo_windowMs opts) past"
    using assms(1,2) by (simp add: tracks_def)
  show "tracks opts key now' hits' (past @ (if rv_allowed v then [now'] else []))"
    using assms(3) unfolding limiterCheck_def e Let_def tracks_def by (auto simp: filter_both split: if_splits)
  show "rv_allowed v \<Longrightarrow> length (filter (\<lambda>t. t > now' - lo_windowMs opts) past) < lo_max opts"
    using assms(3) unfolding limiterCheck_def e Let_def by (auto split: if_splits)
qed

lemma allowed_bounded:
  assumes "tracks opts key now hits past" "sorted (now # nows)" "\<And>t. within (t - lo_windowMs opts) t past \<le> lo_max opts"
  shows "within (t - lo_windowMs opts) t (past @ allowedTimes opts key nows hits) \<le> lo_max opts"
  using assms
proof (induction nows arbitrary: now hits past)
  case (Cons x xs)
  obtain v hits' where c: "limiterCheck opts key x hits = (v, hits')" by fastforce
  let ?p = "past @ (if rv_allowed v then [x] else [])"
  have "within (s - lo_windowMs opts) s ?p \<le> lo_max opts" for s
  proof (cases "rv_allowed v \<and> s - lo_windowMs opts < x \<and> x \<le> s")
    case True
    have "within (s - lo_windowMs opts) s past \<le> length (filter (\<lambda>t. t > s - lo_windowMs opts) past)" by (rule within_le)
    also have "\<dots> \<le> length (filter (\<lambda>t. t > x - lo_windowMs opts) past)"
      by (rule length_filter_mono) (use True in auto)
    also have "\<dots> < lo_max opts" using tracks_check(2) [OF Cons.prems(1) _ c] Cons.prems(2) True by simp
    finally show ?thesis using True by (simp add: within_def)
  next
    case False
    then show ?thesis using Cons.prems(3) [of s] by (auto simp: within_def)
  qed
  then show ?case
    using Cons.IH [OF tracks_check(1) [OF Cons.prems(1) _ c]] Cons.prems(2) c by simp
qed simp

text \<open>Property C30: however often a key is checked, the hits allowed in any interval of the length of the
  window never exceed the maximum.\<close>

theorem limiter_window:
  assumes "sorted nows"
  shows "within (t - lo_windowMs opts) t (allowedTimes opts key nows []) \<le> lo_max opts"
proof (cases nows)
  case (Cons x xs)
  have "tracks opts key x [] []" by (simp add: tracks_def timestampsOf_def)
  from allowed_bounded [OF this, of nows] show ?thesis using assms Cons by simp
qed simp

theorem limiter_window_witness:
  "within 0 60 (allowedTimes \<lparr>lo_max = 2, lo_windowMs = 60\<rparr> ''k'' [1, 5, 9, 62, 63] []) \<le> 2"
  using limiter_window [of "[1, 5, 9, 62, 63]" 60 "\<lparr>lo_max = 2, lo_windowMs = 60\<rparr>"] by simp

section \<open>The advice of a refusal\<close>

text \<open>\<open>hitsOk\<close>: no key holds more than the maximum.\<close>

definition hitsOk :: "LimiterOpts \<Rightarrow> Hits \<Rightarrow> bool" where
  "hitsOk opts hits = (\<forall>k ts. js_get hits k = Some ts \<longrightarrow> length ts \<le> lo_max opts)"

datatype limiterOp = LimiterCheck string int | LimiterForget string

fun limiterStep :: "LimiterOpts \<Rightarrow> limiterOp \<Rightarrow> Hits \<Rightarrow> Hits" where
  "limiterStep opts (LimiterCheck key now) hits = snd (limiterCheck opts key now hits)"
| "limiterStep opts (LimiterForget key) hits = limiterForget key hits"

lemma timestampsOf_length: "hitsOk opts hits \<Longrightarrow> length (timestampsOf opts key now hits) \<le> lo_max opts"
  by (auto simp: hitsOk_def timestampsOf_def split: option.splits intro: order.trans [OF length_filter_le])

lemma limiterStep_ok: "hitsOk opts hits \<Longrightarrow> hitsOk opts (limiterStep opts e hits)"
proof (cases e)
  case (LimiterCheck key now)
  moreover assume "hitsOk opts hits"
  ultimately show ?thesis using timestampsOf_length [of opts hits key now]
    by (auto simp: limiterCheck_def Let_def hitsOk_def update_conv')
qed (auto simp: hitsOk_def limiterForget_def delete_conv')

interpretation limM: machine "limiterStep opts" "hitsOk opts" for opts
  by unfold_locales (rule limiterStep_ok)

lemma ceilDiv_ge: "0 < n \<Longrightarrow> x \<le> n * ceilDiv x n"
  unfolding ceilDiv_def mult_minus_right using mult_div_mod_eq [of n "- x"] pos_mod_sign [of n "- x"] by linarith

text \<open>A caller that waits the \<open>retryAfterSeconds\<close> of a refusal is let through, if nobody uses its
  key in between.\<close>

theorem limiter_retry:
  assumes "hits = runSteps (limiterStep opts) ops []" "lo_max opts > 0"
    and "limiterCheck opts key now hits = (v, hits')" "\<not> rv_allowed v" "later \<ge> now + 1000 * rv_retryAfterSeconds v"
  shows "rv_allowed (fst (limiterCheck opts key later hits'))"
proof -
  let ?ts = "timestampsOf opts key now hits"
  have ok: "length ?ts \<le> lo_max opts"
    unfolding assms(1) by (rule timestampsOf_length, rule limM.run_inv) (simp add: hitsOk_def)
  have full: "length ?ts \<ge> lo_max opts" and h: "hits' = js_set key ?ts hits"
    using assms(3,4) by (auto simp: limiterCheck_def Let_def split: if_splits)
  then obtain t ts where ts: "?ts = t # ts" using assms(2) by (cases ?ts) auto
  have "rv_retryAfterSeconds v \<ge> ceilDiv (t + lo_windowMs opts - now) 1000"
    using assms(3,4) full ts by (auto simp: limiterCheck_def Let_def)
  then have "t \<le> later - lo_windowMs opts"
    using assms(5) ceilDiv_ge [of 1000 "t + lo_windowMs opts - now"] by simp
  then have "length (timestampsOf opts key later hits') \<le> length ts" unfolding h ts by simp
  then have "length (timestampsOf opts key later hits') < lo_max opts" using ok ts by simp
  then show ?thesis by (simp add: limiterCheck_def Let_def)
qed

theorem limiter_retry_witness:
  "let opts = \<lparr>lo_max = 1, lo_windowMs = 1500\<rparr>; hits = runSteps (limiterStep opts) [LimiterCheck ''k'' 0] [];
       hits' = snd (limiterCheck opts ''k'' 100 hits)
   in rv_allowed (fst (limiterCheck opts ''k'' 2100 hits'))"
proof -
  let ?o = "\<lparr>lo_max = 1, lo_windowMs = 1500\<rparr>"
  let ?h = "runSteps (limiterStep ?o) [LimiterCheck ''k'' 0] []"
  have e: "limiterCheck ?o ''k'' 100 ?h = (\<lparr>rv_allowed = False, rv_retryAfterSeconds = 2\<rparr>, [(''k'', [0])])" by code_simp
  show ?thesis unfolding Let_def using limiter_retry [OF refl _ e, of 2100] by (simp only: e) simp
qed

end
