(* ===== verification/Spend_Ledger.thy ===== *)
theory Spend_Ledger
  imports Machine Database
begin

text \<open>\<open>db/src/repositories/playground-spend-repo.ts\<close> on the tables of \<open>schema/playground-spend.ts\<close>: the day rows
  with their reserved totals and the reservations.  Amounts are integers of micro-USD.  Every operation
  is one statement or one transaction, so the operations of concurrent sessions take effect in some
  order; the transaction of \<open>reserve\<close> serialises on the day row.

  The ledger is a machine over these operations; what it promises is that the total of a day is the
  sum of the accepted reservations of that day and stays below the ceiling, that it never decreases,
  and that a settled reservation is final.\<close>

datatype TerminalStatus = TsCompleted | TsFailed | TsCancelled | TsTimedOut | TsAbandoned

datatype ReservationStatus = Reserved | Settled

record Reservation =
  rs_reservationId :: string
  rs_day :: string
  rs_sessionId :: string
  rs_runId :: "string option"
  rs_reservedMicroUsd :: int
  rs_status :: ReservationStatus
  rs_terminalStatus :: "TerminalStatus option"
  rs_observedInputTokens :: "nat option"
  rs_observedOutputTokens :: "nat option"
  rs_createdAt :: int
  rs_settledAt :: "int option"

record DayRow =
  dy_reservedTotalMicroUsd :: int
  dy_updatedAt :: int

record ledger =
  ld_days :: "(string, DayRow) jsmap"
  ld_reservations :: "Reservation list"

definition emptyLedger :: ledger where
  "emptyLedger = \<lparr>ld_days = [], ld_reservations = []\<rparr>"

section \<open>Operations\<close>

datatype ReserveResult = Accepted Reservation int | Refused int

text \<open>The day row after the upsert, and the transaction: upsert, conditional update, insert.  A refusal and
  a failed insert roll everything back.  \<open>rid\<close> is the id \<open>psr_\<close> + nanoid.\<close>

definition upsertDay :: "int \<Rightarrow> string \<Rightarrow> (string, DayRow) jsmap \<Rightarrow> (string, DayRow) jsmap" where
  "upsertDay now day days = (if js_has days day then days
     else js_set day \<lparr>dy_reservedTotalMicroUsd = 0, dy_updatedAt = now\<rparr> days)"

definition newReservation :: "int \<Rightarrow> string \<Rightarrow> string \<Rightarrow> int \<Rightarrow> string \<Rightarrow> Reservation" where
  "newReservation now rid day amount sessionId = \<lparr>rs_reservationId = rid, rs_day = day, rs_sessionId = sessionId,
     rs_runId = None, rs_reservedMicroUsd = amount, rs_status = Reserved, rs_terminalStatus = None,
     rs_observedInputTokens = None, rs_observedOutputTokens = None, rs_createdAt = now, rs_settledAt = None\<rparr>"

definition reserve :: "int \<Rightarrow> string \<Rightarrow> string \<Rightarrow> int \<Rightarrow> int \<Rightarrow> string \<Rightarrow> ledger \<Rightarrow> (js_error + ReserveResult) \<times> ledger" where
  "reserve now rid day amount cap sessionId l =
     (if amount \<le> 0 then (Inl (PlainErr (''reserve amount must be a positive integer of micro-USD, got '' @ intToString amount)), l)
      else let days = upsertDay now day (ld_days l) in
        case js_get days day of
          None \<Rightarrow> (Inr (Refused 0), l)
        | Some row \<Rightarrow>
            if dy_reservedTotalMicroUsd row + amount \<le> cap
            then if rid \<in> rs_reservationId ` set (ld_reservations l)
              then (Inl (DbErr (UniqueViolation ''playground_spend_reservations_pkey'')), l)
              else let row' = \<lparr>dy_reservedTotalMicroUsd = dy_reservedTotalMicroUsd row + amount, dy_updatedAt = now\<rparr>;
                       r = newReservation now rid day amount sessionId
                   in (Inr (Accepted r (dy_reservedTotalMicroUsd row')),
                       \<lparr>ld_days = js_set day row' days, ld_reservations = ld_reservations l @ [r]\<rparr>)
            else (Inr (Refused (dy_reservedTotalMicroUsd row)), l))"

definition attachSel :: "string \<Rightarrow> Reservation \<Rightarrow> bool" where
  "attachSel reservationId r = (rs_reservationId r = reservationId \<and> rs_runId r = None)"

definition attachRun :: "string \<Rightarrow> string \<Rightarrow> ledger \<Rightarrow> Reservation option \<times> ledger" where
  "attachRun reservationId runId l = (let f = (\<lambda>r. r\<lparr>rs_runId := Some runId\<rparr>) in
     (firstRow (returning (attachSel reservationId) f (ld_reservations l)),
      l\<lparr>ld_reservations := updateWhere (attachSel reservationId) f (ld_reservations l)\<rparr>))"

text \<open>The two guarded writes: \<open>settle\<close> of one reservation and the sweep of the old ones.\<close>

datatype settleWrite = SettleOne string TerminalStatus "nat option" "nat option" | SweepOlder int

definition settleSel :: "settleWrite \<Rightarrow> Reservation \<Rightarrow> bool" where
  "settleSel w r = (rs_status r = Reserved \<and>
     (case w of SettleOne k st i ou \<Rightarrow> rs_reservationId r = k | SweepOlder cutoff \<Rightarrow> rs_createdAt r < cutoff))"

definition settleEff :: "int \<Rightarrow> settleWrite \<Rightarrow> Reservation \<Rightarrow> Reservation" where
  "settleEff now w r = (let r' = r\<lparr>rs_status := Settled, rs_settledAt := Some now\<rparr> in case w of
      SettleOne k st i ou \<Rightarrow> r'\<lparr>rs_terminalStatus := Some st, rs_observedInputTokens := i, rs_observedOutputTokens := ou\<rparr>
    | SweepOlder cutoff \<Rightarrow> r'\<lparr>rs_terminalStatus := Some TsAbandoned\<rparr>)"

definition settleWith :: "int \<Rightarrow> settleWrite \<Rightarrow> ledger \<Rightarrow> Reservation list \<times> ledger" where
  "settleWith now w l = (returning (settleSel w) (settleEff now w) (ld_reservations l),
     l\<lparr>ld_reservations := updateWhere (settleSel w) (settleEff now w) (ld_reservations l)\<rparr>)"

definition settle :: "int \<Rightarrow> string \<Rightarrow> TerminalStatus \<Rightarrow> nat option \<Rightarrow> nat option \<Rightarrow> ledger \<Rightarrow> Reservation option \<times> ledger" where
  "settle now reservationId st i ou l = (case settleWith now (SettleOne reservationId st i ou) l of (rows, l') \<Rightarrow> (firstRow rows, l'))"

definition sweepAbandoned :: "int \<Rightarrow> int \<Rightarrow> ledger \<Rightarrow> Reservation list \<times> ledger" where
  "sweepAbandoned now olderThanMs l = settleWith now (SweepOlder (now - olderThanMs)) l"

definition dayTotal :: "string \<Rightarrow> ledger \<Rightarrow> int" where
  "dayTotal day l = (case js_get (ld_days l) day of None \<Rightarrow> 0 | Some row \<Rightarrow> dy_reservedTotalMicroUsd row)"

section \<open>The ledger as a machine\<close>

datatype ledgerOp = Reserve int string string int int string | AttachRun string string | SettleOp int settleWrite

fun ledgerStep :: "ledgerOp \<Rightarrow> ledger \<Rightarrow> ledger" where
  "ledgerStep (Reserve now rid day amount cap sessionId) l = snd (reserve now rid day amount cap sessionId l)"
| "ledgerStep (AttachRun reservationId runId) l = snd (attachRun reservationId runId l)"
| "ledgerStep (SettleOp now w) l = snd (settleWith now w l)"

text \<open>The charges of a day, and the invariant: ids are unique, and the total of each day is its charges.\<close>

definition charged :: "string \<Rightarrow> Reservation list \<Rightarrow> int" where
  "charged day rows = sum_list (map rs_reservedMicroUsd (filter (\<lambda>r. rs_day r = day) rows))"

definition ledgerOk :: "ledger \<Rightarrow> bool" where
  "ledgerOk l = (distinct (map rs_reservationId (ld_reservations l)) \<and> (\<forall>day. dayTotal day l = charged day (ld_reservations l)))"

lemma charged_snoc [simp]: "charged day (rows @ [r]) = charged day rows + (if rs_day r = day then rs_reservedMicroUsd r else 0)"
  by (simp add: charged_def)

lemma charged_update:
  assumes "\<And>r. rs_day (f r) = rs_day r" "\<And>r. rs_reservedMicroUsd (f r) = rs_reservedMicroUsd r"
  shows "charged day (updateWhere p f rows) = charged day rows"
  by (induction rows) (simp_all add: charged_def updateWhere_def assms)

lemma ids_update: "(\<And>r. k (f r) = k r) \<Longrightarrow> map k (updateWhere p f rows) = map k rows"
  by (simp add: updateWhere_def)

lemma settleEff_simps [simp]:
  "rs_day (settleEff now w r) = rs_day r" "rs_reservedMicroUsd (settleEff now w r) = rs_reservedMicroUsd r"
  "rs_reservationId (settleEff now w r) = rs_reservationId r" "rs_status (settleEff now w r) = Settled"
  "rs_createdAt (settleEff now w r) = rs_createdAt r" "rs_sessionId (settleEff now w r) = rs_sessionId r"
  "rs_runId (settleEff now w r) = rs_runId r"
  by (cases w; simp add: settleEff_def Let_def)+

lemma reserve_cases:
  assumes "reserve now rid day amount cap sid l = (r, l')"
  obtains (same) "l' = l" "\<And>x t. r \<noteq> Inr (Accepted x t)"
  | (ok) "amount > 0" "dayTotal day l + amount \<le> cap" "rid \<notin> rs_reservationId ` set (ld_reservations l)"
      "r = Inr (Accepted (newReservation now rid day amount sid) (dayTotal day l + amount))"
      "l' = \<lparr>ld_days = js_set day \<lparr>dy_reservedTotalMicroUsd = dayTotal day l + amount, dy_updatedAt = now\<rparr> (upsertDay now day (ld_days l)),
             ld_reservations = ld_reservations l @ [newReservation now rid day amount sid]\<rparr>"
  using assms
  by (auto simp: reserve_def Let_def upsertDay_def dayTotal_def update_conv' split: if_splits option.splits)

lemma dayTotal_reserved:
  "dayTotal d \<lparr>ld_days = js_set day row (upsertDay now day days), ld_reservations = rows\<rparr> =
     (if d = day then dy_reservedTotalMicroUsd row else dayTotal d \<lparr>ld_days = days, ld_reservations = rows\<rparr>)"
  by (simp add: dayTotal_def upsertDay_def update_conv')

lemma dayTotal_days [simp]: "dayTotal d (l\<lparr>ld_reservations := rows\<rparr>) = dayTotal d l"
  "dayTotal d \<lparr>ld_days = ld_days l, ld_reservations = rows\<rparr> = dayTotal d l"
  by (simp_all add: dayTotal_def)

lemma ledgerStep_ok: "ledgerOk l \<Longrightarrow> ledgerOk (ledgerStep e l)"
proof (cases e)
  case (Reserve now rid day amount cap sid)
  obtain r l' where re: "reserve now rid day amount cap sid l = (r, l')" by fastforce
  assume "ledgerOk l"
  then show ?thesis unfolding Reserve
    by (cases rule: reserve_cases [OF re]) (auto simp: re ledgerOk_def dayTotal_reserved newReservation_def)
qed (auto simp: ledgerOk_def attachRun_def settleWith_def Let_def charged_update ids_update)

text \<open>The totals of all days only grow.\<close>

definition totalsLe :: "ledger \<Rightarrow> ledger \<Rightarrow> bool" where
  "totalsLe l l' = (\<forall>day. dayTotal day l \<le> dayTotal day l')"

lemma ledgerStep_le: "totalsLe l (ledgerStep e l)"
proof (cases e)
  case (Reserve now rid day amount cap sid)
  obtain r l' where re: "reserve now rid day amount cap sid l = (r, l')" by fastforce
  show ?thesis unfolding Reserve
    by (cases rule: reserve_cases [OF re]) (auto simp: re totalsLe_def dayTotal_reserved)
qed (auto simp: totalsLe_def attachRun_def settleWith_def Let_def)

interpretation ledM: monotone_machine ledgerStep ledgerOk totalsLe
proof (unfold_locales, goal_cases)
  case (3 s t u)
  then show ?case unfolding totalsLe_def by (metis order.trans)
qed (auto simp: totalsLe_def intro: ledgerStep_ok ledgerStep_le [unfolded totalsLe_def, THEN spec])

lemma emptyLedger_ok: "ledgerOk emptyLedger"
  by (simp add: ledgerOk_def emptyLedger_def dayTotal_def charged_def)

lemma reached_total: "dayTotal day (runSteps ledgerStep ops emptyLedger) = charged day (ld_reservations (runSteps ledgerStep ops emptyLedger))"
  using ledM.run_inv [OF emptyLedger_ok, of ops] by (simp add: ledgerOk_def)

text \<open>Property C29: the total of a day is at all times the sum of the reservations accepted on it, and it
  never goes down, whatever is settled or swept.\<close>

theorem ledger_accounts:
  "case runSteps ledgerStep ops emptyLedger of l \<Rightarrow>
     dayTotal day l = charged day (ld_reservations l) \<and> dayTotal day l \<le> dayTotal day (runSteps ledgerStep later l)"
  using reached_total ledM.run_le [OF ledM.run_inv [OF emptyLedger_ok, of ops], of later]
  by (simp add: totalsLe_def)

section \<open>The ceiling\<close>

definition ceilingOf :: "ledgerOp \<Rightarrow> int option" where
  "ceilingOf e = (case e of Reserve now rid day amount cap sid \<Rightarrow> Some cap | _ \<Rightarrow> None)"

definition underCeiling :: "int \<Rightarrow> ledgerOp \<Rightarrow> bool" where
  "underCeiling c e = (case ceilingOf e of None \<Rightarrow> True | Some x \<Rightarrow> x \<le> c)"

lemma ledgerStep_ceiling: "underCeiling c e \<Longrightarrow> dayTotal day l \<le> max 0 c \<Longrightarrow> dayTotal day (ledgerStep e l) \<le> max 0 c"
proof (cases e)
  case (Reserve now rid d amount cap sid)
  obtain r l' where re: "reserve now rid d amount cap sid l = (r, l')" by fastforce
  assume "underCeiling c e" "dayTotal day l \<le> max 0 c"
  then show ?thesis unfolding Reserve
    by (cases rule: reserve_cases [OF re]) (auto simp: re dayTotal_reserved underCeiling_def ceilingOf_def)
qed (auto simp: attachRun_def settleWith_def Let_def)

text \<open>Reservations made under a ceiling, by however many sessions and in whatever order, never
  take a day beyond it.\<close>

theorem ledger_ceiling:
  assumes "list_all (underCeiling c) ops" "0 \<le> c"
  shows "charged day (ld_reservations (runSteps ledgerStep ops emptyLedger)) \<le> c"
proof -
  have "dayTotal day (runSteps ledgerStep ops l) \<le> max 0 c" if "dayTotal day l \<le> max 0 c" for l
    using assms(1) that by (induction ops arbitrary: l) (auto dest: ledgerStep_ceiling)
  from this [of emptyLedger] have "dayTotal day (runSteps ledgerStep ops emptyLedger) \<le> c"
    using assms(2) by (simp add: emptyLedger_def dayTotal_def)
  then show ?thesis by (simp add: reached_total)
qed

theorem ledger_ceiling_witness:
  "charged ''d'' (ld_reservations (runSteps ledgerStep
     [Reserve 1 ''a'' ''d'' 60 100 ''s'', Reserve 2 ''b'' ''d'' 60 100 ''t'', SettleOp 3 (SweepOlder 9), Reserve 4 ''c'' ''d'' 40 100 ''t''] emptyLedger)) \<le> 100"
  by (rule ledger_ceiling) (simp_all add: underCeiling_def ceilingOf_def)

text \<open>A reservation is accepted exactly when it fits under the ceiling, and a refusal leaves the
  ledger as it was.\<close>

theorem reserve_spec:
  assumes "0 < amount" "rid \<notin> rs_reservationId ` set (ld_reservations l)"
  shows "case reserve now rid day amount cap sid l of (r, l') \<Rightarrow>
     if dayTotal day l + amount \<le> cap
     then r = Inr (Accepted (newReservation now rid day amount sid) (dayTotal day l + amount)) \<and> dayTotal day l' = dayTotal day l + amount
       \<and> ld_reservations l' = ld_reservations l @ [newReservation now rid day amount sid]
     else r = Inr (Refused (dayTotal day l)) \<and> l' = l"
  using assms by (auto simp: reserve_def Let_def upsertDay_def dayTotal_def update_conv' split: option.splits)

theorem reserve_spec_witness:
  "reserve 2 ''b'' ''d'' 60 100 ''t'' (runSteps ledgerStep [Reserve 1 ''a'' ''d'' 60 100 ''s''] emptyLedger) =
     (Inr (Refused 60), runSteps ledgerStep [Reserve 1 ''a'' ''d'' 60 100 ''s''] emptyLedger)"
proof -
  let ?l = "runSteps ledgerStep [Reserve 1 ''a'' ''d'' 60 100 ''s''] emptyLedger"
  have e: "ld_reservations ?l = [newReservation 1 ''a'' ''d'' 60 ''s'']" "dayTotal ''d'' ?l = 60"
    by (simp_all add: reserve_def Let_def emptyLedger_def upsertDay_def dayTotal_def)
  show ?thesis
    using reserve_spec [of 60 "''b''" ?l, where now = 2 and day = "''d''" and cap = 100 and sid = "''t''"] unfolding e by (auto simp: newReservation_def)
qed

section \<open>Settlement\<close>

interpretation setT: guarded_transitions "\<lambda>r. rs_status r = Reserved" "\<lambda>(now, w). settleSel w" "\<lambda>(now, w). settleEff now w" "\<lambda>_. True"
  by unfold_locales (auto simp: settleSel_def split: prod.splits)

interpretation attT: guarded_transitions "\<lambda>r. rs_runId r = None" "\<lambda>(k, run). attachSel k" "\<lambda>(k, run) r. r\<lparr>rs_runId := Some run\<rparr>" "\<lambda>_. True"
  by unfold_locales (auto simp: attachSel_def)

text \<open>The first settlement that reaches a reservation is final: whatever is settled or swept
  later, the row keeps its terminal status and its observed usage, at the full reserved amount.\<close>

theorem settle_first_wins:
  assumes "i < length (ld_reservations l)" "settleSel w (ld_reservations l ! i)"
  shows "ld_reservations (fold (\<lambda>(now, w). snd \<circ> settleWith now w) ((now, w) # later) l) ! i =
     settleEff now w (ld_reservations l ! i)"
proof -
  have e: "ld_reservations (fold (\<lambda>(now, w). snd \<circ> settleWith now w) ws l) = setT.writes ws (ld_reservations l)" for ws l
    by (induction ws arbitrary: l) (auto simp: setT.writes_def setT.perform_def settleWith_def)
  show ?thesis
    unfolding e using setT.first_write_wins [of i "ld_reservations l" "(now, w)" later] assms by simp
qed

lemma settles_length:
  "length (ld_reservations (fold (\<lambda>(now, w). snd \<circ> settleWith now w) ws l)) = length (ld_reservations l)"
  by (induction ws arbitrary: l) (auto simp: settleWith_def updateWhere_def)

theorem settle_first_wins_witness:
  "let l = runSteps ledgerStep [Reserve 1 ''a'' ''d'' 60 100 ''s''] emptyLedger in
   map rs_terminalStatus (ld_reservations (fold (\<lambda>(now, w). snd \<circ> settleWith now w)
     [(5, SettleOne ''a'' TsCompleted None None), (6, SettleOne ''a'' TsFailed None None), (7, SweepOlder 9)] l)) = [Some TsCompleted]"
proof -
  let ?l = "runSteps ledgerStep [Reserve 1 ''a'' ''d'' 60 100 ''s''] emptyLedger"
  let ?ws = "[(5, SettleOne ''a'' TsCompleted None None), (6, SettleOne ''a'' TsFailed None None), (7, SweepOlder 9)]"
  have e: "ld_reservations ?l = [newReservation 1 ''a'' ''d'' 60 ''s'']"
    by (simp add: reserve_def Let_def emptyLedger_def upsertDay_def)
  have n: "length (ld_reservations (fold (\<lambda>(now, w). snd \<circ> settleWith now w) ?ws ?l)) = 1"
    unfolding settles_length e by simp
  have "ld_reservations (fold (\<lambda>(now, w). snd \<circ> settleWith now w) ?ws ?l) ! 0
      = settleEff 5 (SettleOne ''a'' TsCompleted None None) (ld_reservations ?l ! 0)"
    by (rule settle_first_wins) (simp_all only: e, simp_all add: settleSel_def newReservation_def)
  then show ?thesis unfolding Let_def using n
    by (cases "ld_reservations (fold (\<lambda>(now, w). snd \<circ> settleWith now w) ?ws ?l)") (simp_all add: settleEff_def Let_def)
qed

lemma settleSel_sweep: "settleSel (SweepOlder c) = (\<lambda>r. rs_status r = Reserved \<and> rs_createdAt r < c)"
  by (simp add: settleSel_def fun_eq_iff)

lemma sweep_complete: "filter (settleSel (SweepOlder c)) (ld_reservations (snd (settleWith now (SweepOlder c) l))) = []"
  by (auto simp: settleWith_def updateWhere_def filter_empty_conv settleSel_def)

text \<open>A sweep leaves no reservation that is older than its cutoff and still open, charges the
  same totals as before, and a second sweep with the same cutoff does nothing.\<close>

theorem sweep_spec:
  "case sweepAbandoned now age l of (rows, l') \<Rightarrow>
     filter (\<lambda>r. rs_status r = Reserved \<and> rs_createdAt r < now - age) (ld_reservations l') = [] \<and>
     charged day (ld_reservations l') = charged day (ld_reservations l) \<and> ld_days l' = ld_days l \<and>
     settleWith later (SweepOlder (now - age)) l' = ([], l')"
proof -
  have n: "\<not> settleSel (SweepOlder (now - age)) r" if "r \<in> set (ld_reservations (snd (sweepAbandoned now age l)))" for r
    using sweep_complete [of "now - age" now l] that by (auto simp: sweepAbandoned_def filter_empty_conv)
  have "settleWith later (SweepOlder (now - age)) l' = ([], l')" if "l' = snd (sweepAbandoned now age l)" for l'
    using n unfolding that settleWith_def returning_def by (simp add: updateWhere_none filter_empty_conv)
  then show ?thesis
    using sweep_complete [of "now - age" now l, unfolded settleSel_sweep]
    by (auto simp: sweepAbandoned_def settleSel_sweep settleWith_def charged_update split: prod.splits)
qed

end
