(* ===== verification/Mediator.thy ===== *)
theory Mediator
  imports Mediator_Config Rate_Limit Spend_Ledger
begin

text \<open>\<open>playground/backend/src/mediator/mediator.ts\<close>: the server between browser and runtime that enforces the
  playground's limits.

  The mediator is a machine.  Guests, limiters, the ledger and every proxied stream are its state; an
  operation is one synchronous stretch of the code: a mint, a sweep, the attachment of a stream, an
  upstream or browser event, and for a browser frame two operations, \<open>Handle\<close> up to the \<open>await\<close> of
  \<open>ledger.reserve\<close> and \<open>Reserved\<close> from there on.  Frames of one browser socket are handled one after the
  other (\<open>inboundChain\<close>), frames of different sockets interleave at the \<open>await\<close>.  Frames sent to the
  browser and to the upstream socket are recorded as text.

  Parameters of an operation are the clock, drawn ids, and what \<open>control\<close> and the database answer.
  A mint is one operation although it awaits \<open>control.createSession\<close>: what it does before (the
  address limiter) and after (the new guest) is touched by nothing else.\<close>

section \<open>Dates\<close>

text \<open>\<open>new Date(ms).toISOString()\<close> for the years 0 to 9999: the civil date of a day number, in the proleptic
  Gregorian calendar.\<close>

definition civil :: "int \<Rightarrow> int \<times> int \<times> int" where
  "civil days = (let z = days + 719468; era = z div 146097; doe = z mod 146097;
       yoe = (doe - doe div 1460 + doe div 36524 - doe div 146096) div 365;
       doy = doe - (365 * yoe + yoe div 4 - yoe div 100); mp = (5 * doy + 2) div 153;
       d = doy - (153 * mp + 2) div 5 + 1; m = (if mp < 10 then mp + 3 else mp - 9)
     in (yoe + era * 400 + (if m \<le> 2 then 1 else 0), m, d))"

definition pad :: "nat \<Rightarrow> int \<Rightarrow> string" where
  "pad n i = (let s = intToString i in replicate (n - length s) (CHR ''0'') @ s)"

definition utcDay :: "int \<Rightarrow> string" where
  "utcDay nowMs = (case civil (nowMs div 86400000) of (y, m, d) \<Rightarrow> pad 4 y @ ''-'' @ pad 2 m @ ''-'' @ pad 2 d)"

definition toISOString :: "int \<Rightarrow> string" where
  "toISOString ms = (let t = ms mod 86400000 in utcDay ms @ ''T'' @ pad 2 (t div 3600000) @ '':'' @ pad 2 (t div 60000 mod 60)
     @ '':'' @ pad 2 (t div 1000 mod 60) @ ''.'' @ pad 3 (t mod 1000) @ ''Z'')"

section \<open>Frames\<close>

datatype RefusalReason = RateLimitIp | RateLimitSession | MessageCap | TokenCap | DailyCeiling | SessionExpired | BadFrame

fun reasonName :: "RefusalReason \<Rightarrow> string" where
  "reasonName RateLimitIp = ''rate_limit_ip''" | "reasonName RateLimitSession = ''rate_limit_session''"
| "reasonName MessageCap = ''message_cap''" | "reasonName TokenCap = ''token_cap''"
| "reasonName DailyCeiling = ''daily_ceiling''" | "reasonName SessionExpired = ''session_expired''"
| "reasonName BadFrame = ''bad_frame''"

definition refusal :: "RefusalReason \<Rightarrow> string \<Rightarrow> (string \<times> json) list \<Rightarrow> json" where
  "refusal reason message extras = JObj ([(''type'', JStr ''refusal''), (''reason'', JStr (reasonName reason)),
     (''message'', JStr message)] @ extras)"

definition remaining :: "string \<Rightarrow> int \<Rightarrow> (string \<times> json) list" where
  "remaining what n = [(''remaining'', JObj [(what, JNum n)])]"

definition MediatorInboundSchema :: "json \<Rightarrow> bool" where
  "MediatorInboundSchema = strictObj [(''type'', True, zLiteral ''send''), (''content'', True, zMin1)]"

definition CHAT_EVENT_TYPES :: "string list" where
  "CHAT_EVENT_TYPES = [''message_started'', ''token'', ''tool_call_started'', ''tool_call_completed'', ''message_completed'', ''run_failed'']"

definition strProp :: "string \<Rightarrow> json \<Rightarrow> string option" where
  "strProp k j = (case getProp k j of Some (JStr s) \<Rightarrow> Some s | _ \<Rightarrow> None)"

definition isChatFrame :: "json \<Rightarrow> bool" where
  "isChatFrame j = (case strProp ''type'' j of Some t \<Rightarrow> t \<in> set CHAT_EVENT_TYPES | None \<Rightarrow> False)"

section \<open>State\<close>

record GuestSession =
  gs_sessionId :: string
  gs_clientToken :: string
  gs_websocketUrl :: string
  gs_expiresAtMs :: int
  gs_messagesSent :: int
  gs_estOutputTokens :: int
  gs_pendingReservationIds :: "string list"
  gs_reservationByRun :: "(string, string) jsmap"
  gs_seenRuns :: "string list"
  gs_tokenCapBreached :: bool

record stream =
  st_gid :: string
  st_url :: string
  st_upstreamReady :: bool
  st_outQueue :: "string list"
  st_pinging :: bool
  st_attempts :: nat
  st_upstream :: "string list"
  st_upstreamClosed :: bool
  st_browser :: "string list"
  st_closed :: bool
  st_inbound :: "string list"
  st_awaiting :: "(string \<times> string) option"

text \<open>A guest's object outlives its entry in \<open>guests\<close>: the closures of its streams hold on to it.\<close>

record mediator =
  md_objects :: "(string, GuestSession) jsmap"
  md_guests :: "string list"
  md_ipHits :: Hits
  md_sessionHits :: Hits
  md_alertedDays :: "string list"
  md_ledger :: ledger
  md_streams :: "(nat, stream) jsmap"
  md_settling :: "(string \<times> string) list"
  md_cancelled :: "string list"

definition newMediator :: mediator where
  "newMediator = \<lparr>md_objects = [], md_guests = [], md_ipHits = [], md_sessionHits = [], md_alertedDays = [], md_ledger = emptyLedger,
     md_streams = [], md_settling = [], md_cancelled = []\<rparr>"

definition ipOpts :: "MediatorConfig \<Rightarrow> LimiterOpts" where
  "ipOpts c = \<lparr>lo_max = nat (mc_ipMax c), lo_windowMs = mc_ipWindowMs c\<rparr>"

definition sessionOpts :: "MediatorConfig \<Rightarrow> LimiterOpts" where
  "sessionOpts c = \<lparr>lo_max = nat (mc_sessionMax c), lo_windowMs = mc_sessionWindowMs c\<rparr>"

definition sendFrame :: "json \<Rightarrow> stream \<Rightarrow> stream" where
  "sendFrame j st = st\<lparr>st_browser := st_browser st @ [stringify j]\<rparr>"

definition setStream :: "nat \<Rightarrow> stream \<Rightarrow> mediator \<Rightarrow> mediator" where
  "setStream k st s = s\<lparr>md_streams := js_set k st (md_streams s)\<rparr>"

definition setGuest :: "string \<Rightarrow> GuestSession \<Rightarrow> mediator \<Rightarrow> mediator" where
  "setGuest gid g s = s\<lparr>md_objects := js_set gid g (md_objects s)\<rparr>"

section \<open>Sweep and mint\<close>

definition mediatorSweep :: "MediatorConfig \<Rightarrow> int \<Rightarrow> mediator \<Rightarrow> mediator" where
  "mediatorSweep c now s =
     (let cutoff = now - mc_sessionTtlMs c;
          old = (\<lambda>gid. case js_get (md_objects s) gid of Some g \<Rightarrow> gs_expiresAtMs g < cutoff | None \<Rightarrow> False)
      in s\<lparr>md_ledger := snd (sweepAbandoned now (mc_abandonedAfterMs c) (md_ledger s)),
           md_guests := filter (\<lambda>gid. \<not> old gid) (md_guests s),
           md_sessionHits := fold limiterForget (filter old (md_guests s)) (md_sessionHits s)\<rparr>)"

definition limitsOf :: "MediatorConfig \<Rightarrow> json" where
  "limitsOf c = JObj [(''messagesPerSession'', JNum (mc_messagesPerSession c)), (''tokensPerSession'', JNum (mc_tokensPerSession c)),
     (''messageMaxChars'', JNum (mc_messageMaxChars c))]"

definition sessionReady :: "MediatorConfig \<Rightarrow> string \<Rightarrow> GuestSession \<Rightarrow> json" where
  "sessionReady c gid g = JObj [(''type'', JStr ''session_ready''), (''guestId'', JStr gid), (''sessionId'', JStr (gs_sessionId g)),
     (''expiresAt'', JStr (toISOString (gs_expiresAtMs g))), (''limits'', limitsOf c)]"

definition newGuest :: "MediatorConfig \<Rightarrow> string \<Rightarrow> string \<Rightarrow> string \<Rightarrow> int \<Rightarrow> GuestSession" where
  "newGuest c sessionId clientToken url now = \<lparr>gs_sessionId = sessionId, gs_clientToken = clientToken, gs_websocketUrl = url,
     gs_expiresAtMs = now + mc_sessionTtlMs c, gs_messagesSent = 0, gs_estOutputTokens = 0, gs_pendingReservationIds = [],
     gs_reservationByRun = [], gs_seenRuns = [], gs_tokenCapBreached = False\<rparr>"

text \<open>The reply of a mint: status and body; \<^const>\<open>None\<close> when \<open>control.createSession\<close> rejects.  A drawn guest id
  that is already in use is excluded (the mint then does nothing).\<close>

definition mintGuest :: "MediatorConfig \<Rightarrow> string \<Rightarrow> int \<Rightarrow> (string \<times> string \<times> string) option \<Rightarrow> string \<Rightarrow> int \<Rightarrow> mediator
    \<Rightarrow> (nat \<times> json) option \<times> mediator" where
  "mintGuest c ip now created gid later s = (if js_has (md_objects s) gid then (None, s)
     else case limiterCheck (ipOpts c) ip now (md_ipHits s) of (v, hits) \<Rightarrow>
       if \<not> rv_allowed v
       then (Some (429, refusal RateLimitIp ''Too many playground sessions from this address - try again shortly.''
              [(''retryAfterSeconds'', JNum (rv_retryAfterSeconds v))]), s\<lparr>md_ipHits := hits\<rparr>)
       else (case created of None \<Rightarrow> (None, s\<lparr>md_ipHits := hits\<rparr>)
         | Some (sessionId, clientToken, url) \<Rightarrow>
             (let g = newGuest c sessionId clientToken url later in
              (Some (200, sessionReady c gid g), s\<lparr>md_ipHits := hits, md_objects := js_set gid g (md_objects s), md_guests := md_guests s @ [gid]\<rparr>))))"

section \<open>Streams\<close>

definition newStream :: "string \<Rightarrow> string \<Rightarrow> stream" where
  "newStream gid url = \<lparr>st_gid = gid, st_url = url, st_upstreamReady = False, st_outQueue = [], st_pinging = False, st_attempts = 0,
     st_upstream = [], st_upstreamClosed = False, st_browser = [], st_closed = False, st_inbound = [], st_awaiting = None\<rparr>"

definition expiredFrame :: json where
  "expiredFrame = refusal SessionExpired ''This guest session has expired - reload to start a new one.'' []"

text \<open>A stream that is refused is a closed stream without guest: nothing is ever handled on it.\<close>

definition openStream :: "MediatorConfig \<Rightarrow> nat \<Rightarrow> string option \<Rightarrow> int \<Rightarrow> mediator \<Rightarrow> mediator" where
  "openStream c k gid now s = (if js_has (md_streams s) k then s else
     case (case gid of Some i \<Rightarrow> if i \<in> set (md_guests s) then map_option (Pair i) (js_get (md_objects s) i) else None | None \<Rightarrow> None) of
       None \<Rightarrow> s
     | Some (i, g) \<Rightarrow> if now > gs_expiresAtMs g then s
         else setStream k (sendFrame (sessionReady c i g) (newStream i (gs_websocketUrl g))) s)"

definition streamRefused :: "string option \<Rightarrow> int \<Rightarrow> mediator \<Rightarrow> bool" where
  "streamRefused gid now s = (case gid of None \<Rightarrow> True | Some i \<Rightarrow> i \<notin> set (md_guests s) \<or>
     (case js_get (md_objects s) i of None \<Rightarrow> True | Some g \<Rightarrow> now > gs_expiresAtMs g))"

definition flushQueue :: "stream \<Rightarrow> stream" where
  "flushQueue st = st\<lparr>st_upstream := st_upstream st @ st_outQueue st, st_outQueue := []\<rparr>"

definition forwardUpstream :: "string \<Rightarrow> stream \<Rightarrow> stream" where
  "forwardUpstream f st = (if st_upstreamReady st then st\<lparr>st_upstream := st_upstream st @ [f]\<rparr>
     else st\<lparr>st_outQueue := st_outQueue st @ [f]\<rparr>)"

definition PING_HANDSHAKE_ATTEMPTS :: nat where "PING_HANDSHAKE_ATTEMPTS = 20"

definition ping :: "stream \<Rightarrow> stream" where
  "ping st = (let st1 = st\<lparr>st_attempts := Suc (st_attempts st)\<rparr> in
     if st_upstreamReady st then st1\<lparr>st_pinging := False\<rparr>
     else if st_attempts st1 > PING_HANDSHAKE_ATTEMPTS then flushQueue (st1\<lparr>st_pinging := False, st_upstreamReady := True\<rparr>)
     else st1\<lparr>st_upstream := st_upstream st @ [stringify (JObj [(''type'', JStr ''ping'')])]\<rparr>)"

definition SETTLE_CONFIRM_ATTEMPTS :: nat where "SETTLE_CONFIRM_ATTEMPTS = 3"

text \<open>\<open>settleRun\<close> after its first lines: at most three \<open>getRun\<close> answers, \<^const>\<open>None\<close> for one that rejects.\<close>

definition terminalOf :: "string \<Rightarrow> TerminalStatus option" where
  "terminalOf st = (if st = ''completed'' then Some TsCompleted else if st = ''failed'' then Some TsFailed
     else if st = ''cancelled'' then Some TsCancelled else if st = ''timed_out'' then Some TsTimedOut else None)"

fun confirmRun :: "nat \<Rightarrow> (string \<times> nat option \<times> nat option) option list \<Rightarrow> (TerminalStatus \<times> nat option \<times> nat option) option" where
  "confirmRun 0 answers = None"
| "confirmRun (Suc n) [] = None"
| "confirmRun (Suc n) (None # answers) = None"
| "confirmRun (Suc n) (Some (st, i, ou) # answers) = (case terminalOf st of Some t \<Rightarrow> Some (t, i, ou) | None \<Rightarrow> confirmRun n answers)"

text \<open>\<open>maybeAlert\<close>; the warning itself is the new entry of \<open>alertedDays\<close>.\<close>

definition maybeAlert :: "MediatorConfig \<Rightarrow> string \<Rightarrow> int \<Rightarrow> mediator \<Rightarrow> mediator" where
  "maybeAlert c day tot s = (if tot \<ge> \<lfloor>of_int (mc_dailyCeilingMicroUsd c) * mc_alertThresholdFraction c\<rfloor> \<and> day \<notin> set (md_alertedDays s)
     then s\<lparr>md_alertedDays := md_alertedDays s @ [day]\<rparr> else s)"

section \<open>Inbound frames\<close>

text \<open>The wording of refusals: the source's dash is written as a hyphen.\<close>

definition badJson :: json where
  "badJson = refusal BadFrame ''Could not parse that frame - the playground accepts JSON {\"type\":\"send\",\"content\":...}.'' []"

definition badShape :: json where
  "badShape = refusal BadFrame ''Unknown or malformed frame - the playground accepts only {\"type\":\"send\",\"content\":...}.'' []"

definition dailyCeilingFrame :: json where
  "dailyCeilingFrame = refusal DailyCeiling ''The playground's daily spend ceiling has been reached - try again tomorrow, or run the stack yourself with `docker compose up`.'' []"

text \<open>The chain of checks of \<open>handleInbound\<close> up to the ledger: a refusal (with the flag that the socket is
  closed after it), or the content to reserve for.  The limiter is asked only after the first two.\<close>

datatype verdict = Refuse json bool | Admit string

definition afterLimiter :: "MediatorConfig \<Rightarrow> GuestSession \<Rightarrow> string \<Rightarrow> verdict" where
  "afterLimiter c g content =
     (if int (length content) > mc_messageMaxChars c
      then Refuse (refusal MessageCap (''Messages are capped at '' @ intToString (mc_messageMaxChars c) @ '' characters in the playground.'')
             (remaining ''messages'' (max 0 (mc_messagesPerSession c - gs_messagesSent g)))) False
      else if gs_messagesSent g \<ge> mc_messagesPerSession c
      then Refuse (refusal MessageCap (''This session reached its '' @ intToString (mc_messagesPerSession c) @ ''-message cap - reload for a fresh session.'')
             (remaining ''messages'' 0)) False
      else if gs_estOutputTokens g \<ge> mc_tokensPerSession c
      then Refuse (refusal TokenCap (''This session reached its '' @ intToString (mc_tokensPerSession c) @ ''-token cap - reload for a fresh session.'')
             (remaining ''tokens'' 0)) False
      else Admit content)"

definition handleInbound :: "MediatorConfig \<Rightarrow> string \<Rightarrow> GuestSession \<Rightarrow> string \<Rightarrow> int \<Rightarrow> Hits \<Rightarrow> verdict \<times> Hits" where
  "handleInbound c gid g raw now hits = (case parse raw of
      None \<Rightarrow> (Refuse badJson False, hits)
    | Some j \<Rightarrow>
        if \<not> MediatorInboundSchema j then (Refuse badShape False, hits)
        else if now > gs_expiresAtMs g then (Refuse expiredFrame True, hits)
        else (case limiterCheck (sessionOpts c) gid now hits of (v, hits') \<Rightarrow>
          if \<not> rv_allowed v
          then (Refuse (refusal RateLimitSession ''Sending too fast - wait a moment and try again.''
                  [(''retryAfterSeconds'', JNum (rv_retryAfterSeconds v))]) False, hits')
          else (afterLimiter c g (case strProp ''content'' j of Some t \<Rightarrow> t | None \<Rightarrow> []), hits')))"

text \<open>\<open>Handle\<close>: the next queued frame of a stream that is not awaiting the ledger.\<close>

definition handleNext :: "MediatorConfig \<Rightarrow> nat \<Rightarrow> int \<Rightarrow> mediator \<Rightarrow> mediator" where
  "handleNext c k now s = (case js_get (md_streams s) k of None \<Rightarrow> s
    | Some st \<Rightarrow> (case (st_awaiting st, st_inbound st, js_get (md_objects s) (st_gid st)) of
        (None, raw # rest, Some g) \<Rightarrow>
          (let (v, hits) = handleInbound c (st_gid st) g raw now (md_sessionHits s); st1 = st\<lparr>st_inbound := rest\<rparr>; s1 = s\<lparr>md_sessionHits := hits\<rparr> in
           case v of
             Refuse j closes \<Rightarrow> setStream k ((sendFrame j st1)\<lparr>st_closed := st_closed st \<or> closes\<rparr>) s1
           | Admit content \<Rightarrow> setStream k (st1\<lparr>st_awaiting := Some (utcDay now, content)\<rparr>) s1)
      | _ \<Rightarrow> s))"

definition upstreamMessage :: "string \<Rightarrow> string" where
  "upstreamMessage content = stringify (JObj [(''type'', JStr ''send_message''), (''content'', JStr content)])"

text \<open>\<open>Reserved\<close>: the ledger answers; an \<open>Inl\<close> is a rejected query, which ends the handling of the frame without
  a frame to the browser.\<close>

definition afterReserve :: "MediatorConfig \<Rightarrow> nat \<Rightarrow> int \<Rightarrow> string \<Rightarrow> bool \<Rightarrow> mediator \<Rightarrow> mediator" where
  "afterReserve c k now rid available s = (case js_get (md_streams s) k of None \<Rightarrow> s
    | Some st \<Rightarrow> (case (st_awaiting st, js_get (md_objects s) (st_gid st)) of
        (Some (day, content), Some g) \<Rightarrow>
          (let st1 = st\<lparr>st_awaiting := None\<rparr>;
               (r, l) = (if available then reserve now rid day (mc_reservationMicroUsd c) (mc_dailyCeilingMicroUsd c) (gs_sessionId g) (md_ledger s)
                         else (Inl (DbErr Unavailable), md_ledger s)) in
           case r of
             Inl e \<Rightarrow> setStream k st1 s
           | Inr (Refused tot) \<Rightarrow> setStream k (sendFrame dailyCeilingFrame st1) s
           | Inr (Accepted row tot) \<Rightarrow>
               setStream k (forwardUpstream (upstreamMessage content) st1)
                 (setGuest (st_gid st) (g\<lparr>gs_pendingReservationIds := gs_pendingReservationIds g @ [rs_reservationId row],
                      gs_messagesSent := gs_messagesSent g + 1\<rparr>)
                   (maybeAlert c day tot (s\<lparr>md_ledger := l\<rparr>))))
      | _ \<Rightarrow> s))"

section \<open>Upstream frames\<close>

text \<open>\<open>observeChatEvent\<close>: the new guest, the frames for the browser, the reservation to attach, the run to cancel
  and the run to settle.\<close>

record observed =
  ob_guest :: GuestSession
  ob_frames :: "json list"
  ob_attach :: "(string \<times> string) option"
  ob_cancel :: "string option"
  ob_settle :: "(string \<times> string) option"

definition runIdOf :: "json \<Rightarrow> string option" where
  "runIdOf j = (case strProp ''runId'' j of Some r \<Rightarrow> if r = [] then None else Some r | None \<Rightarrow> None)"

definition observeToken :: "MediatorConfig \<Rightarrow> GuestSession \<Rightarrow> json \<Rightarrow> observed" where
  "observeToken c g j =
     (let txt = (case strProp ''text'' j of Some t \<Rightarrow> t | None \<Rightarrow> []);
          g1 = g\<lparr>gs_estOutputTokens := gs_estOutputTokens g + ceilDiv (int (length txt)) 4\<rparr> in
      if gs_estOutputTokens g1 > mc_tokensPerSession c \<and> \<not> gs_tokenCapBreached g
      then \<lparr>ob_guest = g1\<lparr>gs_tokenCapBreached := True\<rparr>,
             ob_frames = [refusal TokenCap (''This session crossed its '' @ intToString (mc_tokensPerSession c)
               @ ''-token cap - the current run is being cancelled.'') (remaining ''tokens'' 0)],
             ob_attach = None, ob_cancel = runIdOf j, ob_settle = None\<rparr>
      else \<lparr>ob_guest = g1, ob_frames = [], ob_attach = None, ob_cancel = None, ob_settle = None\<rparr>)"

definition observeStarted :: "GuestSession \<Rightarrow> string \<Rightarrow> observed" where
  "observeStarted g run =
     (let g1 = g\<lparr>gs_seenRuns := gs_seenRuns g @ [run]\<rparr> in case gs_pendingReservationIds g of
        [] \<Rightarrow> \<lparr>ob_guest = g1, ob_frames = [], ob_attach = None, ob_cancel = None, ob_settle = None\<rparr>
      | rid # rest \<Rightarrow> \<lparr>ob_guest = g1\<lparr>gs_pendingReservationIds := rest, gs_reservationByRun := js_set run rid (gs_reservationByRun g)\<rparr>,
          ob_frames = [], ob_attach = Some (rid, run), ob_cancel = None, ob_settle = None\<rparr>)"

definition observeEnded :: "GuestSession \<Rightarrow> string \<Rightarrow> observed" where
  "observeEnded g run = (case js_get (gs_reservationByRun g) run of
      None \<Rightarrow> \<lparr>ob_guest = g, ob_frames = [], ob_attach = None, ob_cancel = None, ob_settle = None\<rparr>
    | Some rid \<Rightarrow> \<lparr>ob_guest = g\<lparr>gs_reservationByRun := js_delete run (gs_reservationByRun g)\<rparr>,
        ob_frames = [], ob_attach = None, ob_cancel = None, ob_settle = Some (run, rid)\<rparr>)"

definition observeChatEvent :: "MediatorConfig \<Rightarrow> GuestSession \<Rightarrow> json \<Rightarrow> observed" where
  "observeChatEvent c g j =
     (let ty = strProp ''type'' j; nothing = \<lparr>ob_guest = g, ob_frames = [], ob_attach = None, ob_cancel = None, ob_settle = None\<rparr> in
      if ty = Some ''message_started'' then (case runIdOf j of Some run \<Rightarrow> if run \<in> set (gs_seenRuns g) then nothing else observeStarted g run
          | None \<Rightarrow> nothing)
      else if ty = Some ''token'' then observeToken c g j
      else if ty = Some ''message_completed'' \<or> ty = Some ''run_failed'' then (case runIdOf j of Some run \<Rightarrow> observeEnded g run | None \<Rightarrow> nothing)
      else nothing)"

text \<open>The effects of an observed event on the rest of the state; \<open>attachOk\<close> says whether the query of \<open>attachRun\<close>
  succeeds.\<close>

definition applyObserved :: "bool \<Rightarrow> observed \<Rightarrow> mediator \<Rightarrow> mediator" where
  "applyObserved attachOk o1 s = s\<lparr>
     md_ledger := (case ob_attach o1 of Some (rid, run) \<Rightarrow> if attachOk then snd (attachRun rid run (md_ledger s)) else md_ledger s
       | None \<Rightarrow> md_ledger s),
     md_cancelled := (case ob_cancel o1 of Some r \<Rightarrow> md_cancelled s @ [r] | None \<Rightarrow> md_cancelled s),
     md_settling := (case ob_settle o1 of Some p \<Rightarrow> md_settling s @ [p] | None \<Rightarrow> md_settling s)\<rparr>"

text \<open>The handler of upstream messages: a chat event is relayed as the text it arrived as.\<close>

definition onUpstream :: "MediatorConfig \<Rightarrow> nat \<Rightarrow> string \<Rightarrow> bool \<Rightarrow> mediator \<Rightarrow> mediator" where
  "onUpstream c k raw attachOk s = (case js_get (md_streams s) k of None \<Rightarrow> s
    | Some st \<Rightarrow> (case (parse raw, js_get (md_objects s) (st_gid st)) of
        (Some j, Some g) \<Rightarrow>
          if strProp ''type'' j = Some ''pong''
          then (if st_upstreamReady st then s else setStream k (flushQueue (st\<lparr>st_upstreamReady := True\<rparr>)) s)
          else if isChatFrame j
          then (let o1 = observeChatEvent c g j in
                setStream k (fold sendFrame (ob_frames o1) (st\<lparr>st_browser := st_browser st @ [raw]\<rparr>))
                  (setGuest (st_gid st) (ob_guest o1) (applyObserved attachOk o1 s)))
          else s
      | _ \<Rightarrow> s))"

definition settleRun :: "int \<Rightarrow> string \<Rightarrow> (string \<times> nat option \<times> nat option) option list \<Rightarrow> bool \<Rightarrow> mediator \<Rightarrow> mediator" where
  "settleRun now runId answers available s = (case js_get (md_settling s) runId of None \<Rightarrow> s
    | Some rid \<Rightarrow> s\<lparr>md_settling := js_delete runId (md_settling s),
        md_ledger := (case confirmRun SETTLE_CONFIRM_ATTEMPTS answers of
            Some (t, i, ou) \<Rightarrow> if available then snd (settle now rid t i ou (md_ledger s)) else md_ledger s
          | None \<Rightarrow> md_ledger s)\<rparr>)"

section \<open>The machine\<close>

datatype mediatorOp = Sweep int
  | Mint string int "(string \<times> string \<times> string) option" string int
  | OpenStream nat "string option" int
  | UpstreamOpen nat | PingTick nat | UpstreamClose nat | OnUpstream nat string bool
  | BrowserMessage nat string | BrowserClose nat
  | Handle nat int | AfterReserve nat int string bool
  | SettleRun int string "(string \<times> nat option \<times> nat option) option list" bool

definition withStream :: "nat \<Rightarrow> (stream \<Rightarrow> stream) \<Rightarrow> mediator \<Rightarrow> mediator" where
  "withStream k f s = (case js_get (md_streams s) k of None \<Rightarrow> s | Some st \<Rightarrow> setStream k (f st) s)"

fun mediatorStep :: "MediatorConfig \<Rightarrow> mediatorOp \<Rightarrow> mediator \<Rightarrow> mediator" where
  "mediatorStep c (Sweep now) s = mediatorSweep c now s"
| "mediatorStep c (Mint ip now created gid later) s = snd (mintGuest c ip now created gid later s)"
| "mediatorStep c (OpenStream k gid now) s = openStream c k gid now s"
| "mediatorStep c (UpstreamOpen k) s = withStream k (\<lambda>st. (ping (st\<lparr>st_attempts := 0\<rparr>))\<lparr>st_pinging := True\<rparr>) s"
| "mediatorStep c (PingTick k) s = withStream k (\<lambda>st. if st_pinging st then ping st else st) s"
| "mediatorStep c (UpstreamClose k) s = withStream k (\<lambda>st. st\<lparr>st_pinging := False, st_upstreamReady := False\<rparr>) s"
| "mediatorStep c (OnUpstream k raw attachOk) s = onUpstream c k raw attachOk s"
| "mediatorStep c (BrowserMessage k raw) s = withStream k (\<lambda>st. st\<lparr>st_inbound := st_inbound st @ [raw]\<rparr>) s"
| "mediatorStep c (BrowserClose k) s = withStream k (\<lambda>st. st\<lparr>st_upstreamClosed := True\<rparr>) s"
| "mediatorStep c (Handle k now) s = handleNext c k now s"
| "mediatorStep c (AfterReserve k now rid available) s = afterReserve c k now rid available s"
| "mediatorStep c (SettleRun now runId answers available) s = settleRun now runId answers available s"

end
