(* ===== verification/Mediator_Props.thy ===== *)
theory Mediator_Props
  imports Mediator
begin

text \<open>What the mediator promises: every message that reaches the runtime is paid for in the ledger, whose days
  stay below the ceiling; chat events reach the browser byte for byte and in order; no credential does;
  and the message cap holds up to the number of sockets of a guest.\<close>

section \<open>Updates of maps\<close>

lemma sum_update:
  "js_get m k = Some v0 \<Longrightarrow> sum_list (map (\<lambda>(i, v). f v) (js_set k v m)) + f v0 = sum_list (map (\<lambda>(i, v). f v) m) + (f v :: nat)"
  by (induction m) auto

lemma sum_insert: "js_get m k = None \<Longrightarrow> sum_list (map (\<lambda>(i, v). f v) (js_set k v m)) = sum_list (map (\<lambda>(i, v). f v) m) + (f v :: nat)"
  by (induction m) (auto split: if_splits)

section \<open>Every forwarded message is paid for\<close>

definition typeOfText :: "string \<Rightarrow> string option" where
  "typeOfText f = (case parse f of Some j \<Rightarrow> strProp ''type'' j | None \<Rightarrow> None)"

definition isSend :: "string \<Rightarrow> bool" where
  "isSend f = (typeOfText f = Some ''send_message'')"

definition sends :: "stream \<Rightarrow> nat" where
  "sends st = length (filter isSend (st_upstream st @ st_outQueue st))"

definition sendsTotal :: "mediator \<Rightarrow> nat" where
  "sendsTotal s = sum_list (map (\<lambda>(k, st). sends st) (md_streams s))"

lemma typeOfText_stringify: "wf_json j \<Longrightarrow> typeOfText (stringify j) = strProp ''type'' j"
  by (simp add: typeOfText_def parse_stringify)

lemma isSend_message [simp]: "isSend (upstreamMessage content)"
  by (simp add: isSend_def upstreamMessage_def typeOfText_stringify strProp_def del: stringify.simps)

lemma isSend_ping [simp]: "\<not> isSend (stringify (JObj [(''type'', JStr ''ping'')]))"
  by (simp add: isSend_def typeOfText_stringify strProp_def del: stringify.simps)

lemma sends_simps [simp]:
  "sends (st\<lparr>st_browser := b\<rparr>) = sends st" "sends (st\<lparr>st_awaiting := a\<rparr>) = sends st" "sends (st\<lparr>st_inbound := i\<rparr>) = sends st"
  "sends (st\<lparr>st_closed := cl\<rparr>) = sends st" "sends (st\<lparr>st_pinging := p\<rparr>) = sends st" "sends (st\<lparr>st_attempts := n\<rparr>) = sends st"
  "sends (st\<lparr>st_upstreamReady := r\<rparr>) = sends st" "sends (st\<lparr>st_upstreamClosed := u\<rparr>) = sends st"
  "sends (flushQueue st) = sends st" "sends (sendFrame j st) = sends st" "sends (newStream gid url) = 0"
  "sends (forwardUpstream (upstreamMessage content) st) = Suc (sends st)"
  by (simp_all add: sends_def flushQueue_def sendFrame_def newStream_def forwardUpstream_def)

lemma sends_ping [simp]: "sends (ping st) = sends st"
  by (simp add: ping_def Let_def del: stringify.simps) (simp add: sends_def del: stringify.simps)

lemma sends_frames [simp]: "sends (fold sendFrame js st) = sends st"
  by (induction js arbitrary: st) simp_all

lemma sendsTotal_set:
  "js_get (md_streams s) k = Some st0 \<Longrightarrow> sendsTotal (setStream k st s) + sends st0 = sendsTotal s + sends st"
  unfolding sendsTotal_def setStream_def using sum_update [of "md_streams s" k st0 sends st] by simp

lemma sendsTotal_same: "js_get (md_streams s) k = Some st0 \<Longrightarrow> sends st = sends st0 \<Longrightarrow> sendsTotal (setStream k st s) = sendsTotal s"
  using sendsTotal_set [of s k st0 st] by simp

lemma sendsTotal_new: "js_get (md_streams s) k = None \<Longrightarrow> sends st = 0 \<Longrightarrow> sendsTotal (setStream k st s) = sendsTotal s"
  unfolding sendsTotal_def setStream_def using sum_insert [of "md_streams s" k sends st] by simp

lemma setStream_simps [simp]: "md_ledger (setStream k st s) = md_ledger s" "md_objects (setStream k st s) = md_objects s"
  "md_guests (setStream k st s) = md_guests s" "md_streams (setStream k st s) = js_set k st (md_streams s)"
  by (simp_all add: setStream_def)

lemma setGuest_simps [simp]: "md_ledger (setGuest gid g s) = md_ledger s" "md_streams (setGuest gid g s) = md_streams s"
  "md_guests (setGuest gid g s) = md_guests s" "md_objects (setGuest gid g s) = js_set gid g (md_objects s)"
  by (simp_all add: setGuest_def)

lemma maybeAlert_simps [simp]: "md_ledger (maybeAlert c day t s) = md_ledger s" "md_streams (maybeAlert c day t s) = md_streams s"
  "md_guests (maybeAlert c day t s) = md_guests s" "md_objects (maybeAlert c day t s) = md_objects s"
  by (simp_all add: maybeAlert_def)

text \<open>\<open>ledgerFor\<close>: the ledger is consistent, holds only reservations of the configured amount, and no day is
  beyond the ceiling.\<close>

definition ledgerFor :: "MediatorConfig \<Rightarrow> ledger \<Rightarrow> bool" where
  "ledgerFor c l = (ledgerOk l \<and> (\<forall>r \<in> set (ld_reservations l). rs_reservedMicroUsd r = mc_reservationMicroUsd c) \<and>
     (\<forall>day. dayTotal day l \<le> max 0 (mc_dailyCeilingMicroUsd c)))"

definition paid :: "MediatorConfig \<Rightarrow> mediator \<Rightarrow> bool" where
  "paid c s = (ledgerFor c (md_ledger s) \<and> sendsTotal s = length (ld_reservations (md_ledger s)))"

lemma ledgerFor_settle: "ledgerFor c l \<Longrightarrow> ledgerFor c (snd (settleWith now w l)) \<and> length (ld_reservations (snd (settleWith now w l))) = length (ld_reservations l)"
  using ledgerStep_ok [of l "SettleOp now w"]
  by (auto simp: ledgerFor_def settleWith_def updateWhere_def)

lemma ledgerFor_attach: "ledgerFor c l \<Longrightarrow> ledgerFor c (snd (attachRun k run l)) \<and> length (ld_reservations (snd (attachRun k run l))) = length (ld_reservations l)"
  using ledgerStep_ok [of l "AttachRun k run"]
  by (auto simp: ledgerFor_def attachRun_def updateWhere_def Let_def)

lemma ledgerFor_reserve:
  assumes "ledgerFor c l" "reserve now rid day (mc_reservationMicroUsd c) (mc_dailyCeilingMicroUsd c) sid l = (Inr (Accepted row tot), l')"
  shows "ledgerFor c l' \<and> length (ld_reservations l') = Suc (length (ld_reservations l))"
proof -
  have "ledgerOk l'" using ledgerStep_ok [of l "Reserve now rid day (mc_reservationMicroUsd c) (mc_dailyCeilingMicroUsd c) sid"] assms
    by (simp add: ledgerFor_def)
  then show ?thesis
    using assms by (cases rule: reserve_cases [OF assms(2)]) (auto simp: ledgerFor_def dayTotal_reserved newReservation_def)
qed

lemma paid_ledger: "paid c s \<Longrightarrow> ledgerFor c l \<Longrightarrow> length (ld_reservations l) = length (ld_reservations (md_ledger s)) \<Longrightarrow>
    md_streams t = md_streams s \<Longrightarrow> md_ledger t = l \<Longrightarrow> paid c t"
  by (simp add: paid_def sendsTotal_def)

lemma paid_stream: "paid c s \<Longrightarrow> js_get (md_streams s) k = Some st0 \<Longrightarrow> sends st = sends st0 \<Longrightarrow> paid c (setStream k st s)"
  by (simp add: paid_def sendsTotal_same)

lemma paid_withStream: "paid c s \<Longrightarrow> (\<And>st. sends (f st) = sends st) \<Longrightarrow> paid c (withStream k f s)"
  by (auto simp: withStream_def intro: paid_stream split: option.splits)

lemma paid_handle: "paid c s \<Longrightarrow> paid c (handleNext c k now s)"
proof -
  assume p: "paid c s"
  have q: "paid c (s\<lparr>md_sessionHits := h\<rparr>)" for h using p by (simp add: paid_def sendsTotal_def)
  show ?thesis
    unfolding handleNext_def Let_def
    by (auto split: option.splits list.splits prod.splits verdict.splits intro!: paid_stream [OF q] p)
qed

lemma paid_reserve: "paid c s \<Longrightarrow> paid c (afterReserve c k now rid available s)"
proof -
  assume p: "paid c s"
  show ?thesis
  proof (cases "\<exists>st day content g. js_get (md_streams s) k = Some st \<and> st_awaiting st = Some (day, content) \<and> js_get (md_objects s) (st_gid st) = Some g")
    case False
    then show ?thesis using p unfolding afterReserve_def by (auto split: option.splits)
  next
    case True
    then obtain st day content g where g: "js_get (md_streams s) k = Some st" "st_awaiting st = Some (day, content)"
      "js_get (md_objects s) (st_gid st) = Some g" by blast
    obtain r l where r: "(if available then reserve now rid day (mc_reservationMicroUsd c) (mc_dailyCeilingMicroUsd c) (gs_sessionId g) (md_ledger s)
        else (Inl (DbErr Unavailable), md_ledger s)) = (r, l)" by fastforce
    show ?thesis
    proof (cases "\<exists>row tot. r = Inr (Accepted row tot)")
      case False
      have same: "paid c (setStream k st1 s)" if "sends st1 = sends st" for st1 by (rule paid_stream [OF p g(1) that])
      show ?thesis using False unfolding afterReserve_def
        by (auto simp: g r Let_def split: sum.splits ReserveResult.splits intro!: same)
    next
      case True
      then obtain row tot where row: "r = Inr (Accepted row tot)" by blast
      have re: "reserve now rid day (mc_reservationMicroUsd c) (mc_dailyCeilingMicroUsd c) (gs_sessionId g) (md_ledger s) = (Inr (Accepted row tot), l)"
        using r row by (simp split: if_splits)
      have l: "ledgerFor c l" "length (ld_reservations l) = Suc (length (ld_reservations (md_ledger s)))"
        using ledgerFor_reserve [OF _ re] p by (simp_all add: paid_def)
      let ?t = "setGuest (st_gid st) (g\<lparr>gs_pendingReservationIds := gs_pendingReservationIds g @ [rs_reservationId row],
          gs_messagesSent := gs_messagesSent g + 1\<rparr>) (maybeAlert c day tot (s\<lparr>md_ledger := l\<rparr>))"
      have t: "sendsTotal ?t = sendsTotal s" "js_get (md_streams ?t) k = Some st" using g(1) by (simp_all add: sendsTotal_def)
      have "sendsTotal (setStream k (forwardUpstream (upstreamMessage content) (st\<lparr>st_awaiting := None\<rparr>)) ?t) = Suc (sendsTotal s)"
        using sendsTotal_set [OF t(2), of "forwardUpstream (upstreamMessage content) (st\<lparr>st_awaiting := None\<rparr>)"] t(1) by simp
      then show ?thesis using p l unfolding afterReserve_def by (simp add: g r row Let_def paid_def)
    qed
  qed
qed

lemma applyObserved_simps [simp]: "md_streams (applyObserved ok o1 s) = md_streams s" "md_objects (applyObserved ok o1 s) = md_objects s"
  "md_guests (applyObserved ok o1 s) = md_guests s"
  by (simp_all add: applyObserved_def)

lemma paid_observed: "paid c s \<Longrightarrow> paid c (setGuest gid g (applyObserved ok o1 s))"
proof -
  assume p: "paid c s"
  have "ledgerFor c (md_ledger (applyObserved ok o1 s)) \<and>
      length (ld_reservations (md_ledger (applyObserved ok o1 s))) = length (ld_reservations (md_ledger s))"
    using p ledgerFor_attach unfolding applyObserved_def by (auto simp: paid_def split: option.splits)
  then show ?thesis using p by (auto intro: paid_ledger [OF p])
qed

lemma paid_upstream: "paid c s \<Longrightarrow> paid c (onUpstream c k raw attachOk s)"
  unfolding onUpstream_def Let_def
  by (auto split: option.split intro!: paid_stream paid_observed)

lemma mediatorStep_paid: "paid c s \<Longrightarrow> paid c (mediatorStep c e s)"
proof (cases e)
  case (Sweep now)
  assume p: "paid c s"
  then show ?thesis unfolding Sweep mediatorStep.simps mediatorSweep_def Let_def sweepAbandoned_def
    using ledgerFor_settle [of c "md_ledger s" now "SweepOlder (now - mc_abandonedAfterMs c)"]
    by (intro paid_ledger [OF p]) (simp_all add: paid_def)
next
  case (SettleRun now runId answers available)
  assume p: "paid c s"
  then have f: "ledgerFor c (md_ledger s)" by (simp add: paid_def)
  show ?thesis unfolding SettleRun mediatorStep.simps settleRun_def
    using ledgerFor_settle [OF f] f
    by (auto simp: settle_def split: option.splits prod.splits intro!: paid_ledger [OF p _ _ _ refl] p) (metis snd_conv)+
next
  case (OpenStream k gid now)
  assume "paid c s"
  then show ?thesis unfolding OpenStream mediatorStep.simps openStream_def
    by (auto simp: paid_def sendsTotal_new split: option.splits)
next
  case (Mint ip now created gid later)
  assume "paid c s"
  then show ?thesis unfolding Mint mediatorStep.simps mintGuest_def
    by (auto simp: paid_def sendsTotal_def Let_def split: option.splits prod.splits)
qed (auto intro!: paid_withStream paid_handle paid_reserve paid_upstream)

interpretation paidM: machine "mediatorStep c" "paid c" for c
  by unfold_locales (rule mediatorStep_paid)

lemma paid_new: "paid c newMediator"
  by (simp add: paid_def newMediator_def ledgerFor_def emptyLedger_ok sendsTotal_def)
     (simp add: emptyLedger_def dayTotal_def)

lemma charged_const: "\<forall>r \<in> set rows. rs_reservedMicroUsd r = a \<Longrightarrow> charged day rows = a * int (length (filter (\<lambda>r. rs_day r = day) rows))"
  by (induction rows) (auto simp: charged_def algebra_simps)

text \<open>Property C25: whatever browsers, runtime and database do, the messages forwarded to the runtime, over all
  sockets, are exactly the reservations the ledger has accepted, and the reservations of a day cost no
  more than the daily ceiling.\<close>

theorem messages_paid:
  assumes "0 \<le> mc_dailyCeilingMicroUsd c" "s = runSteps (mediatorStep c) ops newMediator"
  shows "sendsTotal s = length (ld_reservations (md_ledger s)) \<and>
     mc_reservationMicroUsd c * int (length (filter (\<lambda>r. rs_day r = day) (ld_reservations (md_ledger s)))) \<le> mc_dailyCeilingMicroUsd c"
proof -
  have p: "paid c s" unfolding assms(2) by (rule paidM.run_inv [OF paid_new])
  then have "charged day (ld_reservations (md_ledger s)) = mc_reservationMicroUsd c * int (length (filter (\<lambda>r. rs_day r = day) (ld_reservations (md_ledger s))))"
    by (intro charged_const) (simp add: paid_def ledgerFor_def)
  moreover have "charged day (ld_reservations (md_ledger s)) \<le> max 0 (mc_dailyCeilingMicroUsd c)"
    using p unfolding paid_def ledgerFor_def ledgerOk_def by metis
  ultimately show ?thesis using p assms(1) by (simp add: paid_def)
qed

text \<open>A guest that sends one message.\<close>

definition exConfig :: MediatorConfig where
  "exConfig = \<lparr>mc_sessionTtlMs = 600000, mc_ipMax = 10, mc_ipWindowMs = 3600000, mc_sessionMax = 6, mc_sessionWindowMs = 60000,
     mc_messagesPerSession = 1, mc_messageMaxChars = 500, mc_tokensPerSession = 8000, mc_maxInputTokensPerRun = 30000,
     mc_maxOutputTokensPerRun = 10240, mc_inputPriceUsdPerMTok = 4 / 5, mc_outputPriceUsdPerMTok = 4, mc_reservationMicroUsd = 64960,
     mc_dailyCeilingMicroUsd = 5000000, mc_alertThresholdFraction = 1 / 2, mc_sweepIntervalMs = 60000, mc_abandonedAfterMs = 300000\<rparr>"

definition exSend :: "mediatorOp list" where
  "exSend = [Mint ''ip'' 0 (Some (''ses_1'', ''jwt'', ''ws://up?token=jwt'')) ''pg_1'' 0, OpenStream 1 (Some ''pg_1'') 5,
     BrowserMessage 1 (stringify (JObj [(''type'', JStr ''send''), (''content'', JStr ''hi'')])), Handle 1 7, AfterReserve 1 8 ''psr_1'' True]"

theorem messages_paid_witness:
  "sendsTotal (runSteps (mediatorStep exConfig) exSend newMediator) =
     length (ld_reservations (md_ledger (runSteps (mediatorStep exConfig) exSend newMediator)))"
  using messages_paid [of exConfig _ exSend, OF _ refl] by (simp add: exConfig_def)

section \<open>Chat events are relayed verbatim\<close>

definition isChatText :: "string \<Rightarrow> bool" where
  "isChatText f = (case parse f of Some j \<Rightarrow> isChatFrame j | None \<Rightarrow> False)"

definition ownFrame :: "json \<Rightarrow> bool" where
  "ownFrame j = (wf_json j \<and> \<not> isChatFrame j)"

definition relayed :: "nat \<Rightarrow> mediator \<Rightarrow> string list" where
  "relayed k s = (case js_get (md_streams s) k of Some st \<Rightarrow> filter isChatText (st_browser st) | None \<Rightarrow> [])"

definition attached :: "nat \<Rightarrow> mediator \<Rightarrow> bool" where
  "attached k s = (case js_get (md_streams s) k of Some st \<Rightarrow> js_has (md_objects s) (st_gid st) | None \<Rightarrow> False)"

definition upstreamTexts :: "nat \<Rightarrow> mediatorOp list \<Rightarrow> string list" where
  "upstreamTexts k ops = concat (map (\<lambda>e. case e of OnUpstream i raw ok \<Rightarrow> if i = k then [raw] else [] | _ \<Rightarrow> []) ops)"

lemma ownFrame_text: "ownFrame j \<Longrightarrow> \<not> isChatText (stringify j)"
  by (simp add: ownFrame_def isChatText_def parse_stringify)

lemma own_refusal: "extras = [] \<or> (\<exists>n. extras = [(''retryAfterSeconds'', JNum n)]) \<or> (\<exists>w n. extras = remaining w n) \<Longrightarrow> ownFrame (refusal r m extras)"
  by (auto simp: ownFrame_def refusal_def remaining_def isChatFrame_def strProp_def CHAT_EVENT_TYPES_def)

lemma own_ready: "ownFrame (sessionReady c gid g)"
  by (simp add: ownFrame_def sessionReady_def limitsOf_def isChatFrame_def strProp_def CHAT_EVENT_TYPES_def)

lemma own_inbound: "handleInbound c gid g raw now hits = (Refuse j cl, h) \<Longrightarrow> ownFrame j"
  by (auto simp: handleInbound_def afterLimiter_def badJson_def badShape_def expiredFrame_def
      split: option.splits if_splits prod.splits intro!: own_refusal)

lemma own_observed: "j \<in> set (ob_frames (observeChatEvent c g x)) \<Longrightarrow> ownFrame j"
  by (auto simp: observeChatEvent_def observeToken_def observeStarted_def observeEnded_def Let_def
      split: option.splits if_splits list.splits intro!: own_refusal)

lemma sendFrame_own [simp]: "ownFrame j \<Longrightarrow> filter isChatText (st_browser (sendFrame j st)) = filter isChatText (st_browser st)"
  by (simp add: sendFrame_def ownFrame_text)

lemma sendFrames_own: "(\<And>j. j \<in> set js \<Longrightarrow> ownFrame j) \<Longrightarrow> filter isChatText (st_browser (fold sendFrame js st)) = filter isChatText (st_browser st)"
  by (induction js arbitrary: st) simp_all

lemma stream_gids [simp]: "st_gid (sendFrame j st) = st_gid st" "st_gid (flushQueue st) = st_gid st" "st_gid (forwardUpstream f st) = st_gid st"
  "st_gid (ping st) = st_gid st" "st_gid (fold sendFrame js st) = st_gid st" "st_gid (newStream gid url) = gid"
  by (induction js arbitrary: st) (simp_all add: sendFrame_def flushQueue_def forwardUpstream_def ping_def Let_def newStream_def)

lemma stream_browsers [simp]: "st_browser (flushQueue st) = st_browser st" "st_browser (forwardUpstream f st) = st_browser st"
  "st_browser (ping st) = st_browser st" "st_browser (newStream gid url) = []"
  by (simp_all add: flushQueue_def forwardUpstream_def ping_def Let_def newStream_def)

text \<open>\<open>steady\<close>: the stream is still attached and its relayed frames have grown by \<open>new\<close>.\<close>

definition steady :: "nat \<Rightarrow> mediator \<Rightarrow> string list \<Rightarrow> mediator \<Rightarrow> bool" where
  "steady k s new t = (attached k t \<and> relayed k t = relayed k s @ new)"

lemma steady_same: "attached k s \<Longrightarrow> js_get (md_streams t) k = js_get (md_streams s) k \<Longrightarrow>
    (\<And>i. js_has (md_objects s) i \<Longrightarrow> js_has (md_objects t) i) \<Longrightarrow> steady k s [] t"
  by (auto simp: steady_def attached_def relayed_def split: option.splits)

lemma steady_refl: "attached k s \<Longrightarrow> steady k s [] s"
  by (simp add: steady_same)

lemma steady_set:
  assumes "attached k s" "js_get (md_streams s) i = Some st0" "st_gid st = st_gid st0"
    and "filter isChatText (st_browser st) = filter isChatText (st_browser st0) @ new"
    and "md_streams t = md_streams s" "\<And>i. js_has (md_objects s) i \<Longrightarrow> js_has (md_objects t) i"
  shows "steady k s (if i = k then new else []) (setStream i st t)"
  using assms by (auto simp: steady_def attached_def relayed_def update_conv' split: option.splits)

lemmas steady_put = steady_set [where new = "[]", simplified]

lemma steady_withStream:
  assumes "attached k s" "\<And>st. st_gid (f st) = st_gid st" "\<And>st. st_browser (f st) = st_browser st"
  shows "steady k s [] (withStream i f s)"
  using assms by (auto simp: withStream_def intro: steady_refl steady_put split: option.splits)

lemma steady_handle: "attached k s \<Longrightarrow> steady k s [] (handleNext c i now s)"
  unfolding handleNext_def Let_def
  by (auto split: option.splits list.splits prod.splits verdict.splits
      intro!: steady_refl steady_put dest: own_inbound)

lemma steady_reserve: "attached k s \<Longrightarrow> steady k s [] (afterReserve c i now rid available s)"
  unfolding afterReserve_def Let_def
  by (auto split: option.splits sum.splits ReserveResult.splits prod.splits
      intro!: steady_refl steady_put simp: update_conv' dailyCeilingFrame_def own_refusal)

lemma pong_not_chat: "isChatFrame j \<Longrightarrow> strProp ''type'' j \<noteq> Some ''pong''"
  by (auto simp: isChatFrame_def CHAT_EVENT_TYPES_def)

lemma steady_chat:
  assumes "attached k s" "js_get (md_streams s) i = Some st" "parse raw = Some j" "js_get (md_objects s) (st_gid st) = Some g" "isChatFrame j"
  shows "steady k s (if i = k then [raw] else []) (onUpstream c i raw ok s)"
proof -
  have e: "onUpstream c i raw ok s = setStream i (fold sendFrame (ob_frames (observeChatEvent c g j)) (st\<lparr>st_browser := st_browser st @ [raw]\<rparr>))
      (setGuest (st_gid st) (ob_guest (observeChatEvent c g j)) (applyObserved ok (observeChatEvent c g j) s))"
    using assms pong_not_chat [OF assms(5)] by (simp add: onUpstream_def Let_def)
  show ?thesis
    unfolding e by (rule steady_set [OF assms(1,2)]) (auto simp: sendFrames_own own_observed isChatText_def update_conv' assms(3,5))
qed

lemma steady_upstream:
  assumes "attached k s"
  shows "steady k s (if i = k then filter isChatText [raw] else []) (onUpstream c i raw ok s)"
proof (cases "js_get (md_streams s) i")
  case None
  then show ?thesis using assms by (auto simp: onUpstream_def attached_def intro: steady_refl)
next
  case (Some st)
  note st = this
  show ?thesis
  proof (cases "parse raw")
    case None
    then show ?thesis using st assms by (simp add: onUpstream_def isChatText_def steady_refl)
  next
    case (Some j)
    note j = this
    show ?thesis
    proof (cases "js_get (md_objects s) (st_gid st)")
      case None
      then have "i \<noteq> k" using st assms by (auto simp: attached_def)
      then show ?thesis using st j None assms by (simp add: onUpstream_def steady_refl)
    next
      case (Some g)
      have "onUpstream c i raw ok s = (if strProp ''type'' j = Some ''pong'' \<and> \<not> st_upstreamReady st
          then setStream i (flushQueue (st\<lparr>st_upstreamReady := True\<rparr>)) s else s)" if "\<not> isChatFrame j"
        using that st j Some by (simp add: onUpstream_def)
      then have "steady k s [] (onUpstream c i raw ok s)" if "\<not> isChatFrame j"
        using that assms st by (auto intro: steady_refl steady_put)
      then show ?thesis using steady_chat [OF assms st j Some, of c ok] j by (cases "isChatFrame j") (auto simp: isChatText_def split: if_splits)
    qed
  qed
qed

lemma steady_step: "attached k s \<Longrightarrow> steady k s (filter isChatText (upstreamTexts k [e])) (mediatorStep c e s)"
proof (cases e)
  case (Mint ip now created gid later)
  assume "attached k s"
  then show ?thesis unfolding Mint
    by (auto simp: upstreamTexts_def mintGuest_def Let_def update_conv' split: prod.splits option.splits intro!: steady_same)
next
  case (OpenStream i gid now)
  assume a: "attached k s"
  then have "i = k \<Longrightarrow> js_has (md_streams s) i" by (auto simp: attached_def split: option.splits)
  then show ?thesis using a unfolding OpenStream
    by (auto simp: upstreamTexts_def openStream_def update_conv' split: option.splits intro!: steady_same)
next
  case (OnUpstream i raw ok)
  assume "attached k s"
  then show ?thesis unfolding OnUpstream using steady_upstream [of k s i raw c ok] by (auto simp: upstreamTexts_def split: if_splits)
next
  case (Handle i now)
  then show "attached k s \<Longrightarrow> ?thesis" by (simp add: upstreamTexts_def steady_handle)
next
  case (AfterReserve i now rid available)
  then show "attached k s \<Longrightarrow> ?thesis" by (simp add: upstreamTexts_def steady_reserve)
next
  case (Sweep now)
  then show "attached k s \<Longrightarrow> ?thesis" by (simp add: upstreamTexts_def mediatorSweep_def Let_def steady_same)
next
  case (SettleRun now r answers available)
  then show "attached k s \<Longrightarrow> ?thesis" by (simp add: upstreamTexts_def settleRun_def steady_same steady_refl split: option.split)
qed (simp_all add: upstreamTexts_def steady_withStream)

text \<open>Property C27: the chat events that a browser gets on a stream are the chat events that the runtime has sent
  on it, the same text in the same order; the mediator's own frames are only put between them.\<close>

theorem relay_verbatim:
  assumes "attached k s"
  shows "relayed k (runSteps (mediatorStep c) ops s) = relayed k s @ filter isChatText (upstreamTexts k ops)"
  using assms
proof (induction ops arbitrary: s)
  case (Cons e ops)
  have st: "steady k s (filter isChatText (upstreamTexts k [e])) (mediatorStep c e s)" by (rule steady_step [OF Cons.prems])
  then have "attached k (mediatorStep c e s)" by (simp add: steady_def)
  from Cons.IH [OF this] show ?case using st by (simp add: steady_def upstreamTexts_def)
qed (simp add: upstreamTexts_def)

definition exOpened :: "mediatorOp list" where
  "exOpened = [Mint ''ip'' 0 (Some (''ses_1'', ''jwt'', ''ws://up?token=jwt'')) ''pg_1'' 0, OpenStream 1 (Some ''pg_1'') 5]"

lemma exOpened_attached: "attached 1 (runSteps (mediatorStep exConfig) exOpened newMediator)"
  by (simp add: exOpened_def newMediator_def mintGuest_def limiterCheck_def timestampsOf_def ipOpts_def exConfig_def Let_def
      openStream_def newGuest_def setStream_def attached_def)

theorem relay_verbatim_witness:
  "relayed 1 (runSteps (mediatorStep exConfig) [OnUpstream 1 ''{}'' True, BrowserMessage 1 ''x'', Handle 1 9] (runSteps (mediatorStep exConfig) exOpened newMediator)) =
     relayed 1 (runSteps (mediatorStep exConfig) exOpened newMediator) @ filter isChatText [''{}'']"
  using relay_verbatim [OF exOpened_attached] by (simp only:) (simp add: upstreamTexts_def)

section \<open>No credential reaches the browser\<close>

text \<open>A mediator whose runtime hands out empty client tokens and socket addresses.\<close>

definition scrubG :: "GuestSession \<Rightarrow> GuestSession" where
  "scrubG g = g\<lparr>gs_clientToken := [], gs_websocketUrl := []\<rparr>"

definition scrubS :: "stream \<Rightarrow> stream" where
  "scrubS st = st\<lparr>st_url := []\<rparr>"

definition scrub :: "mediator \<Rightarrow> mediator" where
  "scrub s = s\<lparr>md_objects := map (\<lambda>(k, g). (k, scrubG g)) (md_objects s), md_streams := map (\<lambda>(k, st). (k, scrubS st)) (md_streams s)\<rparr>"

definition scrubOp :: "mediatorOp \<Rightarrow> mediatorOp" where
  "scrubOp e = (case e of Mint ip now created gid later \<Rightarrow> Mint ip now (map_option (\<lambda>(sid, tok, url). (sid, [], [])) created) gid later | _ \<Rightarrow> e)"

lemma scrubG_simps [simp]: "gs_sessionId (scrubG g) = gs_sessionId g" "gs_expiresAtMs (scrubG g) = gs_expiresAtMs g"
  "gs_messagesSent (scrubG g) = gs_messagesSent g" "gs_estOutputTokens (scrubG g) = gs_estOutputTokens g"
  "gs_pendingReservationIds (scrubG g) = gs_pendingReservationIds g" "gs_reservationByRun (scrubG g) = gs_reservationByRun g"
  "gs_seenRuns (scrubG g) = gs_seenRuns g" "gs_tokenCapBreached (scrubG g) = gs_tokenCapBreached g"
  by (simp_all add: scrubG_def)

lemma scrubS_simps [simp]: "st_gid (scrubS st) = st_gid st" "st_awaiting (scrubS st) = st_awaiting st" "st_inbound (scrubS st) = st_inbound st"
  "st_closed (scrubS st) = st_closed st" "st_upstreamReady (scrubS st) = st_upstreamReady st" "st_browser (scrubS st) = st_browser st"
  "st_pinging (scrubS st) = st_pinging st" "st_attempts (scrubS st) = st_attempts st" "st_upstream (scrubS st) = st_upstream st"
  by (simp_all add: scrubS_def)

lemma get_map_values: "js_get (map (\<lambda>(k, v). (k, f v)) m) k = map_option f (js_get m k)"
  by (induction m) auto

lemma set_map_values: "map (\<lambda>(k, v). (k, f v)) (js_set k v m) = js_set k (f v) (map (\<lambda>(k, v). (k, f v)) m)"
  by (induction m) auto

lemma scrub_get [simp]: "js_get (md_objects (scrub s)) i = map_option scrubG (js_get (md_objects s) i)"
  "js_get (md_streams (scrub s)) k = map_option scrubS (js_get (md_streams s) k)"
  by (simp_all add: scrub_def get_map_values)

lemma scrub_simps [simp]: "md_guests (scrub s) = md_guests s" "md_ipHits (scrub s) = md_ipHits s" "md_sessionHits (scrub s) = md_sessionHits s"
  "md_alertedDays (scrub s) = md_alertedDays s" "md_ledger (scrub s) = md_ledger s" "md_settling (scrub s) = md_settling s"
  "md_cancelled (scrub s) = md_cancelled s"
  by (simp_all add: scrub_def)

lemma scrub_setStream: "scrub (setStream k st s) = setStream k (scrubS st) (scrub s)"
  by (simp add: scrub_def setStream_def set_map_values)

lemma scrub_setGuest: "scrub (setGuest i g s) = setGuest i (scrubG g) (scrub s)"
  by (simp add: scrub_def setGuest_def set_map_values)

lemma scrub_rest: "scrub (s\<lparr>md_ledger := l\<rparr>) = (scrub s)\<lparr>md_ledger := l\<rparr>" "scrub (s\<lparr>md_sessionHits := h\<rparr>) = (scrub s)\<lparr>md_sessionHits := h\<rparr>"
  "scrub (maybeAlert c day t s) = maybeAlert c day t (scrub s)" "scrub (s\<lparr>md_ipHits := h\<rparr>) = (scrub s)\<lparr>md_ipHits := h\<rparr>"
  by (simp_all add: scrub_def maybeAlert_def)

lemma scrub_stream: "scrubS (sendFrame j st) = sendFrame j (scrubS st)" "scrubS (forwardUpstream f st) = forwardUpstream f (scrubS st)"
  "scrubS (flushQueue st) = flushQueue (scrubS st)" "scrubS (ping st) = ping (scrubS st)"
  by (simp_all add: scrubS_def sendFrame_def forwardUpstream_def flushQueue_def ping_def Let_def del: stringify.simps)

lemma scrub_frames: "scrubS (fold sendFrame js st) = fold sendFrame js (scrubS st)"
  by (induction js arbitrary: st) (simp_all add: scrub_stream)

lemma scrub_fields: "scrubS (st\<lparr>st_inbound := i\<rparr>) = (scrubS st)\<lparr>st_inbound := i\<rparr>" "scrubS (st\<lparr>st_awaiting := a\<rparr>) = (scrubS st)\<lparr>st_awaiting := a\<rparr>"
  "scrubS (st\<lparr>st_closed := cl\<rparr>) = (scrubS st)\<lparr>st_closed := cl\<rparr>" "scrubS (st\<lparr>st_upstreamReady := r\<rparr>) = (scrubS st)\<lparr>st_upstreamReady := r\<rparr>"
  "scrubS (st\<lparr>st_browser := b\<rparr>) = (scrubS st)\<lparr>st_browser := b\<rparr>" "scrubS (st\<lparr>st_pinging := p\<rparr>) = (scrubS st)\<lparr>st_pinging := p\<rparr>"
  "scrubS (st\<lparr>st_attempts := n\<rparr>) = (scrubS st)\<lparr>st_attempts := n\<rparr>" "scrubS (st\<lparr>st_upstreamClosed := u\<rparr>) = (scrubS st)\<lparr>st_upstreamClosed := u\<rparr>"
  by (simp_all add: scrubS_def)

lemma scrub_after [simp]: "afterLimiter c (scrubG g) t = afterLimiter c g t"
  by (simp add: afterLimiter_def)

lemma scrub_inbound [simp]: "handleInbound c gid (scrubG g) raw now hits = handleInbound c gid g raw now hits"
  by (simp add: handleInbound_def split: option.split prod.split)

lemma scrub_observe: "ob_guest (observeChatEvent c (scrubG g) j) = scrubG (ob_guest (observeChatEvent c g j))"
  "ob_frames (observeChatEvent c (scrubG g) j) = ob_frames (observeChatEvent c g j)"
  "ob_attach (observeChatEvent c (scrubG g) j) = ob_attach (observeChatEvent c g j)"
  "ob_cancel (observeChatEvent c (scrubG g) j) = ob_cancel (observeChatEvent c g j)"
  "ob_settle (observeChatEvent c (scrubG g) j) = ob_settle (observeChatEvent c g j)"
  by (simp_all add: observeChatEvent_def observeToken_def observeStarted_def observeEnded_def Let_def scrubG_def
      split: option.splits list.splits)

lemma scrub_three: "scrub (s\<lparr>md_ledger := l, md_cancelled := x, md_settling := y\<rparr>) = (scrub s)\<lparr>md_ledger := l, md_cancelled := x, md_settling := y\<rparr>"
  by (simp add: scrub_def)

lemma scrub_swept: "scrub (s\<lparr>md_ledger := l, md_guests := g, md_sessionHits := h\<rparr>) = (scrub s)\<lparr>md_ledger := l, md_guests := g, md_sessionHits := h\<rparr>"
  by (simp add: scrub_def)

lemma scrub_charge: "scrubG (g\<lparr>gs_pendingReservationIds := p, gs_messagesSent := n\<rparr>) = (scrubG g)\<lparr>gs_pendingReservationIds := p, gs_messagesSent := n\<rparr>"
  by (simp add: scrubG_def)

lemma scrub_observed: "scrub (applyObserved ok (observeChatEvent c g j) s) = applyObserved ok (observeChatEvent c (scrubG g) j) (scrub s)"
  unfolding applyObserved_def scrub_three scrub_observe scrub_simps by (rule refl)

lemmas scrub_all = scrub_setStream scrub_setGuest scrub_rest scrub_stream scrub_frames scrub_fields scrub_observed scrub_observe

lemma scrub_handle: "handleNext c k now (scrub s) = scrub (handleNext c k now s)"
  by (auto simp: handleNext_def Let_def scrub_all split: option.splits list.splits prod.splits verdict.splits)

lemma scrub_reserve: "afterReserve c k now rid available (scrub s) = scrub (afterReserve c k now rid available s)"
  by (auto simp: afterReserve_def Let_def scrub_all scrub_charge split: option.splits sum.splits ReserveResult.splits prod.splits)

lemma scrub_upstream: "onUpstream c k raw ok (scrub s) = scrub (onUpstream c k raw ok s)"
  by (auto simp: onUpstream_def Let_def scrub_all split: option.splits)

lemma scrub_withStream: "(\<And>st. f (scrubS st) = scrubS (f st)) \<Longrightarrow> withStream k f (scrub s) = scrub (withStream k f s)"
  by (auto simp: withStream_def scrub_all split: option.splits)

lemma scrub_step: "mediatorStep c (scrubOp e) (scrub s) = scrub (mediatorStep c e s)"
proof (cases e)
  case (Sweep now)
  have o: "(\<lambda>gid. case js_get (md_objects (scrub s)) gid of Some g \<Rightarrow> gs_expiresAtMs g < t | None \<Rightarrow> False) =
      (\<lambda>gid. case js_get (md_objects s) gid of Some g \<Rightarrow> gs_expiresAtMs g < t | None \<Rightarrow> False)" for t
    by (auto simp: fun_eq_iff split: option.splits)
  show ?thesis unfolding Sweep scrubOp_def mediatorOp.case mediatorStep.simps mediatorSweep_def Let_def o scrub_simps scrub_swept by (rule refl)
next
  case (Mint ip now created gid later)
  then show ?thesis
    by (auto simp: scrubOp_def mintGuest_def Let_def scrub_rest newGuest_def split: prod.splits option.splits)
       (simp_all add: scrub_def set_map_values scrubG_def)
next
  case (OpenStream k gid now)
  then show ?thesis
    by (auto simp: scrubOp_def openStream_def scrub_all sessionReady_def newStream_def split: option.splits)
       (simp_all add: scrubS_def scrubG_def)
next
  case (SettleRun now r answers available)
  then show ?thesis by (auto simp: scrubOp_def settleRun_def split: option.splits) (simp_all add: scrub_def)
qed (simp_all add: scrubOp_def scrub_handle scrub_reserve scrub_upstream scrub_withStream scrub_all)

text \<open>Property C26: no credential reaches the browser or decides what it gets: the frames of every stream are
  those of a mediator that was only ever handed empty client tokens and socket addresses.\<close>

theorem no_credential_leaks:
  "map (\<lambda>(k, st). (k, st_browser st)) (md_streams (runSteps (mediatorStep c) ops newMediator)) =
   map (\<lambda>(k, st). (k, st_browser st)) (md_streams (runSteps (mediatorStep c) (map scrubOp ops) newMediator))"
proof -
  have "runSteps (mediatorStep c) (map scrubOp ops) (scrub s) = scrub (runSteps (mediatorStep c) ops s)" for s
    by (induction ops arbitrary: s) (simp_all add: scrub_step)
  from this [of newMediator] have "runSteps (mediatorStep c) (map scrubOp ops) newMediator = scrub (runSteps (mediatorStep c) ops newMediator)"
    by (simp add: scrub_def newMediator_def)
  then show ?thesis by (simp add: scrub_def split_def comp_def)
qed

end
