(* ===== verification/Mediator_Cap.thy ===== *)
theory Mediator_Cap
  imports Mediator_Props
begin

text \<open>The message cap of a guest.  The check and the increment of \<open>messagesSent\<close> are separated by the \<open>await\<close> of
  the ledger; \<open>inboundChain\<close> orders the frames of one socket only, so the cap is exact for a guest with one
  socket, and each further socket can overshoot it by one.\<close>

definition sumOf :: "(stream \<Rightarrow> nat) \<Rightarrow> mediator \<Rightarrow> nat" where
  "sumOf f s = sum_list (map (\<lambda>(k, st). f st) (md_streams s))"






lemma sumOf_streams: "md_streams t = md_streams s \<Longrightarrow> sumOf f t = sumOf f s"
  by (simp add: sumOf_def)







lemma stream_awaits [simp]: "st_awaiting (sendFrame j st) = st_awaiting st" "st_awaiting (flushQueue st) = st_awaiting st"
  "st_awaiting (forwardUpstream f st) = st_awaiting st" "st_awaiting (ping st) = st_awaiting st" "st_awaiting (newStream gid url) = None"
  "st_awaiting (fold sendFrame js st) = st_awaiting st"
  by (induction js arbitrary: st) (simp_all add: sendFrame_def flushQueue_def forwardUpstream_def ping_def Let_def newStream_def)









lemma observe_sent [simp]: "gs_messagesSent (ob_guest (observeChatEvent c g j)) = gs_messagesSent g"
  by (auto simp: observeChatEvent_def observeToken_def observeStarted_def observeEnded_def Let_def split: option.splits list.splits)





definition exHi :: string where
  "exHi = stringify (JObj [(''type'', JStr ''send''), (''content'', JStr ''hi'')])"

definition exRace :: "mediatorOp list" where
  "exRace = [Mint ''ip'' 0 (Some (''ses_1'', ''jwt'', ''url'')) ''pg_1'' 0, OpenStream 1 (Some ''pg_1'') 5, OpenStream 2 (Some ''pg_1'') 6,
     BrowserMessage 1 exHi, BrowserMessage 2 exHi, Handle 1 7, Handle 2 8, AfterReserve 1 9 ''psr_1'' True, AfterReserve 2 10 ''psr_2'' True]"

lemma parse_exHi: "parse exHi = Some (JObj [(''type'', JStr ''send''), (''content'', JStr ''hi'')])"
  unfolding exHi_def by (rule parse_stringify) simp

lemma schema_exHi: "MediatorInboundSchema (JObj [(''type'', JStr ''send''), (''content'', JStr ''hi'')])"
  by (simp add: MediatorInboundSchema_def strictObj_def zLiteral_def zMin1_def)

lemma race: "map_option gs_messagesSent (js_get (md_objects (runSteps (mediatorStep exConfig) exRace newMediator)) ''pg_1'') = Some 2"
  by (simp add: exRace_def newMediator_def mintGuest_def limiterCheck_def timestampsOf_def ipOpts_def sessionOpts_def exConfig_def Let_def
      openStream_def newGuest_def setStream_def setGuest_def withStream_def handleNext_def handleInbound_def parse_exHi schema_exHi
      afterLimiter_def strProp_def afterReserve_def reserve_def upsertDay_def emptyLedger_def maybeAlert_def newStream_def sendFrame_def
      newReservation_def forwardUpstream_def)


text \<open>The cap can be overshot: two sockets of one guest, each with one frame checked before either
  reservation is answered, get two messages through a cap of one.\<close>

theorem message_cap_race:
  "mc_messagesPerSession exConfig = 1 \<and>
   map_option gs_messagesSent (js_get (md_objects (runSteps (mediatorStep exConfig) exRace newMediator)) ''pg_1'') = Some 2"
  using race by (simp add: exConfig_def)

end
