(* ===== verification/Gateway_Events.thy ===== *)
theory Gateway_Events
  imports Json Shared_Types
begin

text \<open>The frames of the gateway: \<open>gateway/src/events.ts\<close>, the inbound schemas of \<open>types.ts\<close>, the wire form and
  schema of chat events (\<open>shared/src/types/events.ts\<close>), and \<open>auth.ts\<close> with \<open>shared/src/types/auth.ts\<close>.\<close>

section \<open>Chat events on the wire\<close>

definition statusText :: "ToolCallStatus \<Rightarrow> string" where
  "statusText st = (case st of TcStarted \<Rightarrow> ''started'' | TcCompleted \<Rightarrow> ''completed'' | TcFailed \<Rightarrow> ''failed'')"

text \<open>\<open>JSON.stringify\<close> of the \<open>cause\<close> of a failed run: the two SwiftAgent errors have \<open>toJSON\<close>, the others keep
  their message in properties that are not enumerable; what a database error shows is the driver's
  (the parameter \<open>dbj\<close>).\<close>

definition causeJson :: "(db_violation \<Rightarrow> json) \<Rightarrow> js_error \<Rightarrow> json" where
  "causeJson dbj e = (case e of
      SwiftErr c m \<Rightarrow> JObj [(''code'', JStr (codeName c)), (''message'', JStr m), (''statusCode'', JNum (int (CODE_TO_STATUS c)))]
    | TimeoutErr sc ms \<Rightarrow> JObj [(''code'', JStr (codeName TIMEOUT)), (''message'', JStr (errMessage (\<lambda>_. []) e)),
        (''statusCode'', JNum (int (CODE_TO_STATUS TIMEOUT)))]
    | DbErr v \<Rightarrow> dbj v
    | _ \<Rightarrow> JObj [])"

definition eventJson :: "(db_violation \<Rightarrow> json) \<Rightarrow> ChatEvent \<Rightarrow> json" where
  "eventJson dbj e = (case e of
      MessageStarted m r s \<Rightarrow> JObj [(''type'', JStr ''message_started''), (''messageId'', JStr m), (''runId'', JStr r), (''sessionId'', JStr s)]
    | Token r s m t \<Rightarrow> JObj [(''type'', JStr ''token''), (''runId'', JStr r), (''sessionId'', JStr s), (''messageId'', JStr m), (''text'', JStr t)]
    | ToolCallStarted c r s n \<Rightarrow> JObj [(''type'', JStr ''tool_call_started''), (''callId'', JStr c), (''runId'', JStr r), (''sessionId'', JStr s),
        (''toolName'', JStr n)]
    | ToolCallCompleted c r s n st \<Rightarrow> JObj [(''type'', JStr ''tool_call_completed''), (''callId'', JStr c), (''runId'', JStr r),
        (''sessionId'', JStr s), (''toolName'', JStr n), (''status'', JStr (statusText st))]
    | MessageCompleted m r s \<Rightarrow> JObj [(''type'', JStr ''message_completed''), (''messageId'', JStr m), (''runId'', JStr r), (''sessionId'', JStr s)]
    | RunFailed r s c m x \<Rightarrow> JObj ([(''type'', JStr ''run_failed''), (''runId'', JStr r), (''sessionId'', JStr s), (''code'', JStr c),
        (''message'', JStr m)] @ (case x of None \<Rightarrow> [] | Some er \<Rightarrow> [(''cause'', causeJson dbj er)])))"

definition serializeChatEvent :: "(db_violation \<Rightarrow> json) \<Rightarrow> ChatEvent \<Rightarrow> string" where
  "serializeChatEvent dbj e = stringify (eventJson dbj e)"

definition zStatus :: "json \<Rightarrow> bool" where
  "zStatus j = (j \<in> {JStr ''started'', JStr ''completed'', JStr ''failed''})"

definition eventFields :: "string \<Rightarrow> (string \<times> bool \<times> (json \<Rightarrow> bool)) list option" where
  "eventFields ty = (if ty = ''message_started'' \<or> ty = ''message_completed''
      then Some [(''messageId'', True, zString), (''runId'', True, zString), (''sessionId'', True, zString)]
    else if ty = ''token''
      then Some [(''runId'', True, zString), (''sessionId'', True, zString), (''messageId'', True, zString), (''text'', True, zString)]
    else if ty = ''tool_call_started''
      then Some [(''callId'', True, zString), (''runId'', True, zString), (''sessionId'', True, zString), (''toolName'', True, zString)]
    else if ty = ''tool_call_completed''
      then Some [(''callId'', True, zString), (''runId'', True, zString), (''sessionId'', True, zString), (''toolName'', True, zString),
        (''status'', True, zStatus)]
    else if ty = ''run_failed''
      then Some [(''runId'', True, zString), (''sessionId'', True, zString), (''code'', True, zString), (''message'', True, zString),
        (''cause'', False, zUnknown)]
    else None)"

definition ChatEventSchema :: "json \<Rightarrow> bool" where
  "ChatEventSchema j = (case getProp ''type'' j of Some (JStr ty) \<Rightarrow>
      (case eventFields ty of Some fs \<Rightarrow> strictObj ((''type'', True, zLiteral ty) # fs) j | None \<Rightarrow> False) | _ \<Rightarrow> False)"

lemma event_accepted: "ChatEventSchema (eventJson dbj e)"
  by (cases e) (auto simp: eventJson_def ChatEventSchema_def eventFields_def strictObj_def zLiteral_def zString_def zStatus_def zUnknown_def
      statusText_def split: option.splits ToolCallStatus.splits)

lemma event_wf: "(\<And>v. wf_json (dbj v)) \<Longrightarrow> wf_json (eventJson dbj e)"
  by (cases e) (auto simp: eventJson_def causeJson_def split: option.splits js_error.splits)

lemma parse_event: "(\<And>v. wf_json (dbj v)) \<Longrightarrow> parse (serializeChatEvent dbj e) = Some (eventJson dbj e)"
  unfolding serializeChatEvent_def by (rule parse_stringify [OF event_wf])

text \<open>Without its cause an event is determined by its text.\<close>

definition dropCause :: "ChatEvent \<Rightarrow> ChatEvent" where
  "dropCause e = (case e of RunFailed r s c m x \<Rightarrow> RunFailed r s c m None | _ \<Rightarrow> e)"

lemma statusText_inj: "statusText a = statusText b \<longleftrightarrow> a = b"
  by (cases a; cases b) (simp_all add: statusText_def)

lemma eventJson_inj: "eventJson dbj a = eventJson dbj b \<Longrightarrow> dropCause a = dropCause b"
  by (cases a; cases b) (auto simp: eventJson_def dropCause_def statusText_inj)

text \<open>Every event that is serialized parses back to a frame that the shared schema accepts, and two
  events with the same text are the same event up to the cause of a failure.\<close>

theorem event_roundtrip:
  assumes "\<And>v. wf_json (dbj v)"
  shows "parse (serializeChatEvent dbj e) = Some (eventJson dbj e) \<and> ChatEventSchema (eventJson dbj e) \<and>
    (serializeChatEvent dbj e = serializeChatEvent dbj e' \<longrightarrow> dropCause e = dropCause e')"
proof -
  have p: "parse (serializeChatEvent dbj x) = Some (eventJson dbj x)" for x by (rule parse_event) (rule assms)
  have "dropCause e = dropCause e'" if "serializeChatEvent dbj e = serializeChatEvent dbj e'"
    using p [of e] p [of e'] that by (intro eventJson_inj [of dbj]) simp
  then show ?thesis using p event_accepted by simp
qed

theorem event_roundtrip_witness:
  "parse (serializeChatEvent (\<lambda>_. JObj []) (RunFailed ''r'' ''s'' ''INTERNAL'' ''x'' (Some (DbErr Unavailable)))) =
     Some (eventJson (\<lambda>_. JObj []) (RunFailed ''r'' ''s'' ''INTERNAL'' ''x'' (Some (DbErr Unavailable))))"
  by (rule event_roundtrip [THEN conjunct1]) simp

section \<open>Inbound messages\<close>

datatype InboundMessage = SendMessage string | PingMessage | CancelMessage

datatype ParseError = INVALID_JSON | INVALID_SCHEMA string

text \<open>The wording of schema issues is zod's, the parameter \<open>issues\<close>.  Unknown keys are stripped from \<open>send_message\<close>
  and \<open>ping\<close> and refused in \<open>cancel\<close>.\<close>

definition parseInboundMessage :: "(json \<Rightarrow> string) \<Rightarrow> string \<Rightarrow> ParseError + InboundMessage" where
  "parseInboundMessage issues raw = (case parse raw of None \<Rightarrow> Inl INVALID_JSON
    | Some j \<Rightarrow>
        if getProp ''type'' j = Some (JStr ''send_message'')
        then (case getProp ''content'' j of Some (JStr t) \<Rightarrow> if t \<noteq> [] then Inr (SendMessage t) else Inl (INVALID_SCHEMA (issues j))
              | _ \<Rightarrow> Inl (INVALID_SCHEMA (issues j)))
        else if getProp ''type'' j = Some (JStr ''ping'') then Inr PingMessage
        else if getProp ''type'' j = Some (JStr ''cancel'') \<and> strictObj [(''type'', True, zLiteral ''cancel'')] j then Inr CancelMessage
        else Inl (INVALID_SCHEMA (issues j)))"

definition toErrorEvent :: "string \<Rightarrow> string \<Rightarrow> json" where
  "toErrorEvent code message = JObj [(''type'', JStr ''error''), (''code'', JStr code), (''message'', JStr message)]"

definition parseErrorEvent :: "ParseError \<Rightarrow> json" where
  "parseErrorEvent e = (case e of INVALID_JSON \<Rightarrow> toErrorEvent ''INVALID_JSON'' ''Message is not valid JSON''
    | INVALID_SCHEMA i \<Rightarrow> toErrorEvent ''INVALID_SCHEMA'' (''Invalid message format: '' @ i))"

section \<open>Client tokens\<close>

text \<open>The answers of \<open>jose.jwtVerify\<close> that \<open>validateClientToken\<close> distinguishes; a verified token has its payload.\<close>

datatype joseResult = JwtVerified json | JwtExpired | JwtInvalid | JwtClaimFailed | JwsSignatureFailed | JoseOther

datatype AuthErrorCode = TOKEN_EXPIRED | TOKEN_MALFORMED | TOKEN_INVALID | INSUFFICIENT_PERMISSIONS

record ClientTokenClaims =
  cl_sessionId :: string
  cl_agentId :: string
  cl_permissions :: "string list"
  cl_exp :: int

definition zStringArr :: "json \<Rightarrow> bool" where
  "zStringArr j = (case j of JArr vs \<Rightarrow> list_all zString vs | _ \<Rightarrow> False)"
definition zNumber :: "json \<Rightarrow> bool" where
  "zNumber j = (case j of JNum _ \<Rightarrow> True | _ \<Rightarrow> False)"

definition ClientTokenClaimsSchema :: "json \<Rightarrow> bool" where
  "ClientTokenClaimsSchema = strictObj [(''sessionId'', True, zStartsWith ''ses_''), (''agentId'', True, zStartsWith ''agt_''),
     (''permissions'', True, zStringArr), (''exp'', True, zNumber), (''iss'', False, zString), (''aud'', False, zString)]"

definition strOf :: "json option \<Rightarrow> string" where
  "strOf j = (case j of Some (JStr s) \<Rightarrow> s | _ \<Rightarrow> [])"

definition claimsOf :: "json \<Rightarrow> ClientTokenClaims" where
  "claimsOf j = \<lparr>cl_sessionId = strOf (getProp ''sessionId'' j), cl_agentId = strOf (getProp ''agentId'' j),
     cl_permissions = (case getProp ''permissions'' j of Some (JArr vs) \<Rightarrow> map (\<lambda>v. strOf (Some v)) vs | _ \<Rightarrow> []),
     cl_exp = (case getProp ''exp'' j of Some (JNum n) \<Rightarrow> n | _ \<Rightarrow> 0)\<rparr>"

definition validateClientToken :: "(string \<Rightarrow> joseResult) \<Rightarrow> (json \<Rightarrow> string) \<Rightarrow> string \<Rightarrow> (AuthErrorCode \<times> string) + ClientTokenClaims" where
  "validateClientToken verify issues token = (case verify token of
      JwtExpired \<Rightarrow> Inl (TOKEN_EXPIRED, ''Token has expired'')
    | JwtInvalid \<Rightarrow> Inl (TOKEN_MALFORMED, ''Token is malformed or has invalid claims'')
    | JwtClaimFailed \<Rightarrow> Inl (TOKEN_MALFORMED, ''Token is malformed or has invalid claims'')
    | JwsSignatureFailed \<Rightarrow> Inl (TOKEN_INVALID, ''Token signature is invalid'')
    | JoseOther \<Rightarrow> Inl (TOKEN_INVALID, ''Token validation failed'')
    | JwtVerified payload \<Rightarrow>
        (let j = objOf (map (\<lambda>k. (k, getProp k payload)) [''sessionId'', ''agentId'', ''permissions'', ''exp'', ''iss'', ''aud'']) in
         if ClientTokenClaimsSchema j then Inr (claimsOf j)
         else Inl (TOKEN_MALFORMED, ''Token claims do not match expected shape: '' @ issues j)))"

definition authCodeName :: "AuthErrorCode \<Rightarrow> string" where
  "authCodeName c = (case c of TOKEN_EXPIRED \<Rightarrow> ''TOKEN_EXPIRED'' | TOKEN_MALFORMED \<Rightarrow> ''TOKEN_MALFORMED''
     | TOKEN_INVALID \<Rightarrow> ''TOKEN_INVALID'' | INSUFFICIENT_PERMISSIONS \<Rightarrow> ''INSUFFICIENT_PERMISSIONS'')"

definition closeCodeOf :: "AuthErrorCode \<Rightarrow> nat" where
  "closeCodeOf c = (case c of TOKEN_EXPIRED \<Rightarrow> 4001 | TOKEN_MALFORMED \<Rightarrow> 4002 | _ \<Rightarrow> 4003)"

lemma getProp_objOf: "getProp k (objOf (map (\<lambda>k. (k, f k)) ks)) = (if k \<in> set ks then f k else None)"
proof -
  have "map_of (concat (map (\<lambda>(k, v). case v of None \<Rightarrow> [] | Some x \<Rightarrow> [(k, x)]) (map (\<lambda>k. (k, f k)) ks))) k = (if k \<in> set ks then f k else None)"
    by (induction ks) (auto split: option.split)
  then show ?thesis by (simp add: objOf_def)
qed

lemma strictObj_required: "strictObj fs j \<Longrightarrow> (k, True, ok) \<in> set fs \<Longrightarrow> \<exists>v. getProp k j = Some v \<and> ok v"
  by (cases j) (fastforce simp: strictObj_def list_all_iff split: option.splits)+

text \<open>A validated token is one that verified, and its session is the one its payload names.\<close>

lemma validated_session:
  assumes "validateClientToken verify issues token = Inr c"
  shows "\<exists>payload. verify token = JwtVerified payload \<and> getProp ''sessionId'' payload = Some (JStr (cl_sessionId c)) \<and>
     startsWith ''ses_'' (cl_sessionId c)"
proof -
  let ?ks = "[''sessionId'', ''agentId'', ''permissions'', ''exp'', ''iss'', ''aud'']"
  obtain payload where v: "verify token = JwtVerified payload" "ClientTokenClaimsSchema (objOf (map (\<lambda>k. (k, getProp k payload)) ?ks))"
      "c = claimsOf (objOf (map (\<lambda>k. (k, getProp k payload)) ?ks))"
    using assms unfolding validateClientToken_def Let_def by (cases "verify token") (simp_all split: if_splits)
  have "\<exists>x. getProp ''sessionId'' (objOf (map (\<lambda>k. (k, getProp k payload)) ?ks)) = Some x \<and> zStartsWith ''ses_'' x"
    using v(2) unfolding ClientTokenClaimsSchema_def by (rule strictObj_required) simp
  then obtain x where "getProp ''sessionId'' payload = Some x" "zStartsWith ''ses_'' x"
    unfolding getProp_objOf by auto
  then show ?thesis using v(1,3) unfolding claimsOf_def getProp_objOf by (cases x) (simp_all add: zStartsWith_def strOf_def)
qed

end
