(* ===== verification/Gateway.thy ===== *)
theory Gateway
  imports Gateway_Events Machine
begin

text \<open>The realtime gateway: \<open>gateway/src/connection-manager.ts\<close>, \<open>channel-registry.ts\<close>, \<open>session-bridge.ts\<close> and the
  stream route of \<open>plugin.ts\<close>.

  The gateway is a machine.  Sockets are numbered; an operation is one synchronous stretch of the code: a
  connection, the end of the token check, the end of the Redis subscription, a frame, an event or the
  end of a run that the session bridge has started, a socket event, a message from Redis.  The end of a
  check may come at any later time, so operations of one socket and of different sockets interleave
  freely.  \<open>SetHealth\<close> is the environment: whether \<open>readyState\<close> is \<open>OPEN\<close> and whether \<open>send\<close> throws.

  Redis is the \<open>RedisPubSubStub\<close> interface: \<open>gw_published\<close> is what was published, \<open>gw_handlers\<close> the channels with a
  handler, and a delivered message is an operation of the environment.  An \<open>acquire\<close> that has nothing to
  await continues within its operation.  The order of the promises of one
  client is kept by the driver.\<close>

section \<open>State\<close>

datatype stage = Authenticating | Acquiring string | Ready string | Leaked string | Rejected | Gone

record socket =
  sk_open :: bool
  sk_throws :: bool
  sk_sent :: "string list"
  sk_close :: "(nat \<times> string) option"
  sk_stage :: stage
  sk_preAuth :: "string list"

record pendingStart =
  ps_session :: string
  ps_content :: string
  ps_sender :: nat
  ps_emitted :: bool

record gatewayConfig =
  gc_maxReplay :: nat
  gc_redisActive :: bool
  gc_instanceId :: string
  gc_dbj :: "db_violation \<Rightarrow> json"
  gc_dbm :: "db_violation \<Rightarrow> string"
  gc_issues :: "json \<Rightarrow> string"

record gateway =
  gw_sessions :: "(string, nat list) jsmap"
  gw_sockets :: "(nat, socket) jsmap"
  gw_heartbeat :: "nat list"
  gw_buffers :: "(string, string \<times> ChatEvent list) jsmap"
  gw_refs :: "(string, nat) jsmap"
  gw_handlers :: "string list"
  gw_published :: "(string \<times> string) list"
  gw_starts :: "(nat, pendingStart) jsmap"
  gw_nextStart :: nat
  gw_cancels :: "string list"

definition newGateway :: gateway where
  "newGateway = \<lparr>gw_sessions = [], gw_sockets = [], gw_heartbeat = [], gw_buffers = [], gw_refs = [], gw_handlers = [],
     gw_published = [], gw_starts = [], gw_nextStart = 0, gw_cancels = []\<rparr>"

section \<open>Connection manager\<close>

text \<open>A JavaScript \<open>Set\<close> is a list without duplicates in insertion order.\<close>

definition setAdd :: "'a \<Rightarrow> 'a list \<Rightarrow> 'a list" where
  "setAdd x xs = (if x \<in> set xs then xs else xs @ [x])"

definition setDelete :: "'a \<Rightarrow> 'a list \<Rightarrow> 'a list" where
  "setDelete x xs = filter (\<lambda>y. y \<noteq> x) xs"

type_synonym Sessions = "(string, nat list) jsmap"

definition cmAdd :: "string \<Rightarrow> nat \<Rightarrow> Sessions \<Rightarrow> Sessions" where
  "cmAdd sid k m = js_set sid (setAdd k (case js_get m sid of None \<Rightarrow> [] | Some ks \<Rightarrow> ks)) m"

definition cmRemove :: "string \<Rightarrow> nat \<Rightarrow> Sessions \<Rightarrow> Sessions" where
  "cmRemove sid k m = (case js_get m sid of None \<Rightarrow> m
    | Some ks \<Rightarrow> (let ks' = setDelete k ks in if ks' = [] then js_delete sid m else js_set sid ks' m))"

definition getConnections :: "string \<Rightarrow> gateway \<Rightarrow> nat list" where
  "getConnections sid g = (case js_get (gw_sessions g) sid of None \<Rightarrow> [] | Some ks \<Rightarrow> ks)"

definition isConnected :: "string \<Rightarrow> gateway \<Rightarrow> bool" where
  "isConnected sid g = (getConnections sid g \<noteq> [])"

definition connectionCount :: "gateway \<Rightarrow> nat" where
  "connectionCount g = sum_list (map (\<lambda>(sid, ks). length ks) (gw_sessions g))"

definition updSocket :: "nat \<Rightarrow> (socket \<Rightarrow> socket) \<Rightarrow> gateway \<Rightarrow> gateway" where
  "updSocket k f g = (case js_get (gw_sockets g) k of None \<Rightarrow> g | Some sk \<Rightarrow> g\<lparr>gw_sockets := js_set k (f sk) (gw_sockets g)\<rparr>)"

definition safeSend :: "string \<Rightarrow> nat \<Rightarrow> string \<Rightarrow> gateway \<Rightarrow> gateway" where
  "safeSend sid k data g = (case js_get (gw_sockets g) k of None \<Rightarrow> g
    | Some sk \<Rightarrow> if sk_open sk \<and> \<not> sk_throws sk then updSocket k (\<lambda>sk. sk\<lparr>sk_sent := sk_sent sk @ [data]\<rparr>) g
        else g\<lparr>gw_sessions := cmRemove sid k (gw_sessions g)\<rparr>)"

definition broadcastText :: "string \<Rightarrow> string \<Rightarrow> gateway \<Rightarrow> gateway" where
  "broadcastText sid data g = fold (\<lambda>k. safeSend sid k data) (getConnections sid g) g"

definition broadcastEvent :: "gatewayConfig \<Rightarrow> string \<Rightarrow> ChatEvent \<Rightarrow> gateway \<Rightarrow> gateway" where
  "broadcastEvent c sid e g = broadcastText sid (serializeChatEvent (gc_dbj c) e) g"

definition sendError :: "string \<Rightarrow> nat \<Rightarrow> json \<Rightarrow> gateway \<Rightarrow> gateway" where
  "sendError sid k j g = safeSend sid k (stringify j) g"

definition closeAll :: "nat \<Rightarrow> string \<Rightarrow> gateway \<Rightarrow> gateway" where
  "closeAll code reason g = (fold (\<lambda>k. updSocket k (\<lambda>sk. sk\<lparr>sk_close := Some (code, reason)\<rparr>))
     (concat (map snd (gw_sessions g))) g)\<lparr>gw_sessions := []\<rparr>"

section \<open>Channel registry\<close>

definition channelOf :: "string \<Rightarrow> string" where
  "channelOf sid = ''session:'' @ sid"

definition envelope :: "gatewayConfig \<Rightarrow> ChatEvent \<Rightarrow> json" where
  "envelope c e = JObj [(''origin'', JStr (gc_instanceId c)), (''event'', eventJson (gc_dbj c) e)]"

definition publishEvent :: "gatewayConfig \<Rightarrow> string \<Rightarrow> ChatEvent \<Rightarrow> gateway \<Rightarrow> gateway" where
  "publishEvent c sid e g = g\<lparr>gw_published := gw_published g @ [(channelOf sid, stringify (envelope c e))]\<rparr>"

text \<open>\<open>acquire\<close> up to its \<open>await\<close>: the flag says whether a subscription is awaited.\<close>

definition acquireChannel :: "string \<Rightarrow> gateway \<Rightarrow> bool \<times> gateway" where
  "acquireChannel sid g = (case js_get (gw_refs g) (channelOf sid) of
      Some n \<Rightarrow> (False, g\<lparr>gw_refs := js_set (channelOf sid) (Suc n) (gw_refs g)\<rparr>)
    | None \<Rightarrow> (True, g\<lparr>gw_refs := js_set (channelOf sid) 1 (gw_refs g), gw_handlers := setAdd (channelOf sid) (gw_handlers g)\<rparr>))"

definition releaseChannel :: "string \<Rightarrow> gateway \<Rightarrow> gateway" where
  "releaseChannel sid g = (case js_get (gw_refs g) (channelOf sid) of None \<Rightarrow> g
    | Some n \<Rightarrow> if n - 1 > 0 then g\<lparr>gw_refs := js_set (channelOf sid) (n - 1) (gw_refs g)\<rparr>
        else g\<lparr>gw_refs := js_delete (channelOf sid) (gw_refs g), gw_handlers := setDelete (channelOf sid) (gw_handlers g)\<rparr>)"

text \<open>\<open>forward\<close>: the event of a peer's envelope is sent on as the text that \<open>JSON.stringify\<close> gives its value.\<close>

definition forwardMessage :: "gatewayConfig \<Rightarrow> string \<Rightarrow> string \<Rightarrow> gateway \<Rightarrow> gateway" where
  "forwardMessage c sid message g = (case parse message of None \<Rightarrow> g
    | Some j \<Rightarrow> if j \<in> {JNull, JBool False, JNum 0, JStr []} \<or> getProp ''origin'' j = Some (JStr (gc_instanceId c)) then g
        else (case getProp ''event'' j of
            Some ev \<Rightarrow> broadcastText sid (stringify ev) g
          | None \<Rightarrow> broadcastText sid ''undefined'' g))"

section \<open>Session bridge\<close>

definition bufferEvent :: "gatewayConfig \<Rightarrow> string \<Rightarrow> ChatEvent \<Rightarrow> (string, string \<times> ChatEvent list) jsmap \<Rightarrow> (string, string \<times> ChatEvent list) jsmap" where
  "bufferEvent c sid e m = (if ev_runId e = [] then m
     else let (rid, es) = (case js_get m sid of Some (r, es) \<Rightarrow> if r = ev_runId e then (r, es) else (ev_runId e, []) | None \<Rightarrow> (ev_runId e, []))
          in js_set sid (rid, if length es < gc_maxReplay c then es @ [e] else es) m)"

text \<open>The \<open>onEvent\<close> callback of start \<open>i\<close>.\<close>

definition onEvent :: "gatewayConfig \<Rightarrow> nat \<Rightarrow> ChatEvent \<Rightarrow> gateway \<Rightarrow> gateway" where
  "onEvent c i e g = (case js_get (gw_starts g) i of None \<Rightarrow> g
    | Some p \<Rightarrow> publishEvent c (ps_session p) e (broadcastEvent c (ps_session p) e
        (g\<lparr>gw_starts := js_set i (p\<lparr>ps_emitted := True\<rparr>) (gw_starts g),
           gw_buffers := bufferEvent c (ps_session p) e (gw_buffers g)\<rparr>)))"

text \<open>\<open>handleSendMessage\<close> calls \<open>runtime.start\<close>; what follows its \<open>await\<close> is \<open>startEnded\<close>.\<close>

definition handleSendMessage :: "string \<Rightarrow> string \<Rightarrow> nat \<Rightarrow> gateway \<Rightarrow> gateway" where
  "handleSendMessage sid content sender g = g\<lparr>gw_nextStart := Suc (gw_nextStart g),
     gw_starts := js_set (gw_nextStart g) \<lparr>ps_session = sid, ps_content = content, ps_sender = sender, ps_emitted = False\<rparr> (gw_starts g)\<rparr>"

definition isConflict :: "js_error \<Rightarrow> bool" where
  "isConflict e = (case e of SwiftErr c m \<Rightarrow> c = CONFLICT | _ \<Rightarrow> False)"

definition startEnded :: "gatewayConfig \<Rightarrow> nat \<Rightarrow> js_error option \<Rightarrow> gateway \<Rightarrow> gateway" where
  "startEnded c i r g = (case js_get (gw_starts g) i of None \<Rightarrow> g
    | Some p \<Rightarrow>
        (let sid = ps_session p;
             g1 = g\<lparr>gw_starts := js_delete i (gw_starts g), gw_buffers := js_delete sid (gw_buffers g)\<rparr> in
         case r of None \<Rightarrow> g1
         | Some e \<Rightarrow>
             if isConflict e then sendError sid (ps_sender p) (toErrorEvent ''RUN_IN_PROGRESS'' (errMessage (gc_dbm c) e)) g1
             else if \<not> ps_emitted p then sendError sid (ps_sender p) (toErrorEvent ''RUNTIME_ERROR'' (errMessage (gc_dbm c) e)) g1
             else fold (\<lambda>k. sendError sid k (toErrorEvent ''RUN_FAILED'' (errMessage (gc_dbm c) e))) (getConnections sid g1) g1))"

definition handleCancel :: "string \<Rightarrow> gateway \<Rightarrow> gateway" where
  "handleCancel sid g = (case js_get (gw_buffers g) sid of None \<Rightarrow> g
    | Some (rid, es) \<Rightarrow> if rid = [] then g else g\<lparr>gw_cancels := gw_cancels g @ [rid]\<rparr>)"

definition replayEvents :: "gatewayConfig \<Rightarrow> string \<Rightarrow> nat \<Rightarrow> gateway \<Rightarrow> gateway" where
  "replayEvents c sid k g = (case js_get (gw_buffers g) sid of None \<Rightarrow> g
    | Some (rid, es) \<Rightarrow> fold (\<lambda>e. safeSend sid k (serializeChatEvent (gc_dbj c) e)) es g)"

section \<open>The stream route\<close>

text \<open>\<open>socket.send\<close> outside the connection manager: on a socket that is closing or closed it does nothing.\<close>

definition rawSend :: "nat \<Rightarrow> json \<Rightarrow> gateway \<Rightarrow> gateway" where
  "rawSend k j g = updSocket k (\<lambda>sk. if sk_open sk \<and> \<not> sk_throws sk then sk\<lparr>sk_sent := sk_sent sk @ [stringify j]\<rparr> else sk) g"

definition sendThrows :: "nat \<Rightarrow> gateway \<Rightarrow> bool" where
  "sendThrows k g = (case js_get (gw_sockets g) k of None \<Rightarrow> False | Some sk \<Rightarrow> sk_throws sk)"

definition rejectSocket :: "nat \<Rightarrow> string \<Rightarrow> string \<Rightarrow> nat \<times> string \<Rightarrow> stage \<Rightarrow> gateway \<Rightarrow> gateway" where
  "rejectSocket k code message closing st g =
     updSocket k (\<lambda>sk. sk\<lparr>sk_close := Some closing, sk_stage := st, sk_preAuth := []\<rparr>) (rawSend k (toErrorEvent code message) g)"

definition internalError :: json where
  "internalError = toErrorEvent ''INTERNAL_ERROR'' ''Unexpected error processing message''"

definition gwInbound :: "gatewayConfig \<Rightarrow> string \<Rightarrow> nat \<Rightarrow> string \<Rightarrow> gateway \<Rightarrow> gateway" where
  "gwInbound c sid k data g = (case parseInboundMessage (gc_issues c) data of
      Inl e \<Rightarrow> sendError sid k (parseErrorEvent e) g
    | Inr PingMessage \<Rightarrow> if sendThrows k g then sendError sid k internalError g else rawSend k (JObj [(''type'', JStr ''pong'')]) g
    | Inr (SendMessage content) \<Rightarrow> handleSendMessage sid content k g
    | Inr CancelMessage \<Rightarrow> handleCancel sid g)"

definition becomeReady :: "gatewayConfig \<Rightarrow> string \<Rightarrow> nat \<Rightarrow> gateway \<Rightarrow> gateway" where
  "becomeReady c sid k g = (let pre = (case js_get (gw_sockets g) k of Some sk \<Rightarrow> sk_preAuth sk | None \<Rightarrow> []) in
     fold (gwInbound c sid k) pre (updSocket k (\<lambda>sk. sk\<lparr>sk_stage := Ready sid, sk_preAuth := []\<rparr>) g))"

definition connectSocket :: "nat \<Rightarrow> string option \<Rightarrow> gateway \<Rightarrow> gateway" where
  "connectSocket k token g = (if js_has (gw_sockets g) k then g
     else let g1 = g\<lparr>gw_sockets := js_set k \<lparr>sk_open = True, sk_throws = False, sk_sent = [], sk_close = None,
             sk_stage = Authenticating, sk_preAuth = []\<rparr> (gw_sockets g)\<rparr>
          in case token of None \<Rightarrow> rejectSocket k ''AUTH_REQUIRED'' ''Missing token query parameter'' (4001, ''Missing token'') Rejected g1
             | Some t \<Rightarrow> if t = [] then rejectSocket k ''AUTH_REQUIRED'' ''Missing token query parameter'' (4001, ''Missing token'') Rejected g1 else g1)"

definition authDone :: "gatewayConfig \<Rightarrow> nat \<Rightarrow> (AuthErrorCode \<times> string) + ClientTokenClaims \<Rightarrow> gateway \<Rightarrow> gateway" where
  "authDone c k r g = (case js_get (gw_sockets g) k of None \<Rightarrow> g
    | Some sk \<Rightarrow> if sk_stage sk \<noteq> Authenticating then g
        else (case r of
            Inl (code, msg) \<Rightarrow> rejectSocket k (authCodeName code) msg (closeCodeOf code, msg) Rejected g
          | Inr claims \<Rightarrow>
              (let sid = cl_sessionId claims;
                   g1 = replayEvents c sid k (g\<lparr>gw_sessions := cmAdd sid k (gw_sessions g), gw_heartbeat := setAdd k (gw_heartbeat g)\<rparr>) in
               if gc_redisActive c
               then (let (waits, g2) = acquireChannel sid g1 in
                 if waits then updSocket k (\<lambda>sk. sk\<lparr>sk_stage := Acquiring sid\<rparr>) g2 else becomeReady c sid k g2)
               else becomeReady c sid k g1)))"

text \<open>The subscription of a first socket resolves or rejects.\<close>

definition acquireDone :: "gatewayConfig \<Rightarrow> nat \<Rightarrow> bool \<Rightarrow> gateway \<Rightarrow> gateway" where
  "acquireDone c k ok g = (case js_get (gw_sockets g) k of None \<Rightarrow> g
    | Some sk \<Rightarrow> (case sk_stage sk of
        Acquiring sid \<Rightarrow> if ok then becomeReady c sid k g
          else rejectSocket k ''AUTH_FAILED'' ''Authentication failed'' (4003, ''Authentication failed'') (Leaked sid) g
      | _ \<Rightarrow> g))"

definition onFrame :: "gatewayConfig \<Rightarrow> nat \<Rightarrow> string \<Rightarrow> gateway \<Rightarrow> gateway" where
  "onFrame c k data g = (case js_get (gw_sockets g) k of None \<Rightarrow> g
    | Some sk \<Rightarrow> (case sk_stage sk of
        Ready sid \<Rightarrow> gwInbound c sid k data g
      | Authenticating \<Rightarrow> updSocket k (\<lambda>sk. sk\<lparr>sk_preAuth := sk_preAuth sk @ [data]\<rparr>) g
      | Acquiring sid \<Rightarrow> updSocket k (\<lambda>sk. sk\<lparr>sk_preAuth := sk_preAuth sk @ [data]\<rparr>) g
      | _ \<Rightarrow> g))"

definition dropSocket :: "string \<Rightarrow> nat \<Rightarrow> gateway \<Rightarrow> gateway" where
  "dropSocket sid k g = g\<lparr>gw_sessions := cmRemove sid k (gw_sessions g), gw_heartbeat := setDelete k (gw_heartbeat g)\<rparr>"

text \<open>The \<open>close\<close> event: its handler is installed only when the socket has become ready.\<close>

definition onClose :: "gatewayConfig \<Rightarrow> nat \<Rightarrow> gateway \<Rightarrow> gateway" where
  "onClose c k g = (case js_get (gw_sockets g) k of None \<Rightarrow> g
    | Some sk \<Rightarrow> (case sk_stage sk of
        Ready sid \<Rightarrow> (let g1 = dropSocket sid k (updSocket k (\<lambda>sk. sk\<lparr>sk_open := False, sk_stage := Gone\<rparr>) g) in
          if gc_redisActive c then releaseChannel sid g1 else g1)
      | _ \<Rightarrow> updSocket k (\<lambda>sk. sk\<lparr>sk_open := False\<rparr>) g))"

definition onSocketError :: "nat \<Rightarrow> gateway \<Rightarrow> gateway" where
  "onSocketError k g = (case js_get (gw_sockets g) k of None \<Rightarrow> g
    | Some sk \<Rightarrow> (case sk_stage sk of Ready sid \<Rightarrow> dropSocket sid k g | _ \<Rightarrow> g))"

section \<open>The machine\<close>

datatype gatewayOp = Connect nat "string option" | AuthDone nat "(AuthErrorCode \<times> string) + ClientTokenClaims" | AcquireDone nat bool
  | Frame nat string | RunEvent nat ChatEvent | StartEnded nat "js_error option" | Close nat | SocketError nat
  | SetHealth nat bool bool | RedisMessage string string

fun gatewayStep :: "gatewayConfig \<Rightarrow> gatewayOp \<Rightarrow> gateway \<Rightarrow> gateway" where
  "gatewayStep c (Connect k token) g = connectSocket k token g"
| "gatewayStep c (AuthDone k r) g = authDone c k r g"
| "gatewayStep c (AcquireDone k ok) g = acquireDone c k ok g"
| "gatewayStep c (Frame k data) g = onFrame c k data g"
| "gatewayStep c (RunEvent i e) g = onEvent c i e g"
| "gatewayStep c (StartEnded i r) g = startEnded c i r g"
| "gatewayStep c (Close k) g = onClose c k g"
| "gatewayStep c (SocketError k) g = onSocketError k g"
| "gatewayStep c (SetHealth k up bad) g = updSocket k (\<lambda>sk. sk\<lparr>sk_open := up, sk_throws := bad\<rparr>) g"
| "gatewayStep c (RedisMessage sid message) g = (if channelOf sid \<in> set (gw_handlers g) then forwardMessage c sid message g else g)"

end
