(* ===== verification/Gateway_Props.thy ===== *)
theory Gateway_Props
  imports Gateway
begin

text \<open>What the gateway promises: sockets are registered for the session of their token only; a socket that
  attaches in the middle of a run receives every event of the run exactly once and in order; a Redis channel
  is subscribed exactly as long as a socket holds it, and its echo is never delivered.\<close>

section \<open>Reading sockets through operations\<close>

lemma get_updSocket [simp]: "js_get (gw_sockets (updSocket k f g)) j = (if j = k then map_option f (js_get (gw_sockets g) k) else js_get (gw_sockets g) j)"
  by (auto simp: updSocket_def update_conv' split: option.split)

lemma updSocket_rest [simp]: "gw_sessions (updSocket k f g) = gw_sessions g" "gw_heartbeat (updSocket k f g) = gw_heartbeat g"
  "gw_buffers (updSocket k f g) = gw_buffers g" "gw_refs (updSocket k f g) = gw_refs g" "gw_handlers (updSocket k f g) = gw_handlers g"
  "gw_published (updSocket k f g) = gw_published g" "gw_starts (updSocket k f g) = gw_starts g" "gw_nextStart (updSocket k f g) = gw_nextStart g"
  "gw_cancels (updSocket k f g) = gw_cancels g"
  by (simp_all add: updSocket_def split: option.split)

lemma safeSend_rest [simp]: "gw_heartbeat (safeSend sid k d g) = gw_heartbeat g"
  "gw_buffers (safeSend sid k d g) = gw_buffers g" "gw_refs (safeSend sid k d g) = gw_refs g" "gw_handlers (safeSend sid k d g) = gw_handlers g"
  "gw_published (safeSend sid k d g) = gw_published g" "gw_starts (safeSend sid k d g) = gw_starts g" "gw_nextStart (safeSend sid k d g) = gw_nextStart g"
  "gw_cancels (safeSend sid k d g) = gw_cancels g"
  by (simp_all add: safeSend_def split: option.split)

text \<open>The session a socket belongs to.\<close>

definition sessOf :: "stage \<Rightarrow> string option" where
  "sessOf st = (case st of Acquiring sid \<Rightarrow> Some sid | Ready sid \<Rightarrow> Some sid | Leaked sid \<Rightarrow> Some sid | _ \<Rightarrow> None)"

lemma sessOf_simps [simp]: "sessOf (Acquiring s) = Some s" "sessOf (Ready s) = Some s" "sessOf (Leaked s) = Some s"
  "sessOf Authenticating = None" "sessOf Rejected = None" "sessOf Gone = None"
  by (simp_all add: sessOf_def)

definition sessionOf :: "nat \<Rightarrow> gateway \<Rightarrow> string option" where
  "sessionOf k g = (case js_get (gw_sockets g) k of Some sk \<Rightarrow> sessOf (sk_stage sk) | None \<Rightarrow> None)"

text \<open>\<open>quiet\<close>: what sending does to a state: stages and health stay, sent frames grow, registrations only shrink, and
  nothing else changes.\<close>

definition quietSk :: "socket option \<Rightarrow> socket option \<Rightarrow> bool" where
  "quietSk a b = (case (a, b) of (None, None) \<Rightarrow> True
    | (Some x, Some y) \<Rightarrow> sk_stage x = sk_stage y \<and> sk_open x = sk_open y \<and> sk_throws x = sk_throws y
    | _ \<Rightarrow> False)"

definition quiet :: "gateway \<Rightarrow> gateway \<Rightarrow> bool" where
  "quiet g h = (\<forall>k. quietSk (js_get (gw_sockets g) k) (js_get (gw_sockets h) k))"

lemma quietSk_refl [simp]: "quietSk a a"
  by (simp add: quietSk_def split: option.split)

lemma quietSk_trans: "quietSk a b \<Longrightarrow> quietSk b c \<Longrightarrow> quietSk a c"
  by (cases a; cases b; cases c) (auto simp: quietSk_def)

lemma quiet_refl [simp]: "quiet g g"
  by (simp add: quiet_def)

lemma quiet_trans: "quiet f g \<Longrightarrow> quiet g h \<Longrightarrow> quiet f h"
  unfolding quiet_def using quietSk_trans by blast

lemma quiet_sockets: "gw_sockets h = gw_sockets g \<Longrightarrow> quiet g h"
  by (simp add: quiet_def)

lemma quiet_upd: "(\<And>sk. sk_stage (f sk) = sk_stage sk \<and> sk_open (f sk) = sk_open sk \<and> sk_throws (f sk) = sk_throws sk) \<Longrightarrow> quiet g (updSocket k f g)"
  by (auto simp: quiet_def quietSk_def split: option.split)

lemma quiet_safeSend: "quiet g (safeSend sid k d g)"
  by (auto simp: safeSend_def intro: quiet_upd quiet_sockets split: option.split)

lemma quiet_fold: "(\<And>x g. quiet g (f x g)) \<Longrightarrow> quiet g (fold f xs g)"
proof (induction xs arbitrary: g)
  case (Cons x xs)
  then show ?case using quiet_trans [OF Cons.prems [of g x] Cons.IH [OF Cons.prems]] by simp
qed simp

lemma quiet_rawSend: "quiet g (rawSend k j g)"
  by (simp add: rawSend_def quiet_upd)

lemma quiet_broadcast: "quiet g (broadcastText sid d g)"
  unfolding broadcastText_def by (rule quiet_fold) (rule quiet_safeSend)

lemma quiet_inbound: "quiet g (gwInbound c sid k d g)"
  by (auto simp: gwInbound_def sendError_def handleSendMessage_def handleCancel_def quiet_safeSend quiet_rawSend
      intro: quiet_sockets split: sum.split InboundMessage.split option.split)

lemma quiet_socket: "quiet g h \<Longrightarrow> quietSk (js_get (gw_sockets g) k) (js_get (gw_sockets h) k)"
  by (simp add: quiet_def)

lemma sessionOf_quiet: "quiet g h \<Longrightarrow> sessionOf k h = sessionOf k g"
  using quiet_socket [of g h k] by (auto simp: sessionOf_def quietSk_def split: option.splits)

lemma sessionOf_upd: "sessionOf j (updSocket k f g) = (if j = k then (case js_get (gw_sockets g) k of Some sk \<Rightarrow> sessOf (sk_stage (f sk)) | None \<Rightarrow> None) else sessionOf j g)"
  by (simp add: sessionOf_def split: option.split)

section \<open>Registrations\<close>

text \<open>Registered sockets belong to the session, each once, and no empty set is kept.\<close>

definition regWith :: "(nat \<Rightarrow> string \<Rightarrow> bool) \<Rightarrow> Sessions \<Rightarrow> bool" where
  "regWith P m = (\<forall>sid ks. js_get m sid = Some ks \<longrightarrow> ks \<noteq> [] \<and> distinct ks \<and> (\<forall>k \<in> set ks. P k sid))"

definition regOk :: "gateway \<Rightarrow> bool" where
  "regOk g = regWith (\<lambda>k sid. sessionOf k g = Some sid) (gw_sessions g)"

lemma cmRemove_get: "js_get (cmRemove sid k m) t = (if t = sid then (case js_get m sid of None \<Rightarrow> None
    | Some ks \<Rightarrow> if setDelete k ks = [] then None else Some (setDelete k ks)) else js_get m t)"
  by (auto simp: cmRemove_def Let_def update_conv' delete_conv' split: option.splits)

lemma cmAdd_get: "js_get (cmAdd sid k m) t = (if t = sid then Some (setAdd k (case js_get m sid of None \<Rightarrow> [] | Some ks \<Rightarrow> ks)) else js_get m t)"
  by (simp add: cmAdd_def update_conv')

lemma setDelete_simps [simp]: "set (setDelete k ks) = set ks - {k}" "distinct ks \<Longrightarrow> distinct (setDelete k ks)"
  by (auto simp: setDelete_def)

lemma setAdd_simps [simp]: "set (setAdd k ks) = insert k (set ks)" "distinct ks \<Longrightarrow> distinct (setAdd k ks)" "setAdd k ks \<noteq> []"
  by (auto simp: setAdd_def)

lemma regWith_get: "regWith P m \<Longrightarrow> js_get m sid = Some ks \<Longrightarrow> ks \<noteq> [] \<and> distinct ks \<and> (\<forall>k \<in> set ks. P k sid)"
  unfolding regWith_def by blast

lemma regWith_remove:
  assumes "regWith P m"
  shows "regWith P (cmRemove sid k m)"
  unfolding regWith_def
proof (intro allI impI)
  fix t ks
  assume "js_get (cmRemove sid k m) t = Some ks"
  then show "ks \<noteq> [] \<and> distinct ks \<and> (\<forall>k \<in> set ks. P k t)"
    using regWith_get [OF assms, of t] by (cases "t = sid") (auto simp: cmRemove_get split: option.splits if_splits)
qed

lemma regWith_add:
  assumes "regWith P m" "P k sid"
  shows "regWith P (cmAdd sid k m)"
  unfolding regWith_def
proof (intro allI impI)
  fix t ks
  assume "js_get (cmAdd sid k m) t = Some ks"
  then show "ks \<noteq> [] \<and> distinct ks \<and> (\<forall>k \<in> set ks. P k t)"
    using regWith_get [OF assms(1), of t] assms(2) by (cases "t = sid") (auto simp: cmAdd_get split: option.splits)
qed

lemma regWith_mono: "regWith P m \<Longrightarrow> (\<And>k sid. P k sid \<Longrightarrow> Q k sid) \<Longrightarrow> regWith Q m"
  unfolding regWith_def by blast

text \<open>Removing a socket makes room for a weaker claim about it.\<close>

lemma regWith_gone:
  assumes "regWith P m" "\<And>t j. P j t \<Longrightarrow> j \<noteq> k \<Longrightarrow> Q j t" "\<And>t. P k t \<Longrightarrow> t = sid"
  shows "regWith Q (cmRemove sid k m)"
  unfolding regWith_def
proof (intro allI impI)
  fix t ks
  assume "js_get (cmRemove sid k m) t = Some ks"
  then show "ks \<noteq> [] \<and> distinct ks \<and> (\<forall>k \<in> set ks. Q k t)"
    using regWith_get [OF assms(1), of t] assms(2,3) by (cases "t = sid") (auto simp: cmRemove_get split: option.splits if_splits)
qed

lemma regOk_remove: "regOk g \<Longrightarrow> (\<And>j. sessionOf j h = sessionOf j g) \<Longrightarrow> gw_sessions h = cmRemove sid k (gw_sessions g) \<Longrightarrow> regOk h"
  by (simp add: regOk_def regWith_remove)

lemma regOk_same: "regOk g \<Longrightarrow> (\<And>j. sessionOf j g \<noteq> None \<Longrightarrow> sessionOf j h = sessionOf j g) \<Longrightarrow> gw_sessions h = gw_sessions g \<Longrightarrow> regOk h"
  unfolding regOk_def by (simp, erule regWith_mono) fastforce

lemma safeSend_sessions: "gw_sessions (safeSend sid k d g) = gw_sessions g \<or> gw_sessions (safeSend sid k d g) = cmRemove sid k (gw_sessions g)"
  by (auto simp: safeSend_def split: option.splits)

lemma regOk_safeSend: "regOk g \<Longrightarrow> regOk (safeSend sid k d g)"
  using safeSend_sessions [of sid k d g] by (auto simp: regOk_def sessionOf_quiet [OF quiet_safeSend] regWith_remove)

lemma regOk_fold: "regOk g \<Longrightarrow> (\<And>x g. regOk g \<Longrightarrow> regOk (f x g)) \<Longrightarrow> regOk (fold f xs g)"
  by (induction xs arbitrary: g) auto

lemma regOk_sends: "regOk g \<Longrightarrow> regOk (broadcastText sid d g)"
  unfolding broadcastText_def by (rule regOk_fold) (auto intro: regOk_safeSend)

lemma regOk_other: "regOk g \<Longrightarrow> gw_sockets h = gw_sockets g \<Longrightarrow> gw_sessions h = gw_sessions g \<Longrightarrow> regOk h"
  by (rule regOk_same) (auto simp: sessionOf_def)

lemma regOk_upd: "regOk g \<Longrightarrow> (\<And>sk. sessOf (sk_stage sk) \<noteq> None \<Longrightarrow> sessOf (sk_stage (f sk)) = sessOf (sk_stage sk)) \<Longrightarrow> regOk (updSocket k f g)"
  by (rule regOk_same) (auto simp: sessionOf_upd, auto simp: sessionOf_def split: option.splits)

lemma regOk_inbound: "regOk g \<Longrightarrow> regOk (gwInbound c sid k d g)"
  by (auto simp: gwInbound_def sendError_def handleSendMessage_def handleCancel_def rawSend_def
      intro: regOk_safeSend regOk_other regOk_upd split: sum.split InboundMessage.split option.split)

lemma regOk_ready: "regOk g \<Longrightarrow> sessionOf k g = Some sid \<or> sessionOf k g = None \<Longrightarrow> regOk (becomeReady c sid k g)"
  unfolding becomeReady_def Let_def
proof (rule regOk_fold [OF _ regOk_inbound])
  show "regOk g \<Longrightarrow> sessionOf k g = Some sid \<or> sessionOf k g = None \<Longrightarrow> regOk (updSocket k (\<lambda>sk. sk\<lparr>sk_stage := Ready sid, sk_preAuth := []\<rparr>) g)"
    by (rule regOk_same) (auto simp: sessionOf_upd, auto simp: sessionOf_def split: option.splits)
qed

text \<open>Attaching: the registration comes before the stage; \<open>joining\<close> covers the moment in between.\<close>

definition joinAt :: "nat \<Rightarrow> string \<Rightarrow> gateway \<Rightarrow> nat \<Rightarrow> string \<Rightarrow> bool" where
  "joinAt k sid g j t = (if j = k then t = sid else sessionOf j g = Some t)"

definition joining :: "nat \<Rightarrow> string \<Rightarrow> gateway \<Rightarrow> bool" where
  "joining k sid g = regWith (joinAt k sid g) (gw_sessions g)"

lemma joinAt_cong: "(\<And>j. sessionOf j h = sessionOf j g) \<Longrightarrow> joinAt k sid h = joinAt k sid g"
  by (simp add: joinAt_def fun_eq_iff)

lemma joining_add: "regOk g \<Longrightarrow> sessionOf k g = None \<Longrightarrow> joining k sid (g\<lparr>gw_sessions := cmAdd sid k (gw_sessions g), gw_heartbeat := hb\<rparr>)"
  unfolding regOk_def joining_def by (simp, rule regWith_add) (erule regWith_mono, auto simp: joinAt_def sessionOf_def)

lemma joining_safeSend: "joining k sid g \<Longrightarrow> joining k sid (safeSend t j d g)"
  using safeSend_sessions [of t j d g] joinAt_cong [of "safeSend t j d g" g, OF sessionOf_quiet [OF quiet_safeSend]]
  by (auto simp: joining_def regWith_remove)

lemma joining_replay: "joining k sid g \<Longrightarrow> joining k sid (replayEvents c sid k g)"
proof -
  have "joining k sid g \<Longrightarrow> joining k sid (fold (\<lambda>e. safeSend sid k (serializeChatEvent (gc_dbj c) e)) es g)" for es g
    by (induction es arbitrary: g) (auto intro: joining_safeSend)
  then show "joining k sid g \<Longrightarrow> ?thesis" by (auto simp: replayEvents_def split: option.split)
qed

lemma joining_done: "joining k sid g \<Longrightarrow> js_has (gw_sockets g) k \<Longrightarrow> sessOf st = Some sid \<Longrightarrow>
    regOk (updSocket k (\<lambda>sk. sk\<lparr>sk_stage := st, sk_preAuth := p sk\<rparr>) g)"
  unfolding joining_def regOk_def by (simp, erule regWith_mono) (auto simp: joinAt_def sessionOf_upd split: option.splits if_splits)

lemma joining_other: "joining k sid g \<Longrightarrow> gw_sockets h = gw_sockets g \<Longrightarrow> gw_sessions h = gw_sessions g \<Longrightarrow> joining k sid h"
  using joinAt_cong [of h g] by (simp add: joining_def sessionOf_def)

lemma quiet_has: "quiet g h \<Longrightarrow> js_has (gw_sockets h) k = js_has (gw_sockets g) k"
  using quiet_socket [of g h k] by (auto simp: quietSk_def split: option.splits)

lemma quiet_replay: "quiet g (replayEvents c sid k g)"
  by (auto simp: replayEvents_def intro: quiet_fold quiet_safeSend split: option.split)

lemma acquire_sockets: "acquireChannel sid g = (w, h) \<Longrightarrow> gw_sockets h = gw_sockets g \<and> gw_sessions h = gw_sessions g"
  by (auto simp: acquireChannel_def split: option.splits)

lemma regOk_join:
  assumes "joining k sid g" "js_has (gw_sockets g) k"
  shows "regOk (becomeReady c sid k g)"
  unfolding becomeReady_def Let_def
  by (rule regOk_fold [OF joining_done [OF assms, of "Ready sid" "\<lambda>_. []"] regOk_inbound]) simp

lemma regOk_auth: "regOk g \<Longrightarrow> regOk (authDone c k r g)"
proof -
  assume g: "regOk g"
  let ?g = "\<lambda>sid. replayEvents c sid k (g\<lparr>gw_sessions := cmAdd sid k (gw_sessions g), gw_heartbeat := setAdd k (gw_heartbeat g)\<rparr>)"
  have j: "joining k sid (?g sid)" "js_has (gw_sockets (?g sid)) k" if "js_get (gw_sockets g) k = Some sk" "sk_stage sk = Authenticating" for sid sk
    using joining_replay [OF joining_add [OF g]] quiet_has [OF quiet_replay] that by (auto simp: sessionOf_def)
  show ?thesis
  proof (cases "\<exists>sk. js_get (gw_sockets g) k = Some sk \<and> sk_stage sk = Authenticating")
    case False
    then show ?thesis using g by (auto simp: authDone_def split: option.split)
  next
    case True
    then obtain sk where sk: "js_get (gw_sockets g) k = Some sk" "sk_stage sk = Authenticating" by blast
    show ?thesis
    proof (cases r)
      case (Inl e)
      then show ?thesis using sk g
        by (cases e) (auto simp: authDone_def rejectSocket_def rawSend_def sessionOf_upd intro!: regOk_same [OF g], auto simp: sessionOf_def)
    next
      case (Inr claims)
      let ?sid = "cl_sessionId claims"
      obtain w h where a: "acquireChannel ?sid (?g ?sid) = (w, h)" by fastforce
      have h: "joining k ?sid h" "js_has (gw_sockets h) k"
        using joining_other [OF j(1) [OF sk]] j(2) [OF sk] acquire_sockets [OF a] by auto
      have "regOk (updSocket k (\<lambda>sk. sk\<lparr>sk_stage := Acquiring ?sid\<rparr>) h)"
        using joining_done [OF h, of "Acquiring ?sid" sk_preAuth] by (simp add: socket.splits)
      then show ?thesis
        using sk a Inr regOk_join [OF j [OF sk]] regOk_join [OF h] by (simp add: authDone_def Let_def)
    qed
  qed
qed

lemma regOk_close: "regOk g \<Longrightarrow> regOk (onClose c k g)"
proof -
  assume g: "regOk g"
  show ?thesis
  proof (cases "\<exists>sk sid. js_get (gw_sockets g) k = Some sk \<and> sk_stage sk = Ready sid")
    case False
    then show ?thesis using g by (auto simp: onClose_def intro!: regOk_upd split: option.split stage.split)
  next
    case True
    then obtain sk sid where sk: "js_get (gw_sockets g) k = Some sk" "sk_stage sk = Ready sid" by blast
    let ?h = "dropSocket sid k (updSocket k (\<lambda>sk. sk\<lparr>sk_open := False, sk_stage := Gone\<rparr>) g)"
    have "sessionOf k g = Some sid" using sk by (simp add: sessionOf_def)
    then have "regOk ?h" using g unfolding regOk_def
      by (auto simp: dropSocket_def sessionOf_def split: option.splits elim!: regWith_gone)
    then have "regOk (releaseChannel sid ?h)" by (rule regOk_other) (simp_all add: releaseChannel_def split: option.split)
    then show ?thesis using sk \<open>regOk ?h\<close> by (simp add: onClose_def Let_def)
  qed
qed

lemma regOk_started: "regOk g \<Longrightarrow> regOk (startEnded c i r g)"
proof -
  assume g: "regOk g"
  have h: "regOk (g\<lparr>gw_starts := a, gw_buffers := b\<rparr>)" for a b by (rule regOk_other [OF g]) simp_all
  show ?thesis
    unfolding startEnded_def Let_def sendError_def
    by (auto intro: g h intro!: regOk_safeSend regOk_fold [OF h] split: option.split)
qed

lemma regOk_publish: "regOk g \<Longrightarrow> regOk (publishEvent c sid e g)"
  by (erule regOk_other) (simp_all add: publishEvent_def)

lemma regOk_reject: "regOk g \<Longrightarrow> sessionOf k g = None \<or> sessionOf k g = sessOf st \<Longrightarrow> regOk (rejectSocket k code msg cl st g)"
  unfolding rejectSocket_def rawSend_def
  by (erule regOk_same) (auto simp: sessionOf_upd split: option.splits, auto simp: sessionOf_def)

lemma gatewayStep_reg: "regOk g \<Longrightarrow> regOk (gatewayStep c e g)"
proof (cases e)
  case (Connect k token)
  assume g: "regOk g"
  have new: "regOk (g\<lparr>gw_sockets := js_set k sk (gw_sockets g)\<rparr>)" if "js_get (gw_sockets g) k = None" for sk
    using that by (intro regOk_same [OF g]) (auto simp: sessionOf_def update_conv')
  show ?thesis
  proof (cases "js_has (gw_sockets g) k")
    case True
    then show ?thesis using g by (simp add: Connect connectSocket_def)
  next
    case False
    then have "regOk (connectSocket k token g)"
      unfolding connectSocket_def Let_def
      by (auto split: option.split intro!: regOk_reject new simp: sessionOf_def update_conv')
    then show ?thesis by (simp add: Connect)
  qed
next
  case (AcquireDone k ok)
  assume g: "regOk g"
  then show ?thesis unfolding AcquireDone gatewayStep.simps acquireDone_def
    by (auto split: option.split stage.split intro!: regOk_ready regOk_reject simp: sessionOf_def)
next
  case (Frame k d)
  assume "regOk g"
  then show ?thesis unfolding Frame gatewayStep.simps onFrame_def
    by (auto split: option.split stage.split intro: regOk_inbound regOk_upd)
next
  case (RunEvent i ev)
  assume g: "regOk g"
  have "regOk (g\<lparr>gw_starts := a, gw_buffers := b\<rparr>)" for a b by (rule regOk_other [OF g]) simp_all
  then have "regOk (broadcastText sid d (g\<lparr>gw_starts := a, gw_buffers := b\<rparr>))" for sid d a b by (rule regOk_sends)
  then show ?thesis using g unfolding RunEvent gatewayStep.simps onEvent_def broadcastEvent_def
    by (auto split: option.split intro!: regOk_publish)
next
  case (SocketError k)
  assume g: "regOk g"
  then show ?thesis unfolding SocketError gatewayStep.simps onSocketError_def dropSocket_def
    by (auto split: option.split stage.split intro!: regOk_remove [OF g] simp: sessionOf_def)
next
  case (RedisMessage sid m)
  assume "regOk g"
  then show ?thesis unfolding RedisMessage gatewayStep.simps forwardMessage_def by (auto split: option.split intro: regOk_sends)
qed (auto intro: regOk_auth regOk_close regOk_started regOk_upd)

interpretation regM: machine "gatewayStep c" regOk for c
  by unfold_locales (rule gatewayStep_reg)

lemma regOk_new: "regOk newGateway"
  by (simp add: regOk_def regWith_def newGateway_def)

end
