(* ===== verification/Gateway_Delivery.thy ===== *)
theory Gateway_Delivery
  imports Gateway_Props
begin

section \<open>Sessions are isolated\<close>

lemma quiet_inbounds: "quiet g (fold (gwInbound c sid k) ds g)"
  by (rule quiet_fold) (rule quiet_inbound)

lemma sessionOf_ready: "sessionOf j (becomeReady c sid k g) = (if j = k \<and> js_has (gw_sockets g) k then Some sid else sessionOf j g)"
  unfolding becomeReady_def Let_def sessionOf_quiet [OF quiet_inbounds] sessionOf_upd
  by (auto simp: sessionOf_def split: option.split)

lemma sessionOf_reject: "sessionOf j (rejectSocket k code m cl st g) = (if j = k \<and> js_has (gw_sockets g) k then sessOf st else sessionOf j g)"
  unfolding rejectSocket_def sessionOf_upd sessionOf_quiet [OF quiet_rawSend]
  using quiet_has [OF quiet_rawSend, of k "toErrorEvent code m" g k] by (auto simp: sessionOf_def split: option.split)

lemma sessionOf_sockets: "gw_sockets h = gw_sockets g \<Longrightarrow> sessionOf j h = sessionOf j g"
  by (simp add: sessionOf_def)

lemma quiet_started: "quiet g (startEnded c i r g)"
proof -
  have w: "quiet (g\<lparr>gw_starts := a, gw_buffers := b\<rparr>) h \<Longrightarrow> quiet g h" for a b h by (auto simp: quiet_def)
  have w1: "quiet g (fold (\<lambda>k. safeSend s k d) ks (g\<lparr>gw_starts := a, gw_buffers := b\<rparr>))" for s d ks a b
    by (rule w) (rule quiet_fold, rule quiet_safeSend)
  have w2: "quiet g (safeSend s k d (g\<lparr>gw_starts := a, gw_buffers := b\<rparr>))" for s k d a b by (rule w) (rule quiet_safeSend)
  show ?thesis
    unfolding startEnded_def Let_def sendError_def
    by (auto split: option.split intro: w1 w2 quiet_sockets)
qed

lemma quiet_onEvent: "quiet g (onEvent c i e g)"
proof -
  have "quiet g (publishEvent c sid e (broadcastText sid d (g\<lparr>gw_starts := a, gw_buffers := b\<rparr>)))" for sid d a b
    using quiet_broadcast [of "g\<lparr>gw_starts := a, gw_buffers := b\<rparr>" sid d] by (auto simp: quiet_def publishEvent_def)
  then show ?thesis by (auto simp: onEvent_def broadcastEvent_def split: option.split)
qed

definition names :: "nat \<Rightarrow> string \<Rightarrow> gatewayOp \<Rightarrow> bool" where
  "names k sid e = (case e of AuthDone j (Inr claims) \<Rightarrow> j = k \<and> cl_sessionId claims = sid | _ \<Rightarrow> False)"

lemma sessionOf_auth: "sessionOf j (authDone c k r g) = Some sid \<Longrightarrow> sessionOf j g = Some sid \<or> names j sid (AuthDone k r)"
proof -
  have h: "sessionOf j (replayEvents c s k (g\<lparr>gw_sessions := a, gw_heartbeat := b\<rparr>)) = sessionOf j g" for s a b
    unfolding sessionOf_quiet [OF quiet_replay] by (simp add: sessionOf_def)
  have a: "acquireChannel s h = (w, h') \<Longrightarrow> sessionOf j h' = sessionOf j h" for s h w h'
    by (rule sessionOf_sockets) (use acquire_sockets in auto)
  assume "sessionOf j (authDone c k r g) = Some sid"
  then show ?thesis
    unfolding authDone_def Let_def names_def
    by (auto simp: sessionOf_reject sessionOf_ready sessionOf_upd h a split: option.splits sum.splits if_splits prod.splits)
qed

lemma sessionOf_step: "sessionOf k (gatewayStep c e g) = Some sid \<Longrightarrow> sessionOf k g = Some sid \<or> names k sid e"
proof (cases e)
  case (Connect j token)
  have n: "sessionOf k (g\<lparr>gw_sockets := js_set j sk (gw_sockets g)\<rparr>) = (if k = j then sessOf (sk_stage sk) else sessionOf k g)" for sk
    by (simp add: sessionOf_def update_conv')
  assume "sessionOf k (gatewayStep c e g) = Some sid"
  then show ?thesis unfolding Connect gatewayStep.simps connectSocket_def Let_def
    by (auto simp: sessionOf_reject n split: option.splits if_splits)
next
  case (AcquireDone j ok)
  assume "sessionOf k (gatewayStep c e g) = Some sid"
  then show ?thesis unfolding AcquireDone gatewayStep.simps acquireDone_def
    by (auto simp: sessionOf_ready sessionOf_reject split: option.splits stage.splits if_splits) (auto simp: sessionOf_def)
next
  case (Frame j d)
  assume "sessionOf k (gatewayStep c e g) = Some sid"
  then show ?thesis unfolding Frame gatewayStep.simps onFrame_def
    by (auto simp: sessionOf_quiet [OF quiet_inbound] sessionOf_upd split: option.splits stage.splits if_splits) (auto simp: sessionOf_def)
next
  case (Close j)
  have r: "gw_sockets (releaseChannel s h) = gw_sockets h" for s h by (simp add: releaseChannel_def split: option.split)
  assume "sessionOf k (gatewayStep c e g) = Some sid"
  then show ?thesis unfolding Close gatewayStep.simps onClose_def Let_def
    by (auto simp: sessionOf_def dropSocket_def r split: option.splits stage.splits if_splits)
next
  case (SocketError j)
  assume "sessionOf k (gatewayStep c e g) = Some sid"
  then show ?thesis unfolding SocketError gatewayStep.simps onSocketError_def
    by (auto simp: sessionOf_def dropSocket_def split: option.splits stage.splits if_splits)
next
  case (SetHealth j up bad)
  assume "sessionOf k (gatewayStep c e g) = Some sid"
  then show ?thesis unfolding SetHealth by (auto simp: sessionOf_def split: option.splits if_splits)
next
  case (RedisMessage s m)
  have "quiet g (forwardMessage c s m g)" by (auto simp: forwardMessage_def intro: quiet_broadcast split: option.split)
  moreover assume "sessionOf k (gatewayStep c e g) = Some sid"
  ultimately show ?thesis unfolding RedisMessage by (auto simp: sessionOf_quiet split: if_splits)
qed (auto simp: sessionOf_auth sessionOf_quiet [OF quiet_started] sessionOf_quiet [OF quiet_onEvent])

lemma sessionOf_run: "sessionOf k (runSteps (gatewayStep c) ops g) = Some sid \<Longrightarrow> sessionOf k g = Some sid \<or> filter (names k sid) ops \<noteq> []"
proof (induction ops arbitrary: g)
  case (Cons e ops)
  then have "sessionOf k (gatewayStep c e g) = Some sid \<or> filter (names k sid) ops \<noteq> []" by simp
  then show ?case using sessionOf_step [of k c e g sid] by auto
qed simp

text \<open>Property C35: a socket is only ever registered for the session that its validated token names, so the
  events of a session reach nobody else; and no socket is registered twice.\<close>

theorem sessions_isolated:
  assumes "g = runSteps (gatewayStep c) ops newGateway" "k \<in> set (getConnections sid g)"
  shows "filter (names k sid) ops \<noteq> [] \<and> distinct (getConnections sid g)"
proof -
  have "regOk g" unfolding assms(1) by (rule regM.run_inv [OF regOk_new])
  moreover obtain ks where ks: "js_get (gw_sessions g) sid = Some ks" "k \<in> set ks" "getConnections sid g = ks"
    using assms(2) unfolding getConnections_def by (cases "js_get (gw_sessions g) sid") auto
  ultimately have "sessionOf k g = Some sid" "distinct ks" unfolding regOk_def using regWith_get [of _ "gw_sessions g" sid ks] by auto
  then show ?thesis using sessionOf_run [of k c ops newGateway sid] assms(1) ks(3) by (auto simp: newGateway_def sessionOf_def)
qed

section \<open>Every event exactly once\<close>

definition isEventText :: "string \<Rightarrow> bool" where
  "isEventText t = (case parse t of Some j \<Rightarrow> ChatEventSchema j | None \<Rightarrow> False)"

definition seen :: "nat \<Rightarrow> gateway \<Rightarrow> string list" where
  "seen k g = (case js_get (gw_sockets g) k of Some sk \<Rightarrow> filter isEventText (sk_sent sk) | None \<Rightarrow> [])"

text \<open>A socket that is registered, open and able to send.\<close>

definition listening :: "nat \<Rightarrow> string \<Rightarrow> gateway \<Rightarrow> bool" where
  "listening k sid g = (k \<in> set (getConnections sid g) \<and>
     (case js_get (gw_sockets g) k of Some sk \<Rightarrow> sk_open sk \<and> \<not> sk_throws sk \<and> sessOf (sk_stage sk) = Some sid | None \<Rightarrow> False))"

lemma own_frames [simp]: "\<not> isEventText (stringify (toErrorEvent a b))" "\<not> isEventText (stringify (parseErrorEvent e))"
  "\<not> isEventText (stringify (JObj [(''type'', JStr ''pong'')]))" "\<not> isEventText (stringify internalError)"
  by (cases e; simp add: isEventText_def parse_stringify toErrorEvent_def parseErrorEvent_def internalError_def ChatEventSchema_def eventFields_def
      del: stringify.simps)+

text \<open>\<open>receives k sid new g h\<close>: from \<open>g\<close> to \<open>h\<close> the socket keeps listening and sees exactly the events \<open>new\<close>.\<close>

definition receives :: "nat \<Rightarrow> string \<Rightarrow> string list \<Rightarrow> gateway \<Rightarrow> gateway \<Rightarrow> bool" where
  "receives k sid new g h = (listening k sid h \<and> seen k h = seen k g @ new)"

lemma receives_trans: "receives k sid a g h \<Longrightarrow> receives k sid b h i \<Longrightarrow> receives k sid (a @ b) g i"
  by (simp add: receives_def)

lemma receives_refl: "listening k sid g \<Longrightarrow> receives k sid [] g g"
  by (simp add: receives_def)

lemma receives_same: "listening k sid g \<Longrightarrow> js_get (gw_sockets h) k = js_get (gw_sockets g) k \<Longrightarrow> k \<in> set (getConnections sid h)
    \<Longrightarrow> receives k sid [] g h"
  by (auto simp: receives_def listening_def seen_def)

lemma connections_remove: "k \<in> set (getConnections sid g) \<Longrightarrow> gw_sessions h = cmRemove t j (gw_sessions g) \<Longrightarrow> j \<noteq> k \<or> t \<noteq> sid \<Longrightarrow> k \<in> set (getConnections sid h)"
  by (auto simp: getConnections_def cmRemove_get setDelete_def filter_empty_conv split: option.splits)

text \<open>Sending to some socket: the listening one receives the text if it is its own turn.\<close>

lemma receives_send: "listening k sid g \<Longrightarrow> receives k sid (if j = k \<and> isEventText d then [d] else []) g (safeSend t j d g)"
proof -
  assume l: "listening k sid g"
  then obtain sk where sk: "js_get (gw_sockets g) k = Some sk" "sk_open sk" "\<not> sk_throws sk" "sessOf (sk_stage sk) = Some sid" "k \<in> set (getConnections sid g)"
    by (auto simp: listening_def split: option.splits)
  show ?thesis
  proof (cases "j = k")
    case True
    then show ?thesis using sk by (auto simp: receives_def listening_def seen_def safeSend_def getConnections_def)
  next
    case False
    have "js_get (gw_sockets (safeSend t j d g)) k = Some sk" using sk(1) False by (simp add: safeSend_def split: option.split)
    moreover have "k \<in> set (getConnections sid (safeSend t j d g))"
      using safeSend_sessions [of t j d g] connections_remove [OF sk(5), of "safeSend t j d g" t j] sk(5) False
      by (auto simp: getConnections_def)
    ultimately show ?thesis using sk False by (simp add: receives_def listening_def seen_def)
  qed
qed

lemma receives_sends: "listening k sid g \<Longrightarrow>
    receives k sid (concat (map (\<lambda>j. if j = k \<and> isEventText d then [d] else []) ks)) g (fold (\<lambda>j. safeSend t j d) ks g)"
proof (induction ks arbitrary: g)
  case (Cons j ks)
  note one = receives_send [OF Cons.prems, of j d t]
  then have "listening k sid (safeSend t j d g)" by (simp add: receives_def)
  from receives_trans [OF one Cons.IH [OF this]] show ?case by simp
qed (simp add: receives_refl)

lemma concat_once: "distinct ks \<Longrightarrow> concat (map (\<lambda>j. if j = k \<and> P then [d] else []) ks) = (if k \<in> set ks \<and> P then [d] else [])"
  by (induction ks) auto

lemma receives_broadcast: "listening k sid g \<Longrightarrow> regOk g \<Longrightarrow> receives k sid (if t = sid \<and> isEventText d then [d] else []) g (broadcastText t d g)"
proof -
  assume l: "listening k sid g" "regOk g"
  have r: "k \<in> set (getConnections sid g)" "sessionOf k g = Some sid"
    using l(1) by (auto simp: listening_def sessionOf_def split: option.splits)
  have g: "distinct (getConnections t g)" "k \<in> set (getConnections t g) \<longleftrightarrow> t = sid"
    using r l(2) regWith_get [of "\<lambda>k sid. sessionOf k g = Some sid" "gw_sessions g" t] unfolding regOk_def getConnections_def
    by (cases "js_get (gw_sessions g) t"; fastforce)+
  show ?thesis
    using receives_sends [OF l(1), of d "getConnections t g" t] unfolding broadcastText_def concat_once [OF g(1)] g(2) .
qed

lemma receives_after: "receives k sid new g h \<Longrightarrow> js_get (gw_sockets h') k = js_get (gw_sockets h) k \<Longrightarrow> k \<in> set (getConnections sid h') \<Longrightarrow> receives k sid new g h'"
  by (auto simp: receives_def listening_def seen_def)

lemma receives_quietly: "listening k sid g \<Longrightarrow> gw_sockets h = gw_sockets g \<Longrightarrow> gw_sessions h = gw_sessions g \<Longrightarrow> receives k sid [] g h"
  by (rule receives_same) (auto simp: getConnections_def listening_def)

lemma receives_upd:
  assumes "listening k sid g" "\<And>sk. sk_open (f sk) = sk_open sk \<and> sk_throws (f sk) = sk_throws sk \<and> sk_sent (f sk) = sk_sent sk"
    and "j = k \<Longrightarrow> sessOf (sk_stage (f (the (js_get (gw_sockets g) k)))) = Some sid"
  shows "receives k sid [] g (updSocket j f g)"
proof -
  obtain sk where "js_get (gw_sockets g) k = Some sk" using assms(1) by (auto simp: listening_def split: option.splits)
  then show ?thesis using assms by (cases "j = k") (auto simp: receives_def listening_def seen_def getConnections_def)
qed

lemma receives_other: "listening k sid g \<Longrightarrow> j \<noteq> k \<Longrightarrow> receives k sid [] g (updSocket j f g)"
  by (auto simp: receives_def listening_def seen_def getConnections_def)

lemma receives_rawSend: "listening k sid g \<Longrightarrow> \<not> isEventText (stringify x) \<Longrightarrow> receives k sid [] g (rawSend j x g)"
  by (auto simp: receives_def listening_def seen_def rawSend_def getConnections_def split: option.splits)

lemma receives_inbound: "listening k sid g \<Longrightarrow> receives k sid [] g (gwInbound c t j d g)"
proof -
  assume l: "listening k sid g"
  have e: "receives k sid [] g (sendError t j x g)" if "\<not> isEventText (stringify x)" for x
    using receives_send [OF l, of j "stringify x" t] that by (simp add: sendError_def)
  show ?thesis unfolding gwInbound_def
    by (auto simp: handleSendMessage_def handleCancel_def l intro!: e receives_rawSend receives_refl receives_quietly
        split: sum.split InboundMessage.split option.split simp del: stringify.simps)
qed

lemma receives_fold: "listening k sid g \<Longrightarrow> (\<And>x g. listening k sid g \<Longrightarrow> receives k sid [] g (f x g)) \<Longrightarrow> receives k sid [] g (fold f xs g)"
proof (induction xs arbitrary: g)
  case (Cons x xs)
  have one: "receives k sid [] g (f x g)" by (rule Cons.prems)+
  then have "listening k sid (f x g)" by (simp add: receives_def)
  from receives_trans [OF one Cons.IH [OF this Cons.prems(2)]] show ?case by simp
qed (simp add: receives_refl)

lemma receives_then: "receives k sid [] g h \<Longrightarrow> (listening k sid h \<Longrightarrow> receives k sid new h i) \<Longrightarrow> receives k sid new g i"
  by (simp add: receives_def)

lemma receives_ready: "listening k sid g \<Longrightarrow> (j = k \<Longrightarrow> t = sid) \<Longrightarrow> receives k sid [] g (becomeReady c t j g)"
proof -
  assume a: "listening k sid g" "j = k \<Longrightarrow> t = sid"
  have "receives k sid [] g (updSocket j (\<lambda>sk. sk\<lparr>sk_stage := Ready t, sk_preAuth := []\<rparr>) g)"
    by (rule receives_upd [OF a(1)]) (use a(2) in auto)
  then show ?thesis unfolding becomeReady_def Let_def by (rule receives_then) (intro receives_fold receives_inbound)
qed

lemma receives_reject: "listening k sid g \<Longrightarrow> (j = k \<Longrightarrow> sessOf st = Some sid) \<Longrightarrow> receives k sid [] g (rejectSocket j code m cl st g)"
  unfolding rejectSocket_def
  by (rule receives_then [OF receives_rawSend]) (auto intro!: receives_upd simp del: stringify.simps)

section \<open>Steps\<close>

text \<open>Operations that do not touch the socket itself; and the event of a session that a step delivers.\<close>

definition calm :: "nat \<Rightarrow> gatewayOp \<Rightarrow> bool" where
  "calm k e = (case e of Close j \<Rightarrow> j \<noteq> k | SocketError j \<Rightarrow> j \<noteq> k | SetHealth j up bad \<Rightarrow> j \<noteq> k | RedisMessage s m \<Rightarrow> False | _ \<Rightarrow> True)"

definition liveEvent :: "string \<Rightarrow> gatewayOp \<Rightarrow> gateway \<Rightarrow> ChatEvent list" where
  "liveEvent sid e g = (case e of RunEvent i ev \<Rightarrow> (case js_get (gw_starts g) i of Some p \<Rightarrow> if ps_session p = sid then [ev] else [] | None \<Rightarrow> [])
     | _ \<Rightarrow> [])"

lemma receives_auth:
  assumes l: "listening k sid g"
  shows "receives k sid [] g (authDone c j r g)"
proof (cases "j = k")
  case True
  then show ?thesis using l by (auto simp: authDone_def listening_def receives_refl split: option.splits)
next
  case False
  let ?h = "\<lambda>t. replayEvents c t j (g\<lparr>gw_sessions := cmAdd t j (gw_sessions g), gw_heartbeat := setAdd j (gw_heartbeat g)\<rparr>)"
  have a: "receives k sid [] g (g\<lparr>gw_sessions := cmAdd t j (gw_sessions g), gw_heartbeat := b\<rparr>)" for t b
    using l by (intro receives_same [OF l]) (auto simp: listening_def getConnections_def cmAdd_get split: option.splits)
  have h: "receives k sid [] g (?h t)" for t
  proof (rule receives_then [OF a])
    assume "listening k sid (g\<lparr>gw_sessions := cmAdd t j (gw_sessions g), gw_heartbeat := setAdd j (gw_heartbeat g)\<rparr>)"
    moreover have "receives k sid [] g' (safeSend t j d g')" if "listening k sid g'" for g' d
      using receives_send [OF that, of j d t] False by simp
    ultimately show "receives k sid [] (g\<lparr>gw_sessions := cmAdd t j (gw_sessions g), gw_heartbeat := setAdd j (gw_heartbeat g)\<rparr>) (?h t)"
      by (auto simp: replayEvents_def intro: receives_refl receives_fold split: option.split)
  qed
  have q: "receives k sid [] h' (snd (acquireChannel t h'))" if "listening k sid h'" for h' t
    using receives_quietly [OF that] acquire_sockets [of t h'] by (metis prod.collapse)
  have fin: "receives k sid [] h' (if fst (acquireChannel t h') then updSocket j (\<lambda>sk. sk\<lparr>sk_stage := st\<rparr>) (snd (acquireChannel t h'))
      else becomeReady c t j (snd (acquireChannel t h')))" if "listening k sid h'" for h' t st
    by (rule receives_then [OF q [OF that]]) (use False in \<open>auto intro: receives_other receives_ready\<close>)
  show ?thesis
  proof (cases "\<exists>sk. js_get (gw_sockets g) j = Some sk \<and> sk_stage sk = Authenticating")
    case False
    then have "authDone c j r g = g" by (auto simp: authDone_def split: option.split)
    then show ?thesis using l by (simp add: receives_refl)
  next
    case True
    then obtain sk where sk: "js_get (gw_sockets g) j = Some sk" "sk_stage sk = Authenticating" by blast
    show ?thesis
    proof (cases r)
      case (Inl e)
      then have "authDone c j r g = rejectSocket j (authCodeName (fst e)) (snd e) (closeCodeOf (fst e), snd e) Rejected g"
        using sk by (simp add: authDone_def split: prod.split)
      then show ?thesis using l \<open>j \<noteq> k\<close> by (simp add: receives_reject)
    next
      case (Inr cl)
      let ?t = "cl_sessionId cl"
      have e: "authDone c j r g = (if gc_redisActive c then (if fst (acquireChannel ?t (?h ?t))
          then updSocket j (\<lambda>sk. sk\<lparr>sk_stage := Acquiring ?t\<rparr>) (snd (acquireChannel ?t (?h ?t)))
          else becomeReady c ?t j (snd (acquireChannel ?t (?h ?t)))) else becomeReady c ?t j (?h ?t))"
        using sk Inr by (simp add: authDone_def Let_def split_def)
      show ?thesis
      proof (cases "gc_redisActive c")
        case True
        show ?thesis unfolding e if_P [OF True] by (rule receives_then [OF h [of ?t]]) (rule fin)
      next
        case False
        show ?thesis unfolding e if_not_P [OF False] by (rule receives_then [OF h [of ?t]]) (use \<open>j \<noteq> k\<close> in \<open>simp add: receives_ready\<close>)
      qed
    qed
  qed
qed

lemma receives_step:
  assumes l: "listening k sid g" and r: "regOk g" and cm: "calm k e" and wf: "\<And>v. wf_json (gc_dbj c v)"
  shows "receives k sid (map (serializeChatEvent (gc_dbj c)) (liveEvent sid e g)) g (gatewayStep c e g)"
proof (cases e)
  case (RunEvent i ev)
  have t: "isEventText (serializeChatEvent (gc_dbj c) ev)" using parse_event [OF wf] by (simp add: isEventText_def event_accepted)
  have P: "receives k sid (if t = sid then [serializeChatEvent (gc_dbj c) ev] else []) g
      (publishEvent c t ev (broadcastEvent c t ev (g\<lparr>gw_starts := a, gw_buffers := b\<rparr>)))" for t a b
  proof (rule receives_then [OF receives_quietly [OF l]])
    let ?h = "g\<lparr>gw_starts := a, gw_buffers := b\<rparr>"
    assume "listening k sid ?h"
    then have "receives k sid (if t = sid then [serializeChatEvent (gc_dbj c) ev] else []) ?h (broadcastEvent c t ev ?h)"
      unfolding broadcastEvent_def using receives_broadcast [of k sid ?h t "serializeChatEvent (gc_dbj c) ev"] regOk_other [OF r, of ?h] t
      by (simp split: if_splits)
    then show "receives k sid (if t = sid then [serializeChatEvent (gc_dbj c) ev] else []) ?h (publishEvent c t ev (broadcastEvent c t ev ?h))"
      by (rule receives_after) (use \<open>receives k sid _ ?h (broadcastEvent c t ev ?h)\<close> in \<open>auto simp: publishEvent_def receives_def listening_def getConnections_def\<close>)
  qed simp_all
  show ?thesis
  proof (cases "js_get (gw_starts g) i")
    case None
    then show ?thesis using l by (simp add: RunEvent onEvent_def liveEvent_def receives_refl)
  next
    case (Some p)
    then show ?thesis using P [of "ps_session p" "bufferEvent c (ps_session p) ev (gw_buffers g)" "js_set i (p\<lparr>ps_emitted := True\<rparr>) (gw_starts g)"]
      by (cases "ps_session p = sid") (simp_all add: RunEvent onEvent_def liveEvent_def)
  qed
next
  case (Connect j token)
  have n: "receives k sid [] g (g\<lparr>gw_sockets := js_set j sk (gw_sockets g)\<rparr>)" if "js_get (gw_sockets g) j = None" for sk
    using l that by (intro receives_same [OF l]) (auto simp: listening_def getConnections_def update_conv')
  have "js_get (gw_sockets g) j = None \<Longrightarrow> j \<noteq> k" using l by (auto simp: listening_def)
  then have "receives k sid [] g (connectSocket j token g)" unfolding connectSocket_def Let_def
    by (auto split: option.split intro!: receives_refl l receives_then [OF n] receives_reject)
  then show ?thesis by (simp add: Connect liveEvent_def)
next
  case (AuthDone j r)
  then show ?thesis using receives_auth [OF l] by (simp add: liveEvent_def)
next
  case (AcquireDone j ok)
  have "j = k \<Longrightarrow> js_get (gw_sockets g) j = Some sk \<Longrightarrow> sk_stage sk = Acquiring t \<Longrightarrow> t = sid" for sk t using l by (auto simp: listening_def)
  then show ?thesis unfolding AcquireDone gatewayStep.simps acquireDone_def liveEvent_def
    by (auto split: option.split stage.split intro!: receives_refl l receives_ready receives_reject)
next
  case (Frame j d)
  have "j = k \<Longrightarrow> sessOf (sk_stage (the (js_get (gw_sockets g) k))) = Some sid" using l by (auto simp: listening_def split: option.splits)
  then show ?thesis unfolding Frame gatewayStep.simps onFrame_def liveEvent_def
    by (auto split: option.split stage.split intro!: receives_refl l receives_inbound receives_upd)
next
  case (StartEnded i x)
  have q: "receives k sid [] g (g\<lparr>gw_starts := a, gw_buffers := b\<rparr>)" for a b by (rule receives_quietly [OF l]) simp_all
  have er: "receives k sid [] h (safeSend t j (stringify (toErrorEvent u v)) h)" if "listening k sid h" for h t j u v
    using receives_send [OF that, of j "stringify (toErrorEvent u v)" t] by simp
  show ?thesis
  proof (cases "js_get (gw_starts g) i")
    case None
    then show ?thesis using l by (simp add: StartEnded startEnded_def liveEvent_def receives_refl)
  next
    case (Some p)
    let ?h = "g\<lparr>gw_starts := js_delete i (gw_starts g), gw_buffers := js_delete (ps_session p) (gw_buffers g)\<rparr>"
    have h: "listening k sid ?h" using q by (simp add: receives_def)
    have "receives k sid [] ?h (startEnded c i x g)"
      unfolding startEnded_def Let_def sendError_def Some option.case
      by (auto split: option.split simp del: stringify.simps intro!: receives_refl h er receives_fold)
    then show ?thesis using receives_then [OF q [of "js_delete (ps_session p) (gw_buffers g)" "js_delete i (gw_starts g)"]]
      by (simp add: StartEnded liveEvent_def)
  qed
next
  case (Close j)
  then have j: "j \<noteq> k" using cm by (simp add: calm_def)
  have d: "receives k sid [] g (dropSocket t j (updSocket j f g))" for t f
    using l j connections_remove [of k sid g "dropSocket t j (updSocket j f g)" t j]
    by (intro receives_same [OF l]) (auto simp: dropSocket_def listening_def)
  have "receives k sid [] h (releaseChannel t h)" if "listening k sid h" for t h
    by (rule receives_quietly [OF that]) (simp_all add: releaseChannel_def split: option.split)
  then have rel: "receives k sid [] g (releaseChannel t (dropSocket t j (updSocket j f g)))" for t f by (rule receives_then [OF d])
  show ?thesis unfolding Close gatewayStep.simps onClose_def Let_def liveEvent_def
    using j by (auto split: option.split stage.split intro!: receives_refl l receives_other rel d)
next
  case (SocketError j)
  then have j: "j \<noteq> k" using cm by (simp add: calm_def)
  have d: "receives k sid [] g (dropSocket t j g)" for t
    using l j connections_remove [of k sid g "dropSocket t j g" t j] by (intro receives_same [OF l]) (auto simp: dropSocket_def listening_def)
  then show ?thesis unfolding SocketError gatewayStep.simps onSocketError_def liveEvent_def
    by (auto split: option.split stage.split intro!: receives_refl l)
next
  case (SetHealth j up bad)
  then show ?thesis using l cm by (simp add: calm_def liveEvent_def receives_other)
next
  case (RedisMessage t m)
  then show ?thesis using cm by (simp add: calm_def)
qed

fun liveEvents :: "gatewayConfig \<Rightarrow> string \<Rightarrow> gatewayOp list \<Rightarrow> gateway \<Rightarrow> ChatEvent list" where
  "liveEvents c sid [] g = []"
| "liveEvents c sid (e # ops) g = liveEvent sid e g @ liveEvents c sid ops (gatewayStep c e g)"

lemma receives_run:
  assumes "listening k sid g" "regOk g" "list_all (calm k) ops" "\<And>v. wf_json (gc_dbj c v)"
  shows "receives k sid (map (serializeChatEvent (gc_dbj c)) (liveEvents c sid ops g)) g (runSteps (gatewayStep c) ops g)"
  using assms(1-3)
proof (induction ops arbitrary: g)
  case (Cons e ops)
  note one = receives_step [OF Cons.prems(1,2) _ assms(4), of e]
  have "listening k sid (gatewayStep c e g)" using one Cons.prems(3) by (simp add: receives_def)
  from Cons.IH [OF this gatewayStep_reg [OF Cons.prems(2)]] one Cons.prems(3) show ?case
    using receives_trans by fastforce
qed (simp add: receives_refl)

end
