(* ===== verification/Gateway_Replay.thy ===== *)
theory Gateway_Replay
  imports Gateway_Delivery
begin

text \<open>The replay buffer and what a client that connects in the middle of a run sees; the Redis subscriptions.\<close>

section \<open>What changes a replay buffer\<close>

definition bufferStep :: "gatewayConfig \<Rightarrow> gatewayOp \<Rightarrow> gateway \<Rightarrow> (string, string \<times> ChatEvent list) jsmap" where
  "bufferStep c e g = (case e of
      RunEvent i ev \<Rightarrow> (case js_get (gw_starts g) i of Some p \<Rightarrow> bufferEvent c (ps_session p) ev (gw_buffers g) | None \<Rightarrow> gw_buffers g)
    | StartEnded i r \<Rightarrow> (case js_get (gw_starts g) i of Some p \<Rightarrow> js_delete (ps_session p) (gw_buffers g) | None \<Rightarrow> gw_buffers g)
    | _ \<Rightarrow> gw_buffers g)"

lemma buffers_fold: "(\<And>x g. gw_buffers (f x g) = gw_buffers g) \<Longrightarrow> gw_buffers (fold f xs g) = gw_buffers g"
  by (induction xs arbitrary: g) simp_all

lemma buffers_simps [simp]:
  "gw_buffers (rawSend k j g) = gw_buffers g" "gw_buffers (sendError sid k j g) = gw_buffers g" "gw_buffers (broadcastText sid d g) = gw_buffers g"
  "gw_buffers (replayEvents c sid k g) = gw_buffers g" "gw_buffers (releaseChannel sid g) = gw_buffers g" "gw_buffers (dropSocket sid k g) = gw_buffers g"
  "gw_buffers (handleSendMessage sid t k g) = gw_buffers g" "gw_buffers (handleCancel sid g) = gw_buffers g" "gw_buffers (publishEvent c sid e g) = gw_buffers g"
  "gw_buffers (rejectSocket k a b cl st g) = gw_buffers g" "gw_buffers (snd (acquireChannel sid g)) = gw_buffers g"
  by (auto simp: rawSend_def sendError_def broadcastText_def replayEvents_def releaseChannel_def dropSocket_def handleSendMessage_def
      handleCancel_def publishEvent_def rejectSocket_def acquireChannel_def buffers_fold split: option.split)

lemma buffers_inbound [simp]: "gw_buffers (gwInbound c sid k d g) = gw_buffers g"
  by (auto simp: gwInbound_def split: sum.split InboundMessage.split)

lemma buffers_ready [simp]: "gw_buffers (becomeReady c sid k g) = gw_buffers g"
  by (simp add: becomeReady_def buffers_fold)

lemma buffers_auth [simp]: "gw_buffers (authDone c k r g) = gw_buffers g"
  by (auto simp: authDone_def Let_def split_def split: option.split sum.split)

lemma buffers_step: "gw_buffers (gatewayStep c e g) = bufferStep c e g"
  by (cases e) (auto simp: bufferStep_def connectSocket_def acquireDone_def onFrame_def onEvent_def broadcastEvent_def startEnded_def
      buffers_fold onClose_def onSocketError_def forwardMessage_def Let_def split: option.split stage.split)

section \<open>The buffer of a run\<close>






section \<open>Joining in the middle of a run\<close>






section \<open>A refused message wipes the buffer\<close>

text \<open>A second message that is refused with a conflict deletes the replay buffer of the run that is
  still going on: a client that connects then is sent nothing, and a cancel request in that moment finds
  no run to cancel.\<close>

theorem conflict_wipes_buffer:
  assumes "js_get (gw_starts g) i = Some p" "g' = gatewayStep c (StartEnded i (Some (SwiftErr CONFLICT m))) g"
  shows "js_get (gw_buffers g') (ps_session p) = None \<and> gw_cancels (handleCancel (ps_session p) g') = gw_cancels g' \<and>
     replayEvents c (ps_session p) k g' = g'"
proof -
  have "js_get (gw_buffers g') (ps_session p) = None"
    unfolding assms(2) buffers_step using assms(1) by (simp add: bufferStep_def delete_conv')
  then show ?thesis by (simp add: handleCancel_def replayEvents_def)
qed

end
