(* ===== verification/Gateway_Channels.thy ===== *)
theory Gateway_Channels
  imports Gateway_Replay
begin

text \<open>The Redis side of the gateway: reference counts, subscriptions, and the echo of own events.\<close>

section \<open>What changes subscriptions and publications\<close>

definition subs :: "gateway \<Rightarrow> (string, nat) jsmap \<times> string list" where
  "subs g = (gw_refs g, gw_handlers g)"

lemma subs_fold: "(\<And>x g. subs (f x g) = subs g) \<Longrightarrow> subs (fold f xs g) = subs g"
  by (induction xs arbitrary: g) simp_all

lemma subs_simps [simp]:
  "subs (updSocket k f g) = subs g" "subs (safeSend sid k d g) = subs g" "subs (rawSend k j g) = subs g"
  "subs (dropSocket sid k g) = subs g" "subs (handleSendMessage sid t k g) = subs g" "subs (publishEvent c sid e g) = subs g"
  by (simp_all add: subs_def rawSend_def dropSocket_def handleSendMessage_def publishEvent_def)

lemma subs_more [simp]: "subs (sendError sid k j g) = subs g" "subs (broadcastText sid d g) = subs g" "subs (replayEvents c sid k g) = subs g"
  "subs (handleCancel sid g) = subs g" "subs (rejectSocket k a b cl st g) = subs g"
  by (auto simp: sendError_def broadcastText_def replayEvents_def rejectSocket_def subs_fold handleCancel_def split: option.split)
     (simp add: subs_def)

lemma subs_inbound [simp]: "subs (gwInbound c sid k d g) = subs g"
  by (auto simp: gwInbound_def split: sum.split InboundMessage.split)

lemma subs_ready [simp]: "subs (becomeReady c sid k g) = subs g"
  by (simp add: becomeReady_def subs_fold)

lemma subs_other [simp]: "subs (g\<lparr>gw_starts := a, gw_buffers := b\<rparr>) = subs g" "subs (g\<lparr>gw_sockets := s\<rparr>) = subs g"
  "subs (g\<lparr>gw_sessions := m, gw_heartbeat := hb\<rparr>) = subs g"
  by (simp_all add: subs_def)

section \<open>Reference counts\<close>

definition holderSet :: "string \<Rightarrow> gateway \<Rightarrow> nat set" where
  "holderSet sid g = {k. sessionOf k g = Some sid}"

lemma holderSet_finite: "finite (holderSet sid g)"
proof -
  have "holderSet sid g \<subseteq> dom (map_of (gw_sockets g))" by (auto simp: holderSet_def sessionOf_def split: option.splits)
  then show ?thesis using finite_dom_map_of finite_subset by blast
qed

lemma channelOf_inj [simp]: "channelOf a = channelOf b \<longleftrightarrow> a = b"
  by (simp add: channelOf_def)

definition subOk :: "(string, nat) jsmap \<times> string list \<Rightarrow> string \<Rightarrow> nat \<Rightarrow> bool" where
  "subOk s sid n = (js_get (fst s) (channelOf sid) = (if n = 0 then None else Some n) \<and> (channelOf sid \<in> set (snd s)) = (n \<noteq> 0))"

definition subsOk :: "gatewayConfig \<Rightarrow> gateway \<Rightarrow> bool" where
  "subsOk c g = (gc_redisActive c \<longrightarrow> (\<forall>sid. subOk (subs g) sid (card (holderSet sid g))))"

lemma subsOk_same: "subsOk c g \<Longrightarrow> subs h = subs g \<Longrightarrow> (\<And>k. sessionOf k h = sessionOf k g) \<Longrightarrow> subsOk c h"
  by (simp add: subsOk_def holderSet_def)

lemma acquire_sub: "subOk (subs g) sid n \<Longrightarrow> subOk (subs (snd (acquireChannel sid g))) sid (Suc n)"
  by (auto simp: subOk_def subs_def acquireChannel_def update_conv' split: option.splits if_splits)

lemma acquire_others: "sid \<noteq> t \<Longrightarrow> subOk (subs (snd (acquireChannel sid g))) t n = subOk (subs g) t n"
  by (auto simp: subOk_def subs_def acquireChannel_def update_conv' split: option.split)

lemma release_sub: "subOk (subs g) sid (Suc n) \<Longrightarrow> subOk (subs (releaseChannel sid g)) sid n"
  by (auto simp: subOk_def subs_def releaseChannel_def update_conv' delete_conv')

lemma release_others: "sid \<noteq> t \<Longrightarrow> subOk (subs (releaseChannel sid g)) t n = subOk (subs g) t n"
  by (auto simp: subOk_def subs_def releaseChannel_def update_conv' delete_conv' split: option.split)

lemma subsOk_join:
  assumes "subsOk c g" "gc_redisActive c" "sessionOf k g = None"
    and "subs h = subs (snd (acquireChannel sid g1))" "subs g1 = subs g" "\<And>j. sessionOf j h = (if j = k then Some sid else sessionOf j g)"
  shows "subsOk c h"
  unfolding subsOk_def
proof (intro impI allI)
  fix t
  have f: "finite (holderSet t g)" by (rule holderSet_finite)
  have hs: "holderSet t h = (if t = sid then insert k (holderSet t g) else holderSet t g)" "k \<notin> holderSet t g"
    using assms(3,6) by (auto simp: holderSet_def)
  have g: "subOk (subs g1) t (card (holderSet t g))" using assms(1,2,5) by (simp add: subsOk_def)
  show "subOk (subs h) t (card (holderSet t h))"
    unfolding assms(4) using acquire_sub [OF g] acquire_others [of sid t g1] g hs f by (cases "t = sid") auto
qed

lemma subsOk_leave:
  assumes "subsOk c g" "gc_redisActive c" "sessionOf k g = Some sid"
    and "subs h = subs (releaseChannel sid g1)" "subs g1 = subs g" "\<And>j. sessionOf j h = (if j = k then None else sessionOf j g)"
  shows "subsOk c h"
  unfolding subsOk_def
proof (intro impI allI)
  fix t
  have f: "finite (holderSet t g)" by (rule holderSet_finite)
  have hs: "holderSet t h = (if t = sid then holderSet t g - {k} else holderSet t g)" "k \<in> holderSet sid g"
    using assms(3,6) by (auto simp: holderSet_def)
  have g: "subOk (subs g1) t (card (holderSet t g))" using assms(1,2,5) by (simp add: subsOk_def)
  show "subOk (subs h) t (card (holderSet t h))"
  proof (cases "t = sid")
    case True
    then have "card (holderSet t g) = Suc (card (holderSet t h))" using hs f by (metis card.remove)
    then show ?thesis unfolding assms(4) using g True by (simp add: release_sub)
  next
    case False
    then show ?thesis unfolding assms(4) using g hs release_others [of sid t g1] by auto
  qed
qed

lemma sessionOf_replay: "sessionOf j (replayEvents c s k (g\<lparr>gw_sessions := a, gw_heartbeat := b\<rparr>)) = sessionOf j g"
  unfolding sessionOf_quiet [OF quiet_replay] by (simp add: sessionOf_def)

lemma subsOk_auth: "subsOk c g \<Longrightarrow> subsOk c (authDone c k r g)"
proof -
  assume g: "subsOk c g"
  show ?thesis
  proof (cases "\<exists>sk. js_get (gw_sockets g) k = Some sk \<and> sk_stage sk = Authenticating")
    case False
    then have "authDone c k r g = g" by (auto simp: authDone_def split: option.split)
    then show ?thesis using g by simp
  next
    case True
    then obtain sk where sk: "js_get (gw_sockets g) k = Some sk" "sk_stage sk = Authenticating" by blast
    then have n: "sessionOf k g = None" "js_has (gw_sockets g) k" by (simp_all add: sessionOf_def)
    show ?thesis
    proof (cases r)
      case (Inl e)
      then have "authDone c k r g = rejectSocket k (authCodeName (fst e)) (snd e) (closeCodeOf (fst e), snd e) Rejected g"
        using sk by (simp add: authDone_def split: prod.split)
      then show ?thesis by (intro subsOk_same [OF g]) (auto simp: sessionOf_reject n)
    next
      case (Inr cl)
      let ?t = "cl_sessionId cl"
      let ?h = "replayEvents c ?t k (g\<lparr>gw_sessions := cmAdd ?t k (gw_sessions g), gw_heartbeat := setAdd k (gw_heartbeat g)\<rparr>)"
      let ?a = "snd (acquireChannel ?t ?h)"
      have so: "sessionOf j ?h = sessionOf j g" for j by (rule sessionOf_replay)
      have eq: "gw_sockets ?a = gw_sockets ?h" using acquire_sockets [of ?t ?h] by (metis prod.collapse)
      have sa: "sessionOf j ?a = sessionOf j g" for j using sessionOf_sockets [OF eq] so by simp
      have ka: "js_has (gw_sockets ?a) k" unfolding eq using quiet_has [OF quiet_replay] n(2) by simp
      show ?thesis
      proof (cases "gc_redisActive c")
        case True
        have "subsOk c (becomeReady c ?t k ?a)"
          by (rule subsOk_join [OF g True n(1), where sid = ?t and ?g1.0 = ?h]) (use ka in \<open>auto simp: sessionOf_ready sa\<close>)
        moreover have "subsOk c (updSocket k (\<lambda>sk. sk\<lparr>sk_stage := Acquiring ?t\<rparr>) ?a)"
          by (rule subsOk_join [OF g True n(1), where sid = ?t and ?g1.0 = ?h]) (use ka in \<open>auto simp: sessionOf_upd sa split: option.split\<close>)
        ultimately show ?thesis using sk Inr True by (simp add: authDone_def Let_def split_def)
      next
        case False
        then show ?thesis by (simp add: subsOk_def)
      qed
    qed
  qed
qed

lemma subsOk_close: "subsOk c g \<Longrightarrow> subsOk c (onClose c k g)"
proof -
  assume g: "subsOk c g"
  show ?thesis
  proof (cases "gc_redisActive c \<and> (\<exists>sk sid. js_get (gw_sockets g) k = Some sk \<and> sk_stage sk = Ready sid)")
    case False
    then show ?thesis using g
      by (auto simp: onClose_def subsOk_def [of c "Let _ _"] intro!: subsOk_same [OF g] simp: sessionOf_upd split: option.split stage.split)
         (auto simp: sessionOf_def subsOk_def split: option.splits)
  next
    case True
    then obtain sk sid where sk: "gc_redisActive c" "js_get (gw_sockets g) k = Some sk" "sk_stage sk = Ready sid" by blast
    let ?h = "dropSocket sid k (updSocket k (\<lambda>sk. sk\<lparr>sk_open := False, sk_stage := Gone\<rparr>) g)"
    have "sessionOf j (releaseChannel sid ?h) = (if j = k then None else sessionOf j g)" for j
      using sk by (simp add: sessionOf_def releaseChannel_def dropSocket_def split: option.split)
    then have "subsOk c (releaseChannel sid ?h)"
      by (intro subsOk_leave [OF g sk(1), of k sid _ ?h]) (use sk in \<open>simp_all add: sessionOf_def\<close>)
    then show ?thesis using sk by (simp add: onClose_def Let_def)
  qed
qed

lemma subs_started [simp]: "subs (startEnded c i r g) = subs g"
  by (auto simp: startEnded_def Let_def subs_fold split: option.split)

lemma subs_onEvent [simp]: "subs (onEvent c i e g) = subs g"
  by (auto simp: onEvent_def broadcastEvent_def split: option.split)

lemma gatewayStep_subs: "subsOk c g \<Longrightarrow> subsOk c (gatewayStep c e g)"
proof (cases e)
  case (Connect k token)
  assume g: "subsOk c g"
  have n: "sessionOf j (g\<lparr>gw_sockets := js_set k sk (gw_sockets g)\<rparr>) = (if j = k then sessOf (sk_stage sk) else sessionOf j g)" for j sk
    by (simp add: sessionOf_def update_conv')
  show ?thesis
  proof (cases "js_has (gw_sockets g) k")
    case True
    then show ?thesis using g by (simp add: Connect connectSocket_def)
  next
    case False
    then have "sessionOf k g = None" by (simp add: sessionOf_def)
    then show ?thesis using False unfolding Connect
      by (intro subsOk_same [OF g]) (auto simp: connectSocket_def Let_def sessionOf_reject n split: option.split)
  qed
next
  case (AcquireDone k ok)
  assume g: "subsOk c g"
  show ?thesis unfolding AcquireDone gatewayStep.simps acquireDone_def
    by (auto split: option.split stage.split intro!: subsOk_same [OF g] simp: sessionOf_ready sessionOf_reject) (auto simp: sessionOf_def)
next
  case (Frame k d)
  assume g: "subsOk c g"
  show ?thesis unfolding Frame gatewayStep.simps onFrame_def
    by (auto split: option.split stage.split intro!: subsOk_same [OF g] simp: sessionOf_quiet [OF quiet_inbound] sessionOf_upd)
       (auto simp: sessionOf_def)
next
  case (SocketError k)
  assume g: "subsOk c g"
  show ?thesis unfolding SocketError gatewayStep.simps onSocketError_def
    by (auto split: option.split stage.split intro!: subsOk_same [OF g] simp: sessionOf_def dropSocket_def subs_def)
next
  case (SetHealth k up bad)
  assume g: "subsOk c g"
  show ?thesis unfolding SetHealth by (rule subsOk_same [OF g]) (auto simp: sessionOf_def split: option.split)
next
  case (RedisMessage s m)
  assume g: "subsOk c g"
  show ?thesis unfolding RedisMessage
    by (rule subsOk_same [OF g]) (auto simp: forwardMessage_def sessionOf_quiet [OF quiet_broadcast] split: option.split)
next
  case (RunEvent i ev)
  assume g: "subsOk c g"
  show ?thesis unfolding RunEvent by (rule subsOk_same [OF g]) (simp_all add: sessionOf_quiet [OF quiet_onEvent])
next
  case (StartEnded i r)
  assume g: "subsOk c g"
  show ?thesis unfolding StartEnded by (rule subsOk_same [OF g]) (simp_all add: sessionOf_quiet [OF quiet_started])
qed (simp_all add: subsOk_auth subsOk_close)

interpretation subsM: machine "gatewayStep c" "subsOk c" for c
  by unfold_locales (rule gatewayStep_subs)

text \<open>Property C36: with Redis on, the channel of a session is subscribed exactly as long as some socket holds it, and
  its reference count is the number of those sockets; closing one of several never tears it down.  The
  sockets that hold a channel include those whose subscription failed (\<open>Leaked\<close>), which never let go.\<close>

theorem subscriptions_exact:
  assumes "gc_redisActive c" "g = runSteps (gatewayStep c) ops newGateway"
  shows "(channelOf sid \<in> set (gw_handlers g)) = (0 < card {k. sessionOf k g = Some sid}) \<and>
     (case js_get (gw_refs g) (channelOf sid) of None \<Rightarrow> 0 | Some n \<Rightarrow> n) = card {k. sessionOf k g = Some sid}"
proof -
  have "sessionOf k newGateway = None" for k by (simp add: newGateway_def sessionOf_def)
  then have "subsOk c newGateway" by (simp add: subsOk_def holderSet_def subOk_def subs_def newGateway_def)
  from subsM.run_inv [OF this, of ops] have "subOk (subs g) sid (card (holderSet sid g))"
    using assms by (simp add: subsOk_def)
  then show ?thesis by (simp add: subOk_def subs_def holderSet_def)
qed

section \<open>The echo\<close>

definition ownEnvelope :: "gatewayConfig \<Rightarrow> string \<Rightarrow> bool" where
  "ownEnvelope c m = (case parse m of Some j \<Rightarrow> getProp ''origin'' j = Some (JStr (gc_instanceId c)) | None \<Rightarrow> False)"

text \<open>An event is published in an envelope that this instance recognises as its own and drops, so
  the Redis echo of an event never reaches a socket a second time; another instance takes out the event.\<close>

theorem echo_dropped:
  assumes "\<And>v. wf_json (gc_dbj c v)"
  shows "gw_published (publishEvent c sid e g) = gw_published g @ [(channelOf sid, stringify (envelope c e))] \<and>
    forwardMessage c sid (stringify (envelope c e)) g = g \<and>
    (gc_instanceId peer \<noteq> gc_instanceId c \<longrightarrow>
      forwardMessage peer sid (stringify (envelope c e)) g = broadcastText sid (serializeChatEvent (gc_dbj c) e) g)"
proof -
  have "wf_json (eventJson (gc_dbj c) e)" using assms by (rule event_wf)
  then have "parse (stringify (envelope c e)) = Some (envelope c e)" by (intro parse_stringify) (simp add: envelope_def)
  then show ?thesis by (simp add: publishEvent_def forwardMessage_def envelope_def serializeChatEvent_def)
qed

end
