(* ===== verification/Gateway_Example.thy ===== *)
theory Gateway_Example
  imports Gateway_Channels
begin

text \<open>A session with two sockets and one run, for the witnesses of the gateway's properties.\<close>

definition exGw :: gatewayConfig where
  "exGw = \<lparr>gc_maxReplay = 200, gc_redisActive = True, gc_instanceId = ''i1'', gc_dbj = (\<lambda>_. JObj []), gc_dbm = (\<lambda>_. ''db''), gc_issues = (\<lambda>_. ''bad'')\<rparr>"

definition exClaims :: ClientTokenClaims where
  "exClaims = \<lparr>cl_sessionId = ''ses_1'', cl_agentId = ''agt_1'', cl_permissions = [''chat''], cl_exp = 9\<rparr>"

definition exMsg :: string where
  "exMsg = stringify (JObj [(''type'', JStr ''send_message''), (''content'', JStr ''hi'')])"

definition exBefore :: "gatewayOp list" where
  "exBefore = [Connect 1 (Some ''t''), AuthDone 1 (Inr exClaims), AcquireDone 1 True, Frame 1 exMsg, Connect 2 (Some ''u'')]"

definition exG0 :: gateway where
  "exG0 = runSteps (gatewayStep exGw) exBefore newGateway"



lemma parse_exMsg: "parseInboundMessage issues exMsg = Inr (SendMessage ''hi'')"
proof -
  have "parse exMsg = Some (JObj [(''type'', JStr ''send_message''), (''content'', JStr ''hi'')])"
    unfolding exMsg_def by (rule parse_stringify) simp
  then show ?thesis by (simp add: parseInboundMessage_def)
qed

lemmas gw_ex = exG0_def exBefore_def newGateway_def connectSocket_def authDone_def acquireDone_def onFrame_def acquireChannel_def
  replayEvents_def becomeReady_def gwInbound_def parse_exMsg handleSendMessage_def cmAdd_def setAdd_def updSocket_def Let_def

lemma exG0_facts: "gw_buffers exG0 = []"
  "gw_starts exG0 = [(0, \<lparr>ps_session = ''ses_1'', ps_content = ''hi'', ps_sender = 1, ps_emitted = False\<rparr>)]"
  "gw_sessions exG0 = [(''ses_1'', [1])]"
  "js_get (gw_sockets exG0) 2 = Some \<lparr>sk_open = True, sk_throws = False, sk_sent = [], sk_close = None, sk_stage = Authenticating, sk_preAuth = []\<rparr>"
  by (simp_all add: gw_ex exClaims_def exGw_def)

lemma exDbj: "wf_json (gc_dbj exGw v)"
  by (simp add: exGw_def)

theorem sessions_isolated_witness:
  "filter (names 1 ''ses_1'') exBefore \<noteq> [] \<and> distinct (getConnections ''ses_1'' exG0)"
  by (rule sessions_isolated [OF exG0_def]) (simp add: getConnections_def exG0_facts)


theorem conflict_wipes_buffer_witness:
  "js_get (gw_buffers (gatewayStep exGw (StartEnded 0 (Some (SwiftErr CONFLICT ''busy''))) exG0)) ''ses_1'' = None"
proof -
  have "js_get (gw_starts exG0) 0 = Some \<lparr>ps_session = ''ses_1'', ps_content = ''hi'', ps_sender = 1, ps_emitted = False\<rparr>"
    by (simp add: exG0_facts)
  from conflict_wipes_buffer [OF this refl] show ?thesis by simp
qed

theorem subscriptions_exact_witness:
  "(channelOf ''ses_1'' \<in> set (gw_handlers exG0)) = (0 < card {k. sessionOf k exG0 = Some ''ses_1''})"
  by (rule subscriptions_exact [OF _ exG0_def, THEN conjunct1]) (simp add: exGw_def)

theorem echo_dropped_witness:
  "forwardMessage exGw ''ses_1'' (stringify (envelope exGw (MessageStarted ''m'' ''r'' ''ses_1''))) exG0 = exG0"
  by (rule echo_dropped [THEN conjunct2, THEN conjunct1]) (rule exDbj)

end
