(* ===== verification/Chat_State.thy ===== *)
theory Chat_State
  imports Gateway_Events
begin

text \<open>The chat state of the React package (\<open>react/src/state.ts\<close>, \<open>types.ts\<close>): a reducer that folds the events of the
  server and the actions of the hook into the list of messages that is shown.\<close>

section \<open>State\<close>

datatype ConnectionStatus = Connecting | Connected | Disconnected
datatype MessageStatus = Pending | Streaming | Complete

record ToolCallInfo =
  ti_callId :: string
  ti_toolName :: string
  ti_status :: ToolCallStatus

record ChatMessage =
  cm_id :: string
  cm_role :: MessageRole
  cm_content :: string
  cm_status :: MessageStatus
  cm_toolCalls :: "ToolCallInfo list option"

datatype ChatAction = SendUser string string | ResetError | SetConnection ConnectionStatus | Server ChatEvent

record ChatState =
  cs_messages :: "ChatMessage list"
  cs_isStreaming :: bool
  cs_lastError :: "string option"
  cs_connectionStatus :: ConnectionStatus

definition initialChatState :: ChatState where
  "initialChatState = \<lparr>cs_messages = [], cs_isStreaming = False, cs_lastError = None, cs_connectionStatus = Disconnected\<rparr>"

section \<open>Reducer\<close>

definition completePending :: "ChatMessage \<Rightarrow> ChatMessage" where
  "completePending m = (if cm_role m = User \<and> cm_status m = Pending then m\<lparr>cm_status := Complete\<rparr> else m)"

definition appendToken :: "string \<Rightarrow> string \<Rightarrow> ChatMessage \<Rightarrow> ChatMessage" where
  "appendToken mid t m = (if cm_id m = mid \<and> cm_status m = Streaming then m\<lparr>cm_content := cm_content m @ t\<rparr> else m)"

definition startTool :: "string \<Rightarrow> string \<Rightarrow> ChatMessage \<Rightarrow> ChatMessage" where
  "startTool cid name m = (if cm_role m \<noteq> Assistant \<or> cm_status m \<noteq> Streaming then m
     else m\<lparr>cm_toolCalls := Some ((case cm_toolCalls m of None \<Rightarrow> [] | Some ts \<Rightarrow> ts) @
       [\<lparr>ti_callId = cid, ti_toolName = name, ti_status = TcStarted\<rparr>])\<rparr>)"

definition endTool :: "string \<Rightarrow> ToolCallStatus \<Rightarrow> ChatMessage \<Rightarrow> ChatMessage" where
  "endTool cid st m = (case cm_toolCalls m of None \<Rightarrow> m | Some ts \<Rightarrow>
     if cm_role m \<noteq> Assistant then m
     else m\<lparr>cm_toolCalls := Some (map (\<lambda>t. if ti_callId t = cid then t\<lparr>ti_status := st\<rparr> else t) ts)\<rparr>)"

definition completeId :: "string \<Rightarrow> ChatMessage \<Rightarrow> ChatMessage" where
  "completeId mid m = (if cm_id m = mid then m\<lparr>cm_status := Complete\<rparr> else m)"

definition completeStreaming :: "ChatMessage \<Rightarrow> ChatMessage" where
  "completeStreaming m = (if cm_status m = Streaming then m\<lparr>cm_status := Complete\<rparr> else m)"

definition mapMessages :: "(ChatMessage \<Rightarrow> ChatMessage) \<Rightarrow> ChatState \<Rightarrow> ChatState" where
  "mapMessages f s = s\<lparr>cs_messages := map f (cs_messages s)\<rparr>"

definition newMessage :: "string \<Rightarrow> MessageRole \<Rightarrow> string \<Rightarrow> MessageStatus \<Rightarrow> ChatMessage" where
  "newMessage i ro co st = \<lparr>cm_id = i, cm_role = ro, cm_content = co, cm_status = st, cm_toolCalls = None\<rparr>"

definition chatReducer :: "ChatState \<Rightarrow> ChatAction \<Rightarrow> ChatState" where
  "chatReducer s a = (case a of
      SendUser i content \<Rightarrow> s\<lparr>cs_isStreaming := True, cs_lastError := None,
        cs_messages := cs_messages s @ [newMessage i User content Pending]\<rparr>
    | ResetError \<Rightarrow> s\<lparr>cs_lastError := None\<rparr>
    | SetConnection st \<Rightarrow> s\<lparr>cs_connectionStatus := st\<rparr>
    | Server e \<Rightarrow> (case e of
        MessageStarted mid r sid \<Rightarrow> s\<lparr>cs_isStreaming := True,
          cs_messages := map completePending (cs_messages s) @ [newMessage mid Assistant [] Streaming]\<rparr>
      | Token r sid mid t \<Rightarrow> mapMessages (appendToken mid t) s
      | ToolCallStarted c r sid name \<Rightarrow> mapMessages (startTool c name) s
      | ToolCallCompleted c r sid name st \<Rightarrow> mapMessages (endTool c st) s
      | MessageCompleted mid r sid \<Rightarrow> (mapMessages (completeId mid) s)\<lparr>cs_isStreaming := False\<rparr>
      | RunFailed r sid code msg cause \<Rightarrow> (mapMessages completeStreaming s)\<lparr>cs_isStreaming := False,
          cs_lastError := Some (''['' @ code @ ''] '' @ msg)\<rparr>))"

definition chatAfter :: "ChatState \<Rightarrow> ChatEvent list \<Rightarrow> ChatState" where
  "chatAfter s es = foldl (\<lambda>s e. chatReducer s (Server e)) s es"

lemma chatAfter_simps [simp]: "chatAfter s [] = s" "chatAfter s (e # es) = chatAfter (chatReducer s (Server e)) es"
  "chatAfter s (es @ fs) = chatAfter (chatAfter s es) fs"
  by (simp_all add: chatAfter_def)

section \<open>What is shown\<close>

named_theorems chat_simps "field access through the reducer's message updates"

lemma completePending_simps [chat_simps]: "cm_id (completePending m) = cm_id m" "cm_role (completePending m) = cm_role m"
  "cm_content (completePending m) = cm_content m" "cm_toolCalls (completePending m) = cm_toolCalls m"
  by (simp_all add: completePending_def)

lemma appendToken_simps [chat_simps]: "cm_id (appendToken mid t m) = cm_id m" "cm_role (appendToken mid t m) = cm_role m"
  "cm_status (appendToken mid t m) = cm_status m" "cm_toolCalls (appendToken mid t m) = cm_toolCalls m"
  by (simp_all add: appendToken_def)

lemma startTool_simps [chat_simps]: "cm_id (startTool c n m) = cm_id m" "cm_role (startTool c n m) = cm_role m"
  "cm_status (startTool c n m) = cm_status m" "cm_content (startTool c n m) = cm_content m"
  by (simp_all add: startTool_def)

lemma endTool_simps [chat_simps]: "cm_id (endTool c st m) = cm_id m" "cm_role (endTool c st m) = cm_role m"
  "cm_status (endTool c st m) = cm_status m" "cm_content (endTool c st m) = cm_content m"
  by (simp_all add: endTool_def split: option.splits)

lemma completeId_simps [chat_simps]: "cm_id (completeId mid m) = cm_id m" "cm_role (completeId mid m) = cm_role m"
  "cm_content (completeId mid m) = cm_content m" "cm_toolCalls (completeId mid m) = cm_toolCalls m"
  by (simp_all add: completeId_def)

lemma completeStreaming_simps [chat_simps]: "cm_id (completeStreaming m) = cm_id m" "cm_role (completeStreaming m) = cm_role m"
  "cm_content (completeStreaming m) = cm_content m" "cm_toolCalls (completeStreaming m) = cm_toolCalls m"
  by (simp_all add: completeStreaming_def)

lemma newMessage_simps [simp]: "cm_id (newMessage i ro co st) = i" "cm_role (newMessage i ro co st) = ro"
  "cm_content (newMessage i ro co st) = co" "cm_status (newMessage i ro co st) = st" "cm_toolCalls (newMessage i ro co st) = None"
  by (simp_all add: newMessage_def)

lemma mapMessages_simps [simp]: "cs_messages (mapMessages f s) = map f (cs_messages s)"
  "cs_isStreaming (mapMessages f s) = cs_isStreaming s" "cs_lastError (mapMessages f s) = cs_lastError s"
  by (simp_all add: mapMessages_def)

text \<open>The ids of the messages that a list of events starts, and the text that it carries for one id.\<close>

definition announced :: "ChatEvent list \<Rightarrow> string list" where
  "announced es = concat (map (\<lambda>e. case e of MessageStarted m r s \<Rightarrow> [m] | _ \<Rightarrow> []) es)"

definition tokensOf :: "string \<Rightarrow> ChatEvent list \<Rightarrow> string" where
  "tokensOf mid es = concat (map (\<lambda>e. case e of Token r s m t \<Rightarrow> if m = mid then t else [] | _ \<Rightarrow> []) es)"

lemma announced_simps [simp]: "announced [] = []" "announced (MessageStarted m r s # es) = m # announced es"
  "announced (Token r s m t # es) = announced es" "announced (ToolCallStarted c r s n # es) = announced es"
  "announced (ToolCallCompleted c r s n st # es) = announced es" "announced (MessageCompleted m r s # es) = announced es"
  "announced (RunFailed r s co me ca # es) = announced es"
  by (simp_all add: announced_def)

lemma tokensOf_simps [simp]: "tokensOf i [] = []" "tokensOf i (MessageStarted m r s # es) = tokensOf i es"
  "tokensOf i (Token r s m t # es) = (if m = i then t else []) @ tokensOf i es" "tokensOf i (ToolCallStarted c r s n # es) = tokensOf i es"
  "tokensOf i (ToolCallCompleted c r s n st # es) = tokensOf i es" "tokensOf i (MessageCompleted m r s # es) = tokensOf i es"
  "tokensOf i (RunFailed r s co me ca # es) = tokensOf i es"
  by (simp_all add: tokensOf_def)

definition shownIds :: "ChatState \<Rightarrow> string list" where
  "shownIds s = map cm_id (cs_messages s)"

lemma shown_event: "shownIds (chatReducer s (Server e)) = shownIds s @ announced [e]"
  by (cases e) (simp_all add: chatReducer_def shownIds_def chat_simps o_def)

lemma shown_after: "shownIds (chatAfter s es) = shownIds s @ announced es"
proof (induction es arbitrary: s)
  case (Cons e es)
  then show ?case by (cases e) (simp_all add: shown_event)
qed simp

text \<open>A token is shown only if its id has been announced.\<close>

lemma appendToken_other: "cm_id m \<noteq> mid \<Longrightarrow> appendToken mid t m = m"
  by (simp add: appendToken_def)

definition strayTokens :: "ChatState \<Rightarrow> ChatEvent list \<Rightarrow> bool" where
  "strayTokens s es = list_all (\<lambda>e. case e of Token r sid m t \<Rightarrow> m \<notin> set (shownIds s @ announced es) | _ \<Rightarrow> True) es"

lemma strayTokens_Cons: "strayTokens s (e # es) \<Longrightarrow> strayTokens (chatReducer s (Server e)) es"
  by (cases e) (auto simp: strayTokens_def list_all_iff shown_event split: ChatEvent.splits)

lemma stray_content: "strayTokens s es \<Longrightarrow> map cm_content (cs_messages (chatAfter s es)) =
    map cm_content (cs_messages s) @ map (\<lambda>_. []) (announced es)"
proof (induction es arbitrary: s)
  case (Cons e es)
  have "map cm_content (cs_messages (chatReducer s (Server e))) = map cm_content (cs_messages s) @ map (\<lambda>_. []) (announced [e])"
    using Cons.prems by (cases e) (auto simp: chatReducer_def chat_simps o_def strayTokens_def shownIds_def appendToken_def)
  then show ?case using Cons.IH [OF strayTokens_Cons [OF Cons.prems]] by (cases e) simp_all
qed simp

section \<open>A reply whose ids agree\<close>

text \<open>Between its start and its end a message collects the tokens that carry its id.\<close>

definition midStream :: "string \<Rightarrow> ChatEvent \<Rightarrow> bool" where
  "midStream mid e = (case e of MessageStarted m r s \<Rightarrow> False | MessageCompleted m r s \<Rightarrow> m \<noteq> mid | RunFailed r s c m x \<Rightarrow> False | _ \<Rightarrow> True)"

definition replyText :: "string \<Rightarrow> ChatState \<Rightarrow> string option" where
  "replyText mid s = map_option cm_content (find (\<lambda>m. cm_id m = mid \<and> cm_status m = Streaming) (cs_messages s))"

lemma find_map_same: "(\<And>x. P (f x) = P x) \<Longrightarrow> find P (map f xs) = map_option f (find P xs)"
  by (induction xs) simp_all

lemma replyText_map:
  assumes "\<And>m. cm_id (f m) = cm_id m" "\<And>m. cm_id m = mid \<Longrightarrow> (cm_status (f m) = Streaming) = (cm_status m = Streaming)"
    and "\<And>m. cm_id m = mid \<Longrightarrow> cm_status m = Streaming \<Longrightarrow> cm_content (f m) = cm_content m @ t"
  shows "replyText mid (mapMessages f s) = map_option (\<lambda>c. c @ t) (replyText mid s)"
proof -
  let ?P = "\<lambda>m. cm_id m = mid \<and> cm_status m = Streaming"
  have "find ?P (map f (cs_messages s)) = map_option f (find ?P (cs_messages s))" by (rule find_map_same) (use assms in metis)
  moreover have "find ?P (cs_messages s) = Some m \<Longrightarrow> cm_content (f m) = cm_content m @ t" for m
    using assms(3) [of m] by (auto simp: find_Some_iff)
  ultimately show ?thesis by (cases "find ?P (cs_messages s)") (simp_all add: replyText_def)
qed

lemma map_option_append_Nil [simp]: "map_option (\<lambda>c. c @ []) x = x" "map_option (\<lambda>c. c) x = x"
  by (cases x; simp)+

lemma replyText_same: "(\<And>m. cm_id (f m) = cm_id m) \<Longrightarrow> (\<And>m. cm_id m = mid \<Longrightarrow> cm_status (f m) = cm_status m) \<Longrightarrow>
    (\<And>m. cm_id m = mid \<Longrightarrow> cm_content (f m) = cm_content m) \<Longrightarrow> replyText mid (mapMessages f s) = replyText mid s"
  using replyText_map [of f mid "[]" s] by simp

lemma replyText_frame [simp]: "replyText mid (s\<lparr>cs_isStreaming := b\<rparr>) = replyText mid s"
  by (simp add: replyText_def)

lemma replyText_event: "midStream mid e \<Longrightarrow> replyText mid (chatReducer s (Server e)) = map_option (\<lambda>c. c @ tokensOf mid [e]) (replyText mid s)"
proof (cases e)
  case (Token r sid m t)
  have "replyText mid (mapMessages (appendToken m t) s) = map_option (\<lambda>c. c @ (if m = mid then t else [])) (replyText mid s)"
    by (rule replyText_map) (auto simp: appendToken_def)
  then show ?thesis by (simp add: Token chatReducer_def)
next
  case (MessageCompleted m r sid)
  moreover assume "midStream mid e"
  ultimately have "replyText mid (mapMessages (completeId m) s) = replyText mid s" by (intro replyText_same) (auto simp: midStream_def completeId_def)
  then show ?thesis by (simp add: MessageCompleted chatReducer_def)
next
  case (ToolCallStarted c r sid n)
  have "replyText mid (mapMessages (startTool c n) s) = replyText mid s" by (rule replyText_same) (simp_all add: chat_simps)
  then show ?thesis by (simp add: ToolCallStarted chatReducer_def)
next
  case (ToolCallCompleted c r sid n st)
  have "replyText mid (mapMessages (endTool c st) s) = replyText mid s" by (rule replyText_same) (simp_all add: chat_simps)
  then show ?thesis by (simp add: ToolCallCompleted chatReducer_def)
qed (simp_all add: midStream_def)

lemma replyText_after: "list_all (midStream mid) es \<Longrightarrow> replyText mid (chatAfter s es) = map_option (\<lambda>c. c @ tokensOf mid es) (replyText mid s)"
proof (induction es arbitrary: s)
  case (Cons e es)
  then have "replyText mid (chatAfter s (e # es)) = map_option (\<lambda>c. c @ tokensOf mid es) (map_option (\<lambda>c. c @ tokensOf mid [e]) (replyText mid s))"
    by (simp add: replyText_event)
  also have "\<dots> = map_option (\<lambda>c. c @ tokensOf mid (e # es)) (replyText mid s)" by (cases e; cases "replyText mid s") simp_all
  finally show ?case .
qed (simp only: chatAfter_simps tokensOf_simps map_option_append_Nil)

text \<open>A started message is the one that streams, if no other message carries its id.\<close>

lemma find_snoc: "find P (xs @ [x]) = (case find P xs of None \<Rightarrow> if P x then Some x else None | Some y \<Rightarrow> Some y)"
  by (induction xs) simp_all

lemma find_fresh: "mid \<notin> set (map cm_id ms) \<Longrightarrow> find (\<lambda>m. cm_id m = mid \<and> Q m) ms = None" "mid \<notin> set (map cm_id ms) \<Longrightarrow> find (\<lambda>m. cm_id m = mid) ms = None"
  by (auto simp: find_None_iff)

lemma replyText_started:
  assumes "mid \<notin> set (shownIds s)"
  shows "replyText mid (chatReducer s (Server (MessageStarted mid r sid))) = Some []"
proof -
  have "mid \<notin> set (map cm_id (map completePending (cs_messages s)))" using assms by (simp add: shownIds_def chat_simps o_def)
  from find_fresh(1) [OF this] show ?thesis by (simp add: replyText_def chatReducer_def find_snoc)
qed

lemma completed_shown:
  assumes "replyText mid s = Some c" "shownIds s = xs @ [mid]" "mid \<notin> set xs"
  shows "map_option (\<lambda>m. (cm_content m, cm_status m)) (find (\<lambda>m. cm_id m = mid) (cs_messages (chatReducer s (Server (MessageCompleted mid r sid)))))
    = Some (c, Complete)"
proof -
  obtain ms m where m: "cs_messages s = ms @ [m]" "cm_id m = mid" "map cm_id ms = xs"
    using assms(2) by (auto simp: shownIds_def map_eq_append_conv)
  have n: "mid \<notin> set (map cm_id ms)" "mid \<notin> set (map cm_id (map (completeId mid) ms))" using m(3) assms(3) by (auto simp: chat_simps)
  have "cm_content m = c" using assms(1) find_fresh(1) [OF n(1)] by (simp add: replyText_def m(1,2) find_snoc split: if_splits)
  then show ?thesis using find_fresh(2) [OF n(2)] m(2) by (simp add: chatReducer_def m(1) find_snoc completeId_def)
qed

lemma announced_midStream: "list_all (midStream mid) es \<Longrightarrow> announced es = []"
  by (induction es) (auto simp: midStream_def announced_def split: ChatEvent.splits)

text \<open>Property C37: a reply whose events agree on one message id, which no shown message has, is shown complete:
  the message's content is the concatenation of its tokens, whatever tool events and foreign tokens are
  interleaved, and the state is no longer streaming.\<close>

theorem reply_rendered:
  assumes "mid \<notin> set (shownIds s)" "list_all (midStream mid) es"
  shows "let t = chatAfter s (MessageStarted mid r sid # es @ [MessageCompleted mid r sid]) in
     map_option (\<lambda>m. (cm_content m, cm_status m)) (find (\<lambda>m. cm_id m = mid) (cs_messages t)) = Some (tokensOf mid es, Complete) \<and>
     shownIds t = shownIds s @ [mid] \<and> \<not> cs_isStreaming t"
proof -
  define u where "u = chatAfter (chatReducer s (Server (MessageStarted mid r sid))) es"
  have "replyText mid u = Some (tokensOf mid es)" unfolding u_def using replyText_after [OF assms(2)] replyText_started [OF assms(1)] by simp
  moreover have "shownIds u = shownIds s @ [mid]" unfolding u_def using announced_midStream [OF assms(2)] by (simp add: shown_after shown_event)
  ultimately show ?thesis using completed_shown [of mid u "tokensOf mid es" "shownIds s"] assms(1)
    by (simp add: Let_def u_def [symmetric] shown_event) (simp add: chatReducer_def)
qed

theorem reply_rendered_witness:
  "map_option cm_content (find (\<lambda>m. cm_id m = ''a'') (cs_messages (chatAfter (chatReducer initialChatState (SendUser ''u'' ''hi''))
     [MessageStarted ''a'' ''r'' ''s'', Token ''r'' ''s'' ''a'' ''he'', ToolCallStarted ''c'' ''r'' ''s'' ''t'', Token ''r'' ''s'' ''b'' ''no'',
      Token ''r'' ''s'' ''a'' ''llo'', MessageCompleted ''a'' ''r'' ''s'']))) = Some ''hello''"
proof -
  let ?es = "[Token ''r'' ''s'' ''a'' ''he'', ToolCallStarted ''c'' ''r'' ''s'' ''t'', Token ''r'' ''s'' ''b'' ''no'', Token ''r'' ''s'' ''a'' ''llo'']"
  have n: "''a'' \<notin> set (shownIds (chatReducer initialChatState (SendUser ''u'' ''hi'')))" "list_all (midStream ''a'') ?es"
    by (simp_all add: initialChatState_def chatReducer_def shownIds_def midStream_def)
  have t: "tokensOf ''a'' ?es = ''hello''" by simp
  show ?thesis using reply_rendered [OF n, of "''r''" "''s''"] unfolding t by (auto simp: Let_def simp del: chatAfter_simps)
qed

end
