(* ===== verification/React_Client.thy ===== *)
theory React_Client
  imports Chat_State Machine Gateway
begin

text \<open>The chat session client of the React package (\<open>react/src/client.ts\<close>) and what the hook makes of its events
  (\<open>hooks/use-agent-chat.ts\<close>).

  The client is a machine: its operations are the callbacks of the WebSocket and of the reconnect timer
  and the calls of its methods.  \<open>cc_ws\<close> is the current socket with its \<open>readyState\<close>, \<open>cc_timer\<close> the pending timer
  with its delay, \<open>cc_sent\<close> what was handed to a socket, \<open>cc_delivered\<close> and \<open>cc_statusCalls\<close> the calls of the
  registered handlers, \<open>cc_errors\<close> the calls of \<open>onError\<close> (a closing error by its code and the close event; the
  English sentence around them is left out).  The callbacks of an abandoned socket never run, since
  \<open>disconnect\<close> removes them.  The \<open>URL\<close> class is a parameter.\<close>

section \<open>Construction\<close>

record urlApi =
  ua_hasToken :: bool
  ua_withToken :: "string \<Rightarrow> string"
  ua_toString :: string

definition resolveConnectionUrl :: "(string \<Rightarrow> urlApi option) \<Rightarrow> string option \<Rightarrow> string \<Rightarrow> js_error + string" where
  "resolveConnectionUrl newUrl websocketUrl token = (case websocketUrl of
      None \<Rightarrow> Inl (PlainErr ''createChatSession requires a websocketUrl (the value returned by POST /v1/sessions)'')
    | Some w \<Rightarrow> if w = [] then Inl (PlainErr ''createChatSession requires a websocketUrl (the value returned by POST /v1/sessions)'')
        else (case newUrl w of
            None \<Rightarrow> Inl (PlainErr (''createChatSession received an invalid websocketUrl: '' @ w))
          | Some u \<Rightarrow> if ua_hasToken u then Inr w else if token \<noteq> [] then Inr (ua_withToken u token) else Inr (ua_toString u)))"

datatype WsState = WsConnecting | WsOpen | WsClosing
datatype ClientError = FrameError | CloseError SwiftAgentErrorCode nat string

record ReconnectOptions =
  rc_maxRetries :: nat
  rc_baseDelayMs :: nat

definition defaultReconnect :: ReconnectOptions where
  "defaultReconnect = \<lparr>rc_maxRetries = 5, rc_baseDelayMs = 1000\<rparr>"

record chatClient =
  cc_ws :: "WsState option"
  cc_status :: ConnectionStatus
  cc_retryCount :: nat
  cc_timer :: "nat option"
  cc_intentional :: bool
  cc_queue :: "string list"
  cc_eventHandlers :: "nat list"
  cc_statusHandlers :: "nat list"
  cc_sockets :: nat
  cc_sent :: "string list"
  cc_delivered :: "(nat \<times> json) list"
  cc_statusCalls :: "(nat \<times> ConnectionStatus) list"
  cc_errors :: "ClientError list"

section \<open>Connection\<close>

definition setStatus :: "ConnectionStatus \<Rightarrow> chatClient \<Rightarrow> chatClient" where
  "setStatus st c = c\<lparr>cc_status := st, cc_statusCalls := cc_statusCalls c @ map (\<lambda>h. (h, st)) (cc_statusHandlers c)\<rparr>"

definition connect :: "chatClient \<Rightarrow> chatClient" where
  "connect c = (if cc_intentional c then c
     else (setStatus Connecting c)\<lparr>cc_ws := Some WsConnecting, cc_sockets := Suc (cc_sockets c)\<rparr>)"

definition flushMessages :: "chatClient \<Rightarrow> chatClient" where
  "flushMessages c = (if cc_ws c = Some WsOpen
     then c\<lparr>cc_sent := cc_sent c @ filter (\<lambda>m. m \<noteq> []) (cc_queue c), cc_queue := []\<rparr> else c)"

definition wsOnOpen :: "chatClient \<Rightarrow> chatClient" where
  "wsOnOpen c = (if cc_ws c = Some WsConnecting then flushMessages ((setStatus Connected (c\<lparr>cc_ws := Some WsOpen\<rparr>))\<lparr>cc_retryCount := 0\<rparr>) else c)"

definition wsOnMessage :: "string \<Rightarrow> chatClient \<Rightarrow> chatClient" where
  "wsOnMessage data c = (if cc_ws c = None \<or> cc_ws c = Some WsConnecting then c
     else (case parse data of
         Some j \<Rightarrow> if ChatEventSchema j then c\<lparr>cc_delivered := cc_delivered c @ map (\<lambda>h. (h, j)) (cc_eventHandlers c)\<rparr>
           else c\<lparr>cc_errors := cc_errors c @ [FrameError]\<rparr>
       | None \<Rightarrow> c\<lparr>cc_errors := cc_errors c @ [FrameError]\<rparr>))"

definition emitCloseError :: "nat \<Rightarrow> string \<Rightarrow> chatClient \<Rightarrow> chatClient" where
  "emitCloseError code reason c =
     c\<lparr>cc_errors := cc_errors c @ [CloseError (if code = 4001 then UNAUTHORIZED else CONNECTION_ERROR) code reason]\<rparr>"

definition scheduleReconnect :: "ReconnectOptions \<Rightarrow> chatClient \<Rightarrow> chatClient" where
  "scheduleReconnect opts c = (if cc_retryCount c \<ge> rc_maxRetries opts \<or> cc_intentional c then c
     else c\<lparr>cc_timer := Some (rc_baseDelayMs opts * 2 ^ cc_retryCount c), cc_retryCount := Suc (cc_retryCount c)\<rparr>)"

definition wsOnClose :: "ReconnectOptions \<Rightarrow> nat \<Rightarrow> string \<Rightarrow> chatClient \<Rightarrow> chatClient" where
  "wsOnClose opts code reason c = (if cc_ws c = None then c
     else let c1 = setStatus Disconnected (c\<lparr>cc_ws := None\<rparr>) in
       if cc_intentional c1 then c1
       else scheduleReconnect opts (if code \<noteq> 1000 then emitCloseError code reason c1 else c1))"

definition timerFired :: "chatClient \<Rightarrow> chatClient" where
  "timerFired c = (case cc_timer c of None \<Rightarrow> c | Some d \<Rightarrow> connect (c\<lparr>cc_timer := None\<rparr>))"

definition sendPayload :: "string \<Rightarrow> string" where
  "sendPayload content = stringify (JObj [(''type'', JStr ''send_message''), (''content'', JStr content)])"

definition clientSend :: "string \<Rightarrow> chatClient \<Rightarrow> chatClient" where
  "clientSend content c = (if cc_ws c = Some WsOpen then c\<lparr>cc_sent := cc_sent c @ [sendPayload content]\<rparr>
     else c\<lparr>cc_queue := cc_queue c @ [sendPayload content]\<rparr>)"

definition disconnectClient :: "chatClient \<Rightarrow> chatClient" where
  "disconnectClient c = setStatus Disconnected (c\<lparr>cc_intentional := True, cc_timer := None, cc_ws := None\<rparr>)"

definition newClient :: chatClient where
  "newClient = connect \<lparr>cc_ws = None, cc_status = Disconnected, cc_retryCount = 0, cc_timer = None, cc_intentional = False, cc_queue = [],
     cc_eventHandlers = [], cc_statusHandlers = [], cc_sockets = 0, cc_sent = [], cc_delivered = [], cc_statusCalls = [], cc_errors = []\<rparr>"

definition createChatSession :: "(string \<Rightarrow> urlApi option) \<Rightarrow> string option \<Rightarrow> string option \<Rightarrow> string \<Rightarrow> js_error + (string \<times> chatClient)" where
  "createChatSession newUrl serverVersion websocketUrl token =
     (case assertProtocolCompatible serverVersion SDK_MIN_SERVER_PROTOCOL API_PROTOCOL_VERSION of
        Some e \<Rightarrow> Inl e
      | None \<Rightarrow> (case resolveConnectionUrl newUrl websocketUrl token of Inl e \<Rightarrow> Inl e | Inr url \<Rightarrow> Inr (url, newClient)))"

section \<open>The machine\<close>

datatype clientOp = WsOpened | WsMessage string | WsClosingNow | WsClosed nat string | TimerFires
  | CallSend string | CallDisconnect | OnEvent nat | OffEvent nat | OnStatus nat | OffStatus nat

fun clientStep :: "ReconnectOptions \<Rightarrow> clientOp \<Rightarrow> chatClient \<Rightarrow> chatClient" where
  "clientStep opts WsOpened c = wsOnOpen c"
| "clientStep opts (WsMessage data) c = wsOnMessage data c"
| "clientStep opts WsClosingNow c = (if cc_ws c = None then c else c\<lparr>cc_ws := Some WsClosing\<rparr>)"
| "clientStep opts (WsClosed code reason) c = wsOnClose opts code reason c"
| "clientStep opts TimerFires c = timerFired c"
| "clientStep opts (CallSend content) c = clientSend content c"
| "clientStep opts CallDisconnect c = disconnectClient c"
| "clientStep opts (OnEvent h) c = c\<lparr>cc_eventHandlers := setAdd h (cc_eventHandlers c)\<rparr>"
| "clientStep opts (OffEvent h) c = c\<lparr>cc_eventHandlers := setDelete h (cc_eventHandlers c)\<rparr>"
| "clientStep opts (OnStatus h) c = c\<lparr>cc_statusHandlers := setAdd h (cc_statusHandlers c)\<rparr>"
| "clientStep opts (OffStatus h) c = c\<lparr>cc_statusHandlers := setDelete h (cc_statusHandlers c)\<rparr>"

lemmas client_defs = wsOnOpen_def wsOnMessage_def wsOnClose_def timerFired_def clientSend_def disconnectClient_def connect_def
  flushMessages_def setStatus_def scheduleReconnect_def emitCloseError_def Let_def

section \<open>Outgoing messages keep their order\<close>

definition contentsOf :: "clientOp list \<Rightarrow> string list" where
  "contentsOf ops = concat (map (\<lambda>p. case p of CallSend x \<Rightarrow> [x] | _ \<Rightarrow> []) ops)"

definition queueOk :: "chatClient \<Rightarrow> bool" where
  "queueOk c = ((cc_ws c = Some WsOpen \<longrightarrow> cc_queue c = []) \<and> [] \<notin> set (cc_queue c))"

lemma sendPayload_ne [simp]: "sendPayload x \<noteq> []" "[] \<noteq> sendPayload x"
  by (simp_all add: sendPayload_def)

interpretation queueI: machine "clientStep opts" queueOk for opts :: ReconnectOptions
proof unfold_locales
  fix c :: chatClient and p
  assume "queueOk c"
  then show "queueOk (clientStep opts p c)" by (cases p) (auto simp: queueOk_def client_defs split: option.splits)
qed

lemma filter_nonempty: "[] \<notin> set xs \<Longrightarrow> filter (\<lambda>m. m \<noteq> []) xs = xs"
  by (induction xs) auto

lemma step_outgoing: "queueOk c \<Longrightarrow> cc_sent (clientStep opts p c) @ cc_queue (clientStep opts p c) =
    cc_sent c @ cc_queue c @ map sendPayload (contentsOf [p])"
  by (cases p) (auto simp: queueOk_def client_defs contentsOf_def filter_nonempty split: option.splits)

lemma run_outgoing: "queueOk c \<Longrightarrow> cc_sent (runSteps (clientStep opts) ops c) @ cc_queue (runSteps (clientStep opts) ops c) =
    cc_sent c @ cc_queue c @ map sendPayload (contentsOf ops)"
proof (induction ops arbitrary: c)
  case (Cons p ops)
  then show ?case using step_outgoing [OF Cons.prems, of opts p] queueI.step_inv [OF Cons.prems, of opts p] by (simp add: contentsOf_def)
qed (simp add: contentsOf_def)

lemma queueOk_new: "queueOk newClient" "cc_sent newClient = []" "cc_queue newClient = []"
  by (simp_all add: queueOk_def newClient_def client_defs)

text \<open>Whatever the connection does, a message given to \<open>sendMessage\<close> is neither lost, duplicated nor
  overtaken on the client's side: what was handed to sockets followed by what is still queued are the
  payloads of all calls in their order, and nothing stays queued while the socket is open.\<close>

theorem client_sends_in_order:
  "let c = runSteps (clientStep opts) ops newClient in
     cc_sent c @ cc_queue c = map sendPayload (contentsOf ops) \<and> (case cc_ws c of Some WsOpen \<Rightarrow> cc_queue c = [] | _ \<Rightarrow> True)"
proof -
  have "queueOk (runSteps (clientStep opts) ops newClient)" by (rule queueI.run_inv) (rule queueOk_new)
  then show ?thesis using run_outgoing [OF queueOk_new(1), of opts ops] by (simp add: Let_def queueOk_new queueOk_def split: option.splits WsState.splits)
qed

section \<open>Reconnection\<close>

definition attemptsLeft :: "ReconnectOptions \<Rightarrow> chatClient \<Rightarrow> nat" where
  "attemptsLeft opts c = (rc_maxRetries opts - cc_retryCount c) + (case cc_timer c of None \<Rightarrow> 0 | Some d \<Rightarrow> 1)"

definition opensOf :: "clientOp list \<Rightarrow> nat" where
  "opensOf ops = length (filter (\<lambda>p. p = WsOpened) ops)"

definition timerOk :: "ReconnectOptions \<Rightarrow> chatClient \<Rightarrow> bool" where
  "timerOk opts c = (cc_retryCount c \<le> rc_maxRetries opts \<and> (cc_timer c \<noteq> None \<longrightarrow> cc_ws c = None) \<and>
     (cc_intentional c \<longrightarrow> cc_timer c = None \<and> cc_ws c = None))"

interpretation timerI: machine "clientStep opts" "timerOk opts" for opts :: ReconnectOptions
proof unfold_locales
  fix c :: chatClient and p
  assume "timerOk opts c"
  then show "timerOk opts (clientStep opts p c)" by (cases p) (auto simp: timerOk_def client_defs split: option.splits)
qed

lemma step_attempts: "timerOk opts c \<Longrightarrow> cc_sockets (clientStep opts p c) + attemptsLeft opts (clientStep opts p c) \<le>
    cc_sockets c + attemptsLeft opts c + rc_maxRetries opts * opensOf [p]"
  by (cases p) (auto simp: timerOk_def attemptsLeft_def client_defs opensOf_def split: option.splits)

lemma run_attempts: "timerOk opts c \<Longrightarrow> cc_sockets (runSteps (clientStep opts) ops c) + attemptsLeft opts (runSteps (clientStep opts) ops c) \<le>
    cc_sockets c + attemptsLeft opts c + rc_maxRetries opts * opensOf ops"
proof (induction ops arbitrary: c)
  case (Cons p ops)
  have "opensOf (p # ops) = opensOf [p] + opensOf ops" by (simp add: opensOf_def)
  then show ?case using Cons.IH [OF timerI.step_inv [OF Cons.prems, of p]] step_attempts [OF Cons.prems, of p]
    by (simp add: algebra_simps)
qed (simp add: opensOf_def)

lemma new_attempts: "timerOk opts newClient" "cc_sockets newClient = 1" "attemptsLeft opts newClient = rc_maxRetries opts"
  by (simp_all add: timerOk_def newClient_def attemptsLeft_def client_defs)

text \<open>Reconnection is bounded.  The client opens one socket, and at most \<open>maxRetries\<close> more for the first
  connection and for every time a socket has opened; after \<open>disconnect\<close> neither a socket nor a timer is left.\<close>

theorem reconnects_bounded:
  "let c = runSteps (clientStep opts) ops newClient in
     cc_sockets c \<le> 1 + rc_maxRetries opts * (1 + opensOf ops) \<and>
     (if cc_intentional c then cc_ws c = None \<and> cc_timer c = None else True)"
proof -
  have "timerOk opts (runSteps (clientStep opts) ops newClient)" by (rule timerI.run_inv) (rule new_attempts)
  then show ?thesis using run_attempts [OF new_attempts(1), of opts ops] by (simp add: Let_def new_attempts timerOk_def)
qed

text \<open>A server that accepts the handshake and then closes the socket, as the gateway does with a token that it
  rejects.\<close>

definition rejectCycle :: "nat \<Rightarrow> string \<Rightarrow> clientOp list" where
  "rejectCycle code reason = [WsOpened, WsClosed code reason, TimerFires]"

definition freshSocket :: "chatClient \<Rightarrow> bool" where
  "freshSocket c = (cc_ws c = Some WsConnecting \<and> \<not> cc_intentional c)"

lemma reject_once: "0 < rc_maxRetries opts \<Longrightarrow> freshSocket c \<Longrightarrow> freshSocket (runSteps (clientStep opts) (rejectCycle code reason) c) \<and>
    cc_sockets (runSteps (clientStep opts) (rejectCycle code reason) c) = Suc (cc_sockets c)"
  by (simp add: rejectCycle_def freshSocket_def client_defs)

lemma reject_many: "0 < rc_maxRetries opts \<Longrightarrow> freshSocket c \<Longrightarrow>
    freshSocket (runSteps (clientStep opts) (concat (replicate n (rejectCycle code reason))) c) \<and>
    cc_sockets (runSteps (clientStep opts) (concat (replicate n (rejectCycle code reason))) c) = cc_sockets c + n"
proof (induction n arbitrary: c)
  case (Suc n)
  then show ?case using reject_once [OF Suc.prems, of code reason] by (simp del: runSteps_simps(2))
qed simp

text \<open>The retry limit does not stop a client whose token is refused: the handshake resets the retry
  count, so a server that accepts the socket and closes it with any code (4001 for an expired token) is
  asked again without end, with the same token.\<close>

theorem rejected_client_retries_forever:
  assumes "0 < rc_maxRetries opts"
  shows "cc_sockets (runSteps (clientStep opts) (concat (replicate n (rejectCycle code reason))) newClient) = Suc n"
proof -
  have "freshSocket newClient" by (simp add: freshSocket_def newClient_def client_defs)
  from reject_many [OF assms this] show ?thesis by (simp add: new_attempts)
qed

theorem rejected_client_retries_forever_witness:
  "cc_sockets (runSteps (clientStep defaultReconnect) (concat (replicate 100 (rejectCycle 4001 ''Token has expired''))) newClient) = 101"
  using rejected_client_retries_forever [of defaultReconnect 100 4001 "''Token has expired''"] by (simp add: defaultReconnect_def)

section \<open>From the gateway's frames to the screen\<close>

text \<open>A frame as the reducer reads it; the cause of a failure is not used by it.\<close>

definition toChatEvent :: "json \<Rightarrow> ChatEvent" where
  "toChatEvent j = (let f = (\<lambda>k. strOf (getProp k j)) in
     if f ''type'' = ''message_started'' then MessageStarted (f ''messageId'') (f ''runId'') (f ''sessionId'')
     else if f ''type'' = ''token'' then Token (f ''runId'') (f ''sessionId'') (f ''messageId'') (f ''text'')
     else if f ''type'' = ''tool_call_started'' then ToolCallStarted (f ''callId'') (f ''runId'') (f ''sessionId'') (f ''toolName'')
     else if f ''type'' = ''tool_call_completed'' then ToolCallCompleted (f ''callId'') (f ''runId'') (f ''sessionId'') (f ''toolName'')
       (if f ''status'' = ''completed'' then TcCompleted else if f ''status'' = ''failed'' then TcFailed else TcStarted)
     else if f ''type'' = ''message_completed'' then MessageCompleted (f ''messageId'') (f ''runId'') (f ''sessionId'')
     else RunFailed (f ''runId'') (f ''sessionId'') (f ''code'') (f ''message'') None)"

lemma toChatEvent_eventJson: "toChatEvent (eventJson dbj e) = dropCause e"
  by (cases e) (auto simp: toChatEvent_def eventJson_def dropCause_def strOf_def statusText_def Let_def split: ToolCallStatus.splits option.splits)

lemma reducer_dropCause: "chatReducer s (Server (dropCause e)) = chatReducer s (Server e)"
  by (cases e) (simp_all add: dropCause_def chatReducer_def)

text \<open>The hook dispatches every event that its handler gets.\<close>

definition hookState :: "nat \<Rightarrow> (nat \<times> json) list \<Rightarrow> ChatState \<Rightarrow> ChatState" where
  "hookState h calls s = chatAfter s (map (toChatEvent \<circ> snd) (filter (\<lambda>(k, j). k = h) calls))"

lemma hookState_simps [simp]: "hookState h [] s = s" "hookState h (xs @ ys) s = hookState h ys (hookState h xs s)"
  by (simp_all add: hookState_def)

lemma filter_handler: "distinct hs \<Longrightarrow> h \<in> set hs \<Longrightarrow> filter (\<lambda>(k, j). k = h) (map (\<lambda>h. (h, x)) hs) = [(h, x)]"
  by (induction hs) (auto simp: filter_empty_conv)

definition subscribed :: "nat \<Rightarrow> chatClient \<Rightarrow> bool" where
  "subscribed h c = ((cc_ws c = Some WsOpen \<or> cc_ws c = Some WsClosing) \<and> distinct (cc_eventHandlers c) \<and> h \<in> set (cc_eventHandlers c))"

lemma frame_delivered:
  assumes "\<And>v. wf_json (dbj v)" "subscribed h c"
  shows "clientStep opts (WsMessage (serializeChatEvent dbj e)) c = c\<lparr>cc_delivered := cc_delivered c @ map (\<lambda>h. (h, eventJson dbj e)) (cc_eventHandlers c)\<rparr>"
  using assms(2) parse_event [of dbj e, OF assms(1)] by (auto simp: wsOnMessage_def event_accepted subscribed_def)

lemma frames_delivered:
  assumes "\<And>v. wf_json (dbj v)" "subscribed h c"
  shows "\<exists>ds. runSteps (clientStep opts) (map (\<lambda>e. WsMessage (serializeChatEvent dbj e)) es) c = c\<lparr>cc_delivered := cc_delivered c @ ds\<rparr> \<and>
    hookState h ds s = chatAfter s es"
  using assms(2)
proof (induction es arbitrary: c s)
  case Nil
  have "c = c\<lparr>cc_delivered := cc_delivered c @ []\<rparr>" by simp
  then show ?case by (intro exI [of _ "[]"]) simp
next
  case (Cons e es)
  define d where "d = map (\<lambda>h. (h, eventJson dbj e)) (cc_eventHandlers c)"
  have h: "hookState h d s = chatReducer s (Server e)"
    using Cons.prems by (simp add: hookState_def d_def filter_handler subscribed_def toChatEvent_eventJson reducer_dropCause)
  have "subscribed h (c\<lparr>cc_delivered := cc_delivered c @ d\<rparr>)" using Cons.prems by (simp add: subscribed_def)
  from Cons.IH [OF this, of "chatReducer s (Server e)"] obtain ds where
    "runSteps (clientStep opts) (map (\<lambda>e. WsMessage (serializeChatEvent dbj e)) es) (c\<lparr>cc_delivered := cc_delivered c @ d\<rparr>) = c\<lparr>cc_delivered := cc_delivered c @ d @ ds\<rparr>"
    "hookState h ds (chatReducer s (Server e)) = chatAfter s (e # es)" by (auto simp: o_def)
  then show ?case using frame_delivered [where dbj = dbj, OF assms(1) Cons.prems, where opts = opts and e = e] by (intro exI [of _ "d @ ds"]) (simp add: d_def [symmetric] h)
qed

text \<open>Property C39: what the gateway sends is what the browser shows.  The frames that it serializes for a list of
  events reach every subscribed handler of a connected client, all and in order, and folding what one
  handler got through the reducer gives the state that the events themselves give.\<close>

theorem frames_reach_screen:
  assumes "\<And>v. wf_json (dbj v)" "subscribed h c" "cc_delivered c = []"
  shows "hookState h (cc_delivered (runSteps (clientStep opts) (map (\<lambda>e. WsMessage (serializeChatEvent dbj e)) es) c)) s = chatAfter s es"
  using frames_delivered [where dbj = dbj, OF assms(1,2), where opts = opts and es = es and s = s] assms(3) by (auto simp: o_def)

theorem frames_reach_screen_witness:
  "hookState 7 (cc_delivered (runSteps (clientStep defaultReconnect)
      (map (\<lambda>e. WsMessage (serializeChatEvent (\<lambda>_. JNull) e)) [MessageStarted ''m'' ''r'' ''s'', Token ''r'' ''s'' ''m'' ''hi'', MessageCompleted ''m'' ''r'' ''s''])
      (runSteps (clientStep defaultReconnect) [OnEvent 7, WsOpened] newClient))) initialChatState =
   \<lparr>cs_messages = [\<lparr>cm_id = ''m'', cm_role = Assistant, cm_content = ''hi'', cm_status = Complete, cm_toolCalls = None\<rparr>],
     cs_isStreaming = False, cs_lastError = None, cs_connectionStatus = Disconnected\<rparr>"
proof -
  let ?c = "runSteps (clientStep defaultReconnect) [OnEvent 7, WsOpened] newClient"
  have c: "subscribed 7 ?c" "cc_delivered ?c = []" by (simp_all add: subscribed_def newClient_def client_defs setAdd_def)
  have "hookState 7 (cc_delivered (runSteps (clientStep defaultReconnect) (map (\<lambda>e. WsMessage (serializeChatEvent (\<lambda>_. JNull) e)) es) ?c)) s = chatAfter s es" for es s
    by (rule frames_reach_screen [OF _ c]) simp
  note d = this
  show ?thesis unfolding d
    by (simp add: chatReducer_def initialChatState_def newMessage_def mapMessages_def appendToken_def completeId_def del: runSteps_simps)
qed

end
