(* ===== verification/Chat_Run.thy ===== *)
theory Chat_Run
  imports Chat_State Loop_Ends Loop_Example
begin

text \<open>A run of the agent loop as the chat state shows it: the message ids in the events of \<open>runtime/src/loop.ts\<close> against
  the reducer of \<open>react/src/state.ts\<close>.\<close>

section \<open>The message ids of a run\<close>

text \<open>\<open>message_started\<close> carries the id of the user's message, tokens and \<open>message_completed\<close> carry the id that was
  generated for the reply.\<close>

definition replyId :: "loop_env \<Rightarrow> string \<Rightarrow> bool" where
  "replyId env m = (\<exists>i. m = generateMessageId (le_nano env) i)"

definition idsOf :: "loop_env \<Rightarrow> string \<Rightarrow> ChatEvent \<Rightarrow> bool" where
  "idsOf env um e = (case e of MessageStarted m r s \<Rightarrow> m = um | Token r s m t \<Rightarrow> replyId env m | MessageCompleted m r s \<Rightarrow> replyId env m
     | _ \<Rightarrow> True)"

lemma replyId_gen [simp]: "replyId env (generateMessageId (le_nano env) i)"
  by (auto simp: replyId_def)

definition idsKept :: "loop_env \<Rightarrow> string \<Rightarrow> loop_state \<Rightarrow> loop_state \<Rightarrow> bool" where
  "idsKept env um s t = (list_all (idsOf env um) (ls_events s) \<longrightarrow> list_all (idsOf env um) (ls_events t))"

interpretation idsI: loop_relation "idsKept env um" env "idsOf env um" for env um
  by unfold_locales (auto simp: idsKept_def)

interpretation idsI: loop_stream "idsKept env um" env "idsOf env um" "generateMessageId (le_nano env) i" for env um i
  by unfold_locales (auto simp: idsKept_def idsOf_def)

lemma ids_dbq [intro!]: "keeps (idsKept env um) (dbq env q)"
  by (rule idsI.q_dbq) (simp add: idsKept_def)

lemma ids_newId: "(\<And>i. keeps (idsKept env um) (f (generateMessageId (le_nano env) i))) \<Longrightarrow> keeps (idsKept env um) (mbind (newId env generateMessageId) f)"
proof (unfold keeps_def, intro allI)
  fix s
  assume a: "\<And>i. \<forall>s. idsKept env um s (snd (f (generateMessageId (le_nano env) i) s))"
  show "idsKept env um s (snd (mbind (newId env generateMessageId) f s))"
    using a [of "ls_ids s"] by (simp add: mbind_def newId_def idsKept_def)
qed

lemma ids_failed: "idsOf env um (RunFailed a b c d x)"
  by (simp add: idsOf_def)

lemma ids_finishRun: "keeps (idsKept env um) (finishRun env (generateMessageId (le_nano env) i))"
  unfolding finishRun_def finishMaxIterations_def finishCompleted_def
  by (auto intro!: idsI.keeps_modify idsI.k_emit simp: idsOf_def idsKept_def)

lemma ids_startRun: "keeps (idsKept env um) (startRun env um)"
  unfolding startRun_def whenM_def by (auto intro!: idsI.k_emit idsI.K_message simp: idsOf_def)

lemma ids_tryBody: "keeps (idsKept env um) (tryBody env um)"
  unfolding tryBody_def
  by (intro idsI.keeps_mthen ids_startRun ids_newId idsI.keeps_mbind idsI.keeps_gets idsI.k_modelRounds ids_finishRun)

lemma ids_onError: "keeps (idsKept env um) (onError env e)"
  unfolding onError_def Let_def
  by (auto intro!: idsI.keeps_modify idsI.k_emit ids_failed split: prod.splits terminalCause.splits simp: idsKept_def)

lemma ids_finalizer: "keeps (idsKept env um) (finalizer env)"
proof (unfold keeps_def, intro allI)
  fix s
  obtain r t where f: "finalizer env s = (r, t)" by fastforce
  from wpD [OF finalizer_quiet f] have "ls_events t = ls_events s" by (auto dest: quietEndD)
  then show "idsKept env um s (snd (finalizer env s))" by (simp add: f idsKept_def)
qed

lemma ids_run:
  assumes "le_prepared env = Some um"
  shows "list_all (idsOf env um) (ls_events (snd (runAgentLoop env (initState clk ids d reg))))"
proof -
  have r: "runAgentLoop env = tryFinally (tryCatch (tryBody env um) (onError env)) (finalizer env)"
    by (simp add: runAgentLoop_def assms mbind_def ret_def)
  have "keeps (idsKept env um) (runAgentLoop env)" unfolding r
    by (intro idsI.keeps_tryFinally idsI.keeps_tryCatch ids_tryBody ids_onError ids_finalizer)
  then show ?thesis by (auto simp: keeps_def idsKept_def initState_def)
qed

section \<open>What the user sees\<close>

lemma announced_ids: "list_all (idsOf env um) es \<Longrightarrow> set (announced es) \<subseteq> {um}"
  by (induction es) (auto simp: idsOf_def announced_def split: ChatEvent.splits)

lemma ids_stray:
  assumes "list_all (idsOf env um) es" "\<not> replyId env um" "\<And>m. m \<in> set (shownIds s) \<Longrightarrow> \<not> replyId env m"
  shows "strayTokens s es"
  using assms announced_ids [OF assms(1)] unfolding strayTokens_def list_all_iff
  by (fastforce simp: idsOf_def split: ChatEvent.splits)

text \<open>Property C38: the reply of a run is never shown.  The run announces its message under the id of the user's
  message, which the service has prepared, but sends the tokens under a fresh id; the reducer drops them.
  Whatever the run streams, every message it adds to the chat is empty.\<close>

theorem reply_never_shown:
  assumes "le_prepared env = Some um" "\<forall>i. generateMessageId (le_nano env) i \<notin> set (um # shownIds s)"
  shows "map cm_content (cs_messages (chatAfter s (ls_events (snd (runAgentLoop env (initState clk ids d reg)))))) =
    map cm_content (cs_messages s) @ map (\<lambda>_. []) (announced (ls_events (snd (runAgentLoop env (initState clk ids d reg)))))"
  by (rule stray_content, rule ids_stray, rule ids_run [OF assms(1)]) (use assms(2) in \<open>auto simp: replyId_def\<close>)

text \<open>The provider answers \<open>hi\<close>, and the consumer has read as far as that token: the chat shows the question and
  an empty reply.\<close>

definition exReading :: loop_env where
  "exReading = (exEnv exAnswers [])\<lparr>le_stop := (\<lambda>n. n = 1)\<rparr>"

lemma example_events: "ls_events (snd (runAgentLoop exReading (initState 1 0 exDb exRegistry))) =
  [MessageStarted ''m'' ''ru'' ''se'', Token ''ru'' ''se'' ''msg_'' ''hi'']"
  by code_simp

theorem reply_never_shown_witness:
  "ls_events (snd (runAgentLoop exReading (initState 1 0 exDb exRegistry))) = [MessageStarted ''m'' ''ru'' ''se'', Token ''ru'' ''se'' ''msg_'' ''hi''] \<and>
   map cm_content (cs_messages (chatAfter (chatReducer initialChatState (SendUser ''user_1'' ''q''))
     (ls_events (snd (runAgentLoop exReading (initState 1 0 exDb exRegistry)))))) = [''q'', []]"
proof -
  let ?s = "chatReducer initialChatState (SendUser ''user_1'' ''q'')"
  have p: "le_prepared exReading = Some ''m''" by (simp add: exReading_def exEnv_def)
  have n: "\<forall>i. generateMessageId (le_nano exReading) i \<notin> set (''m'' # shownIds ?s)"
    by (simp add: generateMessageId_def prefixedId_def PREFIX_MESSAGE_def shownIds_def chatReducer_def initialChatState_def)
  have s: "map cm_content (cs_messages ?s) = [''q'']" by (simp add: chatReducer_def initialChatState_def)
  show ?thesis using reply_never_shown [OF p n, of 1 0 exDb exRegistry] unfolding s example_events by simp
qed

end
