(* ===== verification/Heartbeat.thy ===== *)
theory Heartbeat
  imports Machine
begin

text \<open>The heartbeat of the gateway (\<open>gateway/src/heartbeat.ts\<close>), with time in milliseconds.  A tick lets one
  millisecond pass and runs the timers that are due then; the interval timer of a socket is \<open>he_nextPing\<close>, its
  timeout \<open>he_timeout\<close>.  Timers of less than a millisecond take one, as in Node.  \<open>hb_broken\<close> are the sockets whose
  \<open>ping\<close> throws; \<open>hb_pings\<close> and \<open>hb_terminated\<close> record the calls of \<open>ping\<close> and \<open>terminate\<close> with their time.  The stream
  route attaches a socket once.\<close>

record HeartbeatEntry =
  he_alive :: bool
  he_nextPing :: nat
  he_timeout :: "nat option"

record heartbeats =
  hb_now :: nat
  hb_sockets :: "(nat, HeartbeatEntry) jsmap"
  hb_broken :: "nat list"
  hb_pings :: "(nat \<times> nat) list"
  hb_terminated :: "(nat \<times> nat) list"

definition DEFAULT_HEARTBEAT_TIMEOUT_MS :: nat where
  "DEFAULT_HEARTBEAT_TIMEOUT_MS = 30000"

definition intervalMs :: "nat \<Rightarrow> nat" where
  "intervalMs timeoutMs = max 1 (timeoutMs div 2)"

definition timeoutDelay :: "nat \<Rightarrow> nat" where
  "timeoutDelay timeoutMs = max 1 timeoutMs"

definition newHeartbeats :: heartbeats where
  "newHeartbeats = \<lparr>hb_now = 0, hb_sockets = [], hb_broken = [], hb_pings = [], hb_terminated = []\<rparr>"

definition hbAttach :: "nat \<Rightarrow> nat \<Rightarrow> heartbeats \<Rightarrow> heartbeats" where
  "hbAttach timeoutMs k h = (if js_has (hb_sockets h) k then h
     else h\<lparr>hb_sockets := js_set k \<lparr>he_alive = True, he_nextPing = hb_now h + intervalMs timeoutMs, he_timeout = None\<rparr> (hb_sockets h)\<rparr>)"

definition hbPong :: "nat \<Rightarrow> heartbeats \<Rightarrow> heartbeats" where
  "hbPong k h = (case js_get (hb_sockets h) k of None \<Rightarrow> h
    | Some e \<Rightarrow> h\<lparr>hb_sockets := js_set k (e\<lparr>he_alive := True, he_timeout := None\<rparr>) (hb_sockets h)\<rparr>)"

definition hbDetach :: "nat \<Rightarrow> heartbeats \<Rightarrow> heartbeats" where
  "hbDetach k h = h\<lparr>hb_sockets := js_delete k (hb_sockets h)\<rparr>"

definition hbClear :: "heartbeats \<Rightarrow> heartbeats" where
  "hbClear h = h\<lparr>hb_sockets := []\<rparr>"

text \<open>\<open>sendPing\<close>, run by the interval timer: the socket stays attached with its new entry, or is detached and
  terminated.\<close>

definition sendPing :: "nat \<Rightarrow> nat \<Rightarrow> bool \<Rightarrow> HeartbeatEntry \<Rightarrow> HeartbeatEntry option" where
  "sendPing timeoutMs now broken e = (if \<not> he_alive e then None else if broken then None
     else Some \<lparr>he_alive = False, he_nextPing = now + intervalMs timeoutMs, he_timeout = Some (now + timeoutDelay timeoutMs)\<rparr>)"

text \<open>The timers of one socket that are due.\<close>

definition entryTick :: "nat \<Rightarrow> nat \<Rightarrow> bool \<Rightarrow> HeartbeatEntry \<Rightarrow> HeartbeatEntry option" where
  "entryTick timeoutMs now broken e = (case (if he_nextPing e = now then sendPing timeoutMs now broken e else Some e) of
      None \<Rightarrow> None
    | Some e' \<Rightarrow> if he_timeout e' = Some now then (if \<not> he_alive e' then None else Some (e'\<lparr>he_timeout := None\<rparr>)) else Some e')"

definition hbTick :: "nat \<Rightarrow> heartbeats \<Rightarrow> heartbeats" where
  "hbTick timeoutMs h = (let now = Suc (hb_now h); due = (\<lambda>(k, e). entryTick timeoutMs now (k \<in> set (hb_broken h)) e) in
     h\<lparr>hb_now := now,
       hb_sockets := List.map_filter (\<lambda>(k, e). map_option (Pair k) (due (k, e))) (hb_sockets h),
       hb_pings := hb_pings h @ map (\<lambda>(k, e). (now, k)) (filter (\<lambda>(k, e). he_nextPing e = now \<and> he_alive e) (hb_sockets h)),
       hb_terminated := hb_terminated h @ map (\<lambda>(k, e). (now, k)) (filter (\<lambda>(k, e). due (k, e) = None) (hb_sockets h))\<rparr>)"

datatype heartbeatOp = HbAttach nat | HbPong nat | HbDetach nat | HbClear | HbTick | HbBreak nat

fun heartbeatStep :: "nat \<Rightarrow> heartbeatOp \<Rightarrow> heartbeats \<Rightarrow> heartbeats" where
  "heartbeatStep timeoutMs (HbAttach k) h = hbAttach timeoutMs k h"
| "heartbeatStep timeoutMs (HbPong k) h = hbPong k h"
| "heartbeatStep timeoutMs (HbDetach k) h = hbDetach k h"
| "heartbeatStep timeoutMs HbClear h = hbClear h"
| "heartbeatStep timeoutMs HbTick h = hbTick timeoutMs h"
| "heartbeatStep timeoutMs (HbBreak k) h = h\<lparr>hb_broken := k # hb_broken h\<rparr>"

section \<open>What one socket sees\<close>

lemma distinct_map_filter: "distinct (map fst m) \<Longrightarrow> distinct (map fst (List.map_filter (\<lambda>(k, e). map_option (Pair k) (f k e)) m))"
proof (induction m)
  case (Cons p m)
  obtain k e where p: "p = (k, e)" by fastforce
  have "k \<notin> fst ` set (List.map_filter (\<lambda>(k, e). map_option (Pair k) (f k e)) m)" using Cons.prems
    by (auto simp: p map_filter_def split: option.splits) force
  then show ?case using Cons by (auto simp: p map_filter_simps split: option.splits)
qed (simp add: map_filter_simps)

lemma get_map_filter: "distinct (map fst m) \<Longrightarrow> js_get (List.map_filter (\<lambda>(k, e). map_option (Pair k) (f k e)) m) k =
    (case js_get m k of None \<Rightarrow> None | Some e \<Rightarrow> f k e)"
proof (induction m)
  case (Cons p m)
  obtain i e where p: "p = (i, e)" by fastforce
  have "js_get m i = None" using Cons.prems by (simp add: p map_of_eq_None_iff)
  then show ?case using Cons by (auto simp: p map_filter_simps split: option.splits)
qed (simp add: map_filter_simps)

definition hbKeys :: "heartbeats \<Rightarrow> bool" where
  "hbKeys h = distinct (map fst (hb_sockets h))"

interpretation keysI: machine "heartbeatStep timeoutMs" hbKeys for timeoutMs
proof unfold_locales
  fix h :: heartbeats and p
  assume a: "hbKeys h"
  have "distinct (map fst (js_delete k (hb_sockets h)))" for k using a by (simp add: hbKeys_def distinct_delete)
  then show "hbKeys (heartbeatStep timeoutMs p h)" using a
    by (cases p) (auto simp: hbKeys_def hbAttach_def hbPong_def hbDetach_def hbClear_def hbTick_def Let_def distinct_map_filter
        distinct_update split: option.splits)
qed

lemma tick_entry: "hbKeys h \<Longrightarrow> js_get (hb_sockets (hbTick timeoutMs h)) k = (case js_get (hb_sockets h) k of None \<Rightarrow> None
    | Some e \<Rightarrow> entryTick timeoutMs (Suc (hb_now h)) (k \<in> set (hb_broken h)) e)"
  by (simp add: hbTick_def Let_def get_map_filter hbKeys_def)

lemma tick_now [simp]: "hb_now (hbTick timeoutMs h) = Suc (hb_now h)" "hb_broken (hbTick timeoutMs h) = hb_broken h"
  by (simp_all add: hbTick_def Let_def)

definition endOf :: "nat \<Rightarrow> heartbeats \<Rightarrow> nat list" where
  "endOf k h = map fst (filter (\<lambda>(t, i). i = k) (hb_terminated h))"

lemma filter_key: "distinct (map fst m) \<Longrightarrow> filter (\<lambda>(i, e). i = k \<and> P e) m = (case js_get m k of None \<Rightarrow> [] | Some e \<Rightarrow> if P e then [(k, e)] else [])"
proof (induction m)
  case (Cons p m)
  obtain i e where p: "p = (i, e)" by fastforce
  have "js_get m i = None" using Cons.prems by (simp add: p map_of_eq_None_iff)
  then show ?case using Cons by (auto simp: p split: option.splits)
qed simp

lemma tick_end:
  assumes "hbKeys h"
  shows "endOf k (hbTick timeoutMs h) = endOf k h @ (case js_get (hb_sockets h) k of None \<Rightarrow> []
    | Some e \<Rightarrow> if entryTick timeoutMs (Suc (hb_now h)) (k \<in> set (hb_broken h)) e = None then [Suc (hb_now h)] else [])"
proof -
  let ?P = "\<lambda>i e. entryTick timeoutMs (Suc (hb_now h)) (i \<in> set (hb_broken h)) e = None"
  have "map fst (filter (\<lambda>(t, i). i = k) (map (\<lambda>(i, e). (Suc (hb_now h), i)) (filter (\<lambda>(i, e). ?P i e) m))) =
      map (\<lambda>_. Suc (hb_now h)) (filter (\<lambda>(i, e). i = k \<and> ?P k e) m)" for m
    by (induction m) auto
  then show ?thesis using filter_key [of "hb_sockets h" k "?P k"] assms
    by (simp add: endOf_def hbTick_def Let_def hbKeys_def split: option.splits)
qed

section \<open>The deadline of a pong\<close>

lemma delay_interval: "intervalMs timeoutMs \<le> timeoutDelay timeoutMs" "0 < intervalMs timeoutMs" "0 < timeoutDelay timeoutMs"
  by (auto simp: intervalMs_def timeoutDelay_def)

text \<open>A socket that is watched: it is attached with this entry, nothing has ended it, and its \<open>ping\<close> works.\<close>

definition watched :: "nat \<Rightarrow> nat \<Rightarrow> HeartbeatEntry \<Rightarrow> nat list \<Rightarrow> heartbeats \<Rightarrow> bool" where
  "watched now k e end_times h = (hbKeys h \<and> hb_now h = now \<and> js_get (hb_sockets h) k = Some e \<and> k \<notin> set (hb_broken h) \<and> endOf k h = end_times)"

definition gone :: "nat \<Rightarrow> nat list \<Rightarrow> heartbeats \<Rightarrow> bool" where
  "gone k end_times h = (hbKeys h \<and> \<not> js_has (hb_sockets h) k \<and> endOf k h = end_times)"

abbreviation ticks :: "nat \<Rightarrow> nat \<Rightarrow> heartbeats \<Rightarrow> heartbeats" where
  "ticks timeoutMs n \<equiv> runSteps (heartbeatStep timeoutMs) (replicate n HbTick)"

lemma keys_tick: "hbKeys h \<Longrightarrow> hbKeys (hbTick timeoutMs h)"
  using keysI.step_inv [of h timeoutMs HbTick] by simp

lemma watched_tick: "watched now k e ts h \<Longrightarrow> entryTick timeoutMs (Suc now) False e = Some e' \<Longrightarrow> watched (Suc now) k e' ts (hbTick timeoutMs h)"
  by (simp add: watched_def tick_entry tick_end keys_tick)

lemma watched_end: "watched now k e ts h \<Longrightarrow> entryTick timeoutMs (Suc now) False e = None \<Longrightarrow> gone k (ts @ [Suc now]) (hbTick timeoutMs h)"
  by (simp add: watched_def gone_def tick_entry tick_end keys_tick)

lemma watched_idle: "watched now k e ts h \<Longrightarrow> now + n < he_nextPing e \<Longrightarrow> (case he_timeout e of None \<Rightarrow> True | Some d \<Rightarrow> he_nextPing e \<le> d) \<Longrightarrow>
    watched (now + n) k e ts (ticks timeoutMs n h)"
proof (induction n arbitrary: now h)
  case (Suc n)
  have "entryTick timeoutMs (Suc now) False e = Some e" using Suc.prems(2,3) by (auto simp: entryTick_def split: option.splits)
  from Suc.IH [OF watched_tick [OF Suc.prems(1) this]] show ?case using Suc.prems(2,3) by simp
qed simp

lemma gone_tick: "gone k ts h \<Longrightarrow> gone k ts (hbTick timeoutMs h)"
  by (auto simp: gone_def tick_entry tick_end keys_tick split: option.splits)

lemma gone_ticks: "gone k ts h \<Longrightarrow> gone k ts (ticks timeoutMs n h)"
  by (induction n arbitrary: h) (simp_all add: gone_tick)

lemma gone_pong: "gone k ts h \<Longrightarrow> hbPong k h = h"
  by (auto simp: gone_def hbPong_def split: option.splits)

text \<open>Just after an unanswered ping.\<close>

definition pingedAt :: "nat \<Rightarrow> nat \<Rightarrow> HeartbeatEntry" where
  "pingedAt timeoutMs now = \<lparr>he_alive = False, he_nextPing = now + intervalMs timeoutMs, he_timeout = Some (now + timeoutDelay timeoutMs)\<rparr>"

lemma ping_tick:
  assumes "he_alive e" "he_nextPing e = Suc now" "watched now k e ts h"
  shows "watched (Suc now) k (pingedAt timeoutMs (Suc now)) ts (hbTick timeoutMs h)"
  by (rule watched_tick [OF assms(3)])
    (use assms(1,2) delay_interval [of timeoutMs] in \<open>simp add: entryTick_def sendPing_def pingedAt_def\<close>)

lemma ticks_Suc: "ticks timeoutMs (Suc n) h = hbTick timeoutMs (ticks timeoutMs n h)"
  by (simp add: replicate_append_same [symmetric])

lemma ticks_ping:
  assumes "he_alive e" "he_nextPing e = now + n" "0 < n" "he_timeout e = None" "watched now k e ts h"
  shows "watched (now + n) k (pingedAt timeoutMs (now + n)) ts (ticks timeoutMs n h)"
proof -
  obtain m where n: "n = Suc m" using assms(3) by (cases n) auto
  have "watched (now + m) k e ts (ticks timeoutMs m h)" by (rule watched_idle [OF assms(5)]) (use assms in \<open>simp_all add: n\<close>)
  from ping_tick [OF assms(1) _ this] show ?thesis using assms(2) by (simp add: n ticks_Suc del: replicate_Suc)
qed

lemma ticks_silent:
  assumes "watched now k (pingedAt timeoutMs now) ts h" "intervalMs timeoutMs \<le> n"
  shows "gone k (ts @ [now + intervalMs timeoutMs]) (ticks timeoutMs n h)"
proof -
  obtain m where m: "intervalMs timeoutMs = Suc m" using delay_interval(2) [of timeoutMs] by (cases "intervalMs timeoutMs") auto
  have w: "watched (now + m) k (pingedAt timeoutMs now) ts (ticks timeoutMs m h)"
    by (rule watched_idle [OF assms(1)]) (use delay_interval(1) [of timeoutMs] in \<open>simp_all add: pingedAt_def m\<close>)
  have "entryTick timeoutMs (Suc (now + m)) False (pingedAt timeoutMs now) = None" by (simp add: entryTick_def pingedAt_def sendPing_def m)
  from watched_end [OF w this] have g: "gone k (ts @ [now + Suc m]) (ticks timeoutMs (Suc m) h)" by (simp add: ticks_Suc del: replicate_Suc)
  obtain j where "n = Suc m + j" using assms(2) m le_Suc_ex by metis
  then have "ticks timeoutMs n h = ticks timeoutMs j (ticks timeoutMs (Suc m) h)" by (simp only: replicate_add runSteps_simps)
  then show ?thesis using gone_ticks [OF g] by (simp only: m)
qed

text \<open>One round: the answer to a ping comes after \<open>d\<close> milliseconds, and the interval passes.\<close>

definition pongRound :: "nat \<Rightarrow> nat \<Rightarrow> nat \<Rightarrow> heartbeatOp list" where
  "pongRound timeoutMs k d = replicate d HbTick @ [HbPong k] @ replicate (intervalMs timeoutMs - d) HbTick"

lemma round_answered:
  assumes "watched now k (pingedAt timeoutMs now) ts h" "d < intervalMs timeoutMs"
  shows "watched (now + intervalMs timeoutMs) k (pingedAt timeoutMs (now + intervalMs timeoutMs)) ts
    (runSteps (heartbeatStep timeoutMs) (pongRound timeoutMs k d) h)"
proof -
  let ?e = "\<lparr>he_alive = True, he_nextPing = now + intervalMs timeoutMs, he_timeout = None\<rparr>"
  have w: "watched (now + d) k (pingedAt timeoutMs now) ts (ticks timeoutMs d h)"
    by (rule watched_idle [OF assms(1)]) (use assms(2) delay_interval(1) [of timeoutMs] in \<open>simp_all add: pingedAt_def\<close>)
  have p: "watched (now + d) k ?e ts (hbPong k (ticks timeoutMs d h))"
    using w keysI.step_inv [of "ticks timeoutMs d h" timeoutMs "HbPong k"] by (simp add: watched_def hbPong_def pingedAt_def endOf_def update_conv')
  have "watched (now + d + (intervalMs timeoutMs - d)) k (pingedAt timeoutMs (now + d + (intervalMs timeoutMs - d))) ts
      (ticks timeoutMs (intervalMs timeoutMs - d) (hbPong k (ticks timeoutMs d h)))"
    by (rule ticks_ping [OF _ _ _ _ p]) (use assms(2) in simp_all)
  then show ?thesis using assms(2) by (simp add: pongRound_def)
qed

lemma round_late:
  assumes "watched now k (pingedAt timeoutMs now) ts h" "intervalMs timeoutMs \<le> d"
  shows "gone k (ts @ [now + intervalMs timeoutMs]) (runSteps (heartbeatStep timeoutMs) (pongRound timeoutMs k d) h)"
  using ticks_silent [OF assms] gone_pong [OF ticks_silent [OF assms]] by (simp add: pongRound_def gone_ticks)

lemma round_gone: "gone k ts h \<Longrightarrow> gone k ts (runSteps (heartbeatStep timeoutMs) (pongRound timeoutMs k d) h)"
  using gone_pong [OF gone_ticks [of k ts h timeoutMs d]] by (simp add: pongRound_def gone_ticks)

lemma rounds_gone: "gone k ts h \<Longrightarrow> gone k ts (runSteps (heartbeatStep timeoutMs) (concat (map (pongRound timeoutMs k) ds)) h)"
  by (induction ds arbitrary: h) (simp_all add: round_gone)

lemma rounds_all: "watched now k (pingedAt timeoutMs now) ts h \<Longrightarrow>
   (if list_all (\<lambda>d. d < intervalMs timeoutMs) ds
    then \<exists>n. watched n k (pingedAt timeoutMs n) ts (runSteps (heartbeatStep timeoutMs) (concat (map (pongRound timeoutMs k) ds)) h)
    else \<exists>t. gone k (ts @ [t]) (runSteps (heartbeatStep timeoutMs) (concat (map (pongRound timeoutMs k) ds)) h))"
proof (induction ds arbitrary: now h)
  case (Cons d ds)
  show ?case
  proof (cases "d < intervalMs timeoutMs")
    case True
    from Cons.IH [OF round_answered [OF Cons.prems True]] show ?thesis using True by (auto simp: if_split)
  next
    case False
    then have "gone k (ts @ [now + intervalMs timeoutMs]) (runSteps (heartbeatStep timeoutMs) (pongRound timeoutMs k d) h)"
      by (intro round_late [OF Cons.prems]) simp
    from rounds_gone [OF this] show ?thesis using False by auto
  qed
qed (auto simp: watched_def)

text \<open>A socket lives exactly as long as every pong comes within the ping interval, half of the
  configured timeout; the first pong that takes longer, even if it comes well within the timeout, finds
  the socket terminated.  \<open>ds\<close> are the delays of the pongs.\<close>

theorem pong_deadline:
  assumes "h = runSteps (heartbeatStep timeoutMs) ops newHeartbeats" "\<not> js_has (hb_sockets h) k" "k \<notin> set (hb_broken h)"
  shows "let h' = runSteps (heartbeatStep timeoutMs) (HbAttach k # replicate (intervalMs timeoutMs) HbTick @ concat (map (pongRound timeoutMs k) ds)) h in
     js_has (hb_sockets h') k = list_all (\<lambda>d. d < intervalMs timeoutMs) ds \<and>
     length (endOf k h') = length (endOf k h) + (if list_all (\<lambda>d. d < intervalMs timeoutMs) ds then 0 else 1)"
proof -
  have "hbKeys h" unfolding assms(1) by (rule keysI.run_inv) (simp add: hbKeys_def newHeartbeats_def)
  then have "watched (hb_now h) k \<lparr>he_alive = True, he_nextPing = hb_now h + intervalMs timeoutMs, he_timeout = None\<rparr> (endOf k h) (hbAttach timeoutMs k h)"
    using assms(2,3) keysI.step_inv [of h timeoutMs "HbAttach k"] by (simp add: watched_def hbAttach_def endOf_def update_conv')
  from rounds_all [where ds = ds, OF ticks_ping [where timeoutMs = timeoutMs, OF _ _ delay_interval(2) [of timeoutMs] _ this]]
  show ?thesis by (auto simp: Let_def watched_def gone_def split: if_splits)
qed

theorem pong_deadline_witness:
  "(let h' = runSteps (heartbeatStep DEFAULT_HEARTBEAT_TIMEOUT_MS) (HbAttach 1 # replicate (intervalMs DEFAULT_HEARTBEAT_TIMEOUT_MS) HbTick @
      concat (map (pongRound DEFAULT_HEARTBEAT_TIMEOUT_MS 1) [20, 16000])) newHeartbeats in js_has (hb_sockets h') 1) = False"
proof -
  have r: "newHeartbeats = runSteps (heartbeatStep DEFAULT_HEARTBEAT_TIMEOUT_MS) [] newHeartbeats" by simp
  have n: "\<not> js_has (hb_sockets newHeartbeats) 1" "1 \<notin> set (hb_broken newHeartbeats)" by (simp_all add: newHeartbeats_def)
  have l: "list_all (\<lambda>d. d < intervalMs DEFAULT_HEARTBEAT_TIMEOUT_MS) [20, 16000] = False" by (simp add: intervalMs_def DEFAULT_HEARTBEAT_TIMEOUT_MS_def)
  show ?thesis using pong_deadline [OF r n, of "[20, 16000]"] unfolding Let_def l by (rule conjunct1)
qed

end
