(* ===== verification/Observability.thy ===== *)
theory Observability
  imports Json Shared_Types Agent_Loop
begin

text \<open>Spans, their bounds, the tracer and the metrics: \<open>observability/src/\<close>.  A metadata object is a list of entries
  with distinct keys in insertion order.  The suffix of a cut message begins with an ellipsis, which is
  outside the alphabet of \<^typ>\<open>string\<close>, so the suffix is a parameter.\<close>

section \<open>Records\<close>

datatype SpanType = RunSpan | ModelCallSpan | ToolCallSpan
datatype SpanStatus = SpanOk | SpanFailed

record SpanError =
  sx_message :: string
  sx_code :: "string option"

record SpanRecord =
  sr_spanId :: string
  sr_parentSpanId :: "string option"
  sr_traceId :: string
  sr_type :: SpanType
  sr_name :: string
  sr_startedAt :: nat
  sr_completedAt :: "nat option"
  sr_durationMs :: "int option"
  sr_metadata :: "(string, json) jsmap"
  sr_status :: SpanStatus
  sr_error :: "SpanError option"

record TraceRecord =
  tr_traceId :: string
  tr_runId :: string
  tr_rootSpanId :: string
  tr_startedAt :: nat
  tr_completedAt :: "nat option"
  tr_totalDurationMs :: "int option"

section \<open>Bounds\<close>

definition MAX_SPAN_ERROR_MESSAGE_CHARS :: nat where "MAX_SPAN_ERROR_MESSAGE_CHARS = 2048"
definition MAX_SPAN_METADATA_BYTES :: nat where "MAX_SPAN_METADATA_BYTES = 8192"

definition METADATA_WHITELIST :: "string list" where
  "METADATA_WHITELIST = [''promptTokens'', ''completionTokens'', ''modelName'', ''toolName'', ''callId'']"

definition TRUNCATED_VALUE :: json where
  "TRUNCATED_VALUE = JStr ''[truncated]''"

definition boundError :: "string \<Rightarrow> SpanError \<Rightarrow> SpanError" where
  "boundError sfx e = (if length (sx_message e) \<le> MAX_SPAN_ERROR_MESSAGE_CHARS then e
     else \<lparr>sx_message = take MAX_SPAN_ERROR_MESSAGE_CHARS (sx_message e) @ sfx, sx_code = sx_code e\<rparr>)"

definition keepWhitelisted :: "(string, json) jsmap \<Rightarrow> (string, json) jsmap" where
  "keepWhitelisted m = fold (\<lambda>k r. case js_get m k of None \<Rightarrow> r | Some v \<Rightarrow> js_set k v r) METADATA_WHITELIST []"

definition valueBytes :: "json \<Rightarrow> nat" where
  "valueBytes v = byteLength (stringify v)"

fun boundWalk :: "(string, json) jsmap \<Rightarrow> nat \<Rightarrow> bool \<Rightarrow> (string, json) jsmap \<Rightarrow> (string, json) jsmap \<times> bool" where
  "boundWalk [] running truncating r = (r, truncating)"
| "boundWalk ((k, v) # m) running truncating r =
     (if k \<in> set METADATA_WHITELIST then boundWalk m running truncating r
      else if truncating then boundWalk m running True (js_set k TRUNCATED_VALUE r)
      else if running + valueBytes v > MAX_SPAN_METADATA_BYTES then boundWalk m running True (js_set k TRUNCATED_VALUE r)
      else boundWalk m (running + valueBytes v) False (js_set k v r))"

definition boundMetadata :: "(string, json) jsmap \<Rightarrow> (string, json) jsmap" where
  "boundMetadata m = (case boundWalk m 0 False (keepWhitelisted m) of
     (r, truncating) \<Rightarrow> if truncating then js_set ''__truncated'' (JBool True) r else r)"

definition boundSpanRecord :: "string \<Rightarrow> SpanRecord \<Rightarrow> SpanRecord" where
  "boundSpanRecord sfx r = r\<lparr>sr_metadata := boundMetadata (sr_metadata r), sr_error := map_option (boundError sfx) (sr_error r)\<rparr>"

section \<open>Spans\<close>

record Span =
  sp_spanId :: string
  sp_traceId :: string
  sp_parentSpanId :: "string option"
  sp_type :: SpanType
  sp_name :: string
  sp_startedAt :: "nat option"
  sp_completedAt :: "nat option"
  sp_durationMs :: "int option"
  sp_metadata :: "(string, json) jsmap"
  sp_status :: SpanStatus
  sp_error :: "SpanError option"

definition newSpan :: "string \<Rightarrow> string \<Rightarrow> string option \<Rightarrow> SpanType \<Rightarrow> string \<Rightarrow> Span" where
  "newSpan i tr parent ty name = \<lparr>sp_spanId = i, sp_traceId = tr, sp_parentSpanId = parent, sp_type = ty, sp_name = name,
     sp_startedAt = None, sp_completedAt = None, sp_durationMs = None, sp_metadata = [], sp_status = SpanOk, sp_error = None\<rparr>"

definition spanStart :: "nat \<Rightarrow> Span \<Rightarrow> Span" where
  "spanStart now s = s\<lparr>sp_startedAt := Some now\<rparr>"

definition spanEnd :: "nat \<Rightarrow> SpanStatus \<Rightarrow> SpanError option \<Rightarrow> Span \<Rightarrow> Span" where
  "spanEnd now st err s = s\<lparr>sp_completedAt := Some now, sp_status := st,
     sp_durationMs := (case sp_startedAt s of Some t \<Rightarrow> Some (int now - int t) | None \<Rightarrow> sp_durationMs s),
     sp_error := (case err of Some e \<Rightarrow> Some e | None \<Rightarrow> sp_error s)\<rparr>"

definition addMetadata :: "(string, json) jsmap \<Rightarrow> Span \<Rightarrow> Span" where
  "addMetadata partial s = s\<lparr>sp_metadata := fold (\<lambda>(k, v) m. js_set k v m) partial (sp_metadata s)\<rparr>"

definition startChild :: "nat \<Rightarrow> string \<Rightarrow> SpanType \<Rightarrow> string \<Rightarrow> Span \<Rightarrow> Span" where
  "startChild now i ty name s = spanStart now (newSpan i (sp_traceId s) (Some (sp_spanId s)) ty name)"

definition toSpanRecord :: "string \<Rightarrow> nat \<Rightarrow> Span \<Rightarrow> SpanRecord" where
  "toSpanRecord sfx now s = boundSpanRecord sfx \<lparr>sr_spanId = sp_spanId s, sr_parentSpanId = sp_parentSpanId s, sr_traceId = sp_traceId s,
     sr_type = sp_type s, sr_name = sp_name s, sr_startedAt = (case sp_startedAt s of Some t \<Rightarrow> t | None \<Rightarrow> now),
     sr_completedAt = sp_completedAt s, sr_durationMs = sp_durationMs s, sr_metadata = sp_metadata s, sr_status = sp_status s, sr_error = sp_error s\<rparr>"

section \<open>Tracer\<close>

text \<open>The trace of a run: the root span first, then the children in the order in which they were started.\<close>

record RunTrace =
  rt_runId :: string
  rt_traceId :: string
  rt_spans :: "Span list"

definition startRunTrace :: "(nat \<Rightarrow> string) \<Rightarrow> nat \<Rightarrow> string \<Rightarrow> RunTrace" where
  "startRunTrace nano now runId = (let tid = generateTraceId nano 0; rootSpan = newSpan (generateSpanId nano 1) tid None RunSpan (''run:'' @ runId) in
     \<lparr>rt_runId = runId, rt_traceId = tid, rt_spans = [spanStart now rootSpan]\<rparr>)"

definition startModelCall :: "nat \<Rightarrow> string \<Rightarrow> string \<Rightarrow> RunTrace \<Rightarrow> RunTrace" where
  "startModelCall now i modelName t = t\<lparr>rt_spans := rt_spans t @
     [addMetadata [(''modelName'', JStr modelName)] (startChild now i ModelCallSpan (''model:'' @ modelName) (hd (rt_spans t)))]\<rparr>"

definition startToolCall :: "nat \<Rightarrow> string \<Rightarrow> string \<Rightarrow> string \<Rightarrow> RunTrace \<Rightarrow> RunTrace" where
  "startToolCall now i toolName callId t = t\<lparr>rt_spans := rt_spans t @
     [addMetadata [(''toolName'', JStr toolName), (''callId'', JStr callId)] (startChild now i ToolCallSpan (''tool:'' @ toolName) (hd (rt_spans t)))]\<rparr>"

definition finishTrace :: "string \<Rightarrow> nat \<Rightarrow> SpanStatus \<Rightarrow> SpanError option \<Rightarrow> RunTrace \<Rightarrow> TraceRecord \<times> SpanRecord list" where
  "finishTrace sfx now st err t =
     (let spans = (case rt_spans t of [] \<Rightarrow> [] | rootSpan # cs \<Rightarrow> spanEnd now st err rootSpan # cs);
          rootRecord = toSpanRecord sfx now (hd spans) in
      (\<lparr>tr_traceId = rt_traceId t, tr_runId = rt_runId t, tr_rootSpanId = sr_spanId rootRecord, tr_startedAt = sr_startedAt rootRecord,
        tr_completedAt = sr_completedAt rootRecord, tr_totalDurationMs = sr_durationMs rootRecord\<rparr>, map (toSpanRecord sfx now) spans))"

section \<open>Metrics\<close>

record RunMetrics =
  rm_totalRunDurationMs :: "int option"
  rm_timeToFirstTokenMs :: "int option"
  rm_modelCallCount :: nat
  rm_toolCallCount :: nat
  rm_totalModelLatencyMs :: int
  rm_totalToolLatencyMs :: int
  rm_totalTokens :: int

definition durationOf :: "SpanRecord \<Rightarrow> int" where
  "durationOf s = (case sr_durationMs s of None \<Rightarrow> 0 | Some d \<Rightarrow> d)"

definition numberOf :: "json option \<Rightarrow> int" where
  "numberOf j = (case j of Some (JNum n) \<Rightarrow> n | _ \<Rightarrow> 0)"

definition tokensOfSpan :: "SpanRecord \<Rightarrow> int" where
  "tokensOfSpan s = numberOf (js_get (sr_metadata s) ''promptTokens'') + numberOf (js_get (sr_metadata s) ''completionTokens'')"

definition deriveRunMetrics :: "SpanRecord list \<Rightarrow> RunMetrics" where
  "deriveRunMetrics spans =
     (let runSpan = find (\<lambda>s. sr_type s = RunSpan) spans;
          modelSpans = filter (\<lambda>s. sr_type s = ModelCallSpan) spans;
          toolSpans = filter (\<lambda>s. sr_type s = ToolCallSpan) spans in
      \<lparr>rm_totalRunDurationMs = Option.bind runSpan sr_durationMs,
       rm_timeToFirstTokenMs = (case runSpan of None \<Rightarrow> None | Some r \<Rightarrow> (case modelSpans of [] \<Rightarrow> None
          | f # fs \<Rightarrow> map_option (\<lambda>c. int c - int (sr_startedAt r)) (sr_completedAt f))),
       rm_modelCallCount = length modelSpans, rm_toolCallCount = length toolSpans,
       rm_totalModelLatencyMs = foldl (\<lambda>n s. n + durationOf s) 0 modelSpans,
       rm_totalToolLatencyMs = foldl (\<lambda>n s. n + durationOf s) 0 toolSpans,
       rm_totalTokens = foldl (\<lambda>n s. n + tokensOfSpan s) 0 spans\<rparr>)"

section \<open>The operations of the agent loop on its trace\<close>

text \<open>A recorded operation with the time at which it happened; a model call ends, and gets its usage, before the
  next span starts, so both act on the last span.\<close>

definition updLast :: "('a \<Rightarrow> 'a) \<Rightarrow> 'a list \<Rightarrow> 'a list" where
  "updLast f xs = (case xs of [] \<Rightarrow> [] | _ \<Rightarrow> butlast xs @ [f (last xs)])"

definition traceOp :: "(nat \<Rightarrow> string) \<Rightarrow> (span_op \<Rightarrow> SpanError) \<Rightarrow> nat \<times> span_op \<Rightarrow> RunTrace \<Rightarrow> RunTrace" where
  "traceOp nano failure p t = (case p of (now, x) \<Rightarrow> (let i = generateSpanId nano (Suc (length (rt_spans t)));
       ended = (\<lambda>ok. t\<lparr>rt_spans := updLast (if ok then spanEnd now SpanOk None else spanEnd now SpanFailed (Some (failure x))) (rt_spans t)\<rparr>) in
     case x of
       StartModelCall name \<Rightarrow> startModelCall now i name t
     | StartToolCall name callId \<Rightarrow> startToolCall now i name callId t
     | ModelUsage p c \<Rightarrow> t\<lparr>rt_spans := updLast (addMetadata [(''promptTokens'', JNum (int p)), (''completionTokens'', JNum (int c))]) (rt_spans t)\<rparr>
     | EndModelCall ok \<Rightarrow> ended ok
     | EndToolCall callId ok \<Rightarrow> ended ok
     | TraceFinish ok err \<Rightarrow> t
     | TraceWarning msg \<Rightarrow> t))"

definition traceOps :: "(nat \<Rightarrow> string) \<Rightarrow> (span_op \<Rightarrow> SpanError) \<Rightarrow> (nat \<times> span_op) list \<Rightarrow> RunTrace \<Rightarrow> RunTrace" where
  "traceOps nano failure ps t = fold (traceOp nano failure) ps t"

section \<open>What the bounds keep\<close>

definition isWhite :: "string \<Rightarrow> bool" where
  "isWhite k = (k \<in> set METADATA_WHITELIST)"

lemma keep_get: "js_get (fold (\<lambda>k r. case js_get m k of None \<Rightarrow> r | Some v \<Rightarrow> js_set k v r) ks r) k =
    (if k \<in> set ks \<and> js_has m k then js_get m k else js_get r k)"
  by (induction ks arbitrary: r) (auto simp: update_conv' split: option.splits)

lemma keepWhitelisted_get: "js_get (keepWhitelisted m) k = (if isWhite k then js_get m k else None)"
  by (cases "js_get m k") (simp_all add: keepWhitelisted_def keep_get isWhite_def)

lemma boundWalk_old: "k \<notin> fst ` set m \<or> isWhite k \<Longrightarrow> js_get (fst (boundWalk m n t r)) k = js_get r k"
  by (induction m n t r rule: boundWalk.induct) (auto simp: isWhite_def update_conv')

lemma boundWalk_truncating: "snd (boundWalk m n True r) \<and> (\<forall>k v. (k, v) \<in> set m \<longrightarrow> \<not> isWhite k \<longrightarrow> js_get (fst (boundWalk m n True r)) k = Some TRUNCATED_VALUE)"
proof (induction m arbitrary: n r)
  case (Cons p m)
  obtain k v where p: "p = (k, v)" by fastforce
  show ?case
  proof (cases "isWhite k")
    case True
    then show ?thesis using Cons [of n r] by (auto simp: p isWhite_def)
  next
    case False
    have "js_get (fst (boundWalk m n True (js_set k TRUNCATED_VALUE r))) k = Some TRUNCATED_VALUE"
    proof (cases "k \<in> fst ` set m")
      case True
      then obtain w where "(k, w) \<in> set m" by auto
      then show ?thesis using Cons [of n "js_set k TRUNCATED_VALUE r"] False by blast
    next
      case nk: False
      then show ?thesis using boundWalk_old [of k m] by (simp add: update_conv')
    qed
    then show ?thesis using False Cons [of n "js_set k TRUNCATED_VALUE r"] by (auto simp: p isWhite_def)
  qed
qed simp

definition ordinary :: "(string, json) jsmap \<Rightarrow> (string, json) jsmap" where
  "ordinary m = filter (\<lambda>(k, v). \<not> isWhite k) m"

definition sizeOf :: "(string, json) jsmap \<Rightarrow> nat" where
  "sizeOf m = sum_list (map (\<lambda>(k, v). valueBytes v) m)"

text \<open>The ordinary entries split: a prefix that is kept and fits, and a rest that is cut, whose first value would
  not have fitted.\<close>

definition cutAt :: "(string, json) jsmap \<Rightarrow> nat \<Rightarrow> (string, json) jsmap \<Rightarrow> (string, json) jsmap \<Rightarrow> bool \<Rightarrow> bool" where
  "cutAt m n kept r t = (\<exists>rest. ordinary m = kept @ rest \<and> n + sizeOf kept \<le> max n MAX_SPAN_METADATA_BYTES \<and> (t = (rest \<noteq> [])) \<and>
     (case rest of [] \<Rightarrow> True | (k, v) # _ \<Rightarrow> MAX_SPAN_METADATA_BYTES < n + sizeOf kept + valueBytes v) \<and>
     (\<forall>k v. (k, v) \<in> set kept \<longrightarrow> js_get r k = Some v) \<and> (\<forall>k v. (k, v) \<in> set rest \<longrightarrow> js_get r k = Some TRUNCATED_VALUE))"

lemma boundWalk_spec: "distinct (map fst m) \<Longrightarrow> \<exists>kept. cutAt m n kept (fst (boundWalk m n False r)) (snd (boundWalk m n False r))"
proof (induction m arbitrary: n r)
  case Nil
  then show ?case by (intro exI [of _ "[]"]) (simp add: cutAt_def ordinary_def sizeOf_def)
next
  case (Cons p m)
  obtain k v where p: "p = (k, v)" by fastforce
  have d: "distinct (map fst m)" "k \<notin> fst ` set m" using Cons.prems by (auto simp: p)
  show ?case
  proof (cases "isWhite k")
    case True
    then show ?thesis using Cons.IH [OF d(1), of n r] by (simp add: p isWhite_def cutAt_def ordinary_def)
  next
    case w: False
    show ?thesis
    proof (cases "n + valueBytes v > MAX_SPAN_METADATA_BYTES")
      case True
      have "js_get (fst (boundWalk m n True (js_set k TRUNCATED_VALUE r))) k = Some TRUNCATED_VALUE"
        using boundWalk_old [of k m] d(2) by (simp add: update_conv')
      then have "cutAt (p # m) n [] (fst (boundWalk (p # m) n False r)) (snd (boundWalk (p # m) n False r))"
        using True w boundWalk_truncating [of m n "js_set k TRUNCATED_VALUE r"]
        by (auto simp: cutAt_def p isWhite_def ordinary_def sizeOf_def)
      then show ?thesis by blast
    next
      case False
      obtain kept where c: "cutAt m (n + valueBytes v) kept (fst (boundWalk m (n + valueBytes v) False (js_set k v r)))
          (snd (boundWalk m (n + valueBytes v) False (js_set k v r)))" using Cons.IH [OF d(1)] by blast
      have "js_get (fst (boundWalk m (n + valueBytes v) False (js_set k v r))) k = Some v"
        using boundWalk_old [of k m] d(2) by (simp add: update_conv')
      moreover have "ordinary (p # m) = (k, v) # ordinary m" using w by (simp add: p ordinary_def)
      moreover obtain rest where "ordinary m = kept @ rest" "n + valueBytes v + sizeOf kept \<le> max (n + valueBytes v) MAX_SPAN_METADATA_BYTES"
          "snd (boundWalk m (n + valueBytes v) False (js_set k v r)) = (rest \<noteq> [])"
          "case rest of [] \<Rightarrow> True | (k, w) # _ \<Rightarrow> MAX_SPAN_METADATA_BYTES < n + valueBytes v + sizeOf kept + valueBytes w"
          "\<forall>j w. (j, w) \<in> set kept \<longrightarrow> js_get (fst (boundWalk m (n + valueBytes v) False (js_set k v r))) j = Some w"
          "\<forall>j w. (j, w) \<in> set rest \<longrightarrow> js_get (fst (boundWalk m (n + valueBytes v) False (js_set k v r))) j = Some TRUNCATED_VALUE"
        using c unfolding cutAt_def by blast
      ultimately have "cutAt (p # m) n ((k, v) # kept) (fst (boundWalk (p # m) n False r)) (snd (boundWalk (p # m) n False r))"
        unfolding cutAt_def using w False by (intro exI [of _ rest]) (auto simp: p isWhite_def sizeOf_def add.assoc split: list.splits)
      then show ?thesis by blast
    qed
  qed
qed

lemma white_bound: "isWhite k \<Longrightarrow> js_get (boundMetadata m) k = js_get m k"
  using boundWalk_old [of k m 0 False "keepWhitelisted m"]
  by (auto simp: boundMetadata_def keepWhitelisted_get update_conv' isWhite_def METADATA_WHITELIST_def split: prod.splits)

text \<open>Span metadata is bounded as documented.  The whitelisted entries are kept as they are; of the
  others a longest prefix whose serialized values fit into 8192 bytes is kept, every later value is
  replaced by the truncation mark, and the marker key is set exactly then.\<close>

theorem metadata_bounded:
  assumes "distinct (map fst m)" "''__truncated'' \<notin> fst ` set m"
  shows "\<exists>kept rest. ordinary m = kept @ rest \<and> sizeOf kept \<le> MAX_SPAN_METADATA_BYTES \<and>
     (case rest of [] \<Rightarrow> True | (k, v) # _ \<Rightarrow> MAX_SPAN_METADATA_BYTES < sizeOf kept + valueBytes v) \<and>
     list_all (\<lambda>(k, v). js_get (boundMetadata m) k = Some v) kept \<and>
     list_all (\<lambda>(k, v). js_get (boundMetadata m) k = Some TRUNCATED_VALUE) rest \<and>
     list_all (\<lambda>k. js_get (boundMetadata m) k = js_get m k) METADATA_WHITELIST \<and>
     js_get (boundMetadata m) ''__truncated'' = (if rest = [] then None else Some (JBool True))"
proof -
  obtain r t where b: "boundWalk m 0 False (keepWhitelisted m) = (r, t)" by fastforce
  obtain kept where "cutAt m 0 kept r t" using boundWalk_spec [OF assms(1), of 0 "keepWhitelisted m"] unfolding b by auto
  then obtain rest where c: "ordinary m = kept @ rest" "sizeOf kept \<le> MAX_SPAN_METADATA_BYTES" "t = (rest \<noteq> [])"
      "case rest of [] \<Rightarrow> True | (k, v) # _ \<Rightarrow> MAX_SPAN_METADATA_BYTES < sizeOf kept + valueBytes v"
      "\<forall>k v. (k, v) \<in> set kept \<longrightarrow> js_get r k = Some v" "\<forall>k v. (k, v) \<in> set rest \<longrightarrow> js_get r k = Some TRUNCATED_VALUE"
    unfolding cutAt_def add_0 max_0L by blast
  have "set kept \<subseteq> set m" "set rest \<subseteq> set m" using arg_cong [OF c(1), of set] by (auto simp: ordinary_def)
  then have n: "(k, v) \<in> set kept \<union> set rest \<Longrightarrow> k \<noteq> ''__truncated''" for k v using assms(2) by force
  have other: "k \<noteq> ''__truncated'' \<Longrightarrow> js_get (boundMetadata m) k = js_get r k" for k by (simp add: boundMetadata_def b update_conv')
  have "js_get r ''__truncated'' = None"
    using boundWalk_old [of "''__truncated''" m 0 False "keepWhitelisted m"] assms(2) unfolding b
    by (simp add: keepWhitelisted_get isWhite_def METADATA_WHITELIST_def)
  then have mark: "js_get (boundMetadata m) ''__truncated'' = (if rest = [] then None else Some (JBool True))"
    by (simp add: boundMetadata_def b c(3) update_conv')
  have k: "list_all (\<lambda>(k, v). js_get (boundMetadata m) k = Some v) kept" using c(5) n other by (fastforce simp: list_all_iff)
  have r: "list_all (\<lambda>(k, v). js_get (boundMetadata m) k = Some TRUNCATED_VALUE) rest" using c(6) n other by (fastforce simp: list_all_iff)
  have w: "list_all (\<lambda>k. js_get (boundMetadata m) k = js_get m k) METADATA_WHITELIST"
    using white_bound by (simp add: list_all_iff isWhite_def)
  show ?thesis using c(1,2,4) k r w mark by blast
qed

theorem metadata_bounded_witness:
  "js_get (boundMetadata [(''note'', JStr ''x''), (''callId'', JStr ''tc_1'')]) ''callId'' = Some (JStr ''tc_1'')"
  using metadata_bounded [of "[(''note'', JStr ''x''), (''callId'', JStr ''tc_1'')]"]
  by (auto simp: METADATA_WHITELIST_def)

section \<open>The metrics of a run's trace\<close>

text \<open>Usage is recorded once per span.\<close>

fun usageOnce :: "bool \<Rightarrow> span_op list \<Rightarrow> bool" where
  "usageOnce fresh [] = True"
| "usageOnce fresh (StartModelCall m # xs) = usageOnce True xs"
| "usageOnce fresh (StartToolCall n c # xs) = usageOnce True xs"
| "usageOnce fresh (ModelUsage p c # xs) = (fresh \<and> usageOnce False xs)"
| "usageOnce fresh (x # xs) = usageOnce fresh xs"

definition usageOf :: "span_op list \<Rightarrow> nat" where
  "usageOf xs = sum_list (map (\<lambda>x. case x of ModelUsage p c \<Rightarrow> p + c | _ \<Rightarrow> 0) xs)"

definition startsOf :: "SpanType \<Rightarrow> span_op list \<Rightarrow> nat" where
  "startsOf ty xs = length (filter (\<lambda>x. case x of StartModelCall m \<Rightarrow> ty = ModelCallSpan | StartToolCall n c \<Rightarrow> ty = ToolCallSpan | _ \<Rightarrow> False) xs)"

definition spanTokens :: "Span \<Rightarrow> int" where
  "spanTokens s = numberOf (js_get (sp_metadata s) ''promptTokens'') + numberOf (js_get (sp_metadata s) ''completionTokens'')"

lemma record_tokens [simp]: "tokensOfSpan (toSpanRecord sfx now s) = spanTokens s"
  by (simp add: tokensOfSpan_def toSpanRecord_def boundSpanRecord_def white_bound isWhite_def METADATA_WHITELIST_def spanTokens_def)

lemma record_type [simp]: "sr_type (toSpanRecord sfx now s) = sp_type s"
  by (simp add: toSpanRecord_def boundSpanRecord_def)

lemma span_types [simp]: "sp_type (spanStart now s) = sp_type s" "sp_type (spanEnd now st e s) = sp_type s" "sp_type (addMetadata m s) = sp_type s"
  "sp_type (newSpan i tr pa ty n) = ty" "sp_type (startChild now i ty n s) = ty"
  by (simp_all add: spanStart_def spanEnd_def addMetadata_def newSpan_def startChild_def)

lemma span_tokens [simp]: "spanTokens (spanStart now s) = spanTokens s" "spanTokens (spanEnd now st e s) = spanTokens s"
  "spanTokens (newSpan i tr pa ty n) = 0" "spanTokens (startChild now i ty n s) = 0"
  "spanTokens (addMetadata [(''modelName'', v)] s) = spanTokens s" "spanTokens (addMetadata [(''toolName'', v), (''callId'', w)] s) = spanTokens s"
  "spanTokens (addMetadata [(''promptTokens'', JNum p), (''completionTokens'', JNum c)] s) = p + c"
  by (simp_all add: spanTokens_def spanStart_def spanEnd_def addMetadata_def newSpan_def startChild_def numberOf_def update_conv')

lemma updLast_snoc: "xs \<noteq> [] \<Longrightarrow> updLast f xs = butlast xs @ [f (last xs)]"
  by (cases xs) (simp_all add: updLast_def)

definition traceSum :: "Span list \<Rightarrow> int" where
  "traceSum xs = sum_list (map spanTokens xs)"

definition countType :: "SpanType \<Rightarrow> Span list \<Rightarrow> nat" where
  "countType ty xs = length (filter (\<lambda>s. sp_type s = ty) xs)"

lemma updLast_measures:
  assumes "xs \<noteq> []"
  shows "(\<And>s. sp_type (f s) = sp_type s) \<Longrightarrow> countType ty (updLast f xs) = countType ty xs"
    and "traceSum (updLast f xs) = traceSum xs - spanTokens (last xs) + spanTokens (f (last xs))"
proof -
  have x: "xs = butlast xs @ [last xs]" using assms by simp
  show "(\<And>s. sp_type (f s) = sp_type s) \<Longrightarrow> countType ty (updLast f xs) = countType ty xs"
    by (subst (2) x) (simp add: updLast_snoc [OF assms] countType_def)
  show "traceSum (updLast f xs) = traceSum xs - spanTokens (last xs) + spanTokens (f (last xs))"
    by (subst (2) x) (simp add: updLast_snoc [OF assms] traceSum_def)
qed

lemma updLast_last [simp]: "xs \<noteq> [] \<Longrightarrow> last (updLast f xs) = f (last xs)" "updLast f xs = [] \<longleftrightarrow> xs = []"
  by (auto simp: updLast_def split: list.splits)

lemma traceOps_measures: "rt_spans t \<noteq> [] \<Longrightarrow> usageOnce fresh (map snd ps) \<Longrightarrow> (fresh \<Longrightarrow> spanTokens (last (rt_spans t)) = 0) \<Longrightarrow>
   rt_spans (traceOps nano failure ps t) \<noteq> [] \<and>
   traceSum (rt_spans (traceOps nano failure ps t)) = traceSum (rt_spans t) + int (usageOf (map snd ps)) \<and>
   (\<forall>ty. countType ty (rt_spans (traceOps nano failure ps t)) = countType ty (rt_spans t) + startsOf ty (map snd ps))"
proof (induction ps arbitrary: t fresh)
  case (Cons p ps)
  obtain now x where p: "p = (now, x)" by fastforce
  define u where "u = traceOp nano failure p t"
  have step: "rt_spans u \<noteq> [] \<and> traceSum (rt_spans u) = traceSum (rt_spans t) + int (usageOf [x]) \<and>
      (\<forall>ty. countType ty (rt_spans u) = countType ty (rt_spans t) + startsOf ty [x])"
    and nxt: "\<exists>f. usageOnce f (map snd ps) \<and> (f \<longrightarrow> spanTokens (last (rt_spans u)) = 0)"
    using Cons.prems
    by (cases x; auto simp: u_def p traceOp_def Let_def startModelCall_def startToolCall_def usageOf_def startsOf_def traceSum_def
        countType_def updLast_measures [unfolded traceSum_def countType_def])+
  obtain f where f: "usageOnce f (map snd ps)" "f \<Longrightarrow> spanTokens (last (rt_spans u)) = 0" using nxt by blast
  have "traceOps nano failure (p # ps) t = traceOps nano failure ps u" by (simp add: traceOps_def u_def)
  moreover have "usageOf (map snd (p # ps)) = usageOf [x] + usageOf (map snd ps)" "startsOf ty (map snd (p # ps)) = startsOf ty [x] + startsOf ty (map snd ps)" for ty
    by (simp_all add: p usageOf_def startsOf_def)
  ultimately show ?case using Cons.IH [of u f, OF _ f] step by auto
qed (simp_all add: traceOps_def usageOf_def startsOf_def)

lemma foldl_sum: "foldl (\<lambda>n s. n + f s) (b :: int) xs = b + sum_list (map f xs)"
  by (induction xs arbitrary: b) simp_all

text \<open>The metrics read back from the spans of a finished trace are those of the run: its model and tool
  calls are counted, and the token total is the sum of the usages recorded for its model calls, which the
  bounds on the metadata never cut.\<close>

theorem metrics_count_run:
  assumes "usageOnce True (map snd ps)"
  shows "let m = deriveRunMetrics (snd (finishTrace sfx now st err (traceOps nano failure ps (startRunTrace nano t0 runId)))) in
     rm_modelCallCount m = startsOf ModelCallSpan (map snd ps) \<and> rm_toolCallCount m = startsOf ToolCallSpan (map snd ps) \<and>
     rm_totalTokens m = int (usageOf (map snd ps))"
proof -
  let ?t = "traceOps nano failure ps (startRunTrace nano t0 runId)"
  have i: "rt_spans (startRunTrace nano t0 runId) \<noteq> []" "spanTokens (last (rt_spans (startRunTrace nano t0 runId))) = 0"
      "traceSum (rt_spans (startRunTrace nano t0 runId)) = 0" "countType ModelCallSpan (rt_spans (startRunTrace nano t0 runId)) = 0"
      "countType ToolCallSpan (rt_spans (startRunTrace nano t0 runId)) = 0"
    by (simp_all add: startRunTrace_def Let_def traceSum_def countType_def)
  have m: "rt_spans ?t \<noteq> []" "traceSum (rt_spans ?t) = int (usageOf (map snd ps))"
      "\<And>ty. countType ty (rt_spans ?t) = countType ty (rt_spans (startRunTrace nano t0 runId)) + startsOf ty (map snd ps)"
    using traceOps_measures [OF i(1) assms i(2), of nano failure] i(3) by auto
  obtain r cs where c: "rt_spans ?t = r # cs" using m(1) by (cases "rt_spans ?t") auto
  have l: "length (filter (\<lambda>s. sr_type s = ty) (map (toSpanRecord sfx now) xs)) = countType ty xs" for ty xs
    by (simp add: countType_def filter_map o_def)
  define xs where "xs = spanEnd now st err r # cs"
  have f: "snd (finishTrace sfx now st err ?t) = map (toSpanRecord sfx now) xs" by (simp add: finishTrace_def Let_def c xs_def)
  have "countType ty xs = countType ty (rt_spans ?t)" for ty by (simp add: c countType_def xs_def)
  moreover have "sum_list (map tokensOfSpan (map (toSpanRecord sfx now) xs)) = traceSum (rt_spans ?t)"
    by (simp add: c traceSum_def o_def xs_def)
  ultimately show ?thesis using m(2,3) i(4,5) l unfolding f by (simp add: deriveRunMetrics_def Let_def foldl_sum del: length_map map_map)
qed

theorem metrics_count_run_witness:
  "rm_totalTokens (deriveRunMetrics (snd (finishTrace [] 9 SpanOk None (traceOps (\<lambda>n. []) (\<lambda>_. \<lparr>sx_message = [], sx_code = None\<rparr>)
     [(1, StartModelCall ''m''), (2, ModelUsage 10 5), (2, EndModelCall True), (3, StartToolCall ''t'' ''c''), (4, EndToolCall ''c'' True),
      (5, StartModelCall ''m''), (6, ModelUsage 20 7), (6, EndModelCall True)] (startRunTrace (\<lambda>n. []) 0 ''r''))))) = 42"
  using metrics_count_run [where ps = "[(1, StartModelCall ''m''), (2, ModelUsage 10 5), (2, EndModelCall True), (3, StartToolCall ''t'' ''c''),
      (4, EndToolCall ''c'' True), (5, StartModelCall ''m''), (6, ModelUsage 20 7), (6, EndModelCall True)]"]
  by (simp add: Let_def usageOf_def)

end
