(* ===== verification/Api.thy ===== *)
theory Api
  imports Observability Database Effects
begin

text \<open>The REST API: the trace, API key, user, workspace and membership repositories (\<open>db/src/repositories/\<close>), the
  services (\<open>api/src/services/\<close>), the authentication hooks and error handler (\<open>api/src/middleware/\<close>) and the
  routes (\<open>api/src/routes/\<close>).

  A handler is a program over the tables.  Every query takes one step of the clock and may be refused by
  the database (\<open>ax_fault\<close>).  SHA-256, JWT signing and verification, URL validity and the run execution
  service (\<open>Run_Service\<close>) are parameters; what the API asks of the service is recorded.  A request body is
  the typed value that its schema produces, or nothing if it does not have the shape; the remaining checks
  are in the model.  The framework matches a request to its route by the path \<open>pathOf\<close>.\<close>

section \<open>Rows and state\<close>

record ApiKeyRecord =
  ak_apiKeyId :: string
  ak_workspaceId :: string
  ak_keyHash :: string
  ak_name :: string
  ak_createdAt :: nat
  ak_revokedAt :: "nat option"

record UserRecord =
  ur_userId :: string
  ur_cognitoSub :: string
  ur_email :: string
  ur_createdAt :: nat
  ur_updatedAt :: nat

record WorkspaceRecord =
  wr_workspaceId :: string
  wr_name :: string
  wr_createdAt :: nat

datatype MemberRole = Owner | Member

record UserWorkspaceRecord =
  uw_userId :: string
  uw_workspaceId :: string
  uw_role :: MemberRole
  uw_createdAt :: nat

record apiState =
  ap_db :: db
  ap_traces :: "TraceRecord list"
  ap_spans :: "SpanRecord list"
  ap_keys :: "ApiKeyRecord list"
  ap_users :: "UserRecord list"
  ap_workspaceRows :: "WorkspaceRecord list"
  ap_members :: "UserWorkspaceRecord list"
  ap_tick :: nat
  ap_ids :: nat
  ap_starts :: "(string \<times> string) list"
  ap_cancels :: "string list"

text \<open>The claims of a verified Cognito token; \<open>aud\<close> is a string or a list of strings.\<close>

record CognitoPayload =
  cp_tokenUse :: "string option"
  cp_aud :: "(string + string list) option"
  cp_sub :: "string option"
  cp_email :: "string option"

record apiEnv =
  ax_clock :: "nat \<Rightarrow> nat"
  ax_fault :: "nat \<Rightarrow> bool"
  ax_nano :: "nat \<Rightarrow> string"
  ax_nano40 :: "nat \<Rightarrow> string"
  ax_sha256 :: "string \<Rightarrow> string"
  ax_sign :: "nat \<Rightarrow> string \<Rightarrow> string \<Rightarrow> string list \<Rightarrow> string"
  ax_isUrl :: "string \<Rightarrow> bool"
  ax_start :: "nat \<Rightarrow> string \<Rightarrow> string \<Rightarrow> js_error + string"
  ax_cancel :: "nat \<Rightarrow> string \<Rightarrow> js_error + bool"
  ax_publicUrl :: string
  ax_dbm :: "db_violation \<Rightarrow> string"
  ax_jwt :: "string \<Rightarrow> CognitoPayload option"
  ax_clientId :: string

type_synonym 'a apiM = "(apiState, 'a) prog"

text \<open>One awaited query: it sees the time of its step, and is refused or takes effect.\<close>

definition call :: "apiEnv \<Rightarrow> (nat \<Rightarrow> apiState \<Rightarrow> js_error + 'a \<times> apiState) \<Rightarrow> 'a apiM" where
  "call env q = (\<lambda>s. let s1 = s\<lparr>ap_tick := Suc (ap_tick s)\<rparr> in
     if ax_fault env (ap_tick s) then (Throw (DbErr Unavailable), s1)
     else (case q (ax_clock env (ap_tick s)) s1 of Inl e \<Rightarrow> (Throw e, s1) | Inr (x, s2) \<Rightarrow> (Val x, s2)))"

definition dbCall :: "apiEnv \<Rightarrow> (nat \<Rightarrow> 'a query) \<Rightarrow> 'a apiM" where
  "dbCall env q = call env (\<lambda>now s. case q now (ap_db s) of Inl e \<Rightarrow> Inl e | Inr (x, d) \<Rightarrow> Inr (x, s\<lparr>ap_db := d\<rparr>))"

definition readCall :: "apiEnv \<Rightarrow> (apiState \<Rightarrow> 'a) \<Rightarrow> 'a apiM" where
  "readCall env f = call env (\<lambda>now s. Inr (f s, s))"

definition freshId :: "apiEnv \<Rightarrow> ((nat \<Rightarrow> string) \<Rightarrow> nat \<Rightarrow> string) \<Rightarrow> string apiM" where
  "freshId env gen = (\<lambda>s. (Val (gen (ax_nano env) (ap_ids s)), s\<lparr>ap_ids := Suc (ap_ids s)\<rparr>))"

section \<open>Repositories\<close>

definition apiKeys_create :: "apiEnv \<Rightarrow> string \<Rightarrow> string \<Rightarrow> string \<Rightarrow> string \<Rightarrow> ApiKeyRecord apiM" where
  "apiKeys_create env i w h n = call env (\<lambda>now s.
     if i \<in> ak_apiKeyId ` set (ap_keys s) then Inl (DbErr (UniqueViolation ''api_keys_pkey''))
     else if w \<notin> wr_workspaceId ` set (ap_workspaceRows s) then Inl (DbErr (ForeignKeyViolation ''api_keys_workspace_id''))
     else let r = \<lparr>ak_apiKeyId = i, ak_workspaceId = w, ak_keyHash = h, ak_name = n, ak_createdAt = now, ak_revokedAt = None\<rparr>
          in Inr (r, s\<lparr>ap_keys := ap_keys s @ [r]\<rparr>))"

definition apiKeys_getByKeyHash :: "apiEnv \<Rightarrow> string \<Rightarrow> ApiKeyRecord option apiM" where
  "apiKeys_getByKeyHash env h = readCall env (\<lambda>s. selectOne (\<lambda>k. ak_keyHash k = h) (ap_keys s))"

definition apiKeys_listByWorkspace :: "apiEnv \<Rightarrow> string \<Rightarrow> ApiKeyRecord list apiM" where
  "apiKeys_listByWorkspace env w = readCall env (\<lambda>s. filter (\<lambda>k. ak_workspaceId k = w) (ap_keys s))"

definition apiKeys_revoke :: "apiEnv \<Rightarrow> string \<Rightarrow> ApiKeyRecord option apiM" where
  "apiKeys_revoke env i = call env (\<lambda>now s. let p = (\<lambda>k. ak_apiKeyId k = i); f = (\<lambda>k. k\<lparr>ak_revokedAt := Some now\<rparr>)
     in Inr (firstRow (returning p f (ap_keys s)), s\<lparr>ap_keys := updateWhere p f (ap_keys s)\<rparr>))"

definition traces_getByRunId :: "apiEnv \<Rightarrow> string \<Rightarrow> TraceRecord option apiM" where
  "traces_getByRunId env r = readCall env (\<lambda>s. selectOne (\<lambda>t. tr_runId t = r) (ap_traces s))"

definition traces_getById :: "apiEnv \<Rightarrow> string \<Rightarrow> TraceRecord option apiM" where
  "traces_getById env i = readCall env (\<lambda>s. selectOne (\<lambda>t. tr_traceId t = i) (ap_traces s))"

definition traces_listSpans :: "apiEnv \<Rightarrow> string \<Rightarrow> SpanRecord list apiM" where
  "traces_listSpans env i = readCall env (\<lambda>s. sort_key sr_startedAt (filter (\<lambda>x. sr_traceId x = i) (ap_spans s)))"

text \<open>\<open>saveTraceWithSpans\<close>: one transaction.\<close>

definition traces_saveWithSpans :: "apiEnv \<Rightarrow> TraceRecord \<Rightarrow> SpanRecord list \<Rightarrow> unit apiM" where
  "traces_saveWithSpans env t spans = call env (\<lambda>now s.
     if tr_traceId t \<in> tr_traceId ` set (ap_traces s) then Inl (DbErr (UniqueViolation ''traces_pkey''))
     else if tr_runId t \<in> tr_runId ` set (ap_traces s) then Inl (DbErr (UniqueViolation ''traces_run_id_idx''))
     else if tr_runId t \<notin> ru_runId ` set (db_runs (ap_db s)) then Inl (DbErr (ForeignKeyViolation ''traces_run_id''))
     else if \<not> distinct (map sr_spanId (ap_spans s @ spans)) then Inl (DbErr (UniqueViolation ''trace_spans_pkey''))
     else if \<not> list_all (\<lambda>x. sr_traceId x \<in> tr_traceId ` set (t # ap_traces s)) spans then Inl (DbErr (ForeignKeyViolation ''trace_spans_trace_id''))
     else Inr ((), s\<lparr>ap_traces := ap_traces s @ [t], ap_spans := ap_spans s @ spans\<rparr>))"

section \<open>Errors\<close>

datatype apiReply = ErrorReply string string | HealthReply | AgentReply AgentRecord | AgentsReply "AgentRecord list"
  | SessionCreated string string string | SessionReply SessionRecord | MessagesReply "MessageRecord list" bool
  | RunReply RunRecord | ToolCallsReply "ToolCallRecord list" | AcceptedReply string string
  | TraceReply TraceRecord "SpanRecord list" | SpansReply "SpanRecord list" | MetricsReply string string RunMetrics

type_synonym response = "nat \<times> apiReply"

definition validationReply :: response where
  "validationReply = (400, ErrorReply ''VALIDATION'' ''Request validation failed'')"

text \<open>\<open>setErrorHandler\<close>: only a \<open>SwiftAgentError\<close> shows its message.\<close>

definition errorReply :: "apiEnv \<Rightarrow> js_error \<Rightarrow> response" where
  "errorReply env e = (case e of
      SwiftErr c m \<Rightarrow> (CODE_TO_STATUS c, ErrorReply (codeName c) m)
    | TimeoutErr sc n \<Rightarrow> (CODE_TO_STATUS TIMEOUT, ErrorReply (codeName TIMEOUT) (errMessage (ax_dbm env) e))
    | _ \<Rightarrow> (500, ErrorReply ''INTERNAL'' ''Internal server error''))"

section \<open>Agent service\<close>

record CreateAgentBody =
  cb_name :: string
  cb_modelConfig :: ModelConfig
  cb_systemPrompt :: string
  cb_memoryConfig :: "MemoryConfig option"
  cb_toolRunnerUrl :: "string option"
  cb_tools :: "ToolDefinition list option"

definition validAgentBody :: "apiEnv \<Rightarrow> CreateAgentBody \<Rightarrow> bool" where
  "validAgentBody env b = (cb_name b \<noteq> [] \<and> (case cb_toolRunnerUrl b of None \<Rightarrow> True | Some u \<Rightarrow> ax_isUrl env u))"

definition DEFAULT_MEMORY_CONFIG :: MemoryConfig where
  "DEFAULT_MEMORY_CONFIG = \<lparr>strategy = LastN, maxMessages = Some 50\<rparr>"

definition notFound :: "string \<Rightarrow> js_error" where
  "notFound m = SwiftErr NOT_FOUND m"

definition agentList :: "apiEnv \<Rightarrow> string \<Rightarrow> AgentRecord list apiM" where
  "agentList env w = dbCall env (\<lambda>_. agents_getByWorkspaceId w)"

definition orElse :: "'a option \<Rightarrow> 'a \<Rightarrow> 'a" where
  "orElse x y = (case x of None \<Rightarrow> y | Some v \<Rightarrow> v)"

definition registerOrUpdateAgent :: "apiEnv \<Rightarrow> string \<Rightarrow> CreateAgentBody \<Rightarrow> AgentRecord apiM" where
  "registerOrUpdateAgent env w b = mbind (dbCall env (\<lambda>_. agents_getByName w (cb_name b))) (\<lambda>existing. case existing of
      Some a \<Rightarrow> mbind (dbCall env (\<lambda>now. agents_update now (ag_agentId a)
          \<lparr>up_name = None, up_modelConfig = Some (cb_modelConfig b), up_systemPrompt = Some (cb_systemPrompt b),
           up_memoryConfig = Some (orElse (cb_memoryConfig b) (ag_memoryConfig a)), up_tools = Some (orElse (cb_tools b) (ag_tools a)),
           up_toolRunnerUrl = Some (case cb_toolRunnerUrl b of None \<Rightarrow> ag_toolRunnerUrl a | Some u \<Rightarrow> Some u)\<rparr>))
        (\<lambda>updated. case updated of None \<Rightarrow> throw (SwiftErr INTERNAL ''Failed to update agent'') | Some r \<Rightarrow> ret r)
    | None \<Rightarrow> mbind (freshId env generateAgentId) (\<lambda>i. dbCall env (\<lambda>now. agents_create now i w (cb_name b) (cb_modelConfig b)
          (cb_systemPrompt b) (orElse (cb_memoryConfig b) DEFAULT_MEMORY_CONFIG) (Some (orElse (cb_tools b) [])) (cb_toolRunnerUrl b))))"

definition agentById :: "apiEnv \<Rightarrow> string \<Rightarrow> string \<Rightarrow> AgentRecord apiM" where
  "agentById env w i = mbind (dbCall env (\<lambda>_. agents_getById i)) (\<lambda>a. case a of
      None \<Rightarrow> throw (notFound (''Agent '' @ i @ '' not found''))
    | Some a \<Rightarrow> if ag_workspaceId a \<noteq> w then throw (notFound (''Agent '' @ i @ '' not found'')) else ret a)"

definition agentByName :: "apiEnv \<Rightarrow> string \<Rightarrow> string \<Rightarrow> AgentRecord apiM" where
  "agentByName env w n = mbind (dbCall env (\<lambda>_. agents_getByName w n)) (\<lambda>a. case a of
      None \<Rightarrow> throw (notFound (''Agent \"'' @ n @ ''\" not found'')) | Some a \<Rightarrow> ret a)"

section \<open>Session service\<close>

definition runMissing :: "string \<Rightarrow> js_error" where
  "runMissing i = notFound (''Run '' @ i @ '' not found'')"

definition sessionMissing :: "string \<Rightarrow> js_error" where
  "sessionMissing i = notFound (''Session '' @ i @ '' not found'')"

definition assertRunOwnership :: "apiEnv \<Rightarrow> string \<Rightarrow> string \<Rightarrow> RunRecord apiM" where
  "assertRunOwnership env w i = mbind (dbCall env (\<lambda>_. runs_getById i)) (\<lambda>r. case r of
      None \<Rightarrow> throw (runMissing i)
    | Some run \<Rightarrow> mbind (dbCall env (\<lambda>_. sessions_getById (ru_sessionId run))) (\<lambda>x. case x of
        None \<Rightarrow> throw (runMissing i)
      | Some session \<Rightarrow> mthen (tryCatch (mthen (agentById env w (se_agentId session)) (ret ())) (\<lambda>_. throw (runMissing i))) (ret run)))"

definition createSession :: "apiEnv \<Rightarrow> string \<Rightarrow> string \<Rightarrow> string option \<Rightarrow> (string \<times> json) list option \<Rightarrow> (SessionRecord \<times> string) apiM" where
  "createSession env w agentName userId metadata = mbind (agentByName env w agentName) (\<lambda>a.
     mbind (freshId env generateSessionId) (\<lambda>i.
     mbind (dbCall env (\<lambda>now. sessions_create now i (ag_agentId a) userId (Some (orElse metadata [])))) (\<lambda>s. ret (s, ag_agentId a))))"

definition getSession :: "apiEnv \<Rightarrow> string \<Rightarrow> string \<Rightarrow> SessionRecord apiM" where
  "getSession env w i = mbind (dbCall env (\<lambda>_. sessions_getById i)) (\<lambda>x. case x of
      None \<Rightarrow> throw (sessionMissing i)
    | Some session \<Rightarrow> mthen (tryCatch (mthen (agentById env w (se_agentId session)) (ret ())) (\<lambda>_. throw (sessionMissing i))) (ret session))"

definition updateSession :: "apiEnv \<Rightarrow> string \<Rightarrow> string \<Rightarrow> SessionStatus option \<Rightarrow> SessionRecord apiM" where
  "updateSession env w i st = mthen (getSession env w i) (case st of
      Some x \<Rightarrow> mbind (dbCall env (\<lambda>now. sessions_updateStatus now i x)) (\<lambda>u. case u of
          None \<Rightarrow> throw (SwiftErr INTERNAL ''Failed to update session'') | Some r \<Rightarrow> ret r)
    | None \<Rightarrow> getSession env w i)"

definition findIndex :: "('a \<Rightarrow> bool) \<Rightarrow> 'a list \<Rightarrow> nat option" where
  "findIndex p xs = (let n = length (takeWhile (\<lambda>x. \<not> p x) xs) in if n < length xs then Some n else None)"

definition listMessages :: "apiEnv \<Rightarrow> string \<Rightarrow> nat \<Rightarrow> string option \<Rightarrow> MessageRecord list apiM" where
  "listMessages env sid lmt cursor = mbind (dbCall env (\<lambda>_. messages_listBySession sid)) (\<lambda>ms.
     case cursor of
       None \<Rightarrow> ret (take lmt ms)
     | Some c \<Rightarrow> if c = [] then ret (take lmt ms) else (case findIndex (\<lambda>m. me_messageId m = c) ms of
         None \<Rightarrow> throw (SwiftErr VALIDATION ''Invalid cursor'') | Some k \<Rightarrow> ret (take lmt (drop (Suc k) ms))))"

text \<open>A call of the run execution service, recorded when it is made.\<close>

definition startRunCall :: "apiEnv \<Rightarrow> string \<Rightarrow> string \<Rightarrow> string apiM" where
  "startRunCall env sid content = mthen (modify (\<lambda>s. s\<lparr>ap_starts := ap_starts s @ [(sid, content)]\<rparr>))
     (call env (\<lambda>now s. case ax_start env (ap_tick s) sid content of Inl e \<Rightarrow> Inl e | Inr rid \<Rightarrow> Inr (rid, s)))"

definition createRun :: "apiEnv \<Rightarrow> string \<Rightarrow> string \<Rightarrow> string \<Rightarrow> string apiM" where
  "createRun env w sid content = mthen (getSession env w sid) (startRunCall env sid content)"

definition cancelCall :: "apiEnv \<Rightarrow> string \<Rightarrow> bool apiM" where
  "cancelCall env rid = mthen (modify (\<lambda>s. s\<lparr>ap_cancels := ap_cancels s @ [rid]\<rparr>))
     (call env (\<lambda>now s. case ax_cancel env (ap_tick s) rid of Inl e \<Rightarrow> Inl e | Inr b \<Rightarrow> Inr (b, s)))"

definition getRunToolCalls :: "apiEnv \<Rightarrow> string \<Rightarrow> string \<Rightarrow> ToolCallRecord list apiM" where
  "getRunToolCalls env w rid = mthen (assertRunOwnership env w rid) (dbCall env (\<lambda>_. toolCalls_listByRun rid))"

definition requestCancelRun :: "apiEnv \<Rightarrow> string \<Rightarrow> string \<Rightarrow> bool apiM" where
  "requestCancelRun env w rid = mthen (assertRunOwnership env w rid) (cancelCall env rid)"

end
