(* ===== verification/Api_Routes.thy ===== *)
theory Api_Routes
  imports Api
begin

text \<open>The authentication hook and the routes of the REST API (\<open>api/src/middleware/auth.ts\<close>, \<open>api/src/routes/\<close>) and
  what they promise: replies of the route's type, and the isolation of workspaces.\<close>

section \<open>Authentication\<close>

definition SKIP_AUTH_PATHS :: "string list" where
  "SKIP_AUTH_PATHS = [''/health'', ''/v1/health'', ''/v1/stream'']"

definition SKIP_AUTH_PREFIXES :: "string list" where
  "SKIP_AUTH_PREFIXES = [''/v1/management'']"

definition requestPath :: "string \<Rightarrow> string" where
  "requestPath url = takeWhile (\<lambda>c. c \<noteq> CHR ''?'') url"

definition skipsAuth :: "string \<Rightarrow> bool" where
  "skipsAuth url = (requestPath url \<in> set SKIP_AUTH_PATHS \<or> list_ex (\<lambda>p. startsWith p (requestPath url)) SKIP_AUTH_PREFIXES)"

definition authHook :: "apiEnv \<Rightarrow> string \<Rightarrow> string option \<Rightarrow> ApiKeyRecord option apiM" where
  "authHook env url header = (if skipsAuth url then ret None
     else (case header of
         None \<Rightarrow> throw (SwiftErr UNAUTHORIZED ''Missing or invalid Authorization header'')
       | Some h \<Rightarrow> if \<not> startsWith ''Bearer '' h then throw (SwiftErr UNAUTHORIZED ''Missing or invalid Authorization header'')
           else let token = drop 7 h in if token = [] then throw (SwiftErr UNAUTHORIZED ''Missing API key'')
           else mbind (apiKeys_getByKeyHash env (ax_sha256 env token)) (\<lambda>k. case k of
               None \<Rightarrow> throw (SwiftErr UNAUTHORIZED ''Invalid or revoked API key'')
             | Some key \<Rightarrow> if ak_revokedAt key \<noteq> None then throw (SwiftErr UNAUTHORIZED ''Invalid or revoked API key'') else ret (Some key))))"

section \<open>Routes\<close>

record CreateSessionBody =
  sb_agentName :: string
  sb_userId :: "string option"
  sb_metadata :: "(string \<times> json) list option"

datatype apiRequest = GetHealth | PostAgents "CreateAgentBody option" | GetAgentById string | GetAgents "string option"
  | PostSessions "CreateSessionBody option" | GetSessionById string | PatchSession string "SessionStatus option option"
  | GetMessages string "(int \<times> string option) option" | PostRun string "string option" | GetRunById string | GetToolCalls string
  | PostCancel string | GetTrace string | GetSpans string | GetMetrics string

definition pathOf :: "apiRequest \<Rightarrow> string" where
  "pathOf req = (case req of
      GetHealth \<Rightarrow> ''/v1/health'' | PostAgents b \<Rightarrow> ''/v1/agents'' | GetAgentById i \<Rightarrow> ''/v1/agents/'' @ i
    | GetAgents n \<Rightarrow> ''/v1/agents'' @ (case n of None \<Rightarrow> [] | Some x \<Rightarrow> ''?name='' @ x) | PostSessions b \<Rightarrow> ''/v1/sessions''
    | GetSessionById i \<Rightarrow> ''/v1/sessions/'' @ i | PatchSession i b \<Rightarrow> ''/v1/sessions/'' @ i | GetMessages i q \<Rightarrow> ''/v1/sessions/'' @ i @ ''/messages''
    | PostRun i b \<Rightarrow> ''/v1/sessions/'' @ i @ ''/runs'' | GetRunById i \<Rightarrow> ''/v1/runs/'' @ i | GetToolCalls i \<Rightarrow> ''/v1/runs/'' @ i @ ''/tool-calls''
    | PostCancel i \<Rightarrow> ''/v1/runs/'' @ i @ ''/cancel'' | GetTrace i \<Rightarrow> ''/v1/runs/'' @ i @ ''/trace'' | GetSpans i \<Rightarrow> ''/v1/traces/'' @ i @ ''/spans''
    | GetMetrics i \<Rightarrow> ''/v1/runs/'' @ i @ ''/metrics'')"

definition postAgents :: "apiEnv \<Rightarrow> string \<Rightarrow> CreateAgentBody option \<Rightarrow> response apiM" where
  "postAgents env w body = (case body of None \<Rightarrow> ret validationReply
    | Some b \<Rightarrow> if \<not> validAgentBody env b then ret validationReply
        else mbind (registerOrUpdateAgent env w b) (\<lambda>a.
          ret (if \<bar>int (ag_updatedAt a) - int (ag_createdAt a)\<bar> < 1000 then 201 else 200, AgentReply a)))"

definition getAgents :: "apiEnv \<Rightarrow> string \<Rightarrow> string option \<Rightarrow> response apiM" where
  "getAgents env w name = (if name = None \<or> name = Some [] then mbind (agentList env w) (\<lambda>as. ret (200, AgentsReply as))
     else mbind (agentByName env w (orElse name [])) (\<lambda>a. ret (200, AgentReply a)))"

text \<open>\<open>signClientToken\<close>: a client token for the session with permission to chat, 15 minutes from now.\<close>

definition signClientToken :: "apiEnv \<Rightarrow> string \<Rightarrow> string \<Rightarrow> string apiM" where
  "signClientToken env sid aid = gets (\<lambda>s. ax_sign env (ax_clock env (ap_tick s) div 1000 + 900) sid aid [''chat''])"

definition postSessions :: "apiEnv \<Rightarrow> string \<Rightarrow> CreateSessionBody option \<Rightarrow> response apiM" where
  "postSessions env w body = (case body of None \<Rightarrow> ret validationReply
    | Some b \<Rightarrow> if sb_agentName b = [] \<or> sb_userId b = Some [] then ret validationReply
        else mbind (createSession env w (sb_agentName b) (sb_userId b) (sb_metadata b)) (\<lambda>(session, agentId).
          mbind (signClientToken env (se_sessionId session) agentId) (\<lambda>token.
            ret (201, SessionCreated (se_sessionId session) token (ax_publicUrl env @ ''?token='' @ token)))))"

definition patchSession :: "apiEnv \<Rightarrow> string \<Rightarrow> string \<Rightarrow> SessionStatus option option \<Rightarrow> response apiM" where
  "patchSession env w i body = (case body of None \<Rightarrow> ret validationReply
    | Some st \<Rightarrow> mbind (updateSession env w i st) (\<lambda>x. ret (200, SessionReply x)))"

definition getMessages :: "apiEnv \<Rightarrow> string \<Rightarrow> string \<Rightarrow> (int \<times> string option) option \<Rightarrow> response apiM" where
  "getMessages env w i query = mthen (getSession env w i) (case query of None \<Rightarrow> ret validationReply
    | Some (lmt, cursor) \<Rightarrow> if lmt < 1 \<or> 100 < lmt then ret validationReply
        else mbind (listMessages env i (nat lmt) cursor) (\<lambda>ms. ret (200, MessagesReply ms (int (length ms) = lmt))))"

definition postRun :: "apiEnv \<Rightarrow> string \<Rightarrow> string \<Rightarrow> string option \<Rightarrow> response apiM" where
  "postRun env w i body = (case body of None \<Rightarrow> ret validationReply
    | Some content \<Rightarrow> if content = [] then ret validationReply
        else mbind (createRun env w i content) (\<lambda>rid. ret (202, AcceptedReply rid ''running'')))"

definition traceMissing :: "string \<Rightarrow> response" where
  "traceMissing i = (404, ErrorReply ''NOT_FOUND'' (''No trace found for run '' @ i))"

definition getTrace :: "apiEnv \<Rightarrow> string \<Rightarrow> string \<Rightarrow> response apiM" where
  "getTrace env w i = mthen (assertRunOwnership env w i) (mbind (traces_getByRunId env i) (\<lambda>t. case t of
      None \<Rightarrow> ret (traceMissing i)
    | Some tr \<Rightarrow> mbind (traces_listSpans env (tr_traceId tr)) (\<lambda>spans. ret (200, TraceReply tr spans))))"

definition getSpans :: "apiEnv \<Rightarrow> string \<Rightarrow> string \<Rightarrow> response apiM" where
  "getSpans env w i = mbind (traces_getById env i) (\<lambda>t. case t of
      None \<Rightarrow> ret (404, ErrorReply ''NOT_FOUND'' (''Trace '' @ i @ '' not found''))
    | Some tr \<Rightarrow> mthen (assertRunOwnership env w (tr_runId tr)) (mbind (traces_listSpans env i) (\<lambda>spans. ret (200, SpansReply spans))))"

text \<open>\<open>RunMetricsResponseSchema\<close> refuses negative latencies and token counts.\<close>

definition metricsOk :: "RunMetrics \<Rightarrow> bool" where
  "metricsOk m = (0 \<le> rm_totalModelLatencyMs m \<and> 0 \<le> rm_totalToolLatencyMs m \<and> 0 \<le> rm_totalTokens m)"

definition getMetrics :: "apiEnv \<Rightarrow> string \<Rightarrow> string \<Rightarrow> response apiM" where
  "getMetrics env w i = mbind (assertRunOwnership env w i) (\<lambda>run. mbind (traces_getByRunId env i) (\<lambda>t. case t of
      None \<Rightarrow> ret (traceMissing i)
    | Some tr \<Rightarrow> mbind (traces_listSpans env (tr_traceId tr)) (\<lambda>spans.
        let m = deriveRunMetrics spans; rowTokens = (case ru_tokenUsage run of None \<Rightarrow> 0 | Some u \<Rightarrow> totalTokens u);
            m' = (if rm_totalTokens m = 0 \<and> 0 < rowTokens then m\<lparr>rm_totalTokens := int rowTokens\<rparr> else m) in
        ret (if metricsOk m' then (200, MetricsReply i (tr_traceId tr) m') else validationReply))))"

definition apiRoute :: "apiEnv \<Rightarrow> string \<Rightarrow> apiRequest \<Rightarrow> response apiM" where
  "apiRoute env w req = (case req of
      GetHealth \<Rightarrow> ret (200, HealthReply)
    | PostAgents b \<Rightarrow> postAgents env w b
    | GetAgentById i \<Rightarrow> mbind (agentById env w i) (\<lambda>a. ret (200, AgentReply a))
    | GetAgents n \<Rightarrow> getAgents env w n
    | PostSessions b \<Rightarrow> postSessions env w b
    | GetSessionById i \<Rightarrow> mbind (getSession env w i) (\<lambda>x. ret (200, SessionReply x))
    | PatchSession i b \<Rightarrow> patchSession env w i b
    | GetMessages i q \<Rightarrow> getMessages env w i q
    | PostRun i b \<Rightarrow> postRun env w i b
    | GetRunById i \<Rightarrow> mbind (assertRunOwnership env w i) (\<lambda>r. ret (200, RunReply r))
    | GetToolCalls i \<Rightarrow> mbind (getRunToolCalls env w i) (\<lambda>ts. ret (200, ToolCallsReply ts))
    | PostCancel i \<Rightarrow> mthen (requestCancelRun env w i) (ret (202, AcceptedReply i ''cancelling''))
    | GetTrace i \<Rightarrow> getTrace env w i
    | GetSpans i \<Rightarrow> getSpans env w i
    | GetMetrics i \<Rightarrow> getMetrics env w i)"

text \<open>The whole request: hook, handler, error handler.  A handler behind a skipped hook has no workspace; only the
  health route is one.\<close>

definition handleApi :: "apiEnv \<Rightarrow> string option \<Rightarrow> apiRequest \<Rightarrow> response apiM" where
  "handleApi env header req = tryCatch
     (mbind (authHook env (pathOf req) header) (\<lambda>k. apiRoute env (case k of None \<Rightarrow> ''undefined'' | Some key \<Rightarrow> ak_workspaceId key) req))
     (\<lambda>e. ret (errorReply env e))"

section \<open>Every reply has its route's type\<close>

definition errorCodes :: "SwiftAgentErrorCode list" where
  "errorCodes = [VALIDATION, NOT_FOUND, CONFLICT, RATE_LIMIT, PROVIDER_ERROR, UNAUTHORIZED, FORBIDDEN, INTERNAL, TIMEOUT,
     CONNECTION_ERROR, INCOMPATIBLE_VERSION]"

lemma errorCodes_all: "c \<in> set errorCodes"
  by (cases c) (simp_all add: errorCodes_def)

text \<open>A known code with the status it stands for.\<close>

definition errorTyped :: "nat \<Rightarrow> string \<Rightarrow> bool" where
  "errorTyped st code = list_ex (\<lambda>c. codeName c = code \<and> CODE_TO_STATUS c = st) errorCodes"

lemma errorTyped_code [simp]: "errorTyped (CODE_TO_STATUS c) (codeName c)"
  using errorCodes_all [of c] by (auto simp: errorTyped_def list_ex_iff)

lemma errorTyped_literal [simp]: "errorTyped 400 ''VALIDATION''" "errorTyped 404 ''NOT_FOUND''" "errorTyped 500 ''INTERNAL''"
  using errorTyped_code [of VALIDATION] errorTyped_code [of NOT_FOUND] errorTyped_code [of INTERNAL]
  by (simp_all add: CODE_TO_STATUS_def codeName_def)

definition repliesWith :: "apiRequest \<Rightarrow> nat \<Rightarrow> apiReply \<Rightarrow> bool" where
  "repliesWith req st r = (case r of ErrorReply c m \<Rightarrow> errorTyped st c
    | HealthReply \<Rightarrow> st = 200 \<and> req = GetHealth
    | AgentReply a \<Rightarrow> (case req of PostAgents b \<Rightarrow> st \<in> {200, 201} | GetAgentById i \<Rightarrow> st = 200 \<and> ag_agentId a = i
        | GetAgents n \<Rightarrow> st = 200 \<and> n = Some (ag_name a) | _ \<Rightarrow> False)
    | AgentsReply as \<Rightarrow> st = 200 \<and> (req = GetAgents None \<or> req = GetAgents (Some []))
    | SessionCreated i t u \<Rightarrow> (case req of PostSessions b \<Rightarrow> st = 201 | _ \<Rightarrow> False)
    | SessionReply x \<Rightarrow> st = 200 \<and> (case req of GetSessionById i \<Rightarrow> se_sessionId x = i | PatchSession i b \<Rightarrow> se_sessionId x = i | _ \<Rightarrow> False)
    | MessagesReply ms hasMore \<Rightarrow> st = 200 \<and> (case req of GetMessages i q \<Rightarrow> list_all (\<lambda>m. me_sessionId m = i) ms \<and> length ms \<le> 100 | _ \<Rightarrow> False)
    | RunReply x \<Rightarrow> st = 200 \<and> req = GetRunById (ru_runId x)
    | ToolCallsReply ts \<Rightarrow> st = 200 \<and> (case req of GetToolCalls i \<Rightarrow> list_all (\<lambda>t. tc_runId t = i) ts | _ \<Rightarrow> False)
    | AcceptedReply rid status \<Rightarrow> st = 202 \<and> (case req of PostRun i b \<Rightarrow> status = ''running'' | PostCancel i \<Rightarrow> rid = i \<and> status = ''cancelling'' | _ \<Rightarrow> False)
    | TraceReply t spans \<Rightarrow> st = 200 \<and> req = GetTrace (tr_runId t) \<and> list_all (\<lambda>x. sr_traceId x = tr_traceId t) spans
    | SpansReply spans \<Rightarrow> st = 200 \<and> (case req of GetSpans i \<Rightarrow> list_all (\<lambda>x. sr_traceId x = i) spans | _ \<Rightarrow> False)
    | MetricsReply rid t m \<Rightarrow> st = 200 \<and> req = GetMetrics rid \<and> metricsOk m)"

end
