(* ===== verification/Management.thy ===== *)
theory Management
  imports Api_Routes
begin

text \<open>The management API under \<open>/v1/management\<close>: the Cognito hook (\<open>api/src/middleware/cognito-auth.ts\<close>), the user,
  workspace and membership repositories, just-in-time provisioning and the routes of \<open>api/src/routes/management/\<close>,
  over the state of \<open>Api\<close>.  Verification of the token's signature, issuer and expiry is the parameter \<open>ax_jwt\<close>.\<close>

section \<open>Repositories\<close>

definition users_create :: "apiEnv \<Rightarrow> string \<Rightarrow> string \<Rightarrow> string \<Rightarrow> UserRecord apiM" where
  "users_create env i sub email = call env (\<lambda>now s.
     if i \<in> ur_userId ` set (ap_users s) then Inl (DbErr (UniqueViolation ''users_pkey''))
     else if sub \<in> ur_cognitoSub ` set (ap_users s) then Inl (DbErr (UniqueViolation ''users_cognito_sub_unique''))
     else let r = \<lparr>ur_userId = i, ur_cognitoSub = sub, ur_email = email, ur_createdAt = now, ur_updatedAt = now\<rparr>
          in Inr (r, s\<lparr>ap_users := ap_users s @ [r]\<rparr>))"

definition users_getByCognitoSub :: "apiEnv \<Rightarrow> string \<Rightarrow> UserRecord option apiM" where
  "users_getByCognitoSub env sub = readCall env (\<lambda>s. selectOne (\<lambda>u. ur_cognitoSub u = sub) (ap_users s))"

definition workspaces_create :: "apiEnv \<Rightarrow> string \<Rightarrow> string \<Rightarrow> WorkspaceRecord apiM" where
  "workspaces_create env i n = call env (\<lambda>now s.
     if i \<in> wr_workspaceId ` set (ap_workspaceRows s) then Inl (DbErr (UniqueViolation ''workspaces_pkey''))
     else let r = \<lparr>wr_workspaceId = i, wr_name = n, wr_createdAt = now\<rparr>
          in Inr (r, s\<lparr>ap_workspaceRows := ap_workspaceRows s @ [r], ap_db := (ap_db s)\<lparr>db_workspaces := db_workspaces (ap_db s) @ [i]\<rparr>\<rparr>))"

definition workspaces_getById :: "apiEnv \<Rightarrow> string \<Rightarrow> WorkspaceRecord option apiM" where
  "workspaces_getById env i = readCall env (\<lambda>s. selectOne (\<lambda>w. wr_workspaceId w = i) (ap_workspaceRows s))"

definition isMember :: "string \<Rightarrow> string \<Rightarrow> apiState \<Rightarrow> bool" where
  "isMember u w s = list_ex (\<lambda>m. uw_userId m = u \<and> uw_workspaceId m = w) (ap_members s)"

definition members_create :: "apiEnv \<Rightarrow> string \<Rightarrow> string \<Rightarrow> MemberRole \<Rightarrow> UserWorkspaceRecord apiM" where
  "members_create env u w ro = call env (\<lambda>now s.
     if isMember u w s then Inl (DbErr (UniqueViolation ''user_workspaces_user_id_workspace_id_pk''))
     else if u \<notin> ur_userId ` set (ap_users s) then Inl (DbErr (ForeignKeyViolation ''user_workspaces_user_id''))
     else if w \<notin> wr_workspaceId ` set (ap_workspaceRows s) then Inl (DbErr (ForeignKeyViolation ''user_workspaces_workspace_id''))
     else let r = \<lparr>uw_userId = u, uw_workspaceId = w, uw_role = ro, uw_createdAt = now\<rparr> in Inr (r, s\<lparr>ap_members := ap_members s @ [r]\<rparr>))"

definition members_isMember :: "apiEnv \<Rightarrow> string \<Rightarrow> string \<Rightarrow> bool apiM" where
  "members_isMember env u w = readCall env (isMember u w)"

definition members_listByUserId :: "apiEnv \<Rightarrow> string \<Rightarrow> UserWorkspaceRecord list apiM" where
  "members_listByUserId env u = readCall env (\<lambda>s. sort_key uw_createdAt (filter (\<lambda>m. uw_userId m = u) (ap_members s)))"

section \<open>Authentication\<close>

definition mgmtUnauthorized :: "string \<Rightarrow> js_error" where
  "mgmtUnauthorized m = SwiftErr UNAUTHORIZED m"

definition tokenUseText :: "string option \<Rightarrow> string" where
  "tokenUseText t = (case t of None \<Rightarrow> ''a token with no token_use claim'' | Some u \<Rightarrow>
     if u = [] then ''a token with no token_use claim'' else ''token_use \"'' @ u @ ''\"'')"

definition audienceOk :: "apiEnv \<Rightarrow> CognitoPayload \<Rightarrow> bool" where
  "audienceOk env p = (case cp_aud p of None \<Rightarrow> False | Some (Inl a) \<Rightarrow> a = ax_clientId env | Some (Inr as) \<Rightarrow> ax_clientId env \<in> set as)"

definition presentClaim :: "string option \<Rightarrow> bool" where
  "presentClaim x = (case x of None \<Rightarrow> False | Some y \<Rightarrow> y \<noteq> [])"

definition cognitoAuth :: "apiEnv \<Rightarrow> string option \<Rightarrow> js_error + string \<times> string" where
  "cognitoAuth env header = (case header of None \<Rightarrow> Inl (mgmtUnauthorized ''Missing or invalid Authorization header'')
    | Some h \<Rightarrow> if \<not> startsWith ''Bearer '' h then Inl (mgmtUnauthorized ''Missing or invalid Authorization header'')
      else if drop 7 h = [] then Inl (mgmtUnauthorized ''Missing bearer token'')
      else (case ax_jwt env (drop 7 h) of None \<Rightarrow> Inl (mgmtUnauthorized ''Invalid or expired token'')
        | Some p \<Rightarrow> if cp_tokenUse p \<noteq> Some ''id''
              then Inl (mgmtUnauthorized (''Expected a Cognito ID token (token_use \"id\"), received '' @ tokenUseText (cp_tokenUse p)))
            else if \<not> audienceOk env p then Inl (mgmtUnauthorized ''Invalid token audience'')
            else if \<not> presentClaim (cp_sub p) then Inl (mgmtUnauthorized ''Token missing sub claim'')
            else if \<not> presentClaim (cp_email p) then Inl (mgmtUnauthorized ''Token missing email claim'')
            else Inr (orElse (cp_sub p) [], orElse (cp_email p) [])))"

section \<open>Routes\<close>

text \<open>\<open>resolveOrCreateUser\<close>: a lost race for the insert is answered by reading again.\<close>

definition resolveOrCreateUser :: "apiEnv \<Rightarrow> string \<Rightarrow> string \<Rightarrow> UserRecord apiM" where
  "resolveOrCreateUser env sub email = mbind (users_getByCognitoSub env sub) (\<lambda>existing. case existing of
      Some u \<Rightarrow> ret u
    | None \<Rightarrow> tryCatch (mbind (freshId env (\<lambda>nano. prefixedId nano PREFIX_USER)) (\<lambda>i. users_create env i sub email))
        (\<lambda>_. mbind (users_getByCognitoSub env sub) (\<lambda>u. case u of
            None \<Rightarrow> throw (SwiftErr INTERNAL ''Failed to provision user'') | Some r \<Rightarrow> ret r)))"

definition notMember :: js_error where
  "notMember = SwiftErr FORBIDDEN ''Not a member of this workspace''"

definition ensureMember :: "apiEnv \<Rightarrow> string \<Rightarrow> string \<Rightarrow> unit apiM" where
  "ensureMember env u w = mbind (members_isMember env u w) (\<lambda>b. if b then ret () else throw notMember)"

record ApiKeyView =
  kv_apiKeyId :: string
  kv_name :: string
  kv_createdAt :: nat
  kv_revokedAt :: "nat option"

definition keyView :: "ApiKeyRecord \<Rightarrow> ApiKeyView" where
  "keyView k = \<lparr>kv_apiKeyId = ak_apiKeyId k, kv_name = ak_name k, kv_createdAt = ak_createdAt k, kv_revokedAt = ak_revokedAt k\<rparr>"

datatype mgmtRequest = GetMe | PostWorkspace "string option" | GetWorkspaces | GetWorkspace string
  | PostKey string "string option" | GetKeys string | DeleteKey string string

datatype mgmtReply = MgmtError string string | UserReply UserRecord | WorkspaceReply WorkspaceRecord | WorkspacesReply "WorkspaceRecord list"
  | KeyCreated ApiKeyView string | KeysReply "ApiKeyView list" | NoContent

definition mgmtError :: "response \<Rightarrow> nat \<times> mgmtReply" where
  "mgmtError r = (fst r, case snd r of ErrorReply c m \<Rightarrow> MgmtError c m | _ \<Rightarrow> NoContent)"

text \<open>\<open>z.string().min(1).max(100)\<close>\<close>

definition validName :: "string option \<Rightarrow> bool" where
  "validName b = (case b of None \<Rightarrow> False | Some n \<Rightarrow> 1 \<le> length n \<and> length n \<le> 100)"

definition postWorkspace :: "apiEnv \<Rightarrow> string \<Rightarrow> string \<Rightarrow> string option \<Rightarrow> (nat \<times> mgmtReply) apiM" where
  "postWorkspace env sub email body = (if \<not> validName body then ret (mgmtError validationReply)
     else mbind (resolveOrCreateUser env sub email) (\<lambda>user.
       mbind (freshId env (\<lambda>nano. prefixedId nano PREFIX_WORKSPACE)) (\<lambda>w.
       mbind (workspaces_create env w (orElse body [])) (\<lambda>row.
       mthen (members_create env (ur_userId user) w Owner) (ret (201, WorkspaceReply row))))))"

primrec readAll :: "('a \<Rightarrow> 'b apiM) \<Rightarrow> 'a list \<Rightarrow> 'b list apiM" where
  "readAll f [] = ret []"
| "readAll f (x # xs) = mbind (f x) (\<lambda>y. mbind (readAll f xs) (\<lambda>ys. ret (y # ys)))"

definition getWorkspaces :: "apiEnv \<Rightarrow> string \<Rightarrow> string \<Rightarrow> (nat \<times> mgmtReply) apiM" where
  "getWorkspaces env sub email = mbind (resolveOrCreateUser env sub email) (\<lambda>user.
     mbind (members_listByUserId env (ur_userId user)) (\<lambda>ms.
     mbind (readAll (\<lambda>m. workspaces_getById env (uw_workspaceId m)) ms) (\<lambda>ws. ret (200, WorkspacesReply (concat (map (\<lambda>w. case w of None \<Rightarrow> [] | Some r \<Rightarrow> [r]) ws))))))"

definition getWorkspace :: "apiEnv \<Rightarrow> string \<Rightarrow> string \<Rightarrow> string \<Rightarrow> (nat \<times> mgmtReply) apiM" where
  "getWorkspace env sub email w = mbind (resolveOrCreateUser env sub email) (\<lambda>user.
     mthen (ensureMember env (ur_userId user) w) (mbind (workspaces_getById env w) (\<lambda>row. case row of
       None \<Rightarrow> throw (SwiftErr NOT_FOUND ''Workspace not found'') | Some r \<Rightarrow> ret (200, WorkspaceReply r))))"

definition rawKeyOf :: "apiEnv \<Rightarrow> nat \<Rightarrow> string" where
  "rawKeyOf env n = ''ak_'' @ ax_nano40 env n"

definition postKey :: "apiEnv \<Rightarrow> string \<Rightarrow> string \<Rightarrow> string \<Rightarrow> string option \<Rightarrow> (nat \<times> mgmtReply) apiM" where
  "postKey env sub email w body = (if \<not> validName body then ret (mgmtError validationReply)
     else mbind (resolveOrCreateUser env sub email) (\<lambda>user. mthen (ensureMember env (ur_userId user) w)
       (mbind (freshId env (\<lambda>_ n. rawKeyOf env n)) (\<lambda>rawKey.
        mbind (freshId env (\<lambda>nano. prefixedId nano PREFIX_API_KEY)) (\<lambda>i.
        mbind (apiKeys_create env i w (ax_sha256 env rawKey) (orElse body [])) (\<lambda>k. ret (201, KeyCreated (keyView k) rawKey)))))))"

definition getKeys :: "apiEnv \<Rightarrow> string \<Rightarrow> string \<Rightarrow> string \<Rightarrow> (nat \<times> mgmtReply) apiM" where
  "getKeys env sub email w = mbind (resolveOrCreateUser env sub email) (\<lambda>user. mthen (ensureMember env (ur_userId user) w)
     (mbind (apiKeys_listByWorkspace env w) (\<lambda>ks. ret (200, KeysReply (map keyView ks)))))"

definition deleteKey :: "apiEnv \<Rightarrow> string \<Rightarrow> string \<Rightarrow> string \<Rightarrow> string \<Rightarrow> (nat \<times> mgmtReply) apiM" where
  "deleteKey env sub email w i = mbind (resolveOrCreateUser env sub email) (\<lambda>user. mthen (ensureMember env (ur_userId user) w)
     (mbind (apiKeys_listByWorkspace env w) (\<lambda>ks.
        if \<not> list_ex (\<lambda>k. ak_apiKeyId k = i) ks then throw (SwiftErr NOT_FOUND ''API key not found in this workspace'')
        else mbind (apiKeys_revoke env i) (\<lambda>r. case r of None \<Rightarrow> throw (SwiftErr NOT_FOUND ''API key not found'') | Some k \<Rightarrow> ret (204, NoContent)))))"

definition mgmtRoute :: "apiEnv \<Rightarrow> string \<Rightarrow> string \<Rightarrow> mgmtRequest \<Rightarrow> (nat \<times> mgmtReply) apiM" where
  "mgmtRoute env sub email req = (case req of
      GetMe \<Rightarrow> mbind (resolveOrCreateUser env sub email) (\<lambda>u. ret (200, UserReply u))
    | PostWorkspace b \<Rightarrow> postWorkspace env sub email b
    | GetWorkspaces \<Rightarrow> getWorkspaces env sub email
    | GetWorkspace w \<Rightarrow> getWorkspace env sub email w
    | PostKey w b \<Rightarrow> postKey env sub email w b
    | GetKeys w \<Rightarrow> getKeys env sub email w
    | DeleteKey w i \<Rightarrow> deleteKey env sub email w i)"

definition handleManagement :: "apiEnv \<Rightarrow> string option \<Rightarrow> mgmtRequest \<Rightarrow> (nat \<times> mgmtReply) apiM" where
  "handleManagement env header req = tryCatch
     (case cognitoAuth env header of Inl e \<Rightarrow> throw e | Inr (sub, email) \<Rightarrow> mgmtRoute env sub email req)
     (\<lambda>e. ret (mgmtError (errorReply env e)))"

end
