(* ===== verification/Api_Props.thy ===== *)
theory Api_Props
  imports Api_Routes
begin

text \<open>What the REST API promises: replies of the route's type, the isolation of workspaces, and pages of
  messages that lose nothing.

  The locale \<open>state_triples\<close> is the interface of the proofs: a relation between the states before and after
  that every step keeps, with a precondition and a postcondition on the value.  It is interpreted on the
  relation \<open>apart\<close>, what a request of a workspace may change.\<close>

section \<open>Triples over a state_triples relation\<close>

locale state_triples = state_relation R for R :: "'s \<Rightarrow> 's \<Rightarrow> bool"
begin

definition hold :: "('s \<Rightarrow> bool) \<Rightarrow> ('s, 'a) prog \<Rightarrow> ('a \<Rightarrow> 's \<Rightarrow> bool) \<Rightarrow> bool" where
  "hold P m Q = (\<forall>s. P s \<longrightarrow> wp m (\<lambda>r s'. R s s' \<and> (case r of Val x \<Rightarrow> Q x s' | Throw e \<Rightarrow> True | Torn \<Rightarrow> False)) s)"

lemma hold_ret: "(\<And>s. P s \<Longrightarrow> Q x s) \<Longrightarrow> hold P (ret x) Q"
  by (simp add: hold_def wp_simps refl)

lemma hold_throw: "hold P (throw e) Q"
  by (simp add: hold_def wp_simps refl)

lemma hold_gets: "(\<And>s. P s \<Longrightarrow> Q (f s) s) \<Longrightarrow> hold P (gets f) Q"
  by (simp add: hold_def wp_simps refl)

lemma hold_modify: "(\<And>s. P s \<Longrightarrow> R s (f s) \<and> Q () (f s)) \<Longrightarrow> hold P (modify f) Q"
  by (simp add: hold_def wp_simps)

lemma hold_mbind: "hold P m M \<Longrightarrow> (\<And>x. hold (M x) (f x) Q) \<Longrightarrow> hold P (mbind m f) Q"
  unfolding hold_def wp_mbind
  by (fastforce simp: wp_def split: outcome.splits prod.splits dest: trans)

lemma hold_mthen: "hold P m M \<Longrightarrow> (\<And>x. hold (M x) k Q) \<Longrightarrow> hold P (mthen m k) Q"
  unfolding mthen_def by (rule hold_mbind)

lemma hold_tryCatch: "hold P m Q \<Longrightarrow> (\<And>e. hold (\<lambda>_. True) (h e) Q) \<Longrightarrow> hold P (tryCatch m h) Q"
  unfolding hold_def wp_tryCatch
  by (fastforce simp: wp_def split: outcome.splits prod.splits dest: trans)

lemma hold_pre: "hold P m Q \<Longrightarrow> (\<And>s. P' s \<Longrightarrow> P s) \<Longrightarrow> hold P' m Q"
  by (simp add: hold_def)

lemma hold_pure: "(A \<Longrightarrow> hold P m Q) \<Longrightarrow> hold (\<lambda>s. A \<and> P s) m Q"
  by (simp add: hold_def)

lemma hold_post: "hold P m Q \<Longrightarrow> (\<And>x s. Q x s \<Longrightarrow> Q' x s) \<Longrightarrow> hold P m Q'"
  unfolding hold_def by (fastforce elim: wp_mono split: outcome.splits)

lemma hold_frame: "hold P m Q \<Longrightarrow> (\<And>s s'. F s \<Longrightarrow> R s s' \<Longrightarrow> F s') \<Longrightarrow> hold (\<lambda>s. P s \<and> F s) m (\<lambda>x s. Q x s \<and> F s)"
  unfolding hold_def by (fastforce elim: wp_mono split: outcome.splits)

lemma holdD: "hold P m Q \<Longrightarrow> P s \<Longrightarrow> m s = (r, s') \<Longrightarrow>
    R s s' \<and> (case r of Val x \<Rightarrow> Q x s' | Throw e \<Rightarrow> True | Torn \<Rightarrow> False)"
  unfolding hold_def by (metis (no_types, lifting) wpD)

end

section \<open>What belongs to a workspace\<close>

definition agentIdsOf :: "string \<Rightarrow> apiState \<Rightarrow> string list" where
  "agentIdsOf w s = map ag_agentId (filter (\<lambda>a. ag_workspaceId a = w) (db_agents (ap_db s)))"

definition sessionIdsOf :: "string \<Rightarrow> apiState \<Rightarrow> string list" where
  "sessionIdsOf w s = map se_sessionId (filter (\<lambda>x. se_agentId x \<in> set (agentIdsOf w s)) (db_sessions (ap_db s)))"

definition runIdsOf :: "string \<Rightarrow> apiState \<Rightarrow> string list" where
  "runIdsOf w s = map ru_runId (filter (\<lambda>r. ru_sessionId r \<in> set (sessionIdsOf w s)) (db_runs (ap_db s)))"

text \<open>Every row that a reply shows is the workspace's own.\<close>

definition shows_only :: "string \<Rightarrow> apiState \<Rightarrow> apiReply \<Rightarrow> bool" where
  "shows_only w s rep = (case rep of ErrorReply c m \<Rightarrow> True | HealthReply \<Rightarrow> True
    | AgentReply a \<Rightarrow> ag_workspaceId a = w
    | AgentsReply as \<Rightarrow> list_all (\<lambda>a. ag_workspaceId a = w) as
    | SessionCreated i t u \<Rightarrow> i \<in> set (sessionIdsOf w s)
    | SessionReply x \<Rightarrow> se_agentId x \<in> set (agentIdsOf w s)
    | MessagesReply ms b \<Rightarrow> list_all (\<lambda>m. me_sessionId m \<in> set (sessionIdsOf w s)) ms
    | RunReply x \<Rightarrow> ru_sessionId x \<in> set (sessionIdsOf w s)
    | ToolCallsReply ts \<Rightarrow> list_all (\<lambda>t. tc_runId t \<in> set (runIdsOf w s)) ts
    | AcceptedReply rid st \<Rightarrow> True
    | TraceReply t spans \<Rightarrow> tr_runId t \<in> set (runIdsOf w s)
    | SpansReply spans \<Rightarrow> list_all (\<lambda>x. list_ex (\<lambda>t. tr_traceId t = sr_traceId x \<and> tr_runId t \<in> set (runIdsOf w s)) (ap_traces s)) spans
    | MetricsReply rid t m \<Rightarrow> rid \<in> set (runIdsOf w s))"

text \<open>What a request of the workspace leaves alone: the rows of every other workspace, and every table that
  the routes only read; it starts and cancels runs of its own sessions only.\<close>

definition sameTables :: "apiState \<Rightarrow> apiState \<Rightarrow> bool" where
  "sameTables s s' = (db_runs (ap_db s') = db_runs (ap_db s) \<and> db_messages (ap_db s') = db_messages (ap_db s) \<and>
     db_toolCalls (ap_db s') = db_toolCalls (ap_db s) \<and> db_workspaces (ap_db s') = db_workspaces (ap_db s) \<and>
     ap_traces s' = ap_traces s \<and> ap_spans s' = ap_spans s \<and> ap_keys s' = ap_keys s \<and> ap_users s' = ap_users s \<and>
     ap_workspaceRows s' = ap_workspaceRows s \<and> ap_members s' = ap_members s)"

definition othersKept :: "string \<Rightarrow> apiState \<Rightarrow> apiState \<Rightarrow> bool" where
  "othersKept w s s' = (sameTables s s' \<and>
     filter (\<lambda>a. ag_workspaceId a \<noteq> w) (db_agents (ap_db s')) = filter (\<lambda>a. ag_workspaceId a \<noteq> w) (db_agents (ap_db s)) \<and>
     filter (\<lambda>x. se_agentId x \<notin> set (agentIdsOf w s')) (db_sessions (ap_db s'))
       = filter (\<lambda>x. se_agentId x \<notin> set (agentIdsOf w s')) (db_sessions (ap_db s)) \<and>
     filter (\<lambda>p. fst p \<notin> set (sessionIdsOf w s')) (ap_starts s') = filter (\<lambda>p. fst p \<notin> set (sessionIdsOf w s')) (ap_starts s) \<and>
     filter (\<lambda>i. i \<notin> set (runIdsOf w s')) (ap_cancels s') = filter (\<lambda>i. i \<notin> set (runIdsOf w s')) (ap_cancels s))"

definition sessionLinks :: "db \<Rightarrow> (string \<times> string) set" where
  "sessionLinks d = (\<lambda>x. (se_sessionId x, se_agentId x)) ` set (db_sessions d)"

definition grows :: "string \<Rightarrow> apiState \<Rightarrow> apiState \<Rightarrow> bool" where
  "grows w s s' = (sameTables s s' \<and> set (agentIdsOf w s) \<subseteq> set (agentIdsOf w s') \<and>
     sessionLinks (ap_db s) \<subseteq> sessionLinks (ap_db s'))"

definition apart :: "string \<Rightarrow> apiState \<Rightarrow> apiState \<Rightarrow> bool" where
  "apart w s s' = (grows w s s' \<and> (dbOk (ap_db s) \<longrightarrow> dbOk (ap_db s') \<and> othersKept w s s'))"

lemma sessionIdsOf_links: "i \<in> set (sessionIdsOf w s) \<longleftrightarrow> (\<exists>a. (i, a) \<in> sessionLinks (ap_db s) \<and> a \<in> set (agentIdsOf w s))"
  by (auto simp: sessionIdsOf_def sessionLinks_def image_iff)

lemma grows_sessions: "grows w s s' \<Longrightarrow> set (sessionIdsOf w s) \<subseteq> set (sessionIdsOf w s')"
  unfolding grows_def sessionIdsOf_links subset_iff by blast

lemma grows_runs: "grows w s s' \<Longrightarrow> set (runIdsOf w s) \<subseteq> set (runIdsOf w s')"
  using grows_sessions [of w s s'] by (auto simp: grows_def sameTables_def runIdsOf_def)

lemma filter_fewer: "A \<subseteq> B \<Longrightarrow> filter (\<lambda>x. f x \<notin> A) xs = filter (\<lambda>x. f x \<notin> A) ys \<Longrightarrow>
    filter (\<lambda>x. f x \<notin> B) xs = filter (\<lambda>x. f x \<notin> B) ys"
proof -
  assume "A \<subseteq> B" and e: "filter (\<lambda>x. f x \<notin> A) xs = filter (\<lambda>x. f x \<notin> A) ys"
  then have "filter (\<lambda>x. f x \<notin> B) zs = filter (\<lambda>x. f x \<notin> B) (filter (\<lambda>x. f x \<notin> A) zs)" for zs
    by (auto intro!: filter_cong)
  then show ?thesis using e by metis
qed

lemma othersKept_trans:
  assumes s: "othersKept w s t" and t: "othersKept w t u" and g: "grows w t u"
  shows "othersKept w s u"
proof -
  have m: "set (agentIdsOf w t) \<subseteq> set (agentIdsOf w u)" "set (sessionIdsOf w t) \<subseteq> set (sessionIdsOf w u)"
      "set (runIdsOf w t) \<subseteq> set (runIdsOf w u)"
    using grows_runs [OF g] grows_sessions [OF g] g by (simp_all add: grows_def)
  note s' = s [unfolded othersKept_def] and t' = t [unfolded othersKept_def]
  have "filter (\<lambda>x. se_agentId x \<notin> set (agentIdsOf w u)) (db_sessions (ap_db t))
      = filter (\<lambda>x. se_agentId x \<notin> set (agentIdsOf w u)) (db_sessions (ap_db s))"
    by (rule filter_fewer [OF m(1)]) (use s' in blast)
  moreover have "filter (\<lambda>p. fst p \<notin> set (sessionIdsOf w u)) (ap_starts t) = filter (\<lambda>p. fst p \<notin> set (sessionIdsOf w u)) (ap_starts s)"
    by (rule filter_fewer [OF m(2)]) (use s' in blast)
  moreover have "filter (\<lambda>i. i \<notin> set (runIdsOf w u)) (ap_cancels t) = filter (\<lambda>i. i \<notin> set (runIdsOf w u)) (ap_cancels s)"
    by (rule filter_fewer [OF m(3)]) (use s' in blast)
  ultimately show ?thesis using s' t' unfolding othersKept_def sameTables_def by metis
qed

lemma grows_trans: "grows w s t \<Longrightarrow> grows w t u \<Longrightarrow> grows w s u"
  unfolding grows_def sameTables_def by (metis subset_trans)

lemma apart_refl: "apart w s s"
  by (simp add: apart_def grows_def othersKept_def sameTables_def)

lemma apart_trans: "apart w s t \<Longrightarrow> apart w t u \<Longrightarrow> apart w s u"
  unfolding apart_def using othersKept_trans [of w s t u] grows_trans [of w s t u] by blast

interpretation iso: state_triples "apart w" for w
  by unfold_locales (auto intro: apart_refl apart_trans)

section \<open>The statements a request may make\<close>

lemma selectOne_Some: "selectOne p rows = Some r \<Longrightarrow> r \<in> set rows \<and> p r"
  by (auto simp: selectOne_def firstRow_def filter_eq_Cons_iff split: list.splits)

lemma firstRow_returning: "firstRow (returning p f rows) = Some r \<Longrightarrow> \<exists>x \<in> set rows. p x \<and> r = f x"
  by (auto simp: firstRow_def returning_def filter_eq_Cons_iff split: list.splits)

lemma map_filter_updateWhere: "(\<And>r. P (f r) = P r) \<Longrightarrow> (\<And>r. g (f r) = g r) \<Longrightarrow>
    map g (filter P (updateWhere p f rows)) = map g (filter P rows)"
  by (induction rows) (auto simp: updateWhere_def)

lemma distinct_map_same: "distinct (map f xs) \<Longrightarrow> x \<in> set xs \<Longrightarrow> y \<in> set xs \<Longrightarrow> f x = f y \<Longrightarrow> x = y"
  by (auto simp: distinct_map dest: inj_onD)

lemma idsOf_tick [simp]: "agentIdsOf w (s\<lparr>ap_tick := n\<rparr>) = agentIdsOf w s" "sessionIdsOf w (s\<lparr>ap_tick := n\<rparr>) = sessionIdsOf w s"
  "runIdsOf w (s\<lparr>ap_tick := n\<rparr>) = runIdsOf w s"
  by (simp_all add: agentIdsOf_def sessionIdsOf_def runIdsOf_def)

lemma idsOf_ids [simp]: "agentIdsOf w (s\<lparr>ap_ids := n\<rparr>) = agentIdsOf w s" "sessionIdsOf w (s\<lparr>ap_ids := n\<rparr>) = sessionIdsOf w s"
  "runIdsOf w (s\<lparr>ap_ids := n\<rparr>) = runIdsOf w s"
  by (simp_all add: agentIdsOf_def sessionIdsOf_def runIdsOf_def)

lemma idsOf_starts [simp]: "agentIdsOf w (s\<lparr>ap_starts := n\<rparr>) = agentIdsOf w s" "sessionIdsOf w (s\<lparr>ap_starts := n\<rparr>) = sessionIdsOf w s"
  "runIdsOf w (s\<lparr>ap_starts := n\<rparr>) = runIdsOf w s"
  by (simp_all add: agentIdsOf_def sessionIdsOf_def runIdsOf_def)

lemma idsOf_cancels [simp]: "agentIdsOf w (s\<lparr>ap_cancels := n\<rparr>) = agentIdsOf w s" "sessionIdsOf w (s\<lparr>ap_cancels := n\<rparr>) = sessionIdsOf w s"
  "runIdsOf w (s\<lparr>ap_cancels := n\<rparr>) = runIdsOf w s"
  by (simp_all add: agentIdsOf_def sessionIdsOf_def runIdsOf_def)

lemmas apart_defs = apart_def grows_def othersKept_def sameTables_def

lemma apart_tick: "apart w s (s\<lparr>ap_tick := n\<rparr>)" and apart_ids: "apart w s (s\<lparr>ap_ids := n\<rparr>)"
  by (simp_all add: apart_defs)

lemma apart_start: "i \<in> set (sessionIdsOf w s) \<Longrightarrow> apart w s (s\<lparr>ap_starts := ap_starts s @ [(i, c)]\<rparr>)"
  and apart_cancel: "i \<in> set (runIdsOf w s) \<Longrightarrow> apart w s (s\<lparr>ap_cancels := ap_cancels s @ [i]\<rparr>)"
  by (simp_all add: apart_defs)

lemma apart_agents_create:
  "agents_create now i w n mc pr mem ts u (ap_db s) = Inr (a, d) \<Longrightarrow> apart w s (s\<lparr>ap_db := d\<rparr>) \<and> ag_workspaceId a = w"
  using agents_create_dbOk [of "ap_db s" now i w n mc pr mem ts u a d]
  by (auto simp: agents_create_def Let_def apart_defs agentIdsOf_def sessionIdsOf_def sessionLinks_def split: if_splits)

lemma apart_agents_update:
  assumes u: "agents_update now i u (ap_db s) = Inr (r, d)" and i: "i \<in> set (agentIdsOf w s)"
  shows "apart w s (s\<lparr>ap_db := d\<rparr>)"
proof -
  let ?rows = "updateWhere (\<lambda>a. ag_agentId a = i) (agentUpdateRow now u) (db_agents (ap_db s))"
  have d: "d = (ap_db s)\<lparr>db_agents := ?rows\<rparr>" using u by (auto simp: agents_update_def Let_def split: if_splits)
  have ids: "agentIdsOf w (s\<lparr>ap_db := d\<rparr>) = agentIdsOf w s" by (simp add: agentIdsOf_def d map_filter_updateWhere)
  have "filter (\<lambda>a. ag_workspaceId a \<noteq> w) ?rows = filter (\<lambda>a. ag_workspaceId a \<noteq> w) (db_agents (ap_db s))" if "dbOk (ap_db s)"
  proof (rule filter_updateWhere)
    fix a assume a: "a \<in> set (db_agents (ap_db s))" "ag_agentId a = i"
    obtain b where b: "b \<in> set (db_agents (ap_db s))" "ag_workspaceId b = w" "ag_agentId b = i" using i by (auto simp: agentIdsOf_def)
    have "distinct (map ag_agentId (db_agents (ap_db s)))" using that by (simp add: dbOk_def)
    then have "a = b" by (rule distinct_map_same) (use a b in simp_all)
    then show "\<not> ag_workspaceId a \<noteq> w \<and> \<not> ag_workspaceId (agentUpdateRow now u a) \<noteq> w" using b by simp
  qed
  then show ?thesis using agents_update_dbOk [OF _ u] ids by (simp add: apart_defs d sessionIdsOf_def sessionLinks_def)
qed

lemma apart_sessions_create:
  assumes c: "sessions_create now i a u m (ap_db s) = Inr (x, d)" and a: "a \<in> set (agentIdsOf w s)"
  shows "apart w s (s\<lparr>ap_db := d\<rparr>) \<and> se_sessionId x = i \<and> se_agentId x = a \<and> i \<in> set (sessionIdsOf w (s\<lparr>ap_db := d\<rparr>))
     \<and> a \<in> set (agentIdsOf w (s\<lparr>ap_db := d\<rparr>))"
proof -
  have d: "d = (ap_db s)\<lparr>db_sessions := db_sessions (ap_db s) @ [x]\<rparr>" and x: "se_sessionId x = i" "se_agentId x = a"
    using c by (auto simp: sessions_create_def Let_def split: if_splits)
  have ids: "agentIdsOf w (s\<lparr>ap_db := d\<rparr>) = agentIdsOf w s" by (simp add: agentIdsOf_def d)
  have sids: "sessionIdsOf w (s\<lparr>ap_db := d\<rparr>) = sessionIdsOf w s @ [i]"
    unfolding sessionIdsOf_def ids using a x by (simp add: d)
  show ?thesis using sessions_create_dbOk [OF _ c] ids sids a x by (simp add: apart_defs d sessionLinks_def subset_insertI)
qed

lemma apart_sessions_updateStatus:
  assumes u: "sessions_updateStatus now i st (ap_db s) = Inr (r, d)" and i: "i \<in> set (sessionIdsOf w s)"
  shows "apart w s (s\<lparr>ap_db := d\<rparr>)"
proof -
  let ?f = "\<lambda>r. r\<lparr>se_status := st, se_updatedAt := now\<rparr>"
  let ?rows = "updateWhere (\<lambda>r. se_sessionId r = i) ?f (db_sessions (ap_db s))"
  have d: "d = (ap_db s)\<lparr>db_sessions := ?rows\<rparr>" using u by (auto simp: sessions_updateStatus_def Let_def)
  have ids: "agentIdsOf w (s\<lparr>ap_db := d\<rparr>) = agentIdsOf w s" by (simp add: agentIdsOf_def d)
  have links: "sessionLinks d = sessionLinks (ap_db s)"
    by (simp add: sessionLinks_def d image_of_map [OF map_updateWhere])
  have sids: "sessionIdsOf w (s\<lparr>ap_db := d\<rparr>) = sessionIdsOf w s"
    unfolding sessionIdsOf_def ids by (simp add: d map_filter_updateWhere)
  have "filter (\<lambda>x. se_agentId x \<notin> set (agentIdsOf w s)) ?rows = filter (\<lambda>x. se_agentId x \<notin> set (agentIdsOf w s)) (db_sessions (ap_db s))"
    if "dbOk (ap_db s)"
  proof (rule filter_updateWhere)
    fix a assume a: "a \<in> set (db_sessions (ap_db s))" "se_sessionId a = i"
    obtain b where b: "b \<in> set (db_sessions (ap_db s))" "se_agentId b \<in> set (agentIdsOf w s)" "se_sessionId b = i"
      using i by (auto simp: sessionIdsOf_def)
    have "distinct (map se_sessionId (db_sessions (ap_db s)))" using that by (simp add: dbOk_def)
    then have "a = b" by (rule distinct_map_same) (use a b in simp_all)
    then show "\<not> se_agentId a \<notin> set (agentIdsOf w s) \<and> \<not> se_agentId (?f a) \<notin> set (agentIdsOf w s)" using b by simp
  qed
  then show ?thesis using sessions_updateStatus_dbOk [OF _ u] ids sids links by (simp add: apart_defs d runIdsOf_def)
qed

section \<open>The operations\<close>

lemma hold_call:
  assumes tick: "\<And>n s. P s \<Longrightarrow> P (s\<lparr>ap_tick := n\<rparr>)"
    and q: "\<And>now s x s2. P s \<Longrightarrow> q now s = Inr (x, s2) \<Longrightarrow> apart w s s2 \<and> Q x s2"
  shows "iso.hold w P (call env q) Q"
proof -
  have "wp (call env q) (\<lambda>r s'. apart w s s' \<and> (case r of Val x \<Rightarrow> Q x s' | Throw e \<Rightarrow> True | Torn \<Rightarrow> False)) s" if P: "P s" for s
  proof -
    let ?s1 = "s\<lparr>ap_tick := Suc (ap_tick s)\<rparr>"
    have a: "apart w s ?s1" by (rule apart_tick)
    have "apart w s s2 \<and> Q x s2" if "q (ax_clock env (ap_tick s)) ?s1 = Inr (x, s2)" for x s2
      using q [OF tick [OF P] that] a apart_trans by blast
    then show ?thesis using a by (auto simp: wp_def call_def Let_def split: sum.splits)
  qed
  then show ?thesis by (simp add: iso.hold_def)
qed

lemma hold_dbCall:
  assumes "\<And>n s. P s \<Longrightarrow> P (s\<lparr>ap_tick := n\<rparr>)"
    and q: "\<And>now s x d. P s \<Longrightarrow> q now (ap_db s) = Inr (x, d) \<Longrightarrow> apart w s (s\<lparr>ap_db := d\<rparr>) \<and> Q x (s\<lparr>ap_db := d\<rparr>)"
  shows "iso.hold w P (dbCall env q) Q"
  unfolding dbCall_def by (rule hold_call) (auto split: sum.splits dest: q assms(1))

lemma hold_dbRead:
  assumes "\<And>n s. P s \<Longrightarrow> P (s\<lparr>ap_tick := n\<rparr>)"
    and q: "\<And>now s x d. P s \<Longrightarrow> q now (ap_db s) = Inr (x, d) \<Longrightarrow> d = ap_db s \<and> Q x s"
  shows "iso.hold w P (dbCall env q) Q"
proof (rule hold_dbCall)
  fix now s x d assume "P s" "q now (ap_db s) = Inr (x, d)"
  then show "apart w s (s\<lparr>ap_db := d\<rparr>) \<and> Q x (s\<lparr>ap_db := d\<rparr>)" using q [of s now x d] by (simp add: apart_refl)
qed (rule assms(1))

lemma hold_readCall: "(\<And>n s. P s \<Longrightarrow> P (s\<lparr>ap_tick := n\<rparr>)) \<Longrightarrow> (\<And>s. P s \<Longrightarrow> Q (f s) s) \<Longrightarrow> iso.hold w P (readCall env f) Q"
  unfolding readCall_def by (rule hold_call) (auto intro: apart_refl)

lemma hold_freshId: "iso.hold w (\<lambda>_. True) (freshId env gen) (\<lambda>_ _. True)"
  by (simp add: iso.hold_def freshId_def wp_def apart_ids)

lemma apart_grows: "apart w s s' \<Longrightarrow> grows w s s'"
  by (simp add: apart_def)

lemma stable_ids:
  "i \<in> set (agentIdsOf w s) \<Longrightarrow> apart w s s' \<Longrightarrow> i \<in> set (agentIdsOf w s')"
  "i \<in> set (sessionIdsOf w s) \<Longrightarrow> apart w s s' \<Longrightarrow> i \<in> set (sessionIdsOf w s')"
  "i \<in> set (runIdsOf w s) \<Longrightarrow> apart w s s' \<Longrightarrow> i \<in> set (runIdsOf w s')"
  "p \<in> sessionLinks (ap_db s) \<Longrightarrow> apart w s s' \<Longrightarrow> p \<in> sessionLinks (ap_db s')"
  "run \<in> set (db_runs (ap_db s)) \<Longrightarrow> apart w s s' \<Longrightarrow> run \<in> set (db_runs (ap_db s'))"
  "t \<in> set (ap_traces s) \<Longrightarrow> apart w s s' \<Longrightarrow> t \<in> set (ap_traces s')"
  using grows_sessions [of w s s'] grows_runs [of w s s'] by (auto simp: apart_def grows_def sameTables_def)

lemma hold_agentById:
  "iso.hold w (\<lambda>_. True) (agentById env w i) (\<lambda>a s. ag_agentId a = i \<and> ag_workspaceId a = w \<and> i \<in> set (agentIdsOf w s))"
  unfolding agentById_def
  by (rule iso.hold_mbind [where M = "\<lambda>x s. case x of None \<Rightarrow> True | Some a \<Rightarrow> a \<in> set (db_agents (ap_db s)) \<and> ag_agentId a = i"],
      rule hold_dbRead)
    (auto simp: agents_getById_def agentIdsOf_def dest: selectOne_Some intro!: iso.hold_throw iso.hold_ret split: option.splits)

lemma hold_agentByName:
  "iso.hold w (\<lambda>_. True) (agentByName env w n) (\<lambda>a s. ag_name a = n \<and> ag_workspaceId a = w \<and> ag_agentId a \<in> set (agentIdsOf w s))"
  unfolding agentByName_def
  by (rule iso.hold_mbind [where M = "\<lambda>x s. case x of None \<Rightarrow> True | Some a \<Rightarrow> a \<in> set (db_agents (ap_db s)) \<and> ag_workspaceId a = w \<and> ag_name a = n"],
      rule hold_dbRead)
    (auto simp: agents_getByName_def agentIdsOf_def dest: selectOne_Some intro!: iso.hold_throw iso.hold_ret split: option.splits)

lemma hold_ownedAgent:
  "iso.hold w (\<lambda>s. True \<and> (i, a) \<in> sessionLinks (ap_db s)) (tryCatch (mthen (agentById env w a) (ret ())) (\<lambda>_. throw e))
     (\<lambda>_ s. a \<in> set (agentIdsOf w s) \<and> i \<in> set (sessionIdsOf w s))"
  by (rule iso.hold_tryCatch, rule iso.hold_mthen, rule iso.hold_frame, rule hold_agentById)
    (auto simp: sessionIdsOf_links intro: stable_ids iso.hold_ret iso.hold_throw)

lemma selectOne_link: "selectOne (\<lambda>x. se_sessionId x = i) (db_sessions d) = Some x \<Longrightarrow> se_sessionId x = i \<and> (i, se_agentId x) \<in> sessionLinks d"
  by (auto simp: sessionLinks_def dest!: selectOne_Some)

lemma hold_getSession:
  "iso.hold w (\<lambda>_. True) (getSession env w i)
     (\<lambda>x s. se_sessionId x = i \<and> se_agentId x \<in> set (agentIdsOf w s) \<and> i \<in> set (sessionIdsOf w s))"
proof -
  have "iso.hold w (\<lambda>s. se_sessionId x = i \<and> (i, se_agentId x) \<in> sessionLinks (ap_db s))
      (mthen (tryCatch (mthen (agentById env w (se_agentId x)) (ret ())) (\<lambda>_. throw (sessionMissing i))) (ret x))
      (\<lambda>x s. se_sessionId x = i \<and> se_agentId x \<in> set (agentIdsOf w s) \<and> i \<in> set (sessionIdsOf w s))" for x
    by (rule iso.hold_pure, rule iso.hold_mthen, rule iso.hold_pre, rule hold_ownedAgent [of w i]) (auto intro: iso.hold_ret)
  then show ?thesis
    unfolding getSession_def
    by (intro iso.hold_mbind [where M = "\<lambda>x s. case x of None \<Rightarrow> True | Some x \<Rightarrow> se_sessionId x = i \<and> (i, se_agentId x) \<in> sessionLinks (ap_db s)"]
        hold_dbRead)
      (auto simp: sessions_getById_def dest: selectOne_link intro!: iso.hold_throw split: option.splits)
qed

lemma hold_assertRunOwnership:
  "iso.hold w (\<lambda>_. True) (assertRunOwnership env w i)
     (\<lambda>r s. ru_runId r = i \<and> ru_sessionId r \<in> set (sessionIdsOf w s) \<and> i \<in> set (runIdsOf w s))"
proof -
  let ?mid = "\<lambda>run x s. (case x of None \<Rightarrow> True | Some y \<Rightarrow> (ru_sessionId run, se_agentId y) \<in> sessionLinks (ap_db s))
      \<and> run \<in> set (db_runs (ap_db s))"
  let ?own = "\<lambda>y. tryCatch (mthen (agentById env w (se_agentId y)) (ret ())) (\<lambda>_. throw (runMissing i))"
  let ?post = "\<lambda>r s. ru_runId r = i \<and> ru_sessionId r \<in> set (sessionIdsOf w s) \<and> i \<in> set (runIdsOf w s)"
  have own: "iso.hold w (?mid run (Some y)) (mthen (?own y) (ret run)) ?post" if "ru_runId run = i" for run y
    by (rule iso.hold_mthen, rule iso.hold_pre, rule iso.hold_frame [where F = "\<lambda>s. run \<in> set (db_runs (ap_db s))"],
        rule hold_ownedAgent [of w "ru_sessionId run"])
      (auto simp: runIdsOf_def that [symmetric] intro: stable_ids intro!: iso.hold_ret imageI)
  have step: "iso.hold w (\<lambda>s. run \<in> set (db_runs (ap_db s))) (mbind (dbCall env (\<lambda>_. sessions_getById (ru_sessionId run))) (\<lambda>x. case x of
        None \<Rightarrow> throw (runMissing i) | Some y \<Rightarrow> mthen (?own y) (ret run))) ?post" if r: "ru_runId run = i" for run
    by (rule iso.hold_mbind, rule iso.hold_pre, rule iso.hold_frame [where P = "\<lambda>_. True" and F = "\<lambda>s. run \<in> set (db_runs (ap_db s))" and Q = "\<lambda>x s. case x of None \<Rightarrow> True | Some y \<Rightarrow> (ru_sessionId run, se_agentId y) \<in> sessionLinks (ap_db s)"],
        rule hold_dbRead)
      (auto simp: sessions_getById_def dest: selectOne_link intro: stable_ids iso.hold_throw own [OF r, simplified] split: option.splits)
  show ?thesis
    unfolding assertRunOwnership_def
  proof (rule iso.hold_mbind [where M = "\<lambda>x s. case x of None \<Rightarrow> True | Some run \<Rightarrow> ru_runId run = i \<and> run \<in> set (db_runs (ap_db s))"])
    show "iso.hold w (\<lambda>_. True) (dbCall env (\<lambda>_. runs_getById i))
        (\<lambda>x s. case x of None \<Rightarrow> True | Some run \<Rightarrow> ru_runId run = i \<and> run \<in> set (db_runs (ap_db s)))"
      by (rule hold_dbRead) (auto simp: runs_getById_def dest: selectOne_Some split: option.splits)
  qed (simp add: iso.hold_throw iso.hold_pure step split: option.split)
qed

text \<open>The claims on what an \<open>UPDATE ... RETURNING\<close> returns need the unique keys; \<open>B\<close> asks for them.\<close>

definition keyed :: "bool \<Rightarrow> apiState \<Rightarrow> bool" where
  "keyed B s = (B \<longrightarrow> dbOk (ap_db s))"

lemma keyed_stable: "keyed B s \<Longrightarrow> apart w s s' \<Longrightarrow> keyed B s'"
  by (simp add: keyed_def apart_def)

lemma keyed_upd [simp]: "keyed B (s\<lparr>ap_tick := n\<rparr>) = keyed B s" "keyed B (s\<lparr>ap_ids := n\<rparr>) = keyed B s"
  by (simp_all add: keyed_def)

lemma hold_keyed: "iso.hold w (\<lambda>_. True) m Q \<Longrightarrow> iso.hold w (keyed B) m (\<lambda>x s. Q x s \<and> keyed B s)"
  using iso.hold_frame [of w "\<lambda>_. True" m Q "keyed B"] keyed_stable by simp

lemma agents_update_row:
  assumes u: "agents_update now i u d = Inr (Some r, d')" and d: "dbOk d" and a: "i \<in> ag_agentId ` set (filter (\<lambda>a. ag_workspaceId a = w) (db_agents d))"
  shows "ag_workspaceId r = w"
proof -
  obtain x where x: "x \<in> set (db_agents d)" "ag_agentId x = i" "r = agentUpdateRow now u x"
    using u by (auto simp: agents_update_def Let_def split: if_splits dest!: firstRow_returning)
  obtain y where y: "y \<in> set (db_agents d)" "ag_agentId y = i" "ag_workspaceId y = w" using a by auto
  have "distinct (map ag_agentId (db_agents d))" using d by (simp add: dbOk_def)
  then have "x = y" by (rule distinct_map_same) (use x y in simp_all)
  then show ?thesis using x y by simp
qed

lemma sessions_update_row:
  assumes u: "sessions_updateStatus now i st d = Inr (Some r, d')" and d: "dbOk d" and a: "(i, a) \<in> sessionLinks d"
  shows "se_sessionId r = i \<and> se_agentId r = a"
proof -
  obtain x where x: "x \<in> set (db_sessions d)" "se_sessionId x = i" "r = x\<lparr>se_status := st, se_updatedAt := now\<rparr>"
    using u by (auto simp: sessions_updateStatus_def Let_def dest!: firstRow_returning)
  obtain y where y: "y \<in> set (db_sessions d)" "se_sessionId y = i" "se_agentId y = a" using a by (auto simp: sessionLinks_def)
  have "distinct (map se_sessionId (db_sessions d))" using d by (simp add: dbOk_def)
  then have "x = y" by (rule distinct_map_same) (use x y in simp_all)
  then show ?thesis using x y by simp
qed

lemma hold_agents_update:
  "iso.hold w (\<lambda>s. ag_agentId a \<in> set (agentIdsOf w s) \<and> keyed B s)
      (dbCall env (\<lambda>now. agents_update now (ag_agentId a) (u now))) (\<lambda>x s. case x of None \<Rightarrow> True | Some r \<Rightarrow> B \<longrightarrow> ag_workspaceId r = w)"
proof (rule hold_dbCall)
  fix now s x d
  assume p: "ag_agentId a \<in> set (agentIdsOf w s) \<and> keyed B s" and q: "agents_update now (ag_agentId a) (u now) (ap_db s) = Inr (x, d)"
  have "B \<longrightarrow> ag_workspaceId r = w" if "x = Some r" for r
    using p agents_update_row [of now "ag_agentId a" "u now" "ap_db s" r d w] q that by (simp add: keyed_def agentIdsOf_def)
  then show "apart w s (s\<lparr>ap_db := d\<rparr>) \<and> (case x of None \<Rightarrow> True | Some r \<Rightarrow> B \<longrightarrow> ag_workspaceId r = w)"
    using p apart_agents_update [OF q, of w] by (simp split: option.split)
qed simp

lemma hold_registerOrUpdateAgent:
  "iso.hold w (keyed B) (registerOrUpdateAgent env w b) (\<lambda>a s. B \<longrightarrow> ag_workspaceId a = w)"
proof -
  let ?mid = "\<lambda>x s. case x of None \<Rightarrow> True | Some a \<Rightarrow> ag_agentId a \<in> set (agentIdsOf w s)"
  let ?post = "\<lambda>a s. B \<longrightarrow> ag_workspaceId a = w"
  have get: "iso.hold w (keyed B) (dbCall env (\<lambda>_. agents_getByName w (cb_name b))) (\<lambda>x s. ?mid x s \<and> keyed B s)"
    by (rule hold_keyed, rule hold_dbRead) (auto simp: agents_getByName_def agentIdsOf_def dest: selectOne_Some split: option.splits)
  have upd: "iso.hold w (\<lambda>s. ag_agentId a \<in> set (agentIdsOf w s) \<and> keyed B s)
      (mbind (dbCall env (\<lambda>now. agents_update now (ag_agentId a) (u now))) (\<lambda>x. case x of
         None \<Rightarrow> throw (SwiftErr INTERNAL m) | Some r \<Rightarrow> ret r)) ?post" for a u m
    by (rule iso.hold_mbind, rule hold_agents_update) (auto intro: iso.hold_throw iso.hold_ret split: option.split)
  have "iso.hold w (\<lambda>_. True) (mbind (freshId env generateAgentId) (\<lambda>i. dbCall env (\<lambda>now. agents_create now i w n mc pr mem ts u))) ?post" for n mc pr mem ts u
    by (rule iso.hold_mbind, rule hold_freshId, rule hold_dbCall) (auto dest: apart_agents_create)
  then have new: "iso.hold w (keyed B) (mbind (freshId env generateAgentId) (\<lambda>i. dbCall env (\<lambda>now. agents_create now i w n mc pr mem ts u))) ?post" for n mc pr mem ts u
    by (rule iso.hold_pre) simp
  show ?thesis unfolding registerOrUpdateAgent_def
    by (rule iso.hold_mbind [OF get]) (simp add: upd new split: option.split)
qed

lemma hold_agentList: "iso.hold w (\<lambda>_. True) (agentList env w) (\<lambda>as s. list_all (\<lambda>a. ag_workspaceId a = w) as)"
  unfolding agentList_def by (rule hold_dbRead) (auto simp: agents_getByWorkspaceId_def list_all_iff)

lemma hold_createSession:
  "iso.hold w (\<lambda>_. True) (createSession env w n u m) (\<lambda>(x, a) s. se_sessionId x \<in> set (sessionIdsOf w s))"
proof -
  have "iso.hold w (\<lambda>s. True \<and> ag_agentId a \<in> set (agentIdsOf w s)) (mbind (freshId env generateSessionId) (\<lambda>i.
     mbind (dbCall env (\<lambda>now. sessions_create now i (ag_agentId a) u (Some (orElse m [])))) (\<lambda>s. ret (s, ag_agentId a))))
     (\<lambda>(x, a) s. se_sessionId x \<in> set (sessionIdsOf w s))" for a
    by (rule iso.hold_mbind, rule iso.hold_frame, rule hold_freshId, erule (1) stable_ids,
        rule iso.hold_mbind [where M = "\<lambda>x s. se_sessionId x \<in> set (sessionIdsOf w s)"], rule hold_dbCall)
      (auto dest: apart_sessions_create intro: iso.hold_ret)
  note new = this
  show ?thesis unfolding createSession_def by (rule iso.hold_mbind [OF hold_agentByName], rule iso.hold_pre [OF new]) simp
qed

lemma hold_updateSession:
  "iso.hold w (keyed B) (updateSession env w i st) (\<lambda>x s. se_sessionId x = i \<and> (B \<longrightarrow> se_agentId x \<in> set (agentIdsOf w s)))"
proof -
  let ?own = "\<lambda>s. i \<in> set (sessionIdsOf w s) \<and> keyed B s"
  let ?post = "\<lambda>x s. se_sessionId x = i \<and> (B \<longrightarrow> se_agentId x \<in> set (agentIdsOf w s))"
  have "iso.hold w ?own (dbCall env (\<lambda>now. sessions_updateStatus now i v)) (\<lambda>x s. case x of None \<Rightarrow> True | Some r \<Rightarrow> ?post r s)" for v
  proof (rule hold_dbCall)
    fix now s x d
    assume p: "?own s" and q: "sessions_updateStatus now i v (ap_db s) = Inr (x, d)"
    have a: "apart w s (s\<lparr>ap_db := d\<rparr>)" using p apart_sessions_updateStatus [OF q] by blast
    obtain b where b: "(i, b) \<in> sessionLinks (ap_db s)" "b \<in> set (agentIdsOf w s)" using p by (auto simp: sessionIdsOf_links)
    have "?post r (s\<lparr>ap_db := d\<rparr>)" if "x = Some r" for r
    proof
      show "se_sessionId r = i" using q that by (auto simp: sessions_updateStatus_def Let_def dest!: firstRow_returning)
      show "B \<longrightarrow> se_agentId r \<in> set (agentIdsOf w (s\<lparr>ap_db := d\<rparr>))"
        using sessions_update_row [OF q [unfolded that] _ b(1)] b p stable_ids(1) [OF b(2) a] by (simp add: keyed_def)
    qed
    then show "apart w s (s\<lparr>ap_db := d\<rparr>) \<and> (case x of None \<Rightarrow> True | Some r \<Rightarrow> ?post r (s\<lparr>ap_db := d\<rparr>))"
      using a by (simp split: option.split)
  qed simp
  then have upd: "iso.hold w ?own (mbind (dbCall env (\<lambda>now. sessions_updateStatus now i v)) (\<lambda>u. case u of
          None \<Rightarrow> throw (SwiftErr INTERNAL m) | Some r \<Rightarrow> ret r)) ?post" for v m
    by (rule iso.hold_mbind) (auto intro: iso.hold_throw iso.hold_ret split: option.split)
  have get: "iso.hold w ?own (getSession env w i) ?post"
    by (rule iso.hold_pre [OF iso.hold_post [OF hold_getSession]]) auto
  show ?thesis unfolding updateSession_def
    by (rule iso.hold_mthen, rule hold_keyed, rule hold_getSession) (auto intro: iso.hold_pre [OF upd] iso.hold_pre [OF get] split: option.split)
qed

lemma hold_listMessages:
  "iso.hold w (\<lambda>s. i \<in> set (sessionIdsOf w s)) (listMessages env i n c)
     (\<lambda>ms s. length ms \<le> n \<and> list_all (\<lambda>m. me_sessionId m = i \<and> me_sessionId m \<in> set (sessionIdsOf w s)) ms)"
  unfolding listMessages_def
  by (rule iso.hold_mbind [where M = "\<lambda>ms s. i \<in> set (sessionIdsOf w s) \<and> list_all (\<lambda>m. me_sessionId m = i) ms"], rule hold_dbRead)
    (auto simp: messages_listBySession_def list_all_iff dest!: in_set_takeD in_set_dropD intro!: iso.hold_ret iso.hold_throw split: option.split)

section \<open>The routes\<close>

definition answers :: "bool \<Rightarrow> string \<Rightarrow> apiRequest \<Rightarrow> response \<Rightarrow> apiState \<Rightarrow> bool" where
  "answers B w req r s = (repliesWith req (fst r) (snd r) \<and> (B \<longrightarrow> shows_only w s (snd r)))"

named_theorems reply_simps "the replies' conditions"

lemma answers_pair [reply_simps]: "answers B w req (st, rep) s = (repliesWith req st rep \<and> (B \<longrightarrow> shows_only w s rep))"
  by (simp add: answers_def)

lemmas [reply_simps] = repliesWith_def shows_only_def

lemma answers_validation [simp]: "answers B w req validationReply s"
  by (simp add: validationReply_def reply_simps)

lemma answers_error [simp]: "answers B w req (errorReply env e) s"
  by (simp add: errorReply_def reply_simps split: js_error.split)

lemma answers_missing [simp]: "answers B w req (404, ErrorReply ''NOT_FOUND'' m) s"
  by (simp add: reply_simps)

lemmas hold_intros = iso.hold_ret iso.hold_throw

lemma route_agents:
  "iso.hold w (keyed B) (postAgents env w b) (answers B w (PostAgents b))"
  "iso.hold w (\<lambda>_. True) (getAgents env w n) (answers B w (GetAgents n))"
  unfolding postAgents_def
   apply (auto intro!: hold_intros split: option.split)
   apply (rule iso.hold_mbind, rule hold_registerOrUpdateAgent, rule iso.hold_ret, simp add: reply_simps)
  unfolding getAgents_def
  by (cases "n = None \<or> n = Some []")
    (auto simp: orElse_def reply_simps intro!: iso.hold_mbind [OF hold_agentList] iso.hold_mbind [OF hold_agentByName] hold_intros)

lemma route_postSessions: "iso.hold w (\<lambda>_. True) (postSessions env w b) (answers B w (PostSessions b))"
proof -
  have "iso.hold w (\<lambda>s. case p of (x, a) \<Rightarrow> se_sessionId x \<in> set (sessionIdsOf w s))
      (case p of (session, agentId) \<Rightarrow> mbind (signClientToken env (se_sessionId session) agentId) (\<lambda>token.
            ret (201, SessionCreated (se_sessionId session) token (ax_publicUrl env @ ''?token='' @ token))))
      (answers B w (PostSessions b))" for p
    by (cases p) (auto simp: signClientToken_def reply_simps
        intro!: iso.hold_mbind [where M = "\<lambda>_ s. se_sessionId (fst p) \<in> set (sessionIdsOf w s)"] iso.hold_gets hold_intros)
  then show ?thesis unfolding postSessions_def
    by (auto intro!: hold_intros iso.hold_mbind [OF hold_createSession] split: option.split)
qed

lemma route_patchSession: "iso.hold w (keyed B) (patchSession env w i b) (answers B w (PatchSession i b))"
  unfolding patchSession_def
  by (auto simp: reply_simps intro!: hold_intros iso.hold_mbind [OF hold_updateSession] split: option.split)

lemma route_getMessages: "iso.hold w (\<lambda>_. True) (getMessages env w i q) (answers B w (GetMessages i q))"
proof -
  have "iso.hold w (\<lambda>s. se_sessionId x = i \<and> se_agentId x \<in> set (agentIdsOf w s) \<and> i \<in> set (sessionIdsOf w s))
      (mbind (listMessages env i (nat n) c) (\<lambda>ms. ret (200, MessagesReply ms (int (length ms) = n)))) (answers B w (GetMessages i r))" if "n \<le> 100" for n c x r
    by (rule iso.hold_mbind, rule iso.hold_pre, rule hold_listMessages, simp, rule iso.hold_ret) (use that in \<open>auto simp: reply_simps list_all_iff\<close>)
  note page = this
  show ?thesis unfolding getMessages_def
    by (rule iso.hold_mthen, rule hold_getSession) (auto intro!: hold_intros page split: option.split)
qed

lemma route_postRun: "iso.hold w (\<lambda>_. True) (postRun env w i b) (answers B w (PostRun i b))"
proof -
  have "iso.hold w (\<lambda>s. i \<in> set (sessionIdsOf w s)) (startRunCall env i c) (\<lambda>_ _. True)" for c
    unfolding startRunCall_def
    by (rule iso.hold_mthen [where M = "\<lambda>_ _. True"], rule iso.hold_modify, simp add: apart_start, rule hold_call)
      (auto split: sum.splits intro: apart_refl)
  note start = this
  have "iso.hold w (\<lambda>_. True) (createRun env w i c) (\<lambda>_ _. True)" for c
    unfolding createRun_def by (rule iso.hold_mthen, rule hold_getSession, rule iso.hold_pre, rule start) simp
  note run = this
  show ?thesis unfolding postRun_def
    by (auto simp: reply_simps intro!: hold_intros iso.hold_mbind [OF run] split: option.split)
qed

lemma route_postCancel:
  "iso.hold w (\<lambda>_. True) (mthen (requestCancelRun env w i) (ret (202, AcceptedReply i ''cancelling''))) (answers B w (PostCancel i))"
proof -
  have "iso.hold w (\<lambda>s. i \<in> set (runIdsOf w s)) (cancelCall env i) (\<lambda>_ _. True)"
    unfolding cancelCall_def
    by (rule iso.hold_mthen [where M = "\<lambda>_ _. True"], rule iso.hold_modify, simp add: apart_cancel, rule hold_call)
      (auto split: sum.splits intro: apart_refl)
  note cancel = this
  have "iso.hold w (\<lambda>_. True) (requestCancelRun env w i) (\<lambda>_ _. True)"
    unfolding requestCancelRun_def by (rule iso.hold_mthen, rule hold_assertRunOwnership, rule iso.hold_pre, rule cancel) simp
  then show ?thesis by (rule iso.hold_mthen) (auto simp: reply_simps intro: iso.hold_ret)
qed

lemma route_runs:
  "iso.hold w (\<lambda>_. True) (mbind (assertRunOwnership env w i) (\<lambda>r. ret (200, RunReply r))) (answers B w (GetRunById i))"
  "iso.hold w (\<lambda>_. True) (mbind (getRunToolCalls env w i) (\<lambda>ts. ret (200, ToolCallsReply ts))) (answers B w (GetToolCalls i))"
proof -
  have "iso.hold w (\<lambda>s. i \<in> set (runIdsOf w s)) (dbCall env (\<lambda>_. toolCalls_listByRun i))
      (\<lambda>ts s. list_all (\<lambda>t. tc_runId t = i \<and> tc_runId t \<in> set (runIdsOf w s)) ts)"
    by (rule hold_dbRead) (auto simp: toolCalls_listByRun_def list_all_iff)
  note tools = this
  show "iso.hold w (\<lambda>_. True) (mbind (getRunToolCalls env w i) (\<lambda>ts. ret (200, ToolCallsReply ts))) (answers B w (GetToolCalls i))"
    unfolding getRunToolCalls_def
    by (rule iso.hold_mbind, rule iso.hold_mthen, rule hold_assertRunOwnership, rule iso.hold_pre, rule tools)
      (auto simp: reply_simps list_all_iff intro!: iso.hold_ret)
qed (rule iso.hold_mbind, rule hold_assertRunOwnership, rule iso.hold_ret, simp add: reply_simps)

lemma hold_listSpans:
  "iso.hold w (\<lambda>s. t \<in> set (ap_traces s)) (traces_listSpans env j) (\<lambda>spans s. list_all (\<lambda>x. sr_traceId x = j) spans \<and> t \<in> set (ap_traces s))"
  unfolding traces_listSpans_def by (rule hold_readCall) (auto simp: list_all_iff)

lemma hold_getByRunId:
  "iso.hold w (\<lambda>s. i \<in> set (runIdsOf w s)) (traces_getByRunId env i)
     (\<lambda>t s. i \<in> set (runIdsOf w s) \<and> (case t of None \<Rightarrow> True | Some tr \<Rightarrow> tr_runId tr = i \<and> tr \<in> set (ap_traces s)))"
  unfolding traces_getByRunId_def by (rule hold_readCall) (auto dest: selectOne_Some split: option.split)

lemma hold_runSpans:
  "iso.hold w (\<lambda>s. i \<in> set (runIdsOf w s) \<and> tr_runId t = i \<and> t \<in> set (ap_traces s)) (traces_listSpans env (tr_traceId t))
     (\<lambda>spans s. list_all (\<lambda>x. sr_traceId x = tr_traceId t) spans \<and> tr_runId t = i \<and> i \<in> set (runIdsOf w s))"
  by (rule iso.hold_post, rule iso.hold_pre, rule iso.hold_frame [where F = "\<lambda>s. i \<in> set (runIdsOf w s) \<and> tr_runId t = i"], rule hold_listSpans)
    (auto intro: stable_ids)

lemma traceMissing_answers [simp]: "answers B w req (traceMissing i) s"
  by (simp add: traceMissing_def)

lemma route_getTrace: "iso.hold w (\<lambda>_. True) (getTrace env w i) (answers B w (GetTrace i))"
proof -
  have spans: "iso.hold w (\<lambda>s. i \<in> set (runIdsOf w s) \<and> tr_runId t = i \<and> t \<in> set (ap_traces s))
      (mbind (traces_listSpans env (tr_traceId t)) (\<lambda>spans. ret (200, TraceReply t spans))) (answers B w (GetTrace i))" for t
    by (rule iso.hold_mbind, rule hold_runSpans, rule iso.hold_ret) (simp add: reply_simps)
  show ?thesis unfolding getTrace_def
    by (rule iso.hold_mthen, rule hold_assertRunOwnership, rule iso.hold_mbind, rule iso.hold_pre, rule hold_getByRunId)
      (auto intro!: iso.hold_ret spans split: option.split)
qed

lemma route_getSpans: "iso.hold w (\<lambda>_. True) (getSpans env w i) (answers B w (GetSpans i))"
proof -
  have "iso.hold w (\<lambda>_. True) (traces_getById env i)
      (\<lambda>t s. case t of None \<Rightarrow> True | Some tr \<Rightarrow> tr_traceId tr = i \<and> tr \<in> set (ap_traces s))"
    unfolding traces_getById_def by (rule hold_readCall) (auto dest: selectOne_Some split: option.split)
  note trace = this
  have own: "iso.hold w (\<lambda>s. t \<in> set (ap_traces s)) (assertRunOwnership env w (tr_runId t)) (\<lambda>r s. tr_runId t \<in> set (runIdsOf w s) \<and> t \<in> set (ap_traces s))" for t
    by (rule iso.hold_post, rule iso.hold_pre, rule iso.hold_frame [where F = "\<lambda>s. t \<in> set (ap_traces s)"], rule hold_assertRunOwnership)
      (auto intro: stable_ids)
  have page: "iso.hold w (\<lambda>s. tr_runId t \<in> set (runIdsOf w s) \<and> t \<in> set (ap_traces s))
      (mbind (traces_listSpans env i) (\<lambda>spans. ret (200, SpansReply spans))) (answers B w (GetSpans i))" if "tr_traceId t = i" for t
    by (rule iso.hold_mbind, rule iso.hold_pre, rule iso.hold_frame [where F = "\<lambda>s. tr_runId t \<in> set (runIdsOf w s)"], rule hold_listSpans [where t = t])
      (use that in \<open>auto simp: reply_simps list_all_iff list_ex_iff intro: stable_ids intro!: iso.hold_ret\<close>)
  have spans: "iso.hold w (\<lambda>s. tr_traceId t = i \<and> t \<in> set (ap_traces s))
      (mthen (assertRunOwnership env w (tr_runId t)) (mbind (traces_listSpans env i) (\<lambda>spans. ret (200, SpansReply spans)))) (answers B w (GetSpans i))" for t
    by (rule iso.hold_pure, rule iso.hold_mthen, rule own, rule page)
  show ?thesis unfolding getSpans_def
    by (rule iso.hold_mbind [OF trace]) (auto intro!: iso.hold_ret spans split: option.split)
qed

lemma route_getMetrics: "iso.hold w (\<lambda>_. True) (getMetrics env w i) (answers B w (GetMetrics i))"
proof -
  have spans: "iso.hold w (\<lambda>s. i \<in> set (runIdsOf w s) \<and> tr_runId t = i \<and> t \<in> set (ap_traces s)) (mbind (traces_listSpans env (tr_traceId t)) k) Q"
    if "\<And>xs. iso.hold w (\<lambda>s. i \<in> set (runIdsOf w s)) (k xs) Q" for t k Q
    by (rule iso.hold_mbind, rule hold_runSpans, rule iso.hold_pre, rule that) simp
  show ?thesis unfolding getMetrics_def
    by (rule iso.hold_mbind, rule hold_assertRunOwnership, rule iso.hold_mbind, rule iso.hold_pre, rule hold_getByRunId)
      (auto simp: Let_def reply_simps intro!: iso.hold_ret spans split: option.split)
qed

lemma route_agentById: "iso.hold w (\<lambda>_. True) (mbind (agentById env w i) (\<lambda>a. ret (200, AgentReply a))) (answers B w (GetAgentById i))"
  by (rule iso.hold_mbind, rule hold_agentById, rule iso.hold_ret) (simp add: reply_simps)

lemma route_getSession: "iso.hold w (\<lambda>_. True) (mbind (getSession env w i) (\<lambda>x. ret (200, SessionReply x))) (answers B w (GetSessionById i))"
  by (rule iso.hold_mbind, rule hold_getSession, rule iso.hold_ret) (simp add: reply_simps)

lemma hold_apiRoute: "iso.hold w (keyed B) (apiRoute env w req) (answers B w req)"
proof (cases req)
  case GetHealth
  then show ?thesis by (auto simp: apiRoute_def reply_simps intro!: iso.hold_ret)
qed (simp_all add: apiRoute_def route_agents route_patchSession,
  (rule iso.hold_pre, (rule route_agents route_postSessions route_getMessages route_postRun route_postCancel route_runs route_getTrace
     route_getSpans route_getMetrics route_agentById route_getSession), simp)+)

section \<open>Whole requests\<close>

text \<open>The workspace that a request speaks for: that of the unrevoked key its bearer token hashes to.\<close>

definition authWorkspace :: "apiEnv \<Rightarrow> apiState \<Rightarrow> string option \<Rightarrow> string option" where
  "authWorkspace env s header = (case header of None \<Rightarrow> None | Some h \<Rightarrow>
     if startsWith ''Bearer '' h \<and> drop 7 h \<noteq> [] then
       (case selectOne (\<lambda>k. ak_keyHash k = ax_sha256 env (drop 7 h)) (ap_keys s) of None \<Rightarrow> None
        | Some k \<Rightarrow> if ak_revokedAt k = None then Some (ak_workspaceId k) else None)
     else None)"

lemma skipsAuth_path: "skipsAuth (pathOf req) = (req = GetHealth)"
  by (cases req) (simp_all add: skipsAuth_def requestPath_def pathOf_def SKIP_AUTH_PATHS_def SKIP_AUTH_PREFIXES_def startsWith_def
      split: option.split)

lemma wp_readCall [wp_simps]: "wp (readCall env f) Q s = (let s1 = s\<lparr>ap_tick := Suc (ap_tick s)\<rparr> in
    if ax_fault env (ap_tick s) then Q (Throw (DbErr Unavailable)) s1 else Q (Val (f s1)) s1)"
  by (simp add: readCall_def call_def wp_def Let_def)

lemma authHook_wp:
  assumes "\<not> skipsAuth url"
  shows "wp (authHook env url header) (\<lambda>r s'. s'\<lparr>ap_tick := ap_tick s\<rparr> = s \<and> (case r of
      Val k \<Rightarrow> (case k of None \<Rightarrow> False | Some key \<Rightarrow> authWorkspace env s header = Some (ak_workspaceId key))
    | Throw e \<Rightarrow> fst (errorReply env e) \<in> {401, 500} \<and> (e \<noteq> DbErr Unavailable \<longrightarrow> authWorkspace env s header = None) | Torn \<Rightarrow> False)) s"
  using assms by (auto simp: authHook_def authWorkspace_def wp_simps Let_def apiKeys_getByKeyHash_def errorReply_def CODE_TO_STATUS_def
      split: option.split)

lemma handleApi_health: "handleApi env header GetHealth s = (Val (200, HealthReply), s)"
  by (simp add: handleApi_def authHook_def skipsAuth_path apiRoute_def ret_def mbind_def tryCatch_def)

lemma apart_of_tick: "s'\<lparr>ap_tick := n\<rparr> = s \<Longrightarrow> apart w s s'"
  using apart_tick [of w s' n]
  by (auto simp: apart_defs agentIdsOf_def sessionIdsOf_def runIdsOf_def)

lemma hold_handle: "iso.hold w (keyed B) (tryCatch (apiRoute env w req) (\<lambda>e. ret (errorReply env e))) (answers B w req)"
  by (rule iso.hold_tryCatch, rule hold_apiRoute, rule iso.hold_ret) simp

lemma handleApi_cases:
  assumes req: "req \<noteq> GetHealth" and s: "keyed B s" and h: "handleApi env header req s = (r, s')"
  obtains p w where "r = Val p" and "answers B w req p s'" and "case authWorkspace env s header of
         Some v \<Rightarrow> v = w \<and> apart w s s' | None \<Rightarrow> fst p \<in> {401, 500} \<and> s'\<lparr>ap_tick := ap_tick s\<rparr> = s"
proof -
  obtain q s1 where a: "authHook env (pathOf req) header s = (q, s1)" by fastforce
  have hook: "s1\<lparr>ap_tick := ap_tick s\<rparr> = s" and val: "case q of
      Val k \<Rightarrow> (case k of None \<Rightarrow> False | Some key \<Rightarrow> authWorkspace env s header = Some (ak_workspaceId key))
    | Throw e \<Rightarrow> fst (errorReply env e) \<in> {401, 500} | Torn \<Rightarrow> False"
    using wpD [OF authHook_wp [of "pathOf req" env header s] a] req by (auto simp: skipsAuth_path split: outcome.splits)
  have ap: "apart w s s1" for w by (rule apart_of_tick [OF hook])
  show thesis
  proof (cases q)
    case (Throw e)
    then have "r = Val (errorReply env e)" "s' = s1" using h a by (simp_all add: handleApi_def tryCatch_def mbind_def ret_def)
    then show ?thesis using that [of "errorReply env e" "orElse (authWorkspace env s header) []"] hook val ap Throw
      by (simp add: orElse_def split: option.split)
  next
    case (Val k)
    then obtain key where k: "k = Some key" "authWorkspace env s header = Some (ak_workspaceId key)" using val by (auto split: option.splits)
    let ?w = "ak_workspaceId key"
    have run: "tryCatch (apiRoute env ?w req) (\<lambda>e. ret (errorReply env e)) s1 = (r, s')"
      using h a Val k by (simp add: handleApi_def tryCatch_def mbind_def)
    have "keyed B s1" using s ap keyed_stable by blast
    then have "apart ?w s1 s'" "case r of Val x \<Rightarrow> answers B ?w req x s' | Throw e \<Rightarrow> True | Torn \<Rightarrow> False"
      using iso.holdD [OF hold_handle _ run] by auto
    moreover have "\<And>e. r \<noteq> Throw e" using run by (auto simp: tryCatch_def ret_def split: prod.splits outcome.splits)
    moreover have "apart ?w s s'" using \<open>apart ?w s1 s'\<close> ap apart_trans by blast
    ultimately show ?thesis using that [of _ ?w] k by (cases r) auto
  qed (use val in simp)
qed

text \<open>Every handler ends with a reply of its route's type.\<close>

lemma handleApi_typed: "\<exists>st rep. fst (handleApi env header req s) = Val (st, rep) \<and> repliesWith req st rep"
proof (cases "req = GetHealth")
  case True
  then show ?thesis by (simp add: handleApi_health repliesWith_def)
next
  case False
  obtain r s' where h: "handleApi env header req s = (r, s')" by fastforce
  have "keyed False s" by (simp add: keyed_def)
  from False this h show ?thesis by (rule handleApi_cases) (auto simp: h answers_def)
qed

text \<open>Property C15: every request gets a reply of its route's type, whatever the state of the tables and whatever query
the database refuses: the promised status with the promised body, whose rows answer the identifiers of the path, or
an error reply with a known code and the status of that code.  No handler ends without a reply.\<close>

theorem reply_typed:
  "case fst (handleApi env header req s) of Val (st, rep) \<Rightarrow> repliesWith req st rep | _ \<Rightarrow> False"
  using handleApi_typed [of env header req s] by auto


section \<open>Rows of other workspaces look missing\<close>

lemma wp_dbCall [wp_simps]: "wp (dbCall env q) Q s = (let s1 = s\<lparr>ap_tick := Suc (ap_tick s)\<rparr> in
    if ax_fault env (ap_tick s) then Q (Throw (DbErr Unavailable)) s1
    else (case q (ax_clock env (ap_tick s)) (ap_db s) of Inl e \<Rightarrow> Q (Throw e) s1 | Inr (x, d) \<Rightarrow> Q (Val x) (s1\<lparr>ap_db := d\<rparr>)))"
  by (simp add: dbCall_def call_def wp_def Let_def split: sum.split)

lemma same_tick: "s\<lparr>ap_tick := n, ap_db := ap_db s\<rparr> = s\<lparr>ap_tick := n\<rparr>"
  by simp

definition stuckOn :: "js_error \<Rightarrow> apiState \<Rightarrow> 'a outcome \<Rightarrow> apiState \<Rightarrow> bool" where
  "stuckOn e s r s' = (r = Throw e \<and> (\<exists>n. s' = s\<lparr>ap_tick := n\<rparr>))"

lemma stuckOn_tick [simp]: "stuckOn e (s\<lparr>ap_tick := n\<rparr>) = stuckOn e s"
  by (auto simp: stuckOn_def fun_eq_iff)

lemma stuck_mbind: "wp m (stuckOn e s) t \<Longrightarrow> wp (mbind m f) (stuckOn e s) t"
  unfolding wp_mbind by (erule wp_mono) (auto simp: stuckOn_def)

lemma stuck_mthen: "wp m (stuckOn e s) t \<Longrightarrow> wp (mthen m f) (stuckOn e s) t"
  unfolding mthen_def by (rule stuck_mbind)

lemma stuck_read:
  assumes "ax_fault env = (\<lambda>_. False)" and "q (ap_db s) = Inr (x, ap_db s)"
    and "wp (f x) (stuckOn e s) (s\<lparr>ap_tick := Suc (ap_tick s)\<rparr>)"
  shows "wp (mbind (dbCall env (\<lambda>_. q)) f) (stuckOn e s) s"
  using assms by (simp add: wp_mbind wp_dbCall Let_def same_tick)

lemma agentById_foreign:
  assumes "ax_fault env = (\<lambda>_. False)" and "i \<notin> set (agentIdsOf w s)"
  shows "wp (agentById env w i) (stuckOn (notFound (''Agent '' @ i @ '' not found'')) s) s"
  using assms by (auto simp: agentById_def wp_simps Let_def agents_getById_def stuckOn_def agentIdsOf_def same_tick split: option.split dest!: selectOne_Some)

lemma ownedAgent_foreign:
  assumes "ax_fault env = (\<lambda>_. False)" and "i \<notin> set (agentIdsOf w s)"
  shows "wp (mthen (tryCatch (mthen (agentById env w i) (ret ())) (\<lambda>_. throw e)) k) (stuckOn e s) s"
proof (rule stuck_mthen)
  show "wp (tryCatch (mthen (agentById env w i) (ret ())) (\<lambda>_. throw e)) (stuckOn e s) s"
    using agentById_foreign [OF assms] unfolding wp_tryCatch wp_mthen by (auto elim!: wp_mono simp: stuckOn_def wp_simps)
qed

lemma getSession_foreign:
  assumes f: "ax_fault env = (\<lambda>_. False)" and i: "i \<notin> set (sessionIdsOf w s)"
  shows "wp (getSession env w i) (stuckOn (sessionMissing i) s) s"
proof -
  let ?s1 = "s\<lparr>ap_tick := Suc (ap_tick s)\<rparr>"
  have "wp (mthen (tryCatch (mthen (agentById env w (se_agentId x)) (ret ())) (\<lambda>_. throw (sessionMissing i))) (ret x)) (stuckOn (sessionMissing i) ?s1) ?s1"
    if "selectOne (\<lambda>x. se_sessionId x = i) (db_sessions (ap_db s)) = Some x" for x
    by (rule ownedAgent_foreign [OF f]) (use i selectOne_link [OF that] in \<open>auto simp: sessionIdsOf_links\<close>)
  then show ?thesis unfolding getSession_def
    by (intro stuck_read [OF f]) (auto simp: sessions_getById_def wp_throw stuckOn_def [of _ _ "Throw _"] split: option.split)
qed

lemma assertRunOwnership_foreign:
  assumes f: "ax_fault env = (\<lambda>_. False)" and i: "i \<notin> set (runIdsOf w s)"
  shows "wp (assertRunOwnership env w i) (stuckOn (runMissing i) s) s"
proof -
  let ?s1 = "s\<lparr>ap_tick := Suc (ap_tick s)\<rparr>" and ?s2 = "s\<lparr>ap_tick := Suc (Suc (ap_tick s))\<rparr>"
  have own: "wp (mthen (tryCatch (mthen (agentById env w (se_agentId x)) (ret ())) (\<lambda>_. throw (runMissing i))) (ret r)) (stuckOn (runMissing i) ?s2) ?s2"
    if r: "selectOne (\<lambda>r. ru_runId r = i) (db_runs (ap_db s)) = Some r" and x: "selectOne (\<lambda>x. se_sessionId x = ru_sessionId r) (db_sessions (ap_db s)) = Some x" for r x
    by (rule ownedAgent_foreign [OF f]) (use i selectOne_link [OF x] selectOne_Some [OF r] in \<open>auto simp: runIdsOf_def sessionIdsOf_links\<close>)
  have "wp (mbind (dbCall env (\<lambda>_. sessions_getById (ru_sessionId r))) (\<lambda>x. case x of None \<Rightarrow> throw (runMissing i)
      | Some x \<Rightarrow> mthen (tryCatch (mthen (agentById env w (se_agentId x)) (ret ())) (\<lambda>_. throw (runMissing i))) (ret r))) (stuckOn (runMissing i) ?s1) ?s1"
    if "selectOne (\<lambda>r. ru_runId r = i) (db_runs (ap_db s)) = Some r" for r
    by (intro stuck_read [OF f]) (use own [OF that] in \<open>auto simp: sessions_getById_def wp_throw stuckOn_def [of _ _ "Throw _"] split: option.split\<close>)
  then show ?thesis unfolding assertRunOwnership_def
    by (intro stuck_read [OF f]) (auto simp: runs_getById_def wp_throw stuckOn_def [of _ _ "Throw _"] split: option.split)
qed

text \<open>The refusal of a request for a row that is not the workspace's own.\<close>

definition foreignReply :: "apiEnv \<Rightarrow> string \<Rightarrow> apiState \<Rightarrow> apiRequest \<Rightarrow> response option" where
  "foreignReply env w s req =
     (let agent = (\<lambda>i. if i \<in> set (agentIdsOf w s) then None else Some (404, ErrorReply ''NOT_FOUND'' (''Agent '' @ i @ '' not found'')));
          session = (\<lambda>i. if i \<in> set (sessionIdsOf w s) then None else Some (404, ErrorReply ''NOT_FOUND'' (''Session '' @ i @ '' not found'')));
          run = (\<lambda>i. if i \<in> set (runIdsOf w s) then None else Some (404, ErrorReply ''NOT_FOUND'' (''Run '' @ i @ '' not found''))) in
      case req of GetAgentById i \<Rightarrow> agent i | GetSessionById i \<Rightarrow> session i | PatchSession i (Some st) \<Rightarrow> session i | GetMessages i q \<Rightarrow> session i
      | PostRun i (Some (c # cs)) \<Rightarrow> session i | GetRunById i \<Rightarrow> run i | GetToolCalls i \<Rightarrow> run i | PostCancel i \<Rightarrow> run i | GetTrace i \<Rightarrow> run i
      | GetMetrics i \<Rightarrow> run i | _ \<Rightarrow> None)"

lemma errorReply_notFound: "errorReply env (notFound m) = (404, ErrorReply ''NOT_FOUND'' m)"
  by (simp add: errorReply_def notFound_def CODE_TO_STATUS_def codeName_def)

lemma foreign_stuck:
  assumes f: "ax_fault env = (\<lambda>_. False)" and r: "foreignReply env w s req = Some rep"
  shows "\<exists>m. rep = errorReply env (notFound m) \<and> wp (apiRoute env w req) (stuckOn (notFound m) s) s"
proof -
  note agent = agentById_foreign [OF f] and session = getSession_foreign [OF f, unfolded sessionMissing_def]
    and run = assertRunOwnership_foreign [OF f, unfolded runMissing_def]
  note r' = r [unfolded foreignReply_def Let_def]
  show ?thesis
  proof (cases req)
    case (GetAgentById i)
    then show ?thesis using r' agent [of i w s] by (auto simp: apiRoute_def errorReply_notFound intro!: stuck_mbind split: if_splits)
  next
    case (GetSessionById i)
    then show ?thesis using r' session [of i w s] by (auto simp: apiRoute_def errorReply_notFound intro!: stuck_mbind split: if_splits)
  next
    case (PatchSession i b)
    then show ?thesis using r' session [of i w s]
      by (auto simp: apiRoute_def patchSession_def updateSession_def errorReply_notFound intro!: stuck_mbind stuck_mthen split: if_splits option.splits)
  next
    case (GetMessages i q)
    then show ?thesis using r' session [of i w s] by (auto simp: apiRoute_def getMessages_def errorReply_notFound intro!: stuck_mthen split: if_splits)
  next
    case (PostRun i b)
    then show ?thesis using r' session [of i w s]
      by (auto simp: apiRoute_def postRun_def createRun_def errorReply_notFound intro!: stuck_mbind stuck_mthen split: if_splits option.splits list.splits)
  next
    case (GetRunById i)
    then show ?thesis using r' run [of i w s] by (auto simp: apiRoute_def errorReply_notFound intro!: stuck_mbind split: if_splits)
  next
    case (GetToolCalls i)
    then show ?thesis using r' run [of i w s]
      by (auto simp: apiRoute_def getRunToolCalls_def errorReply_notFound intro!: stuck_mbind stuck_mthen split: if_splits)
  next
    case (PostCancel i)
    then show ?thesis using r' run [of i w s]
      by (auto simp: apiRoute_def requestCancelRun_def errorReply_notFound intro!: stuck_mthen split: if_splits)
  next
    case (GetTrace i)
    then show ?thesis using r' run [of i w s] by (auto simp: apiRoute_def getTrace_def errorReply_notFound intro!: stuck_mthen split: if_splits)
  next
    case (GetMetrics i)
    then show ?thesis using r' run [of i w s] by (auto simp: apiRoute_def getMetrics_def errorReply_notFound intro!: stuck_mbind split: if_splits)
  qed (use r' in simp_all)
qed

lemma authHook_known:
  assumes f: "ax_fault env = (\<lambda>_. False)" and w: "authWorkspace env s header = Some w" and u: "\<not> skipsAuth url"
  shows "\<exists>k n. authHook env url header s = (Val (Some k), s\<lparr>ap_tick := n\<rparr>) \<and> ak_workspaceId k = w"
  using assms by (auto simp: authHook_def authWorkspace_def Let_def apiKeys_getByKeyHash_def readCall_def call_def mbind_def ret_def
      split: option.splits if_splits)

text \<open>Property C16: a row of another workspace looks like a row that does not exist.  When the database answers, a
request that names an agent, session or run that is not the caller's own gets the 404 of a missing row, with the
same message, starts and cancels nothing and leaves every table alone.\<close>

theorem foreign_rows_hidden:
  assumes f: "ax_fault env = (\<lambda>_. False)" and w: "authWorkspace env s header = Some w"
    and r: "foreignReply env w s req = Some rep"
  shows "\<exists>n. handleApi env header req s = (Val rep, s\<lparr>ap_tick := n\<rparr>)"
proof -
  have "req \<noteq> GetHealth" using r by (auto simp: foreignReply_def)
  then obtain k n where k: "authHook env (pathOf req) header s = (Val (Some k), s\<lparr>ap_tick := n\<rparr>)" "ak_workspaceId k = w"
    using authHook_known [OF f w] by (metis skipsAuth_path)
  have "foreignReply env w (s\<lparr>ap_tick := n\<rparr>) req = Some rep" using r by (simp add: foreignReply_def)
  then obtain m where m: "rep = errorReply env (notFound m)"
    "wp (apiRoute env w req) (stuckOn (notFound m) (s\<lparr>ap_tick := n\<rparr>)) (s\<lparr>ap_tick := n\<rparr>)"
    using foreign_stuck [OF f] by blast
  obtain q s' where "apiRoute env w req (s\<lparr>ap_tick := n\<rparr>) = (q, s')" by fastforce
  then show ?thesis using m k by (auto simp: handleApi_def tryCatch_def mbind_def ret_def wp_def stuckOn_def)
qed

section \<open>Paging through the messages of a session\<close>

text \<open>What a client does: ask for a page after the last message it has, until a page is short.\<close>

fun readPages :: "nat \<Rightarrow> apiEnv \<Rightarrow> string \<Rightarrow> nat \<Rightarrow> string option \<Rightarrow> MessageRecord list apiM" where
  "readPages 0 env i n c = throw (SwiftErr TIMEOUT ''no end'')"
| "readPages (Suc fuel) env i n c = mbind (listMessages env i n c) (\<lambda>ms. if length ms < n then ret ms
     else mbind (readPages fuel env i n (Some (me_messageId (last ms)))) (\<lambda>rest. ret (ms @ rest)))"

definition sessionMessages :: "string \<Rightarrow> apiState \<Rightarrow> MessageRecord list" where
  "sessionMessages i s = sort_key me_createdAt (filter (\<lambda>m. me_sessionId m = i) (db_messages (ap_db s)))"

lemma sessionMessages_tick [simp]: "sessionMessages i (s\<lparr>ap_tick := n\<rparr>) = sessionMessages i s"
  by (simp add: sessionMessages_def)

lemma findIndex_at:
  assumes "distinct (map f xs)" and "k < length xs"
  shows "findIndex (\<lambda>m. f m = f (xs ! k)) xs = Some k"
proof -
  have "takeWhile (\<lambda>m. f m \<noteq> f (xs ! k)) xs = take k xs"
    using assms by (intro takeWhile_eq_take_P_nth) (auto simp: nth_eq_iff_index_eq distinct_conv_nth)
  then show ?thesis using assms by (simp add: findIndex_def)
qed

definition cursorAt :: "MessageRecord list \<Rightarrow> nat \<Rightarrow> string option" where
  "cursorAt ms k = (if k = 0 then None else Some (me_messageId (ms ! (k - 1))))"

lemma listMessages_at:
  assumes f: "ax_fault env = (\<lambda>_. False)" and ms: "ms = sessionMessages i s" and d: "distinct (map me_messageId ms)"
    and ne: "[] \<notin> me_messageId ` set ms" and k: "k \<le> length ms"
  shows "listMessages env i n (cursorAt ms k) s = (Val (take n (drop k ms)), s\<lparr>ap_tick := Suc (ap_tick s)\<rparr>)"
proof -
  have l: "dbCall env (\<lambda>_. messages_listBySession i) s = (Val ms, s\<lparr>ap_tick := Suc (ap_tick s)\<rparr>)"
    by (simp add: dbCall_def call_def f Let_def messages_listBySession_def ms sessionMessages_def)
  show ?thesis
  proof (cases k)
    case (Suc j)
    then have "me_messageId (ms ! j) \<noteq> []" using ne k by (metis Suc_le_lessD image_eqI nth_mem)
    then show ?thesis using l findIndex_at [OF d, of j] Suc k by (simp add: listMessages_def mbind_def cursorAt_def ret_def)
  qed (use l in \<open>simp add: listMessages_def mbind_def cursorAt_def ret_def\<close>)
qed

lemma readPages_from:
  assumes f: "ax_fault env = (\<lambda>_. False)" and n: "0 < n"
  shows "ms = sessionMessages i s \<Longrightarrow> distinct (map me_messageId ms) \<Longrightarrow> [] \<notin> me_messageId ` set ms \<Longrightarrow> k \<le> length ms \<Longrightarrow>
     length ms - k < fuel \<Longrightarrow> fst (readPages fuel env i n (cursorAt ms k) s) = Val (drop k ms)"
proof (induction fuel arbitrary: k s)
  case (Suc fuel)
  let ?page = "take n (drop k ms)" and ?s = "s\<lparr>ap_tick := Suc (ap_tick s)\<rparr>"
  have l: "listMessages env i n (cursorAt ms k) s = (Val ?page, ?s)" using Suc by (intro listMessages_at [OF f])
  show ?case
  proof (cases "length ?page < n")
    case True
    then have "length ms - k < n" by simp
    then show ?thesis using l by (simp add: mbind_def ret_def)
  next
    case False
    then have k: "k + n \<le> length ms" using n by (simp add: min_def split: if_splits)
    have "last ?page = ms ! (k + n - 1)" using k n by (simp add: last_conv_nth)
    then have c: "Some (me_messageId (last ?page)) = cursorAt ms (k + n)" using n by (simp add: cursorAt_def)
    have "fst (readPages fuel env i n (cursorAt ms (k + n)) ?s) = Val (drop (k + n) ms)"
      using Suc k n by (intro Suc.IH) auto
    then obtain s2 where s2: "readPages fuel env i n (cursorAt ms (k + n)) ?s = (Val (drop (k + n) ms), s2)" by (metis prod.collapse)
    have "?page @ drop (k + n) ms = drop k ms" by (metis add.commute append_take_drop_id drop_drop)
    then show ?thesis using l c s2 False by (simp add: mbind_def ret_def)
  qed
qed simp

lemma distinct_map_filter_sort: "distinct (map f xs) \<Longrightarrow> distinct (map f (sort_key g (filter P xs)))"
  by (metis distinct_map_filter distinct_sort distinct_map inj_on_subset set_sort)

text \<open>Property C17: paging loses nothing.  When the database answers and nothing is written meanwhile, a client that
asks for pages of any size after the last message it has, until a page is short, reads every message of the session
exactly once and in order, and it stops after at most one request more than there are messages.\<close>

theorem pages_cover:
  assumes "ax_fault env = (\<lambda>_. False)" and "0 < n" and "dbOk (ap_db s)" and "[] \<notin> set (map me_messageId (db_messages (ap_db s)))"
  shows "fst (readPages (Suc (length (sessionMessages i s))) env i n None s) = Val (sessionMessages i s)"
proof -
  have "distinct (map me_messageId (sessionMessages i s))"
    using assms(3) by (simp add: sessionMessages_def dbOk_def distinct_map_filter_sort)
  moreover have "[] \<notin> me_messageId ` set (sessionMessages i s)" using assms(4) by (auto simp: sessionMessages_def)
  ultimately show ?thesis using readPages_from [OF assms(1,2), of "sessionMessages i s" i s 0]
    by (simp add: cursorAt_def del: readPages.simps)
qed

section \<open>A concrete server\<close>

definition apiDemoEnv :: apiEnv where
  "apiDemoEnv = \<lparr>ax_clock = (\<lambda>n. n), ax_fault = (\<lambda>_. False), ax_nano = natToString, ax_nano40 = natToString, ax_sha256 = rev, ax_sign = (\<lambda>_ i _ _. i),
     ax_isUrl = (\<lambda>_. True), ax_start = (\<lambda>_ _ _. Inr ''run_9''), ax_cancel = (\<lambda>_ _. Inr True), ax_publicUrl = ''ws://chat'',
     ax_dbm = (\<lambda>_. ''db''), ax_jwt = (\<lambda>t. Some \<lparr>cp_tokenUse = Some ''id'', cp_aud = Some (Inl ''app''), cp_sub = Some t, cp_email = Some t\<rparr>), ax_clientId = ''app''\<rparr>"

definition apiDemoAgent :: "string \<Rightarrow> string \<Rightarrow> AgentRecord" where
  "apiDemoAgent i w = \<lparr>ag_agentId = i, ag_workspaceId = w, ag_name = ''bot'', ag_modelConfig = \<lparr>model = ''m'', temperature = None, maxTokens = None\<rparr>,
     ag_systemPrompt = ''p'', ag_memoryConfig = DEFAULT_MEMORY_CONFIG, ag_tools = [], ag_toolRunnerUrl = None, ag_createdAt = 0, ag_updatedAt = 0\<rparr>"

definition apiDemoSession :: "string \<Rightarrow> string \<Rightarrow> SessionRecord" where
  "apiDemoSession i a = \<lparr>se_sessionId = i, se_agentId = a, se_userId = None, se_status = Active, se_metadata = [], se_createdAt = 0, se_updatedAt = 0\<rparr>"

definition apiDemoMessage :: "string \<Rightarrow> string \<Rightarrow> nat \<Rightarrow> MessageRecord" where
  "apiDemoMessage i sid k = \<lparr>me_messageId = i, me_sessionId = sid, me_runId = None, me_role = User, me_content = ''hi'', me_createdAt = k\<rparr>"

text \<open>Two workspaces with an agent and a session each; \<open>k1\<close> is a key of the first.\<close>

definition apiDemo :: apiState where
  "apiDemo = \<lparr>ap_db = \<lparr>db_workspaces = [''w1'', ''w2''], db_agents = [apiDemoAgent ''a1'' ''w1'', apiDemoAgent ''a2'' ''w2''],
       db_sessions = [apiDemoSession ''s1'' ''a1'', apiDemoSession ''s2'' ''a2''], db_runs = [],
       db_messages = [apiDemoMessage ''m1'' ''s1'' 2, apiDemoMessage ''m2'' ''s2'' 2, apiDemoMessage ''m3'' ''s1'' 1], db_toolCalls = []\<rparr>,
     ap_traces = [], ap_spans = [], ap_keys = [\<lparr>ak_apiKeyId = ''key1'', ak_workspaceId = ''w1'', ak_keyHash = ''1k'', ak_name = ''n'', ak_createdAt = 0, ak_revokedAt = None\<rparr>],
     ap_users = [], ap_workspaceRows = [], ap_members = [], ap_tick = 0, ap_ids = 0, ap_starts = [], ap_cancels = []\<rparr>"

lemmas demo_defs = apiDemo_def apiDemoEnv_def apiDemoAgent_def apiDemoSession_def apiDemoMessage_def

lemma apiDemo_ok: "dbOk (ap_db apiDemo)"
  by (simp add: dbOk_def demo_defs)

lemma apiDemo_key: "authWorkspace apiDemoEnv apiDemo (Some ''Bearer k1'') = Some ''w1''"
  by (simp add: authWorkspace_def startsWith_def selectOne_def firstRow_def demo_defs)



theorem foreign_rows_hidden_witness:
  "\<exists>n. handleApi apiDemoEnv (Some ''Bearer k1'') (GetSessionById ''s2'') apiDemo
     = (Val (404, ErrorReply ''NOT_FOUND'' ''Session s2 not found''), apiDemo\<lparr>ap_tick := n\<rparr>)"
  by (rule foreign_rows_hidden [OF _ apiDemo_key])
    (simp_all add: foreignReply_def Let_def sessionIdsOf_def agentIdsOf_def demo_defs)

theorem pages_cover_witness:
  "fst (readPages (Suc (length (sessionMessages ''s1'' apiDemo))) apiDemoEnv ''s1'' 1 None apiDemo)
     = Val [apiDemoMessage ''m3'' ''s1'' 1, apiDemoMessage ''m1'' ''s1'' 2]"
  using pages_cover [of apiDemoEnv 1 apiDemo "''s1''", OF _ _ apiDemo_ok]
  by (simp add: sessionMessages_def demo_defs del: readPages.simps)

end
