(* ===== verification/Management_Props.thy ===== *)
theory Management_Props
  imports Management Api_Props
begin





text \<open>The tables that the management routes guard.\<close>

definition guardedAre :: "ApiKeyRecord list \<Rightarrow> WorkspaceRecord list \<Rightarrow> UserWorkspaceRecord list \<Rightarrow> apiState \<Rightarrow> bool" where
  "guardedAre ks ws ms s = (ap_keys s = ks \<and> ap_workspaceRows s = ws \<and> ap_members s = ms)"

lemma guardedAre_upd [simp]: "guardedAre ks ws ms (s\<lparr>ap_tick := n\<rparr>) = guardedAre ks ws ms s"
  "guardedAre ks ws ms (s\<lparr>ap_ids := n\<rparr>) = guardedAre ks ws ms s" "guardedAre ks ws ms (s\<lparr>ap_users := us\<rparr>) = guardedAre ks ws ms s"
  by (simp_all add: guardedAre_def)








section \<open>Only members\<close>











section \<open>The life of a key\<close>


text \<open>The row that a created key leaves.\<close>

definition keyMade :: "apiEnv \<Rightarrow> ApiKeyRecord list \<Rightarrow> string \<Rightarrow> nat \<times> mgmtReply \<Rightarrow> apiState \<Rightarrow> bool" where
  "keyMade env ks w p s = (case snd p of
      KeyCreated v raw \<Rightarrow> (\<exists>k. ap_keys s = ks @ [k] \<and> keyView k = v \<and> ak_workspaceId k = w \<and> ak_keyHash k = ax_sha256 env raw \<and> ak_revokedAt k = None
         \<and> ak_apiKeyId k \<notin> ak_apiKeyId ` set ks \<and> raw \<noteq> [])
    | _ \<Rightarrow> True)"

lemma keyMade_error [simp]: "keyMade env ks w (mgmtError r) s"
  by (simp add: keyMade_def mgmtError_def split: apiReply.split)





section \<open>A concrete workspace\<close>

text \<open>A user creates a workspace, a key for it, and revokes the key.\<close>

definition owner1 :: UserRecord where
  "owner1 = \<lparr>ur_userId = ''usr_0'', ur_cognitoSub = ''tok'', ur_email = ''tok'', ur_createdAt = 0, ur_updatedAt = 0\<rparr>"

definition mgmtDemo :: apiState where
  "mgmtDemo = apiDemo\<lparr>ap_users := [owner1], ap_workspaceRows := [\<lparr>wr_workspaceId = ''w1'', wr_name = ''one'', wr_createdAt = 0\<rparr>],
     ap_members := [\<lparr>uw_userId = ''usr_0'', uw_workspaceId = ''w1'', uw_role = Owner, uw_createdAt = 0\<rparr>]\<rparr>"






text \<open>\<open>POST /workspaces\<close> is no transaction: when the membership insert is refused, the workspace stays without an owner,
and nobody can reach it.\<close>

lemma orphan_workspace:
  "\<exists>f. case handleManagement (apiDemoEnv\<lparr>ax_fault := f\<rparr>) (Some ''Bearer tok'') (PostWorkspace (Some ''two'')) mgmtDemo of
     (Val (st, rep), s') \<Rightarrow> st = 500 \<and> (case rep of MgmtError c m \<Rightarrow> c = ''INTERNAL'' | _ \<Rightarrow> False)
       \<and> map wr_name (ap_workspaceRows s') = [''one'', ''two''] \<and> ap_members s' = ap_members mgmtDemo | _ \<Rightarrow> False"
  by (rule exI [where x = "\<lambda>n. n = 2"])
    code_simp

end
