(* ===== verification/Drift_Check.thy ===== *)
theory Drift_Check
  imports Prelude "HOL-Library.Char_ord" "HOL-Library.List_Lexorder"
begin

text \<open>Structural drift detection (\<open>db/src/drift-check.ts\<close>) over the snapshots of \<open>snapshot.ts\<close>: the canonical model, the
  projection of a snapshot, the introspection of a live catalog, the difference of two schemas, the report and the plan
  of the migration preflight; and the migration status (\<open>migration-status.ts\<close>).

  A JavaScript object used as a record of named parts is a map in insertion order.  The introspection queries are
  modelled on a catalog of tables; the order in which the database lists them only orders the report.\<close>

section \<open>The canonical model\<close>

record CanonicalColumn =
  cc_name :: string
  cc_type :: string
  cc_notNull :: bool
  cc_default :: "string option"

record CanonicalIndex =
  ci_name :: string
  ci_columns :: "string list"
  ci_isUnique :: bool

record CanonicalForeignKey =
  cf_name :: string
  cf_columnsFrom :: "string list"
  cf_tableTo :: string
  cf_columnsTo :: "string list"
  cf_onDelete :: string
  cf_onUpdate :: string

record CanonicalTable =
  ct_name :: string
  ct_columns :: "(string, CanonicalColumn) jsmap"
  ct_indexes :: "(string, CanonicalIndex) jsmap"
  ct_foreignKeys :: "(string, CanonicalForeignKey) jsmap"
  ct_primaryKeyColumns :: "string list"

record CanonicalSchema =
  cs_tables :: "(string, CanonicalTable) jsmap"
  cs_enums :: "(string, string list) jsmap"

datatype DriftKind = DkTable | DkColumn | DkEnum | DkIndex | DkForeignKey | DkPrimaryKey
datatype DriftDetail = MissingInDb | UnexpectedInDb | Mismatch

record DriftDifference =
  dd_kind :: DriftKind
  dd_object :: string
  dd_detail :: DriftDetail
  dd_expected :: "string option"
  dd_actual :: "string option"

record DriftResult =
  dr_hasDrift :: bool
  dr_expectedSnapshotTag :: string
  dr_differences :: "DriftDifference list"
  dr_notes :: "string list"

section \<open>Normalizers\<close>

definition isCastChar :: "char \<Rightarrow> bool" where
  "isCastChar c = (let n = (of_char c :: nat) in (48 \<le> n \<and> n \<le> 57) \<or> (65 \<le> n \<and> n \<le> 90) \<or> (97 \<le> n \<and> n \<le> 122) \<or> c = CHR ''_'' \<or> n = 34 \<or> c = CHR ''.'')"

text \<open>The regular expression \<open>::\s*[\w".]+(\s*\[\s*\])?\s*$\<close> on the whole of a string.\<close>

definition isCast :: "string \<Rightarrow> bool" where
  "isCast s = (startsWith ''::'' s \<and> (let r = dropWhile isSpace (drop 2 s); rest = dropWhile isSpace (dropWhile isCastChar r) in
     takeWhile isCastChar r \<noteq> [] \<and> (rest = [] \<or>
       (case rest of [] \<Rightarrow> True | c # cs \<Rightarrow> c = CHR ''['' \<and> (case dropWhile isSpace cs of [] \<Rightarrow> False | d # ds \<Rightarrow> d = CHR '']'' \<and> dropWhile isSpace ds = [])))))"

text \<open>\<open>s.replace(re, '')\<close> removes the leftmost match, which reaches the end.\<close>

fun stripCast :: "string \<Rightarrow> string" where
  "stripCast [] = []"
| "stripCast (c # cs) = (if isCast (c # cs) then [] else c # stripCast cs)"

definition lowerChar :: "char \<Rightarrow> char" where
  "lowerChar c = (let n = (of_char c :: nat) in if (65 \<le> n \<and> n \<le> 90) \<or> (192 \<le> n \<and> n \<le> 222 \<and> n \<noteq> 215) then char_of (n + 32) else c)"

definition quote :: char where "quote = CHR 0x27"

definition unquote :: "string \<Rightarrow> string" where
  "unquote s = (if 2 \<le> length s \<and> hd s = quote \<and> last s = quote then butlast (tl s) else s)"

definition normalizeDefault :: "string option \<Rightarrow> string option" where
  "normalizeDefault v = (case v of None \<Rightarrow> None | Some s \<Rightarrow> Some (map lowerChar (trim (unquote (trim (stripCast (trim s)))))))"

text \<open>\<open>toUpperCase\<close> on the referential actions, which are ASCII.\<close>

definition upperChar :: "char \<Rightarrow> char" where
  "upperChar c = (let n = (of_char c :: nat) in if 97 \<le> n \<and> n \<le> 122 then char_of (n - 32) else c)"

definition normalizeAction :: "string option \<Rightarrow> string" where
  "normalizeAction a = map upperChar (trim (case a of None \<Rightarrow> ''no action'' | Some x \<Rightarrow> x))"

section \<open>Snapshots\<close>

record SnapshotColumn =
  sc_name :: string
  sc_type :: string
  sc_primaryKey :: bool
  sc_notNull :: bool
  sc_default :: "string option"

record SnapshotIndexColumn =
  sx_expression :: string
  sx_isExpression :: bool

record SnapshotIndex =
  si_name :: string
  si_columns :: "SnapshotIndexColumn list"
  si_isUnique :: bool

record SnapshotForeignKey =
  sf_name :: string
  sf_tableTo :: string
  sf_columnsFrom :: "string list"
  sf_columnsTo :: "string list"
  sf_onDelete :: "string option"
  sf_onUpdate :: "string option"

record SnapshotTable =
  st_name :: string
  st_columns :: "(string, SnapshotColumn) jsmap"
  st_indexes :: "(string, SnapshotIndex) jsmap"
  st_foreignKeys :: "(string, SnapshotForeignKey) jsmap"
  st_compositePrimaryKeys :: "(string, string list) jsmap"

record Snapshot =
  sn_tables :: "(string, SnapshotTable) jsmap"
  sn_enums :: "(string, string \<times> string list) jsmap"

text \<open>\<open>for (const x of xs) m[name(x)] = f(x)\<close>\<close>

definition keyedBy :: "('a \<Rightarrow> string) \<Rightarrow> ('a \<Rightarrow> 'b) \<Rightarrow> 'a list \<Rightarrow> (string, 'b) jsmap" where
  "keyedBy k f xs = fold (\<lambda>x m. js_set (k x) (f x) m) xs []"

definition projectColumn :: "SnapshotColumn \<Rightarrow> CanonicalColumn" where
  "projectColumn c = \<lparr>cc_name = sc_name c, cc_type = sc_type c, cc_notNull = sc_notNull c, cc_default = normalizeDefault (sc_default c)\<rparr>"

definition projectIndex :: "SnapshotIndex \<Rightarrow> CanonicalIndex" where
  "projectIndex i = \<lparr>ci_name = si_name i, ci_columns = map sx_expression (filter (\<lambda>c. \<not> sx_isExpression c) (si_columns i)), ci_isUnique = si_isUnique i\<rparr>"

definition projectForeignKey :: "SnapshotForeignKey \<Rightarrow> CanonicalForeignKey" where
  "projectForeignKey f = \<lparr>cf_name = sf_name f, cf_columnsFrom = sf_columnsFrom f, cf_tableTo = sf_tableTo f, cf_columnsTo = sf_columnsTo f,
     cf_onDelete = normalizeAction (sf_onDelete f), cf_onUpdate = normalizeAction (sf_onUpdate f)\<rparr>"

definition snapshotPk :: "SnapshotTable \<Rightarrow> string list" where
  "snapshotPk t = fold (\<lambda>c acc. if c \<in> set acc then acc else acc @ [c]) (concat (map snd (st_compositePrimaryKeys t)))
     (map sc_name (filter sc_primaryKey (map snd (st_columns t))))"

definition projectTable :: "SnapshotTable \<Rightarrow> CanonicalTable" where
  "projectTable t = \<lparr>ct_name = st_name t, ct_columns = keyedBy sc_name projectColumn (map snd (st_columns t)),
     ct_indexes = keyedBy si_name projectIndex (map snd (st_indexes t)), ct_foreignKeys = keyedBy sf_name projectForeignKey (map snd (st_foreignKeys t)),
     ct_primaryKeyColumns = sort (snapshotPk t)\<rparr>"

definition projectSnapshot :: "Snapshot \<Rightarrow> CanonicalSchema" where
  "projectSnapshot s = \<lparr>cs_tables = keyedBy st_name projectTable (map snd (sn_tables s)), cs_enums = keyedBy fst snd (map snd (sn_enums s))\<rparr>"

section \<open>Introspection rows\<close>

record RawColumnRow =
  rc_table :: string
  rc_column :: string
  rc_dataType :: string
  rc_udtName :: string
  rc_isNullable :: string
  rc_default :: "string option"
  rc_maxLength :: "nat option"

record RawIndexRow =
  ri_index :: string
  ri_table :: string
  ri_isUnique :: bool
  ri_column :: string
  ri_ord :: nat

record RawForeignKeyRow =
  rf_name :: string
  rf_tableFrom :: string
  rf_tableTo :: string
  rf_colFrom :: string
  rf_colTo :: string
  rf_onDelete :: string
  rf_onUpdate :: string
  rf_ord :: nat

record RawPrimaryKeyRow =
  rp_table :: string
  rp_column :: string
  rp_ord :: nat

record RawIntrospection =
  ra_tables :: "string list"
  ra_columns :: "RawColumnRow list"
  ra_enums :: "(string \<times> string) list"
  ra_indexes :: "RawIndexRow list"
  ra_foreignKeys :: "RawForeignKeyRow list"
  ra_primaryKeys :: "RawPrimaryKeyRow list"

definition canonicalizeLiveType :: "RawColumnRow \<Rightarrow> string" where
  "canonicalizeLiveType r = (if rc_dataType r = ''USER-DEFINED'' then rc_udtName r
     else if rc_dataType r = ''character varying'' then (case rc_maxLength r of None \<Rightarrow> ''varchar'' | Some n \<Rightarrow> ''varchar('' @ natToString n @ '')'')
     else if rc_dataType r = ''character'' then (case rc_maxLength r of None \<Rightarrow> ''char'' | Some n \<Rightarrow> ''char('' @ natToString n @ '')'')
     else rc_dataType r)"

definition emptyTable :: "string \<Rightarrow> CanonicalTable" where
  "emptyTable n = \<lparr>ct_name = n, ct_columns = [], ct_indexes = [], ct_foreignKeys = [], ct_primaryKeyColumns = []\<rparr>"

text \<open>\<open>ensureTable(n)\<close>, and a change of the table it returns.\<close>

definition ensureTable :: "(string, CanonicalTable) jsmap \<Rightarrow> string \<Rightarrow> CanonicalTable" where
  "ensureTable ts n = (case js_get ts n of None \<Rightarrow> emptyTable n | Some t \<Rightarrow> t)"

definition updTable :: "string \<Rightarrow> (CanonicalTable \<Rightarrow> CanonicalTable) \<Rightarrow> (string, CanonicalTable) jsmap \<Rightarrow> (string, CanonicalTable) jsmap" where
  "updTable n f ts = js_set n (f (ensureTable ts n)) ts"

definition addColumn :: "RawColumnRow \<Rightarrow> CanonicalTable \<Rightarrow> CanonicalTable" where
  "addColumn r t = t\<lparr>ct_columns := js_set (rc_column r) \<lparr>cc_name = rc_column r, cc_type = canonicalizeLiveType r, cc_notNull = (rc_isNullable r = ''NO''),
     cc_default = normalizeDefault (rc_default r)\<rparr> (ct_columns t)\<rparr>"

definition addIndex :: "RawIndexRow \<Rightarrow> CanonicalTable \<Rightarrow> CanonicalTable" where
  "addIndex r t = (let idx = (case js_get (ct_indexes t) (ri_index r) of None \<Rightarrow> \<lparr>ci_name = ri_index r, ci_columns = [], ci_isUnique = ri_isUnique r\<rparr> | Some i \<Rightarrow> i)
     in t\<lparr>ct_indexes := js_set (ri_index r) (idx\<lparr>ci_columns := ci_columns idx @ [ri_column r]\<rparr>) (ct_indexes t)\<rparr>)"

definition addForeignKey :: "RawForeignKeyRow \<Rightarrow> CanonicalTable \<Rightarrow> CanonicalTable" where
  "addForeignKey r t = (let fk = (case js_get (ct_foreignKeys t) (rf_name r) of
        None \<Rightarrow> \<lparr>cf_name = rf_name r, cf_columnsFrom = [], cf_tableTo = rf_tableTo r, cf_columnsTo = [],
                 cf_onDelete = normalizeAction (Some (rf_onDelete r)), cf_onUpdate = normalizeAction (Some (rf_onUpdate r))\<rparr>
      | Some k \<Rightarrow> k)
     in t\<lparr>ct_foreignKeys := js_set (rf_name r) (fk\<lparr>cf_columnsFrom := cf_columnsFrom fk @ [rf_colFrom r], cf_columnsTo := cf_columnsTo fk @ [rf_colTo r]\<rparr>)
       (ct_foreignKeys t)\<rparr>)"

definition addPrimaryKey :: "RawPrimaryKeyRow \<Rightarrow> CanonicalTable \<Rightarrow> CanonicalTable" where
  "addPrimaryKey r t = t\<lparr>ct_primaryKeyColumns := ct_primaryKeyColumns t @ [rp_column r]\<rparr>"

definition sortPk :: "CanonicalTable \<Rightarrow> CanonicalTable" where
  "sortPk t = t\<lparr>ct_primaryKeyColumns := sort (ct_primaryKeyColumns t)\<rparr>"

definition addEnum :: "string \<times> string \<Rightarrow> (string, string list) jsmap \<Rightarrow> (string, string list) jsmap" where
  "addEnum r m = js_set (fst r) ((case js_get m (fst r) of None \<Rightarrow> [] | Some vs \<Rightarrow> vs) @ [snd r]) m"

definition assembleLiveSchema :: "RawIntrospection \<Rightarrow> CanonicalSchema" where
  "assembleLiveSchema raw =
     (let t1 = fold (\<lambda>n. updTable n id) (ra_tables raw) [];
          t2 = fold (\<lambda>r. updTable (rc_table r) (addColumn r)) (ra_columns raw) t1;
          t3 = fold (\<lambda>r. updTable (ri_table r) (addIndex r)) (sort_key ri_ord (ra_indexes raw)) t2;
          t4 = fold (\<lambda>r. updTable (rf_tableFrom r) (addForeignKey r)) (sort_key rf_ord (ra_foreignKeys raw)) t3;
          t5 = fold (\<lambda>r. updTable (rp_table r) (addPrimaryKey r)) (sort_key rp_ord (ra_primaryKeys raw)) t4
      in \<lparr>cs_tables = map (\<lambda>(n, t). (n, sortPk t)) t5, cs_enums = fold addEnum (ra_enums raw) []\<rparr>)"

section \<open>The introspection queries\<close>

text \<open>The part of the system catalog that the queries read.  An index column that is an expression has no attribute.\<close>

record CatColumn =
  kc_name :: string
  kc_dataType :: string
  kc_udtName :: string
  kc_nullable :: bool
  kc_default :: "string option"
  kc_maxLength :: "nat option"

record CatIndex =
  ki_name :: string
  ki_isUnique :: bool
  ki_columns :: "string option list"
  ki_isPrimary :: bool
  ki_isConstraint :: bool

record CatForeignKey =
  kf_name :: string
  kf_columns :: "string list"
  kf_tableTo :: string
  kf_columnsTo :: "string list"
  kf_deleteRule :: string
  kf_updateRule :: string

record CatTable =
  kt_name :: string
  kt_columns :: "CatColumn list"
  kt_indexes :: "CatIndex list"
  kt_foreignKeys :: "CatForeignKey list"
  kt_primaryKey :: "string list"

record Catalog =
  ca_tables :: "CatTable list"
  ca_enums :: "(string \<times> string list) list"

definition withOrd :: "'a list \<Rightarrow> ('a \<times> nat) list" where
  "withOrd xs = zip xs [1..<Suc (length xs)]"

definition queryColumns :: "CatTable \<Rightarrow> RawColumnRow list" where
  "queryColumns t = map (\<lambda>c. \<lparr>rc_table = kt_name t, rc_column = kc_name c, rc_dataType = kc_dataType c, rc_udtName = kc_udtName c,
     rc_isNullable = (if kc_nullable c then ''YES'' else ''NO''), rc_default = kc_default c, rc_maxLength = kc_maxLength c\<rparr>) (kt_columns t)"

definition indexRows :: "string \<Rightarrow> CatIndex \<Rightarrow> RawIndexRow list" where
  "indexRows t i = (if ki_isPrimary i \<or> ki_isConstraint i then [] else
     concat (map (\<lambda>(c, k). case c of None \<Rightarrow> [] | Some a \<Rightarrow>
       [\<lparr>ri_index = ki_name i, ri_table = t, ri_isUnique = ki_isUnique i, ri_column = a, ri_ord = k\<rparr>]) (withOrd (ki_columns i))))"

definition queryIndexes :: "CatTable \<Rightarrow> RawIndexRow list" where
  "queryIndexes t = concat (map (indexRows (kt_name t)) (kt_indexes t))"

text \<open>\<open>key_column_usage\<close> is joined with \<open>constraint_column_usage\<close> on the constraint name alone: every referencing
  column meets every referenced column.\<close>

definition foreignKeyRows :: "string \<Rightarrow> CatForeignKey \<Rightarrow> RawForeignKeyRow list" where
  "foreignKeyRows t f = concat (map (\<lambda>(c, k). map (\<lambda>d.
     \<lparr>rf_name = kf_name f, rf_tableFrom = t, rf_tableTo = kf_tableTo f, rf_colFrom = c, rf_colTo = d,
      rf_onDelete = kf_deleteRule f, rf_onUpdate = kf_updateRule f, rf_ord = k\<rparr>) (kf_columnsTo f)) (withOrd (kf_columns f)))"

definition queryForeignKeys :: "CatTable \<Rightarrow> RawForeignKeyRow list" where
  "queryForeignKeys t = concat (map (foreignKeyRows (kt_name t)) (kt_foreignKeys t))"

definition queryPrimaryKeys :: "CatTable \<Rightarrow> RawPrimaryKeyRow list" where
  "queryPrimaryKeys t = map (\<lambda>(c, k). \<lparr>rp_table = kt_name t, rp_column = c, rp_ord = k\<rparr>) (withOrd (kt_primaryKey t))"

definition introspect :: "Catalog \<Rightarrow> string list \<Rightarrow> RawIntrospection" where
  "introspect cat tableNames =
     (let names = (if tableNames = [] then [[]] else tableNames); ts = filter (\<lambda>t. kt_name t \<in> set names) (ca_tables cat) in
      \<lparr>ra_tables = map kt_name (ca_tables cat), ra_columns = concat (map queryColumns ts),
       ra_enums = concat (map (\<lambda>(n, vs). map (\<lambda>v. (n, v)) vs) (ca_enums cat)), ra_indexes = concat (map queryIndexes ts),
       ra_foreignKeys = concat (map queryForeignKeys ts), ra_primaryKeys = concat (map queryPrimaryKeys ts)\<rparr>)"

definition introspectLiveSchema :: "Catalog \<Rightarrow> string list \<Rightarrow> CanonicalSchema" where
  "introspectLiveSchema cat tableNames = assembleLiveSchema (introspect cat tableNames)"

section \<open>The difference of two schemas\<close>

definition describeColumn :: "CanonicalColumn \<Rightarrow> string" where
  "describeColumn c = cc_type c @ (if cc_notNull c then '' NOT NULL'' else [])"

definition describeIndex :: "CanonicalIndex \<Rightarrow> string" where
  "describeIndex i = (if ci_isUnique i then ''UNIQUE '' else []) @ ''('' @ joinWith '', '' (ci_columns i) @ '')''"

definition describeForeignKey :: "CanonicalForeignKey \<Rightarrow> string" where
  "describeForeignKey f = ''('' @ joinWith '', '' (cf_columnsFrom f) @ '') -> '' @ cf_tableTo f @ ''('' @ joinWith '', '' (cf_columnsTo f)
     @ '') ON DELETE '' @ cf_onDelete f @ '' ON UPDATE '' @ cf_onUpdate f"

definition difference :: "DriftKind \<Rightarrow> string \<Rightarrow> DriftDetail \<Rightarrow> string option \<Rightarrow> string option \<Rightarrow> DriftDifference" where
  "difference k obj d e a = \<lparr>dd_kind = k, dd_object = obj, dd_detail = d, dd_expected = e, dd_actual = a\<rparr>"

text \<open>The two passes of a category: the expected parts in order, then the live parts that are not expected.\<close>

definition diffParts :: "DriftKind \<Rightarrow> (string \<Rightarrow> string) \<Rightarrow> ('a \<Rightarrow> string) \<Rightarrow> ('a \<Rightarrow> 'a \<Rightarrow> bool) \<Rightarrow> (string, 'a) jsmap \<Rightarrow> (string, 'a) jsmap \<Rightarrow> DriftDifference list" where
  "diffParts k obj desc same e a =
     concat (map (\<lambda>(n, x). case js_get a n of None \<Rightarrow> [difference k (obj n) MissingInDb (Some (desc x)) None]
        | Some y \<Rightarrow> if same x y then [] else [difference k (obj n) Mismatch (Some (desc x)) (Some (desc y))]) e)
     @ concat (map (\<lambda>(n, y). case js_get e n of None \<Rightarrow> [difference k (obj n) UnexpectedInDb None (Some (desc y))] | Some _ \<Rightarrow> []) a)"

definition sameColumn :: "CanonicalColumn \<Rightarrow> CanonicalColumn \<Rightarrow> bool" where
  "sameColumn e a = (cc_type e = cc_type a \<and> cc_notNull e = cc_notNull a)"

definition sameIndex :: "CanonicalIndex \<Rightarrow> CanonicalIndex \<Rightarrow> bool" where
  "sameIndex e a = (ci_isUnique e = ci_isUnique a \<and> ci_columns e = ci_columns a)"

definition sameForeignKey :: "CanonicalForeignKey \<Rightarrow> CanonicalForeignKey \<Rightarrow> bool" where
  "sameForeignKey e a = (cf_columnsFrom e = cf_columnsFrom a \<and> cf_columnsTo e = cf_columnsTo a \<and> cf_tableTo e = cf_tableTo a
     \<and> cf_onDelete e = cf_onDelete a \<and> cf_onUpdate e = cf_onUpdate a)"

definition describePk :: "string list \<Rightarrow> string" where
  "describePk cs = ''('' @ joinWith '', '' cs @ '')''"

definition diffTable :: "CanonicalTable \<Rightarrow> CanonicalTable \<Rightarrow> DriftDifference list" where
  "diffTable e a =
     diffParts DkColumn (\<lambda>n. ct_name e @ ''.'' @ n) describeColumn sameColumn (ct_columns e) (ct_columns a)
     @ diffParts DkIndex id describeIndex sameIndex (ct_indexes e) (ct_indexes a)
     @ diffParts DkForeignKey id describeForeignKey sameForeignKey (ct_foreignKeys e) (ct_foreignKeys a)
     @ (if ct_primaryKeyColumns e = ct_primaryKeyColumns a then []
        else [difference DkPrimaryKey (ct_name e) Mismatch (Some (describePk (ct_primaryKeyColumns e))) (Some (describePk (ct_primaryKeyColumns a)))])"

definition diffSchemas :: "CanonicalSchema \<Rightarrow> CanonicalSchema \<Rightarrow> DriftDifference list" where
  "diffSchemas e a =
     diffParts DkEnum id (joinWith '', '') (=) (cs_enums e) (cs_enums a)
     @ concat (map (\<lambda>(n, t). case js_get (cs_tables a) n of None \<Rightarrow> [difference DkTable n MissingInDb None None] | Some u \<Rightarrow> diffTable t u) (cs_tables e))
     @ concat (map (\<lambda>(n, u). case js_get (cs_tables e) n of None \<Rightarrow> [difference DkTable n UnexpectedInDb None None] | Some _ \<Rightarrow> []) (cs_tables a))"

definition formatDefault :: "string option \<Rightarrow> string" where
  "formatDefault v = (case v of None \<Rightarrow> ''(none)'' | Some s \<Rightarrow> ''`'' @ s @ ''`'')"

text \<open>The em dash of the texts is the parameter \<open>dash\<close>.\<close>

definition defaultNote :: "string \<Rightarrow> string \<Rightarrow> string \<Rightarrow> string option \<Rightarrow> string option \<Rightarrow> string" where
  "defaultNote dash t c e a = ''default differs on '' @ t @ ''.'' @ c @ '': expected '' @ formatDefault e @ '', live '' @ formatDefault a
     @ '' (informational '' @ dash @ '' not treated as drift)''"

definition collectDefaultNotes :: "string \<Rightarrow> CanonicalSchema \<Rightarrow> CanonicalSchema \<Rightarrow> string list" where
  "collectDefaultNotes dash e a = concat (map (\<lambda>(n, t). case js_get (cs_tables a) n of None \<Rightarrow> [] | Some u \<Rightarrow>
     concat (map (\<lambda>(cn, c). case js_get (ct_columns u) cn of None \<Rightarrow> [] | Some d \<Rightarrow>
       if cc_default c = cc_default d then [] else [defaultNote dash n cn (cc_default c) (cc_default d)]) (ct_columns t))) (cs_tables e))"

text \<open>\<open>String(n).padStart(4, '0')\<close>\<close>

definition padStart4 :: "string \<Rightarrow> string" where
  "padStart4 s = replicate (4 - length s) (CHR ''0'') @ s"

definition checkDrift :: "string \<Rightarrow> Catalog \<Rightarrow> Snapshot \<Rightarrow> nat \<Rightarrow> DriftResult" where
  "checkDrift dash cat snap idx =
     (let e = projectSnapshot snap; a = introspectLiveSchema cat (map (\<lambda>p. st_name (snd p)) (sn_tables snap)); ds = diffSchemas e a in
      \<lparr>dr_hasDrift = (ds \<noteq> []), dr_expectedSnapshotTag = padStart4 (natToString idx) @ ''_snapshot'', dr_differences = ds,
       dr_notes = collectDefaultNotes dash e a\<rparr>)"

section \<open>The report\<close>

definition kindText :: "DriftKind \<Rightarrow> string" where
  "kindText k = (case k of DkTable \<Rightarrow> ''table'' | DkColumn \<Rightarrow> ''column'' | DkEnum \<Rightarrow> ''enum'' | DkIndex \<Rightarrow> ''index'' | DkForeignKey \<Rightarrow> ''foreignKey''
     | DkPrimaryKey \<Rightarrow> ''primaryKey'')"

definition detailText :: "DriftDetail \<Rightarrow> string" where
  "detailText d = (case d of MissingInDb \<Rightarrow> ''missing_in_db'' | UnexpectedInDb \<Rightarrow> ''unexpected_in_db'' | Mismatch \<Rightarrow> ''mismatch'')"

definition byKind :: "DriftDifference list \<Rightarrow> (DriftKind, DriftDifference list) jsmap" where
  "byKind ds = fold (\<lambda>d m. js_set (dd_kind d) ((case js_get m (dd_kind d) of None \<Rightarrow> [] | Some b \<Rightarrow> b) @ [d]) m) ds []"

definition diffLine :: "DriftDifference \<Rightarrow> string" where
  "diffLine d = ''  - '' @ dd_object d @ '': '' @ detailText (dd_detail d)
     @ (case dd_expected d of None \<Rightarrow> [] | Some e \<Rightarrow> '' | expected: '' @ e) @ (case dd_actual d of None \<Rightarrow> [] | Some a \<Rightarrow> '' | live: '' @ a)"

definition NOT_COMPARED_DISCLAIMER :: string where
  "NOT_COMPARED_DISCLAIMER = joinWith [CHR 0x0A] [''Drift detection is STRUCTURAL only. Not compared: row data, table statistics,'',
     ''comments, ownership/privileges, RLS policies, triggers, functions, sequences,'', ''collations, and physical storage. Column defaults are compared leniently'',
     ''(representational differences are reported as informational notes, not drift).'']"

definition driftLines :: "string \<Rightarrow> DriftResult \<Rightarrow> string list" where
  "driftLines dash r = [''Drift check against expected snapshot: '' @ dr_expectedSnapshotTag r]
     @ (if \<not> dr_hasDrift r then [''Result: NO DRIFT '' @ dash @ '' live schema matches the expected snapshot.'']
        else [''Result: DRIFT DETECTED '' @ dash @ '' '' @ natToString (length (dr_differences r)) @ '' difference(s).'']
          @ concat (map (\<lambda>(k, ds). [[], kindText k @ '':''] @ map diffLine ds) (byKind (dr_differences r))))
     @ (if dr_notes r = [] then [] else [[], ''Notes (informational):''] @ map (\<lambda>n. ''  - '' @ n) (dr_notes r))
     @ [[], NOT_COMPARED_DISCLAIMER]"

definition renderDriftSummary :: "string \<Rightarrow> DriftResult \<Rightarrow> string" where
  "renderDriftSummary dash r = joinWith [CHR 0x0A] (driftLines dash r)"

section \<open>Migration status and preflight\<close>

record AppliedRow =
  ar_id :: nat
  ar_hash :: string
  ar_created_at :: nat

record JournalEntry =
  je_idx :: nat
  je_tag :: string

datatype MigrationStatusState = Applied | Pending | UnknownMigration

record MigrationStatus =
  ms_idx :: nat
  ms_tag :: string
  ms_status :: MigrationStatusState
  ms_appliedAt :: "nat option"
  ms_hash :: "string option"

definition appliedStatus :: "nat \<Rightarrow> string \<Rightarrow> MigrationStatusState \<Rightarrow> AppliedRow \<Rightarrow> MigrationStatus" where
  "appliedStatus i tag st r = \<lparr>ms_idx = i, ms_tag = tag, ms_status = st, ms_appliedAt = Some (ar_created_at r), ms_hash = Some (ar_hash r)\<rparr>"

definition unknownTag :: "string \<Rightarrow> string" where
  "unknownTag dash = ''(unknown '' @ dash @ '' applied, not in journal)''"

definition computeMigrationStatus :: "string \<Rightarrow> JournalEntry list \<Rightarrow> AppliedRow list \<Rightarrow> MigrationStatus list" where
  "computeMigrationStatus dash journal rows = (let entries = sort_key je_idx journal in
     map (\<lambda>i. let e = entries ! i in if i < length rows then appliedStatus (je_idx e) (je_tag e) Applied (rows ! i)
        else \<lparr>ms_idx = je_idx e, ms_tag = je_tag e, ms_status = Pending, ms_appliedAt = None, ms_hash = None\<rparr>) [0..<length entries]
     @ map (\<lambda>i. appliedStatus i (unknownTag dash) UnknownMigration (rows ! i)) [length entries..<length rows])"

definition resolveLastAppliedIdx :: "AppliedRow list \<Rightarrow> int" where
  "resolveLastAppliedIdx rows = int (length rows) - 1"

datatype PreflightPlan = SkipWarned | SkipVirgin | Check nat

definition planPreflight :: "(string, string) jsmap \<Rightarrow> AppliedRow list \<Rightarrow> PreflightPlan" where
  "planPreflight env rows = (if js_get env ''MIGRATE_SKIP_DRIFT_CHECK'' = Some ''1'' then SkipWarned
     else if rows = [] then SkipVirgin else Check (length rows - 1))"

text \<open>The status table; \<open>isoText\<close> is \<open>new Date(ms).toISOString()\<close>.\<close>

definition stateText :: "MigrationStatusState \<Rightarrow> string" where
  "stateText s = (case s of Applied \<Rightarrow> ''APPLIED'' | Pending \<Rightarrow> ''PENDING'' | UnknownMigration \<Rightarrow> ''UNKNOWN'')"

definition formatAppliedAt :: "(nat \<Rightarrow> string) \<Rightarrow> nat option \<Rightarrow> string" where
  "formatAppliedAt isoText ms = (case ms of None \<Rightarrow> [] | Some t \<Rightarrow> isoText t)"

definition padEnd :: "nat \<Rightarrow> string \<Rightarrow> string" where
  "padEnd w s = s @ replicate (w - length s) (CHR '' '')"

definition trimEnd :: "string \<Rightarrow> string" where
  "trimEnd s = rev (dropWhile isSpace (rev s))"

definition statusCells :: "(nat \<Rightarrow> string) \<Rightarrow> MigrationStatus \<Rightarrow> string list" where
  "statusCells isoText r = [natToString (ms_idx r), ms_tag r, stateText (ms_status r), formatAppliedAt isoText (ms_appliedAt r)]"

definition renderStatusTable :: "(nat \<Rightarrow> string) \<Rightarrow> MigrationStatus list \<Rightarrow> string" where
  "renderStatusTable isoText rows = (let header = [''IDX'', ''TAG'', ''STATUS'', ''APPLIED AT'']; body = map (statusCells isoText) rows;
       widths = map (\<lambda>c. Max (set (length (header ! c) # map (\<lambda>l. length (l ! c)) body))) [0..<4];
       pad = (\<lambda>cells. trimEnd (joinWith '' | '' (map2 padEnd widths cells)))
     in joinWith [CHR 0x0A] (pad header # joinWith ''-+-'' (map (\<lambda>w. replicate w (CHR ''-'')) widths) # map pad body))"

end
