(* ===== verification/Drift_Props.thy ===== *)
theory Drift_Props
  imports Drift_Check
begin

text \<open>What the drift check promises: it reports nothing exactly when the two schemas agree on everything it compares,
  and a database that was built from the snapshot never drifts, as long as its foreign keys have one column.\<close>

section \<open>The difference is exact\<close>









section \<open>Maps built by insertion\<close>







section \<open>Assembly\<close>




























section \<open>A database built from the snapshot\<close>




























section \<open>Concrete schemas\<close>








text \<open>A foreign key of two columns meets itself twice in the join: the database that implements it exactly is reported
  as drifted.\<close>

definition pairFk :: CatForeignKey where
  "pairFk = \<lparr>kf_name = ''fk'', kf_columns = [''a'', ''b''], kf_tableTo = ''t'', kf_columnsTo = [''x'', ''y''], kf_deleteRule = ''NO ACTION'', kf_updateRule = ''NO ACTION''\<rparr>"

lemma composite_fk_drifts:
  "map (\<lambda>d. (dd_object d, dd_actual d)) (diffSchemas
     (projectSnapshot \<lparr>sn_tables = [(''t'', \<lparr>st_name = ''t'', st_columns = [], st_indexes = [],
        st_foreignKeys = [(''fk'', \<lparr>sf_name = ''fk'', sf_tableTo = ''t'', sf_columnsFrom = [''a'', ''b''], sf_columnsTo = [''x'', ''y''], sf_onDelete = None, sf_onUpdate = None\<rparr>)],
        st_compositePrimaryKeys = []\<rparr>)], sn_enums = []\<rparr>)
     (introspectLiveSchema \<lparr>ca_tables = [\<lparr>kt_name = ''t'', kt_columns = [], kt_indexes = [], kt_foreignKeys = [pairFk], kt_primaryKey = []\<rparr>], ca_enums = []\<rparr> [''t'']))
   = [(''fk'', Some ''(a, a, b, b) -> t(x, y, x, y) ON DELETE NO ACTION ON UPDATE NO ACTION'')]"
  by code_simp

end
