(* ===== verification/Wire.thy ===== *)
theory Wire
  imports Api_Routes Run_Service
begin

text \<open>What travels between the SDK and the REST API: the JSON text of replies and request bodies, and the zod schemas
  of \<open>shared/src/types\<close> and \<open>api/src/types.ts\<close> that read them.  A schema that only checks is a predicate on
  \<^typ>\<open>json\<close>, one whose result the code uses yields the record it parses.

  A \<open>Date\<close> is the number of its milliseconds; \<open>toISOString\<close> (\<open>iso_text\<close>) and \<open>new Date(v)\<close> (\<open>date_of\<close>) are
  parameters, as is the time \<open>wx_now\<close> at which a reply is written.  Numbers are integers on the wire, so a fractional temperature is outside of the model.\<close>

record wireEnv =
  wx_iso :: "nat \<Rightarrow> string"
  wx_date :: "json \<Rightarrow> nat option"
  wx_isUrl :: "string \<Rightarrow> bool"
  wx_now :: nat

section \<open>Schema combinators\<close>

definition zNullable :: "(json \<Rightarrow> bool) \<Rightarrow> json \<Rightarrow> bool" where
  "zNullable p j = (j = JNull \<or> p j)"

definition zEnum :: "string list \<Rightarrow> json \<Rightarrow> bool" where
  "zEnum ls j = (case j of JStr s \<Rightarrow> s \<in> set ls | _ \<Rightarrow> False)"

definition zIntMin :: "int \<Rightarrow> json \<Rightarrow> bool" where
  "zIntMin lo j = (case j of JNum i \<Rightarrow> lo \<le> i | _ \<Rightarrow> False)"

definition zBetween :: "int \<Rightarrow> int \<Rightarrow> json \<Rightarrow> bool" where
  "zBetween lo hi j = (case j of JNum i \<Rightarrow> lo \<le> i \<and> i \<le> hi | _ \<Rightarrow> False)"

definition zArray :: "(json \<Rightarrow> bool) \<Rightarrow> json \<Rightarrow> bool" where
  "zArray p j = (case j of JArr vs \<Rightarrow> list_all p vs | _ \<Rightarrow> False)"

definition zUrl :: "wireEnv \<Rightarrow> json \<Rightarrow> bool" where
  "zUrl wx j = (case j of JStr s \<Rightarrow> wx_isUrl wx s | _ \<Rightarrow> False)"

definition zDate :: "wireEnv \<Rightarrow> json \<Rightarrow> bool" where
  "zDate wx j = (wx_date wx j \<noteq> None)"

text \<open>The parsed values: a field of an accepted object.\<close>

definition strOf :: "json option \<Rightarrow> string" where
  "strOf v = (case v of Some (JStr s) \<Rightarrow> s | _ \<Rightarrow> [])"

definition optStr :: "json option \<Rightarrow> string option" where
  "optStr v = (case v of Some (JStr s) \<Rightarrow> Some s | _ \<Rightarrow> None)"

definition natOf :: "json option \<Rightarrow> nat" where
  "natOf v = (case v of Some (JNum i) \<Rightarrow> nat i | _ \<Rightarrow> 0)"

definition optNat :: "json option \<Rightarrow> nat option" where
  "optNat v = (case v of Some (JNum i) \<Rightarrow> Some (nat i) | _ \<Rightarrow> None)"

definition objFields :: "json option \<Rightarrow> (string \<times> json) list" where
  "objFields v = (case v of Some (JObj ps) \<Rightarrow> ps | _ \<Rightarrow> [])"

definition dateField :: "wireEnv \<Rightarrow> json option \<Rightarrow> nat" where
  "dateField wx v = (case v of Some j \<Rightarrow> (case wx_date wx j of Some t \<Rightarrow> t | None \<Rightarrow> 0) | None \<Rightarrow> 0)"

section \<open>Enumerations\<close>

definition runStatusName :: "RunStatus \<Rightarrow> string" where
  "runStatusName st = (case st of Running \<Rightarrow> ''running'' | Completed \<Rightarrow> ''completed'' | Failed \<Rightarrow> ''failed''
     | Cancelled \<Rightarrow> ''cancelled'' | TimedOut \<Rightarrow> ''timed_out'')"

definition roleName :: "MessageRole \<Rightarrow> string" where
  "roleName r = (case r of System \<Rightarrow> ''system'' | User \<Rightarrow> ''user'' | Assistant \<Rightarrow> ''assistant'' | Tool \<Rightarrow> ''tool'')"

definition strategyName :: "MemoryStrategy \<Rightarrow> string" where
  "strategyName m = (case m of LastN \<Rightarrow> ''last_n'' | Summary \<Rightarrow> ''summary'')"

definition toolStatusName :: "ToolCallStatus \<Rightarrow> string" where
  "toolStatusName t = (case t of TcStarted \<Rightarrow> ''started'' | TcCompleted \<Rightarrow> ''completed'' | TcFailed \<Rightarrow> ''failed'')"

text \<open>The member of an enumeration with a given name; \<^const>\<open>None\<close> for a string that \<open>z.enum\<close> refuses.\<close>

definition named :: "('a \<Rightarrow> string) \<Rightarrow> 'a list \<Rightarrow> string \<Rightarrow> 'a option" where
  "named f xs s = map_of (map (\<lambda>x. (f x, x)) xs) s"

definition RunStatusSchema :: "RunStatus list" where
  "RunStatusSchema = [Running, Completed, Failed, Cancelled, TimedOut]"

definition SessionStatusSchema :: "SessionStatus list" where
  "SessionStatusSchema = [Active, Closed]"

definition MessageRoleSchema :: "MessageRole list" where
  "MessageRoleSchema = [System, User, Assistant, Tool]"

definition MemoryStrategySchema :: "MemoryStrategy list" where
  "MemoryStrategySchema = [LastN, Summary]"

definition enumOf :: "('a \<Rightarrow> string) \<Rightarrow> 'a list \<Rightarrow> json option \<Rightarrow> 'a" where
  "enumOf f xs v = (case named f xs (strOf v) of Some x \<Rightarrow> x | None \<Rightarrow> hd xs)"

section \<open>Schemas of the records\<close>

definition MemoryConfigSchema :: "json \<Rightarrow> bool" where
  "MemoryConfigSchema = strictObj
     [(''strategy'', True, zEnum (map strategyName MemoryStrategySchema)), (''maxMessages'', False, zIntMin 1)]"

definition ModelConfigSchema :: "json \<Rightarrow> bool" where
  "ModelConfigSchema = strictObj
     [(''model'', True, zMin1), (''temperature'', False, zBetween 0 2), (''maxTokens'', False, zIntMin 1)]"

definition ToolDefinitionSchema :: "json \<Rightarrow> bool" where
  "ToolDefinitionSchema = strictObj [(''name'', True, zMin1), (''description'', True, zString), (''inputSchema'', True, zRecord)]"

definition TokenUsageSchema :: "json \<Rightarrow> bool" where
  "TokenUsageSchema = strictObj
     [(''inputTokens'', True, zIntMin 0), (''outputTokens'', True, zIntMin 0), (''totalTokens'', True, zIntMin 0)]"

definition memoryConfigOf :: "json \<Rightarrow> MemoryConfig" where
  "memoryConfigOf j = \<lparr>strategy = enumOf strategyName MemoryStrategySchema (getProp ''strategy'' j),
     maxMessages = optNat (getProp ''maxMessages'' j)\<rparr>"

definition modelConfigOf :: "json \<Rightarrow> ModelConfig" where
  "modelConfigOf j = \<lparr>model = strOf (getProp ''model'' j),
     temperature = (case getProp ''temperature'' j of Some (JNum i) \<Rightarrow> Some (of_int i) | _ \<Rightarrow> None),
     maxTokens = optNat (getProp ''maxTokens'' j)\<rparr>"

definition toolDefinitionOf :: "json \<Rightarrow> ToolDefinition" where
  "toolDefinitionOf j = \<lparr>td_name = strOf (getProp ''name'' j), td_description = strOf (getProp ''description'' j),
     td_inputSchema = orElse (getProp ''inputSchema'' j) JNull\<rparr>"

definition toolsOf :: "json option \<Rightarrow> ToolDefinition list" where
  "toolsOf v = (case v of Some (JArr vs) \<Rightarrow> map toolDefinitionOf vs | _ \<Rightarrow> [])"

definition tokenUsageOf :: "json \<Rightarrow> TokenUsage" where
  "tokenUsageOf j = \<lparr>inputTokens = natOf (getProp ''inputTokens'' j), outputTokens = natOf (getProp ''outputTokens'' j),
     totalTokens = natOf (getProp ''totalTokens'' j)\<rparr>"

definition AgentRecordSchema :: "wireEnv \<Rightarrow> json \<Rightarrow> AgentRecord option" where
  "AgentRecordSchema wx j = (if strictObj
       [(''agentId'', True, zStartsWith ''agt_''), (''workspaceId'', True, zStartsWith ''ws_''), (''name'', True, zMin1),
        (''modelConfig'', True, ModelConfigSchema), (''systemPrompt'', True, zString), (''memoryConfig'', True, MemoryConfigSchema),
        (''toolRunnerUrl'', True, zNullable (zUrl wx)), (''tools'', False, zArray ToolDefinitionSchema),
        (''createdAt'', True, zDate wx), (''updatedAt'', True, zDate wx)] j
     then Some \<lparr>ag_agentId = strOf (getProp ''agentId'' j), ag_workspaceId = strOf (getProp ''workspaceId'' j),
       ag_name = strOf (getProp ''name'' j), ag_modelConfig = modelConfigOf (orElse (getProp ''modelConfig'' j) JNull),
       ag_systemPrompt = strOf (getProp ''systemPrompt'' j), ag_memoryConfig = memoryConfigOf (orElse (getProp ''memoryConfig'' j) JNull),
       ag_tools = toolsOf (getProp ''tools'' j), ag_toolRunnerUrl = optStr (getProp ''toolRunnerUrl'' j),
       ag_createdAt = dateField wx (getProp ''createdAt'' j), ag_updatedAt = dateField wx (getProp ''updatedAt'' j)\<rparr>
     else None)"

definition SessionRecordSchema :: "wireEnv \<Rightarrow> json \<Rightarrow> SessionRecord option" where
  "SessionRecordSchema wx j = (if strictObj
       [(''sessionId'', True, zStartsWith ''ses_''), (''agentId'', True, zStartsWith ''agt_''), (''userId'', True, zNullable zString),
        (''status'', True, zEnum (map sessionStatusName SessionStatusSchema)), (''metadata'', True, zRecord),
        (''createdAt'', True, zDate wx), (''updatedAt'', True, zDate wx)] j
     then Some \<lparr>se_sessionId = strOf (getProp ''sessionId'' j), se_agentId = strOf (getProp ''agentId'' j),
       se_userId = optStr (getProp ''userId'' j), se_status = enumOf sessionStatusName SessionStatusSchema (getProp ''status'' j),
       se_metadata = objFields (getProp ''metadata'' j), se_createdAt = dateField wx (getProp ''createdAt'' j),
       se_updatedAt = dateField wx (getProp ''updatedAt'' j)\<rparr>
     else None)"

definition MessageRecordSchema :: "wireEnv \<Rightarrow> json \<Rightarrow> MessageRecord option" where
  "MessageRecordSchema wx j = (if strictObj
       [(''messageId'', True, zStartsWith ''msg_''), (''sessionId'', True, zStartsWith ''ses_''),
        (''runId'', True, zNullable (zStartsWith ''run_'')), (''role'', True, zEnum (map roleName MessageRoleSchema)),
        (''content'', True, zString), (''createdAt'', True, zDate wx)] j
     then Some \<lparr>me_messageId = strOf (getProp ''messageId'' j), me_sessionId = strOf (getProp ''sessionId'' j),
       me_runId = optStr (getProp ''runId'' j), me_role = enumOf roleName MessageRoleSchema (getProp ''role'' j),
       me_content = strOf (getProp ''content'' j), me_createdAt = dateField wx (getProp ''createdAt'' j)\<rparr>
     else None)"

definition RunRecordSchema :: "wireEnv \<Rightarrow> json \<Rightarrow> RunRecord option" where
  "RunRecordSchema wx j = (if strictObj
       [(''runId'', True, zStartsWith ''run_''), (''sessionId'', True, zStartsWith ''ses_''),
        (''status'', True, zEnum (map runStatusName RunStatusSchema)), (''model'', True, zMin1),
        (''tokenUsage'', True, zNullable TokenUsageSchema), (''createdAt'', True, zDate wx), (''updatedAt'', True, zDate wx)] j
     then Some \<lparr>ru_runId = strOf (getProp ''runId'' j), ru_sessionId = strOf (getProp ''sessionId'' j),
       ru_status = enumOf runStatusName RunStatusSchema (getProp ''status'' j), ru_model = strOf (getProp ''model'' j),
       ru_tokenUsage = (case getProp ''tokenUsage'' j of Some (JObj ps) \<Rightarrow> Some (tokenUsageOf (JObj ps)) | _ \<Rightarrow> None),
       ru_createdAt = dateField wx (getProp ''createdAt'' j), ru_updatedAt = dateField wx (getProp ''updatedAt'' j)\<rparr>
     else None)"

text \<open>\<open>AcceptedRunSchema\<close> is not strict: further keys are stripped.\<close>

definition AcceptedRunSchema :: "json \<Rightarrow> (string \<times> string) option" where
  "AcceptedRunSchema j = (case (getProp ''runId'' j, getProp ''status'' j) of
     (Some (JStr r), Some (JStr st)) \<Rightarrow> Some (r, st) | _ \<Rightarrow> None)"

section \<open>Schemas of the request bodies\<close>

definition CreateAgentBodySchema :: "wireEnv \<Rightarrow> json \<Rightarrow> CreateAgentBody option" where
  "CreateAgentBodySchema wx j = (if strictObj
       [(''name'', True, zMin1), (''modelConfig'', True, ModelConfigSchema), (''systemPrompt'', True, zString),
        (''memoryConfig'', False, MemoryConfigSchema), (''toolRunnerUrl'', False, zNullable (zUrl wx)),
        (''tools'', False, zArray ToolDefinitionSchema)] j
     then Some \<lparr>cb_name = strOf (getProp ''name'' j), cb_modelConfig = modelConfigOf (orElse (getProp ''modelConfig'' j) JNull),
       cb_systemPrompt = strOf (getProp ''systemPrompt'' j), cb_memoryConfig = map_option memoryConfigOf (getProp ''memoryConfig'' j),
       cb_toolRunnerUrl = optStr (getProp ''toolRunnerUrl'' j),
       cb_tools = map_option (\<lambda>v. toolsOf (Some v)) (getProp ''tools'' j)\<rparr>
     else None)"

definition CreateSessionBodySchema :: "json \<Rightarrow> CreateSessionBody option" where
  "CreateSessionBodySchema j = (if strictObj
       [(''agentName'', True, zMin1), (''userId'', False, zMin1), (''metadata'', False, zRecord)] j
     then Some \<lparr>sb_agentName = strOf (getProp ''agentName'' j), sb_userId = optStr (getProp ''userId'' j),
       sb_metadata = map_option (\<lambda>v. objFields (Some v)) (getProp ''metadata'' j)\<rparr>
     else None)"

definition CreateRunBodySchema :: "json \<Rightarrow> string option" where
  "CreateRunBodySchema j = (if strictObj [(''content'', True, zMin1)] j then Some (strOf (getProp ''content'' j)) else None)"

section \<open>The text of a reply\<close>

definition optJson :: "('a \<Rightarrow> json) \<Rightarrow> 'a option \<Rightarrow> json" where
  "optJson f v = (case v of None \<Rightarrow> JNull | Some x \<Rightarrow> f x)"

definition dateJson :: "wireEnv \<Rightarrow> nat \<Rightarrow> json" where
  "dateJson wx t = JStr (wx_iso wx t)"

definition numJson :: "nat \<Rightarrow> json" where
  "numJson n = JNum (int n)"

definition modelConfigJson :: "ModelConfig \<Rightarrow> json" where
  "modelConfigJson m = objOf [(''model'', Some (JStr (model m))), (''temperature'', map_option (\<lambda>r. JNum \<lfloor>r\<rfloor>) (temperature m)),
     (''maxTokens'', map_option numJson (maxTokens m))]"

definition memoryConfigJson :: "MemoryConfig \<Rightarrow> json" where
  "memoryConfigJson m = objOf [(''strategy'', Some (JStr (strategyName (strategy m)))), (''maxMessages'', map_option numJson (maxMessages m))]"

definition toolDefinitionJson :: "ToolDefinition \<Rightarrow> json" where
  "toolDefinitionJson t = JObj [(''name'', JStr (td_name t)), (''description'', JStr (td_description t)), (''inputSchema'', td_inputSchema t)]"

definition tokenUsageJson :: "TokenUsage \<Rightarrow> json" where
  "tokenUsageJson u = JObj [(''inputTokens'', numJson (inputTokens u)), (''outputTokens'', numJson (outputTokens u)),
     (''totalTokens'', numJson (totalTokens u))]"

definition agentJson :: "wireEnv \<Rightarrow> AgentRecord \<Rightarrow> json" where
  "agentJson wx a = JObj [(''agentId'', JStr (ag_agentId a)), (''workspaceId'', JStr (ag_workspaceId a)), (''name'', JStr (ag_name a)),
     (''modelConfig'', modelConfigJson (ag_modelConfig a)), (''systemPrompt'', JStr (ag_systemPrompt a)),
     (''memoryConfig'', memoryConfigJson (ag_memoryConfig a)), (''toolRunnerUrl'', optJson JStr (ag_toolRunnerUrl a)),
     (''tools'', JArr (map toolDefinitionJson (ag_tools a))), (''createdAt'', dateJson wx (ag_createdAt a)),
     (''updatedAt'', dateJson wx (ag_updatedAt a))]"

definition sessionJson :: "wireEnv \<Rightarrow> SessionRecord \<Rightarrow> json" where
  "sessionJson wx s = JObj [(''sessionId'', JStr (se_sessionId s)), (''agentId'', JStr (se_agentId s)),
     (''userId'', optJson JStr (se_userId s)), (''status'', JStr (sessionStatusName (se_status s))), (''metadata'', JObj (se_metadata s)),
     (''createdAt'', dateJson wx (se_createdAt s)), (''updatedAt'', dateJson wx (se_updatedAt s))]"

definition messageJson :: "wireEnv \<Rightarrow> MessageRecord \<Rightarrow> json" where
  "messageJson wx m = JObj [(''messageId'', JStr (me_messageId m)), (''sessionId'', JStr (me_sessionId m)),
     (''runId'', optJson JStr (me_runId m)), (''role'', JStr (roleName (me_role m))), (''content'', JStr (me_content m)),
     (''createdAt'', dateJson wx (me_createdAt m))]"

definition runJson :: "wireEnv \<Rightarrow> RunRecord \<Rightarrow> json" where
  "runJson wx r = JObj [(''runId'', JStr (ru_runId r)), (''sessionId'', JStr (ru_sessionId r)),
     (''status'', JStr (runStatusName (ru_status r))), (''model'', JStr (ru_model r)),
     (''tokenUsage'', optJson tokenUsageJson (ru_tokenUsage r)), (''createdAt'', dateJson wx (ru_createdAt r)),
     (''updatedAt'', dateJson wx (ru_updatedAt r))]"

definition toolCallJson :: "wireEnv \<Rightarrow> ToolCallRecord \<Rightarrow> json" where
  "toolCallJson wx t = JObj [(''callId'', JStr (tc_callId t)), (''runId'', JStr (tc_runId t)), (''toolName'', JStr (tc_toolName t)),
     (''input'', tc_input t), (''output'', orElse (tc_output t) JNull), (''status'', JStr (toolStatusName (tc_status t))),
     (''createdAt'', dateJson wx (tc_createdAt t)), (''updatedAt'', dateJson wx (tc_updatedAt t))]"

definition traceJson :: "wireEnv \<Rightarrow> TraceRecord \<Rightarrow> json" where
  "traceJson wx t = JObj [(''traceId'', JStr (tr_traceId t)), (''runId'', JStr (tr_runId t)), (''rootSpanId'', JStr (tr_rootSpanId t)),
     (''startedAt'', dateJson wx (tr_startedAt t)), (''completedAt'', optJson (dateJson wx) (tr_completedAt t)),
     (''totalDurationMs'', optJson JNum (tr_totalDurationMs t))]"

definition spanJson :: "wireEnv \<Rightarrow> SpanRecord \<Rightarrow> json" where
  "spanJson wx s = JObj [(''spanId'', JStr (sr_spanId s)), (''parentSpanId'', optJson JStr (sr_parentSpanId s)),
     (''traceId'', JStr (sr_traceId s)),
     (''type'', JStr (case sr_type s of RunSpan \<Rightarrow> ''run_span'' | ModelCallSpan \<Rightarrow> ''model_call_span'' | ToolCallSpan \<Rightarrow> ''tool_call_span'')),
     (''name'', JStr (sr_name s)), (''startedAt'', dateJson wx (sr_startedAt s)), (''completedAt'', optJson (dateJson wx) (sr_completedAt s)),
     (''durationMs'', optJson JNum (sr_durationMs s)), (''metadata'', JObj (sr_metadata s)),
     (''status'', JStr (case sr_status s of SpanOk \<Rightarrow> ''ok'' | SpanFailed \<Rightarrow> ''error'')),
     (''error'', optJson (\<lambda>e. objOf [(''message'', Some (JStr (sx_message e))), (''code'', map_option JStr (sx_code e))]) (sr_error s))]"

definition metricsJson :: "string \<Rightarrow> string \<Rightarrow> RunMetrics \<Rightarrow> json" where
  "metricsJson runId traceId m = JObj [(''runId'', JStr runId), (''traceId'', JStr traceId),
     (''totalRunDurationMs'', optJson JNum (rm_totalRunDurationMs m)), (''timeToFirstTokenMs'', optJson JNum (rm_timeToFirstTokenMs m)),
     (''modelCallCount'', numJson (rm_modelCallCount m)), (''toolCallCount'', numJson (rm_toolCallCount m)),
     (''totalModelLatencyMs'', JNum (rm_totalModelLatencyMs m)), (''totalToolLatencyMs'', JNum (rm_totalToolLatencyMs m)),
     (''totalTokens'', JNum (rm_totalTokens m))]"

text \<open>The list of zod issues that a validation reply carries under \<open>details\<close>, which no client of the repository
  reads, is left out.\<close>

definition errorBody :: "string \<Rightarrow> string \<Rightarrow> json" where
  "errorBody code message = JObj [(''error'', JObj [(''code'', JStr code), (''message'', JStr message)])]"

definition replyJson :: "wireEnv \<Rightarrow> apiReply \<Rightarrow> json" where
  "replyJson wx rep = (case rep of
      ErrorReply c m \<Rightarrow> errorBody c m
    | HealthReply \<Rightarrow> JObj [(''status'', JStr ''ok''), (''timestamp'', dateJson wx (wx_now wx))]
    | AgentReply a \<Rightarrow> agentJson wx a
    | AgentsReply as \<Rightarrow> JArr (map (agentJson wx) as)
    | SessionCreated i t u \<Rightarrow> JObj [(''sessionId'', JStr i), (''clientToken'', JStr t), (''websocketUrl'', JStr u)]
    | SessionReply s \<Rightarrow> sessionJson wx s
    | MessagesReply ms hasMore \<Rightarrow> JObj [(''data'', JArr (map (messageJson wx) ms)), (''hasMore'', JBool hasMore)]
    | RunReply r \<Rightarrow> runJson wx r
    | ToolCallsReply ts \<Rightarrow> JObj [(''data'', JArr (map (toolCallJson wx) ts))]
    | AcceptedReply i st \<Rightarrow> JObj [(''runId'', JStr i), (''status'', JStr st)]
    | TraceReply t spans \<Rightarrow> JObj [(''trace'', traceJson wx t), (''spans'', JArr (map (spanJson wx) spans))]
    | SpansReply spans \<Rightarrow> JObj [(''data'', JArr (map (spanJson wx) spans))]
    | MetricsReply r t m \<Rightarrow> metricsJson r t m)"

section \<open>Round trips\<close>

text \<open>A printer of records and a schema that reads them back, for the records a predicate admits.\<close>

locale record_codec =
  fixes enc :: "'a \<Rightarrow> json" and dec :: "json \<Rightarrow> 'a option" and fits :: "'a \<Rightarrow> bool"
  assumes dec_enc: "fits x \<Longrightarrow> dec (enc x) = Some x"
    and wf_enc: "fits x \<Longrightarrow> wf_json (enc x)"
begin

lemma read_text: "fits x \<Longrightarrow> Option.bind (parse (stringify (enc x))) dec = Some x"
  by (simp add: parse_stringify wf_enc dec_enc)

lemma read_list: "list_all fits xs \<Longrightarrow> those (map dec (map enc xs)) = Some xs"
  by (induction xs) (auto simp: dec_enc)

lemma wf_list: "list_all fits xs \<Longrightarrow> wf_json (JArr (map enc xs))"
  by (auto simp: wf_enc list_all_iff)

lemma enc_inj: "fits x \<Longrightarrow> fits y \<Longrightarrow> enc x = enc y \<Longrightarrow> x = y"
  by (metis dec_enc option.inject)

end

text \<open>What the schemas ask of a record.\<close>

definition dateFits :: "wireEnv \<Rightarrow> nat \<Rightarrow> bool" where
  "dateFits wx t = (wx_date wx (JStr (wx_iso wx t)) = Some t)"

definition modelFits :: "ModelConfig \<Rightarrow> bool" where
  "modelFits m = (model m \<noteq> [] \<and> maxTokens m \<noteq> Some 0 \<and>
     (case temperature m of None \<Rightarrow> True | Some r \<Rightarrow> r = of_int \<lfloor>r\<rfloor> \<and> 0 \<le> r \<and> r \<le> 2))"

definition memoryFits :: "MemoryConfig \<Rightarrow> bool" where
  "memoryFits m = (maxMessages m \<noteq> Some 0)"

definition toolFits :: "ToolDefinition \<Rightarrow> bool" where
  "toolFits t = (td_name t \<noteq> [] \<and> zRecord (td_inputSchema t) \<and> wf_json (td_inputSchema t))"

definition agentFits :: "wireEnv \<Rightarrow> AgentRecord \<Rightarrow> bool" where
  "agentFits wx a = (startsWith ''agt_'' (ag_agentId a) \<and> startsWith ''ws_'' (ag_workspaceId a) \<and> ag_name a \<noteq> [] \<and>
     modelFits (ag_modelConfig a) \<and> memoryFits (ag_memoryConfig a) \<and> list_all toolFits (ag_tools a) \<and>
     (case ag_toolRunnerUrl a of None \<Rightarrow> True | Some u \<Rightarrow> wx_isUrl wx u) \<and> dateFits wx (ag_createdAt a) \<and> dateFits wx (ag_updatedAt a))"

definition sessionFits :: "wireEnv \<Rightarrow> SessionRecord \<Rightarrow> bool" where
  "sessionFits wx s = (startsWith ''ses_'' (se_sessionId s) \<and> startsWith ''agt_'' (se_agentId s) \<and> wf_json (JObj (se_metadata s)) \<and>
     dateFits wx (se_createdAt s) \<and> dateFits wx (se_updatedAt s))"

definition messageFits :: "wireEnv \<Rightarrow> MessageRecord \<Rightarrow> bool" where
  "messageFits wx m = (startsWith ''msg_'' (me_messageId m) \<and> startsWith ''ses_'' (me_sessionId m) \<and>
     (case me_runId m of None \<Rightarrow> True | Some r \<Rightarrow> startsWith ''run_'' r) \<and> dateFits wx (me_createdAt m))"

definition runFits :: "wireEnv \<Rightarrow> RunRecord \<Rightarrow> bool" where
  "runFits wx r = (startsWith ''run_'' (ru_runId r) \<and> startsWith ''ses_'' (ru_sessionId r) \<and> ru_model r \<noteq> [] \<and>
     dateFits wx (ru_createdAt r) \<and> dateFits wx (ru_updatedAt r))"

lemma objOf_pairs [simp]: "objOf [] = JObj []"
  "objOf ((k, Some v) # ps) = JObj ((k, v) # (case objOf ps of JObj qs \<Rightarrow> qs | _ \<Rightarrow> []))"
  "objOf ((k, None) # ps) = objOf ps"
  by (simp_all add: objOf_def)

lemmas z_defs = zNullable_def zEnum_def zIntMin_def zBetween_def zArray_def zUrl_def zDate_def zString_def zStartsWith_def zMin1_def
  zRecord_def strOf_def optStr_def natOf_def optNat_def objFields_def dateField_def orElse_def optJson_def dateJson_def numJson_def

lemma named_enum:
  "enumOf strategyName MemoryStrategySchema (Some (JStr (strategyName a))) = a"
  "enumOf sessionStatusName SessionStatusSchema (Some (JStr (sessionStatusName b))) = b"
  "enumOf roleName MessageRoleSchema (Some (JStr (roleName c))) = c"
  "enumOf runStatusName RunStatusSchema (Some (JStr (runStatusName d))) = d"
  by (cases a, simp_all add: enumOf_def named_def strategyName_def MemoryStrategySchema_def strOf_def,
      cases b, simp_all add: sessionStatusName_def SessionStatusSchema_def,
      cases c, simp_all add: roleName_def MessageRoleSchema_def,
      cases d, simp_all add: runStatusName_def RunStatusSchema_def)

lemma name_in_schema:
  "strategyName a \<in> strategyName ` set MemoryStrategySchema" "sessionStatusName b \<in> sessionStatusName ` set SessionStatusSchema"
  "roleName c \<in> roleName ` set MessageRoleSchema" "runStatusName d \<in> runStatusName ` set RunStatusSchema"
  by ((cases a; simp add: MemoryStrategySchema_def), (cases b; simp add: SessionStatusSchema_def),
      (cases c; simp add: MessageRoleSchema_def), (cases d; simp add: RunStatusSchema_def))

lemma modelConfig_codec:
  assumes "modelFits m"
  shows "ModelConfigSchema (modelConfigJson m) \<and> modelConfigOf (modelConfigJson m) = m \<and> wf_json (modelConfigJson m)"
proof -
  have t: "0 \<le> \<lfloor>r\<rfloor> \<and> \<lfloor>r\<rfloor> \<le> 2 \<and> of_int \<lfloor>r\<rfloor> = r" if "temperature m = Some r" for r
    using assms that by (auto simp: modelFits_def floor_le_iff)
  have k: "1 \<le> int n" if "maxTokens m = Some n" for n
    using assms that by (cases n) (auto simp: modelFits_def)
  show ?thesis using assms t k
    by (cases m; cases "temperature m"; cases "maxTokens m")
      (auto simp: modelFits_def ModelConfigSchema_def modelConfigOf_def modelConfigJson_def strictObj_def z_defs)
qed

lemma memoryConfig_codec:
  assumes "memoryFits m"
  shows "MemoryConfigSchema (memoryConfigJson m) \<and> memoryConfigOf (memoryConfigJson m) = m \<and> wf_json (memoryConfigJson m)"
proof -
  have k: "1 \<le> int n" if "maxMessages m = Some n" for n
    using assms that by (cases n) (auto simp: memoryFits_def)
  show ?thesis using k
    by (cases m; cases "maxMessages m")
      (auto simp: MemoryConfigSchema_def memoryConfigOf_def memoryConfigJson_def strictObj_def z_defs named_enum name_in_schema)
qed

lemma toolDefinition_codec:
  "toolFits t \<Longrightarrow> ToolDefinitionSchema (toolDefinitionJson t) \<and> toolDefinitionOf (toolDefinitionJson t) = t \<and> wf_json (toolDefinitionJson t)"
  by (cases t) (auto simp: toolFits_def ToolDefinitionSchema_def toolDefinitionOf_def toolDefinitionJson_def strictObj_def z_defs)

lemma tokenUsage_codec:
  "TokenUsageSchema (tokenUsageJson u) \<and> tokenUsageOf (tokenUsageJson u) = u \<and> wf_json (tokenUsageJson u)"
  by (cases u) (simp add: TokenUsageSchema_def tokenUsageOf_def tokenUsageJson_def strictObj_def z_defs)

lemma tools_codec:
  "list_all toolFits ts \<Longrightarrow> zArray ToolDefinitionSchema (JArr (map toolDefinitionJson ts)) \<and>
     toolsOf (Some (JArr (map toolDefinitionJson ts))) = ts \<and> wf_json (JArr (map toolDefinitionJson ts))"
  by (induction ts) (auto simp: zArray_def toolsOf_def toolDefinition_codec)

lemma session_codec:
  "sessionFits wx s \<Longrightarrow> SessionRecordSchema wx (sessionJson wx s) = Some s \<and> wf_json (sessionJson wx s)"
  by (cases s; cases "se_userId s")
    (auto simp: sessionFits_def SessionRecordSchema_def sessionJson_def strictObj_def z_defs named_enum name_in_schema dateFits_def)

lemma message_codec:
  "messageFits wx m \<Longrightarrow> MessageRecordSchema wx (messageJson wx m) = Some m \<and> wf_json (messageJson wx m)"
  by (cases m; cases "me_runId m")
    (auto simp: messageFits_def MessageRecordSchema_def messageJson_def strictObj_def z_defs named_enum name_in_schema dateFits_def)

lemma run_codec:
  assumes "runFits wx r" shows "RunRecordSchema wx (runJson wx r) = Some r \<and> wf_json (runJson wx r)"
proof (cases "ru_tokenUsage r")
  case None
  then show ?thesis using assms
    by (cases r) (auto simp: runFits_def RunRecordSchema_def runJson_def strictObj_def z_defs named_enum name_in_schema dateFits_def)
next
  case (Some u)
  obtain ps where ps: "tokenUsageJson u = JObj ps" by (simp add: tokenUsageJson_def)
  have u: "TokenUsageSchema (JObj ps)" "tokenUsageOf (JObj ps) = u" "wf_json (JObj ps)"
    using tokenUsage_codec [of u] by (simp_all only: ps)
  show ?thesis using assms Some u
    by (cases r) (auto simp: runFits_def RunRecordSchema_def runJson_def strictObj_def z_defs named_enum name_in_schema dateFits_def ps)
qed

lemma agent_codec:
  assumes "agentFits wx a" shows "AgentRecordSchema wx (agentJson wx a) = Some a \<and> wf_json (agentJson wx a)"
proof -
  have m: "ModelConfigSchema (modelConfigJson (ag_modelConfig a)) \<and> modelConfigOf (modelConfigJson (ag_modelConfig a)) = ag_modelConfig a \<and>
      wf_json (modelConfigJson (ag_modelConfig a))"
    using assms by (simp add: agentFits_def modelConfig_codec)
  have k: "MemoryConfigSchema (memoryConfigJson (ag_memoryConfig a)) \<and> memoryConfigOf (memoryConfigJson (ag_memoryConfig a)) = ag_memoryConfig a \<and>
      wf_json (memoryConfigJson (ag_memoryConfig a))"
    using assms by (simp add: agentFits_def memoryConfig_codec)
  have t: "zArray ToolDefinitionSchema (JArr (map toolDefinitionJson (ag_tools a))) \<and>
      toolsOf (Some (JArr (map toolDefinitionJson (ag_tools a)))) = ag_tools a \<and> wf_json (JArr (map toolDefinitionJson (ag_tools a)))"
    using assms by (intro tools_codec) (simp add: agentFits_def)
  have u: "zNullable (zUrl wx) (optJson JStr (ag_toolRunnerUrl a))" "optStr (Some (optJson JStr (ag_toolRunnerUrl a))) = ag_toolRunnerUrl a"
      "wf_json (optJson JStr (ag_toolRunnerUrl a))"
    using assms by (auto simp: agentFits_def z_defs split: option.splits)
  note facts = m [THEN conjunct1] m [THEN conjunct2, THEN conjunct1] m [THEN conjunct2, THEN conjunct2]
    k [THEN conjunct1] k [THEN conjunct2, THEN conjunct1] k [THEN conjunct2, THEN conjunct2]
    t [THEN conjunct1] t [THEN conjunct2, THEN conjunct1] t [THEN conjunct2, THEN conjunct2] u
  have d: "startsWith ''agt_'' (ag_agentId a)" "startsWith ''ws_'' (ag_workspaceId a)" "ag_name a \<noteq> []"
      "zDate wx (dateJson wx (ag_createdAt a))" "zDate wx (dateJson wx (ag_updatedAt a))"
      "dateField wx (Some (dateJson wx (ag_createdAt a))) = ag_createdAt a" "dateField wx (Some (dateJson wx (ag_updatedAt a))) = ag_updatedAt a"
      "wf_json (dateJson wx t)" for t
    using assms by (auto simp: agentFits_def dateFits_def zDate_def dateJson_def dateField_def)
  show ?thesis
    by (simp del: wf_json.simps(1) add: AgentRecordSchema_def agentJson_def strictObj_def facts d orElse_def strOf_def zString_def zStartsWith_def zMin1_def)
qed

interpretation agents: record_codec "agentJson wx" "AgentRecordSchema wx" "agentFits wx" for wx
  by unfold_locales (simp_all add: agent_codec)

interpretation sessions: record_codec "sessionJson wx" "SessionRecordSchema wx" "sessionFits wx" for wx
  by unfold_locales (simp_all add: session_codec)

interpretation messages: record_codec "messageJson wx" "MessageRecordSchema wx" "messageFits wx" for wx
  by unfold_locales (simp_all add: message_codec)

interpretation runs: record_codec "runJson wx" "RunRecordSchema wx" "runFits wx" for wx
  by unfold_locales (simp_all add: run_codec)

end
