(* ===== verification/Sdk_Client.thy ===== *)
theory Sdk_Client
  imports Wire Remote_Executor Api_Props
begin

text \<open>\<open>sdk/src/client.ts\<close>: the control plane client of the SDK.  A call builds a request, hands it to \<open>fetch\<close> (a
  parameter with a state of its own, so that it can be the model of the server), reads the body as JSON, maps a failure
  to a typed error with a hint, and parses the reply.  The long dash of the messages is a parameter, since it is no
  code unit below 256.\<close>

section \<open>URL encoding\<close>

text \<open>Percent encoding; \<open>encodeURIComponent\<close> is the one of \<open>Remote_Executor\<close>.\<close>

definition percentByte :: "nat \<Rightarrow> string" where
  "percentByte b = [CHR ''%'', hexUpper (b div 16), hexUpper (b mod 16)]"

definition percentEncode :: "(char \<Rightarrow> bool) \<Rightarrow> string \<Rightarrow> string" where
  "percentEncode keep s = concat (map (\<lambda>c. if keep c then [c] else concat (map percentByte (utf8Bytes c))) s)"

lemma encodeURIComponent_percent: "encodeURIComponent s = percentEncode isUriUnreserved s"
proof -
  have "percentByte = (\<lambda>b. [CHR ''%'', hexUpper (b div 16), hexUpper (b mod 16)])" by (rule ext) (rule percentByte_def)
  then show ?thesis by (simp only: encodeURIComponent_def percentEncode_def)
qed

definition isFormSafe :: "char \<Rightarrow> bool" where
  "isFormSafe c = (isDigit c \<or> isAlpha c \<or> c \<in> set ''*-._'' \<or> c = CHR '' '')"

text \<open>\<open>URLSearchParams\<close>: the form encoding, with \<open>+\<close> for a space.\<close>

definition formEncode :: "string \<Rightarrow> string" where
  "formEncode s = map (\<lambda>c. if c = CHR '' '' then CHR ''+'' else c)
     (percentEncode isFormSafe s)"

definition searchParams :: "(string \<times> string) list \<Rightarrow> string" where
  "searchParams ps = joinWith ''&'' (map (\<lambda>(k, v). formEncode k @ ''='' @ formEncode v) ps)"

section \<open>Errors\<close>

record SdkHttpError =
  he_message :: string
  he_status :: nat
  he_body :: json

record SdkError =
  sf_code :: string
  sf_message :: string
  sf_statusCode :: nat
  sf_cause :: "SdkHttpError option"

text \<open>What a call throws: a \<open>SwiftAgentError\<close>, a \<open>ZodError\<close>, or a \<open>TypeError\<close> on a body that is not an object, or
  what another function threw.\<close>

datatype sdkFailure = SdkFail SdkError | SchemaFail | TypeFail | OtherFail js_error

definition swiftFailure :: "js_error \<Rightarrow> sdkFailure" where
  "swiftFailure e = (case e of SwiftErr c m \<Rightarrow> SdkFail \<lparr>sf_code = codeName c, sf_message = m, sf_statusCode = CODE_TO_STATUS c, sf_cause = None\<rparr>
     | _ \<Rightarrow> OtherFail e)"

definition statusToCode :: "nat \<Rightarrow> SwiftAgentErrorCode" where
  "statusToCode st = (if st = 400 then VALIDATION else if st = 401 then UNAUTHORIZED else if st = 403 then FORBIDDEN
     else if st = 404 then NOT_FOUND else if st = 409 then CONFLICT else if st = 429 then RATE_LIMIT else if st = 502 then PROVIDER_ERROR
     else if st = 503 then CONNECTION_ERROR else if st = 504 then TIMEOUT else if 500 \<le> st then INTERNAL else VALIDATION)"

definition remediation :: "string \<Rightarrow> string \<Rightarrow> string \<Rightarrow> nat \<Rightarrow> string" where
  "remediation dash code target st = (let http = '' (HTTP '' @ natToString st @ '')'' in
     if code = codeName UNAUTHORIZED then ''Authentication failed for '' @ target @ dash @ ''check the workspace API key passed to createAgentApp({ apiKey }) (e.g. SWIFT_AGENT_API_KEY).''
     else if code = codeName FORBIDDEN then ''The API key lacks permission for '' @ target @ dash @ ''check the key's workspace scope.''
     else if code = codeName NOT_FOUND then target @ '' not found'' @ dash @ ''verify the session/agent/run id.''
     else if code = codeName CONFLICT then target @ '' conflicts with existing state'' @ dash @ ''the resource already exists or is in a conflicting state.''
     else if code = codeName RATE_LIMIT then ''Rate limited on '' @ target @ dash @ ''retry after backing off.''
     else if code = codeName VALIDATION then ''The Swift Agent server rejected '' @ target @ http @ dash @ ''check the request payload.''
     else if code = codeName PROVIDER_ERROR then ''The model provider or an upstream dependency failed for '' @ target @ http @ dash @ ''retry.''
     else if code = codeName CONNECTION_ERROR then ''An upstream dependency was unavailable for '' @ target @ http @ dash @ ''retry.''
     else if code = codeName TIMEOUT then target @ '' timed out upstream'' @ http @ dash @ ''retry.''
     else ''The Swift Agent server encountered an internal error on '' @ target @ http @ dash @ ''retry; if persistent, contact support.'')"

definition isObject :: "json \<Rightarrow> bool" where
  "isObject j = (case j of JObj _ \<Rightarrow> True | JArr _ \<Rightarrow> True | _ \<Rightarrow> False)"

definition readServerError :: "json \<Rightarrow> string option \<times> string option" where
  "readServerError body = (if \<not> isObject body then (None, None)
     else let source = (case getProp ''error'' body of Some n \<Rightarrow> if isObject n then n else body | None \<Rightarrow> body)
       in (optStr (getProp ''code'' source), optStr (getProp ''message'' source)))"

text \<open>\<open>serverCode in SwiftAgentErrorCode\<close> also holds for the names that an object literal inherits.\<close>

definition OBJECT_PROTOTYPE :: "string list" where
  "OBJECT_PROTOTYPE = [''constructor'', ''__defineGetter__'', ''__defineSetter__'', ''hasOwnProperty'', ''__lookupGetter__'',
     ''__lookupSetter__'', ''isPrototypeOf'', ''propertyIsEnumerable'', ''toString'', ''valueOf'', ''__proto__'', ''toLocaleString'']"

definition inErrorCodes :: "string \<Rightarrow> bool" where
  "inErrorCodes s = (s \<in> set (map codeName errorCodes) \<or> s \<in> set OBJECT_PROTOTYPE)"

definition httpErrorToSwiftAgentError :: "string \<Rightarrow> SdkHttpError \<Rightarrow> string \<Rightarrow> string \<Rightarrow> SdkError" where
  "httpErrorToSwiftAgentError dash err meth path =
     (let (serverCode, serverMessage) = readServerError (he_body err); target = meth @ '' '' @ path;
          code = (case serverCode of None \<Rightarrow> codeName (statusToCode (he_status err))
                  | Some c \<Rightarrow> if c \<noteq> [] \<and> inErrorCodes c then c else codeName (statusToCode (he_status err)));
          said = (case serverMessage of None \<Rightarrow> [] | Some m \<Rightarrow> if m = [] then [] else '' Server said: \"'' @ m @ ''\".'')
      in \<lparr>sf_code = code, sf_message = remediation dash code target (he_status err) @ said, sf_statusCode = he_status err, sf_cause = Some err\<rparr>)"

section \<open>The request\<close>

record httpRequest =
  hx_method :: string
  hx_url :: string
  hx_headers :: "(string, string) jsmap"
  hx_body :: "string option"

record httpResponse =
  hs_status :: nat
  hs_statusText :: string
  hs_headers :: "string \<Rightarrow> string option"
  hs_body :: string

text \<open>\<open>fetch\<close> rejects with an \<open>Error\<close> of some name, or with anything else, or resolves.\<close>

datatype fetchResult = Rejected "string option" | Responded httpResponse

type_synonym ('s, 'a) sdkM = "'s \<Rightarrow> (sdkFailure + 'a) \<times> 's"

definition andThen :: "('s, 'a) sdkM \<Rightarrow> ('a \<Rightarrow> ('s, 'b) sdkM) \<Rightarrow> ('s, 'b) sdkM" where
  "andThen m f s = (case m s of (Inl e, s') \<Rightarrow> (Inl e, s') | (Inr x, s') \<Rightarrow> f x s')"

definition yieldM :: "sdkFailure + 'a \<Rightarrow> ('s, 'a) sdkM" where
  "yieldM r s = (r, s)"

definition parsed :: "'a option \<Rightarrow> sdkFailure + 'a" where
  "parsed v = (case v of None \<Rightarrow> Inl SchemaFail | Some x \<Rightarrow> Inr x)"

record 's sdkEnv =
  sk_dash :: string
  sk_wire :: wireEnv
  sk_fetch :: "httpRequest \<Rightarrow> 's \<Rightarrow> fetchResult \<times> 's"

record ControlPlaneClient =
  cc_baseUrl :: string
  cc_apiKey :: string

definition DEFAULT_BASE_URL :: string where
  "DEFAULT_BASE_URL = ''http://127.0.0.1:3000''"

definition newControlPlaneClient :: "string \<Rightarrow> string option \<Rightarrow> ControlPlaneClient" where
  "newControlPlaneClient apiKey baseUrl =
     \<lparr>cc_baseUrl = stripTrailingSlashes (orElse baseUrl DEFAULT_BASE_URL), cc_apiKey = apiKey\<rparr>"

definition httpRequestOf :: "ControlPlaneClient \<Rightarrow> string \<Rightarrow> string \<Rightarrow> json option \<Rightarrow> httpRequest" where
  "httpRequestOf cl meth path body = \<lparr>hx_method = meth, hx_url = cc_baseUrl cl @ path,
     hx_headers = [(''Authorization'', ''Bearer '' @ cc_apiKey cl), (''Accept'', ''application/json'')]
       @ (case body of None \<Rightarrow> [] | Some b \<Rightarrow> [(''Content-Type'', ''application/json'')]),
     hx_body = map_option stringify body\<rparr>"

definition fetchFailure :: "string \<Rightarrow> ControlPlaneClient \<Rightarrow> string \<Rightarrow> string option \<Rightarrow> sdkFailure" where
  "fetchFailure dash cl url name = (if name = Some ''AbortError'' \<or> name = Some ''TimeoutError''
     then swiftFailure (SwiftErr TIMEOUT (''The request to '' @ url @ '' timed out.''))
     else swiftFailure (SwiftErr CONNECTION_ERROR (''Could not reach the Swift Agent server at '' @ cc_baseUrl cl @ dash
       @ ''is it running and is baseUrl correct?'')))"

definition sdkRequest :: "'s sdkEnv \<Rightarrow> ControlPlaneClient \<Rightarrow> string \<Rightarrow> string \<Rightarrow> json option
    \<Rightarrow> ('s, json \<times> (string \<Rightarrow> string option)) sdkM" where
  "sdkRequest sk cl meth path body s = (case sk_fetch sk (httpRequestOf cl meth path body) s of
      (Rejected name, s') \<Rightarrow> (Inl (fetchFailure (sk_dash sk) cl (cc_baseUrl cl @ path) name), s')
    | (Responded res, s') \<Rightarrow>
        let responseBody = orElse (parse (hs_body res)) JNull in
        if hs_status res < 200 \<or> 299 < hs_status res
        then (Inl (SdkFail (httpErrorToSwiftAgentError (sk_dash sk)
               \<lparr>he_message = ''HTTP '' @ natToString (hs_status res) @ '' '' @ hs_statusText res @ '': '' @ meth @ '' '' @ path,
                he_status = hs_status res, he_body = responseBody\<rparr> meth path)), s')
        else (Inr (responseBody, hs_headers res), s'))"

section \<open>Endpoints\<close>

definition PROTOCOL_HEADER :: string where
  "PROTOCOL_HEADER = ''x-swiftagent-protocol''"

definition registerBodyJson :: "CreateAgentBody \<Rightarrow> json" where
  "registerBodyJson b = objOf [(''name'', Some (JStr (cb_name b))), (''modelConfig'', Some (modelConfigJson (cb_modelConfig b))),
     (''systemPrompt'', Some (JStr (cb_systemPrompt b))), (''memoryConfig'', map_option memoryConfigJson (cb_memoryConfig b)),
     (''tools'', map_option (\<lambda>ts. JArr (map toolDefinitionJson ts)) (cb_tools b)), (''toolRunnerUrl'', map_option JStr (cb_toolRunnerUrl b))]"

definition clientRegisterAgent :: "'s sdkEnv \<Rightarrow> ControlPlaneClient \<Rightarrow> CreateAgentBody \<Rightarrow> ('s, AgentRecord) sdkM" where
  "clientRegisterAgent sk cl b = andThen (sdkRequest sk cl ''POST'' ''/v1/agents'' (Some (registerBodyJson b))) (\<lambda>(body, headers).
     case assertProtocolCompatible (headers PROTOCOL_HEADER) SDK_MIN_SERVER_PROTOCOL API_PROTOCOL_VERSION of
       Some e \<Rightarrow> yieldM (Inl (swiftFailure e)) | None \<Rightarrow> yieldM (parsed (AgentRecordSchema (sk_wire sk) body)))"

definition clientGetAgent :: "'s sdkEnv \<Rightarrow> ControlPlaneClient \<Rightarrow> string \<Rightarrow> ('s, AgentRecord) sdkM" where
  "clientGetAgent sk cl i = andThen (sdkRequest sk cl ''GET'' (''/v1/agents/'' @ encodeURIComponent i) None)
     (\<lambda>(body, headers). yieldM (parsed (AgentRecordSchema (sk_wire sk) body)))"

definition clientGetAgentByName :: "'s sdkEnv \<Rightarrow> ControlPlaneClient \<Rightarrow> string \<Rightarrow> ('s, AgentRecord) sdkM" where
  "clientGetAgentByName sk cl n = andThen (sdkRequest sk cl ''GET'' (''/v1/agents?name='' @ encodeURIComponent n) None)
     (\<lambda>(body, headers). yieldM (parsed (AgentRecordSchema (sk_wire sk) body)))"

definition createSessionJson :: "CreateSessionBody \<Rightarrow> json" where
  "createSessionJson b = objOf [(''agentName'', Some (JStr (sb_agentName b))), (''userId'', map_option JStr (sb_userId b)),
     (''metadata'', map_option JObj (sb_metadata b))]"

text \<open>\<open>{...body, serverProtocolVersion}\<close>: the spread copies the own properties of any value.\<close>

definition spreadOf :: "json \<Rightarrow> (string, json) jsmap" where
  "spreadOf j = (case j of JObj ps \<Rightarrow> ps | JArr vs \<Rightarrow> zip (map natToString [0..<length vs]) vs
     | JStr s \<Rightarrow> zip (map natToString [0..<length s]) (map (\<lambda>c. JStr [c]) s) | _ \<Rightarrow> [])"

record CreateSessionResult =
  cr_fields :: "(string, json) jsmap"
  cr_serverProtocolVersion :: "string option"

definition clientCreateSession :: "'s sdkEnv \<Rightarrow> ControlPlaneClient \<Rightarrow> CreateSessionBody \<Rightarrow> ('s, CreateSessionResult) sdkM" where
  "clientCreateSession sk cl b = andThen (sdkRequest sk cl ''POST'' ''/v1/sessions'' (Some (createSessionJson b))) (\<lambda>(body, headers).
     yieldM (Inr \<lparr>cr_fields = js_delete ''serverProtocolVersion'' (spreadOf body), cr_serverProtocolVersion = headers PROTOCOL_HEADER\<rparr>))"

definition clientGetSession :: "'s sdkEnv \<Rightarrow> ControlPlaneClient \<Rightarrow> string \<Rightarrow> ('s, SessionRecord) sdkM" where
  "clientGetSession sk cl i = andThen (sdkRequest sk cl ''GET'' (''/v1/sessions/'' @ encodeURIComponent i) None)
     (\<lambda>(body, headers). yieldM (parsed (SessionRecordSchema (sk_wire sk) body)))"

record ListMessagesResult =
  lm_data :: "MessageRecord list"
  lm_hasMore :: "json option"

definition messagesQuery :: "int option \<Rightarrow> string option \<Rightarrow> string" where
  "messagesQuery lmt cursor = searchParams ((case lmt of None \<Rightarrow> [] | Some n \<Rightarrow> [(''limit'', intToString n)])
     @ (case cursor of None \<Rightarrow> [] | Some c \<Rightarrow> if c = [] then [] else [(''cursor'', c)]))"

definition messagesPath :: "string \<Rightarrow> int option \<Rightarrow> string option \<Rightarrow> string" where
  "messagesPath i lmt cursor = (let query = messagesQuery lmt cursor in
     ''/v1/sessions/'' @ encodeURIComponent i @ ''/messages'' @ (if query = [] then [] else ''?'' @ query))"

definition clientListMessages :: "'s sdkEnv \<Rightarrow> ControlPlaneClient \<Rightarrow> string \<Rightarrow> int option \<Rightarrow> string option
    \<Rightarrow> ('s, ListMessagesResult) sdkM" where
  "clientListMessages sk cl i lmt cursor = andThen (sdkRequest sk cl ''GET'' (messagesPath i lmt cursor) None) (\<lambda>(body, headers).
     case getProp ''data'' body of
       Some (JArr vs) \<Rightarrow> (case those (map (MessageRecordSchema (sk_wire sk)) vs) of None \<Rightarrow> yieldM (Inl SchemaFail)
          | Some ms \<Rightarrow> yieldM (Inr \<lparr>lm_data = ms, lm_hasMore = getProp ''hasMore'' body\<rparr>))
     | _ \<Rightarrow> yieldM (Inl TypeFail))"

definition clientCreateRun :: "'s sdkEnv \<Rightarrow> ControlPlaneClient \<Rightarrow> string \<Rightarrow> string \<Rightarrow> ('s, string \<times> string) sdkM" where
  "clientCreateRun sk cl i content = andThen (sdkRequest sk cl ''POST'' (''/v1/sessions/'' @ encodeURIComponent i @ ''/runs'')
       (Some (JObj [(''content'', JStr content)])))
     (\<lambda>(body, headers). yieldM (parsed (AcceptedRunSchema body)))"

definition clientGetRun :: "'s sdkEnv \<Rightarrow> ControlPlaneClient \<Rightarrow> string \<Rightarrow> ('s, RunRecord) sdkM" where
  "clientGetRun sk cl i = andThen (sdkRequest sk cl ''GET'' (''/v1/runs/'' @ encodeURIComponent i) None)
     (\<lambda>(body, headers). yieldM (parsed (RunRecordSchema (sk_wire sk) body)))"

definition clientCancelRun :: "'s sdkEnv \<Rightarrow> ControlPlaneClient \<Rightarrow> string \<Rightarrow> ('s, string \<times> string) sdkM" where
  "clientCancelRun sk cl i = andThen (sdkRequest sk cl ''POST'' (''/v1/runs/'' @ encodeURIComponent i @ ''/cancel'') None)
     (\<lambda>(body, headers). yieldM (parsed (AcceptedRunSchema body)))"

section \<open>A call and its direct counterpart\<close>

datatype sdkCall = RegisterAgent CreateAgentBody | GetAgent string | GetAgentByName string | CreateSession CreateSessionBody
  | GetSession string | ListMessages string "int option" "string option" | CreateRun string string | GetRun string | CancelRun string

datatype sdkResult = GotAgent AgentRecord | GotCreated CreateSessionResult | GotSession SessionRecord
  | GotMessages ListMessagesResult | GotAccepted string string | GotRun RunRecord

definition mapM :: "('a \<Rightarrow> 'b) \<Rightarrow> ('s, 'a) sdkM \<Rightarrow> ('s, 'b) sdkM" where
  "mapM f m = andThen m (\<lambda>x. yieldM (Inr (f x)))"

definition sdkCallRun :: "'s sdkEnv \<Rightarrow> ControlPlaneClient \<Rightarrow> sdkCall \<Rightarrow> ('s, sdkResult) sdkM" where
  "sdkCallRun sk cl c = (case c of
      RegisterAgent b \<Rightarrow> mapM GotAgent (clientRegisterAgent sk cl b)
    | GetAgent i \<Rightarrow> mapM GotAgent (clientGetAgent sk cl i)
    | GetAgentByName n \<Rightarrow> mapM GotAgent (clientGetAgentByName sk cl n)
    | CreateSession b \<Rightarrow> mapM GotCreated (clientCreateSession sk cl b)
    | GetSession i \<Rightarrow> mapM GotSession (clientGetSession sk cl i)
    | ListMessages i lmt cursor \<Rightarrow> mapM GotMessages (clientListMessages sk cl i lmt cursor)
    | CreateRun i content \<Rightarrow> mapM (\<lambda>(r, st). GotAccepted r st) (clientCreateRun sk cl i content)
    | GetRun i \<Rightarrow> mapM GotRun (clientGetRun sk cl i)
    | CancelRun i \<Rightarrow> mapM (\<lambda>(r, st). GotAccepted r st) (clientCancelRun sk cl i))"

text \<open>The request that a call stands for, as a value of the API model.\<close>

definition directRequest :: "sdkCall \<Rightarrow> apiRequest" where
  "directRequest c = (case c of RegisterAgent b \<Rightarrow> PostAgents (Some b) | GetAgent i \<Rightarrow> GetAgentById i | GetAgentByName n \<Rightarrow> GetAgents (Some n)
    | CreateSession b \<Rightarrow> PostSessions (Some b) | GetSession i \<Rightarrow> GetSessionById i
    | ListMessages i lmt cursor \<Rightarrow> GetMessages i (Some (orElse lmt 50, if cursor = Some [] then None else cursor))
    | CreateRun i content \<Rightarrow> PostRun i (Some content) | GetRun i \<Rightarrow> GetRunById i | CancelRun i \<Rightarrow> PostCancel i)"

text \<open>The caller is told what the API replied: the same record, or an error with the code, the status and the message of
  the reply.\<close>

definition toldError :: "string \<Rightarrow> string \<Rightarrow> nat \<Rightarrow> sdkFailure + sdkResult \<Rightarrow> bool" where
  "toldError code m st res = (case res of Inl (SdkFail e) \<Rightarrow> sf_code e = code \<and> sf_statusCode e = st \<and>
       (m = [] \<or> sublist m (sf_message e)) | _ \<Rightarrow> False)"

definition told :: "response \<Rightarrow> sdkFailure + sdkResult \<Rightarrow> bool" where
  "told r res = (case r of (st, rep) \<Rightarrow> (case rep of
      ErrorReply code m \<Rightarrow> toldError code m st res
    | AgentReply a \<Rightarrow> res = Inr (GotAgent a)
    | SessionCreated i t u \<Rightarrow> res = Inr (GotCreated \<lparr>cr_fields = [(''sessionId'', JStr i), (''clientToken'', JStr t), (''websocketUrl'', JStr u)],
        cr_serverProtocolVersion = Some API_PROTOCOL_VERSION\<rparr>)
    | SessionReply x \<Rightarrow> res = Inr (GotSession x)
    | MessagesReply ms hasMore \<Rightarrow> res = Inr (GotMessages \<lparr>lm_data = ms, lm_hasMore = Some (JBool hasMore)\<rparr>)
    | RunReply x \<Rightarrow> res = Inr (GotRun x)
    | AcceptedReply i status \<Rightarrow> res = Inr (GotAccepted i status)
    | _ \<Rightarrow> res = Inl SchemaFail))"

section \<open>The API behind the wire\<close>

text \<open>The server as \<open>fetch\<close> sees it.  The framework's router, which matches the method and the path and decodes path
  parameters and query, is a parameter; an unknown path is its 404.  Every reply advertises the protocol version.\<close>

type_synonym api_router = "string \<Rightarrow> string \<Rightarrow> json option \<Rightarrow> apiRequest option"

definition httpReply :: "wireEnv \<Rightarrow> nat \<Rightarrow> json \<Rightarrow> httpResponse" where
  "httpReply wx st body = \<lparr>hs_status = st, hs_statusText = [],
     hs_headers = (\<lambda>h. if h = PROTOCOL_HEADER then Some API_PROTOCOL_VERSION else None), hs_body = stringify body\<rparr>"

definition serveApi :: "apiEnv \<Rightarrow> wireEnv \<Rightarrow> string \<Rightarrow> api_router \<Rightarrow> httpRequest \<Rightarrow> apiState \<Rightarrow> fetchResult \<times> apiState" where
  "serveApi env wx base router req s = (if \<not> startsWith base (hx_url req) then (Rejected (Some ''TypeError''), s)
     else (case router (hx_method req) (drop (length base) (hx_url req)) (Option.bind (hx_body req) parse) of
         None \<Rightarrow> (Responded (httpReply wx 404 (JObj [])), s)
       | Some r \<Rightarrow> (case handleApi env (js_get (hx_headers req) ''Authorization'') r s of
             (Val (st, rep), s') \<Rightarrow> (Responded (httpReply wx st (replyJson wx rep)), s')
           | (_, s') \<Rightarrow> (Rejected None, s'))))"

text \<open>What the framework documents of its router: a path parameter is percent-decoded; one that is empty, a dot
  segment or longer than 100 characters does not match.\<close>

definition routable :: "string \<Rightarrow> bool" where
  "routable i = (i \<noteq> [] \<and> i \<noteq> ''.'' \<and> i \<noteq> ''..'' \<and> length (encodeURIComponent i) \<le> 100)"

definition routes :: "wireEnv \<Rightarrow> api_router \<Rightarrow> bool" where
  "routes wx router = ((\<forall>j. router ''POST'' ''/v1/agents'' (Some j) = Some (PostAgents (CreateAgentBodySchema wx j))
         \<and> router ''POST'' ''/v1/sessions'' (Some j) = Some (PostSessions (CreateSessionBodySchema j)))
     \<and> (\<forall>n. router ''GET'' (''/v1/agents?name='' @ encodeURIComponent n) None = Some (GetAgents (Some n)))
     \<and> (\<forall>i. routable i \<longrightarrow> router ''GET'' (''/v1/agents/'' @ encodeURIComponent i) None = Some (GetAgentById i)
         \<and> router ''GET'' (''/v1/sessions/'' @ encodeURIComponent i) None = Some (GetSessionById i)
         \<and> router ''GET'' (''/v1/runs/'' @ encodeURIComponent i) None = Some (GetRunById i)
         \<and> router ''POST'' (''/v1/runs/'' @ encodeURIComponent i @ ''/cancel'') None = Some (PostCancel i)
         \<and> (\<forall>j. router ''POST'' (''/v1/sessions/'' @ encodeURIComponent i @ ''/runs'') (Some j) = Some (PostRun i (CreateRunBodySchema j)))
         \<and> (\<forall>lmt cursor. router ''GET'' (messagesPath i lmt cursor) None
              = Some (GetMessages i (Some (orElse lmt 50, if cursor = Some [] then None else cursor))))))"

definition bodyFits :: "wireEnv \<Rightarrow> CreateAgentBody \<Rightarrow> bool" where
  "bodyFits wx b = (cb_name b \<noteq> [] \<and> modelFits (cb_modelConfig b) \<and> (case cb_memoryConfig b of None \<Rightarrow> True | Some m \<Rightarrow> memoryFits m) \<and>
     (case cb_toolRunnerUrl b of None \<Rightarrow> True | Some u \<Rightarrow> wx_isUrl wx u) \<and> (case cb_tools b of None \<Rightarrow> True | Some ts \<Rightarrow> list_all toolFits ts))"

definition callFits :: "wireEnv \<Rightarrow> sdkCall \<Rightarrow> bool" where
  "callFits wx c = (case c of RegisterAgent b \<Rightarrow> bodyFits wx b | GetAgentByName n \<Rightarrow> True | GetAgent i \<Rightarrow> routable i
    | CreateSession b \<Rightarrow> sb_agentName b \<noteq> [] \<and> sb_userId b \<noteq> Some [] \<and> (case sb_metadata b of None \<Rightarrow> True | Some ps \<Rightarrow> wf_json (JObj ps))
    | GetSession i \<Rightarrow> routable i | ListMessages i lmt cursor \<Rightarrow> routable i | CreateRun i content \<Rightarrow> routable i \<and> content \<noteq> []
    | GetRun i \<Rightarrow> routable i | CancelRun i \<Rightarrow> routable i)"

definition replyFits :: "wireEnv \<Rightarrow> apiReply \<Rightarrow> bool" where
  "replyFits wx rep = (case rep of AgentReply a \<Rightarrow> agentFits wx a | AgentsReply as \<Rightarrow> list_all (agentFits wx) as
    | SessionReply x \<Rightarrow> sessionFits wx x | MessagesReply ms hasMore \<Rightarrow> list_all (messageFits wx) ms | RunReply x \<Rightarrow> runFits wx x | _ \<Rightarrow> True)"

section \<open>Request bodies and errors survive the wire\<close>

lemma registerBody_codec:
  assumes "bodyFits wx b"
  shows "CreateAgentBodySchema wx (registerBodyJson b) = Some b \<and> wf_json (registerBodyJson b)"
proof -
  note m = modelConfig_codec [of "cb_modelConfig b"]
  have k: "MemoryConfigSchema (memoryConfigJson x) \<and> memoryConfigOf (memoryConfigJson x) = x \<and> wf_json (memoryConfigJson x)"
    if "cb_memoryConfig b = Some x" for x using assms that by (simp add: bodyFits_def memoryConfig_codec)
  have t: "zArray ToolDefinitionSchema (JArr (map toolDefinitionJson ts)) \<and> toolsOf (Some (JArr (map toolDefinitionJson ts))) = ts \<and>
      wf_json (JArr (map toolDefinitionJson ts))"
    if "cb_tools b = Some ts" for ts using assms that by (intro tools_codec) (simp add: bodyFits_def)
  show ?thesis using assms m k t
    by (cases b; cases "cb_memoryConfig b"; cases "cb_tools b"; cases "cb_toolRunnerUrl b")
      (simp_all del: wf_json.simps(1) add: bodyFits_def CreateAgentBodySchema_def registerBodyJson_def strictObj_def orElse_def strOf_def
        zString_def zMin1_def zNullable_def zUrl_def optStr_def)
qed

lemma createSession_codec:
  assumes "sb_agentName b \<noteq> []" "sb_userId b \<noteq> Some []" "case sb_metadata b of None \<Rightarrow> True | Some ps \<Rightarrow> wf_json (JObj ps)"
  shows "CreateSessionBodySchema (createSessionJson b) = Some b \<and> wf_json (createSessionJson b)"
  using assms by (cases b; cases "sb_userId b"; cases "sb_metadata b")
    (auto simp: CreateSessionBodySchema_def createSessionJson_def strictObj_def z_defs)

lemma readServerError_errorBody [simp]: "readServerError (errorBody c m) = (Some c, Some m)"
  by (simp add: readServerError_def errorBody_def isObject_def optStr_def)

lemma errorTyped_known: "errorTyped st code \<Longrightarrow> code \<noteq> [] \<and> inErrorCodes code \<and> \<not> (200 \<le> st \<and> st \<le> 299)"
proof -
  have "codeName c \<noteq> [] \<and> \<not> (200 \<le> CODE_TO_STATUS c \<and> CODE_TO_STATUS c \<le> 299)" for c
    by (cases c) (simp_all add: codeName_def CODE_TO_STATUS_def)
  moreover assume "errorTyped st code"
  ultimately show ?thesis by (auto simp: errorTyped_def list_ex_iff inErrorCodes_def)
qed

lemma sublist_inner: "sublist m (a @ b @ m @ c)"
  by (metis append.assoc sublist_appendI)

lemma told_error:
  assumes "errorTyped st code" and "he_status err = st" and "he_body err = errorBody code m"
  shows "toldError code m st (Inl (SdkFail (httpErrorToSwiftAgentError dash err meth path)))"
proof -
  have said: "m = [] \<or> sublist m (sf_message (httpErrorToSwiftAgentError dash err meth path))"
    using assms(3) sublist_inner [of m] by (cases m) (simp_all add: httpErrorToSwiftAgentError_def Let_def del: append_Cons)
  show ?thesis using errorTyped_known [OF assms(1)] assms(2,3) said
    by (simp add: toldError_def) (simp add: httpErrorToSwiftAgentError_def Let_def)
qed

section \<open>Through the wire\<close>

definition sdkOver :: "string \<Rightarrow> apiEnv \<Rightarrow> wireEnv \<Rightarrow> string \<Rightarrow> api_router \<Rightarrow> apiState sdkEnv" where
  "sdkOver dash env wx base router = \<lparr>sk_dash = dash, sk_wire = wx, sk_fetch = serveApi env wx base router\<rparr>"

lemma sdkOver_wire [simp]: "sk_wire (sdkOver dash env wx base router) = wx"
  by (simp add: sdkOver_def)

definition delivered :: "string \<Rightarrow> wireEnv \<Rightarrow> string \<Rightarrow> string \<Rightarrow> response \<Rightarrow> sdkFailure + json \<times> (string \<Rightarrow> string option)" where
  "delivered dash wx meth path r = (case r of (st, rep) \<Rightarrow>
     if 200 \<le> st \<and> st \<le> 299 then Inr (replyJson wx rep, hs_headers (httpReply wx st (replyJson wx rep)))
     else Inl (SdkFail (httpErrorToSwiftAgentError dash \<lparr>he_message = ''HTTP '' @ natToString st @ '' : '' @ meth @ '' '' @ path,
       he_status = st, he_body = replyJson wx rep\<rparr> meth path)))"

lemma request_serve:
  assumes "router meth path body = Some req" and "case body of None \<Rightarrow> True | Some b \<Rightarrow> wf_json b"
    and "handleApi env (Some (''Bearer '' @ cc_apiKey cl)) req s = (Val (st, rep), s')" and "wf_json (replyJson wx rep)"
  shows "sdkRequest (sdkOver dash env wx (cc_baseUrl cl) router) cl meth path body s = (delivered dash wx meth path (st, rep), s')"
proof -
  have "Option.bind (map_option stringify body) parse = body" using assms(2) by (cases body) (simp_all add: parse_stringify)
  then have "serveApi env wx (cc_baseUrl cl) router (httpRequestOf cl meth path body) s = (Responded (httpReply wx st (replyJson wx rep)), s')"
    using assms(1,3) by (simp add: serveApi_def httpRequestOf_def)
  then show ?thesis using assms(4)
    by (auto simp: sdkRequest_def sdkOver_def delivered_def httpReply_def parse_stringify orElse_def Let_def)
qed

lemma wf_replyJson:
  assumes "replyFits wx rep" and "repliesWith (directRequest c) st rep"
  shows "wf_json (replyJson wx rep)"
  using assms agents.wf_list [of wx] messages.wf_list [of wx] agents.wf_enc [of wx] sessions.wf_enc [of wx] runs.wf_enc [of wx]
  by (cases rep; cases c) (auto simp: replyFits_def replyJson_def errorBody_def repliesWith_def directRequest_def dateJson_def)

lemma delivered_error: "errorTyped st code \<Longrightarrow> \<exists>e. delivered dash wx meth path (st, ErrorReply code m) = Inl e \<and> toldError code m st (Inl e)"
  using errorTyped_known [of st code] by (auto simp: delivered_def replyJson_def intro!: told_error)

lemma delivered_ok: "200 \<le> st \<Longrightarrow> st \<le> 299 \<Longrightarrow>
    delivered dash wx meth path (st, rep) = Inr (replyJson wx rep, \<lambda>h. if h = PROTOCOL_HEADER then Some API_PROTOCOL_VERSION else None)"
  by (simp add: delivered_def httpReply_def)

lemma mapM_andThen: "mapM f (andThen m g) = andThen m (\<lambda>x. mapM f (g x))"
  by (auto simp: mapM_def andThen_def fun_eq_iff split: prod.split sum.split)

lemma mapM_yield: "mapM f (yieldM r) = yieldM (case r of Inl e \<Rightarrow> Inl e | Inr x \<Rightarrow> Inr (f x))"
  by (auto simp: mapM_def andThen_def yieldM_def fun_eq_iff split: sum.split)

text \<open>One request and what is made of its body; enough of what it makes of the replies that the route gives.\<close>

lemma call_told:
  assumes run: "handleApi env (Some (''Bearer '' @ cc_apiKey cl)) (directRequest c) s = (Val (st, rep), s')" and fits: "replyFits wx rep"
    and route: "router meth path body = Some (directRequest c)" and body: "case body of None \<Rightarrow> True | Some b \<Rightarrow> wf_json b"
    and use: "\<And>hs. repliesWith (directRequest c) st rep \<Longrightarrow> \<not> (\<exists>code m. rep = ErrorReply code m) \<Longrightarrow> hs PROTOCOL_HEADER = Some API_PROTOCOL_VERSION
      \<Longrightarrow> 200 \<le> st \<and> st \<le> 299 \<and> (\<exists>r. f (replyJson wx rep, hs) = yieldM r \<and> told (st, rep) r)"
  shows "\<exists>res. andThen (sdkRequest (sdkOver dash env wx (cc_baseUrl cl) router) cl meth path body) f s = (res, s') \<and> told (st, rep) res"
proof -
  have typed: "repliesWith (directRequest c) st rep" using handleApi_typed [of env "Some (''Bearer '' @ cc_apiKey cl)" "directRequest c" s] run by auto
  have sent: "sdkRequest (sdkOver dash env wx (cc_baseUrl cl) router) cl meth path body s = (delivered dash wx meth path (st, rep), s')"
    by (rule request_serve) (use route body run wf_replyJson [OF fits typed] in simp_all)
  show ?thesis
  proof (cases "\<exists>code m. rep = ErrorReply code m")
    case True
    then obtain code m where rep: "rep = ErrorReply code m" by blast
    then have "errorTyped st code" using typed by (simp add: repliesWith_def)
    then obtain e where "delivered dash wx meth path (st, rep) = Inl e" "toldError code m st (Inl e)"
      using delivered_error [of st code dash wx meth path m] rep by auto
    then show ?thesis using sent rep by (simp add: andThen_def told_def)
  next
    case False
    define hs where "hs = (\<lambda>h. if h = PROTOCOL_HEADER then Some API_PROTOCOL_VERSION else None)"
    obtain r where "200 \<le> st \<and> st \<le> 299" "f (replyJson wx rep, hs) = yieldM r" "told (st, rep) r"
      using use [OF typed False, of hs] by (auto simp: hs_def)
    then show ?thesis using sent by (simp add: andThen_def delivered_ok yieldM_def hs_def)
  qed
qed

lemma accepted_codec: "AcceptedRunSchema (replyJson wx (AcceptedReply i status)) = Some (i, status)"
  by (simp add: AcceptedRunSchema_def replyJson_def)

lemma messages_reply:
  "getProp ''data'' (replyJson wx (MessagesReply ms hasMore)) = Some (JArr (map (messageJson wx) ms))"
  "getProp ''hasMore'' (replyJson wx (MessagesReply ms hasMore)) = Some (JBool hasMore)"
  by (simp_all add: replyJson_def)

lemma schema_of_list: "AgentRecordSchema wx (JArr vs) = None"
  by (simp add: AgentRecordSchema_def strictObj_def)

lemmas use_simps = told_def repliesWith_def directRequest_def mapM_yield parsed_def replyFits_def

lemma use_agent:
  assumes "replyFits wx rep" and "repliesWith (directRequest c) st rep" and "\<not> (\<exists>code m. rep = ErrorReply code m)"
    and "(\<exists>b. c = RegisterAgent b) \<or> (\<exists>i. c = GetAgent i) \<or> (\<exists>n. c = GetAgentByName n)"
  shows "200 \<le> st \<and> st \<le> 299 \<and> (\<exists>r. mapM GotAgent (yieldM (parsed (AgentRecordSchema wx (replyJson wx rep)))) = yieldM r \<and> told (st, rep) r)"
  using assms by (cases rep) (auto simp: use_simps replyJson_def agents.dec_enc schema_of_list)

lemma use_created:
  assumes "repliesWith (directRequest (CreateSession b)) st rep" and "\<not> (\<exists>code m. rep = ErrorReply code m)" and "hs PROTOCOL_HEADER = Some API_PROTOCOL_VERSION"
  shows "200 \<le> st \<and> st \<le> 299 \<and> (\<exists>r. mapM GotCreated (yieldM (Inr \<lparr>cr_fields = js_delete ''serverProtocolVersion'' (spreadOf (replyJson wx rep)),
      cr_serverProtocolVersion = hs PROTOCOL_HEADER\<rparr>)) = yieldM r \<and> told (st, rep) r)"
  using assms by (cases rep) (auto simp: use_simps replyJson_def spreadOf_def)

lemma use_session:
  assumes "replyFits wx rep" and "repliesWith (directRequest (GetSession i)) st rep" and "\<not> (\<exists>code m. rep = ErrorReply code m)"
  shows "200 \<le> st \<and> st \<le> 299 \<and> (\<exists>r. mapM GotSession (yieldM (parsed (SessionRecordSchema wx (replyJson wx rep)))) = yieldM r \<and> told (st, rep) r)"
  using assms by (cases rep) (auto simp: use_simps replyJson_def sessions.dec_enc)

lemma use_messages:
  assumes "replyFits wx rep" and "repliesWith (directRequest (ListMessages i lmt cursor)) st rep" and "\<not> (\<exists>code m. rep = ErrorReply code m)"
  shows "200 \<le> st \<and> st \<le> 299 \<and> (\<exists>r. mapM GotMessages (case getProp ''data'' (replyJson wx rep) of
       Some (JArr vs) \<Rightarrow> (case those (map (MessageRecordSchema wx) vs) of None \<Rightarrow> yieldM (Inl SchemaFail)
          | Some ms \<Rightarrow> yieldM (Inr \<lparr>lm_data = ms, lm_hasMore = getProp ''hasMore'' (replyJson wx rep)\<rparr>))
     | _ \<Rightarrow> yieldM (Inl TypeFail)) = yieldM r \<and> told (st, rep) r)"
  using assms messages.read_list [of wx] by (cases rep) (auto simp: use_simps messages_reply)

lemma use_run:
  assumes "replyFits wx rep" and "repliesWith (directRequest (GetRun i)) st rep" and "\<not> (\<exists>code m. rep = ErrorReply code m)"
  shows "200 \<le> st \<and> st \<le> 299 \<and> (\<exists>r. mapM GotRun (yieldM (parsed (RunRecordSchema wx (replyJson wx rep)))) = yieldM r \<and> told (st, rep) r)"
  using assms by (cases rep) (auto simp: use_simps replyJson_def runs.dec_enc)

lemma use_accepted:
  assumes "repliesWith (directRequest c) st rep" and "\<not> (\<exists>code m. rep = ErrorReply code m)"
    and "(\<exists>i content. c = CreateRun i content) \<or> (\<exists>i. c = CancelRun i)"
  shows "200 \<le> st \<and> st \<le> 299 \<and> (\<exists>r. mapM (\<lambda>(x, y). GotAccepted x y) (yieldM (parsed (AcceptedRunSchema (replyJson wx rep)))) = yieldM r \<and> told (st, rep) r)"
  using assms by (cases rep) (auto simp: use_simps accepted_codec)

text \<open>The method, path and body of a call.\<close>

definition callMethod :: "sdkCall \<Rightarrow> string" where
  "callMethod c = (case c of RegisterAgent b \<Rightarrow> ''POST'' | CreateSession b \<Rightarrow> ''POST'' | CreateRun i content \<Rightarrow> ''POST'' | CancelRun i \<Rightarrow> ''POST'' | _ \<Rightarrow> ''GET'')"

definition callPath :: "sdkCall \<Rightarrow> string" where
  "callPath c = (case c of RegisterAgent b \<Rightarrow> ''/v1/agents'' | GetAgent i \<Rightarrow> ''/v1/agents/'' @ encodeURIComponent i
     | GetAgentByName n \<Rightarrow> ''/v1/agents?name='' @ encodeURIComponent n | CreateSession b \<Rightarrow> ''/v1/sessions''
     | GetSession i \<Rightarrow> ''/v1/sessions/'' @ encodeURIComponent i | ListMessages i lmt cursor \<Rightarrow> messagesPath i lmt cursor
     | CreateRun i content \<Rightarrow> ''/v1/sessions/'' @ encodeURIComponent i @ ''/runs'' | GetRun i \<Rightarrow> ''/v1/runs/'' @ encodeURIComponent i
     | CancelRun i \<Rightarrow> ''/v1/runs/'' @ encodeURIComponent i @ ''/cancel'')"

definition callBody :: "sdkCall \<Rightarrow> json option" where
  "callBody c = (case c of RegisterAgent b \<Rightarrow> Some (registerBodyJson b) | CreateSession b \<Rightarrow> Some (createSessionJson b)
     | CreateRun i content \<Rightarrow> Some (JObj [(''content'', JStr content)]) | _ \<Rightarrow> None)"

lemma call_routed:
  assumes "routes wx router" and "callFits wx c"
  shows "router (callMethod c) (callPath c) (callBody c) = Some (directRequest c) \<and> (case callBody c of None \<Rightarrow> True | Some b \<Rightarrow> wf_json b)"
proof -
  have content: "CreateRunBodySchema (JObj [(''content'', JStr x)]) = Some x" if "x \<noteq> []" for x
    using that by (simp add: CreateRunBodySchema_def strictObj_def z_defs)
  show ?thesis using assms
    by (cases c) (auto simp: routes_def callFits_def callMethod_def callPath_def callBody_def directRequest_def content
        registerBody_codec createSession_codec)
qed

definition callReads :: "'s sdkEnv \<Rightarrow> sdkCall \<Rightarrow> json \<times> (string \<Rightarrow> string option) \<Rightarrow> ('s, sdkResult) sdkM" where
  "callReads sk c = (\<lambda>(body, headers). case c of
      RegisterAgent b \<Rightarrow> mapM GotAgent (case assertProtocolCompatible (headers PROTOCOL_HEADER) SDK_MIN_SERVER_PROTOCOL API_PROTOCOL_VERSION of
         Some e \<Rightarrow> yieldM (Inl (swiftFailure e)) | None \<Rightarrow> yieldM (parsed (AgentRecordSchema (sk_wire sk) body)))
    | GetAgent i \<Rightarrow> mapM GotAgent (yieldM (parsed (AgentRecordSchema (sk_wire sk) body)))
    | GetAgentByName n \<Rightarrow> mapM GotAgent (yieldM (parsed (AgentRecordSchema (sk_wire sk) body)))
    | CreateSession b \<Rightarrow> mapM GotCreated (yieldM (Inr \<lparr>cr_fields = js_delete ''serverProtocolVersion'' (spreadOf body),
         cr_serverProtocolVersion = headers PROTOCOL_HEADER\<rparr>))
    | GetSession i \<Rightarrow> mapM GotSession (yieldM (parsed (SessionRecordSchema (sk_wire sk) body)))
    | ListMessages i lmt cursor \<Rightarrow> mapM GotMessages (case getProp ''data'' body of
         Some (JArr vs) \<Rightarrow> (case those (map (MessageRecordSchema (sk_wire sk)) vs) of None \<Rightarrow> yieldM (Inl SchemaFail)
            | Some ms \<Rightarrow> yieldM (Inr \<lparr>lm_data = ms, lm_hasMore = getProp ''hasMore'' body\<rparr>))
       | _ \<Rightarrow> yieldM (Inl TypeFail))
    | CreateRun i content \<Rightarrow> mapM (\<lambda>(r, st). GotAccepted r st) (yieldM (parsed (AcceptedRunSchema body)))
    | GetRun i \<Rightarrow> mapM GotRun (yieldM (parsed (RunRecordSchema (sk_wire sk) body)))
    | CancelRun i \<Rightarrow> mapM (\<lambda>(r, st). GotAccepted r st) (yieldM (parsed (AcceptedRunSchema body))))"

lemma sdkCallRun_form: "sdkCallRun sk cl c = andThen (sdkRequest sk cl (callMethod c) (callPath c) (callBody c)) (callReads sk c)"
  by (cases c) (simp_all add: sdkCallRun_def callMethod_def callPath_def callBody_def callReads_def clientRegisterAgent_def
      clientGetAgent_def clientGetAgentByName_def clientCreateSession_def clientGetSession_def clientListMessages_def clientCreateRun_def
      clientGetRun_def clientCancelRun_def mapM_andThen split_def)

lemma callReads_told:
  assumes "replyFits wx rep" and "repliesWith (directRequest c) st rep" and "\<not> (\<exists>code m. rep = ErrorReply code m)"
    and "hs PROTOCOL_HEADER = Some API_PROTOCOL_VERSION" and "sk_wire sk = wx"
  shows "200 \<le> st \<and> st \<le> 299 \<and> (\<exists>r. callReads sk c (replyJson wx rep, hs) = yieldM r \<and> told (st, rep) r)"
proof -
  have v: "assertProtocolCompatible (Some API_PROTOCOL_VERSION) SDK_MIN_SERVER_PROTOCOL API_PROTOCOL_VERSION = None"
    by (simp add: assertProtocolCompatible_iff) (simp add: API_PROTOCOL_VERSION_def parseInt_def isSpace_def isDigit_def digitsVal_def digitVal_def)
  show ?thesis
  proof (cases c)
    case (RegisterAgent b)
    then show ?thesis using use_agent [OF assms(1,2,3)] assms(4,5) v by (simp add: callReads_def)
  next
    case (GetAgent i)
    then show ?thesis using use_agent [OF assms(1,2,3)] assms(5) by (simp add: callReads_def)
  next
    case (GetAgentByName n)
    then show ?thesis using use_agent [OF assms(1,2,3)] assms(5) by (simp add: callReads_def)
  next
    case (CreateSession b)
    show ?thesis using use_created [where hs = hs and wx = wx, OF assms(2)[unfolded CreateSession] assms(3,4)] by (simp add: callReads_def CreateSession)
  next
    case (GetSession i)
    show ?thesis using use_session [OF assms(1) assms(2)[unfolded GetSession] assms(3)] assms(5) by (simp add: callReads_def GetSession)
  next
    case (ListMessages i lmt cursor)
    show ?thesis using use_messages [OF assms(1) assms(2)[unfolded ListMessages] assms(3)] assms(5) by (simp only: callReads_def ListMessages prod.case sdkCall.case)
  next
    case (CreateRun i content)
    then show ?thesis using use_accepted [OF assms(2,3), of wx] by (simp add: callReads_def)
  next
    case (GetRun i)
    show ?thesis using use_run [OF assms(1) assms(2)[unfolded GetRun] assms(3)] assms(5) by (simp add: callReads_def GetRun)
  next
    case (CancelRun i)
    then show ?thesis using use_accepted [OF assms(2,3), of wx] by (simp add: callReads_def)
  qed
qed

text \<open>Property C21: a call of the SDK over HTTP is the direct call of the API.  Over a router that decodes paths as
documented, the server ends in the state in which the handler of the API leaves it, and the caller is told what the
handler replied: the same record, page or accepted run, or an error with the reply's code, status and message.\<close>

theorem sdk_is_direct_call:
  assumes "routes wx router" and "callFits wx c"
    and "handleApi env (Some (''Bearer '' @ cc_apiKey cl)) (directRequest c) s = (Val (st, rep), s')" and "replyFits wx rep"
  shows "\<exists>res. sdkCallRun (sdkOver dash env wx (cc_baseUrl cl) router) cl c s = (res, s') \<and> told (st, rep) res"
  unfolding sdkCallRun_form
proof (rule call_told [OF assms(3,4)])
  show "router (callMethod c) (callPath c) (callBody c) = Some (directRequest c)" "case callBody c of None \<Rightarrow> True | Some b \<Rightarrow> wf_json b"
    using call_routed [OF assms(1,2)] by simp_all
qed (rule callReads_told [OF assms(4)], simp_all)

end
