(* ===== verification/Sdk_Router.thy ===== *)
theory Sdk_Router
  imports Sdk_Client
begin

text \<open>A router that decodes paths as the framework documents: the URL encoding of the SDK's client is inverted by percent
  decoding, for every identifier, name and cursor.  It discharges the hypothesis of \<open>sdk_is_direct_call\<close>.\<close>

section \<open>Percent decoding\<close>

fun percentBytes :: "string \<Rightarrow> nat list" where
  "percentBytes [] = []"
| "percentBytes (c # cs) = (if c = CHR ''%'' then (case cs of h # l # r \<Rightarrow>
       (case (hexVal h, hexVal l) of (Some a, Some b) \<Rightarrow> (16 * a + b) # percentBytes r | _ \<Rightarrow> utf8Bytes c @ percentBytes cs)
       | _ \<Rightarrow> utf8Bytes c @ percentBytes cs)
     else utf8Bytes c @ percentBytes cs)"

definition percentDecode :: "string \<Rightarrow> string" where
  "percentDecode s = utf8Decode (percentBytes s)"

definition formDecode :: "string \<Rightarrow> string" where
  "formDecode s = percentDecode (map (\<lambda>c. if c = CHR ''+'' then CHR '' '' else c) s)"

lemma hexUpper_val: "n < 16 \<Longrightarrow> hexVal (hexUpper n) = Some n"
  by (simp add: hexVal_def hexUpper_def digitChar_def)

lemma utf8Bytes_small: "b \<in> set (utf8Bytes c) \<Longrightarrow> b < 256"
proof -
  have "of_char c div 64 < (64 :: nat)" using of_char_256 [of c] by linarith
  then show "b \<in> set (utf8Bytes c) \<Longrightarrow> b < 256" using of_char_256 [of c] by (auto simp: utf8Bytes_def Let_def split: if_splits)
qed

lemma percentBytes_byte: "b < 256 \<Longrightarrow> percentBytes (percentByte b @ cs) = b # percentBytes cs"
  by (simp add: percentByte_def hexUpper_val)

lemma percentBytes_bytes: "list_all (\<lambda>b. b < 256) bs \<Longrightarrow> percentBytes (concat (map percentByte bs) @ cs) = bs @ percentBytes cs"
  by (induction bs) (simp_all add: percentBytes_byte del: percentBytes.simps)

lemma percentBytes_encode: "\<not> keep (CHR ''%'') \<Longrightarrow> percentBytes (percentEncode keep s @ cs) = utf8Encode s @ percentBytes cs"
proof (induction s)
  case Nil
  then show ?case by (simp add: percentEncode_def utf8Encode_def)
next
  case (Cons c s)
  have step: "percentEncode keep (c # s) = (if keep c then [c] else concat (map percentByte (utf8Bytes c))) @ percentEncode keep s"
    by (simp add: percentEncode_def)
  have "list_all (\<lambda>b. b < 256) (utf8Bytes c)" using utf8Bytes_small by (auto simp: list_all_iff)
  moreover have "c \<noteq> CHR ''%''" if "keep c" using Cons.prems that by auto
  ultimately show ?case using Cons by (simp add: step percentBytes_bytes utf8Encode_def)
qed

lemma percentDecode_encode: "\<not> keep (CHR ''%'') \<Longrightarrow> percentDecode (percentEncode keep s) = s"
  using percentBytes_encode [of keep s "[]"] by (simp add: percentDecode_def utf8_roundtrip)

lemma decode_component [simp]: "percentDecode (encodeURIComponent s) = s"
  unfolding encodeURIComponent_percent by (rule percentDecode_encode) (simp add: isUriUnreserved_def isAlpha_def isDigit_def)

lemma percentEncode_chars: "c \<in> set (percentEncode keep s) \<Longrightarrow> keep c \<or> c = CHR ''%'' \<or> isDigit c \<or> isAlpha c"
proof -
  have h: "isDigit (hexUpper n) \<or> isAlpha (hexUpper n)" if "n < 16" for n using that by (simp add: isAlpha_def isDigit_def hexUpper_def digitChar_def)
  have byte: "c = CHR ''%'' \<or> isDigit c \<or> isAlpha c" if "c \<in> set (percentByte b)" "b < 256" for b
  proof -
    have "b div 16 < 16" using that(2) by linarith
    then show ?thesis using that(1) h [of "b div 16"] h [of "b mod 16"] by (auto simp: percentByte_def)
  qed
  assume "c \<in> set (percentEncode keep s)"
  then obtain d where "c \<in> set (if keep d then [d] else concat (map percentByte (utf8Bytes d)))" by (fastforce simp: percentEncode_def split: if_splits)
  then show ?thesis using byte utf8Bytes_small [of _ d] by (auto split: if_splits)
qed

lemma component_chars [simp]: "CHR ''/'' \<notin> set (encodeURIComponent s)" "CHR ''?'' \<notin> set (encodeURIComponent s)"
  using percentEncode_chars [of "CHR ''/''" isUriUnreserved s] percentEncode_chars [of "CHR ''?''" isUriUnreserved s]
  by (auto simp: encodeURIComponent_percent isUriUnreserved_def isAlpha_def isDigit_def)

lemma decode_form [simp]: "formDecode (formEncode s) = s"
proof -
  have plus: "CHR ''+'' \<notin> set (percentEncode isFormSafe s)"
    using percentEncode_chars [of "CHR ''+''" isFormSafe s] by (auto simp: isFormSafe_def isAlpha_def isDigit_def)
  have "map (\<lambda>c. if c = CHR ''+'' then CHR '' '' else c) (formEncode s) = percentEncode isFormSafe s"
    using plus by (auto simp: formEncode_def map_idI intro!: map_idI)
  then show ?thesis by (simp add: formDecode_def percentDecode_encode isFormSafe_def isAlpha_def isDigit_def)
qed

lemma form_chars [simp]: "CHR ''&'' \<notin> set (formEncode s)" "CHR ''='' \<notin> set (formEncode s)"
  using percentEncode_chars [of "CHR ''&''" isFormSafe s]
    percentEncode_chars [of "CHR ''=''" isFormSafe s]
  by (auto simp: formEncode_def isFormSafe_def isAlpha_def isDigit_def split: if_splits)

section \<open>A router\<close>

definition exQuery :: "string \<Rightarrow> (string, string) jsmap" where
  "exQuery q = map (\<lambda>p. case splitOn (CHR ''='') p of [k, v] \<Rightarrow> (formDecode k, formDecode v) | _ \<Rightarrow> ([], [])) (splitOn (CHR ''&'') q)"

definition exRouter :: "wireEnv \<Rightarrow> api_router" where
  "exRouter wx meth p body = (let path = takeWhile (\<lambda>c. c \<noteq> CHR ''?'') p; query = drop 1 (dropWhile (\<lambda>c. c \<noteq> CHR ''?'') p) in
     case splitOn (CHR ''/'') path of
       [_, _, r] \<Rightarrow> (case body of
           None \<Rightarrow> if r = ''agents'' then Some (GetAgents (Some (percentDecode (drop 5 query)))) else None
         | Some j \<Rightarrow> if r = ''agents'' then Some (PostAgents (CreateAgentBodySchema wx j)) else Some (PostSessions (CreateSessionBodySchema j)))
     | [_, _, r, x] \<Rightarrow> (let i = percentDecode x in
         Some (if r = ''agents'' then GetAgentById i else if r = ''sessions'' then GetSessionById i else GetRunById i))
     | [_, _, r, x, a] \<Rightarrow> (let i = percentDecode x in
         if a = ''cancel'' then Some (PostCancel i)
         else if a = ''runs'' then map_option (\<lambda>j. PostRun i (CreateRunBodySchema j)) body
         else Some (GetMessages i (Some (orElse (Option.bind (js_get (exQuery query) ''limit'') parseInt) 50, js_get (exQuery query) ''cursor''))))
     | _ \<Rightarrow> None)"

lemma splitOn_lead: "c \<notin> set a \<Longrightarrow> splitOn c (a @ c # b) = a # splitOn c b"
  by (simp add: splitOn_append_sep splitOn_no_sep)

lemma no_query: "c \<notin> set p \<Longrightarrow> takeWhile (\<lambda>x. x \<noteq> c) p = p \<and> dropWhile (\<lambda>x. x \<noteq> c) p = []"
  by (induction p) auto

lemma with_query: "c \<notin> set p \<Longrightarrow> takeWhile (\<lambda>x. x \<noteq> c) (p @ c # q) = p \<and> dropWhile (\<lambda>x. x \<noteq> c) (p @ c # q) = c # q"
  by (induction p) auto

text \<open>The pieces of a path with one encoded segment.\<close>

lemma split_segment:
  assumes "CHR ''/'' \<notin> set r"
  shows "splitOn (CHR ''/'') (''/v1/'' @ r @ CHR ''/'' # encodeURIComponent i) = [[], ''v1'', r, encodeURIComponent i]"
    and "CHR ''/'' \<notin> set a \<Longrightarrow> splitOn (CHR ''/'') (''/v1/'' @ r @ CHR ''/'' # encodeURIComponent i @ CHR ''/'' # a) = [[], ''v1'', r, encodeURIComponent i, a]"
proof -
  have v: "splitOn (CHR ''/'') (''/v1/'' @ x) = [] # ''v1'' # splitOn (CHR ''/'') x" for x by simp
  show "splitOn (CHR ''/'') (''/v1/'' @ r @ CHR ''/'' # encodeURIComponent i) = [[], ''v1'', r, encodeURIComponent i]"
    unfolding v splitOn_lead [OF assms] by (simp add: splitOn_no_sep)
  show "splitOn (CHR ''/'') (''/v1/'' @ r @ CHR ''/'' # encodeURIComponent i @ CHR ''/'' # a) = [[], ''v1'', r, encodeURIComponent i, a]"
    if "CHR ''/'' \<notin> set a" unfolding v splitOn_lead [OF assms] splitOn_lead [OF component_chars(1)] using that by (simp add: splitOn_no_sep)
qed

lemma parseInt_intToString: "parseInt (intToString n) = Some n"
proof -
  have digits: "takeWhile isDigit (natToString k) = natToString k" for k
    by (rule takeWhile_eq_all_conv [THEN iffD2]) (use natToString_digits in blast)
  have start: "\<exists>c cs. natToString k = c # cs \<and> isDigit c" for k
    using natToString_digits [of _ k] by (cases "natToString k") auto
  have sp: "\<not> isSpace c \<and> c \<noteq> CHR ''-'' \<and> c \<noteq> CHR ''+''" if "isDigit c" for c
    using that by (auto simp: isDigit_def isSpace_def Let_def)
  show ?thesis
  proof (cases "n < 0")
    case True
    then show ?thesis using digits [of "nat (- n)"]
      by (simp add: intToString_def parseInt_def isSpace_def Let_def del: takeWhile_eq_all_conv)
  next
    case False
    obtain c cs where c: "natToString (nat n) = c # cs" "isDigit c" using start by blast
    have "dropWhile isSpace (c # cs) = c # cs" using sp [OF c(2)] by simp
    then show ?thesis using False digits [of "nat n"] sp [OF c(2)] digitsVal_natToString [of "nat n"]
      by (simp add: intToString_def parseInt_def c(1) Let_def)
  qed
qed

lemma exRouter_segment:
  assumes "CHR ''/'' \<notin> set r" "CHR ''?'' \<notin> set r" "CHR ''/'' \<notin> set a" "CHR ''?'' \<notin> set a"
  shows "exRouter wx meth (''/v1/'' @ r @ CHR ''/'' # encodeURIComponent i) body =
      Some (if r = ''agents'' then GetAgentById i else if r = ''sessions'' then GetSessionById i else GetRunById i)"
    and "exRouter wx meth (''/v1/'' @ r @ CHR ''/'' # encodeURIComponent i @ CHR ''/'' # a) body =
      (if a = ''cancel'' then Some (PostCancel i)
       else if a = ''runs'' then map_option (\<lambda>j. PostRun i (CreateRunBodySchema j)) body
       else Some (GetMessages i (Some (50, None))))"
    and "a \<noteq> ''cancel'' \<Longrightarrow> a \<noteq> ''runs'' \<Longrightarrow> exRouter wx meth (''/v1/'' @ r @ CHR ''/'' # encodeURIComponent i @ CHR ''/'' # a @ CHR ''?'' # q) body =
      Some (GetMessages i (Some (orElse (Option.bind (js_get (exQuery q) ''limit'') parseInt) 50, js_get (exQuery q) ''cursor'')))"
proof -
  have e: "exQuery [] = [([], [])]" by (simp add: exQuery_def)
  have q1: "CHR ''?'' \<notin> set (''/v1/'' @ r @ CHR ''/'' # encodeURIComponent i)" using assms by simp
  have q2: "CHR ''?'' \<notin> set (''/v1/'' @ r @ CHR ''/'' # encodeURIComponent i @ CHR ''/'' # a)" using assms by simp
  show "exRouter wx meth (''/v1/'' @ r @ CHR ''/'' # encodeURIComponent i) body =
      Some (if r = ''agents'' then GetAgentById i else if r = ''sessions'' then GetSessionById i else GetRunById i)"
    unfolding exRouter_def no_query [OF q1, THEN conjunct1] no_query [OF q1, THEN conjunct2] split_segment(1) [OF assms(1)] Let_def by simp
  show "exRouter wx meth (''/v1/'' @ r @ CHR ''/'' # encodeURIComponent i @ CHR ''/'' # a) body =
      (if a = ''cancel'' then Some (PostCancel i)
       else if a = ''runs'' then map_option (\<lambda>j. PostRun i (CreateRunBodySchema j)) body
       else Some (GetMessages i (Some (50, None))))"
    unfolding exRouter_def no_query [OF q2, THEN conjunct1] no_query [OF q2, THEN conjunct2] split_segment(2) [OF assms(1,3)] Let_def
    by (simp add: e orElse_def)
  show "exRouter wx meth (''/v1/'' @ r @ CHR ''/'' # encodeURIComponent i @ CHR ''/'' # a @ CHR ''?'' # q) body =
      Some (GetMessages i (Some (orElse (Option.bind (js_get (exQuery q) ''limit'') parseInt) 50, js_get (exQuery q) ''cursor'')))"
    if "a \<noteq> ''cancel''" "a \<noteq> ''runs''"
  proof -
    have p: "''/v1/'' @ r @ CHR ''/'' # encodeURIComponent i @ CHR ''/'' # a @ CHR ''?'' # q =
        (''/v1/'' @ r @ CHR ''/'' # encodeURIComponent i @ CHR ''/'' # a) @ CHR ''?'' # q" by simp
    show ?thesis
      unfolding p exRouter_def with_query [OF q2, THEN conjunct1] with_query [OF q2, THEN conjunct2] split_segment(2) [OF assms(1,3)] Let_def
      using that by simp
  qed
qed

lemma exQuery_params:
  assumes "ps \<noteq> []"
  shows "exQuery (searchParams ps) = ps"
proof -
  have field: "(case splitOn (CHR ''='') (formEncode k @ CHR ''='' # formEncode v) of [a, b] \<Rightarrow> (formDecode a, formDecode b) | _ \<Rightarrow> ([], [])) = (k, v)" for k v
    by (simp add: splitOn_lead splitOn_no_sep)
  have "splitOn (CHR ''&'') (searchParams ps) = map (\<lambda>(k, v). formEncode k @ ''='' @ formEncode v) ps"
    using assms
  proof (induction ps rule: induct_list012)
    case (2 p)
    then show ?case by (cases p) (simp add: searchParams_def splitOn_no_sep)
  next
    case (3 p p' ps)
    obtain k v where p: "p = (k, v)" by fastforce
    have "searchParams (p # p' # ps) = (formEncode k @ ''='' @ formEncode v) @ CHR ''&'' # searchParams (p' # ps)"
      by (simp add: searchParams_def p)
    moreover have "CHR ''&'' \<notin> set (formEncode k @ ''='' @ formEncode v)" by simp
    ultimately have "splitOn (CHR ''&'') (searchParams (p # p' # ps)) = (formEncode k @ ''='' @ formEncode v) # splitOn (CHR ''&'') (searchParams (p' # ps))"
      by (metis splitOn_lead)
    then show ?case using 3 by (simp only: p list.map prod.case) simp
  qed simp
  then show ?thesis by (auto simp: exQuery_def field intro!: map_idI)
qed

lemma formEncode_ne: "formEncode k @ CHR ''='' # v \<noteq> []"
  by simp

lemma messagesPath_cases:
  "messagesPath i lmt cursor = (let ps = (case lmt of None \<Rightarrow> [] | Some n \<Rightarrow> [(''limit'', intToString n)])
       @ (case cursor of None \<Rightarrow> [] | Some c \<Rightarrow> if c = [] then [] else [(''cursor'', c)])
     in ''/v1/'' @ ''sessions'' @ CHR ''/'' # encodeURIComponent i @ CHR ''/'' # ''messages'' @ (if ps = [] then [] else CHR ''?'' # searchParams ps))"
  by (auto simp: messagesPath_def messagesQuery_def searchParams_def Let_def split: option.splits)

lemma exRouter_messages:
  "exRouter wx ''GET'' (messagesPath i lmt cursor) None = Some (GetMessages i (Some (orElse lmt 50, if cursor = Some [] then None else cursor)))"
proof -
  define ps where "ps = (case lmt of None \<Rightarrow> [] | Some n \<Rightarrow> [(''limit'', intToString n)])
       @ (case cursor of None \<Rightarrow> [] | Some c \<Rightarrow> if c = [] then [] else [(''cursor'', c)])"
  have fields: "Option.bind (js_get ps ''limit'') parseInt = lmt" "js_get ps ''cursor'' = (if cursor = Some [] then None else cursor)"
    by (auto simp: ps_def parseInt_intToString split: option.splits)
  show ?thesis
  proof (cases "ps = []")
    case True
    then have "lmt = None" "cursor = None \<or> cursor = Some []" by (auto simp: ps_def split: option.splits if_splits)
    moreover have "messagesPath i lmt cursor = ''/v1/'' @ ''sessions'' @ CHR ''/'' # encodeURIComponent i @ CHR ''/'' # ''messages''"
      using True by (simp add: messagesPath_cases ps_def [symmetric])
    ultimately show ?thesis using exRouter_segment(2) [of "''sessions''" "''messages''" wx "''GET''" i None]
      by (auto simp: orElse_def)
  next
    case False
    have "messagesPath i lmt cursor = ''/v1/'' @ ''sessions'' @ CHR ''/'' # encodeURIComponent i @ CHR ''/'' # ''messages'' @ CHR ''?'' # searchParams ps"
      using False by (simp add: messagesPath_cases ps_def [symmetric])
    then show ?thesis using exRouter_segment(3) [of "''sessions''" "''messages''" wx "''GET''" i "searchParams ps" None]
      by (simp add: exQuery_params [OF False] fields)
  qed
qed

lemma exRouter_collection:
  "exRouter wx ''POST'' ''/v1/agents'' (Some j) = Some (PostAgents (CreateAgentBodySchema wx j))"
  "exRouter wx ''POST'' ''/v1/sessions'' (Some j) = Some (PostSessions (CreateSessionBodySchema j))"
  "exRouter wx ''GET'' (''/v1/agents?name='' @ encodeURIComponent n) None = Some (GetAgents (Some n))"
  by (simp_all add: exRouter_def)

lemma exRouter_routes: "routes wx (exRouter wx)"
  using exRouter_segment(1) [of "''agents''" "''cancel''" wx "''GET''" _ None] exRouter_segment(1) [of "''sessions''" "''cancel''" wx "''GET''" _ None]
    exRouter_segment(1) [of "''runs''" "''cancel''" wx "''GET''" _ None] exRouter_segment(2) [of "''runs''" "''cancel''" wx "''POST''" _ None]
    exRouter_segment(2) [of "''sessions''" "''runs''" wx "''POST''"] exRouter_collection(3) [of wx]
  by (simp add: routes_def exRouter_messages exRouter_collection)

section \<open>A call on the concrete server\<close>

definition wireDemo :: wireEnv where
  "wireDemo = \<lparr>wx_iso = natToString, wx_date = (\<lambda>j. case j of JStr s \<Rightarrow> Some (digitsVal s) | _ \<Rightarrow> None), wx_isUrl = (\<lambda>_. True), wx_now = 0\<rparr>"

lemma apiDemo_run:
  "handleApi apiDemoEnv (Some (''Bearer '' @ ''k1'')) (directRequest (CreateRun ''s1'' ''hi'')) apiDemo
    = (Val (202, AcceptedReply ''run_9'' ''running''), apiDemo\<lparr>ap_tick := 4, ap_starts := [(''s1'', ''hi'')]\<rparr>)"
  by (simp add: directRequest_def handleApi_def authHook_def skipsAuth_path startsWith_def apiKeys_getByKeyHash_def readCall_def call_def apiRoute_def
      postRun_def createRun_def startRunCall_def modify_def getSession_def agentById_def dbCall_def sessions_getById_def agents_getById_def
      selectOne_def firstRow_def tryCatch_def mthen_def mbind_def ret_def Let_def demo_defs)

theorem sdk_is_direct_call_witness:
  "\<exists>res. sdkCallRun (sdkOver '' - '' apiDemoEnv wireDemo ''http://h'' (exRouter wireDemo)) \<lparr>cc_baseUrl = ''http://h'', cc_apiKey = ''k1''\<rparr>
       (CreateRun ''s1'' ''hi'') apiDemo = (res, apiDemo\<lparr>ap_tick := 4, ap_starts := [(''s1'', ''hi'')]\<rparr>)
     \<and> res = Inr (GotAccepted ''run_9'' ''running'')"
proof -
  have "callFits wireDemo (CreateRun ''s1'' ''hi'')"
    by (simp add: callFits_def routable_def encodeURIComponent_percent percentEncode_def isUriUnreserved_def isAlpha_def isDigit_def)
  then show ?thesis
    using sdk_is_direct_call [where cl = "\<lparr>cc_baseUrl = ''http://h'', cc_apiKey = ''k1''\<rparr>" and dash = "'' - ''", OF exRouter_routes _ , simplified ControlPlaneClient.simps, OF _ apiDemo_run]
    by (simp add: replyFits_def told_def)
qed

end
