(* ===== verification/Sdk_App.thy ===== *)
theory Sdk_App
  imports Sdk_Client Tool_Runner
begin

text \<open>\<open>sdk/src/tool.ts\<close>, \<open>agent.ts\<close> and \<open>app.ts\<close>: tool and agent definitions, and the app that registers agents with
  the control plane and starts the tool runner for their tools.  Its \<open>sessions\<close> and \<open>runs\<close> are the endpoints of
  \<open>Sdk_Client\<close>.

  Parameters: \<open>process.env\<close>, the port the operating system probes and whether a port can be bound, jose's key import
  (a key is its \<open>jwtVerify\<close>), \<open>zodToJsonSchema\<close>, and the issues zod reports for a configuration.\<close>

record appEnv =
  ae_env :: "string \<Rightarrow> string option"
  ae_freePort :: "js_error + nat"
  ae_bind :: "int option \<Rightarrow> js_error option"
  ae_importJWK :: "json \<Rightarrow> js_error + jwt_verify"
  ae_importSPKI :: "string \<Rightarrow> js_error + jwt_verify"
  ae_jsonSchema :: "(json option \<Rightarrow> json + json option) \<Rightarrow> json"
  ae_firstIssue :: "json \<Rightarrow> (string list \<times> string) option"
  ae_zodMessage :: "json \<Rightarrow> string"
  ae_dash :: string

section \<open>Tools\<close>

record SdkTool =
  sl_name :: string
  sl_description :: string
  sl_runner :: RunnerTool

text \<open>The argument of \<open>tool()\<close>: any JavaScript object; a field is \<^const>\<open>None\<close> if it is not what the check asks for.\<close>

record RawTool =
  rw_name :: "json option"
  rw_description :: "json option"
  rw_inputSchema :: "(json option \<Rightarrow> json + json option) option"
  rw_execute :: "(json option \<Rightarrow> ToolContext \<Rightarrow> nat \<Rightarrow> nat option \<times> (string option + json option)) option"

definition invalidToolConfig :: "string \<Rightarrow> js_error" where
  "invalidToolConfig message = SwiftErr VALIDATION message"

definition tool :: "RawTool \<Rightarrow> js_error + SdkTool" where
  "tool config = (case rw_name config of
      Some (JStr n) \<Rightarrow> if n = [] then Inl (invalidToolConfig ''Tool \"name\" is required and must be a non-empty string.'')
        else (case rw_description config of
          Some (JStr d) \<Rightarrow> if d = [] then Inl (invalidToolConfig ''Tool \"description\" is required and must be a non-empty string.'')
            else (case (rw_inputSchema config, rw_execute config) of
                (None, _) \<Rightarrow> Inl (invalidToolConfig (''Tool \"'' @ n @ ''\" inputSchema must be a Zod schema.''))
              | (Some sch, None) \<Rightarrow> Inl (invalidToolConfig (''Tool \"'' @ n @ ''\" execute must be a function.''))
              | (Some sch, Some ex) \<Rightarrow> Inr \<lparr>sl_name = n, sl_description = d, sl_runner = \<lparr>rt_inputSchema = sch, rt_execute = ex\<rparr>\<rparr>)
        | _ \<Rightarrow> Inl (invalidToolConfig ''Tool \"description\" is required and must be a non-empty string.''))
    | _ \<Rightarrow> Inl (invalidToolConfig ''Tool \"name\" is required and must be a non-empty string.''))"

definition toolToJsonSchema :: "appEnv \<Rightarrow> SdkTool \<Rightarrow> ToolDefinition" where
  "toolToJsonSchema env t = \<lparr>td_name = sl_name t, td_description = sl_description t,
     td_inputSchema = ae_jsonSchema env (rt_inputSchema (sl_runner t))\<rparr>"

section \<open>Agents\<close>

text \<open>The configuration: its plain fields and its tools.\<close>

record SdkAgentConfig =
  sg_fields :: json
  sg_tools :: "SdkTool list option"

definition SdkAgentConfigSchema :: "json \<Rightarrow> bool" where
  "SdkAgentConfigSchema = strictObj
     [(''name'', True, zMin1), (''model'', True, zMin1), (''system'', False, zString), (''temperature'', False, zBetween 0 2),
      (''maxTokens'', False, zIntMin 1), (''memory'', False, MemoryConfigSchema)]"

record AgentDefinition =
  df_name :: string
  df_modelConfig :: ModelConfig
  df_systemPrompt :: string
  df_memoryConfig :: "MemoryConfig option"
  df_toolSchemas :: "ToolDefinition list"
  df_tools :: "SdkTool list"

definition invalidAgentConfig :: "appEnv \<Rightarrow> json \<Rightarrow> js_error" where
  "invalidAgentConfig env j = (let detail = (case ae_firstIssue env j of
       Some (path, m) \<Rightarrow> (if path = [] then ''(root)'' else joinWith ''.'' path) @ ae_dash env @ m | None \<Rightarrow> ae_zodMessage env j)
     in SwiftErr VALIDATION (''Invalid agent config: '' @ detail @ ''. Check the value passed to defineAgent().''))"

text \<open>The loop that fills \<open>seen\<close>: the first name that occurs twice.\<close>

fun firstDuplicate :: "string list \<Rightarrow> string list \<Rightarrow> string option" where
  "firstDuplicate seen [] = None"
| "firstDuplicate seen (n # ns) = (if n \<in> set seen then Some n else firstDuplicate (seen @ [n]) ns)"

definition defineAgent :: "appEnv \<Rightarrow> SdkAgentConfig \<Rightarrow> js_error + AgentDefinition" where
  "defineAgent env config = (let j = sg_fields config in
     if \<not> SdkAgentConfigSchema j then Inl (invalidAgentConfig env j)
     else let tools = orElse (sg_tools config) []; name = strOf (getProp ''name'' j) in
       case firstDuplicate [] (map sl_name tools) of
         Some n \<Rightarrow> Inl (SwiftErr VALIDATION (''Duplicate tool name \"'' @ n @ ''\" in agent \"'' @ name @ ''\"'' @ ae_dash env
           @ ''each tool name must be unique within an agent; rename one of the conflicting tools.''))
       | None \<Rightarrow> Inr \<lparr>df_name = name, df_modelConfig = modelConfigOf j, df_systemPrompt = strOf (getProp ''system'' j),
           df_memoryConfig = map_option memoryConfigOf (getProp ''memory'' j), df_toolSchemas = map (toolToJsonSchema env) tools, df_tools = tools\<rparr>)"

section \<open>The app\<close>

record CreateAgentAppConfig =
  af_apiKey :: string
  af_baseUrl :: "string option"
  af_runnerPublicKey :: "string option"
  af_runnerAudience :: "string option"
  af_runnerWorkspaceId :: "string option"

text \<open>The running tool runner.  Its registry is the app's own map, which later definitions extend.\<close>

record RunnerServer =
  rs_port :: "int option"
  rs_verify :: jwt_verify
  rs_auth :: RunnerAuthConfig

record AgentApp =
  aa_config :: CreateAgentAppConfig
  aa_client :: ControlPlaneClient
  aa_agents :: "AgentDefinition list"
  aa_toolsByName :: "(string, SdkTool) jsmap"
  aa_server :: "RunnerServer option"


text \<open>The loop over the tools of a definition stops at a name that is taken; the tools before it stay.\<close>

fun addTools :: "string \<Rightarrow> SdkTool list \<Rightarrow> (string, SdkTool) jsmap \<Rightarrow> js_error option \<times> (string, SdkTool) jsmap" where
  "addTools dash [] m = (None, m)"
| "addTools dash (t # ts) m = (if js_has m (sl_name t)
     then (Some (SwiftErr VALIDATION (''Duplicate tool name \"'' @ sl_name t @ ''\"'' @ dash
       @ ''each tool name must be unique across all agents registered on this app; rename one of the conflicting tools.'')), m)
     else addTools dash ts (js_set (sl_name t) t m))"

definition appAgent :: "appEnv \<Rightarrow> AgentDefinition \<Rightarrow> AgentApp \<Rightarrow> (js_error + unit) \<times> AgentApp" where
  "appAgent env d a = (case addTools (ae_dash env) (df_tools d) (aa_toolsByName a) of
      (Some e, m) \<Rightarrow> (Inl e, a\<lparr>aa_toolsByName := m\<rparr>)
    | (None, m) \<Rightarrow> (Inr (), a\<lparr>aa_toolsByName := m, aa_agents := aa_agents a @ [d]\<rparr>))"












definition appClose :: "AgentApp \<Rightarrow> AgentApp" where
  "appClose a = a\<lparr>aa_server := None\<rparr>"


section \<open>Every tool of a registered agent is served\<close>







lemma appAgent_config [simp]: "aa_config (snd (appAgent env d a)) = aa_config a"
  by (auto simp: appAgent_def split: prod.splits option.splits)




section \<open>The runner accepts the tokens of the runtime\<close>










section \<open>An app and a call\<close>
















section \<open>A rejected definition\<close>

text \<open>A definition whose second tool is taken is refused, but its first tool stays registered: the corrected definition
  with this tool alone is refused too.\<close>

lemma rejected_tools_stay:
  assumes "js_get (aa_toolsByName a) (sl_name y) \<noteq> None" and "js_get (aa_toolsByName a) (sl_name x) = None"
    and "df_tools d = [x, y]" and "df_tools d' = [x]" and "appAgent env d a = (r, a1)"
  shows "(\<exists>e. r = Inl e) \<and> aa_agents a1 = aa_agents a \<and> (\<exists>e. fst (appAgent env d' a1) = Inl e)"
proof -
  define m where "m = js_set (sl_name x) x (aa_toolsByName a)"
  have m: "js_has m (sl_name y)" "js_has m (sl_name x)" using assms(1) by (auto simp: m_def update_conv')
  obtain e where "addTools (ae_dash env) [x, y] (aa_toolsByName a) = (Some e, m)"
    using m(1) assms(2) by (simp add: m_def [symmetric])
  then have "r = Inl e" "a1 = a\<lparr>aa_toolsByName := m\<rparr>" using assms(3,5) by (simp_all add: appAgent_def)
  then show ?thesis using m(2) assms(4) by (auto simp: appAgent_def)
qed

end
