(* ===== verification/Provider_Requests.thy ===== *)
theory Provider_Requests
  imports Models
begin

text \<open>The providers of the package \<open>models\<close> from the request to the chunks: the request body each
  vendor SDK is called with (system prompt, history, tools, sampling parameters), the merged signal
  it is given, and the errors before and during the stream; the deterministic providers with their
  abort checks.  A vendor SDK is a parameter: a function from the request body and the signal to the
  stream of events and the error that ends it, or to the error of the call itself.

  The order of an object's properties is that of insertion; temperatures are rationals, whose JSON
  form \<open>num\<close> is a parameter.\<close>

section \<open>Text\<close>

text \<open>\<open>String(v)\<close>, and an element of \<open>Array.join\<close>.\<close>

fun toStr :: "json \<Rightarrow> string" where
  "toStr JNull = ''null''"
| "toStr (JBool b) = (if b then ''true'' else ''false'')"
| "toStr (JNum i) = intToString i"
| "toStr (JStr s) = s"
| "toStr (JArr vs) = joinWith '','' (map (\<lambda>v. if v = JNull then [] else toStr v) vs)"
| "toStr (JObj ps) = ''[object Object]''"

definition joinText :: "json \<Rightarrow> string" where
  "joinText v = (if v = JNull then [] else toStr v)"

abbreviation NL :: string where "NL \<equiv> [CHR 0x0A]"

text \<open>The own enumerable properties that \<open>...v\<close> spreads, and their assignment over others.\<close>

fun spread :: "json \<Rightarrow> (string \<times> json) list" where
  "spread (JObj ps) = ps"
| "spread (JArr vs) = zip (map natToString [0..<length vs]) vs"
| "spread (JStr s) = zip (map natToString [0..<length s]) (map (\<lambda>c. JStr [c]) s)"
| "spread _ = []"

definition assign :: "(string \<times> json) list \<Rightarrow> (string \<times> json) list \<Rightarrow> (string \<times> json) list" where
  "assign ps qs = fold (\<lambda>(k, v) m. js_set k v m) qs ps"

text \<open>\<open>request.tools && request.tools.length > 0\<close>\<close>

definition requestTools :: "ModelRequest \<Rightarrow> ToolSchema list option" where
  "requestTools r = (case mr_tools r of None \<Rightarrow> None | Some ts \<Rightarrow> if ts = [] then None else Some ts)"

section \<open>Anthropic\<close>

definition DEFAULT_MAX_TOKENS :: nat where "DEFAULT_MAX_TOKENS = 4096"

definition extractSystemPrompt :: "ModelMessage list \<Rightarrow> string option" where
  "extractSystemPrompt ms = (let parts = map mm_content (filter (\<lambda>m. mm_role m = System) ms)
     in if parts = [] then None else Some (joinWith (NL @ NL) (map joinText parts)))"

definition mapAnthropicTool :: "ToolSchema \<Rightarrow> json" where
  "mapAnthropicTool t = JObj [(''name'', JStr (ts_name t)), (''description'', JStr (ts_description t)),
     (''input_schema'', JObj (assign [(''type'', JStr ''object'')] (spread (ts_parameters t))))]"

definition anthropicRequest :: "(rat \<Rightarrow> json) \<Rightarrow> ModelRequest \<Rightarrow> json" where
  "anthropicRequest num r = objOf
     [(''model'', Some (JStr (mr_model r))),
      (''messages'', Some (JArr (map mapAnthropicMessage (filter (\<lambda>m. mm_role m \<noteq> System) (mr_messages r))))),
      (''max_tokens'', Some (JNum (int (case mr_maxTokens r of Some n \<Rightarrow> n | None \<Rightarrow> DEFAULT_MAX_TOKENS)))),
      (''system'', map_option JStr (extractSystemPrompt (mr_messages r))),
      (''tools'', map_option (\<lambda>ts. JArr (map mapAnthropicTool ts)) (requestTools r)),
      (''temperature'', map_option num (mr_temperature r)),
      (''stream'', Some (JBool True))]"

type_synonym 'e sdk = "json \<Rightarrow> abort_signal \<Rightarrow> thrown + 'e list \<times> thrown option"

definition anthropicProvider :: "(rat \<Rightarrow> json) \<Rightarrow> AnthropicEvent sdk \<Rightarrow> ProviderConfig \<Rightarrow> nat \<Rightarrow> js_error
    \<Rightarrow> abort_signal option \<Rightarrow> ModelRequest \<Rightarrow> ModelStreamChunk list \<times> ModelError option" where
  "anthropicProvider num create config now timeoutErr sig r =
     (case create (anthropicRequest num r) (mergeSignals sig (pc_timeout config) now timeoutErr) of
        Inl e \<Rightarrow> ([], Some (wrapAnthropicError e))
      | Inr (es, end) \<Rightarrow> anthropicGenerate es end)"

section \<open>OpenAI\<close>

definition toOpenAITools :: "ToolSchema list \<Rightarrow> json" where
  "toOpenAITools ts = JArr (map (\<lambda>t. JObj [(''type'', JStr ''function''),
     (''function'', JObj [(''name'', JStr (ts_name t)), (''description'', JStr (ts_description t)),
        (''parameters'', ts_parameters t)])]) ts)"

definition openaiRequest :: "(rat \<Rightarrow> json) \<Rightarrow> string \<Rightarrow> ModelRequest \<Rightarrow> json" where
  "openaiRequest num mdl r = objOf
     [(''model'', Some (JStr mdl)),
      (''messages'', Some (JArr (map toOpenAIMessage (mr_messages r)))),
      (''tools'', map_option toOpenAITools (requestTools r)),
      (''stream'', Some (JBool True)),
      (''stream_options'', Some (JObj [(''include_usage'', JBool True)])),
      (''temperature'', map_option num (mr_temperature r)),
      (''max_tokens'', map_option (\<lambda>n. JNum (int n)) (mr_maxTokens r))]"

text \<open>\<open>request.model || defaultModel\<close>\<close>

definition chosenModel :: "ProviderConfig \<Rightarrow> ModelRequest \<Rightarrow> string option" where
  "chosenModel config r = (if mr_model r \<noteq> [] then Some (mr_model r) else nonEmpty (pc_defaultModel config))"

definition noModelError :: "string \<Rightarrow> ModelError" where
  "noModelError p = normalizeError (ThrownOther None None ''No model specified and no defaultModel configured'') p"

definition openaiProvider :: "(rat \<Rightarrow> json) \<Rightarrow> OpenAIEvent sdk \<Rightarrow> ProviderConfig \<Rightarrow> nat \<Rightarrow> js_error
    \<Rightarrow> abort_signal option \<Rightarrow> ModelRequest \<Rightarrow> ModelStreamChunk list \<times> ModelError option" where
  "openaiProvider num create config now timeoutErr sig r =
     (case chosenModel config r of
        None \<Rightarrow> ([], Some (noModelError ''openai''))
      | Some mdl \<Rightarrow> (case create (openaiRequest num mdl r) (mergeSignals sig (pc_timeout config) now timeoutErr) of
            Inl e \<Rightarrow> ([], Some (normalizeError e ''openai''))
          | Inr (es, end) \<Rightarrow> openaiGenerate es end))"

section \<open>Google\<close>

text \<open>The first system message is taken as it is, a later one appended to a non-empty instruction.\<close>

definition systemInstruction :: "ModelMessage list \<Rightarrow> json option" where
  "systemInstruction ms = fold (\<lambda>m acc. if mm_role m \<noteq> System then acc
     else (case acc of Some v \<Rightarrow> if truthy v then Some (JStr (toStr v @ NL @ toStr (mm_content m))) else Some (mm_content m)
           | None \<Rightarrow> Some (mm_content m))) ms None"

definition toGoogleMessages :: "ModelMessage list \<Rightarrow> json option \<times> json list" where
  "toGoogleMessages ms = (systemInstruction ms, concat (map toGoogleContent ms))"

definition toGoogleTools :: "ToolSchema list \<Rightarrow> json" where
  "toGoogleTools ts = JArr (map (\<lambda>t. JObj [(''name'', JStr (ts_name t)),
     (''description'', JStr (ts_description t)), (''parameters'', ts_parameters t)]) ts)"

definition googleModelParams :: "(rat \<Rightarrow> json) \<Rightarrow> string \<Rightarrow> ModelRequest \<Rightarrow> json" where
  "googleModelParams num mdl r = objOf
     [(''model'', Some (JStr mdl)),
      (''systemInstruction'', (case fst (toGoogleMessages (mr_messages r)) of
          Some v \<Rightarrow> if truthy v then Some v else None | None \<Rightarrow> None)),
      (''generationConfig'', map_option (\<lambda>t. JObj [(''temperature'', num t)]) (mr_temperature r))]"

definition googleStreamParams :: "ModelRequest \<Rightarrow> json" where
  "googleStreamParams r = objOf
     [(''contents'', Some (JArr (snd (toGoogleMessages (mr_messages r))))),
      (''tools'', map_option (\<lambda>ts. JArr [JObj [(''functionDeclarations'', toGoogleTools ts)]]) (requestTools r)),
      (''generationConfig'', map_option (\<lambda>n. JObj [(''maxOutputTokens'', JNum (int n))]) (mr_maxTokens r))]"

text \<open>The SDK gets no signal: the merged one is only looked at when an event arrives, the \<open>k\<close>-th at
  time \<open>arrival k\<close>.\<close>

definition googleProvider :: "(rat \<Rightarrow> json) \<Rightarrow> (json \<Rightarrow> json \<Rightarrow> thrown + GoogleEvent list \<times> thrown option)
    \<Rightarrow> (nat \<Rightarrow> string) \<Rightarrow> (nat \<Rightarrow> nat) \<Rightarrow> ProviderConfig \<Rightarrow> nat \<Rightarrow> js_error
    \<Rightarrow> abort_signal option \<Rightarrow> ModelRequest \<Rightarrow> ModelStreamChunk list \<times> ModelError option" where
  "googleProvider num stream ids arrival config now timeoutErr sig r =
     (let signal = mergeSignals sig (pc_timeout config) now timeoutErr in
      case chosenModel config r of
        None \<Rightarrow> ([], Some (noModelError ''google''))
      | Some mdl \<Rightarrow> (case stream (googleModelParams num mdl r) (googleStreamParams r) of
            Inl e \<Rightarrow> ([], Some (normalizeError e ''google''))
          | Inr (es, end) \<Rightarrow> googleGenerate ids
              (\<lambda>k. aborted signal (arrival k)) es end))"

section \<open>The deterministic providers with their abort checks\<close>

text \<open>\<open>ab k\<close> tells whether the request's signal is aborted at the \<open>k\<close>-th check.\<close>

fun emitUntil :: "(nat \<Rightarrow> bool) \<Rightarrow> ModelError \<Rightarrow> nat \<Rightarrow> ModelStreamChunk list \<Rightarrow> ModelStreamChunk list
    \<Rightarrow> ModelStreamChunk list \<times> ModelError option" where
  "emitUntil ab e k [] rest = (rest, None)"
| "emitUntil ab e k (c # cs) rest = (if ab k then ([], Some e)
     else (case emitUntil ab e (Suc k) cs rest of (ds, r) \<Rightarrow> (c # ds, r)))"

definition echoProvider :: "(nat \<Rightarrow> bool) \<Rightarrow> string \<Rightarrow> ModelStreamChunk list \<times> ModelError option" where
  "echoProvider ab s = (if ab 0 then ([], Some (modelError ''Echo generation aborted before start'' ''echo''))
     else let ts = tokenize s in
       emitUntil ab (modelError ''Echo generation aborted'' ''echo'') 1 (map TokenChunk ts)
         [FinishChunk ''stop'' \<lparr>cu_inputTokens = Some 0, cu_outputTokens = Some (length ts), cu_totalTokens = Some (length ts)\<rparr>])"

definition FIXTURE_TOOL_NAME :: string where "FIXTURE_TOOL_NAME = ''local_echo''"
definition FIXTURE_CALL_ID :: string where "FIXTURE_CALL_ID = ''fixture_call_1''"
definition FIXTURE_ARGUMENTS :: json where
  "FIXTURE_ARGUMENTS = JObj [(''message'', JStr ''hello from the local fixture''), (''shout'', JBool False)]"

definition fixtureAborted :: "string \<Rightarrow> ModelError" where
  "fixtureAborted phase = modelError (''Tool-fixture generation aborted '' @ phase) ''fixture''"

definition fixtureProvider :: "(nat \<Rightarrow> bool) \<Rightarrow> ModelMessage list \<Rightarrow> ModelStreamChunk list \<times> ModelError option" where
  "fixtureProvider ab ms = (if ab 0 then ([], Some (fixtureAborted ''before start''))
     else if length (filter (\<lambda>m. mm_role m = Tool) ms) = 0
     then (if ab 1 then ([TokenChunk ''Calling local_echo... ''], Some (fixtureAborted ''mid-stream''))
       else ([TokenChunk ''Calling local_echo... '',
              ToolCallChunk FIXTURE_TOOL_NAME FIXTURE_CALL_ID (Some FIXTURE_ARGUMENTS),
              FinishChunk ''tool_calls'' \<lparr>cu_inputTokens = Some 0, cu_outputTokens = Some 1, cu_totalTokens = Some 1\<rparr>], None))
     else emitUntil ab (fixtureAborted ''mid-stream'') 1 (map TokenChunk FINAL_TURN_TOKENS)
            [FinishChunk ''stop'' \<lparr>cu_inputTokens = Some 0, cu_outputTokens = Some (length FINAL_TURN_TOKENS),
               cu_totalTokens = Some (length FINAL_TURN_TOKENS)\<rparr>])"

lemma emitUntil_all: "(\<And>k. \<not> ab k) \<Longrightarrow> emitUntil ab e k cs rest = (cs @ rest, None)"
  by (induction cs arbitrary: k) auto

lemma echoProvider_unaborted: "(\<And>k. \<not> ab k) \<Longrightarrow> echoProvider ab s = (echoGenerate s, None)"
  by (simp add: echoProvider_def echoGenerate_def emitUntil_all Let_def)

lemma fixtureProvider_unaborted: "(\<And>k. \<not> ab k) \<Longrightarrow> fixtureProvider ab ms = (fixtureGenerate ms, None)"
  by (simp add: fixtureProvider_def fixtureGenerate_def emitUntil_all FIXTURE_TOOL_NAME_def FIXTURE_CALL_ID_def
      FIXTURE_ARGUMENTS_def filter_empty_conv)

section \<open>The OpenAI stream against its specification\<close>

text \<open>The stream interleaves the fragments of several calls.  Specification: a call per index that
  occurs, in ascending order; its id and name are the last non-empty ones streamed for the index, its
  arguments the fragments of the index in the order they came.\<close>

definition eventDeltas :: "OpenAIEvent \<Rightarrow> OpenAIDelta list" where
  "eventDeltas e = (if oe_hasChoice e then oe_toolCalls e else [])"

definition lastSome :: "'a \<Rightarrow> 'a option list \<Rightarrow> 'a" where
  "lastSome d xs = last (d # List.map_filter (\<lambda>x. x) xs)"

abbreviation lastNonEmpty :: "string \<Rightarrow> string option list \<Rightarrow> string" where
  "lastNonEmpty d xs \<equiv> lastSome d (map nonEmpty xs)"

definition specCall :: "OpenAIDelta list \<Rightarrow> nat \<Rightarrow> ModelStreamChunk" where
  "specCall ds i = (let own = filter (\<lambda>d. od_index d = i) ds in
     ToolCallChunk (lastNonEmpty [] (map od_name own)) (lastNonEmpty [] (map od_id own))
       (Some (parseArgs (concat (map (\<lambda>d. case od_arguments d of Some a \<Rightarrow> a | None \<Rightarrow> []) own)))))"

definition specText :: "OpenAIEvent \<Rightarrow> ModelStreamChunk list" where
  "specText e = (if oe_hasChoice e then (case nonEmpty (oe_content e) of Some t \<Rightarrow> [TokenChunk t] | None \<Rightarrow> []) else [])"

definition specFinish :: "OpenAIEvent list \<Rightarrow> ModelStreamChunk" where
  "specFinish es = FinishChunk (lastNonEmpty ''stop'' (map oe_finishReason (filter oe_hasChoice es)))
     (lastSome noUsage (map oe_usage es))"

definition openaiSpec :: "OpenAIEvent list \<Rightarrow> ModelStreamChunk list" where
  "openaiSpec es = (let ds = concat (map eventDeltas es) in
     concat (map specText es) @ map (specCall ds) (sorted_list_of_set (set (map od_index ds))) @
     [specFinish es])"

text \<open>What the accumulator holds after a list of deltas.\<close>

definition partialOf :: "OpenAIDelta list \<Rightarrow> nat \<Rightarrow> PartialToolCall" where
  "partialOf ds i = (let own = filter (\<lambda>d. od_index d = i) ds in
     \<lparr>pt_id = lastNonEmpty [] (map od_id own), pt_name = lastNonEmpty [] (map od_name own),
      pt_arguments = concat (map (\<lambda>d. case od_arguments d of Some a \<Rightarrow> a | None \<Rightarrow> []) own)\<rparr>)"

definition accumOk :: "OpenAIDelta list \<Rightarrow> (nat, PartialToolCall) jsmap \<Rightarrow> bool" where
  "accumOk ds m = (distinct (map fst m) \<and> set (map fst m) = set (map od_index ds) \<and>
     (\<forall>i \<in> set (map od_index ds). js_get m i = Some (partialOf ds i)))"

lemma lastSome_simps [simp]: "lastSome d [] = d"
  "lastSome d (x # xs) = lastSome (case x of Some y \<Rightarrow> y | None \<Rightarrow> d) xs"
  "lastSome d (xs @ [x]) = (case x of Some y \<Rightarrow> y | None \<Rightarrow> lastSome d xs)"
  by (auto simp: lastSome_def List.map_filter_def split: option.splits)

lemma partialOf_fresh: "i \<notin> set (map od_index ds) \<Longrightarrow> partialOf ds i = \<lparr>pt_id = [], pt_name = [], pt_arguments = []\<rparr>"
proof -
  assume "i \<notin> set (map od_index ds)"
  then have "filter (\<lambda>d. od_index d = i) ds = []" by (auto simp: filter_empty_conv)
  then show ?thesis by (simp add: partialOf_def)
qed

lemma accumOk_delta:
  assumes "accumOk ds m" shows "accumOk (ds @ [d]) (openaiDelta d m)"
proof -
  have acc: "(case js_get m (od_index d) of Some a \<Rightarrow> a | None \<Rightarrow> \<lparr>pt_id = [], pt_name = [], pt_arguments = []\<rparr>)
      = partialOf ds (od_index d)"
  proof (cases "od_index d \<in> set (map od_index ds)")
    case True
    then have "js_get m (od_index d) = Some (partialOf ds (od_index d))" using assms unfolding accumOk_def by blast
    then show ?thesis by simp
  next
    case False
    then have "js_get m (od_index d) = None" using assms by (simp add: accumOk_def map_of_eq_None_iff)
    then show ?thesis using False by (simp add: partialOf_fresh del: set_map)
  qed
  have m': "openaiDelta d m = js_set (od_index d) (partialOf (ds @ [d]) (od_index d)) m"
    unfolding openaiDelta_def acc by (simp add: partialOf_def Let_def nonEmpty_def split: option.splits)
  have other: "partialOf (ds @ [d]) i = partialOf ds i" if "i \<noteq> od_index d" for i
    using that by (simp add: partialOf_def)
  show ?thesis using assms unfolding m' accumOk_def
    by (auto simp: distinct_update dom_update update_conv' other)
qed

lemma accumOk_Nil: "accumOk [] []"
  by (simp add: accumOk_def)

lemma accumOk_deltas: "accumOk ds m \<Longrightarrow> accumOk (ds @ es) (fold openaiDelta es m)"
proof (induction es arbitrary: ds m)
  case (Cons e es)
  show ?case using Cons.IH [OF accumOk_delta [OF Cons.prems, of e]] by simp
qed simp

lemma accumOk_sorted:
  assumes "accumOk ds m"
  shows "sort_key fst m = map (\<lambda>i. (i, partialOf ds i)) (sorted_list_of_set (set (map od_index ds)))"
proof -
  have keys: "map fst (sort_key fst m) = sorted_list_of_set (set (map od_index ds))"
    using assms by (intro sorted_distinct_set_unique) (auto simp: accumOk_def distinct_map)
  have "p = (fst p, partialOf ds (fst p))" if "p \<in> set (sort_key fst m)" for p
  proof -
    have "p \<in> set m" using that by simp
    then have "js_get m (fst p) = Some (snd p)" "fst p \<in> set (map od_index ds)"
      using assms by (auto simp: accumOk_def intro: map_of_is_SomeI)
    moreover from this(2) have "js_get m (fst p) = Some (partialOf ds (fst p))" using assms unfolding accumOk_def by blast
    ultimately show ?thesis by (cases p) simp
  qed
  then have "sort_key fst m = map (\<lambda>p. (fst p, partialOf ds (fst p))) (sort_key fst m)"
    by (intro map_idI [symmetric]) (metis)
  also have "\<dots> = map (\<lambda>i. (i, partialOf ds i)) (map fst (sort_key fst m))" by (simp add: comp_def)
  finally show ?thesis by (simp only: keys)
qed

lemma openaiRun_fold: "openaiRun es None s =
    (concat (map specText es) @ openaiFlush (fold (\<lambda>e s. snd (openaiEvent e s)) es s), None)"
proof (induction es arbitrary: s)
  case (Cons e es)
  then show ?case by (simp add: openaiEvent_def specText_def Let_def)
qed simp

lemma fold_accum: "os_accum (fold (\<lambda>e s. snd (openaiEvent e s)) es s) =
    fold openaiDelta (concat (map eventDeltas es)) (os_accum s)"
  by (induction es arbitrary: s) (auto simp: openaiEvent_def eventDeltas_def Let_def)

lemma fold_finish: "os_finishReason (fold (\<lambda>e s. snd (openaiEvent e s)) es s) =
    lastNonEmpty (os_finishReason s) (map oe_finishReason (filter oe_hasChoice es))"
  by (induction es arbitrary: s) (auto simp: openaiEvent_def Let_def)

lemma fold_usage: "os_usage (fold (\<lambda>e s. snd (openaiEvent e s)) es s) = lastSome (os_usage s) (map oe_usage es)"
  by (induction es arbitrary: s) (auto simp: openaiEvent_def Let_def)

text \<open>Property C23: whatever the interleaving of the streamed fragments, the OpenAI provider yields the text in
  order, one call per index in ascending order with its own fragments put together, and one final \<open>finish\<close>.\<close>

theorem openai_stream_spec: "openaiGenerate es None = (openaiSpec es, None)"
proof -
  let ?s = "fold (\<lambda>e s. snd (openaiEvent e s)) es \<lparr>os_accum = [], os_finishReason = ''stop'', os_usage = noUsage\<rparr>"
  have "accumOk (concat (map eventDeltas es)) (os_accum ?s)"
    unfolding fold_accum OpenAIState.simps using accumOk_deltas [OF accumOk_Nil, of "concat (map eventDeltas es)"]
    by (simp only: append_Nil)
  then have "openaiFlush ?s = map (specCall (concat (map eventDeltas es)))
      (sorted_list_of_set (set (map od_index (concat (map eventDeltas es))))) @ [specFinish es]"
    by (simp add: openaiFlush_def accumOk_sorted specCall_def partialOf_def specFinish_def fold_finish fold_usage
        Let_def del: set_map)
  then show ?thesis by (simp add: openaiGenerate_def openaiRun_fold openaiSpec_def Let_def)
qed

text \<open>Arguments a model streamed, in whatever pieces, are replayed to it as the text it streamed.\<close>

lemma parseArgs_stringify: "wf_json v \<Longrightarrow> parseArgs (stringify v) = v"
  using stringify_cons [of v] by (auto simp: parseArgs_def parse_stringify)

end
