(* ===== verification/Server_Config.thy ===== *)
theory Server_Config
  imports Ssrf
begin

text \<open>The server's configuration: the schema of the environment variables (\<open>shared/src/config.ts\<close>), the
  checks that the server runs before it (\<open>apps/server/src/config.ts\<close>), the banner that it prints, and
  the health endpoint (\<open>apps/server/src/health.ts\<close>).

  The environment is a function from names to values, \<^const>\<open>None\<close> for a variable that is not set.
  \<open>new URL\<close> is the parser parameter of the theory Ssrf, and decides \<open>z.string().url()\<close> too.  Zod's
  validation reports all the keys that fail, not the text of its issues; \<open>dash\<close> is an em dash with its spaces.  \<open>Number(s)\<close> of a port is
  modelled as an exact rational, so a literal that only rounding makes an integer is refused here.\<close>

type_synonym env = "string \<Rightarrow> string option"

text \<open>\<open>!!env[k]\<close>\<close>

definition provided :: "env \<Rightarrow> string \<Rightarrow> bool" where
  "provided env k = (case env k of None \<Rightarrow> False | Some v \<Rightarrow> v \<noteq> [])"

section \<open>Numbers from strings\<close>

text \<open>The string grammar of \<open>Number\<close>: white space, then nothing (0), a prefixed integer, or a signed
  decimal with an optional exponent.  \<^const>\<open>None\<close> is \<open>NaN\<close> or an infinity.\<close>

definition radixDigit :: "nat \<Rightarrow> char \<Rightarrow> nat option" where
  "radixDigit b c = (let n = (of_char c :: nat);
       d = (if 48 \<le> n \<and> n \<le> 57 then n - 48 else if 97 \<le> n \<and> n \<le> 122 then n - 87
            else if 65 \<le> n \<and> n \<le> 90 then n - 55 else b)
     in if d < b then Some d else None)"

definition radixVal :: "nat \<Rightarrow> string \<Rightarrow> nat option" where
  "radixVal b s = (if s = [] then None
     else fold (\<lambda>c acc. case (acc, radixDigit b c) of (Some n, Some d) \<Rightarrow> Some (n * b + d) | _ \<Rightarrow> None) s (Some 0))"

definition prefixedVal :: "string \<Rightarrow> nat option" where
  "prefixedVal s = (case s of z # x # ds \<Rightarrow>
       (if z \<noteq> CHR ''0'' then None
        else if x \<in> set ''xX'' then radixVal 16 ds
        else if x \<in> set ''oO'' then radixVal 8 ds
        else if x \<in> set ''bB'' then radixVal 2 ds else None)
     | _ \<Rightarrow> None)"

definition signed :: "string \<Rightarrow> bool \<times> string" where
  "signed s = (case s of c # cs \<Rightarrow> if c = CHR ''-'' then (True, cs) else if c = CHR ''+'' then (False, cs) else (False, s)
     | [] \<Rightarrow> (False, []))"

definition exponentVal :: "string \<Rightarrow> int option" where
  "exponentVal s = (case s of [] \<Rightarrow> Some 0
     | e # cs \<Rightarrow> if e \<notin> set ''eE'' then None
         else case signed cs of (neg, ds) \<Rightarrow> if ds = [] \<or> \<not> list_all isDigit ds then None
           else Some (if neg then - int (digitsVal ds) else int (digitsVal ds)))"

definition powTen :: "int \<Rightarrow> rat" where
  "powTen e = (if 0 \<le> e then 10 ^ nat e else inverse (10 ^ nat (- e)))"

definition decimalVal :: "string \<Rightarrow> rat option" where
  "decimalVal s = (let whole = takeWhile isDigit s; r = dropWhile isDigit s;
       (frac, r') = (case r of c # cs \<Rightarrow> if c = CHR ''.'' then (takeWhile isDigit cs, dropWhile isDigit cs) else ([], r)
                     | [] \<Rightarrow> ([], []))
     in if whole @ frac = [] then None
        else map_option (\<lambda>e. of_nat (digitsVal (whole @ frac)) * powTen (e - int (length frac))) (exponentVal r'))"

definition jsNumber :: "string \<Rightarrow> rat option" where
  "jsNumber s = (let t = trim s in if t = [] then Some 0
     else case prefixedVal t of Some n \<Rightarrow> Some (of_nat n)
       | None \<Rightarrow> (case signed t of (neg, u) \<Rightarrow> map_option (\<lambda>q. if neg then - q else q) (decimalVal u)))"

section \<open>The environment schema\<close>

record AppConfig =
  ac_DATABASE_URL :: string
  ac_REDIS_URL :: "string option"
  ac_CLIENT_JWT_SECRET :: string
  ac_OPENAI_API_KEY :: "string option"
  ac_ANTHROPIC_API_KEY :: "string option"
  ac_GOOGLE_API_KEY :: "string option"
  ac_PUBLIC_WEBSOCKET_URL :: "string option"
  ac_TOOL_RUNNER_PUBLIC_URL :: "string option"
  ac_RUNNER_TOKEN_PRIVATE_KEY :: "string option"
  ac_RUNNER_TOKEN_PUBLIC_KEY :: "string option"
  ac_RUNNER_AUDIENCE :: "string option"
  ac_RUNNER_WORKSPACE_ID :: "string option"
  ac_RUNNER_REQUIRE_HTTPS :: "bool option"
  ac_API_PORT :: int
  ac_GATEWAY_PORT :: int
  ac_COGNITO_USER_POOL_ID :: "string option"
  ac_COGNITO_ISSUER_URL :: "string option"
  ac_COGNITO_CLIENT_ID :: "string option"

definition urlField :: "(string \<Rightarrow> url option) \<Rightarrow> string option \<Rightarrow> bool" where
  "urlField parseUrl v = (case v of None \<Rightarrow> True | Some s \<Rightarrow> parseUrl s \<noteq> None)"

text \<open>\<open>z.coerce.number().int().positive().default(d)\<close>\<close>

definition portField :: "string option \<Rightarrow> int \<Rightarrow> int option" where
  "portField v d = (case v of None \<Rightarrow> Some d
     | Some s \<Rightarrow> (case jsNumber s of None \<Rightarrow> None
         | Some q \<Rightarrow> if q = of_int \<lfloor>q\<rfloor> \<and> 0 < q then Some \<lfloor>q\<rfloor> else None))"

definition httpsField :: "string option \<Rightarrow> bool option option" where
  "httpsField v = (case v of None \<Rightarrow> Some None
     | Some s \<Rightarrow> if s = ''true'' then Some (Some True) else if s = ''false'' then Some (Some False) else None)"

definition configIssues :: "(string \<Rightarrow> url option) \<Rightarrow> env \<Rightarrow> string list" where
  "configIssues parseUrl env =
     filter (\<lambda>k. \<not> provided env k) [''DATABASE_URL'', ''REDIS_URL'', ''CLIENT_JWT_SECRET''] @
     filter (\<lambda>k. \<not> urlField parseUrl (env k)) [''PUBLIC_WEBSOCKET_URL'', ''TOOL_RUNNER_PUBLIC_URL''] @
     filter (\<lambda>k. httpsField (env k) = None) [''RUNNER_REQUIRE_HTTPS''] @
     filter (\<lambda>k. portField (env k) 3000 = None) [''API_PORT'', ''GATEWAY_PORT''] @
     filter (\<lambda>k. \<not> urlField parseUrl (env k)) [''COGNITO_ISSUER_URL'']"

definition configOf :: "env \<Rightarrow> AppConfig" where
  "configOf env = \<lparr>
     ac_DATABASE_URL = the (env ''DATABASE_URL''),
     ac_REDIS_URL = env ''REDIS_URL'',
     ac_CLIENT_JWT_SECRET = the (env ''CLIENT_JWT_SECRET''),
     ac_OPENAI_API_KEY = env ''OPENAI_API_KEY'',
     ac_ANTHROPIC_API_KEY = env ''ANTHROPIC_API_KEY'',
     ac_GOOGLE_API_KEY = env ''GOOGLE_API_KEY'',
     ac_PUBLIC_WEBSOCKET_URL = env ''PUBLIC_WEBSOCKET_URL'',
     ac_TOOL_RUNNER_PUBLIC_URL = env ''TOOL_RUNNER_PUBLIC_URL'',
     ac_RUNNER_TOKEN_PRIVATE_KEY = env ''RUNNER_TOKEN_PRIVATE_KEY'',
     ac_RUNNER_TOKEN_PUBLIC_KEY = env ''RUNNER_TOKEN_PUBLIC_KEY'',
     ac_RUNNER_AUDIENCE = env ''RUNNER_AUDIENCE'',
     ac_RUNNER_WORKSPACE_ID = env ''RUNNER_WORKSPACE_ID'',
     ac_RUNNER_REQUIRE_HTTPS = the (httpsField (env ''RUNNER_REQUIRE_HTTPS'')),
     ac_API_PORT = the (portField (env ''API_PORT'') 3000),
     ac_GATEWAY_PORT = the (portField (env ''GATEWAY_PORT'') 3001),
     ac_COGNITO_USER_POOL_ID = env ''COGNITO_USER_POOL_ID'',
     ac_COGNITO_ISSUER_URL = env ''COGNITO_ISSUER_URL'',
     ac_COGNITO_CLIENT_ID = env ''COGNITO_CLIENT_ID''\<rparr>"

definition loadConfig :: "(string \<Rightarrow> url option) \<Rightarrow> env \<Rightarrow> string list + AppConfig" where
  "loadConfig parseUrl env = (let issues = configIssues parseUrl env in
     if issues = [] then Inr (configOf env) else Inl issues)"

section \<open>The server's own checks\<close>

record ServerConfig = AppConfig +
  sv_AUTO_MIGRATE :: bool
  sv_LOCAL_FIXTURE_PROVIDER :: bool

definition LOCAL_HOSTS :: "string list" where
  "LOCAL_HOSTS = [''localhost'', ''127.0.0.1'', ''::1'', ''0.0.0.0'']"

definition CLOUD_ENVS :: "string list" where
  "CLOUD_ENVS = [''dev'', ''staging'', ''prod'']"

definition isCloud :: "env \<Rightarrow> bool" where
  "isCloud env = (case env ''DEPLOY_ENV'' of None \<Rightarrow> False | Some d \<Rightarrow> d \<in> set CLOUD_ENVS)"

abbreviation deployOf :: "env \<Rightarrow> string" where
  "deployOf env \<equiv> (case env ''DEPLOY_ENV'' of None \<Rightarrow> ''undefined'' | Some d \<Rightarrow> d)"

definition validatePublicWebsocketUrl :: "(string \<Rightarrow> url option) \<Rightarrow> env \<Rightarrow> string option" where
  "validatePublicWebsocketUrl parseUrl env =
     (if \<not> isCloud env then None
      else if \<not> provided env ''PUBLIC_WEBSOCKET_URL'' then
        Some (''PUBLIC_WEBSOCKET_URL is required in a cloud environment (DEPLOY_ENV='' @ deployOf env @ '')'')
      else let raw = the (env ''PUBLIC_WEBSOCKET_URL'') in
        case parseUrl raw of
          None \<Rightarrow> Some (''PUBLIC_WEBSOCKET_URL is not a valid URL (got '' @ [CHR 0x27] @ raw @ [CHR 0x27] @ '')'')
        | Some u \<Rightarrow>
           (let allowInsecure = (env ''PUBLIC_WS_ALLOW_INSECURE'' = Some ''true'') in
            if \<not> (url_protocol u = ''wss:'' \<or> (allowInsecure \<and> url_protocol u = ''ws:'')) then
              Some (''PUBLIC_WEBSOCKET_URL must use the '' @ (if allowInsecure then ''wss:// or ws://'' else ''wss://'') @
                '' scheme in a cloud environment (got '' @ [CHR 0x27] @ raw @ [CHR 0x27] @ '')'')
            else if url_hostname u \<in> set LOCAL_HOSTS then
              Some (''PUBLIC_WEBSOCKET_URL must not point at localhost in a cloud environment (got '' @ [CHR 0x27] @ raw @ [CHR 0x27] @ '')'')
            else None))"

definition modelKeys :: "string list" where
  "modelKeys = [''OPENAI_API_KEY'', ''ANTHROPIC_API_KEY'', ''GOOGLE_API_KEY'']"

definition missingVars :: "string \<Rightarrow> (string \<Rightarrow> url option) \<Rightarrow> env \<Rightarrow> string list" where
  "missingVars dash parseUrl env =
     (let fixture = (env ''LOCAL_FIXTURE_PROVIDER'' = Some ''true'') in
      filter (\<lambda>k. \<not> provided env k) [''DATABASE_URL'', ''CLIENT_JWT_SECRET''] @
      (if fixture \<and> isCloud env
       then [''LOCAL_FIXTURE_PROVIDER must not be set in a cloud environment (DEPLOY_ENV='' @ deployOf env @ '')'' @ dash @
             ''it is a local-compose-only flag''] else []) @
      (if \<not> list_ex (provided env) modelKeys \<and> \<not> fixture
       then [''At least one of: '' @ joinWith '', '' modelKeys] else []) @
      (case validatePublicWebsocketUrl parseUrl env of None \<Rightarrow> [] | Some e \<Rightarrow> [e]))"

datatype configError = MissingVariables string | SchemaIssues "string list"

text \<open>The placeholder that gets an absent \<open>REDIS_URL\<close> past the schema is taken out of the result.\<close>

definition loadServerConfig :: "string \<Rightarrow> (string \<Rightarrow> url option) \<Rightarrow> env \<Rightarrow> configError + ServerConfig" where
  "loadServerConfig dash parseUrl env =
     (let missing = missingVars dash parseUrl env in
      if missing \<noteq> [] then
        Inl (MissingVariables (''Missing required environment variables:'' @ [CHR 0x0A] @
          joinWith [CHR 0x0A] (map ((@) ''  - '') missing)))
      else let redisProvided = provided env ''REDIS_URL'';
             env' = (if redisProvided then env else env(''REDIS_URL'' \<mapsto> ''redis://localhost:6379''))
        in case loadConfig parseUrl env' of Inl ks \<Rightarrow> Inl (SchemaIssues ks)
         | Inr c \<Rightarrow> Inr (AppConfig.extend (if redisProvided then c else c\<lparr>ac_REDIS_URL := None\<rparr>)
             (ServerConfig.fields (env ''AUTO_MIGRATE'' = Some ''true'') (env ''LOCAL_FIXTURE_PROVIDER'' = Some ''true''))))"

section \<open>The banner\<close>

definition redact :: "string option \<Rightarrow> string" where
  "redact v = (case v of None \<Rightarrow> ''(not set)'' | Some s \<Rightarrow> if s = [] then ''(not set)'' else ''***'')"

definition boolText :: "bool \<Rightarrow> string" where
  "boolText b = (if b then ''true'' else ''false'')"

definition redactConfig :: "ServerConfig \<Rightarrow> (string \<times> string) list" where
  "redactConfig c =
     [(''DATABASE_URL'', redact (Some (ac_DATABASE_URL c))),
      (''REDIS_URL'', (case ac_REDIS_URL c of None \<Rightarrow> ''(disabled)'' | Some s \<Rightarrow> if s = [] then ''(disabled)'' else ''***'')),
      (''CLIENT_JWT_SECRET'', redact (Some (ac_CLIENT_JWT_SECRET c))),
      (''OPENAI_API_KEY'', redact (ac_OPENAI_API_KEY c)),
      (''ANTHROPIC_API_KEY'', redact (ac_ANTHROPIC_API_KEY c)),
      (''GOOGLE_API_KEY'', redact (ac_GOOGLE_API_KEY c)),
      (''PUBLIC_WEBSOCKET_URL'', (case ac_PUBLIC_WEBSOCKET_URL c of None \<Rightarrow> ''(not set)'' | Some s \<Rightarrow> s)),
      (''API_PORT'', intToString (ac_API_PORT c)),
      (''GATEWAY_PORT'', ''(local-only)''),
      (''AUTO_MIGRATE'', boolText (sv_AUTO_MIGRATE c)),
      (''LOCAL_FIXTURE_PROVIDER'', boolText (sv_LOCAL_FIXTURE_PROVIDER c))]"

section \<open>The health endpoint\<close>

record HealthCheckResult =
  hc_status :: string
  hc_db :: string
  hc_redis :: string
  hc_connections :: nat
  hc_uptime :: nat

text \<open>\<open>dbFails\<close>: the query \<open>SELECT 1\<close> is rejected; \<open>redisPing\<close>: the ping function, if there is one, with
  the value it resolves to (\<^const>\<open>None\<close> when it is rejected).  The two times are in milliseconds.\<close>

definition healthCheck ::
  "nat \<Rightarrow> nat \<Rightarrow> nat option \<Rightarrow> bool \<Rightarrow> bool \<Rightarrow> bool option option \<Rightarrow> nat \<times> HealthCheckResult" where
  "healthCheck startTime now connections dbFails redisEnabled redisPing =
     (let r0 = \<lparr>hc_status = ''ok'', hc_db = ''ok'', hc_redis = (if redisEnabled then ''ok'' else ''disabled''),
            hc_connections = (case connections of None \<Rightarrow> 0 | Some n \<Rightarrow> n), hc_uptime = (now - startTime) div 1000\<rparr>;
          r1 = (if dbFails then r0\<lparr>hc_db := ''error'', hc_status := ''degraded''\<rparr> else r0);
          r2 = (case redisPing of
                  Some ping \<Rightarrow> if redisEnabled \<and> ping \<noteq> Some True then r1\<lparr>hc_redis := ''error'', hc_status := ''degraded''\<rparr> else r1
                | None \<Rightarrow> r1)
      in (if hc_status r2 = ''ok'' then 200 else 503, r2))"

lemma healthCheck_ok: "fst (healthCheck st now cs dbFails redisEnabled redisPing) = 200 \<longleftrightarrow>
    \<not> dbFails \<and> (redisEnabled \<longrightarrow> redisPing = None \<or> redisPing = Some (Some True))"
  by (cases redisPing) (auto simp: healthCheck_def Let_def)

section \<open>Properties\<close>

lemma loadConfig_ok: "loadConfig parseUrl env = Inr c \<longleftrightarrow> configIssues parseUrl env = [] \<and> c = configOf env"
  by (auto simp: loadConfig_def Let_def)

text \<open>What a configuration that loads has been checked for.\<close>

lemma loadServerConfig_ok:
  assumes "loadServerConfig dash parseUrl env = Inr c"
  shows "missingVars dash parseUrl env = []"
    and "c = AppConfig.extend ((configOf env)\<lparr>ac_REDIS_URL := if provided env ''REDIS_URL'' then env ''REDIS_URL'' else None\<rparr>)
             (ServerConfig.fields (env ''AUTO_MIGRATE'' = Some ''true'') (env ''LOCAL_FIXTURE_PROVIDER'' = Some ''true''))"
    and "configIssues parseUrl (if provided env ''REDIS_URL'' then env else env(''REDIS_URL'' \<mapsto> ''redis://localhost:6379'')) = []"
  using assms
  by (auto simp: loadServerConfig_def Let_def loadConfig_ok configOf_def AppConfig.defs ServerConfig.defs split: if_splits sum.splits)



lemma portField_positive: "portField v d = Some n \<Longrightarrow> 0 < d \<Longrightarrow> 0 < n"
  by (auto simp: portField_def split: option.splits if_splits)



text \<open>Its ports are positive, and \<open>REDIS_URL\<close> is the one that was given or none.\<close>

lemma loaded_ports:
  assumes "loadServerConfig dash parseUrl env = Inr c"
  shows "0 < ac_API_PORT c" "0 < ac_GATEWAY_PORT c"
    and "ac_REDIS_URL c = (if provided env ''REDIS_URL'' then env ''REDIS_URL'' else None)"
proof -
  note ok = loadServerConfig_ok [OF assms]
  have "portField (env ''API_PORT'') 3000 \<noteq> None" "portField (env ''GATEWAY_PORT'') 3000 \<noteq> None"
    using ok(3) by (auto simp: configIssues_def split: if_splits)
  moreover from this(2) have "portField (env ''GATEWAY_PORT'') 3001 \<noteq> None"
    by (auto simp: portField_def split: option.splits)
  ultimately show "0 < ac_API_PORT c" "0 < ac_GATEWAY_PORT c"
    using portField_positive by (fastforce simp: ok(2) configOf_def AppConfig.defs ServerConfig.defs)+
  show "ac_REDIS_URL c = (if provided env ''REDIS_URL'' then env ''REDIS_URL'' else None)"
    by (simp add: ok(2) AppConfig.defs ServerConfig.defs)
qed

text \<open>Replacing the secrets of a configuration by others does not change the banner.\<close>

definition mapSecrets :: "(string \<Rightarrow> string) \<Rightarrow> ServerConfig \<Rightarrow> ServerConfig" where
  "mapSecrets f c = c\<lparr>ac_DATABASE_URL := f (ac_DATABASE_URL c), ac_REDIS_URL := map_option f (ac_REDIS_URL c),
     ac_CLIENT_JWT_SECRET := f (ac_CLIENT_JWT_SECRET c), ac_OPENAI_API_KEY := map_option f (ac_OPENAI_API_KEY c),
     ac_ANTHROPIC_API_KEY := map_option f (ac_ANTHROPIC_API_KEY c), ac_GOOGLE_API_KEY := map_option f (ac_GOOGLE_API_KEY c),
     ac_RUNNER_TOKEN_PRIVATE_KEY := map_option f (ac_RUNNER_TOKEN_PRIVATE_KEY c)\<rparr>"

lemma banner_hides_secrets: "(\<And>s. f s = [] \<longleftrightarrow> s = []) \<Longrightarrow> redactConfig (mapSecrets f c) = redactConfig c"
  by (simp add: redactConfig_def mapSecrets_def redact_def split: option.splits)

text \<open>\<open>URL\<close> keeps the brackets of an IPv6 host, so the entry \<open>::1\<close> of the local hosts never matches.\<close>

lemma ipv6_localhost_accepted:
  assumes "env ''PUBLIC_WEBSOCKET_URL'' = Some ''wss://[::1]:3001''"
    and "parseUrl ''wss://[::1]:3001'' = Some \<lparr>url_href = ''wss://[::1]:3001/'', url_protocol = ''wss:'', url_hostname = ''[::1]''\<rparr>"
  shows "validatePublicWebsocketUrl parseUrl env = None"
  using assms by (simp add: validatePublicWebsocketUrl_def provided_def LOCAL_HOSTS_def)

section \<open>Witnesses\<close>

lemma jsNumber_examples: "jsNumber '' 3000 '' = Some 3000" "jsNumber ''0x1F90'' = Some 8080" "jsNumber ''8e3'' = Some 8000"
  "jsNumber [] = Some 0" "jsNumber ''80a'' = None" "jsNumber ''-1'' = Some (- 1)"
  by (simp_all add: jsNumber_def trim_def isSpace_def prefixedVal_def signed_def decimalVal_def exponentVal_def powTen_def
      radixVal_def radixDigit_def isDigit_def digitsVal_def digitVal_def)









end
