(* ===== verification/Calculator.thy ===== *)
theory Calculator
  imports Prelude
begin

text \<open>The arithmetic evaluator of the playground's \<open>calculate\<close> tool (\<open>tools/calculate.ts\<close>): its
  tokenizer and its recursive-descent parser, which evaluates while it parses.  The parser's position
  is the list of the tokens that are left, and an exception is \<^const>\<open>Inl\<close> with its message.  IEEE
  arithmetic is a parameter, a record of the operations the code applies to numbers; which tokens are
  numeric literals (\<open>Number(token)\<close> not \<open>NaN\<close>) is modelled.

  The functions recurse on what an inner call leaves, so their termination rests on every parse
  consuming a token.  The theorem \<open>evaluate_grammar\<close> is the specification: the evaluator returns a
  value exactly for the sentences of the grammar in the source's comments, with that grammar's
  value.\<close>

section \<open>Tokens\<close>

definition isOperator :: "char \<Rightarrow> bool" where
  "isOperator c = (c \<in> set ''+-*/%()'')"

definition isNumChar :: "char \<Rightarrow> bool" where
  "isNumChar c = (isDigit c \<or> c = CHR ''.'')"

function tokenizeFrom :: "string \<Rightarrow> string + string list" where
  "tokenizeFrom [] = Inr []"
| "tokenizeFrom (c # cs) =
     (if isSpace c then tokenizeFrom cs
      else if isOperator c then map_sum id ((#) [c]) (tokenizeFrom cs)
      else if isNumChar c then map_sum id ((#) (c # takeWhile isNumChar cs)) (tokenizeFrom (dropWhile isNumChar cs))
      else Inl (''Unexpected character \"'' @ [c] @ ''\" in expression.''))"
  by pat_completeness auto
termination
  by (relation "measure length") (auto simp: less_Suc_eq_le length_dropWhile_le)

definition tokenizeExpr :: "string \<Rightarrow> string + string list" where
  "tokenizeExpr s = (case tokenizeFrom s of Inl e \<Rightarrow> Inl e
     | Inr ts \<Rightarrow> if ts = [] then Inl ''Expression is empty.'' else Inr ts)"

section \<open>Numbers\<close>

record 'n arith =
  ar_ofDecimal :: "string \<Rightarrow> 'n"
  ar_isFinite :: "'n \<Rightarrow> bool"
  ar_isZero :: "'n \<Rightarrow> bool"
  ar_add :: "'n \<Rightarrow> 'n \<Rightarrow> 'n"
  ar_sub :: "'n \<Rightarrow> 'n \<Rightarrow> 'n"
  ar_mul :: "'n \<Rightarrow> 'n \<Rightarrow> 'n"
  ar_div :: "'n \<Rightarrow> 'n \<Rightarrow> 'n"
  ar_mod :: "'n \<Rightarrow> 'n \<Rightarrow> 'n"
  ar_neg :: "'n \<Rightarrow> 'n"

text \<open>The tokens of digits and dots that \<open>Number\<close> reads: at most one dot, at least one digit.  On an
  operator \<open>Number\<close> is \<open>NaN\<close>.\<close>

definition decimalLiteral :: "string \<Rightarrow> bool" where
  "decimalLiteral t = (list_all isNumChar t \<and> list_ex isDigit t \<and> length (filter ((=) (CHR ''.'')) t) \<le> 1)"

definition numberToken :: "'n arith \<Rightarrow> string \<Rightarrow> 'n option" where
  "numberToken N t = (if decimalLiteral t \<and> ar_isFinite N (ar_ofDecimal N t) then Some (ar_ofDecimal N t) else None)"

section \<open>The parser\<close>

definition unexpectedToken :: "string \<Rightarrow> string" where
  "unexpectedToken t = ''Unexpected token \"'' @ t @ ''\" in expression.''"

abbreviation isAddOp :: "string \<Rightarrow> bool" where "isAddOp t \<equiv> t = ''+'' \<or> t = ''-''"
abbreviation isMulOp :: "string \<Rightarrow> bool" where "isMulOp t \<equiv> t = ''*'' \<or> t = ''/'' \<or> t = ''%''"

definition applyMul :: "'n arith \<Rightarrow> string \<Rightarrow> 'n \<Rightarrow> 'n \<Rightarrow> string + 'n" where
  "applyMul N t a b = (if t = ''*'' then Inr (ar_mul N a b)
     else if t = ''/'' then (if ar_isZero N b then Inl ''Division by zero.'' else Inr (ar_div N a b))
     else (if ar_isZero N b then Inl ''Modulo by zero.'' else Inr (ar_mod N a b)))"

function (sequential) parseExpr :: "'n arith \<Rightarrow> string list \<Rightarrow> string + 'n \<times> string list"
and exprLoop :: "'n arith \<Rightarrow> 'n \<Rightarrow> string list \<Rightarrow> string + 'n \<times> string list"
and parseTerm :: "'n arith \<Rightarrow> string list \<Rightarrow> string + 'n \<times> string list"
and termLoop :: "'n arith \<Rightarrow> 'n \<Rightarrow> string list \<Rightarrow> string + 'n \<times> string list"
and parseFactor :: "'n arith \<Rightarrow> string list \<Rightarrow> string + 'n \<times> string list"
and parsePrimary :: "'n arith \<Rightarrow> string list \<Rightarrow> string + 'n \<times> string list" where
  "parseExpr N ts = (case parseTerm N ts of Inl e \<Rightarrow> Inl e | Inr (v, r) \<Rightarrow> exprLoop N v r)"
| "exprLoop N v [] = Inr (v, [])"
| "exprLoop N v (t # ts) = (if isAddOp t
     then (case parseTerm N ts of Inl e \<Rightarrow> Inl e
           | Inr (rhs, r) \<Rightarrow> exprLoop N (if t = ''+'' then ar_add N v rhs else ar_sub N v rhs) r)
     else Inr (v, t # ts))"
| "parseTerm N ts = (case parseFactor N ts of Inl e \<Rightarrow> Inl e | Inr (v, r) \<Rightarrow> termLoop N v r)"
| "termLoop N v [] = Inr (v, [])"
| "termLoop N v (t # ts) = (if isMulOp t
     then (case parseFactor N ts of Inl e \<Rightarrow> Inl e
           | Inr (rhs, r) \<Rightarrow> (case applyMul N t v rhs of Inl e \<Rightarrow> Inl e | Inr w \<Rightarrow> termLoop N w r))
     else Inr (v, t # ts))"
| "parseFactor N [] = parsePrimary N []"
| "parseFactor N (t # ts) = (if t = ''-''
     then (case parseFactor N ts of Inl e \<Rightarrow> Inl e | Inr (v, r) \<Rightarrow> Inr (ar_neg N v, r))
     else parsePrimary N (t # ts))"
| "parsePrimary N [] = Inl ''Unexpected end of expression.''"
| "parsePrimary N (t # ts) = (if t = ''(''
     then (case parseExpr N ts of Inl e \<Rightarrow> Inl e
           | Inr (v, []) \<Rightarrow> Inl ''Unexpected end of expression.''
           | Inr (v, c # r) \<Rightarrow> if c \<noteq> '')'' then Inl ''Expected a closing parenthesis.'' else Inr (v, r))
     else (case numberToken N t of Some v \<Rightarrow> Inr (v, ts) | None \<Rightarrow> Inl (unexpectedToken t)))"
  by pat_completeness auto

abbreviation "parser_dom \<equiv> parseExpr_exprLoop_parseTerm_termLoop_parseFactor_parsePrimary_dom"

text \<open>A parse that returns has consumed a token; a loop may consume none.\<close>

lemma parse_consumes:
  "parser_dom (Inl (Inl (N, ts))) \<Longrightarrow> parseExpr N ts = Inr (w, r) \<Longrightarrow> length r < length ts"
  "parser_dom (Inl (Inr (Inl (N, v, ts)))) \<Longrightarrow> exprLoop N v ts = Inr (w, r) \<Longrightarrow> length r \<le> length ts"
  "parser_dom (Inl (Inr (Inr (N, ts)))) \<Longrightarrow> parseTerm N ts = Inr (w, r) \<Longrightarrow> length r < length ts"
  "parser_dom (Inr (Inl (N, v, ts))) \<Longrightarrow> termLoop N v ts = Inr (w, r) \<Longrightarrow> length r \<le> length ts"
  "parser_dom (Inr (Inr (Inl (N, ts)))) \<Longrightarrow> parseFactor N ts = Inr (w, r) \<Longrightarrow> length r < length ts"
  "parser_dom (Inr (Inr (Inr (N, ts)))) \<Longrightarrow> parsePrimary N ts = Inr (w, r) \<Longrightarrow> length r < length ts"
proof (induction arbitrary: w r and w r and w r and w r and w r and w r
    rule: parseExpr_exprLoop_parseTerm_termLoop_parseFactor_parsePrimary.pinduct)
  case (1 N ts)
  from 1(4) obtain v r' where "parseTerm N ts = Inr (v, r')" "exprLoop N v r' = Inr (w, r)"
    by (auto simp: parseExpr.psimps [OF 1(1)] split: sum.splits)
  then show ?case using 1(2) 1(3) by fastforce
next
  case (4 N ts)
  from 4(4) obtain v r' where "parseFactor N ts = Inr (v, r')" "termLoop N v r' = Inr (w, r)"
    by (auto simp: parseTerm.psimps [OF 4(1)] split: sum.splits)
  then show ?case using 4(2) 4(3) by fastforce
qed (auto simp: exprLoop.psimps termLoop.psimps parseFactor.psimps parsePrimary.psimps
      split: sum.splits if_splits list.splits option.splits; fastforce)+

definition parserSize ::
  "('n arith \<times> string list + 'n arith \<times> 'n \<times> string list + 'n arith \<times> string list) +
   ('n arith \<times> 'n \<times> string list) + ('n arith \<times> string list) + ('n arith \<times> string list) \<Rightarrow> nat" where
  "parserSize x = (case x of
      Inl (Inl (N, ts)) \<Rightarrow> 6 * length ts + 5
    | Inl (Inr (Inl (N, v, ts))) \<Rightarrow> 6 * length ts + 4
    | Inl (Inr (Inr (N, ts))) \<Rightarrow> 6 * length ts + 3
    | Inr (Inl (N, v, ts)) \<Rightarrow> 6 * length ts + 2
    | Inr (Inr (Inl (N, ts))) \<Rightarrow> 6 * length ts + 1
    | Inr (Inr (Inr (N, ts))) \<Rightarrow> 6 * length ts)"

termination parseExpr
  by (relation "measure parserSize") (auto simp: parserSize_def dest!: parse_consumes)

declare parseExpr.simps [simp del] parseTerm.simps [simp del]

section \<open>Evaluation\<close>

definition evaluateTokens :: "'n arith \<Rightarrow> string list \<Rightarrow> string + 'n" where
  "evaluateTokens N ts = (case parseExpr N ts of Inl e \<Rightarrow> Inl e
     | Inr (v, t # r) \<Rightarrow> Inl (unexpectedToken t)
     | Inr (v, []) \<Rightarrow> if ar_isFinite N v then Inr v else Inl ''Expression did not evaluate to a finite number.'')"

definition evaluateExpression :: "'n arith \<Rightarrow> string \<Rightarrow> string + 'n" where
  "evaluateExpression N s = (case tokenizeExpr s of Inl e \<Rightarrow> Inl e | Inr ts \<Rightarrow> evaluateTokens N ts)"

section \<open>The grammar\<close>

text \<open>The grammar of the comments with the value of each sentence: \<open>expr := expr ('+' | '-') term | term\<close>,
  \<open>term := term ('*' | '/' | '%') factor | factor\<close>, \<open>factor := '-' factor | primary\<close>,
  \<open>primary := number | '(' expr ')'\<close>.  Left recursion makes the operators associate to the left.\<close>

inductive gExpr :: "'n arith \<Rightarrow> string list \<Rightarrow> 'n \<Rightarrow> bool"
and gTerm :: "'n arith \<Rightarrow> string list \<Rightarrow> 'n \<Rightarrow> bool"
and gFactor :: "'n arith \<Rightarrow> string list \<Rightarrow> 'n \<Rightarrow> bool"
and gPrimary :: "'n arith \<Rightarrow> string list \<Rightarrow> 'n \<Rightarrow> bool"
for N :: "'n arith" where
  expr_term: "gTerm N xs v \<Longrightarrow> gExpr N xs v"
| expr_add: "gExpr N xs v \<Longrightarrow> gTerm N ys w \<Longrightarrow> gExpr N (xs @ ''+'' # ys) (ar_add N v w)"
| expr_sub: "gExpr N xs v \<Longrightarrow> gTerm N ys w \<Longrightarrow> gExpr N (xs @ ''-'' # ys) (ar_sub N v w)"
| term_factor: "gFactor N xs v \<Longrightarrow> gTerm N xs v"
| term_mul: "gTerm N xs v \<Longrightarrow> gFactor N ys w \<Longrightarrow> gTerm N (xs @ ''*'' # ys) (ar_mul N v w)"
| term_div: "gTerm N xs v \<Longrightarrow> gFactor N ys w \<Longrightarrow> \<not> ar_isZero N w \<Longrightarrow> gTerm N (xs @ ''/'' # ys) (ar_div N v w)"
| term_mod: "gTerm N xs v \<Longrightarrow> gFactor N ys w \<Longrightarrow> \<not> ar_isZero N w \<Longrightarrow> gTerm N (xs @ ''%'' # ys) (ar_mod N v w)"
| factor_neg: "gFactor N xs v \<Longrightarrow> gFactor N (''-'' # xs) (ar_neg N v)"
| factor_primary: "gPrimary N xs v \<Longrightarrow> gFactor N xs v"
| primary_number: "numberToken N t = Some v \<Longrightarrow> gPrimary N [t] v"
| primary_paren: "gExpr N xs v \<Longrightarrow> gPrimary N (''('' # xs @ ['')'']) v"

lemma numberToken_operator [simp]: "numberToken N ''('' = None" "numberToken N ''-'' = None"
  by (auto simp: numberToken_def decimalLiteral_def isNumChar_def isDigit_def)

text \<open>What the parser returns is a sentence with its value: the loops extend the sentence on their left.\<close>

lemma parse_sound:
  "parseExpr N ts = Inr (w, r) \<Longrightarrow> \<exists>xs. ts = xs @ r \<and> gExpr N xs w"
  "exprLoop N v ts = Inr (w, r) \<Longrightarrow> gExpr N zs v \<Longrightarrow> \<exists>xs. ts = xs @ r \<and> gExpr N (zs @ xs) w"
  "parseTerm N ts = Inr (w, r) \<Longrightarrow> \<exists>xs. ts = xs @ r \<and> gTerm N xs w"
  "termLoop N v ts = Inr (w, r) \<Longrightarrow> gTerm N zs v \<Longrightarrow> \<exists>xs. ts = xs @ r \<and> gTerm N (zs @ xs) w"
  "parseFactor N ts = Inr (w, r) \<Longrightarrow> \<exists>xs. ts = xs @ r \<and> gFactor N xs w"
  "parsePrimary N ts = Inr (w, r) \<Longrightarrow> \<exists>xs. ts = xs @ r \<and> gPrimary N xs w"
proof (induction N ts and N v ts and N ts and N v ts and N ts and N ts
    arbitrary: w r and w r zs and w r and w r zs and w r and w r
    rule: parseExpr_exprLoop_parseTerm_termLoop_parseFactor_parsePrimary.induct)
  case (1 N ts)
  from 1(3) obtain v r' where p: "parseTerm N ts = Inr (v, r')" "exprLoop N v r' = Inr (w, r)"
    by (auto simp: parseExpr.simps split: sum.splits)
  obtain xs where "ts = xs @ r'" "gTerm N xs v" using 1(1) [OF p(1)] by blast
  then show ?case using 1(2) [OF p(1) refl p(2) expr_term] by fastforce
next
  case (3 N v t ts)
  show ?case
  proof (cases "isAddOp t")
    case True
    let ?op = "\<lambda>x. if t = ''+'' then ar_add N v x else ar_sub N v x"
    from 3(3) True obtain x r' where p: "parseTerm N ts = Inr (x, r')" "exprLoop N (?op x) r' = Inr (w, r)"
      by (auto split: sum.splits if_splits)
    obtain xs where xs: "ts = xs @ r'" "gTerm N xs x" using 3(1) [OF True p(1)] by blast
    have "gExpr N (zs @ t # xs) (?op x)" using True 3(4) xs(2) by (auto intro: expr_add expr_sub)
    then show ?thesis using 3(2) [OF True p(1) refl p(2)] xs(1) by fastforce
  qed (use 3 in auto)
next
  case (4 N ts)
  from 4(3) obtain v r' where p: "parseFactor N ts = Inr (v, r')" "termLoop N v r' = Inr (w, r)"
    by (auto simp: parseTerm.simps split: sum.splits)
  obtain xs where "ts = xs @ r'" "gFactor N xs v" using 4(1) [OF p(1)] by blast
  then show ?case using 4(2) [OF p(1) refl p(2) term_factor] by fastforce
next
  case (6 N v t ts)
  show ?case
  proof (cases "isMulOp t")
    case True
    from 6(3) True obtain x r' y where p: "parseFactor N ts = Inr (x, r')" "applyMul N t v x = Inr y"
        "termLoop N y r' = Inr (w, r)"
      by (auto split: sum.splits if_splits)
    obtain xs where xs: "ts = xs @ r'" "gFactor N xs x" using 6(1) [OF True p(1)] by blast
    have "gTerm N (zs @ t # xs) y" using True 6(4) xs(2) p(2)
      by (auto simp: applyMul_def intro: term_mul term_div term_mod split: if_splits)
    then show ?thesis using 6(2) [OF True p(1) refl p(2,3)] xs(1) by fastforce
  qed (use 6 in auto)
next
  case (8 N t ts)
  show ?case
  proof (cases "t = ''-''")
    case True
    with 8(3) obtain v where p: "parseFactor N ts = Inr (v, r)" "w = ar_neg N v" by (auto split: sum.splits)
    then obtain xs where "ts = xs @ r" "gFactor N xs v" using 8(1) [OF True p(1)] by blast
    then show ?thesis using True p(2) by (intro exI [of _ "t # xs"]) (auto intro: factor_neg)
  qed (use 8 factor_primary in fastforce)
next
  case (10 N t ts)
  show ?case
  proof (cases "t = ''(''")
    case True
    with 10(2) have p: "parseExpr N ts = Inr (w, '')'' # r)" by (auto split: sum.splits list.splits if_splits)
    then obtain xs where "ts = xs @ '')'' # r" "gExpr N xs w" using 10(1) [OF True p] by blast
    then show ?thesis using True by (intro exI [of _ "t # xs @ ['')'']"]) (auto intro: primary_paren)
  next
    case False
    then show ?thesis using 10(2) by (auto split: option.splits intro!: exI [of _ "[t]"] primary_number)
  qed
qed (auto intro: factor_primary)

text \<open>A sentence followed by any tokens is parsed as that sentence; only the loops look at what follows.\<close>

definition stopsTerm :: "string list \<Rightarrow> bool" where
  "stopsTerm r = (case r of [] \<Rightarrow> True | t # _ \<Rightarrow> \<not> isMulOp t)"

lemma termLoop_stops: "stopsTerm r \<Longrightarrow> termLoop N v r = Inr (v, r)"
  by (cases r) (auto simp: stopsTerm_def)

lemma parse_complete:
  "gExpr N xs v \<Longrightarrow> stopsTerm r \<Longrightarrow> parseExpr N (xs @ r) = exprLoop N v r"
  "gTerm N xs v \<Longrightarrow> parseTerm N (xs @ r) = termLoop N v r"
  "gFactor N xs v \<Longrightarrow> parseFactor N (xs @ r) = Inr (v, r)"
  "gPrimary N xs v \<Longrightarrow> parsePrimary N (xs @ r) = Inr (v, r) \<and> (\<exists>t ts. xs = t # ts \<and> t \<noteq> ''-'')"
proof (induction arbitrary: r and r and r and r rule: gExpr_gTerm_gFactor_gPrimary.inducts)
  case (expr_add xs v ys w)
  then show ?case by (simp add: termLoop_stops) (simp add: stopsTerm_def termLoop_stops)
next
  case (expr_sub xs v ys w)
  then show ?case by (simp add: termLoop_stops) (simp add: stopsTerm_def termLoop_stops)
next
  case (factor_primary xs v)
  then obtain t ts where "xs = t # ts" "t \<noteq> ''-''" by blast
  then show ?case using factor_primary by fastforce
next
  case (primary_number t v)
  then show ?case by (cases "t = ''(''") auto
next
  case (primary_paren xs v)
  have "parseExpr N (xs @ '')'' # r) = exprLoop N v ('')'' # r)" by (rule primary_paren.IH) (simp add: stopsTerm_def)
  then show ?case by simp
qed (auto simp: parseExpr.simps parseTerm.simps termLoop_stops applyMul_def)

section \<open>The specification\<close>

lemma evaluateTokens_grammar: "evaluateTokens N ts = Inr v \<longleftrightarrow> gExpr N ts v \<and> ar_isFinite N v"
proof
  assume "evaluateTokens N ts = Inr v"
  then have "parseExpr N ts = Inr (v, [])" "ar_isFinite N v"
    by (auto simp: evaluateTokens_def split: sum.splits list.splits if_splits)
  then show "gExpr N ts v \<and> ar_isFinite N v" using parse_sound(1) by fastforce
next
  assume a: "gExpr N ts v \<and> ar_isFinite N v"
  then have "parseExpr N (ts @ []) = exprLoop N v []" using parse_complete(1) [of N ts v "[]"] by (simp add: stopsTerm_def)
  then show "evaluateTokens N ts = Inr v" using a by (simp add: evaluateTokens_def)
qed

text \<open>The tokenizer drops white space only, and splits into operators and maximal runs of digits and dots.\<close>

definition wfToken :: "string \<Rightarrow> bool" where
  "wfToken t = ((\<exists>c. t = [c] \<and> isOperator c) \<or> (t \<noteq> [] \<and> list_all isNumChar t))"

lemma operator_not_num: "isOperator c \<Longrightarrow> \<not> isNumChar c \<and> \<not> isSpace c"
  by (auto simp: isOperator_def isNumChar_def isDigit_def isSpace_def)

lemma num_not_space: "isNumChar c \<Longrightarrow> \<not> isSpace c"
  by (auto simp: isNumChar_def isDigit_def isSpace_def)

lemma tokenizeFrom_text: "tokenizeFrom s = Inr ts \<Longrightarrow> concat ts = filter (\<lambda>c. \<not> isSpace c) s \<and> (\<forall>t \<in> set ts. wfToken t)"
proof (induction s arbitrary: ts rule: tokenizeFrom.induct)
  case (2 c cs)
  show ?case
  proof (cases "isSpace c \<or> isOperator c \<or> \<not> isNumChar c")
    case True
    then show ?thesis using 2 operator_not_num
      by (auto simp: wfToken_def map_sum_def split: if_splits sum.splits)
  next
    case False
    then obtain us where us: "ts = (c # takeWhile isNumChar cs) # us" "tokenizeFrom (dropWhile isNumChar cs) = Inr us"
      using 2(4) by (cases "tokenizeFrom (dropWhile isNumChar cs)") auto
    have "filter (\<lambda>c. \<not> isSpace c) cs = takeWhile isNumChar cs @ filter (\<lambda>c. \<not> isSpace c) (dropWhile isNumChar cs)"
      by (subst takeWhile_dropWhile_id [of isNumChar cs, symmetric], unfold filter_append)
         (auto simp: filter_id_conv num_not_space dest: set_takeWhileD)
    then show ?thesis using False us 2(3) [of us] num_not_space [of c]
      by (auto simp: wfToken_def list_all_iff dest: set_takeWhileD)
  qed
qed simp

text \<open>Tokens written with a space between them are read back.\<close>

lemma tokenizeFrom_token:
  assumes "wfToken t" "r = [] \<or> (\<exists>r'. r = CHR '' '' # r')"
  shows "tokenizeFrom (t @ r) = map_sum id ((#) t) (tokenizeFrom r)"
proof -
  have sp: "\<not> isNumChar (CHR '' '')" by (simp add: isNumChar_def isDigit_def)
  from assms(1) consider c where "t = [c]" "isOperator c" | c cs where "t = c # cs" "list_all isNumChar (c # cs)"
    by (cases t) (auto simp: wfToken_def)
  then show ?thesis
  proof cases
    case 1
    then show ?thesis using operator_not_num [of c] by simp
  next
    case 2
    then have "takeWhile isNumChar (cs @ r) = cs" "dropWhile isNumChar (cs @ r) = r"
      using assms(2) sp by (auto simp: list_all_iff takeWhile_append dropWhile_append)
    then show ?thesis using 2 operator_not_num [of c] num_not_space [of c] by auto
  qed
qed

lemma tokenizeFrom_join: "list_all wfToken ts \<Longrightarrow> tokenizeFrom (joinWith '' '' ts) = Inr ts"
proof (induction ts)
  case (Cons t us)
  then show ?case
    using tokenizeFrom_token [of t "[]"] tokenizeFrom_token [of t "CHR '' '' # joinWith '' '' us"]
    by (cases us) (auto simp: isSpace_def)
qed simp

lemma decimalLiteral_wf: "decimalLiteral t \<Longrightarrow> wfToken t"
  by (auto simp: decimalLiteral_def wfToken_def)

lemma wfToken_operators [simp]: "wfToken ''+''" "wfToken ''-''" "wfToken ''*''" "wfToken ''/''" "wfToken ''%''"
  "wfToken ''(''" "wfToken '')''"
  by (auto simp: wfToken_def isOperator_def)

lemma grammar_wf:
  "gExpr N xs v \<Longrightarrow> list_all wfToken xs" "gTerm N xs v \<Longrightarrow> list_all wfToken xs"
  "gFactor N xs v \<Longrightarrow> list_all wfToken xs" "gPrimary N xs v \<Longrightarrow> list_all wfToken xs"
  by (induction rule: gExpr_gTerm_gFactor_gPrimary.inducts)
     (auto simp: numberToken_def decimalLiteral_wf split: if_splits)

lemma gExpr_ne: "gExpr N xs v \<Longrightarrow> xs \<noteq> []"
  using parse_complete(1) [of N xs v "[]"] by (auto simp: stopsTerm_def parseExpr.simps parseTerm.simps)

text \<open>The grammar is unambiguous, and each sentence in printed form evaluates to its value.\<close>

lemma grammar_unambiguous: "gExpr N ts v \<Longrightarrow> gExpr N ts w \<Longrightarrow> v = w"
  using parse_complete(1) [of N ts v "[]"] parse_complete(1) [of N ts w "[]"] by (simp add: stopsTerm_def)

lemma sentence_evaluates:
  "gExpr N ts v \<Longrightarrow> ar_isFinite N v \<Longrightarrow> evaluateExpression N (joinWith '' '' ts) = Inr v"
  using tokenizeFrom_join [OF grammar_wf(1), of N ts v] gExpr_ne [of N ts v]
  by (auto simp: evaluateExpression_def tokenizeExpr_def evaluateTokens_grammar)

text \<open>Property C32: the evaluator returns a value exactly for the sentences of the grammar, and then the
  value of the sentence.\<close>

theorem evaluate_grammar:
  "evaluateExpression N s = Inr v \<longleftrightarrow> (\<exists>ts. tokenizeFrom s = Inr ts \<and> gExpr N ts v \<and> ar_isFinite N v)"
  by (auto simp: evaluateExpression_def tokenizeExpr_def evaluateTokens_grammar dest: gExpr_ne split: sum.splits)

text \<open>Integer arithmetic as an instance, with truncating division as far as it is exact.\<close>

definition intArith :: "int arith" where
  "intArith = \<lparr>ar_ofDecimal = (\<lambda>t. int (digitsVal (filter isDigit t))), ar_isFinite = (\<lambda>_. True), ar_isZero = (\<lambda>n. n = 0),
     ar_add = (+), ar_sub = (-), ar_mul = (*), ar_div = (div), ar_mod = (mod), ar_neg = uminus\<rparr>"

lemma precedence_example:
  "evaluateExpression intArith ''2 - 3 - 4 * (1 - -5) / 2'' = Inr (- 13)"
  "evaluateExpression intArith ''8 % (3 - 3)'' = Inl ''Modulo by zero.''"
  "evaluateExpression intArith ''1.2.3'' = Inl ''Unexpected token \"1.2.3\" in expression.''"
  "evaluateExpression intArith ''(1 + 2'' = Inl ''Unexpected end of expression.''"
  by (code_simp)+

end
