(* ===== verification/Playground_Tools.thy ===== *)
theory Playground_Tools
  imports Calculator Sdk_App
begin

text \<open>The playground's own tools and agent (\<open>apps/playground/backend/src/tools\<close>, \<open>agent.ts\<close>): the demo-owned
  time budget around each tool, the weather tool over its two fixed hosts, the calculator over the
  evaluator of \<open>Calculator\<close>, and the tool that is made to fail.

  \<open>fetch\<close> is a parameter, as are zod's messages (\<open>zodIssues\<close>, \<open>zodMessage\<close>), the em dash with its spaces, and the
  arithmetic of numbers.  Coordinates are integers, as numbers of JSON values are.\<close>

section \<open>The budget\<close>

type_synonym tool_execute = "json option \<Rightarrow> ToolContext \<Rightarrow> nat \<Rightarrow> nat option \<times> (string option + json option)"

definition breachMessage :: "string \<Rightarrow> nat \<Rightarrow> string" where
  "breachMessage name budgetMs = ''Tool \"'' @ name @ ''\" exceeded its demo-owned budget of '' @ natToString budgetMs @ ''ms.''"

text \<open>The budget's timer is created before the execution starts: it comes first on a tie.\<close>

definition budgeted :: "string \<Rightarrow> nat \<Rightarrow> tool_execute \<Rightarrow> tool_execute" where
  "budgeted name budgetMs execute = (\<lambda>input ctx now.
     let (d, r) = execute input ctx now in
     case race [(Some (timerDelay budgetMs), Inl (Some (breachMessage name budgetMs))), (d, r)] of
       Some (t, x) \<Rightarrow> (Some t, x)
     | None \<Rightarrow> (None, r))"

type_synonym budgets = "(string, nat) jsmap"

definition withBudget :: "SdkTool \<Rightarrow> nat \<Rightarrow> budgets \<Rightarrow> (js_error + SdkTool) \<times> budgets" where
  "withBudget def budgetMs bs =
     (tool \<lparr>rw_name = Some (JStr (sl_name def)), rw_description = Some (JStr (sl_description def)),
        rw_inputSchema = Some (rt_inputSchema (sl_runner def)),
        rw_execute = Some (budgeted (sl_name def) budgetMs (rt_execute (sl_runner def)))\<rparr>,
      js_set (sl_name def) budgetMs bs)"

text \<open>\<open>listDemoBudgets\<close> is the map's entries: the list itself.\<close>

section \<open>Input schemas\<close>

text \<open>\<open>z.object\<close> of one string field, unknown keys stripped.\<close>

definition stringField :: "(json option \<Rightarrow> json) \<Rightarrow> string \<Rightarrow> bool \<Rightarrow> nat \<Rightarrow> nat \<Rightarrow> json option \<Rightarrow> json + json option" where
  "stringField zodIssues k required lo hi input = (case input of
      Some (JObj ps) \<Rightarrow> (case map_of ps k of
          Some (JStr s) \<Rightarrow> if lo \<le> length s \<and> length s \<le> hi then Inr (Some (JObj [(k, JStr s)])) else Inl (zodIssues input)
        | Some _ \<Rightarrow> Inl (zodIssues input)
        | None \<Rightarrow> if required then Inl (zodIssues input) else Inr (Some (JObj [])))
    | _ \<Rightarrow> Inl (zodIssues input))"

definition inputText :: "string \<Rightarrow> json option \<Rightarrow> string" where
  "inputText k input = (case input of Some (JObj [(k', JStr s)]) \<Rightarrow> s | _ \<Rightarrow> [])"

section \<open>The weather tool\<close>

definition GEOCODE_URL :: string where "GEOCODE_URL = ''https://geocoding-api.open-meteo.com/v1/search''"
definition FORECAST_URL :: string where "FORECAST_URL = ''https://api.open-meteo.com/v1/forecast''"

text \<open>A response; \<open>json()\<close> rejects with a message or gives the body.\<close>

record FetchLike =
  fl_ok :: bool
  fl_status :: nat
  fl_json :: "string + json"

type_synonym fetch_like = "string \<Rightarrow> string + FetchLike"

text \<open>\<open>z.object\<close> without \<open>strict\<close>: unknown keys are allowed.\<close>

definition looseObj :: "(string \<times> bool \<times> (json \<Rightarrow> bool)) list \<Rightarrow> json \<Rightarrow> bool" where
  "looseObj fs j = (case j of JObj ps \<Rightarrow>
       list_all (\<lambda>(k, req, good). case map_of ps k of None \<Rightarrow> \<not> req | Some v \<Rightarrow> good v) fs
     | _ \<Rightarrow> False)"

definition zNum :: "json \<Rightarrow> bool" where
  "zNum j = (case j of JNum _ \<Rightarrow> True | _ \<Rightarrow> False)"

definition GeocodeResponseSchema :: "json \<Rightarrow> bool" where
  "GeocodeResponseSchema = looseObj [(''results'', False, zArray (looseObj
     [(''name'', True, zString), (''latitude'', True, zNum), (''longitude'', True, zNum), (''country'', False, zString)]))]"

definition ForecastResponseSchema :: "json \<Rightarrow> bool" where
  "ForecastResponseSchema = looseObj [(''current'', True, looseObj
     [(''temperature_2m'', True, zNum), (''wind_speed_10m'', True, zNum), (''weather_code'', True, zNum)])]"

definition numProp :: "string \<Rightarrow> json \<Rightarrow> int" where
  "numProp k j = (case getProp k j of Some (JNum i) \<Rightarrow> i | _ \<Rightarrow> 0)"

definition firstPlace :: "json \<Rightarrow> json option" where
  "firstPlace geo = (case getProp ''results'' geo of Some (JArr (p # _)) \<Rightarrow> Some p | _ \<Rightarrow> None)"

definition geocodeUrl :: "string \<Rightarrow> string" where
  "geocodeUrl city = GEOCODE_URL @ ''?name='' @ encodeURIComponent city @ ''&count=1''"

definition forecastUrl :: "json \<Rightarrow> string" where
  "forecastUrl place = FORECAST_URL @ ''?latitude='' @ intToString (numProp ''latitude'' place) @ ''&longitude='' @
     intToString (numProp ''longitude'' place) @ ''&current=temperature_2m,wind_speed_10m,weather_code''"

definition weatherResult :: "json \<Rightarrow> json \<Rightarrow> json" where
  "weatherResult place forecast = (let current = the (getProp ''current'' forecast) in JObj
     [(''city'', the (getProp ''name'' place)),
      (''country'', (case getProp ''country'' place of Some c \<Rightarrow> c | None \<Rightarrow> JNull)),
      (''temperatureC'', the (getProp ''temperature_2m'' current)),
      (''windSpeedKmh'', the (getProp ''wind_speed_10m'' current)),
      (''weatherCode'', the (getProp ''weather_code'' current))])"

text \<open>One request: its body, checked by the schema, or the message of the error that it throws.\<close>

definition fetchParsed :: "(json \<Rightarrow> string) \<Rightarrow> fetch_like \<Rightarrow> string \<Rightarrow> (json \<Rightarrow> bool) \<Rightarrow> string \<Rightarrow> string + json" where
  "fetchParsed zodMessage fetch what schema u = (case fetch u of Inl e \<Rightarrow> Inl e
     | Inr res \<Rightarrow> if \<not> fl_ok res then Inl (what @ '' request failed with status '' @ natToString (fl_status res) @ ''.'')
         else (case fl_json res of Inl e \<Rightarrow> Inl e
           | Inr j \<Rightarrow> if schema j then Inr j else Inl (zodMessage j)))"

text \<open>The result with the URLs that are requested, in order.\<close>

definition getWeather :: "(json \<Rightarrow> string) \<Rightarrow> fetch_like \<Rightarrow> string \<Rightarrow> string list \<times> (string + json)" where
  "getWeather zodMessage fetch city =
     (case fetchParsed zodMessage fetch ''Geocoding'' GeocodeResponseSchema (geocodeUrl city) of
        Inl e \<Rightarrow> ([geocodeUrl city], Inl e)
      | Inr geo \<Rightarrow> (case firstPlace geo of
          None \<Rightarrow> ([geocodeUrl city], Inl (''No location found for \"'' @ city @ ''\".''))
        | Some place \<Rightarrow> ([geocodeUrl city, forecastUrl place],
            map_sum id (weatherResult place)
              (fetchParsed zodMessage fetch ''Forecast'' ForecastResponseSchema (forecastUrl place)))))"

section \<open>The tools\<close>

text \<open>The surroundings: \<open>fetch\<close> with the time a weather lookup takes, if it ends.\<close>

record 'n demoEnv =
  de_fetch :: fetch_like
  de_latency :: "string \<Rightarrow> nat option"
  de_arith :: "'n arith"
  de_number :: "'n \<Rightarrow> json"
  de_zodIssues :: "json option \<Rightarrow> json"
  de_zodMessage :: "json \<Rightarrow> string"
  de_dash :: string

definition UNRELIABLE_HANG_MS :: nat where "UNRELIABLE_HANG_MS = 60000"

definition createGetWeatherTool :: "'n demoEnv \<Rightarrow> js_error + SdkTool" where
  "createGetWeatherTool E = tool \<lparr>rw_name = Some (JStr ''get_weather''),
     rw_description = Some (JStr ''Get current weather conditions (temperature, wind, weather code) for a named city.''),
     rw_inputSchema = Some (stringField (de_zodIssues E) ''city'' True 1 100),
     rw_execute = Some (\<lambda>input ctx now. let city = inputText ''city'' input in
       (de_latency E city, map_sum Some Some (snd (getWeather (de_zodMessage E) (de_fetch E) city))))\<rparr>"

definition calculateTool :: "'n demoEnv \<Rightarrow> js_error + SdkTool" where
  "calculateTool E = tool \<lparr>rw_name = Some (JStr ''calculate''),
     rw_description = Some (JStr ''Evaluate an arithmetic expression (numbers, + - * / %, parentheses). Safe parser, no code execution.''),
     rw_inputSchema = Some (stringField (de_zodIssues E) ''expression'' True 1 200),
     rw_execute = Some (\<lambda>input ctx now. let expression = inputText ''expression'' input in
       (Some 0, map_sum Some (\<lambda>n. Some (JObj [(''expression'', JStr expression), (''result'', de_number E n)]))
          (evaluateExpression (de_arith E) expression)))\<rparr>"

definition unreliableServiceTool :: "'n demoEnv \<Rightarrow> js_error + SdkTool" where
  "unreliableServiceTool E = tool \<lparr>rw_name = Some (JStr ''unreliable_service''),
     rw_description = Some (JStr (''Check the status of a deliberately unreliable demo dependency. '' @
       ''This call is expected to exceed its time budget and fail.'')),
     rw_inputSchema = Some (stringField (de_zodIssues E) ''probe'' False 0 100),
     rw_execute = Some (\<lambda>input ctx now. (Some (timerDelay UNRELIABLE_HANG_MS),
       Inr (Some (JObj [(''status'', JStr (''unreachable'' @ de_dash E @ ''you should never see this result''))]))))\<rparr>"

text \<open>Each tool with its budget; the first error a definition throws ends the module.\<close>

fun withBudgets :: "((js_error + SdkTool) \<times> nat) list \<Rightarrow> budgets \<Rightarrow> (js_error + SdkTool list) \<times> budgets" where
  "withBudgets [] bs = (Inr [], bs)"
| "withBudgets ((Inl e, b) # ts) bs = (Inl e, bs)"
| "withBudgets ((Inr t, b) # ts) bs = (case withBudget t b bs of
      (Inl e, bs') \<Rightarrow> (Inl e, bs')
    | (Inr t', bs') \<Rightarrow> (case withBudgets ts bs' of (r, bs'') \<Rightarrow> (map_sum id ((#) t') r, bs'')))"

definition playgroundTools :: "'n demoEnv \<Rightarrow> (js_error + SdkTool list) \<times> budgets" where
  "playgroundTools E = withBudgets
     [(createGetWeatherTool E, 5000), (calculateTool E, 1000), (unreliableServiceTool E, 1500)] []"

definition playgroundModel :: "(string \<Rightarrow> string option) \<Rightarrow> string" where
  "playgroundModel env = (case env ''PLAYGROUND_MODEL'' of Some m \<Rightarrow> m | None \<Rightarrow> ''anthropic/claude-3-5-haiku'')"

definition playgroundSystem :: "string \<Rightarrow> string" where
  "playgroundSystem dash = ''You are the Swift Agent playground assistant. Use get_weather for weather '' @
     ''questions and calculate for arithmetic. Call unreliable_service only when '' @
     ''explicitly asked'' @ dash @ ''it is expected to fail.''"

definition playgroundAgent :: "appEnv \<Rightarrow> SdkTool list \<Rightarrow> js_error + AgentDefinition" where
  "playgroundAgent env tools = defineAgent env \<lparr>sg_fields = JObj
     [(''name'', JStr ''playground-assistant''), (''model'', JStr (playgroundModel (ae_env env))),
      (''maxTokens'', JNum 1024), (''system'', JStr (playgroundSystem (ae_dash env)))], sg_tools = Some tools\<rparr>"

section \<open>Facts\<close>

text \<open>A budgeted execution settles within its budget; it is the tool's own if that is strictly earlier, and the
  breach otherwise.\<close>

lemma budgeted_settles: "budgeted name b execute input ctx now =
    (case execute input ctx now of
       (Some d, r) \<Rightarrow> if d < timerDelay b then (Some d, r) else (Some (timerDelay b), Inl (Some (breachMessage name b)))
     | (None, r) \<Rightarrow> (Some (timerDelay b), Inl (Some (breachMessage name b))))"
  by (auto simp: budgeted_def split: prod.splits option.splits)

lemma budgeted_within: "\<exists>d r. budgeted name b execute input ctx now = (Some d, r) \<and> d \<le> timerDelay b"
  by (auto simp: budgeted_settles split: prod.splits option.splits)

lemma unreliable_fails:
  assumes "unreliableServiceTool E = Inr t" "withBudget t 1500 bs = (Inr t', bs')"
  shows "rt_execute (sl_runner t') input ctx now = (Some 1500, Inl (Some (breachMessage ''unreliable_service'' 1500)))"
  using assms by (auto simp: unreliableServiceTool_def withBudget_def tool_def budgeted_settles
      timerDelay_def UNRELIABLE_HANG_MS_def)

text \<open>The city cannot leave its query parameter: what is inserted is percent-encoded.\<close>

definition queryChar :: "char \<Rightarrow> bool" where
  "queryChar c = (isUriUnreserved c \<or> c = CHR ''%'')"

lemma hexUpper_unreserved: "n < 16 \<Longrightarrow> isUriUnreserved (hexUpper n)"
  by (auto simp: isUriUnreserved_def hexUpper_def isAlpha_def)

lemma utf8Bytes_lt: "b \<in> set (utf8Bytes c) \<Longrightarrow> b < 256"
proof -
  have "(of_char c :: nat) div 64 < 4" using of_char_lt [of c] by (intro less_mult_imp_div_less) simp
  then show "b \<in> set (utf8Bytes c) \<Longrightarrow> b < 256" by (auto simp: utf8Bytes_def Let_def split: if_splits)
qed

lemma encodeURIComponent_chars: "list_all queryChar (encodeURIComponent s)"
proof -
  have "b div 16 < 16" if "b \<in> set (utf8Bytes c)" for b c
    using utf8Bytes_lt [OF that] by (simp add: less_mult_imp_div_less)
  then show ?thesis
    by (auto simp: encodeURIComponent_def list_all_iff queryChar_def intro!: hexUpper_unreserved)
qed

definition fixedUrl :: "string \<Rightarrow> bool" where
  "fixedUrl u = ((\<exists>q. u = GEOCODE_URL @ ''?name='' @ q @ ''&count=1'' \<and> list_all queryChar q) \<or>
     (\<exists>lat lon. u = FORECAST_URL @ ''?latitude='' @ intToString lat @ ''&longitude='' @ intToString lon @
        ''&current=temperature_2m,wind_speed_10m,weather_code''))"

theorem weather_fixed_hosts: "list_all fixedUrl (fst (getWeather zodMessage fetch city))"
  using encodeURIComponent_chars [of city]
  by (auto simp: getWeather_def geocodeUrl_def forecastUrl_def fixedUrl_def split: sum.splits option.splits)

text \<open>The result carries the values of the two responses.\<close>

lemma weather_result:
  assumes "getWeather zodMessage fetch city = (urls, Inr v)"
  shows "\<exists>geo place forecast. urls = [geocodeUrl city, forecastUrl place] \<and> firstPlace geo = Some place \<and>
    GeocodeResponseSchema geo \<and> ForecastResponseSchema forecast \<and> v = weatherResult place forecast"
  using assms by (auto simp: getWeather_def fetchParsed_def map_sum_def split: sum.splits option.splits if_splits)

text \<open>The agent: three tools under three names, each of which ends within the budget registered for it.\<close>

definition withinBudget :: "budgets \<Rightarrow> SdkTool \<Rightarrow> bool" where
  "withinBudget bs t = (case js_get bs (sl_name t) of None \<Rightarrow> False
     | Some b \<Rightarrow> (\<forall>input ctx now. \<exists>d r. rt_execute (sl_runner t) input ctx now = (Some d, r) \<and> d \<le> b))"

lemma withinBudget_budgeted:
  assumes "js_get bs n = Some b" "b \<le> 2147483647"
  shows "withinBudget bs \<lparr>sl_name = n, sl_description = d, sl_runner = \<lparr>rt_inputSchema = sch, rt_execute = budgeted n b ex\<rparr>\<rparr>"
  using assms budgeted_within [of n b ex] by (auto simp: withinBudget_def timerDelay_def)

lemma playgroundTools_ok:
  "\<exists>tools. playgroundTools E = (Inr tools, [(''get_weather'', 5000), (''calculate'', 1000), (''unreliable_service'', 1500)]) \<and>
     map sl_name tools = [''get_weather'', ''calculate'', ''unreliable_service''] \<and>
     list_all (withinBudget [(''get_weather'', 5000), (''calculate'', 1000), (''unreliable_service'', 1500)]) tools"
  by (simp add: playgroundTools_def createGetWeatherTool_def calculateTool_def unreliableServiceTool_def tool_def
      withBudget_def withinBudget_budgeted)

text \<open>Property C33: each of the three playground tools is defined under its name and settles, on every input and
  whatever \<open>fetch\<close> does, within the budget registered for it.\<close>

theorem demo_tools_bounded:
  "\<exists>tools. playgroundTools E = (Inr tools, [(''get_weather'', 5000), (''calculate'', 1000), (''unreliable_service'', 1500)]) \<and>
     map sl_name tools = [''get_weather'', ''calculate'', ''unreliable_service''] \<and>
     list_all (withinBudget [(''get_weather'', 5000), (''calculate'', 1000), (''unreliable_service'', 1500)]) tools"
  by (rule playgroundTools_ok)

lemma playground_agent_defined:
  assumes "playgroundTools E = (Inr tools, bs)" "playgroundModel (ae_env env) \<noteq> []"
  shows "\<exists>d. playgroundAgent env tools = Inr d \<and> df_tools d = tools \<and> df_name d = ''playground-assistant''"
proof -
  have "map sl_name tools = [''get_weather'', ''calculate'', ''unreliable_service'']"
    using playgroundTools_ok [of E] assms(1) by auto
  then have "firstDuplicate [] (map sl_name tools) = None" by simp
  then show ?thesis using assms(2)
    by (simp add: playgroundAgent_def defineAgent_def SdkAgentConfigSchema_def strictObj_def zMin1_def zString_def
        zIntMin_def strOf_def orElse_def Let_def)
qed

end
