(* ===== verification/Playground_Ui.thy ===== *)
theory Playground_Ui
  imports Provider_Requests Mediator_Props Wire Remote_Executor
begin

text \<open>The playground's frontend: the session controller over the mediator's socket
  (\<open>frontend/src/session.ts\<close>), the tool-call views derived from its log, and what the panels print of the log
  and of the refusals (\<open>components/EventPanel.tsx\<close>, \<open>components/RefusalNotice.tsx\<close>); with the mediator's frame
  schemas (\<open>backend/src/mediator/protocol.ts\<close>), by which the controller tells the mediator's own frames.

  Frames are JSON values that nobody has checked: a property is read as whatever is there, and \<open>toStr\<close> is the
  string conversion of \<open>Provider_Requests\<close>.  A socket is known by its number; what the browser's \<open>WebSocket\<close> does
  with a \<open>send\<close> or \<open>close\<close> is not modelled, the calls are recorded.\<close>

section \<open>The mediator's frames\<close>

definition RefusalReasonSchema :: "json \<Rightarrow> bool" where
  "RefusalReasonSchema = zEnum [''rate_limit_ip'', ''rate_limit_session'', ''message_cap'', ''token_cap'', ''daily_ceiling'',
     ''session_expired'', ''bad_frame'']"

definition SessionLimitsSchema :: "json \<Rightarrow> bool" where
  "SessionLimitsSchema = strictObj [(''messagesPerSession'', True, zIntMin 1), (''tokensPerSession'', True, zIntMin 1),
     (''messageMaxChars'', True, zIntMin 1)]"

definition SessionReadyFrameSchema :: "json \<Rightarrow> bool" where
  "SessionReadyFrameSchema = strictObj [(''type'', True, zLiteral ''session_ready''), (''guestId'', True, zMin1),
     (''sessionId'', True, zMin1), (''expiresAt'', True, zMin1), (''limits'', True, SessionLimitsSchema)]"

definition RefusalFrameSchema :: "json \<Rightarrow> bool" where
  "RefusalFrameSchema = strictObj [(''type'', True, zLiteral ''refusal''), (''reason'', True, RefusalReasonSchema),
     (''message'', True, zMin1), (''retryAfterSeconds'', False, zIntMin 0),
     (''remaining'', False, strictObj [(''messages'', False, zIntMin 0), (''tokens'', False, zIntMin 0)])]"

definition MediatorFrameSchema :: "json \<Rightarrow> bool" where
  "MediatorFrameSchema j = (SessionReadyFrameSchema j \<or> RefusalFrameSchema j)"

section \<open>The controller\<close>

record LoggedEvent =
  le_seq :: nat
  le_at :: int
  le_event :: json

record controller =
  ct_log :: "LoggedEvent list"
  ct_refusals :: "json list"
  ct_seq :: nat
  ct_socket :: "nat option"
  ct_status :: string
  ct_created :: nat

text \<open>What the controller does to its surroundings.  \<open>Uncaught\<close> is an exception that leaves a socket handler.\<close>

datatype uiOut = Opened nat string | Sent nat string | Closed nat | ErrorReported | Uncaught | Changed

definition handleFrame :: "int \<Rightarrow> string \<Rightarrow> controller \<Rightarrow> controller \<times> uiOut list" where
  "handleFrame now raw c = (case parse raw of
      None \<Rightarrow> (c, [ErrorReported])
    | Some j \<Rightarrow>
        if j = JNull then (c, [Uncaught])
        else if isChatFrame j
        then (c\<lparr>ct_log := ct_log c @ [\<lparr>le_seq = ct_seq c, le_at = now, le_event = j\<rparr>], ct_seq := Suc (ct_seq c)\<rparr>, [Changed])
        else if \<not> MediatorFrameSchema j then (c, [])
        else if strProp ''type'' j = Some ''refusal'' then (c\<lparr>ct_refusals := ct_refusals c @ [j]\<rparr>, [Changed])
        else (c, []))"

definition attach :: "string \<Rightarrow> controller \<Rightarrow> controller \<times> uiOut list" where
  "attach u c = (c\<lparr>ct_socket := Some (ct_created c), ct_status := ''connecting'', ct_created := Suc (ct_created c)\<rparr>,
     [Opened (ct_created c) u, Changed])"

definition createPlaygroundController :: "string \<Rightarrow> controller \<times> uiOut list" where
  "createPlaygroundController u = attach u \<lparr>ct_log = [], ct_refusals = [], ct_seq = 0, ct_socket = None,
     ct_status = ''disconnected'', ct_created = 0\<rparr>"

datatype uiEvent = WsOpen nat | WsClose nat | WsError nat | WsMessage nat string int
  | UserSend string | UserDrop | UserRecover

definition onSend :: "string \<Rightarrow> controller \<Rightarrow> controller \<times> uiOut list" where
  "onSend content c = (c, case ct_socket c of None \<Rightarrow> []
     | Some ws \<Rightarrow> [Sent ws (stringify (JObj [(''type'', JStr ''send''), (''content'', JStr content)]))])"

definition onDrop :: "controller \<Rightarrow> controller \<times> uiOut list" where
  "onDrop c = (c\<lparr>ct_socket := None, ct_status := ''disconnected''\<rparr>,
     (case ct_socket c of None \<Rightarrow> [] | Some ws \<Rightarrow> [Closed ws]) @ [Changed])"

fun uiStep :: "string \<Rightarrow> uiEvent \<Rightarrow> controller \<Rightarrow> controller \<times> uiOut list" where
  "uiStep u (WsOpen ws) c = (c\<lparr>ct_status := ''connected''\<rparr>, [Changed])"
| "uiStep u (WsClose ws) c = (if ct_socket c = Some ws then (c\<lparr>ct_status := ''disconnected''\<rparr>, [Changed]) else (c, []))"
| "uiStep u (WsError ws) c = (c, [ErrorReported])"
| "uiStep u (WsMessage ws raw now) c = handleFrame now raw c"
| "uiStep u (UserSend content) c = onSend content c"
| "uiStep u UserDrop c = onDrop c"
| "uiStep u UserRecover c = attach u c"

fun uiRun :: "string \<Rightarrow> uiEvent list \<Rightarrow> controller \<Rightarrow> controller \<times> uiOut list" where
  "uiRun u [] c = (c, [])"
| "uiRun u (e # es) c = (case uiStep u e c of (c', os) \<Rightarrow> (case uiRun u es c' of (c'', os') \<Rightarrow> (c'', os @ os')))"

definition defaultStreamUrl :: "string \<Rightarrow> string \<Rightarrow> string \<Rightarrow> string" where
  "defaultStreamUrl protocol host guestId = (if protocol = ''https:'' then ''wss:'' else ''ws:'') @ ''//'' @ host @
     ''/playground/stream?gid='' @ encodeURIComponent guestId"

text \<open>\<open>fetchSessionInfo\<close>: \<open>body\<close> is \<open>null\<close> when \<open>json()\<close> rejects.  \<^const>\<open>None\<close>: the schema throws.\<close>

definition fetchSessionInfo :: "bool \<Rightarrow> nat \<Rightarrow> json \<Rightarrow> string + json option" where
  "fetchSessionInfo ok status body = (if \<not> ok
     then Inl (case getProp ''message'' body of Some m \<Rightarrow> toStr m
       | None \<Rightarrow> ''POST /playground/session failed: '' @ natToString status)
     else Inr (if SessionReadyFrameSchema body then Some body else None))"

section \<open>Tool-call views\<close>

text \<open>The identifiers are the properties of the event, \<^const>\<open>None\<close> for \<open>undefined\<close>.\<close>

record ToolCallView =
  tv_callId :: "json option"
  tv_toolName :: "json option"
  tv_status :: string
  tv_startedAt :: int
  tv_completedAt :: "int option"
  tv_durationMs :: "int option"

definition endStatus :: "json \<Rightarrow> string" where
  "endStatus j = (if getProp ''status'' j = Some (JStr ''failed'') then ''failed'' else ''completed'')"

definition startView :: "LoggedEvent \<Rightarrow> ToolCallView" where
  "startView e = \<lparr>tv_callId = getProp ''callId'' (le_event e), tv_toolName = getProp ''toolName'' (le_event e),
     tv_status = ''started'', tv_startedAt = le_at e, tv_completedAt = None, tv_durationMs = None\<rparr>"

definition completeView :: "LoggedEvent \<Rightarrow> ToolCallView \<Rightarrow> ToolCallView" where
  "completeView e v = v\<lparr>tv_completedAt := Some (le_at e), tv_durationMs := Some (le_at e - tv_startedAt v),
     tv_status := endStatus (le_event e)\<rparr>"

definition orphanView :: "LoggedEvent \<Rightarrow> ToolCallView" where
  "orphanView e = (startView e)\<lparr>tv_status := endStatus (le_event e), tv_completedAt := Some (le_at e)\<rparr>"

definition viewEvent :: "LoggedEvent \<Rightarrow> (json option, ToolCallView) jsmap \<times> json option list
    \<Rightarrow> (json option, ToolCallView) jsmap \<times> json option list" where
  "viewEvent e s = (case s of (byId, order) \<Rightarrow>
     let cid = getProp ''callId'' (le_event e); ty = strProp ''type'' (le_event e) in
     if ty = Some ''tool_call_started''
     then (if js_has byId cid then (byId, order) else (js_set cid (startView e) byId, order @ [cid]))
     else if ty = Some ''tool_call_completed''
     then (case js_get byId cid of
         Some v \<Rightarrow> (js_set cid (completeView e v) byId, order)
       | None \<Rightarrow> (js_set cid (orphanView e) byId, order @ [cid]))
     else (byId, order))"

definition deriveToolCalls :: "LoggedEvent list \<Rightarrow> ToolCallView list" where
  "deriveToolCalls es = (case fold viewEvent es ([], []) of (byId, order) \<Rightarrow> List.map_filter (js_get byId) order)"

section \<open>What the panels print\<close>

record Row =
  rw_key :: string
  rw_label :: string
  rw_text :: string
  rw_error :: bool

text \<open>Rows are shared between the list and the map of messages: the map holds the row's index.\<close>

abbreviation showProp :: "string \<Rightarrow> json \<Rightarrow> string" where
  "showProp k j \<equiv> (case getProp k j of None \<Rightarrow> ''undefined'' | Some v \<Rightarrow> toStr v)"

definition prettyEvent :: "LoggedEvent \<Rightarrow> Row list \<times> (json option, nat) jsmap \<Rightarrow> Row list \<times> (json option, nat) jsmap" where
  "prettyEvent e s = (case s of (rows, messageRow) \<Rightarrow>
     let j = le_event e; ty = strProp ''type'' j; mid = getProp ''messageId'' j;
         row = (\<lambda>k label t bad. \<lparr>rw_key = k, rw_label = label, rw_text = t, rw_error = bad\<rparr>) in
     if ty = Some ''message_started''
     then (rows @ [row (''msg-'' @ showProp ''messageId'' j) ''assistant'' [] False], js_set mid (length rows) messageRow)
     else if ty = Some ''token''
     then (case js_get messageRow mid of
         Some i \<Rightarrow> (rows[i := (rows ! i)\<lparr>rw_text := rw_text (rows ! i) @ showProp ''text'' j\<rparr>], messageRow)
       | None \<Rightarrow> (rows @ [row (''msg-'' @ showProp ''messageId'' j) ''assistant'' (showProp ''text'' j) False],
           js_set mid (length rows) messageRow))
     else if ty = Some ''tool_call_started''
     then (rows @ [row (''tcs-'' @ natToString (le_seq e)) ''tool''
             (showProp ''toolName'' j @ '' started ('' @ showProp ''callId'' j @ '')'') False], messageRow)
     else if ty = Some ''tool_call_completed''
     then (rows @ [row (''tcc-'' @ natToString (le_seq e)) ''tool''
             (showProp ''toolName'' j @ '' '' @ showProp ''status'' j @ '' ('' @ showProp ''callId'' j @ '')'')
             (getProp ''status'' j = Some (JStr ''failed''))], messageRow)
     else if ty = Some ''run_failed''
     then (rows @ [row (''rf-'' @ natToString (le_seq e)) ''run failed''
             (showProp ''code'' j @ '': '' @ showProp ''message'' j) True], messageRow)
     else (rows, messageRow))"

definition prettyRows :: "LoggedEvent list \<Rightarrow> Row list" where
  "prettyRows es = fst (fold prettyEvent es ([], []))"

definition HEADLINES :: "(string \<times> string) list" where
  "HEADLINES = [(''rate_limit_ip'', ''Too many sessions from your address''), (''rate_limit_session'', ''Slow down a moment''),
     (''message_cap'', ''Message limit reached''), (''token_cap'', ''Token limit reached''),
     (''daily_ceiling'', ''Daily demo budget exhausted''), (''session_expired'', ''Guest session expired''),
     (''bad_frame'', ''That frame was not understood'')]"

text \<open>The lines of a notice: the headline, the message, and the details that are there.\<close>

definition refusalNotice :: "json \<Rightarrow> string option list" where
  "refusalNotice j =
     [case strProp ''reason'' j of Some r \<Rightarrow> map_of HEADLINES r | None \<Rightarrow> None, strProp ''message'' j] @
     (case getProp ''retryAfterSeconds'' j of Some v \<Rightarrow> [Some (''Try again in about '' @ toStr v @ ''s.'')] | None \<Rightarrow> []) @
     (case getProp ''remaining'' j of None \<Rightarrow> []
      | Some r \<Rightarrow> (case getProp ''messages'' r of Some v \<Rightarrow> [Some (''Messages remaining: '' @ toStr v)] | None \<Rightarrow> []) @
          (case getProp ''tokens'' r of Some v \<Rightarrow> [Some (''Tokens remaining: '' @ toStr v)] | None \<Rightarrow> []))"

text \<open>\<open>onSubmit\<close> of the form: a draft of white space only is not sent.\<close>

definition onSubmit :: "string \<Rightarrow> controller \<Rightarrow> controller \<times> uiOut list" where
  "onSubmit draft c = (if trim draft = [] then (c, []) else onSend (trim draft) c)"

section \<open>What the mediator sends is shown\<close>

text \<open>The frames of the mediator's own.\<close>

definition uiFrame :: "json \<Rightarrow> bool" where
  "uiFrame j = (wf_json j \<and> j \<noteq> JNull \<and> \<not> isChatFrame j \<and> (RefusalFrameSchema j \<or> strProp ''type'' j = Some ''session_ready''))"

definition uiText :: "string \<Rightarrow> bool" where
  "uiText t = (isChatText t \<or> (\<exists>j. parse t = Some j \<and> uiFrame j))"

definition uiStreams :: "mediator \<Rightarrow> bool" where
  "uiStreams s = (\<forall>k st. js_get (md_streams s) k = Some st \<longrightarrow> list_all uiText (st_browser st))"

definition goodExtras :: "(string \<times> json) list \<Rightarrow> bool" where
  "goodExtras extras = (extras = [] \<or> (\<exists>n. 0 \<le> n \<and> extras = [(''retryAfterSeconds'', JNum n)]) \<or>
     (\<exists>n. 0 \<le> n \<and> (extras = remaining ''messages'' n \<or> extras = remaining ''tokens'' n)))"

lemma uiFrame_refusal: "m \<noteq> [] \<Longrightarrow> goodExtras extras \<Longrightarrow> uiFrame (refusal r m extras)"
  by (cases r) (auto simp: uiFrame_def goodExtras_def refusal_def remaining_def isChatFrame_def strProp_def CHAT_EVENT_TYPES_def
      RefusalFrameSchema_def strictObj_def zLiteral_def RefusalReasonSchema_def zEnum_def zMin1_def zIntMin_def)

lemma goodExtras_simps [simp]: "goodExtras []" "0 \<le> n \<Longrightarrow> goodExtras [(''retryAfterSeconds'', JNum n)]"
  "0 \<le> n \<Longrightarrow> goodExtras (remaining ''messages'' n)" "0 \<le> n \<Longrightarrow> goodExtras (remaining ''tokens'' n)"
  by (auto simp: goodExtras_def)

lemma uiFrame_ready: "uiFrame (sessionReady c gid g)"
  by (simp add: uiFrame_def sessionReady_def limitsOf_def isChatFrame_def strProp_def CHAT_EVENT_TYPES_def)

lemma uiFrame_expired: "uiFrame expiredFrame" "uiFrame badJson" "uiFrame badShape" "uiFrame dailyCeilingFrame"
  by (simp_all add: expiredFrame_def badJson_def badShape_def dailyCeilingFrame_def uiFrame_refusal)

lemma retryAfter_nonneg: "limiterCheck opts key now hits = (v, hits') \<Longrightarrow> 0 \<le> rv_retryAfterSeconds v"
  by (auto simp: limiterCheck_def Let_def split: if_splits)

lemma uiFrame_inbound: "handleInbound c gid g raw now hits = (Refuse j cl, h) \<Longrightarrow> uiFrame j"
  using retryAfter_nonneg
  by (auto simp: handleInbound_def afterLimiter_def uiFrame_expired
      split: option.splits if_splits prod.splits intro!: uiFrame_refusal)

lemma uiFrame_observed: "j \<in> set (ob_frames (observeChatEvent c g x)) \<Longrightarrow> uiFrame j"
  by (auto simp: observeChatEvent_def observeToken_def observeStarted_def observeEnded_def Let_def
      split: option.splits if_splits list.splits intro!: uiFrame_refusal)

lemma uiText_frame: "uiFrame j \<Longrightarrow> uiText (stringify j)"
  by (auto simp: uiText_def uiFrame_def parse_stringify)

lemma uiText_send: "uiFrame j \<Longrightarrow> list_all uiText (st_browser st) \<Longrightarrow> list_all uiText (st_browser (sendFrame j st))"
  by (simp add: sendFrame_def uiText_frame)

lemma uiText_sends: "(\<And>j. j \<in> set js \<Longrightarrow> uiFrame j) \<Longrightarrow> list_all uiText (st_browser st) \<Longrightarrow>
    list_all uiText (st_browser (fold sendFrame js st))"
  by (induction js arbitrary: st) (auto intro: uiText_send)

lemma uiStreams_set: "uiStreams s \<Longrightarrow> md_streams t = md_streams s \<Longrightarrow> list_all uiText (st_browser st) \<Longrightarrow> uiStreams (setStream k st t)"
  by (auto simp: uiStreams_def setStream_def update_conv')

lemma uiStreams_same: "uiStreams s \<Longrightarrow> md_streams t = md_streams s \<Longrightarrow> uiStreams t"
  by (simp add: uiStreams_def)

lemma uiStreams_get: "uiStreams s \<Longrightarrow> js_get (md_streams s) k = Some st \<Longrightarrow> list_all uiText (st_browser st)"
  by (simp add: uiStreams_def)

lemma uiStreams_with: "uiStreams s \<Longrightarrow> (\<And>st. st_browser (f st) = st_browser st) \<Longrightarrow> uiStreams (withStream k f s)"
  by (auto simp: withStream_def uiStreams_get intro!: uiStreams_set split: option.splits)

lemma uiStreams_handle: "uiStreams s \<Longrightarrow> uiStreams (handleNext c k now s)"
  unfolding handleNext_def Let_def
  by (auto split: option.splits list.splits prod.splits verdict.splits
      intro!: uiStreams_set uiText_send)
     (blast intro: uiFrame_inbound uiStreams_get)+

lemma uiStreams_reserve: "uiStreams s \<Longrightarrow> uiStreams (afterReserve c k now rid available s)"
  unfolding afterReserve_def Let_def
  by (auto split: option.splits sum.splits ReserveResult.splits prod.splits
      intro!: uiStreams_set uiText_send simp: uiFrame_expired intro: uiStreams_get)

lemma uiStreams_upstream: "uiStreams s \<Longrightarrow> uiStreams (onUpstream c k raw ok s)"
  unfolding onUpstream_def Let_def
  by (auto split: option.splits intro!: uiStreams_set uiText_sends
      simp: uiFrame_observed applyObserved_def uiText_def isChatText_def intro: uiStreams_get)

lemma uiStreams_step: "uiStreams s \<Longrightarrow> uiStreams (mediatorStep c e s)"
proof (cases e)
  case (Mint ip now created gid later)
  assume "uiStreams s"
  then show ?thesis unfolding Mint
    by (auto simp: mintGuest_def Let_def split: prod.splits option.splits intro: uiStreams_same)
next
  case (OpenStream i gid now)
  assume "uiStreams s"
  then show ?thesis unfolding OpenStream
    by (auto simp: openStream_def split: option.splits intro!: uiStreams_set uiText_send uiFrame_ready)
next
  case (Sweep now)
  then show "uiStreams s \<Longrightarrow> ?thesis" by (auto simp: mediatorSweep_def Let_def intro: uiStreams_same)
next
  case (SettleRun now r answers available)
  then show "uiStreams s \<Longrightarrow> ?thesis" by (auto simp: settleRun_def intro: uiStreams_same split: option.split)
qed (simp_all add: uiStreams_with uiStreams_handle uiStreams_reserve uiStreams_upstream)

lemma uiStreams_run: "uiStreams (runSteps (mediatorStep c) ops newMediator)"
proof -
  have "uiStreams s \<Longrightarrow> uiStreams (runSteps (mediatorStep c) ops s)" for s
    by (induction ops arbitrary: s) (auto intro: uiStreams_step)
  moreover have "uiStreams newMediator" by (simp add: uiStreams_def newMediator_def)
  ultimately show ?thesis by blast
qed

text \<open>The controller on a sequence of frames, each with its arrival time.\<close>

definition deliver :: "string \<Rightarrow> nat \<Rightarrow> (string \<times> int) list \<Rightarrow> controller \<Rightarrow> controller \<times> uiOut list" where
  "deliver u ws frames c = uiRun u (map (\<lambda>(t, w). WsMessage ws t w) frames) c"

lemma deliver_simps [simp]: "deliver u ws [] c = (c, [])"
  "deliver u ws ((t, w) # fs) c = (case handleFrame w t c of (c', os) \<Rightarrow> (case deliver u ws fs c' of (c'', os') \<Rightarrow> (c'', os @ os')))"
  by (simp_all add: deliver_def)

definition refusalsIn :: "string list \<Rightarrow> json list" where
  "refusalsIn ts = filter (\<lambda>j. strProp ''type'' j = Some ''refusal'') (List.map_filter parse ts)"

lemma refusal_not_ready: "RefusalFrameSchema j \<Longrightarrow> strProp ''type'' j = Some ''refusal''"
  by (auto simp: RefusalFrameSchema_def strictObj_def zLiteral_def strProp_def split: json.splits option.splits)

lemma ready_not_refusal: "RefusalFrameSchema j \<Longrightarrow> strProp ''type'' j \<noteq> Some ''session_ready''"
  by (simp add: refusal_not_ready)

lemma chat_not_refusal: "isChatFrame j \<Longrightarrow> strProp ''type'' j \<noteq> Some ''refusal''"
  by (auto simp: isChatFrame_def CHAT_EVENT_TYPES_def)

lemma isChatFrame_null: "\<not> isChatFrame JNull"
  by (simp add: isChatFrame_def strProp_def)

text \<open>Each frame has one place.\<close>

lemma deliver_split:
  assumes "list_all (\<lambda>(t, w). uiText t) fs" "deliver u ws fs c = (c', os)"
  shows "map le_event (ct_log c') = map le_event (ct_log c) @ List.map_filter parse (filter isChatText (map fst fs))"
    and "ct_refusals c' = ct_refusals c @ refusalsIn (map fst fs)"
    and "list_all RefusalFrameSchema (refusalsIn (map fst fs))"
    and "ErrorReported \<notin> set os \<and> Uncaught \<notin> set os"
  using assms
proof (atomize (full), induction fs arbitrary: c c' os)
  case Nil
  then show ?case by (simp add: refusalsIn_def List.map_filter_def)
next
  case (Cons f fs)
  obtain t w where f: "f = (t, w)" by (cases f)
  obtain c1 os1 os2 where d: "handleFrame w t c = (c1, os1)" "deliver u ws fs c1 = (c', os2)" "os = os1 @ os2"
    using Cons.prems f by (auto split: prod.splits)
  note IH = Cons.IH [of c1 c' os2]
  obtain j where j: "parse t = Some j" using Cons.prems f by (auto simp: uiText_def isChatText_def split: option.splits)
  consider "isChatFrame j" | "\<not> isChatFrame j" "RefusalFrameSchema j" "j \<noteq> JNull"
    | "\<not> isChatFrame j" "strProp ''type'' j = Some ''session_ready''" "j \<noteq> JNull"
    using Cons.prems f j by (auto simp: uiText_def isChatText_def uiFrame_def)
  then show ?case
  proof cases
    case 1
    then show ?thesis using IH d j Cons.prems f isChatFrame_null chat_not_refusal [OF 1]
      by (auto simp: handleFrame_def isChatText_def refusalsIn_def List.map_filter_simps split: if_splits)
  next
    case 2
    then show ?thesis using IH d j Cons.prems f refusal_not_ready [OF 2(2)]
      by (auto simp: handleFrame_def isChatText_def refusalsIn_def List.map_filter_simps MediatorFrameSchema_def split: if_splits)
  next
    case 3
    then show ?thesis using IH d j Cons.prems f
      by (auto simp: handleFrame_def isChatText_def refusalsIn_def List.map_filter_simps split: if_splits)
  qed
qed

lemma headline_known: "RefusalFrameSchema j \<Longrightarrow> \<exists>h. hd (refusalNotice j) = Some h"
  by (auto simp: RefusalFrameSchema_def strictObj_def RefusalReasonSchema_def zEnum_def refusalNotice_def strProp_def HEADLINES_def
      split: json.splits option.splits)

text \<open>Property C31: whatever browsers and runtime do, a page that receives the frames of a stream logs the chat events that were
  relayed on it, in order and unchanged, lists the mediator's refusals, in order, each with its headline, and no
  frame is an error to it.\<close>

theorem playground_renders:
  assumes "js_get (md_streams (runSteps (mediatorStep c) ops newMediator)) k = Some st" "map fst frames = st_browser st"
    and "deliver u 0 frames (fst (createPlaygroundController u)) = (ui, outs)"
  shows "map le_event (ct_log ui) = List.map_filter parse (relayed k (runSteps (mediatorStep c) ops newMediator)) \<and>
    ct_refusals ui = refusalsIn (st_browser st) \<and>
    list_all (\<lambda>j. RefusalFrameSchema j \<and> hd (refusalNotice j) \<noteq> None) (ct_refusals ui) \<and>
    ErrorReported \<notin> set outs \<and> Uncaught \<notin> set outs"
proof -
  have "list_all uiText (map fst frames)" using uiStreams_get [OF uiStreams_run assms(1)] assms(2) by simp
  then have ok: "list_all (\<lambda>(t, w). uiText t) frames" by (auto simp: list_all_iff)
  have "List.map_filter parse (filter isChatText (map fst frames)) =
      List.map_filter parse (relayed k (runSteps (mediatorStep c) ops newMediator))"
    by (simp add: relayed_def assms(1,2))
  moreover have "list_all (\<lambda>j. RefusalFrameSchema j \<and> hd (refusalNotice j) \<noteq> None) (refusalsIn (st_browser st))"
    using deliver_split(3) [OF ok assms(3)] headline_known assms(2) by (auto simp: list_all_iff)
  ultimately show ?thesis using deliver_split(1,2,4) [OF ok assms(3)] assms(2)
    by (simp add: createPlaygroundController_def attach_def)
qed

definition exToken :: json where
  "exToken = JObj [(''type'', JStr ''token''), (''text'', JStr ''hi'')]"

definition exText :: string where
  "exText = stringify exToken"

definition exPage :: "mediatorOp list" where
  "exPage = exOpened @ [OnUpstream 1 exText True]"

definition exStream :: stream where
  "exStream = the (js_get (md_streams (runSteps (mediatorStep exConfig) exPage newMediator)) 1)"

definition exUi :: "controller \<times> uiOut list" where
  "exUi = deliver [] 0 (map (\<lambda>t. (t, 0)) (st_browser exStream)) (fst (createPlaygroundController []))"

lemma exText_chat: "isChatText exText" "parse exText = Some exToken"
proof -
  show p: "parse exText = Some exToken"
    unfolding exText_def by (rule parse_stringify) (simp add: exToken_def)
  show "isChatText exText" unfolding isChatText_def p
    by (simp add: exToken_def isChatFrame_def strProp_def CHAT_EVENT_TYPES_def)
qed

lemma exPage_relayed: "js_get (md_streams (runSteps (mediatorStep exConfig) exPage newMediator)) 1 = Some exStream"
  "relayed 1 (runSteps (mediatorStep exConfig) exPage newMediator) = [exText]"
proof -
  let ?s = "runSteps (mediatorStep exConfig) exOpened newMediator"
  have r: "relayed 1 ?s = []"
    by (simp add: exOpened_def newMediator_def mintGuest_def limiterCheck_def timestampsOf_def ipOpts_def exConfig_def Let_def
        openStream_def newGuest_def setStream_def relayed_def own_ready)
  have "steady 1 ?s [exText] (mediatorStep exConfig (OnUpstream 1 exText True) ?s)"
    using steady_step [OF exOpened_attached, where c = exConfig and e = "OnUpstream 1 exText True"] by (simp add: upstreamTexts_def exText_chat)
  then have a: "attached 1 (runSteps (mediatorStep exConfig) exPage newMediator)"
    and l: "relayed 1 (runSteps (mediatorStep exConfig) exPage newMediator) = [exText]"
    using r by (simp_all add: steady_def exPage_def)
  show "relayed 1 (runSteps (mediatorStep exConfig) exPage newMediator) = [exText]" by (rule l)
  show "js_get (md_streams (runSteps (mediatorStep exConfig) exPage newMediator)) 1 = Some exStream"
    using a by (auto simp: attached_def exStream_def split: option.splits)
qed

theorem playground_renders_witness:
  "map le_event (ct_log (fst exUi)) = [exToken]"
  using playground_renders [OF exPage_relayed(1), where u = "[]" and frames = "map (\<lambda>t. (t, 0)) (st_browser exStream)"
      and ui = "fst exUi" and outs = "snd exUi"]
  by (simp add: exUi_def comp_def exPage_relayed(2) [simplified] exText_chat List.map_filter_simps)

section \<open>The tool-call views against their specification\<close>

text \<open>Specification: one view per identifier, in the order of their first events.  The first event of an identifier
  gives the start, the last completion after it the end.\<close>

definition toolEvent :: "LoggedEvent \<Rightarrow> bool" where
  "toolEvent e = (strProp ''type'' (le_event e) \<in> {Some ''tool_call_started'', Some ''tool_call_completed''})"

definition completion :: "LoggedEvent \<Rightarrow> bool" where
  "completion e = (strProp ''type'' (le_event e) = Some ''tool_call_completed'')"

abbreviation callIdOf :: "LoggedEvent \<Rightarrow> json option" where
  "callIdOf e \<equiv> getProp ''callId'' (le_event e)"

definition ownEvents :: "json option \<Rightarrow> LoggedEvent list \<Rightarrow> LoggedEvent list" where
  "ownEvents cid es = filter (\<lambda>e. toolEvent e \<and> callIdOf e = cid) es"

definition specView :: "LoggedEvent list \<Rightarrow> ToolCallView" where
  "specView own = (let first = (if completion (hd own) then orphanView (hd own) else startView (hd own));
       ends = filter completion (tl own)
     in if ends = [] then first else completeView (last ends) first)"

definition specCalls :: "LoggedEvent list \<Rightarrow> ToolCallView list" where
  "specCalls es = map (\<lambda>cid. specView (ownEvents cid es)) (rev (remdups (rev (map callIdOf (filter toolEvent es)))))"

definition viewsOk :: "LoggedEvent list \<Rightarrow> (json option, ToolCallView) jsmap \<times> json option list \<Rightarrow> bool" where
  "viewsOk es s = (snd s = rev (remdups (rev (map callIdOf (filter toolEvent es)))) \<and>
     (\<forall>cid. js_get (fst s) cid = (if ownEvents cid es = [] then None else Some (specView (ownEvents cid es)))))"

lemma ownEvents_empty: "ownEvents cid es = [] \<longleftrightarrow> cid \<notin> callIdOf ` set (filter toolEvent es)"
  by (auto simp: ownEvents_def filter_empty_conv)

lemma completeView_twice: "completeView e (completeView d v) = completeView e v"
  by (simp add: completeView_def)

lemma specView_snoc: "own \<noteq> [] \<Longrightarrow> specView (own @ [e]) = (if completion e then completeView e (specView own) else specView own)"
  by (cases own) (auto simp: specView_def Let_def completeView_twice)

lemma viewsOk_event: "viewsOk es s \<Longrightarrow> viewsOk (es @ [e]) (viewEvent e s)"
proof -
  assume ok: "viewsOk es s"
  let ?ids = "map callIdOf (filter toolEvent es)" and ?cid = "callIdOf e"
  obtain m order where s: "s = (m, order)" by (cases s)
  have order: "order = rev (remdups (rev ?ids))" and m: "\<And>cid. js_get m cid = (if ownEvents cid es = [] then None else Some (specView (ownEvents cid es)))"
    using ok s by (simp_all add: viewsOk_def)
  have seen: "?cid \<in> set ?ids \<longleftrightarrow> ownEvents ?cid es \<noteq> []" by (simp add: ownEvents_empty)
  show ?thesis
  proof (cases "toolEvent e")
    case False
    then have "viewEvent e s = s" "\<And>cid. ownEvents cid (es @ [e]) = ownEvents cid es"
      by (auto simp: viewEvent_def s toolEvent_def ownEvents_def Let_def)
    then show ?thesis using ok False by (simp add: viewsOk_def)
  next
    case True
    let ?new = "specView (ownEvents ?cid es @ [e])" and ?order = "if ownEvents ?cid es = [] then order @ [?cid] else order"
    have own: "ownEvents cid (es @ [e]) = ownEvents cid es @ (if cid = ?cid then [e] else [])" for cid
      using True by (auto simp: ownEvents_def)
    have order': "rev (remdups (rev (map callIdOf (filter toolEvent (es @ [e]))))) = ?order"
      using True seen by (auto simp: order simp del: set_map)
    from True consider "completion e" | "strProp ''type'' (le_event e) = Some ''tool_call_started''" "\<not> completion e"
      by (auto simp: toolEvent_def completion_def)
    then have "\<exists>m'. viewEvent e s = (m', ?order) \<and> (\<forall>cid. js_get m' cid = (if cid = ?cid then Some ?new else js_get m cid))"
    proof cases
      case 1
      then have "viewEvent e s = (js_set ?cid ?new m, ?order)"
        using m [of ?cid] by (simp add: s viewEvent_def completion_def Let_def specView_snoc) (simp add: specView_def completion_def)
      then show ?thesis by (auto simp: update_conv')
    next
      case 2
      show ?thesis
      proof (cases "ownEvents ?cid es = []")
        case True
        then have "viewEvent e s = (js_set ?cid ?new m, ?order)"
          using 2 m [of ?cid] by (simp add: s viewEvent_def completion_def Let_def specView_def)
        then show ?thesis by (auto simp: update_conv')
      next
        case False
        then have "viewEvent e s = (m, ?order)" using 2 m [of ?cid] by (simp add: s viewEvent_def Let_def)
        then show ?thesis using m [of ?cid] False 2 by (auto simp: specView_snoc)
      qed
    qed
    then obtain m' where "viewEvent e s = (m', ?order)" "\<And>cid. js_get m' cid = (if cid = ?cid then Some ?new else js_get m cid)"
      by blast
    then show ?thesis unfolding viewsOk_def order' by (auto simp: own m)
  qed
qed

theorem tool_views_spec: "deriveToolCalls es = specCalls es"
proof -
  have "viewsOk es (fold viewEvent es ([], []))"
  proof (induction es rule: rev_induct)
    case Nil
    then show ?case by (simp add: viewsOk_def ownEvents_def)
  next
    case (snoc e es)
    then show ?case using viewsOk_event by simp
  qed
  then obtain m where f: "fold viewEvent es ([], []) = (m, rev (remdups (rev (map callIdOf (filter toolEvent es)))))"
    and m: "\<And>cid. js_get m cid = (if ownEvents cid es = [] then None else Some (specView (ownEvents cid es)))"
    by (cases "fold viewEvent es ([], [])") (auto simp: viewsOk_def)
  have "List.map_filter (js_get m) cids = map (\<lambda>cid. specView (ownEvents cid es)) cids"
    if "set cids \<subseteq> callIdOf ` set (filter toolEvent es)" for cids
    using that by (induction cids) (auto simp: List.map_filter_simps m ownEvents_empty)
  then show ?thesis by (simp add: deriveToolCalls_def f specCalls_def)
qed

section \<open>After a recovery\<close>

text \<open>\<open>onmessage\<close> is not tied to the current socket: a frame of a socket that was dropped is still logged, and
  its \<open>onopen\<close> still marks the page as connected although it holds no socket.\<close>

lemma late_frames_logged:
  assumes "uiRun u [UserDrop, WsOpen 0, WsMessage 0 exText w] (fst (createPlaygroundController u)) = (c, os)"
  shows "ct_socket c = None \<and> ct_status c = ''connected'' \<and> length (ct_log c) = 1"
  using assms by (auto simp: createPlaygroundController_def attach_def onDrop_def handleFrame_def exText_chat)
     (use exText_chat in \<open>auto simp: isChatText_def exToken_def split: if_splits\<close>)

text \<open>A frame that is the JSON value \<open>null\<close> throws in the handler.\<close>

lemma null_frame_uncaught: "handleFrame w ''null'' c = (c, [Uncaught])"
  using parse_stringify [of JNull] by (simp add: handleFrame_def)

text \<open>A recovery replays the run into the same log.  In the runtime's order of events, where \<open>message_started\<close>
  carries another identifier than the tokens, the reply is then printed twice in one row, and the duration of a call is
  measured to its replayed completion.\<close>

definition logged :: "nat \<Rightarrow> int \<Rightarrow> (string \<times> json) list \<Rightarrow> LoggedEvent" where
  "logged n w ps = \<lparr>le_seq = n, le_at = w, le_event = JObj ps\<rparr>"

definition replayedLog :: "LoggedEvent list" where
  "replayedLog = (let once = (\<lambda>n w. [
      logged n w [(''type'', JStr ''message_started''), (''messageId'', JStr ''msg_user'')],
      logged (n + 1) (w + 1) [(''type'', JStr ''tool_call_started''), (''callId'', JStr ''tc''), (''toolName'', JStr ''calculate'')],
      logged (n + 2) (w + 3) [(''type'', JStr ''tool_call_completed''), (''callId'', JStr ''tc''), (''toolName'', JStr ''calculate''),
        (''status'', JStr ''completed'')],
      logged (n + 3) (w + 4) [(''type'', JStr ''token''), (''messageId'', JStr ''msg_reply''), (''text'', JStr ''42'')]])
    in once 0 0 @ once 4 5000)"

lemma replay_prints_twice: "filter (\<lambda>t. t = ''42'' \<or> t = ''4242'') (map rw_text (prettyRows replayedLog)) = [''4242'']"
  by (simp add: replayedLog_def logged_def prettyRows_def prettyEvent_def Let_def strProp_def)

lemma replay_stretches_duration: "map tv_durationMs (deriveToolCalls replayedLog) = [Some 5002]"
  by (simp add: replayedLog_def logged_def deriveToolCalls_def viewEvent_def Let_def strProp_def startView_def completeView_def
      List.map_filter_simps)

end
