(* ===== verification/Scaffold.thy ===== *)
theory Scaffold
  imports Prelude "HOL-Library.List_Lexorder" "HOL-Library.Char_ord"
begin

text \<open>The package \<open>create-swift-agent\<close>: the flags (\<open>options.ts\<close>, over \<open>parseArgs\<close> of \<open>node:util\<close>), the prompts, and the
  generation of a project from the packaged templates (\<open>generate.ts\<close>).

  The file system is a map from paths (lists of names) to entries.  Every operation on it may fail: \<open>faults k\<close> tells
  whether the \<open>k\<close>-th operation of the process is refused by the operating system.  The packaged templates are a tree
  in the order of \<open>readdirSync\<close>.  \<open>dash\<close> is an em dash with its spaces.\<close>

section \<open>Providers and names\<close>

definition PROVIDERS :: "(string \<times> string \<times> string) list" where
  "PROVIDERS = [(''anthropic'', ''anthropic/claude-sonnet'', ''ANTHROPIC_API_KEY''),
     (''openai'', ''openai/gpt-4o'', ''OPENAI_API_KEY''), (''google'', ''google/gemini-1.5-flash'', ''GOOGLE_API_KEY'')]"

definition PROVIDER_IDS :: "string list" where
  "PROVIDER_IDS = map fst PROVIDERS"

definition isProviderId :: "string \<Rightarrow> bool" where
  "isProviderId v = (v \<in> set PROVIDER_IDS)"

definition DEFAULT_PROVIDER :: string where "DEFAULT_PROVIDER = ''anthropic''"

definition isLowerAlnum :: "char \<Rightarrow> bool" where
  "isLowerAlnum c = (isDigit c \<or> (97 \<le> (of_char c :: nat) \<and> (of_char c :: nat) \<le> 122))"

definition isNameChar :: "char \<Rightarrow> bool" where
  "isNameChar c = (isLowerAlnum c \<or> c \<in> set ''._-'')"

definition validateProjectName :: "string \<Rightarrow> string option" where
  "validateProjectName name = (if name = [] then Some ''Project name is required.''
     else if length name > 100 then Some ''Project name must be 100 characters or fewer.''
     else if isLowerAlnum (hd name) \<and> list_all isNameChar name then None
     else Some (''Invalid project name \"'' @ name @ ''\": use lowercase letters, digits, \".\", \"_\" and \"-\", '' @
       ''starting with a letter or digit (it becomes a directory and an npm package name).''))"

section \<open>Flags\<close>

text \<open>\<open>parseArgs\<close> of \<open>node:util\<close> in strict mode: a string option takes the next argument unless it looks like an
  option; the last value of an option counts.  \<open>NodeError\<close> carries the argument it complains about.\<close>

record ParsedArgs =
  pa_strings :: "(string, string) jsmap"
  pa_flags :: "string list"
  pa_positionals :: "string list"

datatype cliError = NodeError string | CliMessage string

definition stringOptions :: "string list" where
  "stringOptions = [''name'', ''provider'', ''provider-key'']"

definition booleanOptions :: "string list" where
  "booleanOptions = [''yes'', ''no-install'', ''help'']"

text \<open>\<open>--k=v\<close>, where the name is not empty.\<close>

definition inlineValue :: "string \<Rightarrow> (string \<times> string) option" where
  "inlineValue body = (case indexOf (CHR ''='') body of None \<Rightarrow> None
     | Some i \<Rightarrow> if i = 0 then None else Some (take i body, drop (i + 1) body))"

definition optionLike :: "string \<Rightarrow> bool" where
  "optionLike v = (startsWith ''-'' v \<and> length v > 1)"

function nodeParseArgs :: "string list \<Rightarrow> ParsedArgs \<Rightarrow> cliError + ParsedArgs" where
  "nodeParseArgs [] p = Inr p"
| "nodeParseArgs (a # rest) p =
     (if a = ''--'' then Inr (p\<lparr>pa_positionals := pa_positionals p @ rest\<rparr>)
      else if startsWith ''--'' a then
        (case inlineValue (drop 2 a) of
           Some (k, v) \<Rightarrow> if k \<in> set stringOptions then nodeParseArgs rest (p\<lparr>pa_strings := js_set k v (pa_strings p)\<rparr>)
             else Inl (NodeError a)
         | None \<Rightarrow> (let k = drop 2 a in
             if k \<in> set booleanOptions then nodeParseArgs rest (p\<lparr>pa_flags := pa_flags p @ [k]\<rparr>)
             else if k \<in> set stringOptions then
               (case rest of [] \<Rightarrow> Inl (NodeError a)
                | v # rest' \<Rightarrow> if optionLike v then Inl (NodeError a)
                    else nodeParseArgs rest' (p\<lparr>pa_strings := js_set k v (pa_strings p)\<rparr>))
             else Inl (NodeError a)))
      else if optionLike a then Inl (NodeError a)
      else nodeParseArgs rest (p\<lparr>pa_positionals := pa_positionals p @ [a]\<rparr>))"
  by pat_completeness auto
termination
  by (relation "measure (length \<circ> fst)") auto

record CliOptions =
  cli_name :: "string option"
  cli_provider :: "string option"
  cli_providerKey :: "string option"
  cli_yes :: bool
  cli_install :: bool
  cli_help :: bool

definition parseCliArgs :: "string list \<Rightarrow> cliError + CliOptions" where
  "parseCliArgs argv = (case nodeParseArgs argv \<lparr>pa_strings = [], pa_flags = [], pa_positionals = []\<rparr> of Inl e \<Rightarrow> Inl e
     | Inr p \<Rightarrow> (case (js_get (pa_strings p) ''name'', pa_positionals p) of
         (Some n, q # qs) \<Rightarrow> if q \<noteq> n
           then Inl (CliMessage (''Conflicting project names: positional \"'' @ q @ ''\" vs --name \"'' @ n @ ''\".''))
           else if qs \<noteq> [] then Inl (CliMessage (''Unexpected extra arguments: '' @ joinWith '' '' qs))
           else Inr \<lparr>cli_name = Some n, cli_provider = js_get (pa_strings p) ''provider'',
             cli_providerKey = js_get (pa_strings p) ''provider-key'', cli_yes = (''yes'' \<in> set (pa_flags p)),
             cli_install = (''no-install'' \<notin> set (pa_flags p)), cli_help = (''help'' \<in> set (pa_flags p))\<rparr>
       | (n, ps) \<Rightarrow> if length ps > 1 then Inl (CliMessage (''Unexpected extra arguments: '' @ joinWith '' '' (tl ps)))
           else Inr \<lparr>cli_name = (case n of Some m \<Rightarrow> Some m | None \<Rightarrow> (case ps of [] \<Rightarrow> None | q # _ \<Rightarrow> Some q)),
             cli_provider = js_get (pa_strings p) ''provider'',
             cli_providerKey = js_get (pa_strings p) ''provider-key'', cli_yes = (''yes'' \<in> set (pa_flags p)),
             cli_install = (''no-install'' \<notin> set (pa_flags p)), cli_help = (''help'' \<in> set (pa_flags p))\<rparr>))"

section \<open>Prompts\<close>

text \<open>The prompter is the list of the answers that are given; \<open>Waiting\<close>: the resolution waits for an answer that
  does not come.\<close>

record ResolvedOptions =
  ro_name :: string
  ro_provider :: string
  ro_providerKey :: "string option"

datatype resolution = Resolved ResolvedOptions | Failed string | Waiting

fun askName :: "string list \<Rightarrow> (string \<times> string list) option" where
  "askName [] = None"
| "askName (a # as) = (case validateProjectName (trim a) of None \<Rightarrow> Some (trim a, as) | Some e \<Rightarrow> askName as)"

fun askProvider :: "string list \<Rightarrow> (string \<times> string list) option" where
  "askProvider [] = None"
| "askProvider (a # as) = (if trim a = [] then Some (DEFAULT_PROVIDER, as)
     else if isProviderId (trim a) then Some (trim a, as) else askProvider as)"

definition unknownProvider :: "string \<Rightarrow> string \<Rightarrow> string" where
  "unknownProvider dash p = ''Unknown provider \"'' @ p @ ''\"'' @ dash @ ''expected one of: '' @ joinWith '', '' PROVIDER_IDS @ ''.''"

definition askRest :: "CliOptions \<Rightarrow> string list \<Rightarrow> resolution" where
  "askRest o1 answers =
     (case (case cli_name o1 of Some n \<Rightarrow> Some (n, answers) | None \<Rightarrow> askName answers) of
        None \<Rightarrow> Waiting
      | Some (name, as1) \<Rightarrow> (case (case cli_provider o1 of Some p \<Rightarrow> Some (p, as1) | None \<Rightarrow> askProvider as1) of
          None \<Rightarrow> Waiting
        | Some (p, as2) \<Rightarrow> (case cli_providerKey o1 of
            Some k \<Rightarrow> Resolved \<lparr>ro_name = name, ro_provider = p, ro_providerKey = Some k\<rparr>
          | None \<Rightarrow> (case as2 of [] \<Rightarrow> Waiting
              | a # _ \<Rightarrow> Resolved \<lparr>ro_name = name, ro_provider = p,
                  ro_providerKey = (if trim a = [] then None else Some (trim a))\<rparr>))))"

definition resolveChecked :: "CliOptions \<Rightarrow> string list option \<Rightarrow> resolution" where
  "resolveChecked o1 prompter = (case prompter of
      Some answers \<Rightarrow> askRest o1 answers
    | None \<Rightarrow> (case cli_name o1 of
        None \<Rightarrow> Failed (''A project name is required in non-interactive mode: '' @
          ''create-swift-agent <name> [--provider anthropic|openai|google] [--provider-key <key>] --yes'')
      | Some n \<Rightarrow> Resolved \<lparr>ro_name = n, ro_provider = (case cli_provider o1 of Some p \<Rightarrow> p | None \<Rightarrow> DEFAULT_PROVIDER),
          ro_providerKey = cli_providerKey o1\<rparr>))"

definition resolveNamed :: "CliOptions \<Rightarrow> string list option \<Rightarrow> resolution" where
  "resolveNamed o1 prompter = (case cli_name o1 of None \<Rightarrow> resolveChecked o1 prompter
     | Some n \<Rightarrow> (case validateProjectName n of Some e \<Rightarrow> Failed e | None \<Rightarrow> resolveChecked o1 prompter))"

definition resolveOptions :: "string \<Rightarrow> CliOptions \<Rightarrow> string list option \<Rightarrow> resolution" where
  "resolveOptions dash o1 prompter =
     (case cli_provider o1 of
        Some p \<Rightarrow> if isProviderId p then resolveNamed o1 prompter else Failed (unknownProvider dash p)
      | None \<Rightarrow> resolveNamed o1 prompter)"

section \<open>Substitution\<close>

text \<open>A replacement string of \<open>replace\<close> and \<open>replaceAll\<close> is a pattern: \<open>$$\<close> is a dollar, \<open>$&\<close> the match, and the two
  quotes what is before and after it.\<close>

fun expandReplacement :: "string \<Rightarrow> string \<Rightarrow> string \<Rightarrow> string \<Rightarrow> string" where
  "expandReplacement m before after (c # d # r) =
     (if c = CHR ''$'' \<and> d = CHR ''$'' then CHR ''$'' # expandReplacement m before after r
      else if c = CHR ''$'' \<and> d = CHR ''&'' then m @ expandReplacement m before after r
      else if c = CHR ''$'' \<and> d = CHR 0x60 then before @ expandReplacement m before after r
      else if c = CHR ''$'' \<and> d = CHR 0x27 then after @ expandReplacement m before after r
      else c # expandReplacement m before after (d # r))"
| "expandReplacement m before after r = r"

text \<open>The search string is not empty; \<open>seen\<close> is the text before the position, in reverse.\<close>

function replaceAllFrom :: "string \<Rightarrow> string \<Rightarrow> string \<Rightarrow> string \<Rightarrow> string" where
  "replaceAllFrom tok v seen [] = []"
| "replaceAllFrom tok v seen (c # cs) =
     (if tok \<noteq> [] \<and> startsWith tok (c # cs)
      then expandReplacement tok (rev seen) (drop (length tok) (c # cs)) v @
           replaceAllFrom tok v (rev tok @ seen) (drop (length tok) (c # cs))
      else c # replaceAllFrom tok v (c # seen) cs)"
  by pat_completeness auto
termination
  by (relation "measure (\<lambda>(tok, v, seen, s). length s)") (auto simp: neq_Nil_conv)

definition replaceAll :: "string \<Rightarrow> string \<Rightarrow> string \<Rightarrow> string" where
  "replaceAll tok v s = replaceAllFrom tok v [] s"

fun replaceFirstFrom :: "string \<Rightarrow> string \<Rightarrow> string \<Rightarrow> string \<Rightarrow> string" where
  "replaceFirstFrom tok v seen [] = []"
| "replaceFirstFrom tok v seen (c # cs) =
     (if startsWith tok (c # cs)
      then expandReplacement tok (rev seen) (drop (length tok) (c # cs)) v @ drop (length tok) (c # cs)
      else c # replaceFirstFrom tok v (c # seen) cs)"

definition replaceFirst :: "string \<Rightarrow> string \<Rightarrow> string \<Rightarrow> string" where
  "replaceFirst tok v s = replaceFirstFrom tok v [] s"

definition substitute :: "string \<Rightarrow> (string \<times> string) list \<Rightarrow> string" where
  "substitute content vars = fold (\<lambda>(tok, v) s. replaceAll tok v s) vars content"

section \<open>The file system\<close>

datatype fsEntry = Dir | File string

record disk =
  dk_fs :: "string list \<Rightarrow> fsEntry option"
  dk_ops :: nat

datatype genError = Rejected string | OsError

type_synonym 'a fsOp = "disk \<Rightarrow> (genError + 'a) \<times> disk"

definition fsOp :: "(nat \<Rightarrow> bool) \<Rightarrow> ((string list \<Rightarrow> fsEntry option) \<Rightarrow> (genError + 'a) \<times> (string list \<Rightarrow> fsEntry option)) \<Rightarrow> 'a fsOp" where
  "fsOp faults f d = (if faults (dk_ops d) then (Inl OsError, d\<lparr>dk_ops := Suc (dk_ops d)\<rparr>)
     else case f (dk_fs d) of (r, fs) \<Rightarrow> (r, \<lparr>dk_fs = fs, dk_ops = Suc (dk_ops d)\<rparr>))"

definition fsThen :: "'a fsOp \<Rightarrow> ('a \<Rightarrow> 'b fsOp) \<Rightarrow> 'b fsOp" where
  "fsThen m k d = (case m d of (Inl e, d') \<Rightarrow> (Inl e, d') | (Inr x, d') \<Rightarrow> k x d')"

definition isFile :: "(string list \<Rightarrow> fsEntry option) \<Rightarrow> string list \<Rightarrow> bool" where
  "isFile fs p = (case fs p of Some (File _) \<Rightarrow> True | _ \<Rightarrow> False)"

text \<open>\<open>mkdirSync(p, { recursive: true })\<close>: fails if \<open>p\<close> or a directory above it is a file.\<close>

definition mkdirp :: "(nat \<Rightarrow> bool) \<Rightarrow> string list \<Rightarrow> unit fsOp" where
  "mkdirp faults p = fsOp faults (\<lambda>fs. if list_ex (isFile fs) (prefixes p) then (Inl OsError, fs)
     else (Inr (), \<lambda>q. if q \<in> set (prefixes p) \<and> fs q = None then Some Dir else fs q))"

definition writeFile :: "(nat \<Rightarrow> bool) \<Rightarrow> string list \<Rightarrow> string \<Rightarrow> unit fsOp" where
  "writeFile faults p content = fsOp faults (\<lambda>fs. if p = [] \<or> fs (butlast p) \<noteq> Some Dir \<or> fs p = Some Dir then (Inl OsError, fs)
     else (Inr (), fs(p \<mapsto> File content)))"

definition readFile :: "(nat \<Rightarrow> bool) \<Rightarrow> string list \<Rightarrow> string fsOp" where
  "readFile faults p = fsOp faults (\<lambda>fs. case fs p of Some (File s) \<Rightarrow> (Inr s, fs) | _ \<Rightarrow> (Inl OsError, fs))"

definition rmTree :: "(nat \<Rightarrow> bool) \<Rightarrow> string list \<Rightarrow> unit fsOp" where
  "rmTree faults p = fsOp faults (\<lambda>fs. (Inr (), \<lambda>q. if prefix p q then None else fs q))"

text \<open>Reading the packaged templates: the tree does not change, an operation may fail.\<close>

definition readTemplate :: "(nat \<Rightarrow> bool) \<Rightarrow> 'a \<Rightarrow> 'a fsOp" where
  "readTemplate faults x = fsOp faults (\<lambda>fs. (Inr x, fs))"

section \<open>Generation\<close>

datatype template = TFile string string | TDir string "template list"

definition RENAMES :: "(string \<times> string) list" where
  "RENAMES = [(''_gitignore'', ''.gitignore''), (''env.example'', ''.env.example'')]"

definition destName :: "string \<Rightarrow> string" where
  "destName n = (case map_of RENAMES n of Some m \<Rightarrow> m | None \<Rightarrow> n)"

text \<open>\<open>copyTree\<close> is the creation of the directory with \<open>copyEntries\<close>, the loop over its entries; \<open>rel\<close> is the path
  below the project.\<close>

fun copyEntries :: "(nat \<Rightarrow> bool) \<Rightarrow> (string \<times> string) list \<Rightarrow> string list \<Rightarrow> string list \<Rightarrow> template list \<Rightarrow> string list list \<Rightarrow> string list list fsOp" where
  "copyEntries faults vars proj rel [] written = (\<lambda>d. (Inr written, d))"
| "copyEntries faults vars proj rel (TFile n content # ts) written =
     fsThen (readTemplate faults content) (\<lambda>raw.
     fsThen (writeFile faults (proj @ rel @ [destName n]) (substitute raw vars)) (\<lambda>_.
     copyEntries faults vars proj rel ts (written @ [rel @ [destName n]])))"
| "copyEntries faults vars proj rel (TDir n us # ts) written =
     fsThen (mkdirp faults (proj @ rel @ [destName n])) (\<lambda>_.
     fsThen (readTemplate faults us) (\<lambda>_.
     fsThen (copyEntries faults vars proj (rel @ [destName n]) us written) (\<lambda>written'.
     copyEntries faults vars proj rel ts written')))"

definition copyTree :: "(nat \<Rightarrow> bool) \<Rightarrow> (string \<times> string) list \<Rightarrow> string list \<Rightarrow> template list \<Rightarrow> string list list fsOp" where
  "copyTree faults vars proj ts = fsThen (mkdirp faults proj) (\<lambda>_. fsThen (readTemplate faults ts) (\<lambda>_.
     copyEntries faults vars proj [] ts []))"

record GenerateOptions =
  go_name :: string
  go_provider :: string
  go_providerKey :: "string option"
  go_targetDir :: "string list"
  go_templatesDir :: string
  go_templates :: "template list option"

definition projectVars :: "string \<Rightarrow> string \<Rightarrow> string \<Rightarrow> (string \<times> string) list" where
  "projectVars name mdl keyEnv = [(''__PROJECT_NAME__'', name), (''__DEFAULT_MODEL__'', mdl), (''__PROVIDER_KEY_ENV__'', keyEnv)]"

definition envFile :: "string \<Rightarrow> string option \<Rightarrow> string \<Rightarrow> string" where
  "envFile keyEnv key example = (case key of None \<Rightarrow> example
     | Some k \<Rightarrow> if k = [] then example else replaceFirst (keyEnv @ ''='') (keyEnv @ ''='' @ k) example)"

text \<open>The body of the \<open>try\<close>.\<close>

definition writeProject :: "(nat \<Rightarrow> bool) \<Rightarrow> (string \<times> string) list \<Rightarrow> string \<Rightarrow> string option \<Rightarrow> string list \<Rightarrow> template list
    \<Rightarrow> string list list fsOp" where
  "writeProject faults vars keyEnv key proj ts =
     fsThen (copyTree faults vars proj ts) (\<lambda>files.
     fsThen (readFile faults (proj @ [''.env.example''])) (\<lambda>example.
     fsThen (writeFile faults (proj @ [''.env'']) (envFile keyEnv key example)) (\<lambda>_.
     fsThen (mkdirp faults (proj @ [''.swiftagent-local''])) (\<lambda>_ d. (Inr (files @ [[''.env'']]), d)))))"

definition existingDir :: "string \<Rightarrow> string \<Rightarrow> string list \<Rightarrow> string" where
  "existingDir dash name target = ''Directory \"'' @ name @ ''\" already exists in /'' @ joinWith ''/'' target @ dash @
     ''choose a different project name or remove the existing directory.''"

text \<open>An unknown provider is excluded by the type of the options.\<close>

definition generateProject :: "string \<Rightarrow> (nat \<Rightarrow> bool) \<Rightarrow> GenerateOptions \<Rightarrow> string list fsOp" where
  "generateProject dash faults opts d =
     (case validateProjectName (go_name opts) of Some e \<Rightarrow> (Inl (Rejected e), d)
      | None \<Rightarrow> (case map_of PROVIDERS (go_provider opts) of None \<Rightarrow> (Inl OsError, d)
        | Some (mdl, keyEnv) \<Rightarrow> (let proj = go_targetDir opts @ [go_name opts] in
            if dk_fs d proj \<noteq> None then (Inl (Rejected (existingDir dash (go_name opts) (go_targetDir opts))), d)
            else case go_templates opts of None \<Rightarrow> (Inl (Rejected (''Template directory not found: '' @ go_templatesDir opts @ '' (broken installation?)'')), d)
              | Some ts \<Rightarrow> (case writeProject faults (projectVars (go_name opts) mdl keyEnv) keyEnv (go_providerKey opts) proj ts d of
                  (Inr files, d') \<Rightarrow> (Inr (sort (map (joinWith ''/'') files)), d')
                | (Inl e, d') \<Rightarrow> (Inl e, snd (rmTree faults proj d'))))))"

section \<open>Nothing but the project is written\<close>

definition confined :: "string list \<Rightarrow> disk \<Rightarrow> disk \<Rightarrow> bool" where
  "confined proj d d' = (\<forall>q. \<not> prefix proj q \<longrightarrow> dk_fs d' q = dk_fs d q)"

definition inDirs :: "string list \<Rightarrow> disk \<Rightarrow> bool" where
  "inDirs proj d = (\<forall>q. strict_prefix q proj \<longrightarrow> dk_fs d q = Some Dir)"

definition stays :: "string list \<Rightarrow> 'a fsOp \<Rightarrow> bool" where
  "stays proj m = (\<forall>d. inDirs proj d \<longrightarrow> confined proj d (snd (m d)))"

lemma confined_inDirs: "confined proj d d' \<Longrightarrow> inDirs proj d \<Longrightarrow> inDirs proj d'"
  unfolding confined_def inDirs_def by (metis prefix_order.less_le_not_le)

lemma stays_then: "stays proj m \<Longrightarrow> (\<And>x. stays proj (k x)) \<Longrightarrow> stays proj (fsThen m k)"
proof (unfold stays_def, intro allI impI)
  fix d assume a: "\<forall>d. inDirs proj d \<longrightarrow> confined proj d (snd (m d))"
    "\<And>x. \<forall>d. inDirs proj d \<longrightarrow> confined proj d (snd (k x d))" "inDirs proj d"
  obtain r d1 where m: "m d = (r, d1)" by (cases "m d")
  then have c: "confined proj d d1" using a by force
  show "confined proj d (snd (fsThen m k d))"
  proof (cases r)
    case (Inr x)
    have "confined proj d1 (snd (k x d1))" using a(2) [of x] confined_inDirs [OF c a(3)] by blast
    then show ?thesis using c m Inr by (simp add: fsThen_def confined_def)
  qed (use m c in \<open>simp add: fsThen_def\<close>)
qed

lemma stays_mkdirp: "stays proj (mkdirp faults (proj @ x))"
proof (unfold stays_def, intro allI impI)
  fix d assume d: "inDirs proj d"
  have "dk_fs d q \<noteq> None" if "\<not> prefix proj q" "q \<in> set (prefixes (proj @ x))" for q
  proof -
    have "prefix q (proj @ x)" using that(2) by simp
    then have "strict_prefix q proj" using that(1) by (auto simp: prefix_append strict_prefix_def)
    then show ?thesis using d by (simp add: inDirs_def)
  qed
  then show "confined proj d (snd (mkdirp faults (proj @ x) d))"
    unfolding confined_def mkdirp_def fsOp_def by (simp, metis option.distinct(1))
qed

lemma stays_write: "stays proj (writeFile faults (proj @ x) content)"
  by (auto simp: stays_def confined_def writeFile_def fsOp_def)

lemma stays_read: "stays proj (readFile faults p)" "stays proj (readTemplate faults y)" "stays proj (\<lambda>d. (r, d))"
  by (auto simp: stays_def confined_def readFile_def readTemplate_def fsOp_def split: option.splits fsEntry.splits)

lemma stays_copy: "stays proj (copyEntries faults vars proj rel ts written)"
  by (induction faults vars proj rel ts written rule: copyEntries.induct)
     (auto intro!: stays_then stays_mkdirp stays_write stays_read)

lemma stays_writeProject: "stays proj (writeProject faults vars keyEnv key proj ts)"
  unfolding writeProject_def copyTree_def using stays_mkdirp [of proj faults "[]"]
  by (intro stays_then stays_mkdirp stays_write stays_read stays_copy) simp_all

section \<open>What a generated project holds\<close>

fun rendered :: "(string \<times> string) list \<Rightarrow> string list \<Rightarrow> template list \<Rightarrow> (string list \<times> string) list" where
  "rendered vars rel [] = []"
| "rendered vars rel (TFile n content # ts) = (rel @ [destName n], substitute content vars) # rendered vars rel ts"
| "rendered vars rel (TDir n us # ts) = rendered vars (rel @ [destName n]) us @ rendered vars rel ts"

lemma fsThen_ok: "fsThen m k d = (Inr y, d') \<longleftrightarrow> (\<exists>x d1. m d = (Inr x, d1) \<and> k x d1 = (Inr y, d'))"
  by (auto simp: fsThen_def split: prod.splits sum.splits)

text \<open>Directories are only made where nothing was.\<close>

definition onlyDirs :: "disk \<Rightarrow> disk \<Rightarrow> bool" where
  "onlyDirs d d' = (\<forall>q. dk_fs d' q = dk_fs d q \<or> (dk_fs d q = None \<and> dk_fs d' q = Some Dir))"

lemma mkdirp_ok: "mkdirp faults p d = (Inr x, d') \<Longrightarrow> onlyDirs d d'"
  by (auto simp: mkdirp_def fsOp_def onlyDirs_def split: if_splits)

lemma write_ok: "writeFile faults p content d = (Inr x, d') \<Longrightarrow> dk_fs d' = (dk_fs d)(p \<mapsto> File content)"
  by (auto simp: writeFile_def fsOp_def split: if_splits)

lemma read_ok: "readTemplate faults y d = (Inr x, d') \<Longrightarrow> x = y \<and> dk_fs d' = dk_fs d"
  "readFile faults p d = (Inr s, d') \<Longrightarrow> dk_fs d p = Some (File s) \<and> dk_fs d' = dk_fs d"
  by (auto simp: readTemplate_def readFile_def fsOp_def split: if_splits option.splits fsEntry.splits)

definition copied :: "string list \<Rightarrow> (string list \<times> string) list \<Rightarrow> disk \<Rightarrow> disk \<Rightarrow> bool" where
  "copied proj new d d' = (\<forall>p. case map_of new p of
       Some c \<Rightarrow> dk_fs d' (proj @ p) = Some (File c)
     | None \<Rightarrow> dk_fs d' (proj @ p) = dk_fs d (proj @ p) \<or> (dk_fs d (proj @ p) = None \<and> dk_fs d' (proj @ p) = Some Dir))"

lemma copied_Nil: "onlyDirs d d' \<Longrightarrow> copied proj [] d d'"
  by (simp add: copied_def onlyDirs_def)

lemma copied_append:
  assumes "copied proj as d d1" "copied proj bs d1 d'" "distinct (map fst (as @ bs))"
  shows "copied proj (as @ bs) d d'"
  unfolding copied_def
proof
  fix p
  have 1: "case map_of as p of Some c \<Rightarrow> dk_fs d1 (proj @ p) = Some (File c)
      | None \<Rightarrow> dk_fs d1 (proj @ p) = dk_fs d (proj @ p) \<or> (dk_fs d (proj @ p) = None \<and> dk_fs d1 (proj @ p) = Some Dir)"
    and 2: "case map_of bs p of Some c \<Rightarrow> dk_fs d' (proj @ p) = Some (File c)
      | None \<Rightarrow> dk_fs d' (proj @ p) = dk_fs d1 (proj @ p) \<or> (dk_fs d1 (proj @ p) = None \<and> dk_fs d' (proj @ p) = Some Dir)"
    using assms(1,2) unfolding copied_def by blast+
  have 3: "map_of as p \<noteq> None \<Longrightarrow> map_of bs p = None"
    using assms(3) by (auto simp: map_of_eq_None_iff dest: map_of_SomeD)
  show "case map_of (as @ bs) p of Some c \<Rightarrow> dk_fs d' (proj @ p) = Some (File c)
      | None \<Rightarrow> dk_fs d' (proj @ p) = dk_fs d (proj @ p) \<or> (dk_fs d (proj @ p) = None \<and> dk_fs d' (proj @ p) = Some Dir)"
    using 1 2 3 by (auto simp: map_add_def split: option.splits)
qed

lemma copied_write: "writeFile faults (proj @ p) content d = (Inr x, d') \<Longrightarrow> copied proj [(p, content)] d d'"
  by (simp add: copied_def write_ok)

lemma copied_same: "dk_fs e = dk_fs d \<Longrightarrow> copied proj new e d' \<Longrightarrow> copied proj new d d'"
  unfolding copied_def by metis

lemma copyEntries_ok:
  assumes "copyEntries faults vars proj rel ts written d = (Inr files, d')" "distinct (map fst (rendered vars rel ts))"
  shows "files = written @ map fst (rendered vars rel ts) \<and> copied proj (rendered vars rel ts) d d'"
  using assms
proof (induction faults vars proj rel ts written arbitrary: d files d' rule: copyEntries.induct)
  case (1 faults vars proj rel written)
  then show ?case by (simp add: copied_Nil onlyDirs_def)
next
  case (2 faults vars proj rel n content ts written)
  let ?p = "rel @ [destName n]" and ?c = "substitute content vars"
  obtain d1 d2 where d: "dk_fs d1 = dk_fs d" "writeFile faults (proj @ ?p) ?c d1 = (Inr (), d2)"
      "copyEntries faults vars proj rel ts (written @ [?p]) d2 = (Inr files, d')"
    using 2(2) by (auto simp: fsThen_ok dest!: read_ok(1))
  have IH: "files = written @ [?p] @ map fst (rendered vars rel ts)" "copied proj (rendered vars rel ts) d2 d'"
    using 2(1) [OF d(3)] 2(3) by simp_all
  have "copied proj ([(?p, ?c)] @ rendered vars rel ts) d d'"
    using copied_append [OF copied_same [OF d(1) copied_write [OF d(2)]] IH(2)] 2(3) by simp
  then show ?case using IH(1) by simp
next
  case (3 faults vars proj rel n us ts written)
  let ?rel = "rel @ [destName n]"
  obtain d1 d2 d3 w where d: "mkdirp faults (proj @ ?rel) d = (Inr (), d1)" "dk_fs d2 = dk_fs d1"
      "copyEntries faults vars proj ?rel us written d2 = (Inr w, d3)"
      "copyEntries faults vars proj rel ts w d3 = (Inr files, d')"
    using 3(3) by (auto simp: fsThen_ok dest!: read_ok(1))
  have u: "w = written @ map fst (rendered vars ?rel us)" "copied proj (rendered vars ?rel us) d2 d3"
    using 3(1) [OF d(3)] 3(4) by simp_all
  have t: "files = w @ map fst (rendered vars rel ts)" "copied proj (rendered vars rel ts) d3 d'"
    using 3(2) [OF d(4)] 3(4) by simp_all
  have "copied proj ([] @ rendered vars ?rel us) d d3"
    using copied_append [OF copied_Nil [OF mkdirp_ok [OF d(1)]] copied_same [OF d(2) u(2)]] 3(4) by simp
  then show ?case using copied_append [of proj "rendered vars ?rel us" d d3 "rendered vars rel ts" d'] t u 3(4) by simp
qed

text \<open>The templates: names are distinct in every directory, there is an environment example and no \<open>.env\<close>.\<close>

definition goodTemplates :: "(string \<times> string) list \<Rightarrow> template list \<Rightarrow> bool" where
  "goodTemplates vars ts = (distinct (map fst (rendered vars [] ts)) \<and> [''.env''] \<notin> set (map fst (rendered vars [] ts)))"

lemma writeProject_ok:
  assumes "writeProject faults vars keyEnv key proj ts d = (Inr files, d')" "goodTemplates vars ts"
    and "dk_fs d (proj @ [''.env.example'']) = None"
  shows "\<exists>example. map_of (rendered vars [] ts) [''.env.example''] = Some example \<and>
    files = map fst (rendered vars [] ts) @ [[''.env'']] \<and>
    copied proj (rendered vars [] ts @ [([''.env''], envFile keyEnv key example)]) d d'"
proof -
  let ?new = "rendered vars [] ts"
  obtain d1 d2 d3 d4 d5 example fl where d: "mkdirp faults (proj @ []) d = (Inr (), d1)" "dk_fs d2 = dk_fs d1"
      "copyEntries faults vars proj [] ts [] d2 = (Inr fl, d3)" "dk_fs d3 (proj @ [''.env.example'']) = Some (File example)"
      "dk_fs d4 = dk_fs d3" "writeFile faults (proj @ [''.env'']) (envFile keyEnv key example) d4 = (Inr (), d5)"
      "mkdirp faults (proj @ [''.swiftagent-local'']) d5 = (Inr (), d')" "files = fl @ [[''.env'']]"
    using assms(1) by (auto simp: writeProject_def copyTree_def fsThen_ok dest!: read_ok)
  have dist: "distinct (map fst ?new)" "[''.env''] \<notin> set (map fst ?new)"
    using assms(2) by (simp_all add: goodTemplates_def)
  have c: "fl = map fst ?new" "copied proj ?new d2 d3" using copyEntries_ok [OF d(3) dist(1)] by simp_all
  have "copied proj ([] @ ?new) d d3"
    using copied_append [OF copied_Nil [OF mkdirp_ok [OF d(1)]] copied_same [OF d(2) c(2)]] dist(1) by simp
  then have "copied proj (?new @ [([''.env''], envFile keyEnv key example)]) d d5"
    using copied_append [of proj ?new d d3, OF _ copied_same [OF d(5) copied_write [OF d(6)]]] dist by simp
  then have all: "copied proj (?new @ [([''.env''], envFile keyEnv key example)]) d d'"
    using copied_append [OF _ copied_Nil [OF mkdirp_ok [OF d(7)]]] dist by simp
  have "map_of ?new [''.env.example''] = Some example"
    using \<open>copied proj ([] @ ?new) d d3\<close> d(4) assms(3)
    by (auto simp: copied_def split: option.splits dest!: spec [of _ "[''.env.example'']"])
  then show ?thesis using all c(1) d(8) by auto
qed

lemma generate_cases:
  assumes "generateProject dash faults opts d = (r, d')"
  defines "proj \<equiv> go_targetDir opts @ [go_name opts]"
  obtains e where "r = Inl e" "d' = d"
  | e mdl keyEnv ts d1 where "r = Inl e" "dk_fs d proj = None" "d' = snd (rmTree faults proj d1)"
      "writeProject faults (projectVars (go_name opts) mdl keyEnv) keyEnv (go_providerKey opts) proj ts d = (Inl e, d1)"
  | mdl keyEnv ts files where "r = Inr (sort (map (joinWith ''/'') files))" "dk_fs d proj = None" "go_templates opts = Some ts"
      "validateProjectName (go_name opts) = None" "map_of PROVIDERS (go_provider opts) = Some (mdl, keyEnv)"
      "writeProject faults (projectVars (go_name opts) mdl keyEnv) keyEnv (go_providerKey opts) proj ts d = (Inr files, d')"
  using assms by (auto simp: generateProject_def Let_def split: option.splits prod.splits sum.splits if_splits)

text \<open>The directory above the project exists, and below a path that is not there is nothing.\<close>

definition cleanTarget :: "string list \<Rightarrow> disk \<Rightarrow> bool" where
  "cleanTarget proj d = (inDirs proj d \<and> (dk_fs d proj = None \<longrightarrow> (\<forall>q. prefix proj q \<longrightarrow> dk_fs d q = None)))"

text \<open>Property C40: a generation that fails leaves the file system as it was, unless the clean-up is refused as well; one
  that succeeds has written, below the new project only, every template file with the name, model and key variable put
  in, and \<open>.env\<close>, the only file that the provider key goes into.\<close>

theorem project_all_or_nothing:
  assumes "generateProject dash faults opts d = (r, d')"
    and "cleanTarget (go_targetDir opts @ [go_name opts]) d"
    and "\<And>ts vars. go_templates opts = Some ts \<Longrightarrow> goodTemplates vars ts"
  shows "case r of
      Inl e \<Rightarrow> \<not> faults (dk_ops d' - 1) \<longrightarrow> dk_fs d' = dk_fs d
    | Inr files \<Rightarrow> \<exists>ts mdl keyEnv example. go_templates opts = Some ts \<and> validateProjectName (go_name opts) = None \<and>
        map_of PROVIDERS (go_provider opts) = Some (mdl, keyEnv) \<and>
        confined (go_targetDir opts @ [go_name opts]) d d' \<and>
        map_of (rendered (projectVars (go_name opts) mdl keyEnv) [] ts) [''.env.example''] = Some example \<and>
        copied (go_targetDir opts @ [go_name opts]) (rendered (projectVars (go_name opts) mdl keyEnv) [] ts @
          [([''.env''], envFile keyEnv (go_providerKey opts) example)]) d d'"
  using assms(1)
proof (cases rule: generate_cases)
  case (1 e)
  then show ?thesis by simp
next
  case (2 e mdl keyEnv ts d1)
  let ?proj = "go_targetDir opts @ [go_name opts]"
  have c: "confined ?proj d d1"
    using stays_writeProject [of ?proj faults "projectVars (go_name opts) mdl keyEnv" keyEnv "go_providerKey opts" ts] 2(4) assms(2)
    by (auto simp: stays_def cleanTarget_def)
  have "dk_fs d' = dk_fs d" if "\<not> faults (dk_ops d' - 1)"
  proof
    fix q
    show "dk_fs d' q = dk_fs d q"
      using that c 2(2,3) assms(2) by (auto simp: rmTree_def fsOp_def confined_def cleanTarget_def split: if_splits)
  qed
  then show ?thesis using 2(1) by simp
next
  case (3 mdl keyEnv ts files)
  let ?proj = "go_targetDir opts @ [go_name opts]"
  have "dk_fs d (?proj @ [''.env.example'']) = None" using assms(2) 3(2) by (simp add: cleanTarget_def)
  note ok = writeProject_ok [OF 3(6) assms(3) [OF 3(3)] this]
  have "confined ?proj d d'"
    using stays_writeProject [of ?proj faults "projectVars (go_name opts) mdl keyEnv" keyEnv "go_providerKey opts" ts] 3(6) assms(2)
    by (auto simp: stays_def cleanTarget_def)
  then show ?thesis using ok 3 by auto
qed

text \<open>A valid name is one path component that is neither hidden nor a step up.\<close>

lemma valid_name_component:
  "validateProjectName n = None \<Longrightarrow> n \<noteq> [] \<and> CHR ''/'' \<notin> set n \<and> hd n \<noteq> CHR ''.''"
  by (auto simp: validateProjectName_def list_all_iff isNameChar_def isLowerAlnum_def isDigit_def split: if_splits)

text \<open>The key is put in as a replacement pattern: a dollar sign in it changes what is written.\<close>

lemma dollar_key_corrupted: "envFile ''K'' (Some ''a$$b'') ''K='' = ''K=a$b''" "envFile ''K'' (Some ''a$&b'') ''K='' = ''K=aK=b''"
  by (simp_all add: envFile_def replaceFirst_def startsWith_def)

section \<open>Options\<close>

text \<open>Without a prompter nothing waits, and what is resolved is a valid name and a known provider.\<close>

lemma resolve_noninteractive: "resolveOptions dash o1 None \<noteq> Waiting"
  by (auto simp: resolveOptions_def resolveNamed_def resolveChecked_def split: option.splits)

lemma askName_valid: "askName as = Some (n, r) \<Longrightarrow> validateProjectName n = None"
  by (induction as) (auto split: option.splits)

lemma askProvider_known: "askProvider as = Some (p, r) \<Longrightarrow> isProviderId p"
  by (induction as) (auto simp: isProviderId_def PROVIDER_IDS_def PROVIDERS_def DEFAULT_PROVIDER_def split: if_splits)

lemma resolve_valid:
  assumes "resolveOptions dash o1 prompter = Resolved ro"
  shows "validateProjectName (ro_name ro) = None \<and> isProviderId (ro_provider ro)"
proof -
  have "isProviderId DEFAULT_PROVIDER" by (simp add: isProviderId_def PROVIDER_IDS_def PROVIDERS_def DEFAULT_PROVIDER_def)
  then show ?thesis using assms
    by (auto simp: resolveOptions_def resolveNamed_def resolveChecked_def askRest_def
        split: option.splits if_splits prod.splits list.splits dest: askName_valid askProvider_known)
qed

section \<open>Witness\<close>

definition exTemplates :: "template list" where
  "exTemplates = [TFile ''env.example'' ''__PROVIDER_KEY_ENV__='', TDir ''src'' [TFile ''a.ts'' ''__PROJECT_NAME__'']]"

definition exScaffold :: GenerateOptions where
  "exScaffold = \<lparr>go_name = ''demo'', go_provider = ''openai'', go_providerKey = Some ''sk-1'', go_targetDir = [],
     go_templatesDir = ''/templates'', go_templates = Some exTemplates\<rparr>"

definition exDisk :: disk where
  "exDisk = \<lparr>dk_fs = [[] \<mapsto> Dir], dk_ops = 0\<rparr>"

lemma exTemplates_good: "goodTemplates vars exTemplates"
  by (simp add: goodTemplates_def exTemplates_def destName_def RENAMES_def)

lemma exDisk_clean: "cleanTarget [''demo''] exDisk"
  by (auto simp: cleanTarget_def inDirs_def exDisk_def strict_prefix_def prefix_Cons)

text \<open>The fourth operation is refused: the project directory is gone again.\<close>

theorem project_all_or_nothing_witness:
  "dk_fs (snd (generateProject [] (\<lambda>k. k = 3) exScaffold exDisk)) = dk_fs exDisk"
proof -
  obtain r d' where g: "generateProject [] (\<lambda>k. k = 3) exScaffold exDisk = (r, d')" by (cases "generateProject [] (\<lambda>k. k = 3) exScaffold exDisk")
  have "fst (generateProject [] (\<lambda>k. k = 3) exScaffold exDisk) = Inl OsError \<and> dk_ops (snd (generateProject [] (\<lambda>k. k = 3) exScaffold exDisk)) = 5"
    by (simp add: generateProject_def writeProject_def copyTree_def exTemplates_def exScaffold_def exDisk_def fsThen_def mkdirp_def
        fsOp_def readTemplate_def writeFile_def rmTree_def validateProjectName_def PROVIDERS_def isLowerAlnum_def isNameChar_def isFile_def
        Let_def)
  then have "r = Inl OsError" "dk_ops d' = 5" using g by simp_all
  moreover have "cleanTarget (go_targetDir exScaffold @ [go_name exScaffold]) exDisk"
    using exDisk_clean by (simp add: exScaffold_def)
  moreover have "goodTemplates vars ts" if "go_templates exScaffold = Some ts" for vars ts
    using that exTemplates_good by (simp add: exScaffold_def)
  ultimately show ?thesis using project_all_or_nothing [OF g] g by simp
qed

end
