(* ===== verification/Spec2Isabelle.thy ===== *)
theory Spec2Isabelle
  imports Loop_Cause Loop_Example Tool_Runner Run_Service Mediator_Cap Gateway_Example React_Client Chat_Run Heartbeat Management_Props Drift_Props Sdk_Router Sdk_App
  Provider_Requests Server_Config Playground_Tools Playground_Ui Scaffold
begin

text \<open>\<^bold>\<open>A model of Swift Agent.\<close>  Swift Agent runs chat agents: a customer registers agents and their tools over a
REST API, a browser holds a WebSocket to a session, and the runtime answers each user message with a run of the agent
loop, which asks a model provider, executes tool calls locally or on the customer's tool runner, writes everything to
Postgres and streams events back.  The development follows the packages of the repository; each theory names the
files it translates, and the definitions keep the names of the code.

\<^bold>\<open>Theories and sources.\<close>

\<^item> \<open>Prelude\<close>, \<open>Json\<close>, \<open>Utf8\<close>, \<open>Effects\<close>, \<open>Machine\<close>: the JavaScript notions the code uses (strings as lists of code units
  below 256, \<open>Map\<close> as an association list in insertion order, \<open>JSON.parse\<close> and \<open>JSON.stringify\<close>, UTF-8), async functions as
  state transformers with thrown errors and abandoned generators as outcomes, and components whose methods run to
  completion as machines over lists of calls.
\<^item> \<open>Shared_Types\<close> (\<open>packages/shared\<close>): error codes, identifiers, records, \<open>ChatEvent\<close>, protocol versions, the runner wire
  schemas.  \<open>Wire\<close>: the JSON of REST replies and bodies and the zod schemas that read them.
\<^item> \<open>Database\<close> (\<open>packages/db\<close>): tables as lists of rows with their keys, unique indexes and foreign keys; one definition per
  repository query, with status guards as in the SQL.  \<open>Drift_Check\<close>, \<open>Drift_Props\<close>: the structural comparison of the
  migration snapshots with the introspected database.
\<^item> \<open>Deadlines\<close>, \<open>Tools\<close>, \<open>Ssrf\<close>, \<open>Remote_Executor\<close>, \<open>Context_Builder\<close>, \<open>Models\<close> (\<open>packages/runtime\<close>, \<open>packages/models\<close>):
  abort signals in a timed model, tool validation and the local executor, the outbound address policy on 32-bit words,
  the HTTP executor with its scoped tokens, the context window, the provider registry and the stream decoders of the
  providers.
\<^item> \<open>Agent_Loop\<close> (\<open>runtime/src/loop.ts\<close>) with \<open>Loop_Props\<close>, \<open>Loop_Events\<close>, \<open>Loop_Tools\<close>, \<open>Loop_Ends\<close>, \<open>Loop_Status\<close>,
  \<open>Loop_Cause\<close>: the generator \<open>runAgentLoop\<close> and its properties; \<open>Run_Service\<close>: session lock, active runs, cancellation
  and the run execution service.
\<^item> \<open>Observability\<close>: spans, their bounds and the metrics of a run.
\<^item> \<open>Api\<close>, \<open>Api_Routes\<close>, \<open>Api_Props\<close>, \<open>Management\<close>, \<open>Management_Props\<close> (\<open>packages/api\<close>): authentication, services and
  routes of the REST and management APIs.
\<^item> \<open>Idempotency\<close>, \<open>Tool_Runner\<close>, \<open>Sdk_Client\<close>, \<open>Sdk_Router\<close>, \<open>Sdk_App\<close> (\<open>packages/sdk\<close>): the customer's tool runner, the
  control plane client over HTTP, and the agent app.
\<^item> \<open>Gateway\<close>, \<open>Gateway_Events\<close>, \<open>Gateway_Props\<close>, \<open>Gateway_Delivery\<close>, \<open>Gateway_Replay\<close>, \<open>Gateway_Channels\<close>, \<open>Heartbeat\<close>
  (\<open>packages/gateway\<close>): connections, Redis channels, the session bridge with its replay buffers, the stream route.
\<^item> \<open>Chat_State\<close>, \<open>React_Client\<close>, \<open>Chat_Run\<close> (\<open>packages/react\<close>): the reducer, the reconnecting client, and what a user
  sees of a run.
\<^item> \<open>Mediator_Config\<close>, \<open>Rate_Limit\<close>, \<open>Spend_Ledger\<close>, \<open>Mediator\<close>, \<open>Mediator_Props\<close>, \<open>Mediator_Cap\<close>
  (\<open>apps/playground/backend\<close>, \<open>playground-spend-repo.ts\<close>): the guardrails between public guests and the runtime.
\<^item> \<open>Calculator\<close>, \<open>Playground_Tools\<close> (\<open>apps/playground/backend/src/tools\<close>, \<open>agent.ts\<close>): the arithmetic evaluator against its
  grammar, the weather tool, the time budget around each tool, and the agent made of them.
\<^item> \<open>Playground_Ui\<close> (\<open>apps/playground/frontend\<close>, \<open>mediator/protocol.ts\<close>): the page's session controller, the tool-call views
  and the text of its panels, composed with the mediator.
\<^item> \<open>Provider_Requests\<close> (\<open>packages/models/src/providers\<close>): the providers from the request body to the chunks.
\<^item> \<open>Scaffold\<close> (\<open>packages/create-swift-agent\<close>): flags, prompts, and the generation of a project over a file system whose
  operations may fail.
\<^item> \<open>Server_Config\<close> (\<open>packages/shared/src/config.ts\<close>, \<open>apps/server/src/config.ts\<close>, \<open>health.ts\<close>): the environment schema, the
  checks at the start of the server, its banner and its health endpoint.

\<^bold>\<open>How parts interact.\<close>  A handler or generator is a program over the state of its component; every awaited call takes a
step of a clock and may be refused, so a theorem about \<open>runAgentLoop\<close> or \<open>handleApi\<close> holds for every placement of database
faults, aborts and times.  Components that serve many callers (\<open>Run_Service\<close>, the mediator, the gateway, the ledger, the
clients) are machines: their theorems speak of every list of calls, that is of every interleaving of the handlers'
atomic sections.  Compositions are stated on the models themselves: the loop with the reducer (\<open>Chat_Run\<close>), the gateway
with the React client (\<open>React_Client\<close>), the mediator with the playground's page (\<open>Playground_Ui\<close>), the SDK client with the REST API over HTTP text (\<open>Sdk_Client\<close>), the runtime's token
minter with the runner that \<open>listen\<close> starts (\<open>Sdk_App\<close>).

\<^bold>\<open>Contracts.\<close>  \<open>state_relation\<close> and its extensions (\<open>call_quiet\<close>, \<open>loop_quiet\<close>, \<open>loop_whole\<close>, \<open>loop_db_relation\<close>,
\<open>state_triples\<close>) carry a relation between states through a program once and are interpreted for each invariant of the loop and
of the API; \<open>machine\<close> and \<open>monotone_machine\<close> do the same for lists of calls; \<open>guarded_transitions\<close> is the contract of
status updates that fire at most once; \<open>json_codec\<close> and \<open>record_codec\<close> are the contracts of printers and their readers.

\<^bold>\<open>What the theorems show.\<close>  Every run ends in one terminal event that agrees with its row, closes its tool calls,
executes validated calls only, stays within its bound of model rounds, and writes its own rows only.  At most one run
of a session is in progress and its lock is freed.  REST replies have the type of their route, never show or change
another workspace's rows, and pages lose no message; keys live exactly from creation to revocation.  The SDK over HTTP is
the direct call of the API.  Mediator messages are paid for in a ledger whose days stay below the ceiling; credentials do
not reach browsers, and the page shows every frame of theirs in its place.  The calculator is its grammar.  A client that connects in the middle of a run receives every event once.  Where the code does not
do what it means to do, a theorem shows that: \<open>legacy_run_fails\<close>, \<open>failed_start_leaves_row\<close>,
\<open>conflict_wipes_buffer\<close>, \<open>message_cap_race\<close>, \<open>rejected_client_retries_forever\<close>, \<open>orphan_workspace\<close>, \<open>composite_fk_drifts\<close>,
\<open>rejected_tools_stay\<close>, \<open>replay_prints_twice\<close>, \<open>late_frames_logged\<close>, \<open>ipv6_localhost_accepted\<close>,
\<open>dollar_key_corrupted\<close>.

\<^bold>\<open>Bounds and fuel.\<close>  Loops are structural, have a measure, or count rounds as the code does (\<open>maxToolIterations\<close>,
\<open>maxRetries\<close>).  The JSON reader takes the length of the text as fuel, which \<open>parse_stringify\<close> shows to be enough;
the calculator's parser recurses on the tokens an inner
parse leaves, and \<open>parse_consumes\<close> is its termination; \<open>readPages\<close> takes the number of messages, which the theorem on pages shows to be enough.

\<^bold>\<open>Abstractions.\<close>  Third-party code is a parameter: jose, SHA-256, \<open>nanoid\<close>, the provider SDKs, Fastify's router, zod's issue
texts, the Postgres wording of errors, Redis, DNS and \<open>fetch\<close>.  Numbers on the wire are integers.  JavaScript objects keep
their keys in insertion order, and names inherited from \<open>Object.prototype\<close> matter only where the code uses \<open>in\<close>.  A REST body
enters a handler as the value its schema yields.  Characters outside Latin-1, such as the dash of some messages, are
parameters.

\<^bold>\<open>Not modelled.\<close>  Process wiring and I/O without decisions of its own (\<open>apps/server/src/main.ts\<close>, \<open>container.ts\<close> except
for the policies it passes on, Redis connection handling, migrations and provisioning scripts, \<open>seed.ts\<close>), the markup of
user interface components (\<open>.tsx\<close>), the hooks that only mirror the client's state, infrastructure and release scripts, templates,
examples, tests and generated files.\<close>

section \<open>The agent run\<close>

text \<open>Property C1: a run that its consumer reads to the end returns normally, whatever the providers,
  tools, queries and abort signals do, and the last event it yields is its only terminal one
  (\<open>message_completed\<close> or \<open>run_failed\<close>); a run the consumer abandons has yielded at most that.\<close>

theorem run_one_terminal:
  "case runAgentLoop env (initState clk ids d reg) of
     (Val _, s) \<Rightarrow> termLast (ls_events s)
   | (Throw _, _) \<Rightarrow> False
   | (Torn, s) \<Rightarrow> noTerm (ls_events s) \<or> termLast (ls_events s)"
proof (cases "runAgentLoop env (initState clk ids d reg)")
  case (Pair r s)
  have "loopEnd r s" by (rule loop_one_terminal [OF Pair]) (simp add: initState_def)
  then show ?thesis unfolding Pair by (cases r) (simp_all add: loopEnd_simps)
qed

text \<open>Property C4: the tool events of a run are paired: a tool call is started only when none is open, and
  what follows is its completion with a final status or the failure of the run; a run that completes
  leaves no call open.\<close>

theorem run_events_paired:
  "case runAgentLoop env (initState clk ids d reg) of (r, s) \<Rightarrow>
     (case bracket None (ls_events s) of None \<Rightarrow> False | Some None \<Rightarrow> True
      | Some (Some openCall) \<Rightarrow> \<not> (r = Val () \<and> (\<exists>es m a b. ls_events s = es @ [MessageCompleted m a b])))"
proof (cases "runAgentLoop env (initState clk ids d reg)")
  case (Pair r s)
  have "pairedRun r s" by (rule loop_paired [OF Pair]) (simp add: initState_def)
  then show ?thesis unfolding Pair by (auto simp: pairedRun_def pairedE_def closedE_def split: option.splits)
qed

text \<open>Property C2: when no query fails, a prepared run leaves its row in the status its last event
  announces: \<open>completed\<close> after \<open>message_completed\<close>, \<open>timed_out\<close>, \<open>cancelled\<close> or \<open>failed\<close> after a \<open>run_failed\<close>
  with the matching code.\<close>

theorem run_row_agrees:
  assumes "noFaults env" "le_prepared env \<noteq> None" "runStatus d (le_runId env) Running"
    and "runAgentLoop env (initState clk ids d reg) = (Val (), s)"
  shows "\<exists>es e. ls_events s = es @ [e] \<and> runStatus (ls_db s) (le_runId env) (statusOf e)"
  using loop_agrees [OF assms(4,1,2)] assms(3) by (simp add: agrees_def initState_def)

theorem run_row_agrees_witness:
  "\<exists>es e. ls_events (snd (runAgentLoop (exEnv exCalls [(9, AbortErr)]) (initState 1 0 exDb exRegistry))) = es @ [e] \<and>
     runStatus (ls_db (snd (runAgentLoop (exEnv exCalls [(9, AbortErr)]) (initState 1 0 exDb exRegistry)))) ''ru'' (statusOf e)"
proof -
  obtain q s where r: "runAgentLoop (exEnv exCalls [(9, AbortErr)]) (initState 1 0 exDb exRegistry) = (q, s)" by fastforce
  have "fst (runAgentLoop (exEnv exCalls [(9, AbortErr)]) (initState 1 0 exDb exRegistry)) = Val ()" by code_simp
  then have "runAgentLoop (exEnv exCalls [(9, AbortErr)]) (initState 1 0 exDb exRegistry) = (Val (), s)" unfolding r fst_conv by blast
  moreover have "noFaults (exEnv exCalls [(9, AbortErr)])" "le_prepared (exEnv exCalls [(9, AbortErr)]) \<noteq> None" by (simp_all add: noFaults_def exEnv_def)
  moreover have i: "le_runId (exEnv exCalls [(9, AbortErr)]) = ''ru''" by (simp add: exEnv_def)
  moreover have "runStatus exDb (le_runId (exEnv exCalls [(9, AbortErr)])) Running" unfolding i by (simp add: runStatus_def exDb_def)
  ultimately show ?thesis using run_row_agrees [of "exEnv exCalls [(9, AbortErr)]" exDb 1 0 exRegistry s] unfolding r snd_conv by simp
qed

text \<open>Property C3: when no query fails, a run leaves none of its tool calls in the status \<open>started\<close>, however
  it ends.\<close>

theorem run_closes_tool_calls:
  assumes "noFaults env" "le_runId env \<notin> tc_runId ` set (db_toolCalls d)"
  shows "filter (\<lambda>c. tc_runId c = le_runId env \<and> tc_status c = TcStarted)
     (db_toolCalls (ls_db (snd (runAgentLoop env (initState clk ids d reg))))) = []"
proof (cases "runAgentLoop env (initState clk ids d reg)")
  case (Pair r s)
  have "tracked env (initState clk ids d reg)" using assms(2) by (force simp: tracked_def startedIds_def initState_def)
  from loop_none_started [OF Pair assms(1) this] show ?thesis unfolding Pair by (auto simp: startedIds_def filter_empty_conv)
qed

theorem run_closes_tool_calls_witness:
  "filter (\<lambda>c. tc_runId c = ''ru'' \<and> tc_status c = TcStarted)
     (db_toolCalls (ls_db (snd (runAgentLoop (exEnv exCalls [(9, AbortErr)]) (initState 1 0 exDb exRegistry))))) = []"
proof -
  have "noFaults (exEnv exCalls [(9, AbortErr)])" "le_runId (exEnv exCalls [(9, AbortErr)]) = ''ru''" "db_toolCalls exDb = []"
    by (simp_all add: noFaults_def exEnv_def exDb_def)
  then show ?thesis using run_closes_tool_calls [of "exEnv exCalls [(9, AbortErr)]" exDb 1 0 exRegistry] by simp
qed

text \<open>Property C5: a tool executor only ever sees calls whose name is one of the agent's tools and whose
  arguments the tool's compiled schema accepts, whatever the model asks for.\<close>

theorem run_executes_valid_calls:
  "list_all (\<lambda>c. validateToolCall (buildToolIndex (le_ajv env) (ag_tools (le_agent env))) (tl_toolName c) (tl_arguments c) = ValidOk)
     (ls_execs (snd (runAgentLoop env (initState clk ids d reg))))"
proof (cases "runAgentLoop env (initState clk ids d reg)")
  case (Pair r s)
  have "execsOk env s" by (rule loop_execsOk [OF Pair]) (simp add: execsOk_def initState_def)
  then show ?thesis unfolding Pair by (simp add: execsOk_def validCall_def toolIndex_def list_all_iff)
qed



text \<open>Property C8: a run whose signal has already aborted when it starts asks no provider and runs no tool.\<close>

theorem run_aborted_inert:
  assumes "aborted (le_signal env) clk"
  shows "ls_requests (snd (runAgentLoop env (initState clk ids d reg))) = [] \<and>
    ls_execs (snd (runAgentLoop env (initState clk ids d reg))) = []"
proof (cases "runAgentLoop env (initState clk ids d reg)")
  case (Pair r s)
  have "aborted (le_signal env) (ls_clk (initState clk ids d reg))" using assms by (simp add: initState_def)
  from loop_untouched [OF this Pair] show ?thesis unfolding Pair by (simp add: initState_def)
qed

theorem run_aborted_inert_witness:
  "ls_requests (snd (runAgentLoop (exEnv exCalls [(0, AbortErr)]) (initState 1 0 exDb exRegistry))) = []"
  using run_aborted_inert [of "exEnv exCalls [(0, AbortErr)]" 1 0 exDb exRegistry] by (simp add: exEnv_def aborted_def)




end
